(* ===== verification/Prelude.thy ===== *)
theory Prelude
  imports
    Main
    "HOL-Library.Word"
    "HOL-Library.Char_ord"
    "HOL-Library.List_Lexorder"
    "HOL-Library.Finite_Map"
begin

section \<open>Shared vocabulary of the Portless and GoTunnel models\<close>

text \<open>
  This theory holds what every component theory uses: the fact collections of the development,
  the Go run-time notions the sources rely on (time values, run-time panics, big-endian
  byte order, the string functions of package \<open>strings\<close>), generic lemmas on lists and
  maps, and the two contracts that are not tied to one component: a system of operations with
  an invariant (\<open>op_system\<close>) and a log of bounded length (\<open>bounded_log\<close>).

  Conventions. A Go \<open>string\<close> or \<open>[]byte\<close> is a list of bytes: \<open>string\<close> (HOL characters
  are bytes) or \<open>byte list\<close>. A Go map whose size or whole contents matter is an \<open>fmap\<close>, one
  that is only looked up is a partial function. Where the source ranges over a map and the
  order can matter, the order is an argument of the model, because Go leaves it unspecified.
  A \<open>time.Time\<close> is the number of nanoseconds from the start of 1970, and \<open>zero_time\<close> Go's zero value;
  a \<open>time.Duration\<close> is a number of nanoseconds. A clock reading (\<open>time.Now()\<close>) is an argument.
\<close>

named_theorems go_defs \<open>definitions of small model operations, unfolded by most proofs\<close>
named_theorems inv_defs \<open>definitions of the component invariants\<close>
named_theorems inv_intros \<open>preservation of an invariant by one operation\<close>

type_synonym byte = "8 word"
type_synonym time = int
type_synonym duration = int

abbreviation second_ns :: duration where
  "second_ns \<equiv> 1000000000"

text \<open>Run-time panics of Go that a source line can raise.\<close>

datatype go_panic =
    Integer_Divide_By_Zero
  | Index_Out_Of_Range
  | Makeslice_Len_Out_Of_Range
  | Nil_Dereference
  | Comparing_Uncomparable
  | Close_Of_Closed_Channel
  | Send_On_Closed_Channel

text \<open>The zero value of \<open>time.Time\<close>: the first of January of year 1.\<close>

definition zero_time :: time where
  "zero_time = - 62135596800 * second_ns"

text \<open>\<open>time.Time.Sub\<close> saturates at the bounds of a 64-bit duration.\<close>

definition time_sub :: "time \<Rightarrow> time \<Rightarrow> duration" where
  "time_sub t u = max (- (2 ^ 63)) (min (2 ^ 63 - 1) (t - u))"

lemma time_sub_self [simp]: "time_sub t t = 0"
  by (simp add: time_sub_def)

lemma time_sub_mono: "t \<le> t' \<Longrightarrow> time_sub t u \<le> time_sub t' u"
  by (auto simp: time_sub_def)

lemma time_sub_nonneg: "u \<le> t \<Longrightarrow> 0 \<le> time_sub t u"
  by (auto simp: time_sub_def)

lemma time_sub_small:
  "- (2 ^ 63) \<le> t - u \<Longrightarrow> t - u \<le> 2 ^ 63 - 1 \<Longrightarrow> time_sub t u = t - u"
  by (auto simp: time_sub_def)

subsection \<open>Lists\<close>

text \<open>\<open>last_n n xs\<close>: what a buffer of capacity \<open>n\<close> that drops its oldest elements keeps.\<close>

definition last_n :: "nat \<Rightarrow> 'a list \<Rightarrow> 'a list" where
  "last_n n xs = drop (length xs - n) xs"

lemma last_n_all [simp]: "length xs \<le> n \<Longrightarrow> last_n n xs = xs"
  by (simp add: last_n_def)

lemma length_last_n [simp]: "length (last_n n xs) = min n (length xs)"
  by (simp add: last_n_def)

lemma last_n_Nil [simp]: "last_n n [] = []"
  by (simp add: last_n_def)

lemma last_n_append_last_n: "last_n n (last_n n xs @ ys) = last_n n (xs @ ys)"
proof (cases "length xs \<le> n")
  case False
  then obtain k where "length xs = n + k" by (metis le_add_diff_inverse nat_le_linear)
  then show ?thesis by (simp add: last_n_def add.commute)
qed simp

lemma last_n_snoc_full: "length xs = n \<Longrightarrow> 0 < n \<Longrightarrow> last_n n (xs @ [x]) = tl xs @ [x]"
  by (cases xs) (auto simp: last_n_def)

lemma set_last_n: "set (last_n n xs) \<subseteq> set xs"
  by (simp add: last_n_def set_drop_subset)

lemma foldl_induct_inv:
  assumes "P s" and "\<And>s x. x \<in> set xs \<Longrightarrow> P s \<Longrightarrow> P (f s x)"
  shows "P (foldl f s xs)"
  using assms by (induction xs arbitrary: s) auto

subsection \<open>Words\<close>

lemma unat_plus_one: "(a :: 'a :: len word) + 1 \<noteq> 0 \<Longrightarrow> unat (a + 1) = Suc (unat a)"
  by (metis add.commute unatSuc)

lemma word_le_plus_one:
  "(a :: 'a :: len word) + 1 \<noteq> 0 \<Longrightarrow> k \<le> a + 1 \<longleftrightarrow> k = a + 1 \<or> k \<le> a"
  by (auto simp: word_le_nat_alt unat_plus_one word_unat_eq_iff)

lemma one_le_word_iff: "(1 :: 'a :: len word) \<le> k \<longleftrightarrow> k \<noteq> 0"
  by (metis linorder_not_less word_less_1)

subsection \<open>Big-endian byte order (package \<open>encoding/binary\<close>)\<close>

text \<open>
  \<open>be_bytes n v\<close> is what \<open>binary.BigEndian.PutUint32\<close> and \<open>PutUint64\<close> store for the value
  \<open>v\<close> in \<open>n\<close> bytes, \<open>be_nat\<close> what \<open>Uint32\<close> and \<open>Uint64\<close> read back. Reading from a slice
  that is too short panics.
\<close>

fun be_bytes :: "nat \<Rightarrow> nat \<Rightarrow> byte list" where
  "be_bytes 0 v = []"
| "be_bytes (Suc n) v = be_bytes n (v div 256) @ [word_of_nat (v mod 256)]"

fun be_nat_acc :: "nat \<Rightarrow> byte list \<Rightarrow> nat" where
  "be_nat_acc a [] = a"
| "be_nat_acc a (b # bs) = be_nat_acc (a * 256 + unat b) bs"

definition be_nat :: "byte list \<Rightarrow> nat" where
  "be_nat bs = be_nat_acc 0 bs"

definition PutUint32 :: "32 word \<Rightarrow> byte list" where
  "PutUint32 v = be_bytes 4 (unat v)"

definition PutUint64 :: "64 word \<Rightarrow> byte list" where
  "PutUint64 v = be_bytes 8 (unat v)"

definition Uint32 :: "byte list \<Rightarrow> go_panic + 32 word" where
  "Uint32 bs = (if length bs < 4 then Inl Index_Out_Of_Range else Inr (word_of_nat (be_nat (take 4 bs))))"

definition Uint64 :: "byte list \<Rightarrow> go_panic + 64 word" where
  "Uint64 bs = (if length bs < 8 then Inl Index_Out_Of_Range else Inr (word_of_nat (be_nat (take 8 bs))))"

lemma length_be_bytes [simp]: "length (be_bytes n v) = n"
  by (induction n v rule: be_bytes.induct) auto

lemma be_nat_acc_append: "be_nat_acc a (xs @ ys) = be_nat_acc (be_nat_acc a xs) ys"
  by (induction xs arbitrary: a) auto

lemma unat_word_of_nat_byte [simp]: "unat (word_of_nat (v mod 256) :: byte) = v mod 256"
  by (simp add: unat_of_nat)

lemma be_nat_be_bytes: "be_nat (be_bytes n v) = v mod 256 ^ n"
proof (induction n v rule: be_bytes.induct)
  case (2 n v)
  have "v mod (256 * 256 ^ n) = 256 * (v div 256 mod 256 ^ n) + v mod 256"
    by (rule mod_mult2_eq)
  with 2 show ?case by (simp add: be_nat_def be_nat_acc_append)
qed (simp add: be_nat_def)

lemma length_PutUint32 [simp]: "length (PutUint32 v) = 4"
  by (simp add: PutUint32_def)

lemma length_PutUint64 [simp]: "length (PutUint64 v) = 8"
  by (simp add: PutUint64_def)

lemma Uint32_PutUint32: "Uint32 (PutUint32 v @ bs) = Inr v"
proof -
  have "unat v < 256 ^ 4" using unsigned_less [of v] by simp
  then show ?thesis by (simp add: Uint32_def PutUint32_def be_nat_be_bytes)
qed

lemma Uint64_PutUint64: "Uint64 (PutUint64 v @ bs) = Inr v"
proof -
  have "unat v < 256 ^ 8" using unsigned_less [of v] by simp
  then show ?thesis by (simp add: Uint64_def PutUint64_def be_nat_be_bytes)
qed

subsection \<open>Package \<open>strings\<close>\<close>

definition HasPrefix :: "string \<Rightarrow> string \<Rightarrow> bool" where
  "HasPrefix s p = (take (length p) s = p)"

definition HasSuffix :: "string \<Rightarrow> string \<Rightarrow> bool" where
  "HasSuffix s p = (length p \<le> length s \<and> drop (length s - length p) s = p)"

fun Contains :: "string \<Rightarrow> string \<Rightarrow> bool" where
  "Contains [] p = (p = [])"
| "Contains (c # s) p = (HasPrefix (c # s) p \<or> Contains s p)"

text \<open>\<open>ToLower\<close> on ASCII letters; bytes of other encodings are left alone.\<close>

definition to_lower_char :: "char \<Rightarrow> char" where
  "to_lower_char c = (if CHR ''A'' \<le> c \<and> c \<le> CHR ''Z'' then char_of (of_char c + 32 :: nat) else c)"

definition ToLower :: "string \<Rightarrow> string" where
  "ToLower s = map to_lower_char s"

text \<open>
  The UTF-8 encodings of the code points \<open>unicode.IsSpace\<close> accepts, which \<open>TrimSpace\<close> removes
  from both ends.
\<close>

definition utf8_spaces :: "string list" where
  "utf8_spaces =
     map (\<lambda>n. [char_of (n :: nat)]) [9, 10, 11, 12, 13, 32]
     @ map (map char_of) ([[194, 133], [194, 160], [225, 154, 128], [226, 128, 168],
         [226, 128, 169], [226, 128, 175], [226, 129, 159], [227, 128, 128]] :: nat list list)
     @ map (\<lambda>n. [char_of (226 :: nat), char_of (128 :: nat), char_of n]) [128..<139]"

function TrimLeftSpace :: "string \<Rightarrow> string" where
  "TrimLeftSpace s =
     (case find (\<lambda>w. HasPrefix s w) utf8_spaces of
        None \<Rightarrow> s
      | Some w \<Rightarrow> TrimLeftSpace (drop (length w) s))"
  by pat_completeness auto

lemma utf8_spaces_nonempty: "w \<in> set utf8_spaces \<Longrightarrow> w \<noteq> []"
  by (auto simp: utf8_spaces_def)

lemma HasPrefix_Nil_left: "HasPrefix [] w \<longleftrightarrow> w = []"
  by (auto simp: HasPrefix_def)

termination TrimLeftSpace
proof (relation "measure length")
  fix s w
  assume "find (HasPrefix s) utf8_spaces = Some w"
  then have "w \<in> set utf8_spaces" "HasPrefix s w"
    by (auto simp: find_Some_iff)
  then have "0 < length w" "s \<noteq> []"
    using utf8_spaces_nonempty HasPrefix_Nil_left by auto
  then show "(drop (length w) s, s) \<in> measure length"
    by (simp add: diff_less)
qed simp

declare TrimLeftSpace.simps [simp del]

function TrimRightSpace :: "string \<Rightarrow> string" where
  "TrimRightSpace s =
     (case find (\<lambda>w. HasSuffix s w) utf8_spaces of
        None \<Rightarrow> s
      | Some w \<Rightarrow> TrimRightSpace (take (length s - length w) s))"
  by pat_completeness auto

termination TrimRightSpace
proof (relation "measure length")
  fix s w
  assume "find (HasSuffix s) utf8_spaces = Some w"
  then have "w \<in> set utf8_spaces" "HasSuffix s w"
    by (auto simp: find_Some_iff)
  then have "0 < length w" "length w \<le> length s"
    using utf8_spaces_nonempty by (auto simp: HasSuffix_def)
  then have "length s - length w < length s" by arith
  then show "(take (length s - length w) s, s) \<in> measure length"
    by simp
qed simp

declare TrimRightSpace.simps [simp del]

definition TrimSpace :: "string \<Rightarrow> string" where
  "TrimSpace s = TrimRightSpace (TrimLeftSpace s)"

text \<open>\<open>strconv.Itoa\<close> and the verb \<open>%d\<close>.\<close>

fun dec_nat :: "nat \<Rightarrow> string" where
  "dec_nat n = (if n < 10 then [char_of (48 + n)] else dec_nat (n div 10) @ [char_of (48 + n mod 10)])"

declare dec_nat.simps [simp del]

definition dec :: "int \<Rightarrow> string" where
  "dec i = (if i < 0 then CHR ''-'' # dec_nat (nat (- i)) else dec_nat (nat i))"

lemma HasPrefix_append [simp]: "HasPrefix (p @ s) p"
  by (simp add: HasPrefix_def)

lemma HasPrefix_iff: "HasPrefix s p \<longleftrightarrow> (\<exists>t. s = p @ t)"
  by (metis HasPrefix_append HasPrefix_def append_take_drop_id)

lemma HasSuffix_append [simp]: "HasSuffix (s @ p) p"
  by (simp add: HasSuffix_def)

lemma HasSuffix_iff: "HasSuffix s p \<longleftrightarrow> (\<exists>t. s = t @ p)"
  by (metis HasSuffix_append HasSuffix_def append_take_drop_id)

text \<open>A text that begins and ends with a visible ASCII character is not changed.\<close>

definition visible :: "char \<Rightarrow> bool" where
  "visible c \<longleftrightarrow> 32 < (of_char c :: nat) \<and> (of_char c :: nat) < 127"

lemma spaces_not_visible: "list_all (\<lambda>w. \<not> visible (hd w) \<and> \<not> visible (last w)) utf8_spaces"
  by (simp add: utf8_spaces_def visible_def upt_conv_Cons_Cons del: upt_Suc)

lemma TrimSpace_visible:
  assumes "s \<noteq> []" "visible (hd s)" "visible (last s)"
  shows "TrimSpace s = s"
proof -
  have "\<not> HasPrefix s w" "\<not> HasSuffix s w" if "w \<in> set utf8_spaces" for w
  proof -
    from that have w: "w \<noteq> []" "\<not> visible (hd w)" "\<not> visible (last w)"
      using spaces_not_visible utf8_spaces_nonempty by (auto simp: list_all_iff)
    show "\<not> HasPrefix s w" using w assms by (auto simp: HasPrefix_iff)
    show "\<not> HasSuffix s w" using w assms by (auto simp: HasSuffix_iff)
  qed
  then have "find (HasPrefix s) utf8_spaces = None" "find (HasSuffix s) utf8_spaces = None"
    by (auto simp: find_None_iff)
  then show ?thesis by (simp add: TrimSpace_def TrimLeftSpace.simps [of s] TrimRightSpace.simps [of s])
qed

lemma TrimSpace_Nil [simp]: "TrimSpace [] = []"
proof -
  have "find (HasPrefix []) utf8_spaces = None" "find (HasSuffix []) utf8_spaces = None"
    using utf8_spaces_nonempty by (auto simp: find_None_iff HasPrefix_iff HasSuffix_iff)
  then show ?thesis by (simp add: TrimSpace_def TrimLeftSpace.simps [of "[]"] TrimRightSpace.simps [of "[]"])
qed

lemma Contains_iff: "Contains s p \<longleftrightarrow> (\<exists>u v. s = u @ p @ v)"
proof (induction s)
  case (Cons c s)
  show ?case
  proof
    assume "Contains (c # s) p"
    then consider "HasPrefix (c # s) p" | "Contains s p" by auto
    then show "\<exists>u v. c # s = u @ p @ v"
    proof cases
      case 1
      then show ?thesis by (metis HasPrefix_iff append_Nil)
    next
      case 2
      with Cons.IH show ?thesis by (metis append_Cons)
    qed
  next
    assume "\<exists>u v. c # s = u @ p @ v"
    then obtain u v where uv: "c # s = u @ p @ v" by blast
    show "Contains (c # s) p"
    proof (cases u)
      case Nil
      with uv have "HasPrefix (c # s) p" by (metis HasPrefix_iff append_Nil)
      then show ?thesis by simp
    next
      case u: (Cons d u')
      with uv have "s = u' @ p @ v" by simp
      with Cons.IH show ?thesis by auto
    qed
  qed
qed auto

subsection \<open>Contracts shared by several components\<close>

text \<open>
  A component whose state is changed by operations only, each of which keeps an invariant:
  every finite sequence of operations keeps it.
\<close>

locale op_system =
  fixes exec :: "'s \<Rightarrow> 'op \<Rightarrow> 's"
    and invar :: "'s \<Rightarrow> bool"
  assumes exec_invar: "invar s \<Longrightarrow> invar (exec s c)"
begin

lemma run_invar: "invar s \<Longrightarrow> invar (foldl exec s cs)"
  by (induction cs arbitrary: s) (auto simp: exec_invar)

end

text \<open>
  A log that keeps at most \<open>cap\<close> entries: adding an entry keeps the bound, keeps the new
  entry, and invents no other.
\<close>

locale bounded_log =
  fixes add :: "'e \<Rightarrow> 'e list \<Rightarrow> 'e list"
    and cap :: nat
  assumes cap_pos: "0 < cap"
    and length_add: "length es \<le> cap \<Longrightarrow> length (add e es) \<le> cap"
    and add_new: "e \<in> set (add e es)"
    and add_only: "set (add e es) \<subseteq> insert e (set es)"
begin

lemma adds_bounded: "length es \<le> cap \<Longrightarrow> length (foldl (\<lambda>l e. add e l) es new) \<le> cap"
  by (induction new arbitrary: es) (auto simp: length_add)

lemma adds_only: "set (foldl (\<lambda>l e. add e l) es new) \<subseteq> set es \<union> set new"
proof (induction new arbitrary: es)
  case (Cons e new)
  from Cons.IH [of "add e es"] add_only [of e es] show ?case by auto
qed simp

lemma adds_keep_newest: "new \<noteq> [] \<Longrightarrow> last new \<in> set (foldl (\<lambda>l e. add e l) es new)"
  by (cases new rule: rev_cases) (auto simp: add_new)

end

end
