(* ===== verification/RingBuffer.thy ===== *)
theory RingBuffer
  imports Prelude
begin

section \<open>The ring buffer of a multiplexed stream\<close>

text \<open>
  Model of \<open>GoTunnel/internal/multiplexer/ringbuffer.go\<close>. The state is the record
  \<open>ring_buffer\<close> with the fields of the Go struct; every method is a function on it. A full
  buffer overwrites its oldest byte, so the abstraction \<open>rb_contents\<close> of a written buffer is the
  tail of the byte sequence (\<open>last_n\<close>). The contract a stream relies on is the locale
  \<open>lossy_buffer\<close>, interpreted on this model at the end.

  Indices stay below the allocated size, which is a Go \<open>int\<close>, so \<open>head + 1\<close> and \<open>tail + 1\<close>
  cannot overflow and are natural numbers here.
\<close>

subsection \<open>State and operations\<close>

record ring_buffer =
  rb_buf :: "byte list"
  rb_size :: nat
  rb_head :: nat
  rb_tail :: nat
  rb_count :: nat
  rb_closed :: bool

datatype rb_error = Buffer_Closed | EOF

text \<open>\<open>make([]byte, size)\<close> panics for a negative size.\<close>

definition NewRingBuffer :: "int \<Rightarrow> go_panic + ring_buffer" where
  "NewRingBuffer sz =
     (if sz < 0 then Inl Makeslice_Len_Out_Of_Range
      else Inr \<lparr>rb_buf = replicate (nat sz) 0, rb_size = nat sz,
                rb_head = 0, rb_tail = 0, rb_count = 0, rb_closed = False\<rparr>)"

text \<open>\<open>x % rb.size\<close>: the remainder panics when the size is zero.\<close>

definition rb_mod :: "ring_buffer \<Rightarrow> nat \<Rightarrow> go_panic + nat" where
  "rb_mod rb x = (if rb_size rb = 0 then Inl Integer_Divide_By_Zero else Inr (x mod rb_size rb))"

text \<open>One iteration of the loop of \<open>Write\<close>: first make room, then store.\<close>

definition drop_oldest :: "ring_buffer \<Rightarrow> go_panic + ring_buffer" where
  "drop_oldest rb =
     (if rb_count rb = rb_size rb then
        (case rb_mod rb (rb_head rb + 1) of
           Inl p \<Rightarrow> Inl p
         | Inr h \<Rightarrow> Inr (rb\<lparr>rb_head := h, rb_count := rb_count rb - 1\<rparr>))
      else Inr rb)"

definition store_byte :: "ring_buffer \<Rightarrow> byte \<Rightarrow> go_panic + ring_buffer" where
  "store_byte rb b =
     (if length (rb_buf rb) \<le> rb_tail rb then Inl Index_Out_Of_Range
      else (case rb_mod rb (rb_tail rb + 1) of
              Inl p \<Rightarrow> Inl p
            | Inr t \<Rightarrow> Inr (rb\<lparr>rb_buf := (rb_buf rb)[rb_tail rb := b], rb_tail := t,
                                rb_count := rb_count rb + 1\<rparr>)))"

definition write_byte :: "ring_buffer \<Rightarrow> byte \<Rightarrow> go_panic + ring_buffer" where
  "write_byte rb b = (case drop_oldest rb of Inl p \<Rightarrow> Inl p | Inr rb' \<Rightarrow> store_byte rb' b)"

fun write_loop :: "ring_buffer \<Rightarrow> byte list \<Rightarrow> nat \<Rightarrow> go_panic + nat \<times> ring_buffer" where
  "write_loop rb [] n = Inr (n, rb)"
| "write_loop rb (b # bs) n =
     (case write_byte rb b of Inl p \<Rightarrow> Inl p | Inr rb' \<Rightarrow> write_loop rb' bs (n + 1))"

definition rb_write :: "ring_buffer \<Rightarrow> byte list \<Rightarrow> go_panic + (nat \<times> rb_error option) \<times> ring_buffer" where
  "rb_write rb data =
     (if rb_closed rb then Inr ((0, Some Buffer_Closed), rb)
      else (case write_loop rb data 0 of
              Inl p \<Rightarrow> Inl p
            | Inr (n, rb') \<Rightarrow> Inr ((n, None), rb')))"

text \<open>
  \<open>Read\<close> fills a slice of length \<open>k\<close>: the model returns the bytes stored into its front. The
  count \<open>n\<close> the code returns is their number.
\<close>

fun read_loop :: "ring_buffer \<Rightarrow> nat \<Rightarrow> byte list \<Rightarrow> go_panic + byte list \<times> ring_buffer" where
  "read_loop rb 0 acc = Inr (acc, rb)"
| "read_loop rb (Suc k) acc =
     (if rb_count rb = 0 then Inr (acc, rb)
      else if length (rb_buf rb) \<le> rb_head rb then Inl Index_Out_Of_Range
      else (case rb_mod rb (rb_head rb + 1) of
              Inl p \<Rightarrow> Inl p
            | Inr h \<Rightarrow> read_loop (rb\<lparr>rb_head := h, rb_count := rb_count rb - 1\<rparr>) k
                         (acc @ [rb_buf rb ! rb_head rb])))"

definition rb_read :: "ring_buffer \<Rightarrow> nat \<Rightarrow> go_panic + (byte list \<times> rb_error option) \<times> ring_buffer" where
  "rb_read rb k =
     (if rb_count rb = 0 then Inr (([], if rb_closed rb then Some EOF else None), rb)
      else (case read_loop rb k [] of
              Inl p \<Rightarrow> Inl p
            | Inr (bs, rb') \<Rightarrow> Inr ((bs, None), rb')))"

definition Len :: "ring_buffer \<Rightarrow> nat" where
  "Len rb = rb_count rb"

definition Cap :: "ring_buffer \<Rightarrow> nat" where
  "Cap rb = rb_size rb"

definition Available :: "ring_buffer \<Rightarrow> int" where
  "Available rb = int (rb_size rb) - int (rb_count rb)"

definition rb_close :: "ring_buffer \<Rightarrow> ring_buffer" where
  "rb_close rb = rb\<lparr>rb_closed := True\<rparr>"

definition rb_reset :: "ring_buffer \<Rightarrow> ring_buffer" where
  "rb_reset rb = rb\<lparr>rb_head := 0, rb_tail := 0, rb_count := 0, rb_closed := False\<rparr>"

fun peek_loop :: "ring_buffer \<Rightarrow> nat \<Rightarrow> nat \<Rightarrow> nat \<Rightarrow> byte list \<Rightarrow> go_panic + byte list" where
  "peek_loop rb head n 0 acc = Inr acc"
| "peek_loop rb head n (Suc k) acc =
     (if rb_count rb \<le> n then Inr acc
      else if length (rb_buf rb) \<le> head then Inl Index_Out_Of_Range
      else (case rb_mod rb (head + 1) of
              Inl p \<Rightarrow> Inl p
            | Inr h \<Rightarrow> peek_loop rb h (n + 1) k (acc @ [rb_buf rb ! head])))"

definition rb_peek :: "ring_buffer \<Rightarrow> nat \<Rightarrow> go_panic + byte list" where
  "rb_peek rb k = (if rb_count rb = 0 then Inr [] else peek_loop rb (rb_head rb) 0 k [])"

subsection \<open>Invariant and abstraction\<close>

definition rb_invar :: "ring_buffer \<Rightarrow> bool" where
  "rb_invar rb \<longleftrightarrow>
     0 < rb_size rb \<and> length (rb_buf rb) = rb_size rb \<and> rb_head rb < rb_size rb
     \<and> rb_count rb \<le> rb_size rb \<and> rb_tail rb = (rb_head rb + rb_count rb) mod rb_size rb"

definition rb_contents :: "ring_buffer \<Rightarrow> byte list" where
  "rb_contents rb = map (\<lambda>i. rb_buf rb ! ((rb_head rb + i) mod rb_size rb)) [0..<rb_count rb]"

lemma length_rb_contents [simp]: "length (rb_contents rb) = rb_count rb"
  by (simp add: rb_contents_def)

lemma rb_invarD:
  assumes "rb_invar rb"
  shows "0 < rb_size rb" "length (rb_buf rb) = rb_size rb" "rb_head rb < rb_size rb"
    "rb_count rb \<le> rb_size rb" "rb_tail rb = (rb_head rb + rb_count rb) mod rb_size rb"
    "rb_tail rb < rb_size rb"
  using assms by (auto simp: rb_invar_def)

lemma NewRingBuffer_invar:
  "0 < sz \<Longrightarrow> \<exists>rb. NewRingBuffer sz = Inr rb \<and> rb_invar rb \<and> rb_contents rb = []
     \<and> rb_size rb = nat sz \<and> \<not> rb_closed rb"
  by (simp add: NewRingBuffer_def rb_invar_def rb_contents_def)

lemma rb_mod_invar [simp]: "rb_invar rb \<Longrightarrow> rb_mod rb x = Inr (x mod rb_size rb)"
  by (simp add: rb_mod_def rb_invar_def)

lemma mod_slots_distinct:
  fixes h i j s :: nat
  assumes "i < j" and "j - i < s"
  shows "(h + i) mod s \<noteq> (h + j) mod s"
proof
  assume "(h + i) mod s = (h + j) mod s"
  with \<open>i < j\<close> have "s dvd (h + j) - (h + i)" by (metis add_le_mono less_imp_le_nat mod_eq_dvd_iff_nat order_refl)
  then have "s dvd j - i" by simp
  with \<open>i < j\<close> \<open>j - i < s\<close> show False by (auto dest: dvd_imp_le)
qed

text \<open>Advancing the head drops the first byte of the contents.\<close>

abbreviation advance_head :: "ring_buffer \<Rightarrow> ring_buffer" where
  "advance_head rb \<equiv> rb\<lparr>rb_head := Suc (rb_head rb) mod rb_size rb, rb_count := rb_count rb - Suc 0\<rparr>"

lemma advance_head_contents:
  assumes "0 < rb_count rb"
  shows "rb_contents (advance_head rb) = tl (rb_contents rb)"
proof -
  have "tl [0..<rb_count rb] = map Suc [0..<rb_count rb - 1]"
    using assms by (metis One_nat_def Suc_pred map_Suc_upt tl_upt)
  then show ?thesis
    by (simp add: rb_contents_def map_tl [symmetric] mod_add_left_eq)
qed

lemma advance_head_invar:
  assumes "rb_invar rb" and "0 < rb_count rb"
  shows "rb_invar (advance_head rb)"
proof -
  have "(Suc (rb_head rb) mod rb_size rb + (rb_count rb - Suc 0)) mod rb_size rb
          = (Suc (rb_head rb) + (rb_count rb - Suc 0)) mod rb_size rb"
    by (rule mod_add_left_eq)
  also have "Suc (rb_head rb) + (rb_count rb - Suc 0) = rb_head rb + rb_count rb"
    using assms(2) by simp
  finally show ?thesis using assms by (auto simp: rb_invar_def)
qed

lemma hd_rb_contents:
  "rb_invar rb \<Longrightarrow> 0 < rb_count rb \<Longrightarrow> rb_contents rb = rb_buf rb ! rb_head rb # tl (rb_contents rb)"
  by (simp add: rb_contents_def rb_invar_def upt_conv_Cons)

text \<open>Storing a byte into a buffer that is not full appends it to the contents.\<close>

abbreviation stored :: "ring_buffer \<Rightarrow> byte \<Rightarrow> ring_buffer" where
  "stored rb b \<equiv> rb\<lparr>rb_buf := (rb_buf rb)[rb_tail rb := b],
      rb_tail := Suc (rb_tail rb) mod rb_size rb, rb_count := Suc (rb_count rb)\<rparr>"

lemma stored_contents:
  assumes "rb_invar rb" and "rb_count rb < rb_size rb"
  shows "rb_contents (stored rb b) = rb_contents rb @ [b]"
proof -
  note inv = rb_invarD [OF assms(1)]
  have "(rb_buf rb)[rb_tail rb := b] ! ((rb_head rb + i) mod rb_size rb)
          = rb_buf rb ! ((rb_head rb + i) mod rb_size rb)" if "i < rb_count rb" for i
  proof -
    have "(rb_head rb + i) mod rb_size rb \<noteq> rb_tail rb"
      using that assms(2) inv(5) by (simp add: mod_slots_distinct)
    then show ?thesis by simp
  qed
  moreover have "(rb_buf rb)[rb_tail rb := b] ! ((rb_head rb + rb_count rb) mod rb_size rb) = b"
    using inv by simp
  ultimately show ?thesis by (simp add: rb_contents_def)
qed

lemma stored_invar:
  assumes "rb_invar rb" and "rb_count rb < rb_size rb"
  shows "rb_invar (stored rb b)"
  using assms by (auto simp: rb_invar_def mod_simps)

text \<open>The three abstraction lemmas: one byte, one slice, one read.\<close>

lemma write_byte_spec:
  assumes "rb_invar rb"
  shows "\<exists>rb'. write_byte rb b = Inr rb' \<and> rb_invar rb' \<and> rb_size rb' = rb_size rb
    \<and> rb_closed rb' = rb_closed rb \<and> rb_contents rb' = last_n (rb_size rb) (rb_contents rb @ [b])"
proof (cases "rb_count rb = rb_size rb")
  case True
  let ?r = "advance_head rb"
  note inv = rb_invarD [OF assms]
  have pos: "0 < rb_count rb" using True inv by simp
  have r: "rb_invar ?r" "rb_count ?r < rb_size ?r"
    using advance_head_invar [OF assms pos] pos True inv(1) by simp_all
  have "write_byte rb b = Inr (stored ?r b)"
    using True assms rb_invarD(2,6) [OF r(1)] by (simp add: write_byte_def drop_oldest_def store_byte_def rb_mod_def)
  moreover have "rb_contents (stored ?r b) = last_n (rb_size rb) (rb_contents rb @ [b])"
    using stored_contents [OF r] advance_head_contents [OF pos] True inv(1)
    by (simp add: last_n_snoc_full)
  ultimately show ?thesis using stored_invar [OF r] by simp
next
  case False
  then have lt: "rb_count rb < rb_size rb" using rb_invarD(4) [OF assms] by simp
  have "write_byte rb b = Inr (stored rb b)"
    using False assms rb_invarD(2,6) [OF assms] by (simp add: write_byte_def drop_oldest_def store_byte_def)
  moreover have "last_n (rb_size rb) (rb_contents rb @ [b]) = rb_contents rb @ [b]"
    using lt by simp
  ultimately show ?thesis
    using stored_contents [OF assms lt] stored_invar [OF assms lt] by simp
qed

lemma write_loop_spec:
  assumes "rb_invar rb"
  shows "\<exists>rb'. write_loop rb bs n = Inr (n + length bs, rb') \<and> rb_invar rb' \<and> rb_size rb' = rb_size rb
    \<and> rb_closed rb' = rb_closed rb \<and> rb_contents rb' = last_n (rb_size rb) (rb_contents rb @ bs)"
  using assms
proof (induction bs arbitrary: rb n)
  case Nil
  then show ?case by (simp add: rb_invarD(4))
next
  case (Cons b bs)
  from write_byte_spec [OF Cons.prems] obtain r where r: "write_byte rb b = Inr r" "rb_invar r"
    "rb_size r = rb_size rb" "rb_closed r = rb_closed rb"
    "rb_contents r = last_n (rb_size rb) (rb_contents rb @ [b])" by blast
  from Cons.IH [OF r(2), of "n + 1"] r(1,3,4,5) show ?case
    by (auto simp: last_n_append_last_n)
qed

lemma read_loop_spec:
  assumes "rb_invar rb"
  shows "\<exists>rb'. read_loop rb k acc = Inr (acc @ take k (rb_contents rb), rb') \<and> rb_invar rb'
    \<and> rb_size rb' = rb_size rb \<and> rb_closed rb' = rb_closed rb \<and> rb_contents rb' = drop k (rb_contents rb)"
  using assms
proof (induction k arbitrary: rb acc)
  case (Suc k)
  show ?case
  proof (cases "rb_count rb = 0")
    case True
    then have "rb_contents rb = []" by (simp add: rb_contents_def)
    with True Suc.prems show ?thesis by simp
  next
    case False
    then have pos: "0 < rb_count rb" by simp
    note inv = rb_invarD [OF Suc.prems]
    let ?acc = "acc @ [rb_buf rb ! rb_head rb]"
    obtain rest where rest: "rb_contents rb = rb_buf rb ! rb_head rb # rest"
      using hd_rb_contents [OF Suc.prems pos] by blast
    from Suc.IH [OF advance_head_invar [OF Suc.prems pos], of ?acc] False inv Suc.prems
    show ?thesis by (simp add: advance_head_contents [OF pos, unfolded rest list.sel] rest)
  qed
qed simp

lemma peek_loop_spec:
  assumes "rb_invar rb" and "n \<le> rb_count rb"
  shows "peek_loop rb ((rb_head rb + n) mod rb_size rb) n k acc
           = Inr (acc @ take k (drop n (rb_contents rb)))"
  using assms
proof (induction k arbitrary: n acc)
  case (Suc k)
  note inv = rb_invarD [OF Suc.prems(1)]
  show ?case
  proof (cases "n < rb_count rb")
    case True
    have "drop n (rb_contents rb) = rb_buf rb ! ((rb_head rb + n) mod rb_size rb) # drop (n + 1) (rb_contents rb)"
      using True by (simp add: rb_contents_def Cons_nth_drop_Suc [symmetric])
    moreover have "(rb_head rb + n) mod rb_size rb < rb_size rb" using inv(1) by simp
    ultimately show ?thesis using Suc.IH [of "n + 1"] True inv(2) Suc.prems(1)
      by (simp add: mod_simps add.assoc)
  qed (use Suc.prems in simp)
qed simp

lemma rb_write_spec:
  assumes "rb_invar rb" and "\<not> rb_closed rb"
  shows "\<exists>rb'. rb_write rb xs = Inr ((length xs, None), rb') \<and> rb_invar rb' \<and> rb_size rb' = rb_size rb
    \<and> \<not> rb_closed rb' \<and> rb_contents rb' = last_n (rb_size rb) (rb_contents rb @ xs)"
  using write_loop_spec [OF assms(1), of xs 0] assms(2) by (auto simp: rb_write_def)

lemma rb_read_spec:
  assumes "rb_invar rb"
  shows "\<exists>rb'. rb_read rb k = Inr ((take k (rb_contents rb),
             if rb_closed rb \<and> rb_contents rb = [] then Some EOF else None), rb')
    \<and> rb_invar rb' \<and> rb_size rb' = rb_size rb \<and> rb_closed rb' = rb_closed rb
    \<and> rb_contents rb' = drop k (rb_contents rb)"
proof (cases "rb_count rb = 0")
  case True
  then have "rb_contents rb = []" by (simp add: rb_contents_def)
  with True assms show ?thesis by (simp add: rb_read_def)
next
  case False
  then have "rb_contents rb \<noteq> []" by (metis length_0_conv length_rb_contents)
  with False read_loop_spec [OF assms, of k "[]"] show ?thesis by (auto simp: rb_read_def)
qed

lemma rb_peek_spec: "rb_invar rb \<Longrightarrow> rb_peek rb k = Inr (take k (rb_contents rb))"
  using peek_loop_spec [of rb 0 k "[]"] rb_invarD(3) [of rb]
  by (simp add: rb_peek_def rb_contents_def)

subsection \<open>The contract of a lossy byte buffer\<close>

text \<open>
  What a stream relies on: writing to an open buffer always succeeds and appends, keeping the
  newest \<open>cap\<close> elements; reading removes a prefix.
\<close>

locale lossy_buffer =
  fixes put :: "'b \<Rightarrow> 'a list \<Rightarrow> go_panic + (nat \<times> 'e option) \<times> 'b"
    and take_out :: "'b \<Rightarrow> nat \<Rightarrow> go_panic + ('a list \<times> 'e option) \<times> 'b"
    and contents :: "'b \<Rightarrow> 'a list"
    and cap :: "'b \<Rightarrow> nat"
    and closed :: "'b \<Rightarrow> bool"
    and invar :: "'b \<Rightarrow> bool"
  assumes write_ok: "invar b \<Longrightarrow> \<not> closed b \<Longrightarrow>
      \<exists>b'. put b xs = Inr ((length xs, None), b') \<and> invar b' \<and> cap b' = cap b \<and> \<not> closed b'
        \<and> contents b' = last_n (cap b) (contents b @ xs)"
    and read_ok: "invar b \<Longrightarrow>
      \<exists>e b'. take_out b k = Inr ((take k (contents b), e), b') \<and> invar b' \<and> cap b' = cap b
        \<and> closed b' = closed b \<and> contents b' = drop k (contents b)"
    and contents_cap: "invar b \<Longrightarrow> length (contents b) \<le> cap b"
begin

text \<open>Two writes amount to one write of the concatenation.\<close>

lemma write_write:
  assumes "invar b" "\<not> closed b"
  shows "\<exists>b1 b2. put b xs = Inr ((length xs, None), b1) \<and> put b1 ys = Inr ((length ys, None), b2)
    \<and> invar b2 \<and> contents b2 = last_n (cap b) (contents b @ xs @ ys)"
proof -
  from write_ok [OF assms] obtain b1 where b1: "put b xs = Inr ((length xs, None), b1)"
    "invar b1" "cap b1 = cap b" "\<not> closed b1" "contents b1 = last_n (cap b) (contents b @ xs)" by blast
  from write_ok [OF b1(2,4), of ys] b1 show ?thesis
    by (auto simp: last_n_append_last_n)
qed

text \<open>What is written into an empty buffer and fits is read back unchanged.\<close>

lemma write_read_roundtrip:
  assumes "invar b" "\<not> closed b" "contents b = []" "length xs \<le> cap b"
  shows "\<exists>b1 e b2. put b xs = Inr ((length xs, None), b1) \<and> take_out b1 (length xs) = Inr ((xs, e), b2)
    \<and> contents b2 = []"
proof -
  from write_ok [OF assms(1,2)] obtain b1 where b1: "put b xs = Inr ((length xs, None), b1)"
    "invar b1" "contents b1 = last_n (cap b) (contents b @ xs)" by blast
  with assms(3,4) have "contents b1 = xs" by simp
  with read_ok [OF b1(2), of "length xs"] b1(1) show ?thesis by auto
qed

end

interpretation rb: lossy_buffer rb_write rb_read rb_contents rb_size rb_closed rb_invar
proof
  fix b :: ring_buffer and xs k
  assume b: "rb_invar b"
  show "\<exists>b'. rb_write b xs = Inr ((length xs, None), b') \<and> rb_invar b' \<and> rb_size b' = rb_size b
      \<and> \<not> rb_closed b' \<and> rb_contents b' = last_n (rb_size b) (rb_contents b @ xs)"
    if "\<not> rb_closed b"
    using rb_write_spec [OF b that] by blast
  show "\<exists>e b'. rb_read b k = Inr ((take k (rb_contents b), e), b') \<and> rb_invar b'
      \<and> rb_size b' = rb_size b \<and> rb_closed b' = rb_closed b \<and> rb_contents b' = drop k (rb_contents b)"
    using rb_read_spec [OF b, of k] by blast
  show "length (rb_contents b) \<le> rb_size b"
    using rb_invarD(4) [OF b] by simp
qed

subsection \<open>Abstract specification and refinement\<close>

text \<open>
  The specification: a queue of bytes that forgets its oldest bytes beyond its capacity. Every
  method of the buffer is an operation of it, with the value the method returns.
\<close>

datatype buffer_op = OpWrite "byte list" | OpRead nat | OpPeek nat | OpLen | OpAvailable | OpClose | OpReset

datatype buffer_out =
    Wrote nat "rb_error option"
  | Got "byte list" "rb_error option"
  | Number int
  | Done

record byte_queue =
  bq_bytes :: "byte list"
  bq_cap :: nat
  bq_closed :: bool

fun bq_exec :: "byte_queue \<Rightarrow> buffer_op \<Rightarrow> buffer_out \<times> byte_queue" where
  "bq_exec q (OpWrite xs) =
     (if bq_closed q then (Wrote 0 (Some Buffer_Closed), q)
      else (Wrote (length xs) None, q\<lparr>bq_bytes := last_n (bq_cap q) (bq_bytes q @ xs)\<rparr>))"
| "bq_exec q (OpRead k) =
     (Got (take k (bq_bytes q)) (if bq_closed q \<and> bq_bytes q = [] then Some EOF else None),
      q\<lparr>bq_bytes := drop k (bq_bytes q)\<rparr>)"
| "bq_exec q (OpPeek k) = (Got (take k (bq_bytes q)) None, q)"
| "bq_exec q OpLen = (Number (int (length (bq_bytes q))), q)"
| "bq_exec q OpAvailable = (Number (int (bq_cap q) - int (length (bq_bytes q))), q)"
| "bq_exec q OpClose = (Done, q\<lparr>bq_closed := True\<rparr>)"
| "bq_exec q OpReset = (Done, q\<lparr>bq_bytes := [], bq_closed := False\<rparr>)"

text \<open>The same operations on the ring buffer; a panic of the code is \<open>Inl\<close>.\<close>

fun rb_exec :: "ring_buffer \<Rightarrow> buffer_op \<Rightarrow> go_panic + buffer_out \<times> ring_buffer" where
  "rb_exec rb (OpWrite xs) = map_sum id (\<lambda>((n, e), rb'). (Wrote n e, rb')) (rb_write rb xs)"
| "rb_exec rb (OpRead k) = map_sum id (\<lambda>((bs, e), rb'). (Got bs e, rb')) (rb_read rb k)"
| "rb_exec rb (OpPeek k) = map_sum id (\<lambda>bs. (Got bs None, rb)) (rb_peek rb k)"
| "rb_exec rb OpLen = Inr (Number (int (Len rb)), rb)"
| "rb_exec rb OpAvailable = Inr (Number (Available rb), rb)"
| "rb_exec rb OpClose = Inr (Done, rb_close rb)"
| "rb_exec rb OpReset = Inr (Done, rb_reset rb)"

fun rb_run :: "ring_buffer \<Rightarrow> buffer_op list \<Rightarrow> go_panic + buffer_out list \<times> ring_buffer" where
  "rb_run rb [] = Inr ([], rb)"
| "rb_run rb (c # cs) =
     (case rb_exec rb c of
        Inl p \<Rightarrow> Inl p
      | Inr (v, rb') \<Rightarrow>
          (case rb_run rb' cs of Inl p \<Rightarrow> Inl p | Inr (vs, rb'') \<Rightarrow> Inr (v # vs, rb'')))"

fun bq_run :: "byte_queue \<Rightarrow> buffer_op list \<Rightarrow> buffer_out list \<times> byte_queue" where
  "bq_run q [] = ([], q)"
| "bq_run q (c # cs) =
     (let (v, q') = bq_exec q c; (vs, q'') = bq_run q' cs in (v # vs, q''))"

definition bq_abs :: "ring_buffer \<Rightarrow> byte_queue" where
  "bq_abs rb = \<lparr>bq_bytes = rb_contents rb, bq_cap = rb_size rb, bq_closed = rb_closed rb\<rparr>"

lemma rb_close_spec [simp]:
  "rb_invar (rb_close rb) = rb_invar rb" "rb_contents (rb_close rb) = rb_contents rb"
  "rb_size (rb_close rb) = rb_size rb" "rb_closed (rb_close rb)"
  by (simp_all add: rb_close_def rb_invar_def rb_contents_def)

lemma rb_reset_spec [simp]:
  "rb_invar rb \<Longrightarrow> rb_invar (rb_reset rb)" "rb_contents (rb_reset rb) = []"
  "rb_size (rb_reset rb) = rb_size rb" "\<not> rb_closed (rb_reset rb)"
  by (simp_all add: rb_reset_def rb_invar_def rb_contents_def)

lemma rb_exec_refines:
  assumes "rb_invar rb"
  shows "\<exists>v rb'. rb_exec rb c = Inr (v, rb') \<and> rb_invar rb' \<and> bq_exec (bq_abs rb) c = (v, bq_abs rb')"
proof (cases c)
  case (OpWrite xs)
  show ?thesis
  proof (cases "rb_closed rb")
    case True
    with OpWrite assms show ?thesis by (simp add: rb_write_def bq_abs_def)
  next
    case False
    from rb_write_spec [OF assms False, of xs] OpWrite False show ?thesis
      by (auto simp: bq_abs_def)
  qed
next
  case (OpRead k)
  with rb_read_spec [OF assms, of k] show ?thesis by (auto simp: bq_abs_def)
next
  case (OpPeek k)
  with rb_peek_spec [OF assms, of k] assms show ?thesis by (auto simp: bq_abs_def)
qed (use assms in \<open>auto simp: bq_abs_def Len_def Available_def\<close>)

lemma rb_run_refines:
  assumes "rb_invar rb"
  shows "\<exists>vs rb'. rb_run rb cs = Inr (vs, rb') \<and> rb_invar rb' \<and> bq_run (bq_abs rb) cs = (vs, bq_abs rb')"
  using assms
proof (induction cs arbitrary: rb)
  case (Cons c cs)
  from rb_exec_refines [OF Cons.prems, of c] obtain v r where
    r: "rb_exec rb c = Inr (v, r)" "rb_invar r" "bq_exec (bq_abs rb) c = (v, bq_abs r)" by blast
  from Cons.IH [OF r(2)] r(1,3) show ?case by auto
qed simp

text \<open>
  C1: A ring buffer of positive size never panics, and every sequence of \<open>Write\<close>, \<open>Read\<close>,
  \<open>Peek\<close>, \<open>Len\<close>, \<open>Available\<close>, \<open>Close\<close> and \<open>Reset\<close> on a new one returns exactly what the byte
  queue of that capacity returns: first in first out, the oldest bytes overwritten when full,
  end of file only when closed and drained.
\<close>

theorem ring_buffer_refines_queue:
  assumes "0 < sz"
  shows "\<exists>rb vs rb'. NewRingBuffer sz = Inr rb \<and> rb_run rb cs = Inr (vs, rb')
    \<and> bq_run \<lparr>bq_bytes = [], bq_cap = nat sz, bq_closed = False\<rparr> cs = (vs, bq_abs rb')"
proof -
  from NewRingBuffer_invar [OF assms] obtain rb where rb: "NewRingBuffer sz = Inr rb" "rb_invar rb"
    "bq_abs rb = \<lparr>bq_bytes = [], bq_cap = nat sz, bq_closed = False\<rparr>"
    by (auto simp: bq_abs_def)
  from rb_run_refines [OF rb(2), of cs] rb show ?thesis by auto
qed

theorem ring_buffer_refines_queue_witness:
  "\<exists>rb vs rb'. NewRingBuffer 2 = Inr rb \<and> rb_run rb [OpWrite [1, 2, 3], OpRead 1, OpClose, OpRead 5, OpRead 1] = Inr (vs, rb')
    \<and> vs = [Wrote 3 None, Got [2] None, Done, Got [3] None, Got [] (Some EOF)]"
proof -
  have "(0 :: int) < 2" by simp
  from ring_buffer_refines_queue [OF this, of "[OpWrite [1, 2, 3], OpRead 1, OpClose, OpRead 5, OpRead 1]"]
  show ?thesis by (auto simp: last_n_def)
qed

end
