(* ===== verification/Framing.thy ===== *)
theory Framing
  imports Prelude
begin

section \<open>Frames and their wire format\<close>

text \<open>
  Model of the frame type of \<open>GoTunnel/internal/multiplexer/multiplexer.go\<close> and of \<open>readFrame\<close> and
  \<open>writeFrame\<close>. The connection underneath is an \<open>io.ReadWriteCloser\<close> outside this code: its
  receiving side is the bytes that will arrive followed by the way the stream ends, its sending
  side the bytes accepted so far together with the fate of each coming \<open>Write\<close> call (accepted
  whole, or failing after some bytes).
\<close>

record frame =
  StreamID :: "32 word"
  Type :: "8 word"
  Flags :: "8 word"
  Payload :: "byte list"
  Timestamp :: time
  SequenceNum :: "64 word"

abbreviation FrameTypeData :: "8 word" where "FrameTypeData \<equiv> 0"
abbreviation FrameTypeHeader :: "8 word" where "FrameTypeHeader \<equiv> 1"
abbreviation FrameTypeSettings :: "8 word" where "FrameTypeSettings \<equiv> 2"
abbreviation FrameTypePing :: "8 word" where "FrameTypePing \<equiv> 3"
abbreviation FrameTypePong :: "8 word" where "FrameTypePong \<equiv> 4"
abbreviation FrameTypeGoAway :: "8 word" where "FrameTypeGoAway \<equiv> 5"
abbreviation FrameTypeReset :: "8 word" where "FrameTypeReset \<equiv> 6"
abbreviation FrameTypeWindowUpdate :: "8 word" where "FrameTypeWindowUpdate \<equiv> 7"
abbreviation FrameTypeAck :: "8 word" where "FrameTypeAck \<equiv> 8"
abbreviation FrameTypeNack :: "8 word" where "FrameTypeNack \<equiv> 9"

subsection \<open>The connection\<close>

datatype read_error = IO_EOF | Unexpected_EOF | Conn_Error

record conn =
  rx :: "byte list"
  rx_end :: read_error
  tx :: "byte list"
  tx_calls :: nat
  tx_fate :: "nat \<Rightarrow> nat option"
  conn_closed :: bool

text \<open>
  \<open>io.ReadFull\<close> with a slice of length \<open>n\<close>: end of input before the first byte is \<open>io.EOF\<close>, later
  \<open>io.ErrUnexpectedEOF\<close>; any other error of the connection is passed on.
\<close>

definition ReadFull :: "conn \<Rightarrow> nat \<Rightarrow> (read_error + byte list) \<times> conn" where
  "ReadFull c n =
     (if n \<le> length (rx c) then (Inr (take n (rx c)), c\<lparr>rx := drop n (rx c)\<rparr>)
      else (Inl (if rx_end c = IO_EOF \<and> rx c \<noteq> [] then Unexpected_EOF else rx_end c), c\<lparr>rx := []\<rparr>))"

text \<open>One \<open>Write\<close> call on the connection: the flag says that it returned no error.\<close>

definition conn_write :: "conn \<Rightarrow> byte list \<Rightarrow> bool \<times> conn" where
  "conn_write c bs =
     (case tx_fate c (tx_calls c) of
        None \<Rightarrow> (True, c\<lparr>tx := tx c @ bs, tx_calls := tx_calls c + 1\<rparr>)
      | Some k \<Rightarrow> (False, c\<lparr>tx := tx c @ take k bs, tx_calls := tx_calls c + 1\<rparr>))"

subsection \<open>\<open>writeFrame\<close> and \<open>readFrame\<close>\<close>

definition frame_header :: "frame \<Rightarrow> byte list" where
  "frame_header f =
     PutUint32 (StreamID f) @ [Type f, Flags f] @ PutUint64 (SequenceNum f)
     @ PutUint32 (word_of_nat (length (Payload f)))"

definition writeFrame :: "conn \<Rightarrow> frame \<Rightarrow> bool \<times> conn" where
  "writeFrame c f =
     (case conn_write c (frame_header f) of
        (False, c') \<Rightarrow> (False, c')
      | (True, c') \<Rightarrow> if 0 < length (Payload f) then conn_write c' (Payload f) else (True, c'))"

text \<open>
  The header is 18 bytes long, so the two readers of \<open>encoding/binary\<close> never panic here
  (\<open>be_nat\<close> of the four or eight bytes). A frame without payload keeps the nil slice.
\<close>

definition readFrame :: "conn \<Rightarrow> time \<Rightarrow> (read_error + frame) \<times> conn" where
  "readFrame c now =
     (case ReadFull c 18 of
        (Inl e, c1) \<Rightarrow> (Inl e, c1)
      | (Inr header, c1) \<Rightarrow>
          let f = \<lparr>StreamID = word_of_nat (be_nat (take 4 header)),
                   Type = header ! 4,
                   Flags = header ! 5,
                   Payload = [],
                   Timestamp = now,
                   SequenceNum = word_of_nat (be_nat (take 8 (drop 6 header)))\<rparr>;
              len = unat (word_of_nat (be_nat (take 4 (drop 14 header))) :: 32 word)
          in if 0 < len then
               (case ReadFull c1 len of
                  (Inl e, c2) \<Rightarrow> (Inl e, c2)
                | (Inr payload, c2) \<Rightarrow> (Inr (f\<lparr>Payload := payload\<rparr>), c2))
             else (Inr f, c1))"

text \<open>\<open>cloneFrame\<close> copies the payload slice; lists have no aliasing, so the copy is equal.\<close>

definition cloneFrame :: "frame \<Rightarrow> frame" where
  "cloneFrame f = f\<lparr>Payload := [] @ Payload f\<rparr>"

lemma cloneFrame_id [simp]: "cloneFrame f = f"
  by (simp add: cloneFrame_def)

definition frame_bytes :: "frame \<Rightarrow> byte list" where
  "frame_bytes f = frame_header f @ Payload f"

text \<open>A connection whose coming writes all succeed.\<close>

definition tx_ok :: "conn \<Rightarrow> bool" where
  "tx_ok c \<longleftrightarrow> (\<forall>i \<ge> tx_calls c. tx_fate c i = None)"

subsection \<open>Facts\<close>

lemma length_frame_header [simp]: "length (frame_header f) = 18"
  by (simp add: frame_header_def)

lemma writeFrame_tx_ok:
  assumes "tx_ok c"
  shows "\<exists>c'. writeFrame c f = (True, c') \<and> tx c' = tx c @ frame_bytes f \<and> tx_ok c'
    \<and> rx c' = rx c \<and> rx_end c' = rx_end c \<and> conn_closed c' = conn_closed c"
  using assms by (auto simp: writeFrame_def conn_write_def tx_ok_def frame_bytes_def)

lemma writeFrame_rx [simp]:
  "rx (snd (writeFrame c f)) = rx c" "rx_end (snd (writeFrame c f)) = rx_end c"
  "conn_closed (snd (writeFrame c f)) = conn_closed c"
  by (auto simp: writeFrame_def conn_write_def split: prod.splits option.splits bool.splits if_splits)

lemma ReadFull_append: "ReadFull (c\<lparr>rx := xs @ ys\<rparr>) (length xs) = (Inr xs, c\<lparr>rx := ys\<rparr>)"
  by (simp add: ReadFull_def)

lemma readFrame_frame_bytes:
  assumes "length (Payload f) < 2 ^ 32"
  shows "readFrame (c\<lparr>rx := frame_bytes f @ rest\<rparr>) now = (Inr (f\<lparr>Timestamp := now\<rparr>), c\<lparr>rx := rest\<rparr>)"
proof -
  let ?h = "frame_header f"
  have r1: "ReadFull (c\<lparr>rx := frame_bytes f @ rest\<rparr>) 18 = (Inr ?h, c\<lparr>rx := Payload f @ rest\<rparr>)"
    using ReadFull_append [where c = c and xs = ?h and ys = "Payload f @ rest"] by (simp add: frame_bytes_def)
  have sid: "(word_of_nat (be_nat (take 4 ?h)) :: 32 word) = StreamID f"
    using Uint32_PutUint32 [of "StreamID f" "[]"] by (simp add: frame_header_def Uint32_def)
  have seq: "(word_of_nat (be_nat (take 8 (drop 6 ?h))) :: 64 word) = SequenceNum f"
    using Uint64_PutUint64 [of "SequenceNum f" "[]"] by (simp add: frame_header_def Uint64_def)
  have len: "unat (word_of_nat (be_nat (take 4 (drop 14 ?h))) :: 32 word) = length (Payload f)"
    using Uint32_PutUint32 [of "word_of_nat (length (Payload f))" "[]"] assms
    by (simp add: frame_header_def Uint32_def unat_of_nat)
  have ty: "?h ! 4 = Type f" "?h ! 5 = Flags f"
    by (simp_all add: frame_header_def nth_append)
  have r2: "ReadFull (c\<lparr>rx := Payload f @ rest\<rparr>) (length (Payload f)) = (Inr (Payload f), c\<lparr>rx := rest\<rparr>)"
    by (rule ReadFull_append)
  show ?thesis
    unfolding readFrame_def r1 using len ty by (simp add: sid seq r2 Let_def)
qed

lemma readFrame_rx_shorter:
  "readFrame c now = (Inr f, c') \<Longrightarrow> length (rx c') < length (rx c)"
  by (auto simp: readFrame_def ReadFull_def Let_def split: if_splits)

lemma readFrame_error_rx: "readFrame c now = (Inl e, c') \<Longrightarrow> rx c' = []"
  by (auto simp: readFrame_def ReadFull_def Let_def split: if_splits)

lemma readFrame_end [simp]: "rx_end (snd (readFrame c now)) = rx_end c"
  by (auto simp: readFrame_def ReadFull_def Let_def split: if_splits)

lemma readFrame_empty: "rx c = [] \<Longrightarrow> readFrame c now = (Inl (rx_end c), c\<lparr>rx := []\<rparr>)"
  by (simp add: readFrame_def ReadFull_def)

end
