(* ===== verification/Multiplexer.thy ===== *)
theory Multiplexer
  imports RingBuffer Framing
begin

section \<open>The stream multiplexer\<close>

text \<open>
  Model of \<open>GoTunnel/internal/multiplexer/multiplexer.go\<close>: streams, connections, the client
  operations (\<open>OpenStream\<close>, \<open>Write\<close>, \<open>Read\<close>, \<open>CloseStream\<close>, \<open>Close\<close>) and the frame handlers the
  read loop dispatches to. Each function is one critical section of the code (or a sequence of
  them run to completion); \<open>Inl\<close> of a \<open>go_panic\<close> is a crash of the process.

  The callbacks of the configuration are outside this code; the model records which calls are
  made, in order, in the field \<open>c_calls\<close>. The field \<open>Error\<close> of a stream and \<open>usedWindow\<close> of a
  connection are never read or written by the source and are left out.
\<close>

subsection \<open>State\<close>

datatype stream_state = StreamStateIdle | StreamStateOpen | StreamStateClosing | StreamStateClosed | StreamStateError

text \<open>The delivery mode is a string in the code; an unknown one is kept as such.\<close>

datatype delivery = DeliveryAtMostOnce | DeliveryAtLeastOnce | DeliveryExactlyOnce | DeliveryOther string

record stream =
  ID :: "32 word"
  State :: stream_state
  ReadBuffer :: ring_buffer
  WriteBuffer :: ring_buffer
  WindowSize :: "32 word"
  UsedWindow :: "32 word"
  SeqNum :: "64 word"
  AckNum :: "64 word"
  SentFrames :: "(64 word, frame) fmap"
  Pending :: "(64 word, frame) fmap"
  Delivered :: "64 word fset"
  CreatedAt :: time
  LastActivity :: time

datatype callback =
    OnStreamOpen "32 word"
  | OnStreamClose "32 word"
  | OnData "32 word" "byte list"

record connection =
  c_conn :: conn
  streams :: "(32 word, stream) fmap"
  maxStreams :: "32 word"
  nextStreamID :: "32 word"
  windowSize :: "32 word"
  deliveryMode :: delivery
  stopped :: bool
  has_onStreamOpen :: bool
  has_onStreamClose :: bool
  has_onData :: bool
  c_calls :: "callback list"

record connection_config =
  MaxStreams :: "32 word"
  cfg_WindowSize :: "32 word"
  DeliveryMode :: "delivery option"
  cfg_onStreamOpen :: bool
  cfg_onStreamClose :: bool
  cfg_onData :: bool

datatype mux_error =
    Max_Streams_Reached
  | Stream_Not_Found "32 word"
  | Stream_Not_Open "32 word"
  | Window_Size_Exceeded "32 word"
  | Buffer_Error rb_error
  | Write_Frame_Failed

text \<open>The empty delivery mode of the configuration is \<open>None\<close>.\<close>

definition NewConnection :: "conn \<Rightarrow> connection_config \<Rightarrow> connection" where
  "NewConnection cn cfg =
     \<lparr>c_conn = cn, streams = fmempty,
      maxStreams = (if MaxStreams cfg = 0 then 1000 else MaxStreams cfg),
      nextStreamID = 1,
      windowSize = (if cfg_WindowSize cfg = 0 then 65535 else cfg_WindowSize cfg),
      deliveryMode = (case DeliveryMode cfg of None \<Rightarrow> DeliveryAtLeastOnce | Some m \<Rightarrow> m),
      stopped = False,
      has_onStreamOpen = cfg_onStreamOpen cfg,
      has_onStreamClose = cfg_onStreamClose cfg,
      has_onData = cfg_onData cfg,
      c_calls = []\<rparr>"

subsection \<open>Helpers on the connection\<close>

text \<open>\<open>c.writeFrame\<close> on the state: the flag says that no error was returned.\<close>

definition write_frame :: "connection \<Rightarrow> frame \<Rightarrow> bool \<times> connection" where
  "write_frame c f = (let (ok, cn) = writeFrame (c_conn c) f in (ok, c\<lparr>c_conn := cn\<rparr>))"

definition send_frame :: "connection \<Rightarrow> frame \<Rightarrow> connection" where
  "send_frame c f = snd (write_frame c f)"

definition put_stream :: "connection \<Rightarrow> 32 word \<Rightarrow> stream \<Rightarrow> connection" where
  "put_stream c sid s = c\<lparr>streams := fmupd sid s (streams c)\<rparr>"

definition note_call :: "bool \<Rightarrow> callback \<Rightarrow> connection \<Rightarrow> connection" where
  "note_call is_set cb c = (if is_set then c\<lparr>c_calls := c_calls c @ [cb]\<rparr> else c)"

definition GetStream :: "connection \<Rightarrow> 32 word \<Rightarrow> mux_error + stream" where
  "GetStream c sid =
     (case fmlookup (streams c) sid of None \<Rightarrow> Inl (Stream_Not_Found sid) | Some s \<Rightarrow> Inr s)"

definition stop :: "connection \<Rightarrow> connection" where
  "stop c = c\<lparr>stopped := True\<rparr>"

text \<open>
  The stream value \<open>OpenStream\<close> and \<open>handleHeaderFrame\<close> both build; the two ring buffers have
  the size \<open>int(c.windowSize)\<close>, which is never negative.
\<close>

definition new_stream :: "32 word \<Rightarrow> 32 word \<Rightarrow> time \<Rightarrow> time \<Rightarrow> go_panic + stream" where
  "new_stream sid win t1 t2 =
     (case NewRingBuffer (uint win) of
        Inl p \<Rightarrow> Inl p
      | Inr rb \<Rightarrow> Inr \<lparr>ID = sid, State = StreamStateOpen, ReadBuffer = rb, WriteBuffer = rb,
            WindowSize = win, UsedWindow = 0, SeqNum = 0, AckNum = 0,
            SentFrames = fmempty, Pending = fmempty, Delivered = {||},
            CreatedAt = t1, LastActivity = t2\<rparr>)"

subsection \<open>Client operations\<close>

definition OpenStream :: "connection \<Rightarrow> time \<Rightarrow> time \<Rightarrow> time \<Rightarrow> go_panic + (mux_error + 32 word) \<times> connection" where
  "OpenStream c t1 t2 t3 =
     (if maxStreams c \<le> word_of_nat (fcard (fmdom (streams c))) then Inr (Inl Max_Streams_Reached, c)
      else
        let sid = nextStreamID c;
            c1 = c\<lparr>nextStreamID := nextStreamID c + 2\<rparr>
        in (case new_stream sid (windowSize c1) t1 t2 of
              Inl p \<Rightarrow> Inl p
            | Inr s \<Rightarrow>
                let c2 = put_stream c1 sid s;
                    c3 = send_frame c2 \<lparr>StreamID = sid, Type = FrameTypeHeader, Flags = 0, Payload = [],
                                        Timestamp = t3, SequenceNum = 0\<rparr>
                in Inr (Inr sid, note_call (has_onStreamOpen c3) (OnStreamOpen sid) c3)))"

definition mux_write :: "connection \<Rightarrow> 32 word \<Rightarrow> byte list \<Rightarrow> time \<Rightarrow> time \<Rightarrow> go_panic + mux_error option \<times> connection" where
  "mux_write c sid data t1 t2 =
     (case GetStream c sid of
        Inl e \<Rightarrow> Inr (Some e, c)
      | Inr s \<Rightarrow>
          if State s \<noteq> StreamStateOpen then Inr (Some (Stream_Not_Open sid), c)
          else if UsedWindow s + word_of_nat (length data) > WindowSize s
          then Inr (Some (Window_Size_Exceeded sid), c)
          else (case rb_write (WriteBuffer s) data of
                  Inl p \<Rightarrow> Inl p
                | Inr ((_, Some e), wb) \<Rightarrow> Inr (Some (Buffer_Error e), put_stream c sid (s\<lparr>WriteBuffer := wb\<rparr>))
                | Inr ((_, None), wb) \<Rightarrow>
                    let seq = SeqNum s + 1;
                        f = \<lparr>StreamID = sid, Type = FrameTypeData, Flags = 0, Payload = data,
                             Timestamp = t2, SequenceNum = seq\<rparr>;
                        s' = s\<lparr>WriteBuffer := wb,
                               UsedWindow := UsedWindow s + word_of_nat (length data),
                               SeqNum := seq, LastActivity := t1,
                               SentFrames := fmupd seq (cloneFrame f) (SentFrames s)\<rparr>;
                        (ok, c') = write_frame (put_stream c sid s') f
                    in Inr (if ok then None else Some Write_Frame_Failed, c')))"

text \<open>\<open>Read\<close> into a slice of length \<open>k\<close>; the \<open>io.EOF\<close> of an open stream's buffer is swallowed.\<close>

definition mux_read :: "connection \<Rightarrow> 32 word \<Rightarrow> nat \<Rightarrow> go_panic + (byte list \<times> mux_error option) \<times> connection" where
  "mux_read c sid k =
     (case GetStream c sid of
        Inl e \<Rightarrow> Inr (([], Some e), c)
      | Inr s \<Rightarrow>
          if State s = StreamStateClosed \<or> State s = StreamStateError
          then Inr (([], Some (Buffer_Error EOF)), c)
          else (case rb_read (ReadBuffer s) k of
                  Inl p \<Rightarrow> Inl p
                | Inr ((bs, e), rb) \<Rightarrow>
                    Inr ((bs, if e = Some EOF \<and> State s = StreamStateOpen then None
                              else map_option Buffer_Error e),
                         put_stream c sid (s\<lparr>ReadBuffer := rb\<rparr>))))"

definition CloseStream :: "connection \<Rightarrow> 32 word \<Rightarrow> time \<Rightarrow> mux_error option \<times> connection" where
  "CloseStream c sid t =
     (case fmlookup (streams c) sid of
        None \<Rightarrow> (Some (Stream_Not_Found sid), c)
      | Some s \<Rightarrow>
          let c1 = c\<lparr>streams := fmdrop sid (streams c)\<rparr>;
              c2 = send_frame c1 \<lparr>StreamID = sid, Type = FrameTypeReset, Flags = 0, Payload = [],
                                  Timestamp = t, SequenceNum = 0\<rparr>
          in (None, note_call (has_onStreamClose c2) (OnStreamClose sid) c2))"

definition mux_close :: "connection \<Rightarrow> connection" where
  "mux_close c =
     (let c1 = stop c
      in c1\<lparr>streams := fmmap (\<lambda>s. s\<lparr>State := StreamStateClosed\<rparr>) (streams c1),
            c_conn := (c_conn c1)\<lparr>conn_closed := True\<rparr>\<rparr>)"

definition GetStreamCount :: "connection \<Rightarrow> nat" where
  "GetStreamCount c = fcard (fmdom (streams c))"

definition GetStreamStates :: "connection \<Rightarrow> (32 word, stream_state) fmap" where
  "GetStreamStates c = fmmap State (streams c)"

subsection \<open>Frame handlers\<close>

definition sendAck :: "connection \<Rightarrow> 32 word \<Rightarrow> 64 word \<Rightarrow> time \<Rightarrow> connection" where
  "sendAck c sid seq t =
     send_frame c \<lparr>StreamID = sid, Type = FrameTypeAck, Flags = 0, Payload = PutUint64 seq,
                   Timestamp = t, SequenceNum = 0\<rparr>"

definition sendNack :: "connection \<Rightarrow> 32 word \<Rightarrow> 64 word \<Rightarrow> time \<Rightarrow> connection" where
  "sendNack c sid seq t =
     send_frame c \<lparr>StreamID = sid, Type = FrameTypeNack, Flags = 0, Payload = PutUint64 seq,
                   Timestamp = t, SequenceNum = 0\<rparr>"

text \<open>
  The result of \<open>stream.ReadBuffer.Write\<close> is ignored by the handlers: a closed buffer silently
  drops the payload.
\<close>

definition buffer_payload :: "stream \<Rightarrow> byte list \<Rightarrow> go_panic + stream" where
  "buffer_payload s xs =
     (case rb_write (ReadBuffer s) xs of
        Inl p \<Rightarrow> Inl p
      | Inr (_, rb) \<Rightarrow> Inr (s\<lparr>ReadBuffer := rb\<rparr>))"

text \<open>The delivery loop of the exactly-once mode: it ends when the next number is not pending.\<close>

function deliver_pending :: "stream \<Rightarrow> go_panic + stream" where
  "deliver_pending s =
     (let nxt = AckNum s + 1
      in (case fmlookup (Pending s) nxt of
            None \<Rightarrow> Inr s
          | Some f \<Rightarrow>
              (case buffer_payload s (Payload f) of
                 Inl p \<Rightarrow> Inl p
               | Inr s1 \<Rightarrow> deliver_pending
                   (s1\<lparr>Pending := fmdrop nxt (Pending s), Delivered := finsert nxt (Delivered s), AckNum := nxt\<rparr>))))"
  by pat_completeness auto

lemma fcard_fmdom_less: "fmlookup m k = Some v \<Longrightarrow> fcard (fmdom m |-| {|k|}) < fcard (fmdom m)"
  by (rule fcard_fminus1_less) (rule fmdomI)

termination deliver_pending
  by (relation "measure (\<lambda>s. fcard (fmdom (Pending s)))") (auto intro: fcard_fmdom_less)

declare deliver_pending.simps [simp del]

text \<open>
  The part of \<open>handleDataFrame\<close> that depends on the delivery mode. The flag says whether the
  handler goes on to the window update below the switch (the exactly-once mode returns early for
  a duplicate and for a gap).
\<close>

definition deliver_data :: "connection \<Rightarrow> stream \<Rightarrow> frame \<Rightarrow> time \<Rightarrow> go_panic + bool \<times> stream \<times> connection" where
  "deliver_data c s f t =
     (case deliveryMode c of
        DeliveryAtMostOnce \<Rightarrow> map_sum id (\<lambda>s'. (True, s', c)) (buffer_payload s (Payload f))
      | DeliveryAtLeastOnce \<Rightarrow>
          map_sum id (\<lambda>s'. (True, s', sendAck c (StreamID f) (SequenceNum f) t)) (buffer_payload s (Payload f))
      | DeliveryExactlyOnce \<Rightarrow>
          if SequenceNum f |\<in>| Delivered s
          then Inr (False, s, sendAck c (StreamID f) (SequenceNum f) t)
          else let s1 = s\<lparr>Pending := fmupd (SequenceNum f) (cloneFrame f) (Pending s)\<rparr>
               in if SequenceNum f > AckNum s1 + 1
                  then Inr (False, s1, sendNack c (StreamID f) (AckNum s1 + 1) t)
                  else map_sum id (\<lambda>s2. (True, s2, sendAck c (StreamID f) (AckNum s2) t)) (deliver_pending s1)
      | DeliveryOther _ \<Rightarrow> Inr (True, s, c))"

definition release_window :: "stream \<Rightarrow> nat \<Rightarrow> stream" where
  "release_window s len =
     (let payloadSize = word_of_nat len
      in s\<lparr>UsedWindow := (if payloadSize \<ge> UsedWindow s then 0 else UsedWindow s - payloadSize)\<rparr>)"

definition handleDataFrame :: "connection \<Rightarrow> frame \<Rightarrow> time \<Rightarrow> time \<Rightarrow> go_panic + connection" where
  "handleDataFrame c f t1 t2 =
     (case GetStream c (StreamID f) of
        Inl _ \<Rightarrow> Inr c
      | Inr s \<Rightarrow>
          (case deliver_data c s f t1 of
             Inl p \<Rightarrow> Inl p
           | Inr (False, s', c') \<Rightarrow> Inr (put_stream c' (StreamID f) s')
           | Inr (True, s', c') \<Rightarrow>
               let s'' = (release_window s' (length (Payload f)))\<lparr>LastActivity := t2\<rparr>;
                   c'' = put_stream c' (StreamID f) s''
               in Inr (note_call (has_onData c'') (OnData (StreamID f) (Payload f)) c'')))"

definition handleHeaderFrame :: "connection \<Rightarrow> frame \<Rightarrow> time \<Rightarrow> time \<Rightarrow> go_panic + connection" where
  "handleHeaderFrame c f t1 t2 =
     (case fmlookup (streams c) (StreamID f) of
        Some _ \<Rightarrow> Inr c
      | None \<Rightarrow>
          (case new_stream (StreamID f) (windowSize c) t1 t2 of
             Inl p \<Rightarrow> Inl p
           | Inr s \<Rightarrow>
               let c1 = put_stream c (StreamID f) s
               in Inr (note_call (has_onStreamOpen c1) (OnStreamOpen (StreamID f)) c1)))"

definition handleResetFrame :: "connection \<Rightarrow> frame \<Rightarrow> connection" where
  "handleResetFrame c f =
     (case GetStream c (StreamID f) of
        Inl _ \<Rightarrow> c
      | Inr s \<Rightarrow>
          let c1 = put_stream c (StreamID f) (s\<lparr>State := StreamStateClosed\<rparr>)
          in note_call (has_onStreamClose c1) (OnStreamClose (StreamID f)) c1)"

definition handleWindowUpdateFrame :: "connection \<Rightarrow> frame \<Rightarrow> go_panic + connection" where
  "handleWindowUpdateFrame c f =
     (case GetStream c (StreamID f) of
        Inl _ \<Rightarrow> Inr c
      | Inr s \<Rightarrow>
          (case Uint32 (Payload f) of
             Inl p \<Rightarrow> Inl p
           | Inr increment \<Rightarrow> Inr (put_stream c (StreamID f) (s\<lparr>WindowSize := WindowSize s + increment\<rparr>))))"

text \<open>The loop of \<open>handleAckFrame\<close> deletes every key up to the acknowledged one, in any order.\<close>

definition handleAckFrame :: "connection \<Rightarrow> frame \<Rightarrow> go_panic + connection" where
  "handleAckFrame c f =
     (case GetStream c (StreamID f) of
        Inl _ \<Rightarrow> Inr c
      | Inr s \<Rightarrow>
          (case Uint64 (Payload f) of
             Inl p \<Rightarrow> Inl p
           | Inr ackNum \<Rightarrow>
               Inr (put_stream c (StreamID f)
                      (s\<lparr>SentFrames := fmfilter (\<lambda>seq. \<not> seq \<le> ackNum) (SentFrames s)\<rparr>))))"

text \<open>
  \<open>handleNackFrame\<close> collects the sent frames from the requested number on in the order \<open>ks\<close> in
  which the run time visits the map, sorts them by sequence number and sends them again.
\<close>

definition nack_frames :: "stream \<Rightarrow> 64 word \<Rightarrow> 64 word list \<Rightarrow> frame list" where
  "nack_frames s requested ks =
     sort_key SequenceNum
       (List.map_filter
          (\<lambda>seq. if seq \<ge> requested then map_option cloneFrame (fmlookup (SentFrames s) seq) else None) ks)"

definition handleNackFrame :: "connection \<Rightarrow> frame \<Rightarrow> 64 word list \<Rightarrow> go_panic + connection" where
  "handleNackFrame c f ks =
     (case GetStream c (StreamID f) of
        Inl _ \<Rightarrow> Inr c
      | Inr s \<Rightarrow>
          (case Uint64 (Payload f) of
             Inl p \<Rightarrow> Inl p
           | Inr requested \<Rightarrow> Inr (foldl send_frame c (nack_frames s requested ks))))"

definition handlePingFrame :: "connection \<Rightarrow> frame \<Rightarrow> time \<Rightarrow> connection" where
  "handlePingFrame c f t =
     send_frame c \<lparr>StreamID = 0, Type = FrameTypePong, Flags = 0, Payload = Payload f,
                   Timestamp = t, SequenceNum = 0\<rparr>"

definition handleGoAwayFrame :: "connection \<Rightarrow> connection" where
  "handleGoAwayFrame c = (stop c)\<lparr>c_conn := (c_conn (stop c))\<lparr>conn_closed := True\<rparr>\<rparr>"

definition handleFrame :: "connection \<Rightarrow> frame \<Rightarrow> time \<Rightarrow> time \<Rightarrow> 64 word list \<Rightarrow> go_panic + connection" where
  "handleFrame c f t1 t2 ks =
     (if Type f = FrameTypeData then handleDataFrame c f t1 t2
      else if Type f = FrameTypeHeader then handleHeaderFrame c f t1 t2
      else if Type f = FrameTypeReset then Inr (handleResetFrame c f)
      else if Type f = FrameTypeWindowUpdate then handleWindowUpdateFrame c f
      else if Type f = FrameTypeAck then handleAckFrame c f
      else if Type f = FrameTypeNack then handleNackFrame c f ks
      else if Type f = FrameTypePing then Inr (handlePingFrame c f t1)
      else if Type f = FrameTypeGoAway then Inr (handleGoAwayFrame c)
      else Inr c)"

text \<open>\<open>sendWindowUpdates\<close> visits the streams in the order \<open>sids\<close>; the subtractions wrap around.\<close>

definition window_update :: "connection \<Rightarrow> time \<Rightarrow> 32 word \<Rightarrow> connection" where
  "window_update c t sid =
     (case fmlookup (streams c) sid of
        None \<Rightarrow> c
      | Some s \<Rightarrow>
          let available = WindowSize s - UsedWindow s
          in if available < WindowSize s div 2
             then send_frame c \<lparr>StreamID = ID s, Type = FrameTypeWindowUpdate, Flags = 0,
                                Payload = PutUint32 (WindowSize s - available), Timestamp = t, SequenceNum = 0\<rparr>
             else c)"

definition sendWindowUpdates :: "connection \<Rightarrow> time \<Rightarrow> 32 word list \<Rightarrow> connection" where
  "sendWindowUpdates c t sids = foldl (\<lambda>c sid. window_update c t sid) c sids"

text \<open>
  \<open>readLoop\<close>: the iterations after which the goroutine returns, \<open>None\<close> when \<open>fuel\<close> iterations were
  not enough. A read error other than \<open>io.EOF\<close> is skipped with \<open>continue\<close>. \<open>clk\<close> gives the
  clock readings and \<open>ord\<close> the map orders of each iteration; a panic ends the process.
\<close>

fun readLoop :: "nat \<Rightarrow> connection \<Rightarrow> (nat \<Rightarrow> time) \<Rightarrow> (nat \<Rightarrow> 64 word list) \<Rightarrow> (go_panic + connection) option" where
  "readLoop 0 c clk ord = None"
| "readLoop (Suc fuel) c clk ord =
     (if stopped c then Some (Inr c)
      else (case readFrame (c_conn c) (clk fuel) of
              (Inl IO_EOF, cn) \<Rightarrow> Some (Inr (c\<lparr>c_conn := cn\<rparr>))
            | (Inl _, cn) \<Rightarrow> readLoop fuel (c\<lparr>c_conn := cn\<rparr>) clk ord
            | (Inr f, cn) \<Rightarrow>
                (case handleFrame (c\<lparr>c_conn := cn\<rparr>) f (clk fuel) (clk fuel) (ord fuel) of
                   Inl p \<Rightarrow> Some (Inl p)
                 | Inr c' \<Rightarrow> readLoop fuel c' clk ord)))"

end
