(* ===== verification/Delivery.thy ===== *)
theory Delivery
  imports Multiplexer
begin

section \<open>Correctness of the multiplexer\<close>

text \<open>
  What the multiplexer promises: the invariant of a connection and the exact conditions under
  which a frame from the peer crashes the process, the exactly-once delivery mode (in order,
  without duplicates, without gaps), repair of lost frames by negative acknowledgements, the
  send window, and the end of the read loop.
\<close>

subsection \<open>Invariant\<close>

definition stream_invar :: "stream \<Rightarrow> bool" where
  "stream_invar s \<longleftrightarrow>
     rb_invar (ReadBuffer s) \<and> \<not> rb_closed (ReadBuffer s)
     \<and> rb_invar (WriteBuffer s) \<and> \<not> rb_closed (WriteBuffer s)
     \<and> (\<forall>k f. fmlookup (SentFrames s) k = Some f \<longrightarrow> SequenceNum f = k)
     \<and> (\<forall>k f. fmlookup (Pending s) k = Some f \<longrightarrow> SequenceNum f = k)"

definition mux_invar :: "connection \<Rightarrow> bool" where
  "mux_invar c \<longleftrightarrow>
     0 < windowSize c \<and> (\<forall>sid s. fmlookup (streams c) sid = Some s \<longrightarrow> stream_invar s \<and> ID s = sid)"

lemma mux_invar_new: "mux_invar (NewConnection cn cfg)"
  by (auto simp: mux_invar_def NewConnection_def word_gt_0)

lemma new_stream_ok:
  assumes "0 < win"
  shows "\<exists>s. new_stream sid win t1 t2 = Inr s \<and> stream_invar s \<and> ID s = sid \<and> State s = StreamStateOpen
    \<and> rb_size (ReadBuffer s) = unat win \<and> rb_contents (ReadBuffer s) = [] \<and> WindowSize s = win
    \<and> UsedWindow s = 0 \<and> SeqNum s = 0 \<and> AckNum s = 0 \<and> SentFrames s = fmempty \<and> Pending s = fmempty
    \<and> Delivered s = {||}"
proof -
  have "0 < uint win" using assms by (simp add: word_less_def)
  from NewRingBuffer_invar [OF this] obtain rb where
    "NewRingBuffer (uint win) = Inr rb" "rb_invar rb" "rb_contents rb = []" "rb_size rb = nat (uint win)"
    "\<not> rb_closed rb" by blast
  then show ?thesis by (simp add: new_stream_def stream_invar_def)
qed

lemma write_frame_fields [simp]:
  "streams (snd (write_frame c f)) = streams c" "windowSize (snd (write_frame c f)) = windowSize c"
  "deliveryMode (snd (write_frame c f)) = deliveryMode c" "stopped (snd (write_frame c f)) = stopped c"
  "maxStreams (snd (write_frame c f)) = maxStreams c" "nextStreamID (snd (write_frame c f)) = nextStreamID c"
  by (simp_all add: write_frame_def split: prod.splits)

lemma send_frame_fields [simp]:
  "streams (send_frame c f) = streams c" "windowSize (send_frame c f) = windowSize c"
  "deliveryMode (send_frame c f) = deliveryMode c" "stopped (send_frame c f) = stopped c"
  "maxStreams (send_frame c f) = maxStreams c" "nextStreamID (send_frame c f) = nextStreamID c"
  by (simp_all add: send_frame_def)

lemma sendAck_fields [simp]:
  "streams (sendAck c sid n t) = streams c" "windowSize (sendAck c sid n t) = windowSize c"
  "deliveryMode (sendAck c sid n t) = deliveryMode c" "stopped (sendAck c sid n t) = stopped c"
  by (simp_all add: sendAck_def)

lemma sendNack_fields [simp]:
  "streams (sendNack c sid n t) = streams c" "windowSize (sendNack c sid n t) = windowSize c"
  "deliveryMode (sendNack c sid n t) = deliveryMode c" "stopped (sendNack c sid n t) = stopped c"
  by (simp_all add: sendNack_def)

lemma put_stream_fields [simp]:
  "streams (put_stream c sid s) = fmupd sid s (streams c)" "windowSize (put_stream c sid s) = windowSize c"
  "deliveryMode (put_stream c sid s) = deliveryMode c" "stopped (put_stream c sid s) = stopped c"
  by (simp_all add: put_stream_def)

lemma note_call_fields [simp]:
  "streams (note_call b cb c) = streams c" "windowSize (note_call b cb c) = windowSize c"
  "deliveryMode (note_call b cb c) = deliveryMode c" "stopped (note_call b cb c) = stopped c"
  "c_conn (note_call b cb c) = c_conn c"
  by (simp_all add: note_call_def)

lemma foldl_send_frame_fields [simp]:
  "streams (foldl send_frame c fs) = streams c" "windowSize (foldl send_frame c fs) = windowSize c"
  "deliveryMode (foldl send_frame c fs) = deliveryMode c" "stopped (foldl send_frame c fs) = stopped c"
  by (induction fs arbitrary: c) auto

lemma mux_invar_put:
  "mux_invar c \<Longrightarrow> stream_invar s \<Longrightarrow> ID s = sid \<Longrightarrow> mux_invar (put_stream c sid s)"
  by (auto simp: mux_invar_def)

lemma mux_invar_cong:
  "streams c' = streams c \<Longrightarrow> windowSize c' = windowSize c \<Longrightarrow> mux_invar c' = mux_invar c"
  by (simp add: mux_invar_def)

lemma mux_invar_note_call [simp]: "mux_invar (note_call b cb c) = mux_invar c"
  by (rule mux_invar_cong) simp_all

lemma mux_invar_stream:
  "mux_invar c \<Longrightarrow> fmlookup (streams c) sid = Some s \<Longrightarrow> stream_invar s \<and> ID s = sid"
  by (auto simp: mux_invar_def)

lemma buffer_payload_ok:
  assumes "stream_invar s"
  shows "\<exists>rb. buffer_payload s xs = Inr (s\<lparr>ReadBuffer := rb\<rparr>) \<and> stream_invar (s\<lparr>ReadBuffer := rb\<rparr>)
    \<and> rb_size rb = rb_size (ReadBuffer s)
    \<and> rb_contents rb = last_n (rb_size (ReadBuffer s)) (rb_contents (ReadBuffer s) @ xs)"
proof -
  from assms have "rb_invar (ReadBuffer s)" "\<not> rb_closed (ReadBuffer s)" by (simp_all add: stream_invar_def)
  from rb.write_ok [OF this, of xs] assms show ?thesis by (auto simp: buffer_payload_def stream_invar_def)
qed

text \<open>The delivery loop never panics and keeps the invariant.\<close>

lemma deliver_pending_ok:
  "stream_invar s \<Longrightarrow> \<exists>s'. deliver_pending s = Inr s' \<and> stream_invar s' \<and> ID s' = ID s"
proof (induction s rule: deliver_pending.induct)
  case (1 s)
  show ?case
  proof (cases "fmlookup (Pending s) (AckNum s + 1)")
    case None
    with 1(2) show ?thesis by (simp add: deliver_pending.simps [of s])
  next
    case (Some f)
    from buffer_payload_ok [OF 1(2), of "Payload f"] obtain rb where
      rb: "buffer_payload s (Payload f) = Inr (s\<lparr>ReadBuffer := rb\<rparr>)" "stream_invar (s\<lparr>ReadBuffer := rb\<rparr>)" by blast
    let ?s = "s\<lparr>ReadBuffer := rb, Pending := fmdrop (AckNum s + 1) (Pending s),
                Delivered := finsert (AckNum s + 1) (Delivered s), AckNum := AckNum s + 1\<rparr>"
    have "stream_invar ?s" using rb(2) by (auto simp: stream_invar_def)
    with 1(1) [OF refl Some rb(1)] obtain s' where "deliver_pending ?s = Inr s'" "stream_invar s'" "ID s' = ID s"
      by auto
    with Some rb(1) show ?thesis by (simp add: deliver_pending.simps [of s])
  qed
qed

lemma stream_invar_pending:
  "stream_invar s \<Longrightarrow> stream_invar (s\<lparr>Pending := fmupd (SequenceNum f) f (Pending s)\<rparr>)"
  by (auto simp: stream_invar_def)

lemma deliver_data_ok:
  assumes "stream_invar s"
  shows "\<exists>b s' c'. deliver_data c s f t = Inr (b, s', c') \<and> stream_invar s' \<and> ID s' = ID s
    \<and> streams c' = streams c \<and> windowSize c' = windowSize c"
proof (cases "deliveryMode c")
  case DeliveryAtMostOnce
  with buffer_payload_ok [OF assms, of "Payload f"] show ?thesis by (auto simp: deliver_data_def)
next
  case DeliveryAtLeastOnce
  with buffer_payload_ok [OF assms, of "Payload f"] show ?thesis by (auto simp: deliver_data_def)
next
  case DeliveryExactlyOnce
  from deliver_pending_ok [OF stream_invar_pending [OF assms], of f] DeliveryExactlyOnce
    stream_invar_pending [OF assms, of f] assms
  show ?thesis by (auto simp: deliver_data_def Let_def)
next
  case DeliveryOther
  with assms show ?thesis by (auto simp: deliver_data_def)
qed

lemma handleDataFrame_ok:
  assumes "mux_invar c"
  shows "\<exists>c'. handleDataFrame c f t1 t2 = Inr c' \<and> mux_invar c'"
proof (cases "fmlookup (streams c) (StreamID f)")
  case None
  with assms show ?thesis by (simp add: handleDataFrame_def GetStream_def)
next
  case (Some s)
  from mux_invar_stream [OF assms Some] have s: "stream_invar s" "ID s = StreamID f" by simp_all
  from deliver_data_ok [OF s(1), of c f t1] obtain b s' c' where
    d: "deliver_data c s f t1 = Inr (b, s', c')" "stream_invar s'" "ID s' = ID s"
    "streams c' = streams c" "windowSize c' = windowSize c" by blast
  have c': "mux_invar c'" using assms mux_invar_cong [OF d(4,5)] by simp
  let ?s = "(release_window s' (length (Payload f)))\<lparr>LastActivity := t2\<rparr>"
  have "stream_invar ?s" "ID ?s = StreamID f"
    using d s by (simp_all add: release_window_def Let_def stream_invar_def)
  with c' have "mux_invar (put_stream c' (StreamID f) ?s)" by (rule mux_invar_put)
  moreover have "mux_invar (put_stream c' (StreamID f) s')" using c' d s by (auto intro: mux_invar_put)
  ultimately show ?thesis using Some d(1)
    by (cases b) (simp_all add: handleDataFrame_def GetStream_def Let_def)
qed

lemma handleHeaderFrame_ok:
  assumes "mux_invar c"
  shows "\<exists>c'. handleHeaderFrame c f t1 t2 = Inr c' \<and> mux_invar c'"
proof (cases "fmlookup (streams c) (StreamID f)")
  case None
  from assms have "0 < windowSize c" by (simp add: mux_invar_def)
  from new_stream_ok [OF this, of "StreamID f" t1 t2] obtain s where
    "new_stream (StreamID f) (windowSize c) t1 t2 = Inr s" "stream_invar s" "ID s = StreamID f" by blast
  with None assms show ?thesis by (simp add: handleHeaderFrame_def Let_def mux_invar_def)
qed (use assms in \<open>simp add: handleHeaderFrame_def\<close>)

lemma handleResetFrame_ok: "mux_invar c \<Longrightarrow> mux_invar (handleResetFrame c f)"
  by (auto simp: handleResetFrame_def GetStream_def Let_def mux_invar_def stream_invar_def split: option.splits)

text \<open>The frames a peer can send to crash the process: too short a payload on a known stream.\<close>

definition crashing_frame :: "connection \<Rightarrow> frame \<Rightarrow> bool" where
  "crashing_frame c f \<longleftrightarrow>
     StreamID f |\<in>| fmdom (streams c)
     \<and> (Type f = FrameTypeWindowUpdate \<and> length (Payload f) < 4
        \<or> (Type f = FrameTypeAck \<or> Type f = FrameTypeNack) \<and> length (Payload f) < 8)"

lemma control_handlers_ok:
  assumes "mux_invar c" and "\<not> crashing_frame c f"
  shows "Type f = FrameTypeWindowUpdate \<Longrightarrow> \<exists>c'. handleWindowUpdateFrame c f = Inr c' \<and> mux_invar c'"
    and "Type f = FrameTypeAck \<Longrightarrow> \<exists>c'. handleAckFrame c f = Inr c' \<and> mux_invar c'"
    and "Type f = FrameTypeNack \<Longrightarrow> \<exists>c'. handleNackFrame c f ks = Inr c' \<and> mux_invar c'"
  using assms
  by (auto simp: handleWindowUpdateFrame_def handleAckFrame_def handleNackFrame_def GetStream_def
      Uint32_def Uint64_def crashing_frame_def mux_invar_def stream_invar_def fmdomI split: option.splits)

lemma control_handlers_crash:
  assumes "crashing_frame c f"
  shows "Type f = FrameTypeWindowUpdate \<Longrightarrow> handleWindowUpdateFrame c f = Inl Index_Out_Of_Range"
    and "Type f = FrameTypeAck \<Longrightarrow> handleAckFrame c f = Inl Index_Out_Of_Range"
    and "Type f = FrameTypeNack \<Longrightarrow> handleNackFrame c f ks = Inl Index_Out_Of_Range"
  using assms
  by (auto simp: handleWindowUpdateFrame_def handleAckFrame_def handleNackFrame_def GetStream_def
      Uint32_def Uint64_def crashing_frame_def split: option.splits dest: fmdom_notI)

lemma handleFrame_ok:
  assumes "mux_invar c" and "\<not> crashing_frame c f"
  shows "\<exists>c'. handleFrame c f t1 t2 ks = Inr c' \<and> mux_invar c'"
proof -
  have ping: "mux_invar (handlePingFrame c f t1)" and away: "mux_invar (handleGoAwayFrame c)"
    using assms(1) by (simp_all add: handlePingFrame_def handleGoAwayFrame_def stop_def mux_invar_def)
  show ?thesis
    unfolding handleFrame_def
    using handleDataFrame_ok [OF assms(1), of f t1 t2] handleHeaderFrame_ok [OF assms(1), of f t1 t2]
      handleResetFrame_ok [OF assms(1), of f] control_handlers_ok [OF assms] ping away assms(1)
    by auto
qed

lemma handleFrame_crash:
  assumes "crashing_frame c f"
  shows "handleFrame c f t1 t2 ks = Inl Index_Out_Of_Range"
proof -
  from assms consider "Type f = FrameTypeWindowUpdate" | "Type f = FrameTypeAck" | "Type f = FrameTypeNack"
    by (auto simp: crashing_frame_def)
  then show ?thesis using control_handlers_crash [OF assms] by cases (simp_all add: handleFrame_def)
qed

subsection \<open>Exactly-once delivery\<close>

text \<open>The sequence numbers \<open>1, \<dots>, a\<close>.\<close>

definition seqs :: "64 word \<Rightarrow> 64 word list" where
  "seqs a = map word_of_nat [1..<Suc (unat a)]"

lemma seqs_0 [simp]: "seqs 0 = []"
  by (simp add: seqs_def)

lemma seqs_Suc: "a + 1 \<noteq> 0 \<Longrightarrow> seqs (a + 1) = seqs a @ [a + 1]"
  by (simp add: seqs_def unat_plus_one word_of_nat_eq_iff)

text \<open>
  What the receiving stream knows while the bytes \<open>got\<close> have been read from it and the payload
  of frame number \<open>k\<close> is \<open>p k\<close>: the delivered numbers are an initial segment, the read bytes and
  the buffered bytes together are the payloads of that segment, and the next number is not pending.
\<close>

definition eo_inv :: "(64 word \<Rightarrow> byte list) \<Rightarrow> byte list \<Rightarrow> stream \<Rightarrow> bool" where
  "eo_inv p got s \<longleftrightarrow>
     stream_invar s \<and> State s = StreamStateOpen
     \<and> (\<forall>k. k |\<in>| Delivered s \<longleftrightarrow> 1 \<le> k \<and> k \<le> AckNum s)
     \<and> (\<forall>k f. fmlookup (Pending s) k = Some f \<longrightarrow> Payload f = p k \<and> k \<noteq> 0)
     \<and> got @ rb_contents (ReadBuffer s) = concat (map p (seqs (AckNum s)))"

definition fits :: "(64 word \<Rightarrow> byte list) \<Rightarrow> stream \<Rightarrow> bool" where
  "fits p s \<longleftrightarrow> (\<forall>a. length (concat (map p (seqs a))) \<le> rb_size (ReadBuffer s))"

definition arrived :: "stream \<Rightarrow> 64 word \<Rightarrow> bool" where
  "arrived s k \<longleftrightarrow> k |\<in>| Delivered s \<or> k |\<in>| fmdom (Pending s)"

lemma eo_deliver_one:
  assumes "eo_inv p got s" "fits p s" "fmlookup (Pending s) (AckNum s + 1) = Some f"
  shows "\<exists>rb. buffer_payload s (Payload f) = Inr (s\<lparr>ReadBuffer := rb\<rparr>) \<and> rb_size rb = rb_size (ReadBuffer s)
    \<and> eo_inv p got (s\<lparr>ReadBuffer := rb, Pending := fmdrop (AckNum s + 1) (Pending s),
         Delivered := finsert (AckNum s + 1) (Delivered s), AckNum := AckNum s + 1\<rparr>)"
proof -
  let ?n = "AckNum s + 1"
  from assms(1,3) have inv: "stream_invar s" and f: "Payload f = p ?n" "?n \<noteq> 0"
    and del: "\<And>k. k |\<in>| Delivered s \<longleftrightarrow> 1 \<le> k \<and> k \<le> AckNum s"
    and got: "got @ rb_contents (ReadBuffer s) = concat (map p (seqs (AckNum s)))"
    by (auto simp: eo_inv_def)
  from buffer_payload_ok [OF inv, of "Payload f"] obtain rb where
    rb: "buffer_payload s (Payload f) = Inr (s\<lparr>ReadBuffer := rb\<rparr>)" "stream_invar (s\<lparr>ReadBuffer := rb\<rparr>)"
      "rb_size rb = rb_size (ReadBuffer s)"
      "rb_contents rb = last_n (rb_size (ReadBuffer s)) (rb_contents (ReadBuffer s) @ Payload f)" by blast
  have all: "concat (map p (seqs ?n)) = got @ rb_contents (ReadBuffer s) @ Payload f"
    using got f by (simp add: seqs_Suc flip: append_assoc)
  moreover have "length (concat (map p (seqs ?n))) \<le> rb_size (ReadBuffer s)"
    using assms(2) by (simp add: fits_def)
  ultimately have "rb_contents rb = rb_contents (ReadBuffer s) @ Payload f"
    using rb(4) by simp
  moreover have "k \<le> ?n \<longleftrightarrow> k = ?n \<or> k \<le> AckNum s" for k
    using f(2) by (rule word_le_plus_one)
  moreover have "1 \<le> ?n" using f(2) by (simp add: one_le_word_iff)
  ultimately show ?thesis using rb assms(1) all del
    by (auto simp: eo_inv_def stream_invar_def)
qed

lemma eo_deliver_pending:
  assumes "eo_inv p got s" "fits p s"
  shows "\<exists>s'. deliver_pending s = Inr s' \<and> eo_inv p got s' \<and> fits p s' \<and> fmlookup (Pending s') (AckNum s' + 1) = None
    \<and> (\<forall>k. arrived s k \<longrightarrow> arrived s' k)"
  using assms
proof (induction s rule: deliver_pending.induct)
  case (1 s)
  show ?case
  proof (cases "fmlookup (Pending s) (AckNum s + 1)")
    case None
    with 1(2,3) show ?thesis by (simp add: deliver_pending.simps [of s])
  next
    case (Some f)
    let ?next = "\<lambda>rb. s\<lparr>ReadBuffer := rb, Pending := fmdrop (AckNum s + 1) (Pending s),
         Delivered := finsert (AckNum s + 1) (Delivered s), AckNum := AckNum s + 1\<rparr>"
    from eo_deliver_one [OF 1(2,3) Some] obtain rb where
      rb: "buffer_payload s (Payload f) = Inr (s\<lparr>ReadBuffer := rb\<rparr>)" "rb_size rb = rb_size (ReadBuffer s)"
        "eo_inv p got (?next rb)" by blast
    have "fits p (?next rb)" using 1(3) rb(2) by (simp add: fits_def)
    moreover have "arrived s k \<Longrightarrow> arrived (?next rb) k" for k by (auto simp: arrived_def)
    ultimately obtain s' where "deliver_pending (?next rb) = Inr s'" "eo_inv p got s'" "fits p s'"
      "fmlookup (Pending s') (AckNum s' + 1) = None" "\<forall>k. arrived s k \<longrightarrow> arrived s' k"
      using 1(1) [OF refl Some rb(1)] rb(3) by auto
    with Some rb(1) show ?thesis by (simp add: deliver_pending.simps [of s])
  qed
qed

text \<open>One data frame: a duplicate, a frame ahead of a gap, or the next frame.\<close>

lemma eo_deliver_data:
  assumes "eo_inv p got s" "fits p s" "fmlookup (Pending s) (AckNum s + 1) = None"
    and "deliveryMode c = DeliveryExactlyOnce" "SequenceNum f \<noteq> 0" "Payload f = p (SequenceNum f)"
  shows "\<exists>b s' c'. deliver_data c s f t = Inr (b, s', c') \<and> eo_inv p got s' \<and> fits p s'
    \<and> fmlookup (Pending s') (AckNum s' + 1) = None \<and> arrived s' (SequenceNum f)
    \<and> (\<forall>k. arrived s k \<longrightarrow> arrived s' k)
    \<and> streams c' = streams c \<and> deliveryMode c' = deliveryMode c \<and> windowSize c' = windowSize c"
proof -
  let ?n = "SequenceNum f"
  let ?s1 = "s\<lparr>Pending := fmupd ?n f (Pending s)\<rparr>"
  have s1: "eo_inv p got ?s1" "fits p ?s1"
    using assms(1,2,5,6) stream_invar_pending [of s f] by (auto simp: eo_inv_def fits_def)
  have mono: "arrived s k \<Longrightarrow> arrived ?s1 k" "arrived ?s1 ?n" for k by (auto simp: arrived_def)
  consider "?n |\<in>| Delivered s" | "?n |\<notin>| Delivered s" "AckNum s + 1 < ?n"
    | "?n |\<notin>| Delivered s" "\<not> AckNum s + 1 < ?n" by blast
  then show ?thesis
  proof cases
    case 1
    with assms show ?thesis by (auto simp: deliver_data_def arrived_def)
  next
    case 2
    with assms(3,4) s1 mono show ?thesis by (auto simp: deliver_data_def)
  next
    case 3
    from eo_deliver_pending [OF s1] 3 assms(4) mono show ?thesis
      by (auto simp: deliver_data_def)
  qed
qed

text \<open>Arrivals of data frames interleaved with reads of the consumer.\<close>

datatype rx_event = Arrive frame time time | Consume nat

fun receive :: "connection \<Rightarrow> 32 word \<Rightarrow> rx_event list \<Rightarrow> go_panic + byte list \<times> connection" where
  "receive c sid [] = Inr ([], c)"
| "receive c sid (Arrive f t1 t2 # es) =
     (case handleFrame c f t1 t2 [] of Inl p \<Rightarrow> Inl p | Inr c' \<Rightarrow> receive c' sid es)"
| "receive c sid (Consume k # es) =
     (case mux_read c sid k of
        Inl p \<Rightarrow> Inl p
      | Inr ((bs, _), c') \<Rightarrow> map_sum id (\<lambda>(got, c''). (bs @ got, c'')) (receive c' sid es))"

definition data_frame :: "(64 word \<Rightarrow> byte list) \<Rightarrow> 32 word \<Rightarrow> frame \<Rightarrow> bool" where
  "data_frame p sid f \<longleftrightarrow>
     Type f = FrameTypeData \<and> StreamID f = sid \<and> SequenceNum f \<noteq> 0 \<and> Payload f = p (SequenceNum f)"

fun good_event :: "(64 word \<Rightarrow> byte list) \<Rightarrow> 32 word \<Rightarrow> rx_event \<Rightarrow> bool" where
  "good_event p sid (Arrive f t1 t2) = data_frame p sid f"
| "good_event p sid (Consume k) = True"

fun event_seqs :: "rx_event list \<Rightarrow> 64 word list" where
  "event_seqs [] = []"
| "event_seqs (Arrive f t1 t2 # es) = SequenceNum f # event_seqs es"
| "event_seqs (Consume k # es) = event_seqs es"

text \<open>The state of a connection that receives on stream \<open>sid\<close> in the exactly-once mode.\<close>

definition eo_conn :: "(64 word \<Rightarrow> byte list) \<Rightarrow> 32 word \<Rightarrow> byte list \<Rightarrow> connection \<Rightarrow> stream \<Rightarrow> bool" where
  "eo_conn p sid got c s \<longleftrightarrow>
     deliveryMode c = DeliveryExactlyOnce \<and> fmlookup (streams c) sid = Some s
     \<and> eo_inv p got s \<and> fits p s \<and> fmlookup (Pending s) (AckNum s + 1) = None"

lemma eo_arrive:
  assumes "eo_conn p sid got c s" "data_frame p sid f"
  shows "\<exists>c' s'. handleFrame c f t1 t2 ks = Inr c' \<and> eo_conn p sid got c' s' \<and> arrived s' (SequenceNum f)
    \<and> (\<forall>k. arrived s k \<longrightarrow> arrived s' k)"
proof -
  from assms obtain b s' c' where d: "deliver_data c s f t1 = Inr (b, s', c')" "eo_inv p got s'" "fits p s'"
    "fmlookup (Pending s') (AckNum s' + 1) = None" "arrived s' (SequenceNum f)"
    "\<forall>k. arrived s k \<longrightarrow> arrived s' k" "deliveryMode c' = DeliveryExactlyOnce"
    using eo_deliver_data [of p got s c f t1] by (auto simp: eo_conn_def data_frame_def)
  let ?s = "(release_window s' (length (Payload f)))\<lparr>LastActivity := t2\<rparr>"
  have "eo_inv p got ?s" "fits p ?s" "\<And>k. arrived ?s k = arrived s' k"
    "fmlookup (Pending ?s) (AckNum ?s + 1) = None"
    using d(2,3,4) by (auto simp: eo_inv_def fits_def arrived_def release_window_def Let_def stream_invar_def)
  with assms d show ?thesis
    by (cases b) (auto simp: handleFrame_def handleDataFrame_def GetStream_def eo_conn_def data_frame_def Let_def)
qed

lemma eo_consume:
  assumes "eo_conn p sid got c s"
  shows "\<exists>bs e c' s'. mux_read c sid k = Inr ((bs, e), c') \<and> eo_conn p sid (got @ bs) c' s'
    \<and> (\<forall>k. arrived s k \<longrightarrow> arrived s' k)"
proof -
  from assms have s: "fmlookup (streams c) sid = Some s" "eo_inv p got s" "fits p s"
    "State s = StreamStateOpen" "stream_invar s" by (auto simp: eo_conn_def eo_inv_def)
  then have "rb_invar (ReadBuffer s)" by (simp add: stream_invar_def)
  from rb.read_ok [OF this, of k] obtain e rb where r: "rb_read (ReadBuffer s) k = Inr ((take k (rb_contents (ReadBuffer s)), e), rb)"
    "rb_invar rb" "rb_size rb = rb_size (ReadBuffer s)" "rb_closed rb = rb_closed (ReadBuffer s)"
    "rb_contents rb = drop k (rb_contents (ReadBuffer s))" by blast
  have "eo_inv p (got @ take k (rb_contents (ReadBuffer s))) (s\<lparr>ReadBuffer := rb\<rparr>)"
    using s r by (auto simp: eo_inv_def stream_invar_def)
  with assms s r show ?thesis
    by (auto simp: mux_read_def GetStream_def eo_conn_def fits_def arrived_def)
qed

lemma eo_receive:
  assumes "eo_conn p sid got c s" "list_all (good_event p sid) es"
  shows "\<exists>bs c' s'. receive c sid es = Inr (bs, c') \<and> eo_conn p sid (got @ bs) c' s'
    \<and> (\<forall>k. arrived s k \<or> k \<in> set (event_seqs es) \<longrightarrow> arrived s' k)"
  using assms
proof (induction es arbitrary: got c s rule: event_seqs.induct)
  case 1
  then show ?case by auto
next
  case (2 f t1 t2 es)
  then obtain c' s' where "handleFrame c f t1 t2 [] = Inr c'" "eo_conn p sid got c' s'"
    "arrived s' (SequenceNum f)" "\<forall>k. arrived s k \<longrightarrow> arrived s' k"
    using eo_arrive [of p sid got c s f t1 t2 "[]"] by auto
  with 2(1) [of got c' s'] 2(3) show ?case by fastforce
next
  case (3 k es)
  then obtain bs e c' s' where "mux_read c sid k = Inr ((bs, e), c')" "eo_conn p sid (got @ bs) c' s'"
    "\<forall>k. arrived s k \<longrightarrow> arrived s' k"
    using eo_consume [of p sid got c s k] by auto
  with 3(1) [of "got @ bs" c' s'] 3(3) show ?case by fastforce
qed

lemma eo_all_arrived:
  assumes "eo_conn p sid got c s" "n \<noteq> 0" "\<And>k. k \<noteq> 0 \<Longrightarrow> k \<le> n \<Longrightarrow> arrived s k"
  shows "n \<le> AckNum s"
proof (rule ccontr)
  assume "\<not> n \<le> AckNum s"
  then have lt: "AckNum s < n" by simp
  then have nz: "AckNum s + 1 \<noteq> 0" by (metis add_diff_cancel_right' diff_0 word_not_simps(3))
  have "AckNum s + 1 \<le> n" using lt by (simp add: inc_le)
  with assms(3) nz have "arrived s (AckNum s + 1)" by blast
  moreover have "\<not> AckNum s + 1 \<le> AckNum s"
    using nz by (simp add: word_le_nat_alt unat_plus_one)
  ultimately show False using assms(1) by (auto simp: arrived_def eo_conn_def eo_inv_def fmlookup_dom_iff)
qed

subsection \<open>The sending side\<close>

text \<open>A sequence of writes on one stream, each whatever the outcome of the one before.\<close>

fun write_all :: "connection \<Rightarrow> 32 word \<Rightarrow> byte list list \<Rightarrow> time \<Rightarrow> go_panic + connection" where
  "write_all c sid [] t = Inr c"
| "write_all c sid (w # ws) t =
     (case mux_write c sid w t t of Inl p \<Rightarrow> Inl p | Inr (_, c') \<Rightarrow> write_all c' sid ws t)"

definition payload_of :: "byte list list \<Rightarrow> 64 word \<Rightarrow> byte list" where
  "payload_of ws k = (if 1 \<le> unat k \<and> unat k \<le> length ws then ws ! (unat k - 1) else [])"

text \<open>The sender has kept a frame for each of the writes \<open>ws\<close>.\<close>

definition sender_kept :: "32 word \<Rightarrow> byte list list \<Rightarrow> stream \<Rightarrow> bool" where
  "sender_kept sid ws s \<longleftrightarrow>
     State s = StreamStateOpen \<and> SeqNum s = word_of_nat (length ws)
     \<and> unat (UsedWindow s) = length (concat ws)
     \<and> (\<forall>k. k |\<in>| fmdom (SentFrames s) \<longleftrightarrow> 1 \<le> unat k \<and> unat k \<le> length ws)
     \<and> (\<forall>k f. fmlookup (SentFrames s) k = Some f \<longrightarrow> data_frame (payload_of ws) sid f)"

lemma mux_write_in_window:
  assumes "mux_invar c" "fmlookup (streams c) sid = Some s" "State s = StreamStateOpen"
    and "unat (UsedWindow s) + length data \<le> unat (WindowSize s)"
  shows "\<exists>r c' wb. mux_write c sid data t1 t2 = Inr (r, c') \<and> mux_invar c'
    \<and> (tx_ok (c_conn c) \<longrightarrow> r = None \<and> tx_ok (c_conn c')) \<and> (r = None \<or> r = Some Write_Frame_Failed)
    \<and> fmlookup (streams c') sid =
        Some (s\<lparr>WriteBuffer := wb, UsedWindow := UsedWindow s + word_of_nat (length data), SeqNum := SeqNum s + 1,
                LastActivity := t1,
                SentFrames := fmupd (SeqNum s + 1)
                  \<lparr>StreamID = sid, Type = FrameTypeData, Flags = 0, Payload = data, Timestamp = t2,
                   SequenceNum = SeqNum s + 1\<rparr> (SentFrames s)\<rparr>)"
proof -
  from mux_invar_stream [OF assms(1,2)] have inv: "stream_invar s" "ID s = sid" by simp_all
  then have "rb_invar (WriteBuffer s)" "\<not> rb_closed (WriteBuffer s)" by (simp_all add: stream_invar_def)
  from rb.write_ok [OF this, of data] obtain n wb where wb: "rb_write (WriteBuffer s) data = Inr ((n, None), wb)"
    "rb_invar wb" "\<not> rb_closed wb" by auto
  have small: "unat (WindowSize s) < 2 ^ 32" using unsigned_less [of "WindowSize s", where ?'a = nat] by simp
  have "unat (UsedWindow s + word_of_nat (length data)) = unat (UsedWindow s) + length data"
    using assms(4) small by (simp add: unat_word_ariths unat_of_nat)
  then have win: "\<not> WindowSize s < UsedWindow s + word_of_nat (length data)"
    using assms(4) by (simp add: word_less_nat_alt)
  let ?f = "\<lparr>StreamID = sid, Type = FrameTypeData, Flags = 0, Payload = data, Timestamp = t2,
             SequenceNum = SeqNum s + 1\<rparr>"
  let ?s = "s\<lparr>WriteBuffer := wb, UsedWindow := UsedWindow s + word_of_nat (length data), SeqNum := SeqNum s + 1,
              LastActivity := t1, SentFrames := fmupd (SeqNum s + 1) ?f (SentFrames s)\<rparr>"
  have si: "stream_invar ?s" using inv wb by (auto simp: stream_invar_def)
  obtain ok c' where w: "write_frame (put_stream c sid ?s) ?f = (ok, c')" by fastforce
  have c': "streams c' = fmupd sid ?s (streams c)" "windowSize c' = windowSize c"
    using write_frame_fields(1,2) [of "put_stream c sid ?s" ?f] w by simp_all
  have "mux_invar c'"
    using mux_invar_put [OF assms(1) si, of sid] inv(2) mux_invar_cong [of c' "put_stream c sid ?s"] c' by simp
  moreover have "tx_ok (c_conn c) \<Longrightarrow> ok \<and> tx_ok (c_conn c')"
    using w writeFrame_tx_ok [of "c_conn c" ?f] by (auto simp: write_frame_def put_stream_def split: prod.splits)
  moreover have "mux_write c sid data t1 t2 = Inr (if ok then None else Some Write_Frame_Failed, c')"
    using assms(2,3) win wb(1) w by (simp add: mux_write_def GetStream_def Let_def)
  moreover have "fmlookup (streams c') sid = Some ?s" using c' by simp
  ultimately show ?thesis by (intro exI conjI) (assumption | simp)+
qed

lemma payload_of_snoc:
  "unat k \<le> length ws \<Longrightarrow> payload_of (ws @ [w]) k = payload_of ws k"
  by (auto simp: payload_of_def nth_append)

lemma sender_kept_write:
  assumes "mux_invar c" "fmlookup (streams c) sid = Some s" "sender_kept sid ws s"
    and "length (concat (ws @ [w])) \<le> unat (WindowSize s)" "Suc (length ws) < 2 ^ 64"
  shows "\<exists>r c' s'. mux_write c sid w t t = Inr (r, c') \<and> mux_invar c' \<and> fmlookup (streams c') sid = Some s'
    \<and> sender_kept sid (ws @ [w]) s' \<and> WindowSize s' = WindowSize s"
proof -
  from assms(3) have k: "State s = StreamStateOpen" "SeqNum s = word_of_nat (length ws)"
    "unat (UsedWindow s) = length (concat ws)"
    "\<And>k. k |\<in>| fmdom (SentFrames s) \<longleftrightarrow> 1 \<le> unat k \<and> unat k \<le> length ws"
    "\<And>k f. fmlookup (SentFrames s) k = Some f \<Longrightarrow> data_frame (payload_of ws) sid f"
    by (auto simp: sender_kept_def)
  have fit: "unat (UsedWindow s) + length w \<le> unat (WindowSize s)" using assms(4) k(3) by simp
  from mux_write_in_window [OF assms(1,2) k(1) fit, of t t] obtain r c' wb where w:
    "mux_write c sid w t t = Inr (r, c')" "mux_invar c'"
    "fmlookup (streams c') sid =
        Some (s\<lparr>WriteBuffer := wb, UsedWindow := UsedWindow s + word_of_nat (length w), SeqNum := SeqNum s + 1,
                LastActivity := t,
                SentFrames := fmupd (SeqNum s + 1)
                  \<lparr>StreamID = sid, Type = FrameTypeData, Flags = 0, Payload = w, Timestamp = t,
                   SequenceNum = SeqNum s + 1\<rparr> (SentFrames s)\<rparr>)" (is "_ = Some ?s'") by blast
  have "unat (WindowSize s) < 2 ^ 32" using unsigned_less [of "WindowSize s", where ?'a = nat] by simp
  then have used: "unat (UsedWindow ?s') = length (concat (ws @ [w]))"
    using fit k(3) by (simp add: unat_word_ariths unat_of_nat)
  have nxt: "unat (SeqNum s + 1) = Suc (length ws)" "SeqNum s + 1 = word_of_nat (Suc (length ws))"
    using assms(5) k(2) by (simp_all add: unat_word_ariths unat_of_nat)
  then have nz: "SeqNum s + 1 \<noteq> 0" by (metis unat_0 nat.distinct(1))
  have dom: "k |\<in>| fmdom (SentFrames ?s') \<longleftrightarrow> 1 \<le> unat k \<and> unat k \<le> Suc (length ws)" for k
    using nxt(1) k(4) [of k] by (cases "k = SeqNum s + 1") (auto simp: le_Suc_eq Suc_le_eq word_unat_eq_iff)
  have old: "data_frame (payload_of (ws @ [w])) sid f" if "fmlookup (SentFrames s) q = Some f" for q f
  proof -
    have "SequenceNum f = q"
      using mux_invar_stream [OF assms(1,2)] that by (auto simp: stream_invar_def)
    with k(4) [of q] that have "unat (SequenceNum f) \<le> length ws" by (auto simp: fmdomI)
    with k(5) [OF that] show ?thesis by (simp add: data_frame_def payload_of_snoc)
  qed
  have new: "payload_of (ws @ [w]) (SeqNum s + 1) = w" using nxt(1) by (simp add: payload_of_def)
  have "sender_kept sid (ws @ [w]) ?s'"
    unfolding sender_kept_def using k(1) nxt nz used dom old new by (auto simp: data_frame_def)
  with w show ?thesis by fastforce
qed

lemma sender_kept_write_all:
  assumes "mux_invar c" "fmlookup (streams c) sid = Some s" "sender_kept sid ws s"
    and "length (concat (ws @ vs)) \<le> unat (WindowSize s)" "length (ws @ vs) < 2 ^ 64"
  shows "\<exists>c' s'. write_all c sid vs t = Inr c' \<and> mux_invar c' \<and> fmlookup (streams c') sid = Some s'
    \<and> sender_kept sid (ws @ vs) s'"
  using assms
proof (induction vs arbitrary: c s ws)
  case (Cons v vs)
  have 1: "length (concat (ws @ [v])) \<le> unat (WindowSize s)" "Suc (length ws) < 2 ^ 64" using Cons(5,6) by simp_all
  from sender_kept_write [OF Cons(2,3,4) 1, of t] obtain r c' s' where
    "mux_write c sid v t t = Inr (r, c')" "mux_invar c'" "fmlookup (streams c') sid = Some s'"
    "sender_kept sid (ws @ [v]) s'" "WindowSize s' = WindowSize s" by blast
  with Cons(1) [of c' s' "ws @ [v]"] Cons(5,6) show ?case by simp
qed auto

text \<open>A frame on the wire is one the sender has kept, up to the time stamp of its arrival.\<close>

fun sent_event :: "stream \<Rightarrow> rx_event \<Rightarrow> bool" where
  "sent_event s (Arrive f t1 t2) =
     (case fmlookup (SentFrames s) (SequenceNum f) of
        None \<Rightarrow> False
      | Some g \<Rightarrow> f = g\<lparr>Timestamp := Timestamp f\<rparr>)"
| "sent_event s (Consume k) = True"

lemma sent_event_good:
  assumes "sender_kept sid ws s" "list_all (sent_event s) es"
  shows "list_all (good_event (payload_of ws) sid) es"
proof -
  have "good_event (payload_of ws) sid e" if e: "sent_event s e" for e
  proof (cases e)
    case (Arrive f t1 t2)
    with e obtain g where g: "fmlookup (SentFrames s) (SequenceNum f) = Some g" "f = g\<lparr>Timestamp := Timestamp f\<rparr>"
      by (auto split: option.splits)
    with assms(1) have "data_frame (payload_of ws) sid g" by (auto simp: sender_kept_def)
    with g(2) have "data_frame (payload_of ws) sid f"
      by (metis (no_types, lifting) data_frame_def frame.select_convs(1,2,4,6) frame.surjective frame.update_convs(5))
    with Arrive show ?thesis by simp
  qed simp
  with assms(2) show ?thesis by (auto simp: list_all_iff)
qed

lemma concat_payload_of: "concat (map (payload_of ws) (seqs a)) = concat (take (unat a) ws)"
proof -
  have "map (payload_of ws) (seqs a)
    = map (\<lambda>i. if i < length ws then ws ! i else []) [0..<unat a]" (is "?l = map ?g _")
  proof (rule nth_equalityI)
    fix i assume "i < length ?l"
    then have i: "i < unat a" by (simp add: seqs_def del: upt_Suc)
    have "unat a < 2 ^ 64" using unsigned_less [of a, where ?'a = nat] by simp
    with i have "unat (word_of_nat (Suc i) :: 64 word) = Suc i" by (simp add: unat_of_nat del: of_nat_Suc)
    with i show "?l ! i = map ?g [0..<unat a] ! i" by (simp add: seqs_def payload_of_def del: upt_Suc of_nat_Suc)
  qed (simp add: seqs_def del: upt_Suc)
  moreover have "concat (map ?g [0..<n]) = concat (take n ws)" for n
    by (induction n) (simp_all add: take_Suc_conv_app_nth)
  ultimately show ?thesis by simp
qed

lemma OpenStream_fresh:
  "\<exists>c s. OpenStream (NewConnection cn cfg) t1 t2 t3 = Inr (Inr 1, c) \<and> mux_invar c
    \<and> fmlookup (streams c) 1 = Some s \<and> sender_kept 1 [] s \<and> WindowSize s = windowSize (NewConnection cn cfg)"
proof -
  let ?c = "NewConnection cn cfg"
  have "0 < windowSize ?c" using mux_invar_new [of cn cfg] by (simp add: mux_invar_def)
  from new_stream_ok [OF this, of 1 t1 t2] obtain s where
    s: "new_stream 1 (windowSize ?c) t1 t2 = Inr s" "stream_invar s" "ID s = 1" "State s = StreamStateOpen"
    "WindowSize s = windowSize ?c" "UsedWindow s = 0" "SeqNum s = 0" "SentFrames s = fmempty" by blast
  have "\<not> maxStreams ?c \<le> 0" "streams ?c = fmempty" "nextStreamID ?c = 1"
    by (auto simp: NewConnection_def)
  with s mux_invar_new [of cn cfg] show ?thesis
    by (auto simp: OpenStream_def Let_def mux_invar_def sender_kept_def fcard_fempty)
qed

lemma eo_handshake:
  assumes "mux_invar c" "deliveryMode c = DeliveryExactlyOnce" "sid |\<notin>| fmdom (streams c)" "StreamID h = sid"
    and "length (concat ws) \<le> unat (windowSize c)"
  shows "\<exists>c0 s. handleHeaderFrame c h t1 t2 = Inr c0 \<and> eo_conn (payload_of ws) sid [] c0 s"
proof -
  from assms(1) have "0 < windowSize c" by (simp add: mux_invar_def)
  from new_stream_ok [OF this, of sid t1 t2] obtain s where
    s: "new_stream sid (windowSize c) t1 t2 = Inr s" "stream_invar s" "State s = StreamStateOpen"
    "rb_size (ReadBuffer s) = unat (windowSize c)" "rb_contents (ReadBuffer s) = []" "AckNum s = 0"
    "Pending s = fmempty" "Delivered s = {||}" by blast
  have "length (concat (take n ws)) \<le> length (concat ws)" for n
    by (metis append_take_drop_id concat_append le_add1 length_append)
  then have "fits (payload_of ws) s" using s assms(5) by (auto simp: fits_def concat_payload_of intro: le_trans)
  moreover have "eo_inv (payload_of ws) [] s" using s by (auto simp: eo_inv_def one_le_word_iff)
  ultimately show ?thesis using assms s
    by (auto simp: handleHeaderFrame_def Let_def eo_conn_def fmlookup_dom_iff split: option.splits)
qed

lemma eo_conn_bytes:
  "eo_conn (payload_of ws) sid got c s \<Longrightarrow>
     fmlookup (streams c) sid = Some s \<and> got @ rb_contents (ReadBuffer s) = concat (take (unat (AckNum s)) ws)"
  by (simp add: eo_conn_def eo_inv_def concat_payload_of)

lemma eo_complete:
  assumes "eo_conn (payload_of ws) sid got c s" "length ws < 2 ^ 64"
    and "\<And>k. 1 \<le> unat k \<Longrightarrow> unat k \<le> length ws \<Longrightarrow> arrived s k"
  shows "got @ rb_contents (ReadBuffer s) = concat ws"
proof -
  have "length ws \<le> unat (AckNum s)"
  proof (cases "ws = []")
    case False
    let ?n = "word_of_nat (length ws) :: 64 word"
    have n: "unat ?n = length ws" using assms(2) by (simp add: unat_of_nat)
    then have "?n \<noteq> 0" using False by (metis length_0_conv unat_0)
    moreover have "arrived s k" if "k \<noteq> 0" "k \<le> ?n" for k
      using assms(3) [of k] that n by (simp add: word_le_nat_alt Suc_le_eq unat_gt_0)
    ultimately have "?n \<le> AckNum s" using eo_all_arrived [OF assms(1)] by blast
    with n show ?thesis by (simp add: word_le_nat_alt)
  qed simp
  with eo_conn_bytes [OF assms(1)] show ?thesis by simp
qed

lemma sender_fresh_kept:
  assumes "OpenStream (NewConnection scn scfg) t t t = Inr (Inr sid, c0)"
    and "length (concat ws) \<le> unat (windowSize (NewConnection scn scfg))" "length ws < 2 ^ 64"
  shows "\<exists>c1 s1. write_all c0 sid ws t = Inr c1 \<and> mux_invar c1 \<and> fmlookup (streams c1) sid = Some s1
    \<and> sender_kept sid ws s1"
proof -
  from OpenStream_fresh [of scn scfg t t t] assms(1) obtain s where "sid = 1" "mux_invar c0"
    "fmlookup (streams c0) sid = Some s" "sender_kept sid [] s" "WindowSize s = windowSize (NewConnection scn scfg)"
    by auto
  with sender_kept_write_all [of c0 sid s "[]" ws t] assms(2,3) show ?thesis by auto
qed

text \<open>
  C2: exactly-once delivery from end to end. A sender opens a stream and writes the messages
  \<open>ws\<close> on it; the receiver, in the exactly-once mode, learns of the stream from its header frame
  and then sees, interleaved with reads of its user, any sequence of arrivals of the frames that
  were sent: reordered, duplicated, and with losses. Nothing crashes; the bytes read, followed by
  those still buffered, are always the messages of an initial segment of \<open>ws\<close>, in order and
  without duplicates; and once every frame has arrived at least once, they are all of \<open>ws\<close>. The
  condition on the receiver is that the messages fit its buffer, which overwrites silently.
\<close>

theorem exactly_once_end_to_end:
  assumes "OpenStream (NewConnection scn scfg) t t t = Inr (Inr sid, c0)"
    and "length (concat ws) \<le> unat (windowSize (NewConnection scn scfg))" "length ws < 2 ^ 64"
    and "write_all c0 sid ws t = Inr c1" "fmlookup (streams c1) sid = Some s1"
    and "mux_invar rc" "deliveryMode rc = DeliveryExactlyOnce" "sid |\<notin>| fmdom (streams rc)"
    and "length (concat ws) \<le> unat (windowSize rc)"
    and "StreamID h = sid" "handleHeaderFrame rc h t1 t2 = Inr rc0"
    and "list_all (sent_event s1) es"
  shows "\<exists>got rc1 rs. receive rc0 sid es = Inr (got, rc1) \<and> fmlookup (streams rc1) sid = Some rs
    \<and> got @ rb_contents (ReadBuffer rs) = concat (take (unat (AckNum rs)) ws)
    \<and> (fset (fmdom (SentFrames s1)) \<subseteq> set (event_seqs es)
        \<longrightarrow> got @ rb_contents (ReadBuffer rs) = concat ws)"
proof -
  from sender_fresh_kept [OF assms(1-3)] assms(4,5) have k: "sender_kept sid ws s1" by auto
  from eo_handshake [OF assms(6-8,10,9), of t1 t2] assms(11) obtain s where
    "eo_conn (payload_of ws) sid [] rc0 s" by auto
  from eo_receive [OF this sent_event_good [OF k assms(12)]] obtain got rc1 rs where
    r: "receive rc0 sid es = Inr (got, rc1)" "eo_conn (payload_of ws) sid got rc1 rs"
    "\<And>k. k \<in> set (event_seqs es) \<Longrightarrow> arrived rs k" by auto
  have "got @ rb_contents (ReadBuffer rs) = concat ws" if "fset (fmdom (SentFrames s1)) \<subseteq> set (event_seqs es)"
    using eo_complete [OF r(2) assms(3)] r(3) that k by (auto simp: sender_kept_def)
  with r(1) eo_conn_bytes [OF r(2)] show ?thesis by blast
qed

text \<open>A concrete session: a window of 8 bytes, two messages, sent frames looked up by number.\<close>

definition quiet_conn :: conn where
  "quiet_conn = \<lparr>rx = [], rx_end = IO_EOF, tx = [], tx_calls = 0, tx_fate = (\<lambda>_. None), conn_closed = False\<rparr>"

definition small_config :: connection_config where
  "small_config = \<lparr>MaxStreams = 4, cfg_WindowSize = 8, DeliveryMode = Some DeliveryExactlyOnce,
     cfg_onStreamOpen = False, cfg_onStreamClose = False, cfg_onData = True\<rparr>"

abbreviation small_connection :: connection where
  "small_connection \<equiv> NewConnection quiet_conn small_config"

definition header_frame :: "32 word \<Rightarrow> frame" where
  "header_frame sid = \<lparr>StreamID = sid, Type = FrameTypeHeader, Flags = 0, Payload = [], Timestamp = 0, SequenceNum = 0\<rparr>"

definition sent_frame :: "stream \<Rightarrow> 64 word \<Rightarrow> frame" where
  "sent_frame s k = (case fmlookup (SentFrames s) k of Some f \<Rightarrow> f | None \<Rightarrow> header_frame 0)"

lemma small_connection_simps [simp]:
  "windowSize small_connection = 8" "deliveryMode small_connection = DeliveryExactlyOnce"
  "streams small_connection = fmempty" "mux_invar small_connection"
  using mux_invar_new [of quiet_conn small_config] by (simp_all add: NewConnection_def small_config_def)

lemma small_session:
  "\<exists>c0 c1 s1 rc0. OpenStream small_connection 5 5 5 = Inr (Inr 1, c0) \<and> write_all c0 1 [[10, 11], [12]] 5 = Inr c1
    \<and> fmlookup (streams c1) 1 = Some s1 \<and> handleHeaderFrame small_connection (header_frame 1) 6 6 = Inr rc0
    \<and> fset (fmdom (SentFrames s1)) = {1, 2}
    \<and> (\<forall>k \<in> {1, 2}. sent_event s1 (Arrive (sent_frame s1 k) 7 7) \<and> SequenceNum (sent_frame s1 k) = k)"
proof -
  obtain c0 where o: "OpenStream small_connection 5 5 5 = Inr (Inr 1, c0)"
    using OpenStream_fresh by blast
  obtain c1 s1 where w: "write_all c0 1 [[10, 11], [12]] 5 = Inr c1" "mux_invar c1"
    "fmlookup (streams c1) 1 = Some s1" "sender_kept 1 [[10, 11], [12]] s1"
    using sender_fresh_kept [OF o, of "[[10, 11], [12]]"] by auto
  obtain rc0 where h: "handleHeaderFrame small_connection (header_frame 1) 6 6 = Inr rc0"
    using handleHeaderFrame_ok [of small_connection "header_frame 1" 6 6] by auto
  have "k |\<in>| fmdom (SentFrames s1) \<longleftrightarrow> k = 1 \<or> k = 2" for k
  proof -
    have "k |\<in>| fmdom (SentFrames s1) \<longleftrightarrow> unat k = 1 \<or> unat k = 2"
      using w(4) by (auto simp: sender_kept_def)
    moreover have "unat k = 1 \<longleftrightarrow> k = 1" "unat k = 2 \<longleftrightarrow> k = 2"
      by (simp_all add: word_unat_eq_iff)
    ultimately show ?thesis by simp
  qed
  then have dom: "fset (fmdom (SentFrames s1)) = {1, 2}" by auto
  have "sent_event s1 (Arrive (sent_frame s1 k) 7 7) \<and> SequenceNum (sent_frame s1 k) = k" if "k \<in> {1, 2}" for k
  proof -
    from that dom obtain f where f: "fmlookup (SentFrames s1) k = Some f" by (metis fmlookup_dom_iff)
    then have "SequenceNum f = k" using mux_invar_stream [OF w(2,3)] by (auto simp: stream_invar_def)
    with f show ?thesis by (simp add: sent_frame_def)
  qed
  with o w h dom show ?thesis by blast
qed

theorem exactly_once_end_to_end_witness:
  "\<exists>s1 rc0 got rc1 rs.
     receive rc0 1 [Arrive (sent_frame s1 2) 7 7, Consume 1, Arrive (sent_frame s1 2) 7 7,
                    Arrive (sent_frame s1 1) 7 7, Consume 2] = Inr (got, rc1)
     \<and> fmlookup (streams rc1) 1 = Some rs \<and> got @ rb_contents (ReadBuffer rs) = [10, 11, 12]"
proof -
  obtain c0 c1 s1 rc0 where s: "OpenStream small_connection 5 5 5 = Inr (Inr 1, c0)"
    "write_all c0 1 [[10, 11], [12]] 5 = Inr c1" "fmlookup (streams c1) 1 = Some s1"
    "handleHeaderFrame small_connection (header_frame 1) 6 6 = Inr rc0"
    "fset (fmdom (SentFrames s1)) = {1, 2}"
    "\<And>k. k = 1 \<or> k = 2 \<Longrightarrow> sent_event s1 (Arrive (sent_frame s1 k) 7 7) \<and> SequenceNum (sent_frame s1 k) = k"
    using small_session by blast
  show ?thesis
    using exactly_once_end_to_end [OF s(1) _ _ s(2,3) _ _ _ _ _ s(4), where es = "[Arrive (sent_frame s1 2) 7 7,
        Consume 1, Arrive (sent_frame s1 2) 7 7, Arrive (sent_frame s1 1) 7 7, Consume 2]"] s(5,6)
    by (fastforce simp: header_frame_def simp del: sent_event.simps(1))
qed

subsection \<open>Negative acknowledgements\<close>

lemma insort_key_map_id:
  "(\<And>k. k \<in> insert x (set zs) \<Longrightarrow> h (g k) = k) \<Longrightarrow> insort_key h (g x) (map g zs) = map g (insort x zs)"
  by (induction zs) auto

lemma sort_key_map_id:
  "(\<And>k. k \<in> set ys \<Longrightarrow> h (g k) = k) \<Longrightarrow> sort_key h (map g ys) = map g (sort ys)"
proof (induction ys)
  case (Cons y ys)
  have "sort_key h (map g (y # ys)) = insort_key h (g y) (map g (sort ys))" using Cons by simp
  also have "\<dots> = map g (insort y (sort ys))" using Cons(2) by (intro insort_key_map_id) auto
  finally show ?case by simp
qed simp

lemma nack_frames_sorted:
  assumes "stream_invar s" "distinct ks" "set ks = fset (fmdom (SentFrames s))"
  shows "nack_frames s r ks = map (sent_frame s) (sorted_list_of_set {k \<in> fset (fmdom (SentFrames s)). r \<le> k})"
proof -
  have dom: "k \<in> set ks \<Longrightarrow> fmlookup (SentFrames s) k = Some (sent_frame s k)" for k
    using assms(3) by (auto simp: sent_frame_def fmlookup_dom_iff)
  then have "set zs \<subseteq> set ks \<Longrightarrow>
      List.map_filter (\<lambda>seq. if r \<le> seq then map_option cloneFrame (fmlookup (SentFrames s) seq) else None) zs
      = map (sent_frame s) (filter (\<lambda>k. r \<le> k) zs)" for zs
    by (induction zs) (auto simp: List.map_filter_def)
  then have "nack_frames s r ks = sort_key SequenceNum (map (sent_frame s) (filter (\<lambda>k. r \<le> k) ks))"
    by (simp add: nack_frames_def)
  also have "\<dots> = map (sent_frame s) (sort (filter (\<lambda>k. r \<le> k) ks))"
    using dom assms(1) by (intro sort_key_map_id) (auto simp: stream_invar_def)
  also have "sort (filter (\<lambda>k. r \<le> k) ks) = sorted_list_of_set {k \<in> fset (fmdom (SentFrames s)). r \<le> k}"
    using sorted_list_of_set_sort_remdups [of "filter (\<lambda>k. r \<le> k) ks"] assms(2,3)
    by (simp add: distinct_remdups_id)
  finally show ?thesis .
qed

lemma foldl_send_frame_tx:
  "tx_ok (c_conn c) \<Longrightarrow> tx (c_conn (foldl send_frame c fs)) = tx (c_conn c) @ concat (map frame_bytes fs)
     \<and> tx_ok (c_conn (foldl send_frame c fs))"
proof (induction fs arbitrary: c)
  case (Cons f fs)
  from writeFrame_tx_ok [OF Cons(2), of f] have "tx (c_conn (send_frame c f)) = tx (c_conn c) @ frame_bytes f"
    "tx_ok (c_conn (send_frame c f))" by (auto simp: send_frame_def write_frame_def)
  with Cons(1) show ?case by simp
qed simp

text \<open>
  A negative acknowledgement for number \<open>r\<close> makes the sender put on the wire exactly the
  frames it still keeps from \<open>r\<close> on, each once and in ascending order, whatever the order \<open>ks\<close>
  in which the run time enumerates the map; the streams are unchanged.
\<close>

theorem nack_resends_in_order:
  assumes "mux_invar c" "fmlookup (streams c) (StreamID f) = Some s" "tx_ok (c_conn c)"
    and "Payload f = PutUint64 r" "distinct ks" "set ks = fset (fmdom (SentFrames s))"
  shows "\<exists>c'. handleNackFrame c f ks = Inr c' \<and> streams c' = streams c
    \<and> tx (c_conn c') = tx (c_conn c)
        @ concat (map (\<lambda>k. frame_bytes (sent_frame s k)) (sorted_list_of_set {k \<in> fset (fmdom (SentFrames s)). r \<le> k}))"
proof -
  have "stream_invar s" using mux_invar_stream [OF assms(1,2)] by simp
  moreover have "Uint64 (Payload f) = Inr r" using Uint64_PutUint64 [of r "[]"] assms(4) by simp
  ultimately show ?thesis
    using assms(2,5,6) foldl_send_frame_tx [OF assms(3)]
    by (simp add: handleNackFrame_def GetStream_def nack_frames_sorted comp_def)
qed

definition demo_frame :: "64 word \<Rightarrow> byte list \<Rightarrow> frame" where
  "demo_frame k bs = \<lparr>StreamID = 1, Type = FrameTypeData, Flags = 0, Payload = bs, Timestamp = 0, SequenceNum = k\<rparr>"

definition nack_frame :: "64 word \<Rightarrow> frame" where
  "nack_frame r = \<lparr>StreamID = 1, Type = FrameTypeNack, Flags = 0, Payload = PutUint64 r, Timestamp = 0, SequenceNum = 0\<rparr>"

theorem nack_resends_in_order_witness:
  "\<exists>c s c'. fmlookup (streams c) 1 = Some s \<and> fset (fmdom (SentFrames s)) = {1, 2, 3}
     \<and> handleNackFrame c (nack_frame 2) [3, 1, 2] = Inr c'
     \<and> tx (c_conn c') = frame_bytes (demo_frame 2 [11]) @ frame_bytes (demo_frame 3 [12])"
proof -
  obtain s0 where s0: "stream_invar s0" "ID s0 = 1" using new_stream_ok [of 8 1 5 5] by auto
  let ?s = "s0\<lparr>SentFrames := fmupd 3 (demo_frame 3 [12]) (fmupd 2 (demo_frame 2 [11]) (fmupd 1 (demo_frame 1 [10]) fmempty))\<rparr>"
  let ?c = "put_stream small_connection 1 ?s"
  have "mux_invar ?c" by (rule mux_invar_put) (use s0 in \<open>auto simp: stream_invar_def demo_frame_def\<close>)
  moreover have "c_conn ?c = quiet_conn" by (simp add: put_stream_def NewConnection_def)
  moreover have "tx_ok quiet_conn" "tx quiet_conn = []" by (simp_all add: quiet_conn_def tx_ok_def)
  moreover have "sorted_list_of_set {k \<in> {3, 2, 1 :: 64 word}. 2 \<le> k} = [2, 3]"
  proof -
    have "{k \<in> {3, 2, 1 :: 64 word}. 2 \<le> k} = set [2, 3]" by (auto simp: word_le_nat_alt)
    then show ?thesis by (simp only: sorted_list_of_set_sort_remdups) simp
  qed
  ultimately have "\<exists>c'. handleNackFrame ?c (nack_frame 2) [3, 1, 2] = Inr c'
     \<and> tx (c_conn c') = frame_bytes (demo_frame 2 [11]) @ frame_bytes (demo_frame 3 [12])"
    using nack_resends_in_order [of ?c "nack_frame 2" ?s 2 "[3, 1, 2]"]
    by (auto simp: nack_frame_def sent_frame_def)
  moreover have "fmlookup (streams ?c) 1 = Some ?s" "fset (fmdom (SentFrames ?s)) = {1, 2, 3}" by auto
  ultimately show ?thesis by blast
qed

text \<open>
  C3: one negative acknowledgement repairs every loss. After any arrivals whatsoever, the
  receiver asks for \<open>AckNum + 1\<close>; the sender, which may have dropped the frames up to any number
  \<open>a\<close> the receiver has acknowledged, resends; when these frames arrive, the receiver has all the
  messages, in order and once.
\<close>

theorem nack_round_repairs:
  assumes "OpenStream (NewConnection scn scfg) t t t = Inr (Inr sid, c0)"
    and "length (concat ws) \<le> unat (windowSize (NewConnection scn scfg))" "length ws < 2 ^ 64"
    and "write_all c0 sid ws t = Inr c1" "fmlookup (streams c1) sid = Some s1"
    and "mux_invar rc" "deliveryMode rc = DeliveryExactlyOnce" "sid |\<notin>| fmdom (streams rc)"
    and "length (concat ws) \<le> unat (windowSize rc)"
    and "StreamID h = sid" "handleHeaderFrame rc h t1 t2 = Inr rc0"
    and "list_all (sent_event s1) es" "receive rc0 sid es = Inr (got, rc1)" "fmlookup (streams rc1) sid = Some rs"
    and "a \<le> AckNum rs" "s2 = s1\<lparr>SentFrames := fmfilter (\<lambda>seq. \<not> seq \<le> a) (SentFrames s1)\<rparr>"
    and "distinct ks" "set ks = fset (fmdom (SentFrames s2))"
  shows "\<exists>rc2 rs2. receive rc1 sid (map (\<lambda>f. Arrive f t3 t4) (nack_frames s2 (AckNum rs + 1) ks)) = Inr ([], rc2)
    \<and> fmlookup (streams rc2) sid = Some rs2 \<and> got @ rb_contents (ReadBuffer rs2) = concat ws"
proof -
  from sender_fresh_kept [OF assms(1-3)] assms(4,5) have k: "sender_kept sid ws s1" and i: "stream_invar s1"
    by (auto dest: mux_invar_stream)
  from eo_handshake [OF assms(6-8,10,9), of t1 t2] assms(11) obtain s where
    "eo_conn (payload_of ws) sid [] rc0 s" by auto
  from eo_receive [OF this sent_event_good [OF k assms(12)]] assms(13,14) have
    r: "eo_conn (payload_of ws) sid got rc1 rs" by (auto simp: eo_conn_def)
  let ?D = "{k \<in> fset (fmdom (SentFrames s2)). AckNum rs + 1 \<le> k}"
  let ?es = "map (\<lambda>f. Arrive f t3 t4) (nack_frames s2 (AckNum rs + 1) ks)"
  have nf: "nack_frames s2 (AckNum rs + 1) ks = map (sent_frame s2) (sorted_list_of_set ?D)"
    by (rule nack_frames_sorted) (use i assms(16-18) in \<open>auto simp: stream_invar_def\<close>)
  have sf: "fmlookup (SentFrames s1) q = Some (sent_frame s2 q) \<and> SequenceNum (sent_frame s2 q) = q" if "q \<in> ?D" for q
    using that i by (auto simp: assms(16) sent_frame_def stream_invar_def fmlookup_dom_iff split: if_splits)
  then have "list_all (sent_event s1) ?es" by (fastforce simp: nf list_all_iff)
  from eo_receive [OF r sent_event_good [OF k this]] obtain bs rc2 rs2 where
    r2: "receive rc1 sid ?es = Inr (bs, rc2)" "eo_conn (payload_of ws) sid (got @ bs) rc2 rs2"
    "\<And>q. arrived rs q \<or> q \<in> set (event_seqs ?es) \<Longrightarrow> arrived rs2 q" by blast
  have ev: "event_seqs (map (\<lambda>f. Arrive f t3 t4) fs) = map SequenceNum fs" for fs by (induction fs) auto
  have "set (event_seqs ?es) = (\<lambda>q. SequenceNum (sent_frame s2 q)) ` ?D"
    unfolding ev nf by (simp add: image_image)
  also have "\<dots> = (\<lambda>q. q) ` ?D" using sf by (intro image_cong) auto
  finally have D: "set (event_seqs ?es) = ?D" by simp
  have "arrived rs2 q" if "1 \<le> unat q" "unat q \<le> length ws" for q
  proof (cases "q \<le> AckNum rs")
    case True
    with r that show ?thesis by (intro r2(3)) (auto simp: eo_conn_def eo_inv_def arrived_def word_le_nat_alt)
  next
    case False
    then have "\<not> q \<le> a" "AckNum rs + 1 \<le> q" using assms(15) by (auto simp: inc_le)
    with k that have "q \<in> ?D" by (auto simp: sender_kept_def assms(16))
    with D show ?thesis by (intro r2(3)) blast
  qed
  with eo_complete [OF r2(2) assms(3)] have "(got @ bs) @ rb_contents (ReadBuffer rs2) = concat ws" by blast
  moreover have "bs = []"
  proof -
    have "receive c sid (map (\<lambda>f. Arrive f t3 t4) fs) = Inr (bs, c') \<Longrightarrow> bs = []" for c c' fs
      by (induction fs arbitrary: c) (auto split: sum.splits)
    with r2(1) show ?thesis by blast
  qed
  ultimately show ?thesis using r2(1,2) by (auto simp: eo_conn_def)
qed

theorem nack_round_repairs_witness:
  "\<exists>s1 s2 rc0 got rc1 rs rc2 rs2.
     receive rc0 1 [Arrive (sent_frame s1 2) 7 7, Consume 1] = Inr (got, rc1)
     \<and> fmlookup (streams rc1) 1 = Some rs
     \<and> receive rc1 1 (map (\<lambda>f. Arrive f 8 8) (nack_frames s2 (AckNum rs + 1) [2, 1])) = Inr ([], rc2)
     \<and> fmlookup (streams rc2) 1 = Some rs2 \<and> got @ rb_contents (ReadBuffer rs2) = [10, 11, 12]"
proof -
  obtain c0 c1 s1 rc0 where s: "OpenStream small_connection 5 5 5 = Inr (Inr 1, c0)"
    "write_all c0 1 [[10, 11], [12]] 5 = Inr c1" "fmlookup (streams c1) 1 = Some s1"
    "handleHeaderFrame small_connection (header_frame 1) 6 6 = Inr rc0"
    "fset (fmdom (SentFrames s1)) = {1, 2}"
    "sent_event s1 (Arrive (sent_frame s1 2) 7 7)"
    using small_session by blast
  let ?ws = "[[10, 11], [12]] :: byte list list"
  let ?es = "[Arrive (sent_frame s1 2) 7 7, Consume 1]"
  let ?s2 = "s1\<lparr>SentFrames := fmfilter (\<lambda>seq. \<not> seq \<le> 0) (SentFrames s1)\<rparr>"
  have good: "list_all (sent_event s1) ?es" using s(6) by (simp del: sent_event.simps(1))
  have k: "sender_kept 1 ?ws s1" using sender_fresh_kept [OF s(1), of ?ws] s(2,3) by auto
  from eo_handshake [of small_connection 1 "header_frame 1" ?ws 6 6] s(4) obtain s where
    "eo_conn (payload_of ?ws) 1 [] rc0 s" by (auto simp: header_frame_def)
  from eo_receive [OF this sent_event_good [OF k good]] obtain got rc1 rs where
    r: "receive rc0 1 ?es = Inr (got, rc1)" "fmlookup (streams rc1) 1 = Some rs" by (auto simp: eo_conn_def)
  have dom: "set [2, 1] = fset (fmdom (SentFrames ?s2))" using s(5) by auto
  have "\<exists>rc2 rs2. receive rc1 1 (map (\<lambda>f. Arrive f 8 8) (nack_frames ?s2 (AckNum rs + 1) [2, 1])) = Inr ([], rc2)
     \<and> fmlookup (streams rc2) 1 = Some rs2 \<and> got @ rb_contents (ReadBuffer rs2) = concat ?ws"
    by (rule nack_round_repairs [OF s(1) _ _ s(2,3) _ _ _ _ _ s(4) good r _ refl _ dom])
      (simp_all add: header_frame_def)
  with r show ?thesis by fastforce
qed

subsection \<open>Frames from the peer\<close>

text \<open>
  C4: which frames of the peer crash the process. In a well-formed state a frame makes a handler
  panic exactly when it is a window update, an acknowledgement or a negative acknowledgement on a
  known stream with fewer payload bytes than its counter needs; every other frame, of any type and
  content, is handled and keeps the state well-formed.
\<close>

theorem handleFrame_crash_iff:
  assumes "mux_invar c"
  shows "(handleFrame c f t1 t2 ks = Inl Index_Out_Of_Range \<longleftrightarrow> crashing_frame c f)
    \<and> (\<not> crashing_frame c f \<longrightarrow> (\<exists>c'. handleFrame c f t1 t2 ks = Inr c' \<and> mux_invar c'))"
  using handleFrame_ok [OF assms, of f t1 t2 ks] handleFrame_crash [of c f t1 t2 ks] by fastforce

theorem handleFrame_crash_iff_witness:
  "\<exists>c. mux_invar c \<and> handleFrame c \<lparr>StreamID = 1, Type = FrameTypeAck, Flags = 0, Payload = [0],
      Timestamp = 0, SequenceNum = 0\<rparr> 1 2 [] = Inl Index_Out_Of_Range"
proof -
  obtain c where c: "handleHeaderFrame small_connection (header_frame 1) 6 6 = Inr c" "mux_invar c"
    using handleHeaderFrame_ok [of small_connection "header_frame 1" 6 6] by auto
  moreover have "1 |\<in>| fmdom (streams c)"
    using c(1) by (auto simp: handleHeaderFrame_def header_frame_def Let_def split: sum.splits)
  ultimately show ?thesis
    using handleFrame_crash_iff [OF c(2), where ks = "[]"] by (auto simp: crashing_frame_def)
qed

fun write_frames :: "conn \<Rightarrow> frame list \<Rightarrow> conn" where
  "write_frames c [] = c"
| "write_frames c (f # fs) = write_frames (snd (writeFrame c f)) fs"

fun read_frames :: "nat \<Rightarrow> conn \<Rightarrow> time \<Rightarrow> read_error + frame list \<times> conn" where
  "read_frames 0 c now = Inr ([], c)"
| "read_frames (Suc n) c now =
     (case readFrame c now of
        (Inl e, _) \<Rightarrow> Inl e
      | (Inr f, c') \<Rightarrow> map_sum id (\<lambda>(fs, c''). (f # fs, c'')) (read_frames n c' now))"

lemma write_frames_tx:
  "tx_ok c \<Longrightarrow> tx (write_frames c fs) = tx c @ concat (map frame_bytes fs)"
proof (induction fs arbitrary: c)
  case (Cons f fs)
  from writeFrame_tx_ok [OF Cons(2), of f] show ?case using Cons(1) by fastforce
qed simp

lemma read_frames_concat:
  "list_all (\<lambda>f. length (Payload f) < 2 ^ 32) fs \<Longrightarrow>
   read_frames (length fs) (c\<lparr>rx := concat (map frame_bytes fs)\<rparr>) now
     = Inr (map (\<lambda>f. f\<lparr>Timestamp := now\<rparr>) fs, c\<lparr>rx := []\<rparr>)"
  by (induction fs) (simp_all add: readFrame_frame_bytes)

text \<open>
  C5: round trip of the wire format. The frames one end writes, one after the other, are the
  frames the other end reads, in order and with nothing left over, apart from the time stamp,
  which is the time of arrival; the payload length must fit its 32 bit field.
\<close>

theorem frames_roundtrip:
  assumes "tx_ok c" "tx c = []" "list_all (\<lambda>f. length (Payload f) < 2 ^ 32) fs"
  shows "read_frames (length fs) (peer\<lparr>rx := tx (write_frames c fs)\<rparr>) now
    = Inr (map (\<lambda>f. f\<lparr>Timestamp := now\<rparr>) fs, peer\<lparr>rx := []\<rparr>)"
  using assms by (simp add: write_frames_tx read_frames_concat)

theorem frames_roundtrip_witness:
  "read_frames 2 (quiet_conn\<lparr>rx := tx (write_frames quiet_conn [demo_frame 1 [10], header_frame 3])\<rparr>) 9
    = Inr ([(demo_frame 1 [10])\<lparr>Timestamp := 9\<rparr>, (header_frame 3)\<lparr>Timestamp := 9\<rparr>], quiet_conn\<lparr>rx := []\<rparr>)"
proof -
  have "tx_ok quiet_conn" "tx quiet_conn = []" by (simp_all add: quiet_conn_def tx_ok_def)
  moreover have "list_all (\<lambda>f. length (Payload f) < 2 ^ 32) [demo_frame 1 [10], header_frame 3]"
    by (simp add: demo_frame_def header_frame_def)
  ultimately show ?thesis
    using frames_roundtrip [of quiet_conn "[demo_frame 1 [10], header_frame 3]" quiet_conn 9]
    by (simp add: numeral_2_eq_2 del: read_frames.simps write_frames.simps)
qed

subsection \<open>The read loop\<close>

lemma send_frame_rx [simp]:
  "rx (c_conn (send_frame c f)) = rx (c_conn c)" "rx_end (c_conn (send_frame c f)) = rx_end (c_conn c)"
  by (simp_all add: send_frame_def write_frame_def case_prod_unfold Let_def)

lemma foldl_send_frame_rx [simp]:
  "rx (c_conn (foldl send_frame c fs)) = rx (c_conn c)"
  "rx_end (c_conn (foldl send_frame c fs)) = rx_end (c_conn c)"
  by (induction fs arbitrary: c) simp_all

lemma put_stream_conn [simp]: "c_conn (put_stream c sid s) = c_conn c"
  by (simp add: put_stream_def)

lemma deliver_data_rx:
  "deliver_data c s f t = Inr (b, s', c') \<Longrightarrow> rx (c_conn c') = rx (c_conn c) \<and> rx_end (c_conn c') = rx_end (c_conn c)"
  by (auto simp: deliver_data_def sendAck_def sendNack_def Let_def map_sum_def
      split: delivery.splits if_splits sum.splits)

lemma handleFrame_rx:
  assumes "handleFrame c f t1 t2 ks = Inr c'"
  shows "rx (c_conn c') = rx (c_conn c) \<and> rx_end (c_conn c') = rx_end (c_conn c)"
proof -
  have "handleDataFrame c f t1 t2 = Inr c' \<Longrightarrow> ?thesis"
    by (auto simp: handleDataFrame_def Let_def dest!: deliver_data_rx split: sum.splits bool.splits)
  moreover have "handleHeaderFrame c f t1 t2 = Inr c' \<Longrightarrow> ?thesis"
    by (auto simp: handleHeaderFrame_def Let_def split: option.splits sum.splits)
  moreover have "handleResetFrame c f = c' \<Longrightarrow> ?thesis"
    by (auto simp: handleResetFrame_def Let_def split: sum.splits)
  moreover have "handleWindowUpdateFrame c f = Inr c' \<Longrightarrow> ?thesis" "handleAckFrame c f = Inr c' \<Longrightarrow> ?thesis"
    "handleNackFrame c f ks = Inr c' \<Longrightarrow> ?thesis"
    by (auto simp: handleWindowUpdateFrame_def handleAckFrame_def handleNackFrame_def split: sum.splits)
  moreover have "handlePingFrame c f t1 = c' \<Longrightarrow> ?thesis" "handleGoAwayFrame c = c' \<Longrightarrow> ?thesis"
    by (auto simp: handlePingFrame_def handleGoAwayFrame_def stop_def)
  moreover consider "handleDataFrame c f t1 t2 = Inr c'" | "handleHeaderFrame c f t1 t2 = Inr c'"
    | "handleResetFrame c f = c'" | "handleWindowUpdateFrame c f = Inr c'" | "handleAckFrame c f = Inr c'"
    | "handleNackFrame c f ks = Inr c'" | "handlePingFrame c f t1 = c'" | "handleGoAwayFrame c = c'" | "c = c'"
    using assms by (auto simp: handleFrame_def split: if_splits)
  ultimately show ?thesis by metis
qed

lemma readLoop_enough:
  assumes "rx_end (c_conn c) = IO_EOF" "mux_invar c" "length (rx (c_conn c)) + 2 \<le> fuel"
  shows "\<exists>r. readLoop fuel c clk ord = Some r \<and> (case r of Inl p \<Rightarrow> p = Index_Out_Of_Range | Inr c' \<Rightarrow> mux_invar c')"
  using assms
proof (induction fuel arbitrary: c)
  case (Suc fuel)
  let ?rf = "readFrame (c_conn c) (clk fuel)"
  obtain res cn where rf: "?rf = (res, cn)" by fastforce
  have cn: "rx_end cn = IO_EOF" using readFrame_end [of "c_conn c" "clk fuel"] rf Suc(2) by simp
  have inv: "mux_invar (c\<lparr>c_conn := cn\<rparr>)" using Suc(3) by (simp add: mux_invar_def)
  show ?case
  proof (cases "stopped c")
    case True
    with Suc(3) show ?thesis by simp
  next
    case running: False
    show ?thesis
    proof (cases res)
      case (Inl e)
      show ?thesis
      proof (cases "e = IO_EOF")
        case False
        from rf Inl have "rx cn = []" by (simp add: readFrame_error_rx)
        moreover have "rx (c_conn c) \<noteq> []"
          using rf Inl False Suc(2) readFrame_empty [of "c_conn c" "clk fuel"] by auto
        ultimately have "length (rx (c_conn (c\<lparr>c_conn := cn\<rparr>))) + 2 \<le> fuel" using Suc(4)
          by (cases "rx (c_conn c)") auto
        with Suc(1) [of "c\<lparr>c_conn := cn\<rparr>"] cn inv rf Inl False running show ?thesis
          by (cases e) simp_all
      qed (use running rf Inl inv in simp)
    next
      case (Inr f)
      from rf Inr have "length (rx cn) < length (rx (c_conn c))" by (simp add: readFrame_rx_shorter)
      then have fu: "length (rx cn) + 2 \<le> fuel" using Suc(4) by simp
      show ?thesis
      proof (cases "crashing_frame (c\<lparr>c_conn := cn\<rparr>) f")
        case True
        with rf Inr running show ?thesis by (simp add: handleFrame_crash)
      next
        case False
        from handleFrame_ok [OF inv this, of "clk fuel" "clk fuel" "ord fuel"] obtain c' where
          c': "handleFrame (c\<lparr>c_conn := cn\<rparr>) f (clk fuel) (clk fuel) (ord fuel) = Inr c'" "mux_invar c'" by blast
        from handleFrame_rx [OF c'(1)] Suc(1) [of c'] c'(2) cn fu have
          "\<exists>r. readLoop fuel c' clk ord = Some r \<and> (case r of Inl p \<Rightarrow> p = Index_Out_Of_Range | Inr c' \<Rightarrow> mux_invar c')"
          by simp
        with c'(1) rf Inr running show ?thesis by simp
      qed
    qed
  qed
qed simp



text \<open>
  The read loop never ends on a broken connection. When the connection fails with an error
  other than end of file and nobody stops it, the loop spins: no number of iterations makes it
  return.
\<close>

theorem readLoop_spins_on_error:
  assumes "\<not> stopped c" "rx (c_conn c) = []" "rx_end (c_conn c) = Conn_Error"
  shows "readLoop fuel c clk ord = None"
  using assms by (induction fuel arbitrary: c) (simp_all add: readFrame_empty)

theorem readLoop_spins_on_error_witness:
  "readLoop 1000000 (NewConnection (quiet_conn\<lparr>rx_end := Conn_Error\<rparr>) small_config) (\<lambda>_. 0) (\<lambda>_. []) = None"
  by (rule readLoop_spins_on_error) (simp_all add: NewConnection_def quiet_conn_def)

subsection \<open>Opening streams and the send window\<close>

text \<open>
  What \<open>OpenStream\<close> does on every branch. At the limit it changes nothing. Below it, the new
  stream takes the next identifier and starts empty and open, the identifier advances by two and
  every other stream is kept. The new stream also replaces a stream of that identifier which the
  peer opened: both ends number their streams 1, 3, 5, \<dots>, so this happens as soon as both open one.
\<close>

theorem OpenStream_spec:
  assumes "mux_invar c"
  shows "\<exists>r c'. OpenStream c t1 t2 t3 = Inr (r, c') \<and> mux_invar c'
    \<and> (if maxStreams c \<le> word_of_nat (GetStreamCount c) then r = Inl Max_Streams_Reached \<and> c' = c
       else r = Inr (nextStreamID c) \<and> nextStreamID c' = nextStreamID c + 2
         \<and> (\<exists>s. fmlookup (streams c') (nextStreamID c) = Some s \<and> State s = StreamStateOpen
              \<and> rb_contents (ReadBuffer s) = [] \<and> SeqNum s = 0 \<and> AckNum s = 0 \<and> UsedWindow s = 0)
         \<and> (\<forall>sid. sid \<noteq> nextStreamID c \<longrightarrow> fmlookup (streams c') sid = fmlookup (streams c) sid))"
proof (cases "maxStreams c \<le> word_of_nat (GetStreamCount c)")
  case True
  with assms show ?thesis by (auto simp: OpenStream_def GetStreamCount_def)
next
  case False
  from assms have "0 < windowSize c" by (simp add: mux_invar_def)
  from new_stream_ok [OF this, of "nextStreamID c" t1 t2] obtain s where
    s: "new_stream (nextStreamID c) (windowSize c) t1 t2 = Inr s" "stream_invar s" "ID s = nextStreamID c"
    "State s = StreamStateOpen" "rb_contents (ReadBuffer s) = []" "SeqNum s = 0" "AckNum s = 0" "UsedWindow s = 0"
    by blast
  let ?c2 = "put_stream (c\<lparr>nextStreamID := nextStreamID c + 2\<rparr>) (nextStreamID c) s"
  let ?f = "\<lparr>StreamID = nextStreamID c, Type = FrameTypeHeader, Flags = 0, Payload = [], Timestamp = t3, SequenceNum = 0\<rparr>"
  let ?c3 = "note_call (has_onStreamOpen (send_frame ?c2 ?f)) (OnStreamOpen (nextStreamID c)) (send_frame ?c2 ?f)"
  have o: "OpenStream c t1 t2 t3 = Inr (Inr (nextStreamID c), ?c3)"
    using False s(1) by (simp add: OpenStream_def GetStreamCount_def Let_def)
  have st: "streams ?c3 = fmupd (nextStreamID c) s (streams c)" "windowSize ?c3 = windowSize c" by simp_all
  have nx: "nextStreamID ?c3 = nextStreamID c + 2" by (simp add: note_call_def put_stream_def)
  have "mux_invar ?c3" unfolding mux_invar_def st using assms s(2,3) by (auto simp: mux_invar_def)
  with o st nx s False show ?thesis by auto
qed

text \<open>In the witness the peer's stream 1 is replaced by the local stream 1.\<close>

theorem OpenStream_spec_witness:
  "\<exists>c r c'. fmdom (streams c) = {|1|} \<and> OpenStream c 1 1 1 = Inr (r, c') \<and> r = Inr 1 \<and> mux_invar c'"
proof -
  obtain s where s: "new_stream 1 8 6 6 = Inr s" using new_stream_ok [of 8 1 6 6] by auto
  let ?c = "put_stream small_connection 1 s"
  have h: "handleHeaderFrame small_connection (header_frame 1) 6 6 = Inr ?c"
    using s by (simp add: handleHeaderFrame_def header_frame_def note_call_def NewConnection_def
        small_config_def Let_def put_stream_def)
  then have inv: "mux_invar ?c"
    using handleHeaderFrame_ok [of small_connection "header_frame 1" 6 6] by auto
  have "maxStreams ?c = 4" "nextStreamID ?c = 1" "GetStreamCount ?c = 1"
    by (simp_all add: put_stream_def NewConnection_def small_config_def GetStreamCount_def fcard_finsert)
  moreover have "\<not> (4 :: 32 word) \<le> 1" by (simp add: word_le_nat_alt)
  ultimately have "\<exists>c'. OpenStream ?c 1 1 1 = Inr (Inr 1, c') \<and> mux_invar c'"
    using OpenStream_spec [OF inv, of 1 1 1] by auto
  moreover have "fmdom (streams ?c) = {|1|}" by simp
  ultimately show ?thesis by blast
qed

text \<open>Handling frames one after the other.\<close>

fun handle_frames :: "connection \<Rightarrow> (frame \<times> time \<times> time \<times> 64 word list) list \<Rightarrow> go_panic + connection" where
  "handle_frames c [] = Inr c"
| "handle_frames c ((f, t1, t2, ks) # fs) =
     (case handleFrame c f t1 t2 ks of Inl p \<Rightarrow> Inl p | Inr c' \<Rightarrow> handle_frames c' fs)"

definition idle_window :: "connection \<Rightarrow> bool" where
  "idle_window c \<longleftrightarrow> (\<forall>sid s. fmlookup (streams c) sid = Some s \<longrightarrow> UsedWindow s = 0)"

lemma deliver_pending_used: "deliver_pending s = Inr s' \<Longrightarrow> UsedWindow s' = UsedWindow s"
proof (induction s rule: deliver_pending.induct)
  case (1 s)
  show ?case
  proof (cases "fmlookup (Pending s) (AckNum s + 1)")
    case None
    with 1(2) show ?thesis by (simp add: deliver_pending.simps [of s])
  next
    case (Some f)
    with 1(2) obtain s1 where s1: "buffer_payload s (Payload f) = Inr s1"
      by (cases "buffer_payload s (Payload f)") (simp_all add: deliver_pending.simps [of s])
    then have "UsedWindow s1 = UsedWindow s" by (auto simp: buffer_payload_def split: sum.splits)
    with 1(1) [OF refl Some s1] 1(2) Some s1 show ?thesis by (simp add: deliver_pending.simps [of s] Let_def)
  qed
qed

lemma deliver_data_used:
  "deliver_data c s f t = Inr (b, s', c') \<Longrightarrow> UsedWindow s' = UsedWindow s \<and> streams c' = streams c"
  by (auto simp: deliver_data_def Let_def map_sum_def buffer_payload_def
      split: delivery.splits if_splits sum.splits dest!: deliver_pending_used)

lemma handleDataFrame_idle: "idle_window c \<Longrightarrow> handleDataFrame c f t1 t2 = Inr c' \<Longrightarrow> idle_window c'"
  by (auto simp: handleDataFrame_def GetStream_def idle_window_def Let_def release_window_def
      split: option.splits sum.splits bool.splits if_splits dest!: deliver_data_used)

lemma handleFrame_idle:
  assumes "idle_window c" "handleFrame c f t1 t2 ks = Inr c'"
  shows "idle_window c'"
proof -
  have hd: "idle_window c1" if "handleHeaderFrame c f t1 t2 = Inr c1" for c1
    using assms(1) that
    by (auto simp: handleHeaderFrame_def new_stream_def idle_window_def Let_def split: option.splits sum.splits if_splits)
  have rs: "idle_window (handleResetFrame c f)"
    using assms(1) by (auto simp: handleResetFrame_def GetStream_def idle_window_def Let_def split: option.splits)
  have ct: "idle_window c1" if "handleWindowUpdateFrame c f = Inr c1 \<or> handleAckFrame c f = Inr c1
      \<or> handleNackFrame c f ks = Inr c1" for c1
    using assms(1) that
    by (auto simp: handleWindowUpdateFrame_def handleAckFrame_def handleNackFrame_def GetStream_def idle_window_def
        split: option.splits sum.splits if_splits)
  have "idle_window (handlePingFrame c f t1)" "idle_window (handleGoAwayFrame c)"
    using assms(1) by (simp_all add: handlePingFrame_def handleGoAwayFrame_def stop_def idle_window_def)
  with assms hd rs ct handleDataFrame_idle [OF assms(1)] show ?thesis
    by (auto simp: handleFrame_def split: if_splits)
qed

lemma handle_frames_idle:
  "idle_window c \<Longrightarrow> handle_frames c fs = Inr c' \<Longrightarrow> idle_window c'"
  by (induction c fs rule: handle_frames.induct) (auto split: sum.splits dest: handleFrame_idle)

lemma window_update_idle: "idle_window c \<Longrightarrow> window_update c t sid = c"
proof (cases "fmlookup (streams c) sid")
  case (Some s)
  assume "idle_window c"
  with Some have "UsedWindow s = 0" by (auto simp: idle_window_def)
  moreover have "\<not> WindowSize s < WindowSize s div 2" by (simp add: word_less_nat_alt unat_div)
  ultimately show ?thesis using Some by (simp add: window_update_def)
qed (simp add: window_update_def)

lemma sendWindowUpdates_idle: "idle_window c \<Longrightarrow> sendWindowUpdates c t sids = c"
  unfolding sendWindowUpdates_def by (induction sids) (simp_all add: window_update_idle)

definition reply_frame :: "32 word \<Rightarrow> frame \<Rightarrow> bool" where
  "reply_frame sid f \<longleftrightarrow>
     StreamID f = sid \<and> (Type f = FrameTypeAck \<or> Type f = FrameTypeNack) \<and> length (Payload f) = 8"

lemma reply_keeps_window:
  assumes "fmlookup (streams c) sid = Some s" "reply_frame sid f"
  shows "\<exists>c' s'. handleFrame c f t1 t2 ks = Inr c' \<and> fmlookup (streams c') sid = Some s'
    \<and> State s' = State s \<and> UsedWindow s' = UsedWindow s \<and> WindowSize s' = WindowSize s"
  using assms
  by (auto simp: reply_frame_def handleFrame_def handleAckFrame_def handleNackFrame_def GetStream_def Uint64_def)

lemma replies_keep_window:
  assumes "fmlookup (streams c) sid = Some s" "list_all (\<lambda>(f, _). reply_frame sid f) fs"
  shows "\<exists>c' s'. handle_frames c fs = Inr c' \<and> fmlookup (streams c') sid = Some s'
    \<and> State s' = State s \<and> UsedWindow s' = UsedWindow s \<and> WindowSize s' = WindowSize s"
  using assms
proof (induction c fs arbitrary: s rule: handle_frames.induct)
  case (2 c f t1 t2 ks fs)
  from reply_keeps_window [OF 2(2), of f t1 t2 ks] 2(3) obtain c' s' where
    c': "handleFrame c f t1 t2 ks = Inr c'" "fmlookup (streams c') sid = Some s'"
    "State s' = State s" "UsedWindow s' = UsedWindow s" "WindowSize s' = WindowSize s" by auto
  from 2(1) [OF c'(1,2)] 2(3) c' show ?case by auto
qed simp

text \<open>
  A transfer in one direction stops for good after one window. Once a sender has used its
  window up, no acknowledgement or negative acknowledgement reopens it: every further write is
  refused. And the window update that would reopen it never comes: a receiver that only receives,
  whatever frames it has handled, sends no window update for any stream.
\<close>

theorem one_way_transfer_stalls:
  assumes "fmlookup (streams c) sid = Some s" "State s = StreamStateOpen" "UsedWindow s = WindowSize s"
    and "data \<noteq> []" "unat (WindowSize s) + length data < 2 ^ 32"
    and "list_all (\<lambda>(f, _). reply_frame sid f) replies"
    and "handle_frames (NewConnection cn cfg) fs = Inr rc"
  shows "(\<exists>c'. handle_frames c replies = Inr c'
      \<and> mux_write c' sid data t1 t2 = Inr (Some (Window_Size_Exceeded sid), c'))
    \<and> sendWindowUpdates rc t sids = rc"
proof -
  from replies_keep_window [OF assms(1,6)] obtain c' s' where
    c': "handle_frames c replies = Inr c'" "fmlookup (streams c') sid = Some s'"
    "State s' = State s" "UsedWindow s' = UsedWindow s" "WindowSize s' = WindowSize s" by blast
  have "unat (UsedWindow s' + word_of_nat (length data)) = unat (WindowSize s) + length data"
    using assms(3,5) c'(4) by (simp add: unat_word_ariths unat_of_nat)
  then have "WindowSize s' < UsedWindow s' + word_of_nat (length data)"
    using assms(4) c'(5) by (simp add: word_less_nat_alt)
  with c' assms(2) have "mux_write c' sid data t1 t2 = Inr (Some (Window_Size_Exceeded sid), c')"
    by (simp add: mux_write_def GetStream_def)
  moreover have "idle_window (NewConnection cn cfg)" by (simp add: idle_window_def NewConnection_def)
  ultimately show ?thesis
    using c'(1) handle_frames_idle [OF _ assms(7)] sendWindowUpdates_idle by blast
qed

theorem one_way_transfer_stalls_witness:
  "\<exists>c. mux_write c 1 [5] 1 1 = Inr (Some (Window_Size_Exceeded 1), c)"
proof -
  have "(0 :: 32 word) < 8" by simp
  from new_stream_ok [OF this, of 1 6 6] obtain s :: stream
    where s: "State s = StreamStateOpen" "WindowSize s = 8" by blast
  let ?c = "put_stream small_connection 1 (s\<lparr>UsedWindow := 8\<rparr>)"
  have "list_all (\<lambda>(f, _). reply_frame 1 f) [(nack_frame 1, 1, 1, [])]"
    by (simp add: reply_frame_def nack_frame_def)
  from one_way_transfer_stalls [of ?c 1 "s\<lparr>UsedWindow := 8\<rparr>" "[5]", OF _ _ _ _ _ this, of quiet_conn small_config "[]" small_connection 1 1]
  show ?thesis using s by auto
qed

end
