(* ===== verification/Portless_Core.thy ===== *)
theory Portless_Core
  imports Prelude
begin

section \<open>Portless: routing table, port manager and process supervisor\<close>

text \<open>
  Models of \<open>internal/router/router.go\<close>, \<open>internal/portman/portman.go\<close> and
  \<open>internal/process/supervisor.go\<close>, the three components the daemon shares. Every operation is one
  critical section of the component's mutex. What the operating system answers (the port of a
  listener, the outcome of starting a process, of a signal) is an argument. Two locales state what
  the daemon relies on, a routing table and a pool of ports, and prove once that routes bound to
  freshly allocated ports never collide; they are interpreted on the two components.
\<close>

subsection \<open>Router\<close>

text \<open>The parts of a \<open>url.URL\<close> that are set here; the others are empty.\<close>

record url =
  Scheme :: string
  Host :: string

definition local_url :: "int \<Rightarrow> url" where
  "local_url p = \<lparr>Scheme = ''http'', Host = ''127.0.0.1:'' @ dec p\<rparr>"

record target =
  ServiceName :: string
  Port :: int
  URL :: url

type_synonym engine = "(string, target) fmap"

definition NewEngine :: engine where
  "NewEngine = fmempty"

text \<open>
  \<open>url.Parse\<close> of \<open>http://127.0.0.1:%d\<close>: the port part must be decimal digits, so the only failure
  is the sign of a negative number.
\<close>

definition parse_local_url :: "int \<Rightarrow> url option" where
  "parse_local_url p = (if p < 0 then None else Some (local_url p))"

datatype route_error = Failed_To_Parse_URL

definition AddRoute :: "engine \<Rightarrow> string \<Rightarrow> string \<Rightarrow> int \<Rightarrow> route_error option \<times> engine" where
  "AddRoute e domain serviceName port =
     (case parse_local_url port of
        None \<Rightarrow> (Some Failed_To_Parse_URL, e)
      | Some u \<Rightarrow> (None, fmupd domain \<lparr>ServiceName = serviceName, Port = port, URL = u\<rparr> e))"

definition RemoveRoute :: "engine \<Rightarrow> string \<Rightarrow> engine" where
  "RemoveRoute e domain = fmdrop domain e"

definition GetTarget :: "engine \<Rightarrow> string \<Rightarrow> target option" where
  "GetTarget e domain = fmlookup e domain"

text \<open>The copying loop of \<open>GetAllRoutes\<close> visits the map in the order \<open>ks\<close>.\<close>

definition GetAllRoutes :: "engine \<Rightarrow> string list \<Rightarrow> engine" where
  "GetAllRoutes e ks =
     foldl (\<lambda>m k. case fmlookup e k of None \<Rightarrow> m | Some v \<Rightarrow> fmupd k v m) fmempty ks"

lemma GetAllRoutes_lookup:
  "fmlookup (GetAllRoutes e ks) k = (if k \<in> set ks then fmlookup e k else None)"
proof -
  have "fmlookup (foldl (\<lambda>m k. case fmlookup e k of None \<Rightarrow> m | Some v \<Rightarrow> fmupd k v m) m ks) k
    = (if k \<in> set ks \<and> fmlookup e k \<noteq> None then fmlookup e k else fmlookup m k)" for m
    by (induction ks arbitrary: m) (auto split: option.splits)
  then show ?thesis by (simp add: GetAllRoutes_def)
qed

lemma GetAllRoutes_all: "set ks = fset (fmdom e) \<Longrightarrow> GetAllRoutes e ks = e"
  by (rule fmap_ext) (auto simp: GetAllRoutes_lookup fmdom_notD)

subsection \<open>Port manager\<close>

text \<open>The map \<open>allocated\<close> only ever holds \<open>true\<close>: it is the set of its keys.\<close>

record port_manager =
  allocated :: "int set"

definition NewManager :: port_manager where
  "NewManager = \<lparr>allocated = {}\<rparr>"

text \<open>What resolving and listening on \<open>127.0.0.1:0\<close> gives; a TCP port has 16 bits.\<close>

datatype listen_result = Resolve_Fails | Listen_Fails | Listens_On "16 word"

datatype port_error = Resolve_Error | Listen_Error | No_Unallocated_Port

text \<open>The loop of \<open>GetFreePort\<close>, with \<open>n\<close> attempts left; \<open>os\<close> answers the attempts in turn.\<close>

fun try_ports :: "nat \<Rightarrow> (nat \<Rightarrow> listen_result) \<Rightarrow> port_manager \<Rightarrow> (port_error + int) \<times> port_manager" where
  "try_ports 0 os pm = (Inl No_Unallocated_Port, pm)"
| "try_ports (Suc n) os pm =
     (case os 0 of
        Resolve_Fails \<Rightarrow> (Inl Resolve_Error, pm)
      | Listen_Fails \<Rightarrow> (Inl Listen_Error, pm)
      | Listens_On w \<Rightarrow>
          (let port = uint w
           in if port \<notin> allocated pm
              then (Inr port, pm\<lparr>allocated := insert port (allocated pm)\<rparr>)
              else try_ports n (\<lambda>i. os (Suc i)) pm))"

definition GetFreePort :: "port_manager \<Rightarrow> (nat \<Rightarrow> listen_result) \<Rightarrow> (port_error + int) \<times> port_manager" where
  "GetFreePort pm os = try_ports 5 os pm"

definition ReleasePort :: "port_manager \<Rightarrow> int \<Rightarrow> port_manager" where
  "ReleasePort pm port = pm\<lparr>allocated := allocated pm - {port}\<rparr>"

lemma try_ports_ok:
  assumes "try_ports n os pm = (Inr p, pm')"
  shows "p \<notin> allocated pm \<and> pm' = pm\<lparr>allocated := insert p (allocated pm)\<rparr> \<and> 0 \<le> p \<and> p < 65536
    \<and> (\<exists>i < n. \<exists>w. os i = Listens_On w \<and> uint w = p \<and> (\<forall>j < i. \<exists>v. os j = Listens_On v \<and> uint v \<in> allocated pm))"
  using assms
proof (induction n arbitrary: os)
  case (Suc n)
  then obtain w where w: "os 0 = Listens_On w" by (auto split: listen_result.splits)
  show ?case
  proof (cases "uint w \<in> allocated pm")
    case True
    with Suc(2) w have "try_ports n (\<lambda>i. os (Suc i)) pm = (Inr p, pm')" by simp
    from Suc(1) [OF this] obtain i v where i: "i < n" "os (Suc i) = Listens_On v" "uint v = p"
      "\<forall>j < i. \<exists>v. os (Suc j) = Listens_On v \<and> uint v \<in> allocated pm"
      and rest: "p \<notin> allocated pm \<and> pm' = pm\<lparr>allocated := insert p (allocated pm)\<rparr> \<and> 0 \<le> p \<and> p < 65536" by blast
    have "\<forall>j < Suc i. \<exists>v. os j = Listens_On v \<and> uint v \<in> allocated pm"
      using i(4) w True by (auto simp: less_Suc_eq_0_disj)
    with i rest show ?thesis by (metis Suc_less_eq)
  next
    case False
    with Suc(2) w have "p = uint w" "pm' = pm\<lparr>allocated := insert p (allocated pm)\<rparr>" by (auto simp: Let_def)
    moreover have "uint w < 65536" using uint_lt2p [of w] by simp
    ultimately show ?thesis using False w by auto
  qed
qed simp

lemma try_ports_error: "try_ports n os pm = (Inl e, pm') \<Longrightarrow> pm' = pm"
  by (induction n arbitrary: os) (auto simp: Let_def split: listen_result.splits if_splits)

lemmas GetFreePort_ok = try_ports_ok [where n = 5, folded GetFreePort_def]
lemmas GetFreePort_error = try_ports_error [where n = 5, folded GetFreePort_def]

subsection \<open>Interfaces\<close>

text \<open>A routing table with the map laws, as far as a client sees it.\<close>

locale route_table =
  fixes put :: "'t \<Rightarrow> 'd \<Rightarrow> 'x \<Rightarrow> 't"
    and remove :: "'t \<Rightarrow> 'd \<Rightarrow> 't"
    and get :: "'t \<Rightarrow> 'd \<Rightarrow> 'x option"
  assumes get_put: "get (put t d x) d' = (if d' = d then Some x else get t d')"
    and get_remove: "get (remove t d) d' = (if d' = d then None else get t d')"

text \<open>A pool that hands out identifiers and takes them back.\<close>

locale port_pool =
  fixes alloc :: "'m \<Rightarrow> 'o \<Rightarrow> ('e + 'p) \<times> 'm"
    and release :: "'m \<Rightarrow> 'p \<Rightarrow> 'm"
    and reserved :: "'m \<Rightarrow> 'p \<Rightarrow> bool"
  assumes alloc_ok: "alloc m os = (Inr p, m') \<Longrightarrow>
      \<not> reserved m p \<and> (\<forall>q. reserved m' q \<longleftrightarrow> q = p \<or> reserved m q)"
    and alloc_error: "alloc m os = (Inl e, m') \<Longrightarrow> m' = m"
    and release_reserved: "reserved (release m p) q \<longleftrightarrow> q \<noteq> p \<and> reserved m q"
begin

lemma release_undoes: "alloc m os = (Inr p, m') \<Longrightarrow> reserved (release m' p) q \<longleftrightarrow> reserved m q"
  using alloc_ok release_reserved by metis

end

text \<open>A table whose entries own a port of the pool.\<close>

locale port_routes = route_table put remove get + port_pool alloc release reserved
  for put :: "'t \<Rightarrow> 'd \<Rightarrow> 'x \<Rightarrow> 't" and remove get
    and alloc :: "'m \<Rightarrow> 'o \<Rightarrow> ('e + 'p) \<times> 'm" and release reserved +
  fixes port_of :: "'x \<Rightarrow> 'p"
begin

definition owned :: "'t \<Rightarrow> 'm \<Rightarrow> bool" where
  "owned t m \<longleftrightarrow>
     (\<forall>d x. get t d = Some x \<longrightarrow> reserved m (port_of x))
     \<and> (\<forall>d x d' x'. get t d = Some x \<longrightarrow> get t d' = Some x' \<longrightarrow> port_of x = port_of x' \<longrightarrow> d = d')"

lemma owned_alloc: "owned t m \<Longrightarrow> alloc m os = (Inr p, m') \<Longrightarrow> owned t m'"
  using alloc_ok by (fastforce simp: owned_def)

lemma owned_bind:
  assumes "owned t m" "alloc m os = (Inr p, m')" "port_of x = p"
  shows "owned (put t d x) m'"
  using assms alloc_ok [OF assms(2)] unfolding owned_def get_put by (auto split: if_splits) metis+

lemma owned_alloc_release: "owned t m \<Longrightarrow> alloc m os = (Inr p, m') \<Longrightarrow> owned t (release m' p)"
  using release_undoes by (fastforce simp: owned_def)

lemma owned_unbind:
  assumes "owned t m" "get t d = Some x"
  shows "owned (remove t d) (release m (port_of x))"
  using assms unfolding owned_def get_remove release_reserved by (metis option.distinct(1))

end

interpretation pl: port_routes "\<lambda>e d x. fmupd d x e" RemoveRoute GetTarget GetFreePort ReleasePort
    "\<lambda>pm p. p \<in> allocated pm" Port
proof unfold_locales
  fix m os p m'
  assume "GetFreePort m os = (Inr p, m')"
  then show "\<not> p \<in> allocated m \<and> (\<forall>q. q \<in> allocated m' \<longleftrightarrow> q = p \<or> q \<in> allocated m)"
    by (auto dest: GetFreePort_ok)
next
  fix m os e m'
  assume "GetFreePort m os = (Inl e, m')"
  then show "m' = m" by (rule GetFreePort_error)
qed (auto simp: GetTarget_def RemoveRoute_def ReleasePort_def)

subsection \<open>Process supervisor\<close>

text \<open>
  A child is a started command together with the goroutine that waits for it. \<open>processes\<close> is the
  map of the code, from service names to process identifiers; \<open>children\<close> are the waiting goroutines,
  which the code leaves implicit; \<open>signals\<close> records the signals sent to process groups.
\<close>

record child =
  child_name :: string
  child_pid :: nat
  child_command :: "string list"
  child_env :: "string list"

datatype signal_sent = SIGTERM_Group nat | SIGKILL_Group nat

record supervisor =
  processes :: "(string, nat) fmap"
  children :: "child list"
  signals :: "signal_sent list"

definition NewSupervisor :: supervisor where
  "NewSupervisor = \<lparr>processes = fmempty, children = [], signals = []\<rparr>"

datatype spawn_result = Stdout_Pipe_Fails | Stderr_Pipe_Fails | Start_Fails | Starts nat

datatype sup_error =
    Already_Running string
  | Failed_To_Pipe_Stdout
  | Failed_To_Pipe_Stderr
  | Failed_To_Start string
  | Not_Running string

definition StartService ::
    "supervisor \<Rightarrow> string \<Rightarrow> string \<Rightarrow> int \<Rightarrow> string list \<Rightarrow> spawn_result \<Rightarrow> sup_error option \<times> supervisor" where
  "StartService s name command assignedPort environ os =
     (if name |\<in>| fmdom (processes s) then (Some (Already_Running name), s)
      else (case os of
              Stdout_Pipe_Fails \<Rightarrow> (Some Failed_To_Pipe_Stdout, s)
            | Stderr_Pipe_Fails \<Rightarrow> (Some Failed_To_Pipe_Stderr, s)
            | Start_Fails \<Rightarrow> (Some (Failed_To_Start command), s)
            | Starts pid \<Rightarrow>
                (None, s\<lparr>processes := fmupd name pid (processes s),
                         children := children s @
                           [\<lparr>child_name = name, child_pid = pid, child_command = [''sh'', ''-c'', command],
                             child_env = environ @ [''PORT='' @ dec assignedPort]\<rparr>]\<rparr>)))"

text \<open>The goroutine that waits for child \<open>c\<close> returns from \<open>Wait\<close> and deletes the entry of its name.\<close>

definition child_exits :: "supervisor \<Rightarrow> child \<Rightarrow> supervisor" where
  "child_exits s c = s\<lparr>processes := fmdrop (child_name c) (processes s), children := remove1 c (children s)\<rparr>"

text \<open>\<open>term_ok\<close> says that the first \<open>kill\<close> succeeded; a started command always has a process.\<close>

definition StopService :: "supervisor \<Rightarrow> string \<Rightarrow> bool \<Rightarrow> sup_error option \<times> supervisor" where
  "StopService s name term_ok =
     (case fmlookup (processes s) name of
        None \<Rightarrow> (Some (Not_Running name), s)
      | Some pid \<Rightarrow>
          (None, s\<lparr>signals := signals s @ (if term_ok then [SIGTERM_Group pid]
                                              else [SIGTERM_Group pid, SIGKILL_Group pid])\<rparr>))"

text \<open>
  \<open>StopAllServices\<close> with the names in the order \<open>names\<close> the map gives them; the lock is released
  between the calls, so that children in \<open>gone i\<close> may exit before the \<open>i\<close>-th stop.
\<close>

fun stop_each :: "supervisor \<Rightarrow> string list \<Rightarrow> (nat \<Rightarrow> child list) \<Rightarrow> (nat \<Rightarrow> bool) \<Rightarrow> supervisor" where
  "stop_each s [] gone ok = s"
| "stop_each s (n # ns) gone ok =
     stop_each (snd (StopService (foldl child_exits s (gone 0)) n (ok 0))) ns (\<lambda>i. gone (Suc i)) (\<lambda>i. ok (Suc i))"

definition StopAllServices :: "supervisor \<Rightarrow> string list \<Rightarrow> (nat \<Rightarrow> child list) \<Rightarrow> (nat \<Rightarrow> bool) \<Rightarrow> supervisor" where
  "StopAllServices s names gone ok = stop_each s names gone ok"

text \<open>Every entry of the map is the one live child of that name.\<close>

definition sup_invar :: "supervisor \<Rightarrow> bool" where
  "sup_invar s \<longleftrightarrow>
     distinct (map child_name (children s))
     \<and> (\<forall>n pid. fmlookup (processes s) n = Some pid
           \<longleftrightarrow> (\<exists>c \<in> set (children s). child_name c = n \<and> child_pid c = pid))"

lemma sup_invar_new [simp]: "sup_invar NewSupervisor"
  by (simp add: sup_invar_def NewSupervisor_def)

lemma sup_invar_running:
  "sup_invar s \<Longrightarrow> n |\<in>| fmdom (processes s) \<longleftrightarrow> n \<in> child_name ` set (children s)"
  by (auto simp: sup_invar_def fmlookup_dom_iff)

lemma StartService_invar:
  assumes "sup_invar s"
  shows "sup_invar (snd (StartService s n cmd p env os))"
proof (cases "n |\<in>| fmdom (processes s)")
  case False
  then have "n \<notin> child_name ` set (children s)" using sup_invar_running [OF assms] by simp
  with assms False show ?thesis
    by (auto simp: StartService_def sup_invar_def split: spawn_result.splits if_splits)
qed (use assms in \<open>simp add: StartService_def\<close>)

lemma StopService_fields [simp]:
  "processes (snd (StopService s n ok)) = processes s" "children (snd (StopService s n ok)) = children s"
  by (simp_all add: StopService_def split: option.splits)

lemma StopService_invar: "sup_invar s \<Longrightarrow> sup_invar (snd (StopService s n ok))"
  by (simp add: sup_invar_def)

lemma distinct_map_unique:
  "distinct (map h xs) \<Longrightarrow> x \<in> set xs \<Longrightarrow> y \<in> set xs \<Longrightarrow> h x = h y \<Longrightarrow> x = y"
  by (simp add: distinct_map inj_on_def)

lemma child_exits_invar:
  assumes "sup_invar s" "c \<in> set (children s)"
  shows "sup_invar (child_exits s c)"
proof -
  from assms(1) have d: "distinct (map child_name (children s))" by (simp add: sup_invar_def)
  then have dc: "distinct (children s)" by (simp add: distinct_map)
  have "\<And>x. x \<in> set (children s) \<Longrightarrow> child_name x = child_name c \<Longrightarrow> x = c"
    using distinct_map_unique [OF d] assms(2) by blast
  then have "fmlookup (fmdrop (child_name c) (processes s)) n = Some pid
      \<longleftrightarrow> (\<exists>x \<in> set (remove1 c (children s)). child_name x = n \<and> child_pid x = pid)" for n pid
    using assms dc unfolding sup_invar_def by (auto simp: set_remove1_eq)
  moreover have "distinct (map child_name (remove1 c (children s)))"
    using d by (metis distinct_map distinct_remove1 inj_on_subset set_remove1_subset)
  ultimately show ?thesis by (simp add: sup_invar_def child_exits_def)
qed

text \<open>An exit removes exactly its own entry: a service started again under another name is untouched.\<close>

lemma child_exits_lookup:
  assumes "sup_invar s" "c \<in> set (children s)"
  shows "fmlookup (processes s) (child_name c) = Some (child_pid c)
    \<and> fmlookup (processes (child_exits s c)) n = (if n = child_name c then None else fmlookup (processes s) n)"
  using assms by (auto simp: sup_invar_def child_exits_def)

lemma StopService_signals:
  "fmlookup (processes s) n = Some pid \<Longrightarrow> SIGTERM_Group pid \<in> set (signals (snd (StopService s n ok)))"
  "set (signals s) \<subseteq> set (signals (snd (StopService s n ok)))"
  by (auto simp: StopService_def split: option.splits)

lemma child_exits_signals [simp]: "signals (foldl child_exits s cs) = signals s"
  by (induction cs arbitrary: s) (simp_all add: child_exits_def)

lemma stop_each_signals: "set (signals s) \<subseteq> set (signals (stop_each s ns gone ok))"
proof (induction ns arbitrary: s gone ok)
  case (Cons n ns)
  have "set (signals s) \<subseteq> set (signals (snd (StopService (foldl child_exits s (gone 0)) n (ok 0))))"
    using StopService_signals(2) [of "foldl child_exits s (gone 0)" n "ok 0"] by simp
  also have "\<dots> \<subseteq> set (signals (stop_each s (n # ns) gone ok))" using Cons by simp
  finally show ?case .
qed simp

lemma foldl_child_exits_keep:
  "fmlookup (processes s) n = Some pid \<Longrightarrow> n \<notin> child_name ` set cs
    \<Longrightarrow> fmlookup (processes (foldl child_exits s cs)) n = Some pid"
  by (induction cs arbitrary: s) (auto simp: child_exits_def)

lemma stop_each_stops:
  assumes "fmlookup (processes s) n = Some pid" "n \<in> set ns" "\<And>i. i < length ns \<Longrightarrow> n \<notin> child_name ` set (gone i)"
  shows "SIGTERM_Group pid \<in> set (signals (stop_each s ns gone ok))"
  using assms
proof (induction ns arbitrary: s gone ok)
  case (Cons m ns)
  let ?s = "foldl child_exits s (gone 0)"
  let ?s' = "snd (StopService ?s m (ok 0))"
  have "n \<notin> child_name ` set (gone 0)" using Cons(4) [of 0] by simp
  with Cons(2) have pid: "fmlookup (processes ?s) n = Some pid" by (rule foldl_child_exits_keep)
  show ?case
  proof (cases "n = m")
    case True
    with pid have "SIGTERM_Group pid \<in> set (signals ?s')" using StopService_signals(1) by blast
    then show ?thesis using stop_each_signals by fastforce
  next
    case False
    have ns: "n \<in> set ns" "\<And>i. i < length ns \<Longrightarrow> n \<notin> child_name ` set (gone (Suc i))"
      using Cons(3) False Cons(4) [of "Suc i" for i] by simp_all
    from pid have "fmlookup (processes ?s') n = Some pid" by simp
    from Cons(1) [OF this ns] show ?thesis by simp
  qed
qed simp

end
