(* ===== verification/Portless_Daemon.thy ===== *)
theory Portless_Daemon
  imports Portless_Core
begin

section \<open>Portless: daemon, client, configuration, start-up, proxy and DNS\<close>

text \<open>
  Models of \<open>internal/daemon\<close>, \<open>internal/config\<close>, \<open>internal/cli/start.go\<close>, \<open>internal/proxy\<close> and
  \<open>internal/dns\<close> over the components of \<open>Portless_Core\<close>. The daemon is a state machine: its steps
  are the requests of its API, each run to completion, and the exits of supervised processes, which
  come at any moment in between.
\<close>

subsection \<open>The API of the daemon\<close>

record server =
  router :: engine
  pm :: port_manager
  sup :: supervisor

definition NewServer :: "engine \<Rightarrow> port_manager \<Rightarrow> supervisor \<Rightarrow> server" where
  "NewServer r p s = \<lparr>router = r, pm = p, sup = s\<rparr>"

record add_request =
  req_domain :: string
  req_command :: string

record service_response =
  resp_domain :: string
  resp_serviceName :: string
  resp_port :: int

datatype body =
    Text string
  | Decode_Error_Body string
  | Start_Error_Body sup_error
  | Route_Error_Body route_error
  | Services_Body "service_response list"

type_synonym http_response = "int \<times> body"

text \<open>What the operating system answers during one request.\<close>

record os_answers =
  os_listen :: "nat \<Rightarrow> listen_result"
  os_spawn :: spawn_result
  os_environ :: "string list"
  os_term_ok :: bool

text \<open>The body of the request is given as the outcome of decoding it.\<close>

definition addService :: "server \<Rightarrow> string + add_request \<Rightarrow> os_answers \<Rightarrow> http_response \<times> server" where
  "addService s body os =
     (case body of
        Inl e \<Rightarrow> ((400, Decode_Error_Body e), s)
      | Inr req \<Rightarrow>
          (case GetFreePort (pm s) (os_listen os) of
             (Inl _, pm1) \<Rightarrow> ((500, Text ''Failed to allocate port''), s\<lparr>pm := pm1\<rparr>)
           | (Inr port, pm1) \<Rightarrow>
               (case StartService (sup s) (req_domain req) (req_command req) port (os_environ os) (os_spawn os) of
                  (Some e, sup1) \<Rightarrow>
                    ((500, Start_Error_Body e), s\<lparr>pm := ReleasePort pm1 port, sup := sup1\<rparr>)
                | (None, sup1) \<Rightarrow>
                    (case AddRoute (router s) (req_domain req) (req_domain req) port of
                       (Some e, r1) \<Rightarrow>
                         ((500, Route_Error_Body e),
                          s\<lparr>pm := ReleasePort pm1 port, sup := snd (StopService sup1 (req_domain req) (os_term_ok os)),
                            router := r1\<rparr>)
                     | (None, r1) \<Rightarrow>
                         ((201, Text (''Service '' @ req_domain req @ '' successfully mapped to ''
                                      @ req_domain req @ '' on port '' @ dec port)),
                          s\<lparr>pm := pm1, sup := sup1, router := r1\<rparr>)))))"

text \<open>\<open>ks\<close> is the order in which the two loops visit the maps.\<close>

definition listServices :: "server \<Rightarrow> string list \<Rightarrow> http_response" where
  "listServices s ks =
     (let routes = GetAllRoutes (router s) ks
      in (200, Services_Body
           (List.map_filter
              (\<lambda>d. map_option (\<lambda>t. \<lparr>resp_domain = d, resp_serviceName = ServiceName t, resp_port = Port t\<rparr>)
                     (fmlookup routes d)) ks)))"

definition removeService :: "server \<Rightarrow> string \<Rightarrow> os_answers \<Rightarrow> http_response \<times> server" where
  "removeService s domain os =
     (if domain = [] then ((400, Text ''domain parameter required''), s)
      else (case GetTarget (router s) domain of
              None \<Rightarrow> ((200, Text []), s)
            | Some t \<Rightarrow>
                ((200, Text []),
                 s\<lparr>sup := snd (StopService (sup s) (ServiceName t) (os_term_ok os)),
                   pm := ReleasePort (pm s) (Port t),
                   router := RemoveRoute (router s) domain\<rparr>)))"

datatype api_request =
    GET "string list"
  | POST "string + add_request"
  | DELETE string
  | Other_Method

definition handleServices :: "server \<Rightarrow> api_request \<Rightarrow> os_answers \<Rightarrow> http_response \<times> server" where
  "handleServices s r os =
     (case r of
        GET ks \<Rightarrow> (listServices s ks, s)
      | POST body \<Rightarrow> addService s body os
      | DELETE domain \<Rightarrow> removeService s domain os
      | Other_Method \<Rightarrow> ((405, Text ''Method Not Allowed''), s))"

subsection \<open>Steps\<close>

inductive daemon_step :: "server \<Rightarrow> server \<Rightarrow> bool" where
  request: "handleServices s r os = (resp, s') \<Longrightarrow> daemon_step s s'"
| exit: "c \<in> set (children (sup s)) \<Longrightarrow> daemon_step s (s\<lparr>sup := child_exits (sup s) c\<rparr>)"

inductive_cases daemon_stepE: "daemon_step s s'"

inductive daemon_reach :: "server \<Rightarrow> server \<Rightarrow> bool" where
  refl: "daemon_reach s s"
| step: "daemon_reach s s' \<Longrightarrow> daemon_step s' s'' \<Longrightarrow> daemon_reach s s''"

definition server_invar :: "server \<Rightarrow> bool" where
  "server_invar s \<longleftrightarrow>
     pl.owned (router s) (pm s) \<and> sup_invar (sup s)
     \<and> (\<forall>d t. GetTarget (router s) d = Some t \<longrightarrow> URL t = local_url (Port t))"

lemma AddRoute_nonneg:
  "0 \<le> p \<Longrightarrow> AddRoute e d n p = (None, fmupd d \<lparr>ServiceName = n, Port = p, URL = local_url p\<rparr> e)"
  by (simp add: AddRoute_def parse_local_url_def)

lemma GetFreePort_nonneg: "GetFreePort m os = (Inr p, m') \<Longrightarrow> 0 \<le> p"
  by (auto dest: GetFreePort_ok)

lemma ReleasePort_fresh: "GetFreePort m os = (Inr p, m') \<Longrightarrow> ReleasePort m' p = m"
  by (auto simp: ReleasePort_def dest: GetFreePort_ok)

lemma StartService_error: "StartService s n c p env os = (Some e, s') \<Longrightarrow> s' = s"
  by (auto simp: StartService_def split: if_splits spawn_result.splits)

text \<open>The three ways an add can end; the route error is impossible for a port of the manager.\<close>

lemma addService_cases:
  obtains (unchanged) resp where "addService s body os = (resp, s)" "fst resp \<noteq> 201"
  | (added) req port pm1 sup1 resp where "body = Inr req"
      "GetFreePort (pm s) (os_listen os) = (Inr port, pm1)"
      "StartService (sup s) (req_domain req) (req_command req) port (os_environ os) (os_spawn os) = (None, sup1)"
      "addService s body os = ((201, resp), s\<lparr>pm := pm1, sup := sup1,
         router := fmupd (req_domain req) \<lparr>ServiceName = req_domain req, Port = port,
           URL = local_url port\<rparr> (router s)\<rparr>)"
proof (cases body)
  case (Inl e)
  then show ?thesis using unchanged by (simp add: addService_def)
next
  case body: (Inr req)
  show ?thesis
  proof (cases "GetFreePort (pm s) (os_listen os)")
    case (Pair res pm1)
    show ?thesis
    proof (cases res)
      case (Inl e)
      with Pair have "pm1 = pm s" by (simp add: GetFreePort_error)
      with Inl Pair body unchanged show ?thesis by (simp add: addService_def)
    next
      case (Inr port)
      with Pair have g: "GetFreePort (pm s) (os_listen os) = (Inr port, pm1)" by simp
      obtain e sup1 where st:
        "StartService (sup s) (req_domain req) (req_command req) port (os_environ os) (os_spawn os) = (e, sup1)"
        by fastforce
      show ?thesis
      proof (cases e)
        case None
        with st g body added show ?thesis
          by (simp add: addService_def AddRoute_nonneg [OF GetFreePort_nonneg [OF g]])
      next
        case (Some err)
        with st have "sup1 = sup s" by (simp add: StartService_error)
        with st g body Some unchanged show ?thesis by (simp add: addService_def ReleasePort_fresh [OF g])
      qed
    qed
  qed
qed

lemma addService_invar:
  assumes "server_invar s"
  shows "server_invar (snd (addService s body os))"
proof (cases rule: addService_cases [of s body os])
  case unchanged
  with assms show ?thesis by simp
next
  case (added req port pm1 sup1 resp)
  let ?t = "\<lparr>ServiceName = req_domain req, Port = port, URL = local_url port\<rparr>"
  from assms have i: "pl.owned (router s) (pm s)" "sup_invar (sup s)" by (simp_all add: server_invar_def)
  from pl.owned_bind [OF i(1) added(2), of ?t "req_domain req"]
  have "pl.owned (fmupd (req_domain req) ?t (router s)) pm1" by simp
  moreover have "sup_invar sup1" using StartService_invar [OF i(2)] added(3) by (metis snd_conv)
  ultimately show ?thesis using added(4) assms by (auto simp: server_invar_def GetTarget_def)
qed

lemma removeService_invar:
  assumes "server_invar s"
  shows "server_invar (snd (removeService s d os))"
proof (cases "GetTarget (router s) d")
  case (Some t)
  from assms have i: "pl.owned (router s) (pm s)" "sup_invar (sup s)" by (simp_all add: server_invar_def)
  from pl.owned_unbind [OF i(1) Some] StopService_invar [OF i(2)] assms Some show ?thesis
    by (auto simp: removeService_def server_invar_def GetTarget_def RemoveRoute_def split: if_splits)
qed (use assms in \<open>simp add: removeService_def\<close>)

lemma handleServices_invar: "server_invar s \<Longrightarrow> server_invar (snd (handleServices s r os))"
  by (cases r) (simp_all add: handleServices_def addService_invar removeService_invar)

text \<open>Sequences of requests without exits in between, as an operation system.\<close>

interpretation api: op_system "\<lambda>s q. snd (handleServices s (fst q) (snd q))" server_invar
  by unfold_locales (rule handleServices_invar)

lemma daemon_step_invar:
  assumes "daemon_step s s'" "server_invar s"
  shows "server_invar s'"
  using assms(1)
proof (cases rule: daemon_step.cases)
  case (request r os resp)
  then show ?thesis using handleServices_invar [OF assms(2), of r os] by simp
next
  case (exit c)
  then show ?thesis using assms(2) child_exits_invar by (auto simp: server_invar_def)
qed

lemma daemon_reach_invar: "daemon_reach s s' \<Longrightarrow> server_invar s \<Longrightarrow> server_invar s'"
  by (induction rule: daemon_reach.induct) (auto intro: daemon_step_invar)

lemma server_invar_new: "server_invar (NewServer NewEngine NewManager NewSupervisor)"
  by (simp add: server_invar_def NewServer_def NewEngine_def NewManager_def pl.owned_def GetTarget_def)

subsection \<open>Errors of the standard library\<close>

text \<open>
  The error values that reach this code: a system error number, the wrappers of \<open>net\<close> and \<open>os\<close>,
  the wrapper of \<open>fmt.Errorf\<close> with \<open>%w\<close>, and plain messages.
\<close>

datatype errno = EACCES | EPERM | ENOENT | EADDRINUSE

datatype go_err =
    Errno errno
  | Syscall_Error string go_err
  | Op_Error string go_err
  | Path_Error string go_err
  | Wrapped string go_err
  | Plain string

fun errno_text :: "errno \<Rightarrow> string" where
  "errno_text EACCES = ''permission denied''"
| "errno_text EPERM = ''operation not permitted''"
| "errno_text ENOENT = ''no such file or directory''"
| "errno_text EADDRINUSE = ''address already in use''"

fun Error :: "go_err \<Rightarrow> string" where
  "Error (Errno n) = errno_text n"
| "Error (Syscall_Error c e) = c @ '': '' @ Error e"
| "Error (Op_Error o' e) = o' @ '': '' @ Error e"
| "Error (Path_Error p e) = p @ '': '' @ Error e"
| "Error (Wrapped m e) = m @ '': '' @ Error e"
| "Error (Plain m) = m"

text \<open>\<open>errors.As\<close> for \<open>*net.OpError\<close> and \<open>*os.SyscallError\<close> (the error inside), \<open>errors.Is\<close> for \<open>os.ErrPermission\<close>.\<close>

fun as_OpError :: "go_err \<Rightarrow> go_err option" where
  "as_OpError (Op_Error o' e) = Some e"
| "as_OpError (Syscall_Error c e) = as_OpError e"
| "as_OpError (Path_Error p e) = as_OpError e"
| "as_OpError (Wrapped m e) = as_OpError e"
| "as_OpError _ = None"

fun as_SyscallError :: "go_err \<Rightarrow> go_err option" where
  "as_SyscallError (Syscall_Error c e) = Some e"
| "as_SyscallError (Op_Error o' e) = as_SyscallError e"
| "as_SyscallError (Path_Error p e) = as_SyscallError e"
| "as_SyscallError (Wrapped m e) = as_SyscallError e"
| "as_SyscallError _ = None"

fun is_ErrPermission :: "go_err \<Rightarrow> bool" where
  "is_ErrPermission (Errno n) = (n = EACCES \<or> n = EPERM)"
| "is_ErrPermission (Syscall_Error c e) = is_ErrPermission e"
| "is_ErrPermission (Op_Error o' e) = is_ErrPermission e"
| "is_ErrPermission (Path_Error p e) = is_ErrPermission e"
| "is_ErrPermission (Wrapped m e) = is_ErrPermission e"
| "is_ErrPermission (Plain m) = False"

text \<open>\<open>os.IsNotExist\<close> looks through the wrappers of \<open>os\<close> only, once, and not through \<open>%w\<close>.\<close>

fun os_IsNotExist :: "go_err \<Rightarrow> bool" where
  "os_IsNotExist (Errno n) = (n = ENOENT)"
| "os_IsNotExist (Path_Error p e) = (e = Errno ENOENT)"
| "os_IsNotExist (Syscall_Error c e) = (e = Errno ENOENT)"
| "os_IsNotExist _ = False"

subsection \<open>Configuration and start-up\<close>

record service_config =
  Domain :: string
  Command :: string

record config =
  Services :: "(string, service_config) fmap"

datatype config_error =
    Read_Failed go_err
  | Parse_Failed go_err
  | Missing_Domain string
  | Missing_Command string

text \<open>The error value \<open>LoadConfig\<close> returns.\<close>

fun config_err :: "config_error \<Rightarrow> go_err" where
  "config_err (Read_Failed e) = Wrapped ''failed to read config file'' e"
| "config_err (Parse_Failed e) = Wrapped ''failed to parse config file'' e"
| "config_err (Missing_Domain n) = Plain (''service '' @ [CHR 0x27] @ n @ [CHR 0x27] @ '' is missing a domain'')"
| "config_err (Missing_Command n) = Plain (''service '' @ [CHR 0x27] @ n @ [CHR 0x27] @ '' is missing a command'')"

text \<open>The validation loop in the order \<open>names\<close> of the map.\<close>

fun validate_services :: "config \<Rightarrow> string list \<Rightarrow> config_error option" where
  "validate_services cfg [] = None"
| "validate_services cfg (n # ns) =
     (case fmlookup (Services cfg) n of
        None \<Rightarrow> validate_services cfg ns
      | Some svc \<Rightarrow>
          if Domain svc = [] then Some (Missing_Domain n)
          else if Command svc = [] then Some (Missing_Command n)
          else validate_services cfg ns)"

text \<open>\<open>file\<close> is what reading the file gives; \<open>unmarshal\<close> is the YAML package.\<close>

definition LoadConfig ::
    "(string \<Rightarrow> go_err + config) \<Rightarrow> go_err + string \<Rightarrow> string list \<Rightarrow> config_error + config" where
  "LoadConfig unmarshal file names =
     (case file of
        Inl e \<Rightarrow> Inl (Read_Failed e)
      | Inr data \<Rightarrow>
          (case unmarshal data of
             Inl e \<Rightarrow> Inl (Parse_Failed e)
           | Inr cfg \<Rightarrow> (case validate_services cfg names of Some e \<Rightarrow> Inl e | None \<Rightarrow> Inr cfg)))"

datatype start_outcome =
    Fatal_Config config_error
  | Fatal_Port string port_error
  | Fatal_Route string route_error
  | Running server

text \<open>
  The loop of the start command over the configured services, in the order of the map; the
  operating system answers each service separately. A service that fails to start is only logged.
\<close>

fun start_services :: "config \<Rightarrow> server \<Rightarrow> string list \<Rightarrow> (string \<Rightarrow> os_answers) \<Rightarrow> start_outcome" where
  "start_services cfg s [] os = Running s"
| "start_services cfg s (n # ns) os =
     (case fmlookup (Services cfg) n of
        None \<Rightarrow> start_services cfg s ns os
      | Some svc \<Rightarrow>
          (case GetFreePort (pm s) (os_listen (os n)) of
             (Inl e, _) \<Rightarrow> Fatal_Port n e
           | (Inr port, pm1) \<Rightarrow>
               (case AddRoute (router s) (Domain svc) n port of
                  (Some e, _) \<Rightarrow> Fatal_Route n e
                | (None, r1) \<Rightarrow>
                    start_services cfg
                      (s\<lparr>pm := pm1, router := r1,
                         sup := snd (StartService (sup s) n (Command svc) port (os_environ (os n)) (os_spawn (os n)))\<rparr>)
                      ns os)))"

definition start_portless ::
    "(string \<Rightarrow> go_err + config) \<Rightarrow> go_err + string \<Rightarrow> string list \<Rightarrow> (string \<Rightarrow> os_answers) \<Rightarrow> start_outcome" where
  "start_portless unmarshal file names os =
     (let empty = NewServer NewEngine NewManager NewSupervisor
      in (case LoadConfig unmarshal file names of
            Inl e \<Rightarrow> if \<not> os_IsNotExist (config_err e) then Fatal_Config e else Running empty
          | Inr cfg \<Rightarrow> start_services cfg empty names os))"

lemma start_services_invar:
  "server_invar s \<Longrightarrow> start_services cfg s ns os = Running s' \<Longrightarrow> server_invar s'"
proof (induction ns arbitrary: s)
  case (Cons n ns)
  show ?case
  proof (cases "fmlookup (Services cfg) n")
    case None
    with Cons show ?thesis by simp
  next
    case (Some svc)
    with Cons(3) obtain port pm1 where g: "GetFreePort (pm s) (os_listen (os n)) = (Inr port, pm1)"
      by (auto split: prod.splits sum.splits)
    note a = AddRoute_nonneg [OF GetFreePort_nonneg [OF g]]
    let ?t = "\<lparr>ServiceName = n, Port = port, URL = local_url port\<rparr>"
    let ?s = "s\<lparr>pm := pm1, router := fmupd (Domain svc) ?t (router s),
       sup := snd (StartService (sup s) n (Command svc) port (os_environ (os n)) (os_spawn (os n)))\<rparr>"
    from Cons(2) have i: "pl.owned (router s) (pm s)" "sup_invar (sup s)" by (simp_all add: server_invar_def)
    from pl.owned_bind [OF i(1) g, of ?t "Domain svc"] StartService_invar [OF i(2)] Cons(2)
    have "server_invar ?s" by (auto simp: server_invar_def GetTarget_def)
    with Cons(1) Cons(3) Some g show ?thesis by (simp add: a)
  qed
qed simp

lemma start_portless_invar: "start_portless um file names os = Running s \<Longrightarrow> server_invar s"
  using start_services_invar [OF server_invar_new] server_invar_new
  by (auto simp: start_portless_def Let_def split: sum.splits if_splits)

subsection \<open>Client\<close>

text \<open>
  The client's calls over the socket. \<open>up\<close> says that the daemon could be reached; \<open>codec\<close> is what
  encoding a request as JSON and decoding it again gives.
\<close>

datatype client_error = Contact_Failed | Daemon_Error body | Decode_Response_Failed

definition client_AddService ::
    "(add_request \<Rightarrow> string + add_request) \<Rightarrow> bool \<Rightarrow> server \<Rightarrow> string \<Rightarrow> string \<Rightarrow> os_answers
      \<Rightarrow> client_error option \<times> server" where
  "client_AddService codec up s domain command os =
     (if \<not> up then (Some Contact_Failed, s)
      else let ((code, b), s') = handleServices s (POST (codec \<lparr>req_domain = domain, req_command = command\<rparr>)) os
           in (if code \<noteq> 201 then Some (Daemon_Error b) else None, s'))"

definition client_ListServices :: "bool \<Rightarrow> server \<Rightarrow> string list \<Rightarrow> os_answers \<Rightarrow> client_error + service_response list" where
  "client_ListServices up s ks os =
     (if \<not> up then Inl Contact_Failed
      else let ((code, b), _) = handleServices s (GET ks) os
           in if code \<noteq> 200 then Inl (Daemon_Error b)
              else (case b of Services_Body l \<Rightarrow> Inr l | _ \<Rightarrow> Inl Decode_Response_Failed))"

subsection \<open>Reverse proxy\<close>

record http_request =
  r_Host :: string
  r_Path :: string
  r_Header :: "string \<Rightarrow> string option"

record out_request =
  out_URL :: url
  out_Path :: string
  out_Header :: "string \<Rightarrow> string option"

text \<open>
  The director of \<open>httputil.NewSingleHostReverseProxy\<close> for a target without path and query, and
  the one \<open>ServeHTTP\<close> puts around it.
\<close>

definition single_host_director :: "url \<Rightarrow> http_request \<Rightarrow> out_request" where
  "single_host_director u r =
     \<lparr>out_URL = u,
      out_Path = (if HasPrefix (r_Path r) ''/'' then r_Path r else ''/'' @ r_Path r),
      out_Header = (if r_Header r ''User-Agent'' = None then (r_Header r)(''User-Agent'' \<mapsto> []) else r_Header r)\<rparr>"

definition proxy_director :: "url \<Rightarrow> string \<Rightarrow> http_request \<Rightarrow> out_request" where
  "proxy_director u host r =
     (let req = single_host_director u r
      in req\<lparr>out_Header := (out_Header req)(''X-Forwarded-Host'' \<mapsto> host, ''X-Forwarded-Proto'' \<mapsto> ''http'')\<rparr>)"

text \<open>
  \<open>roundtrip\<close> is the rest of \<open>httputil.ReverseProxy\<close> with the backend behind it: the response, or
  \<open>None\<close> when the error handler is called.
\<close>

definition ServeHTTP :: "engine \<Rightarrow> (out_request \<Rightarrow> (int \<times> string) option) \<Rightarrow> http_request \<Rightarrow> int \<times> string" where
  "ServeHTTP e roundtrip r =
     (let host = r_Host r
      in (case GetTarget e host of
            None \<Rightarrow> (404, ''Portless: Service not found for domain '' @ [CHR 0x27] @ host @ [CHR 0x27])
          | Some t \<Rightarrow>
              (case roundtrip (proxy_director (URL t) host r) of
                 Some resp \<Rightarrow> resp
               | None \<Rightarrow> (502, ''Portless: Bad Gateway (Backend service may be down or starting)''))))"

definition isPermissionError :: "go_err \<Rightarrow> bool" where
  "isPermissionError err =
     (let fallback = (is_ErrPermission err \<or> Error err = ''bind: permission denied''
                      \<or> Error err = ''listen tcp :80: bind: permission denied'')
      in (case as_OpError err of
            None \<Rightarrow> fallback
          | Some e \<Rightarrow> (case as_SyscallError e of
                None \<Rightarrow> fallback
              | Some s \<Rightarrow> s = Errno EACCES \<or> s = Errno EPERM)))"

datatype proxy_start = Serving string | Failed_Fallback go_err | Failed_Port_80 go_err

definition proxy_Start :: "(string \<Rightarrow> go_err option) \<Rightarrow> proxy_start" where
  "proxy_Start listen =
     (case listen '':80'' of
        None \<Rightarrow> Serving '':80''
      | Some e \<Rightarrow>
          if isPermissionError e
          then (case listen '':8080'' of None \<Rightarrow> Serving '':8080'' | Some e2 \<Rightarrow> Failed_Fallback e2)
          else Failed_Port_80 e)"

subsection \<open>DNS\<close>

text \<open>An address of an interface; a mapped IPv4 address is \<open>IP4\<close>.\<close>

datatype ip_addr = IP4 "8 word" "8 word" "8 word" "8 word" | IP6 "8 word list"

datatype iface_addr = IPNet ip_addr | Other_Addr

fun IsLoopback :: "ip_addr \<Rightarrow> bool" where
  "IsLoopback (IP4 a b c d) = (a = 127)"
| "IsLoopback (IP6 bs) = (bs = replicate 15 0 @ [1])"

fun ip4_string :: "ip_addr \<Rightarrow> string option" where
  "ip4_string (IP4 a b c d) = Some (dec (uint a) @ ''.'' @ dec (uint b) @ ''.'' @ dec (uint c) @ ''.'' @ dec (uint d))"
| "ip4_string (IP6 bs) = None"

fun first_ipv4 :: "iface_addr list \<Rightarrow> string option" where
  "first_ipv4 [] = None"
| "first_ipv4 (IPNet ip # as) =
     (if \<not> IsLoopback ip then (case ip4_string ip of Some t \<Rightarrow> Some t | None \<Rightarrow> first_ipv4 as)
      else first_ipv4 as)"
| "first_ipv4 (Other_Addr # as) = first_ipv4 as"

definition getFallbackIP :: "iface_addr list option \<Rightarrow> string" where
  "getFallbackIP addrs =
     (case addrs of
        None \<Rightarrow> ''127.0.0.1''
      | Some as \<Rightarrow> (case first_ipv4 as of Some t \<Rightarrow> t | None \<Rightarrow> ''127.0.0.1''))"

text \<open>\<open>dial\<close> is the textual local address of the socket towards \<open>8.8.8.8:80\<close>, if dialling works.\<close>

definition getLocalIP :: "string option \<Rightarrow> iface_addr list option \<Rightarrow> string" where
  "getLocalIP dial addrs = (case dial of None \<Rightarrow> getFallbackIP addrs | Some t \<Rightarrow> t)"

record question =
  q_Name :: string
  q_Qtype :: "16 word"

abbreviation TypeA :: "16 word" where "TypeA \<equiv> 1"
abbreviation OpcodeQuery :: int where "OpcodeQuery \<equiv> 0"

text \<open>
  The answers of the reply. The questions are those \<open>SetReply\<close> copies from the request, and
  \<open>NewRR\<close>, which parses a resource record from its text, belongs to the DNS package as well.
\<close>

fun dns_answers :: "(string \<Rightarrow> 'rr option) \<Rightarrow> string \<Rightarrow> question list \<Rightarrow> 'rr list" where
  "dns_answers NewRR ip [] = []"
| "dns_answers NewRR ip (q # qs) =
     (let name = ToLower (q_Name q)
      in if q_Qtype q = TypeA \<and> (HasSuffix name ''.internal.'' \<or> HasSuffix name ''.local.'')
         then (case NewRR (q_Name q @ '' A '' @ ip) of
                 Some rr \<Rightarrow> rr # dns_answers NewRR ip qs
               | None \<Rightarrow> dns_answers NewRR ip qs)
         else dns_answers NewRR ip qs)"

definition handleDNSRequest ::
    "(string \<Rightarrow> 'rr option) \<Rightarrow> int \<Rightarrow> question list \<Rightarrow> string option \<Rightarrow> iface_addr list option \<Rightarrow> 'rr list" where
  "handleDNSRequest NewRR opcode questions dial addrs =
     (if opcode \<noteq> OpcodeQuery then [] else dns_answers NewRR (getLocalIP dial addrs) questions)"

subsection \<open>Properties\<close>


definition demo_os :: "16 word \<Rightarrow> nat \<Rightarrow> os_answers" where
  "demo_os port pid = \<lparr>os_listen = (\<lambda>_. Listens_On port), os_spawn = Starts pid, os_environ = [''A=b''], os_term_ok = True\<rparr>"

definition demo_yaml :: "string \<Rightarrow> go_err + config" where
  "demo_yaml _ = Inr \<lparr>Services = fmupd ''api'' \<lparr>Domain = ''api.internal'', Command = ''run''\<rparr> fmempty\<rparr>"

definition demo_server :: server where
  "demo_server = (case start_portless demo_yaml (Inr []) [''api''] (\<lambda>_. demo_os 4000 7) of Running s \<Rightarrow> s
     | _ \<Rightarrow> NewServer NewEngine NewManager NewSupervisor)"

lemma GetFreePort_first:
  "os 0 = Listens_On w \<Longrightarrow> uint w \<notin> allocated m \<Longrightarrow>
     GetFreePort m os = (Inr (uint w), m\<lparr>allocated := insert (uint w) (allocated m)\<rparr>)"
  by (simp add: GetFreePort_def numeral_eq_Suc Let_def)

lemma demo_start:
  "start_portless demo_yaml (Inr []) [''api''] (\<lambda>_. demo_os 4000 7) = Running demo_server"
  "demo_server = \<lparr>router = fmupd ''api.internal'' \<lparr>ServiceName = ''api'', Port = 4000, URL = local_url 4000\<rparr> fmempty,
     pm = \<lparr>allocated = {4000}\<rparr>,
     sup = \<lparr>processes = fmupd ''api'' 7 fmempty,
       children = [\<lparr>child_name = ''api'', child_pid = 7, child_command = [''sh'', ''-c'', ''run''],
                    child_env = [''A=b'', ''PORT='' @ dec 4000]\<rparr>],
       signals = []\<rparr>\<rparr>"
  by (simp_all add: demo_server_def start_portless_def LoadConfig_def demo_yaml_def demo_os_def Let_def
      GetFreePort_first AddRoute_def parse_local_url_def StartService_def NewServer_def NewEngine_def
      NewManager_def NewSupervisor_def)




text \<open>
  Removing a service. In every reachable state, removing a routed domain answers 200, makes
  the proxy answer 404 for it, frees its port so that it can be handed out again, keeps every other
  route and its reservation, and signals the process group of the service if it runs. The process
  stays in the supervisor's table until it has exited: adding a service under the name of one that
  still runs is refused.
\<close>

theorem remove_service_spec:
  assumes "server_invar s" "GetTarget (router s) d = Some t" "d \<noteq> []"
    and "handleServices s (DELETE d) os = (resp, s')"
  shows "fst resp = 200
    \<and> fst (ServeHTTP (router s') backend \<lparr>r_Host = d, r_Path = p, r_Header = h\<rparr>) = 404
    \<and> Port t \<notin> allocated (pm s')
    \<and> (\<forall>d' t'. d' \<noteq> d \<longrightarrow> GetTarget (router s') d' = GetTarget (router s) d'
          \<and> (GetTarget (router s) d' = Some t' \<longrightarrow> Port t' \<in> allocated (pm s')))
    \<and> (\<forall>pid. fmlookup (processes (sup s)) (ServiceName t) = Some pid
          \<longrightarrow> SIGTERM_Group pid \<in> set (signals (sup s'))
            \<and> fst (StartService (sup s') (ServiceName t) cmd port env spawn) = Some (Already_Running (ServiceName t)))"
proof -
  have s': "s' = s\<lparr>sup := snd (StopService (sup s) (ServiceName t) (os_term_ok os)),
      pm := ReleasePort (pm s) (Port t), router := RemoveRoute (router s) d\<rparr>" and r: "fst resp = 200"
    using assms(2-4) by (auto simp: handleServices_def removeService_def)
  have own: "pl.owned (router s) (pm s)" using assms(1) by (simp add: server_invar_def)
  have get: "GetTarget (router s') d' = (if d' = d then None else GetTarget (router s) d')" for d'
    by (simp add: s' GetTarget_def RemoveRoute_def)
  have "fst (ServeHTTP (router s') backend \<lparr>r_Host = d, r_Path = p, r_Header = h\<rparr>) = 404"
    by (simp add: ServeHTTP_def get Let_def)
  moreover have "Port t' \<in> allocated (pm s')" if "d' \<noteq> d" "GetTarget (router s) d' = Some t'" for d' t'
    using own that assms(2) by (auto simp: pl.owned_def s' ReleasePort_def)
  moreover have "SIGTERM_Group pid \<in> set (signals (sup s'))
      \<and> fst (StartService (sup s') (ServiceName t) cmd port env spawn) = Some (Already_Running (ServiceName t))"
    if "fmlookup (processes (sup s)) (ServiceName t) = Some pid" for pid
    using that StopService_signals(1) [OF that] by (auto simp: s' StartService_def fmdomI)
  ultimately show ?thesis using r get by (simp add: s' ReleasePort_def)
qed

theorem remove_service_spec_witness:
  "\<exists>s'. handleServices demo_server (DELETE ''api.internal'') (demo_os 4001 8) = ((200, Text []), s')
     \<and> 4000 \<notin> allocated (pm s') \<and> SIGTERM_Group 7 \<in> set (signals (sup s'))"
proof -
  let ?r = "handleServices demo_server (DELETE ''api.internal'') (demo_os 4001 8)"
  have g: "GetTarget (router demo_server) ''api.internal''
      = Some \<lparr>ServiceName = ''api'', Port = 4000, URL = local_url 4000\<rparr>"
    by (simp add: demo_start(2) GetTarget_def)
  then have r: "?r = ((200, Text []), snd ?r)" by (simp add: handleServices_def removeService_def)
  have "fmlookup (processes (sup demo_server)) ''api'' = Some 7" by (simp add: demo_start(2))
  with remove_service_spec [OF start_portless_invar [OF demo_start(1)] g _ r] r show ?thesis by fastforce
qed

text \<open>
  A missing configuration file is fatal. The start command means to go on with an empty
  router when the file does not exist, but it asks \<open>os.IsNotExist\<close> about an error that
  \<open>LoadConfig\<close> has wrapped, which is always false: whatever the error of reading the file, the
  command ends; and it never starts without a configuration that was read, parsed and valid.
\<close>

theorem missing_config_is_fatal:
  "start_portless unmarshal (Inl e) names os = Fatal_Config (Read_Failed e)
   \<and> (start_portless unmarshal file names os = Running s \<longrightarrow>
       (\<exists>data cfg. file = Inr data \<and> unmarshal data = Inr cfg
          \<and> (\<forall>n \<in> set names. \<forall>svc. fmlookup (Services cfg) n = Some svc \<longrightarrow> Domain svc \<noteq> [] \<and> Command svc \<noteq> [])))"
proof -
  have fatal: "\<not> os_IsNotExist (config_err e)" for e by (cases e) simp_all
  have "validate_services cfg ns = None \<Longrightarrow> n \<in> set ns \<Longrightarrow> fmlookup (Services cfg) n = Some svc
      \<Longrightarrow> Domain svc \<noteq> [] \<and> Command svc \<noteq> []" for cfg ns n svc
    by (induction ns) (auto split: option.splits if_splits)
  then show ?thesis
    using fatal by (fastforce simp: start_portless_def LoadConfig_def Let_def split: sum.splits option.splits)
qed

theorem missing_config_is_fatal_witness:
  "start_portless demo_yaml (Inl (Path_Error ''open portless.yaml'' (Errno ENOENT))) [] (\<lambda>_. demo_os 1 1)
     = Fatal_Config (Read_Failed (Path_Error ''open portless.yaml'' (Errno ENOENT)))
   \<and> os_IsNotExist (Path_Error ''open portless.yaml'' (Errno ENOENT))"
  using missing_config_is_fatal [of demo_yaml "Path_Error ''open portless.yaml'' (Errno ENOENT)"] by simp

text \<open>
  shutting down reaches every service. Every process that runs when the shutdown begins and
  does not exit by itself before its turn gets a termination signal for its process group, for
  every order in which the names are visited.
\<close>

theorem shutdown_signals_every_service:
  assumes "sup_invar s" "set names = fset (fmdom (processes s))" "c \<in> set (children s)"
    and "\<And>i. i < length names \<Longrightarrow> child_name c \<notin> child_name ` set (gone i)"
  shows "SIGTERM_Group (child_pid c) \<in> set (signals (StopAllServices s names gone ok))"
proof -
  have "fmlookup (processes s) (child_name c) = Some (child_pid c)"
    using assms(1,3) by (auto simp: sup_invar_def)
  then show ?thesis
    unfolding StopAllServices_def using assms(2,4) by (intro stop_each_stops) (auto simp: fmdomI)
qed

theorem shutdown_signals_every_service_witness:
  "SIGTERM_Group 7 \<in> set (signals (StopAllServices (sup demo_server) [''api''] (\<lambda>_. []) (\<lambda>_. False)))"
proof -
  have "server_invar demo_server" by (rule start_portless_invar [OF demo_start(1)])
  then show ?thesis
    using shutdown_signals_every_service [of "sup demo_server" "[''api'']"
        "\<lparr>child_name = ''api'', child_pid = 7, child_command = [''sh'', ''-c'', ''run''],
                    child_env = [''A=b'', ''PORT='' @ dec 4000]\<rparr>" "\<lambda>_. []" "\<lambda>_. False"]
    by (simp add: server_invar_def demo_start(2))
qed

end
