(* ===== verification/Net_Addr.thy ===== *)
theory Net_Addr
  imports Prelude
begin

unbundle bit_operations_syntax

section \<open>Network addresses\<close>

text \<open>
  What the security policy uses of package \<open>net\<close>: \<open>SplitHostPort\<close>, \<open>ParseIP\<close>, \<open>ParseCIDR\<close> and
  \<open>IPNet.Contains\<close>, on strings as lists of bytes. An address is its 4 bytes, or its 16 bytes when it
  is an IPv6 address that does not embed an IPv4 address. The last lemma gives the meaning of the
  byte masks: an address is in a network iff both have the same leading bits.
\<close>

subsection \<open>Splitting\<close>

fun split_at :: "char \<Rightarrow> string \<Rightarrow> string list" where
  "split_at c [] = [[]]"
| "split_at c (x # xs) =
     (case split_at c xs of
        [] \<Rightarrow> []
      | w # ws \<Rightarrow> if x = c then [] # w # ws else (x # w) # ws)"

definition index_of :: "char \<Rightarrow> string \<Rightarrow> nat option" where
  "index_of c s = (let n = length (takeWhile (\<lambda>x. x \<noteq> c) s) in if n < length s then Some n else None)"

definition last_index_of :: "char \<Rightarrow> string \<Rightarrow> nat option" where
  "last_index_of c s = map_option (\<lambda>i. length s - 1 - i) (index_of c (rev s))"

text \<open>\<open>net.SplitHostPort\<close>: the host, \<open>None\<close> for every error.\<close>

definition SplitHostPort :: "string \<Rightarrow> (string \<times> string) option" where
  "SplitHostPort hostport =
     (case last_index_of CHR '':'' hostport of
        None \<Rightarrow> None
      | Some i \<Rightarrow>
          (let port = drop (i + 1) hostport
           in if hd hostport = CHR ''['' then
                (case index_of CHR '']'' hostport of
                   None \<Rightarrow> None
                 | Some e \<Rightarrow>
                     if e + 1 \<noteq> i then None
                     else if index_of CHR ''['' (drop 1 hostport) \<noteq> None
                             \<or> index_of CHR '']'' (drop (e + 1) hostport) \<noteq> None then None
                     else Some (take (e - 1) (drop 1 hostport), port))
              else
                (let host = take i hostport
                 in if index_of CHR '':'' host \<noteq> None then None
                    else if index_of CHR ''['' hostport \<noteq> None \<or> index_of CHR '']'' hostport \<noteq> None then None
                    else Some (host, port))))"

subsection \<open>Parsing addresses\<close>

definition digit_val :: "char \<Rightarrow> nat option" where
  "digit_val c = (let n = of_char c :: nat in if 48 \<le> n \<and> n \<le> 57 then Some (n - 48) else None)"

definition hex_val :: "char \<Rightarrow> nat option" where
  "hex_val c =
     (let n = of_char c :: nat
      in if 48 \<le> n \<and> n \<le> 57 then Some (n - 48)
         else if 97 \<le> n \<and> n \<le> 102 then Some (n - 87)
         else if 65 \<le> n \<and> n \<le> 70 then Some (n - 55) else None)"

fun parse_base :: "nat \<Rightarrow> (char \<Rightarrow> nat option) \<Rightarrow> nat \<Rightarrow> string \<Rightarrow> nat option" where
  "parse_base b f acc [] = Some acc"
| "parse_base b f acc (c # cs) = (case f c of None \<Rightarrow> None | Some d \<Rightarrow> parse_base b f (acc * b + d) cs)"

text \<open>A field of an IPv4 address: one to three digits, no leading zero, at most 255.\<close>

definition ipv4_field :: "string \<Rightarrow> byte option" where
  "ipv4_field s =
     (if s = [] \<or> 3 < length s \<or> (1 < length s \<and> hd s = CHR ''0'') then None
      else (case parse_base 10 digit_val 0 s of
              None \<Rightarrow> None
            | Some n \<Rightarrow> if n \<le> 255 then Some (word_of_nat n) else None))"

fun all_some :: "'a option list \<Rightarrow> 'a list option" where
  "all_some [] = Some []"
| "all_some (None # xs) = None"
| "all_some (Some x # xs) = map_option ((#) x) (all_some xs)"

definition parse_ipv4 :: "string \<Rightarrow> byte list option" where
  "parse_ipv4 s =
     (let fs = split_at CHR ''.'' s in if length fs \<noteq> 4 then None else all_some (map ipv4_field fs))"

text \<open>A group of an IPv6 address: one to four hexadecimal digits.\<close>

definition hextet :: "string \<Rightarrow> byte list option" where
  "hextet s =
     (if s = [] \<or> 4 < length s then None
      else map_option (\<lambda>n. [word_of_nat (n div 256), word_of_nat (n mod 256)]) (parse_base 16 hex_val 0 s))"

text \<open>Groups separated by colons; the last may be an IPv4 address when \<open>v4\<close> allows it.\<close>

fun hextets :: "bool \<Rightarrow> string list \<Rightarrow> byte list option" where
  "hextets v4 [] = Some []"
| "hextets v4 [g] = (if v4 \<and> CHR ''.'' \<in> set g then parse_ipv4 g else hextet g)"
| "hextets v4 (g # gs) =
     (case hextet g of None \<Rightarrow> None | Some b \<Rightarrow> map_option ((@) b) (hextets v4 gs))"

text \<open>The two sides of the first double colon.\<close>

fun split_ellipsis :: "string \<Rightarrow> (string \<times> string) option" where
  "split_ellipsis (a # b # s) =
     (if a = CHR '':'' \<and> b = CHR '':'' then Some ([], s)
      else map_option (\<lambda>(l, r). (a # l, r)) (split_ellipsis (b # s)))"
| "split_ellipsis _ = None"

definition groups_of :: "string \<Rightarrow> string list" where
  "groups_of s = (if s = [] then [] else split_at CHR '':'' s)"

definition parse_ipv6 :: "string \<Rightarrow> byte list option" where
  "parse_ipv6 s =
     (case split_ellipsis s of
        None \<Rightarrow> (case hextets True (groups_of s) of
            None \<Rightarrow> None
          | Some bs \<Rightarrow> if length bs = 16 then Some bs else None)
      | Some (l, r) \<Rightarrow>
          (case (hextets False (groups_of l), hextets True (groups_of r)) of
             (Some bl, Some br) \<Rightarrow>
               if length bl + length br \<le> 14 then Some (bl @ replicate (16 - length bl - length br) 0 @ br) else None
           | _ \<Rightarrow> None))"

text \<open>
  \<open>netip.ParseAddr\<close> without zones: the first of the characters dot, colon and percent decides. The
  flag tells an IPv4 address (32 bits) from an IPv6 address.
\<close>

definition ParseAddr :: "string \<Rightarrow> (bool \<times> byte list) option" where
  "ParseAddr s =
     (case find (\<lambda>c. c \<in> {CHR ''.'', CHR '':'', CHR ''%''}) s of
        None \<Rightarrow> None
      | Some c \<Rightarrow>
          if c = CHR ''.'' then map_option (Pair True) (parse_ipv4 s)
          else if c = CHR '':'' then map_option (Pair False) (parse_ipv6 s)
          else None)"

definition v4_prefix :: "byte list" where
  "v4_prefix = replicate 10 0 @ [255, 255]"

text \<open>\<open>To4\<close>, as far as it changes the address: an embedded IPv4 address becomes its 4 bytes.\<close>

definition to4 :: "byte list \<Rightarrow> byte list" where
  "to4 bs = (if length bs = 16 \<and> take 12 bs = v4_prefix then drop 12 bs else bs)"

definition ParseIP :: "string \<Rightarrow> byte list option" where
  "ParseIP s = map_option (\<lambda>(v4, bs). to4 bs) (ParseAddr s)"

subsection \<open>Networks\<close>

text \<open>The bytes of \<open>CIDRMask\<close>.\<close>

fun mask_bytes :: "nat \<Rightarrow> nat \<Rightarrow> byte list" where
  "mask_bytes 0 ones = []"
| "mask_bytes (Suc n) ones =
     (if 8 \<le> ones then 255 # mask_bytes n (ones - 8) else NOT (drop_bit ones 255) # mask_bytes n 0)"

definition apply_mask :: "byte list \<Rightarrow> byte list \<Rightarrow> byte list" where
  "apply_mask bs m = map2 (AND) bs m"

record ip_net =
  net_ip :: "byte list"
  net_mask :: "byte list"

definition ParseCIDR :: "string \<Rightarrow> ip_net option" where
  "ParseCIDR s =
     (case index_of CHR ''/'' s of
        None \<Rightarrow> None
      | Some i \<Rightarrow>
          (case ParseAddr (take i s) of
             None \<Rightarrow> None
           | Some (v4, bs) \<Rightarrow>
               (let m = drop (i + 1) s
                in (case parse_base 10 digit_val 0 m of
                      None \<Rightarrow> None
                    | Some n \<Rightarrow>
                        if m = [] \<or> (if v4 then 32 else 128) < n then None
                        else Some (let mask = mask_bytes (length bs) n
                                   in \<lparr>net_ip = apply_mask bs mask, net_mask = mask\<rparr>)))))"

text \<open>A network whose address embeds an IPv4 address is compared on the last four bytes.\<close>

definition net_contains :: "ip_net \<Rightarrow> byte list \<Rightarrow> bool" where
  "net_contains n ip \<longleftrightarrow>
     (let nn = to4 (net_ip n);
          m = (if length nn = 4 \<and> length (net_mask n) = 16 then drop 12 (net_mask n) else net_mask n)
      in length ip = length nn \<and> apply_mask ip m = apply_mask nn m)"

subsection \<open>The meaning of masks\<close>

lemma be_nat_acc_shift: "be_nat_acc a xs = a * 256 ^ length xs + be_nat_acc 0 xs"
proof (induction xs arbitrary: a)
  case (Cons x xs)
  show ?case using Cons [of "a * 256 + unat x"] Cons [of "unat x"] by (simp add: algebra_simps)
qed simp

lemma be_nat_Cons: "be_nat (x # xs) = unat x * 256 ^ length xs + be_nat xs"
  using be_nat_acc_shift [of "unat x" xs] by (simp add: be_nat_def)

lemma byte_less: "unat (x :: byte) < 256"
  using unsigned_less [of x, where ?'a = nat] by simp

lemma be_nat_less: "be_nat xs < 256 ^ length xs"
proof (induction xs)
  case (Cons x xs)
  have "unat x * 256 ^ length xs + be_nat xs < (unat x + 1) * 256 ^ length xs" using Cons by simp
  also have "\<dots> \<le> 256 * 256 ^ length xs" using byte_less [of x] by (intro mult_right_mono) auto
  finally show ?case by (simp add: be_nat_Cons)
qed (simp add: be_nat_def)

lemma byte_255_mask: "(255 :: byte) = mask 8"
  by (simp add: mask_eq_exp_minus_1)

lemma byte_and_255: "(x :: byte) AND 255 = x"
  unfolding byte_255_mask by (rule bit_word_eqI) (auto simp: bit_and_iff bit_mask_iff)

lemma byte_minus_256: "(- 256 :: byte) = 0"
  by code_simp

text \<open>One byte under a partial mask.\<close>

lemma byte_mask_eq:
  assumes "k < 8"
  shows "(x :: byte) AND NOT (drop_bit k 255) = y AND NOT (drop_bit k 255) \<longleftrightarrow> unat x div 2 ^ (8 - k) = unat y div 2 ^ (8 - k)"
proof -
  have m: "bit (NOT (drop_bit k 255) :: byte) i \<longleftrightarrow> i < 8 \<and> 8 - k \<le> i" for i
    unfolding byte_255_mask using assms by (auto simp: bit_not_iff bit_drop_bit_eq bit_mask_iff)
  have "x AND NOT (drop_bit k 255) = y AND NOT (drop_bit k 255) \<longleftrightarrow> (\<forall>i. i < 8 \<and> 8 - k \<le> i \<longrightarrow> bit x i = bit y i)"
    by (auto simp: bit_eq_iff bit_and_iff m)
  also have "\<dots> \<longleftrightarrow> drop_bit (8 - k) x = drop_bit (8 - k) y"
  proof
    assume a: "\<forall>i. i < 8 \<and> 8 - k \<le> i \<longrightarrow> bit x i = bit y i"
    show "drop_bit (8 - k) x = drop_bit (8 - k) y"
    proof (rule bit_eqI)
      fix n
      show "bit (drop_bit (8 - k) x) n = bit (drop_bit (8 - k) y) n"
        using a bit_imp_le_length [of x "8 - k + n"] bit_imp_le_length [of y "8 - k + n"]
        by (auto simp: bit_drop_bit_eq)
    qed
  next
    assume d: "drop_bit (8 - k) x = drop_bit (8 - k) y"
    show "\<forall>i. i < 8 \<and> 8 - k \<le> i \<longrightarrow> bit x i = bit y i"
    proof (intro allI impI)
      fix i assume "i < 8 \<and> 8 - k \<le> i"
      then have "bit (drop_bit (8 - k) x) (i - (8 - k)) = bit x i" "bit (drop_bit (8 - k) y) (i - (8 - k)) = bit y i"
        by (simp_all add: bit_drop_bit_eq)
      with d show "bit x i = bit y i" by simp
    qed
  qed
  also have "\<dots> \<longleftrightarrow> unat x div 2 ^ (8 - k) = unat y div 2 ^ (8 - k)"
  proof -
    have "unat (drop_bit (8 - k) z) = unat z div 2 ^ (8 - k)" for z :: byte
      by (simp only: unat_drop_bit_eq) (simp only: drop_bit_eq_div)
    then show ?thesis by (simp only: word_unat_eq_iff)
  qed
  finally show ?thesis .
qed

lemma apply_mask_zero:
  "length xs = n \<Longrightarrow> length ys = n \<Longrightarrow> apply_mask xs (mask_bytes n 0) = apply_mask ys (mask_bytes n 0)"
proof (induction n arbitrary: xs ys)
  case (Suc n)
  from Suc(2,3) obtain x xs' y ys' where xy: "xs = x # xs'" "ys = y # ys'" "length xs' = n" "length ys' = n"
    by (metis length_Suc_conv)
  from Suc(1) [OF xy(3,4)] show ?case by (simp add: xy(1,2) apply_mask_def byte_minus_256)
qed (simp add: apply_mask_def)

lemma div_eq_split:
  fixes a b c d k m :: nat
  assumes "b < m * k" "d < m * k" "0 < m"
  shows "(a * (m * k) + b) div m = (c * (m * k) + d) div m \<longleftrightarrow> a = c \<and> b div m = d div m"
proof -
  have 1: "(x * (m * k) + y) div m = x * k + y div m" for x y
    using assms(3) by (metis div_mult_self1 mult.assoc mult.commute add.commute less_not_refl)
  have "b div m < k" "d div m < k" using assms by (simp_all add: div_less_iff_less_mult mult.commute)
  moreover have "a * k + x = c * k + y \<longleftrightarrow> a = c \<and> x = y" if "x < k" "y < k" for x y
    using that by (metis add.commute add_left_cancel div_mult_self3 div_less less_zeroE)
  ultimately show ?thesis by (simp add: 1)
qed

lemma apply_mask_prefix:
  assumes "length xs = n" "length ys = n" "ones \<le> 8 * n"
  shows "apply_mask xs (mask_bytes n ones) = apply_mask ys (mask_bytes n ones)
    \<longleftrightarrow> be_nat xs div 2 ^ (8 * n - ones) = be_nat ys div 2 ^ (8 * n - ones)"
  using assms
proof (induction n arbitrary: xs ys ones)
  case 0
  then show ?case by (simp add: apply_mask_def)
next
  case (Suc n)
  then obtain x xs' y ys' where xy: "xs = x # xs'" "ys = y # ys'" "length xs' = n" "length ys' = n"
    by (metis length_Suc_conv)
  have p256: "(256 :: nat) ^ n = 2 ^ (8 * n)" by (simp add: power_mult)
  show ?case
  proof (cases "8 \<le> ones")
    case True
    have e: "8 * Suc n - ones = 8 * n - (ones - 8)" using True Suc(4) by simp
    have head: "x AND 255 = y AND 255 \<longleftrightarrow> unat x = unat y" by (simp only: byte_and_255 word_unat_eq_iff)
    have IH: "apply_mask xs' (mask_bytes n (ones - 8)) = apply_mask ys' (mask_bytes n (ones - 8))
      \<longleftrightarrow> be_nat xs' div 2 ^ (8 * n - (ones - 8)) = be_nat ys' div 2 ^ (8 * n - (ones - 8))"
      using Suc(1) [OF xy(3,4), of "ones - 8"] Suc(4) True by simp
    let ?m = "2 ^ (8 * n - (ones - 8)) :: nat" and ?k = "2 ^ (ones - 8) :: nat"
    have mk: "?m * ?k = 256 ^ n" using Suc(4) True by (simp add: p256 flip: power_add)
    have "(unat x * (?m * ?k) + be_nat xs') div ?m = (unat y * (?m * ?k) + be_nat ys') div ?m
      \<longleftrightarrow> unat x = unat y \<and> be_nat xs' div ?m = be_nat ys' div ?m"
      using be_nat_less [of xs'] be_nat_less [of ys'] xy(3,4) mk by (intro div_eq_split) simp_all
    then show ?thesis using True head IH e xy mk by (simp add: apply_mask_def be_nat_Cons)
  next
    case False
    then have k: "ones < 8" by simp
    have e: "8 * Suc n - ones = 8 * n + (8 - ones)" using k by simp
    have d: "be_nat (z # zs) div 2 ^ (8 * Suc n - ones) = unat z div 2 ^ (8 - ones)" if "length zs = n" for z zs
    proof -
      have "be_nat (z # zs) div 2 ^ (8 * n) = unat z"
        using be_nat_less [of zs] that by (simp add: be_nat_Cons p256)
      then show ?thesis unfolding e by (simp add: power_add div_mult2_eq)
    qed
    have "apply_mask xs' (mask_bytes n 0) = apply_mask ys' (mask_bytes n 0)" using xy(3,4) by (rule apply_mask_zero)
    then show ?thesis using False byte_mask_eq [OF k, of x y] xy d by (simp add: apply_mask_def)
  qed
qed

text \<open>The IPv4 range a text denotes: the value of the base address and the number of leading bits.\<close>

definition v4_range :: "string \<Rightarrow> (nat \<times> nat) option" where
  "v4_range s =
     (case index_of CHR ''/'' s of
        None \<Rightarrow> None
      | Some i \<Rightarrow>
          (case (ParseAddr (take i s), parse_base 10 digit_val 0 (drop (i + 1) s)) of
             (Some (True, bs), Some k) \<Rightarrow> if drop (i + 1) s = [] \<or> 32 < k then None else Some (be_nat bs, k)
           | _ \<Rightarrow> None))"

definition in_v4_range :: "byte list \<Rightarrow> string \<Rightarrow> bool" where
  "in_v4_range ip s \<longleftrightarrow>
     (case v4_range s of None \<Rightarrow> False | Some (base, k) \<Rightarrow> be_nat ip div 2 ^ (32 - k) = base div 2 ^ (32 - k))"

definition is_v6_cidr :: "string \<Rightarrow> bool" where
  "is_v6_cidr s =
     (case index_of CHR ''/'' s of
        None \<Rightarrow> False
      | Some i \<Rightarrow> (case ParseAddr (take i s) of Some (False, _) \<Rightarrow> True | _ \<Rightarrow> False))"

lemma all_some_length: "all_some xs = Some ys \<Longrightarrow> length ys = length xs"
  by (induction xs arbitrary: ys rule: all_some.induct) auto

lemma ParseAddr_v4_length: "ParseAddr s = Some (True, bs) \<Longrightarrow> length bs = 4"
  by (auto simp: ParseAddr_def parse_ipv4_def Let_def split: option.splits if_splits dest!: all_some_length)

lemma length_mask_bytes [simp]: "length (mask_bytes n k) = n"
  by (induction n arbitrary: k) auto

lemma apply_mask_idem: "length bs = length m \<Longrightarrow> apply_mask (apply_mask bs m) m = apply_mask bs m"
  by (induction bs m rule: list_induct2) (simp_all add: apply_mask_def and.assoc)

lemma ParseCIDR_v4:
  assumes "\<not> is_v6_cidr s" "length ip = 4"
  shows "(case ParseCIDR s of None \<Rightarrow> False | Some n \<Rightarrow> net_contains n ip) \<longleftrightarrow> in_v4_range ip s"
proof (cases "index_of CHR ''/'' s")
  case None
  then show ?thesis by (simp add: ParseCIDR_def in_v4_range_def v4_range_def)
next
  case i: (Some i)
  show ?thesis
  proof (cases "ParseAddr (take i s)")
    case None
    with i show ?thesis by (simp add: ParseCIDR_def in_v4_range_def v4_range_def)
  next
    case (Some r)
    with assms(1) i obtain bs where a: "ParseAddr (take i s) = Some (True, bs)"
      by (cases r) (auto simp: is_v6_cidr_def split: bool.splits)
    have l: "length bs = 4" by (rule ParseAddr_v4_length [OF a])
    show ?thesis
    proof (cases "parse_base 10 digit_val 0 (drop (i + 1) s)")
      case None
      with i a show ?thesis by (simp add: ParseCIDR_def in_v4_range_def v4_range_def Let_def)
    next
      case k: (Some k)
      show ?thesis
      proof (cases "drop (i + 1) s = [] \<or> 32 < k")
        case True
        with i a k show ?thesis by (auto simp: ParseCIDR_def in_v4_range_def v4_range_def Let_def)
      next
        case False
        let ?m = "mask_bytes 4 k"
        let ?n = "\<lparr>net_ip = apply_mask bs ?m, net_mask = ?m\<rparr>"
        have c: "ParseCIDR s = Some ?n" using i a k False l by (simp add: ParseCIDR_def Let_def)
        have "length (apply_mask bs ?m) = 4" using l by (simp add: apply_mask_def)
        then have "net_contains ?n ip \<longleftrightarrow> apply_mask ip ?m = apply_mask bs ?m"
          using assms(2) l by (simp add: net_contains_def to4_def Let_def apply_mask_idem)
        also have "\<dots> \<longleftrightarrow> be_nat ip div 2 ^ (32 - k) = be_nat bs div 2 ^ (32 - k)"
          using apply_mask_prefix [OF assms(2) l, of k] False by simp
        finally show ?thesis using c i a k False by (simp add: in_v4_range_def v4_range_def)
      qed
    qed
  qed
qed

end
