(* ===== verification/Token_Bucket.thy ===== *)
theory Token_Bucket
  imports Prelude "HOL-Library.Log_Nat"
begin

section \<open>Rate limiters\<close>

text \<open>
  Models of the two rate limiters of the code, \<open>RateLimiter\<close> of
  \<open>GoTunnel/internal/security/policy.go\<close> and of \<open>GoTunnel/internal/ops/hardening.go\<close>. Both compute
  the refill as \<open>int(elapsed.Seconds() * float64(rate))\<close>, so the model has the 64 bit floating
  point numbers: a value is the rational it stands for, and every operation rounds to 53 bits,
  ties to even. A locale states what one call does to the bucket and proves once how many requests
  a bucket lets through; both limiters are interpretations.
\<close>

subsection \<open>64 bit integers and floating point numbers\<close>

definition wrap64 :: "int \<Rightarrow> int" where
  "wrap64 n = (n + 2 ^ 63) mod 2 ^ 64 - 2 ^ 63"

lemma wrap64_id: "- (2 ^ 63) \<le> n \<Longrightarrow> n < 2 ^ 63 \<Longrightarrow> wrap64 n = n"
  by (simp add: wrap64_def)

lemma wrap64_le: "- (2 ^ 63) \<le> n \<Longrightarrow> wrap64 n \<le> n"
  using zmod_le_nonneg_dividend [of "n + 2 ^ 63" "2 ^ 64"] by (simp add: wrap64_def)

text \<open>The largest power of two not above a positive rational, as an exponent.\<close>

definition ilog2 :: "rat \<Rightarrow> int" where
  "ilog2 x =
     (let (p, q) = quotient_of x;
          k = int (floorlog 2 (nat p)) - int (floorlog 2 (nat q))
      in if 2 powi k \<le> x then k else k - 1)"

definition round_even :: "rat \<Rightarrow> int" where
  "round_even m =
     (let f = \<lfloor>m\<rfloor>; d = m - of_int f
      in if d < 1 / 2 then f else if d > 1 / 2 then f + 1 else if even f then f else f + 1)"

text \<open>Rounding of a rational that is neither tiny nor huge, as all are here.\<close>

definition float64 :: "rat \<Rightarrow> rat" where
  "float64 x =
     (if x = 0 then 0
      else let u = 2 powi (ilog2 \<bar>x\<bar> - 52)
           in sgn x * of_int (round_even (\<bar>x\<bar> / u)) * u)"

text \<open>\<open>Duration.Seconds\<close>: the whole seconds plus the nanoseconds divided, each as a float.\<close>

definition Seconds :: "duration \<Rightarrow> rat" where
  "Seconds d =
     (let sec = (if d < 0 then - ((- d) div second_ns) else d div second_ns);
          nsec = d - sec * second_ns
      in float64 (float64 (of_int sec) + float64 (float64 (of_int nsec) / 1000000000)))"

text \<open>Conversion to \<open>int\<close> truncates; out of range it gives the least integer (amd64).\<close>

definition float_to_int :: "rat \<Rightarrow> int" where
  "float_to_int x =
     (let n = (if x < 0 then \<lceil>x\<rceil> else \<lfloor>x\<rfloor>) in if - (2 ^ 63) \<le> n \<and> n < 2 ^ 63 then n else - (2 ^ 63))"

definition refill_of :: "duration \<Rightarrow> int \<Rightarrow> int" where
  "refill_of elapsed rate = float_to_int (float64 (Seconds elapsed * float64 (of_int rate)))"

subsection \<open>Rounding error\<close>

lemma powi_ilog2:
  assumes "0 < x"
  shows "2 powi (ilog2 x) \<le> x"
proof -
  obtain p q where pq: "quotient_of x = (p, q)" by fastforce
  have q: "0 < q" using quotient_of_denom_pos [OF pq] .
  have x: "x = of_int p / of_int q" using quotient_of_div [OF pq] .
  then have p: "0 < p" using assms q by (simp add: zero_less_divide_iff)
  let ?a = "floorlog 2 (nat p)" and ?b = "floorlog 2 (nat q)"
  let ?k = "int ?a - int ?b"
  have a: "2 ^ (?a - 1) \<le> nat p" "1 \<le> ?a"
    using p floorlog_bounds [of "nat p" 2] by (auto simp: floorlog_def)
  have b: "nat q < 2 ^ ?b" using q floorlog_bounds [of "nat q" 2] by auto
  from a(1) have "(of_nat (2 ^ (?a - 1)) :: rat) \<le> of_nat (nat p)" by (simp only: of_nat_le_iff)
  then have "(2 :: rat) ^ (?a - 1) \<le> of_int p" using p by simp
  moreover from b have "(of_nat (nat q) :: rat) < of_nat (2 ^ ?b)" by (simp only: of_nat_less_iff)
  then have "(of_int q :: rat) \<le> 2 ^ ?b" using q by simp
  ultimately have "(2 :: rat) ^ (?a - 1) / 2 ^ ?b \<le> of_int p / of_int q"
    using p q by (intro frac_le) auto
  moreover have "(2 :: rat) powi (?k - 1) = 2 ^ (?a - 1) / 2 ^ ?b"
  proof -
    have e: "?k - 1 = int (?a - 1) - int ?b" using a(2) by simp
    have "(2 :: rat) powi (int (?a - 1) - int ?b) = 2 powi int (?a - 1) / 2 powi int ?b" by (rule power_int_diff) simp
    then show ?thesis unfolding e by (simp only: power_int_of_nat)
  qed
  ultimately have "2 powi (?k - 1) \<le> x" using x by simp
  then show ?thesis by (simp add: ilog2_def pq Let_def)
qed

lemma round_even_le: "of_int (round_even m) \<le> m + 1 / 2"
  unfolding round_even_def Let_def by (auto; linarith)

lemma float64_nonneg: "0 \<le> x \<Longrightarrow> 0 \<le> float64 x"
proof -
  assume "0 \<le> x"
  moreover have "0 \<le> round_even m" if "0 \<le> m" for m
    using that by (auto simp: round_even_def Let_def)
  ultimately show ?thesis by (auto simp: float64_def Let_def sgn_if intro!: mult_nonneg_nonneg)
qed

definition eps :: rat where "eps = 1 / 2 ^ 53"

lemma float64_le:
  assumes "0 \<le> x"
  shows "float64 x \<le> x * (1 + eps)"
proof (cases "x = 0")
  case False
  with assms have x: "0 < x" by simp
  let ?u = "2 powi (ilog2 x - 52) :: rat"
  have u: "0 < ?u" by simp
  have "?u * 2 ^ 52 = 2 powi (ilog2 x)" by (simp add: power_int_diff)
  then have "?u * 2 ^ 52 \<le> x" using powi_ilog2 [OF x] by simp
  then have "?u / 2 \<le> x * eps" by (simp add: eps_def field_simps)
  have "float64 x = of_int (round_even (x / ?u)) * ?u" using x by (simp add: float64_def Let_def)
  also have "\<dots> \<le> (x / ?u + 1 / 2) * ?u" using round_even_le u by (intro mult_right_mono) auto
  also have "\<dots> = x + ?u / 2" using u by (simp add: field_simps)
  also have "\<dots> \<le> x + x * eps" using \<open>?u / 2 \<le> x * eps\<close> by simp
  finally show ?thesis by (simp add: algebra_simps)
qed (simp add: float64_def)

lemma Seconds_bounds:
  assumes "0 \<le> d"
  shows "0 \<le> Seconds d" "Seconds d \<le> of_int d / 1000000000 * (1 + eps) ^ 3"
proof -
  let ?s = "of_int (d div second_ns) :: rat" and ?n = "of_int (d mod second_ns) :: rat"
  let ?g = "1 + eps"
  have g: "1 \<le> ?g" by (simp add: eps_def)
  have nn: "0 \<le> ?s" "0 \<le> ?n" using assms by (simp_all add: pos_imp_zdiv_nonneg_iff)
  have "(of_int d :: rat) = of_int (d div second_ns * second_ns + d mod second_ns)" by simp
  then have d: "(of_int d :: rat) / 1000000000 = ?s + ?n / 1000000000"
    by (simp only: of_int_add of_int_mult) (simp add: field_simps)
  have S: "Seconds d = float64 (float64 ?s + float64 (float64 ?n / 1000000000))"
    using assms by (simp add: Seconds_def Let_def minus_mult_div_eq_mod [symmetric] mult.commute)
  have n1: "float64 (float64 ?n / 1000000000) \<le> ?n / 1000000000 * ?g ^ 2"
  proof -
    have "float64 (float64 ?n / 1000000000) \<le> float64 ?n / 1000000000 * ?g"
      using float64_nonneg [OF nn(2)] by (intro float64_le) simp
    also have "\<dots> \<le> ?n * ?g / 1000000000 * ?g"
      using float64_le [OF nn(2)] g by (intro mult_right_mono divide_right_mono) auto
    finally show ?thesis by (simp add: power2_eq_square)
  qed
  have s1: "float64 ?s \<le> ?s * ?g ^ 2"
  proof -
    have "float64 ?s \<le> ?s * ?g" by (rule float64_le [OF nn(1)])
    also have "\<dots> \<le> ?s * ?g ^ 2" using nn(1) g by (intro mult_left_mono) (simp_all add: power2_eq_square)
    finally show ?thesis .
  qed
  let ?t = "float64 ?s + float64 (float64 ?n / 1000000000)"
  have t: "0 \<le> ?t" using nn by (intro add_nonneg_nonneg float64_nonneg) (simp_all add: float64_nonneg)
  then show "0 \<le> Seconds d" by (simp add: S float64_nonneg)
  have "Seconds d \<le> ?t * ?g" unfolding S by (rule float64_le [OF t])
  also have "\<dots> \<le> (?s * ?g ^ 2 + ?n / 1000000000 * ?g ^ 2) * ?g"
    using n1 s1 g by (intro mult_right_mono add_mono) auto
  also have "\<dots> = of_int d / 1000000000 * ?g ^ 3" unfolding d by (simp add: algebra_simps power3_eq_cube power2_eq_square)
  finally show "Seconds d \<le> of_int d / 1000000000 * (1 + eps) ^ 3" .
qed

text \<open>The relative error of a refill.\<close>

definition slack :: rat where "slack = 1 + 1 / 2 ^ 50"

lemma eps_slack: "(1 + eps) ^ 5 \<le> slack"
  by (simp add: eps_def slack_def power_divide)

lemma refill_of_le:
  assumes "0 \<le> d" "0 \<le> rate"
  shows "of_int (refill_of d rate) \<le> of_int d / 1000000000 * of_int rate * slack"
proof -
  let ?g = "1 + eps"
  have r: "0 \<le> (of_int rate :: rat)" "0 \<le> (of_int d / 1000000000 :: rat)" using assms by simp_all
  let ?p = "Seconds d * float64 (of_int rate)"
  have p: "0 \<le> ?p" using Seconds_bounds(1) [OF assms(1)] float64_nonneg [OF r(1)] by simp
  have "of_int (refill_of d rate) \<le> float64 ?p"
    using float64_nonneg [OF p] by (auto simp: refill_of_def float_to_int_def Let_def)
  also have "\<dots> \<le> ?p * ?g" by (rule float64_le [OF p])
  also have "\<dots> \<le> (of_int d / 1000000000 * ?g ^ 3) * (of_int rate * ?g) * ?g"
    using Seconds_bounds [OF assms(1)] float64_le [OF r(1)] float64_nonneg [OF r(1)] r
    by (intro mult_right_mono mult_mono) (simp_all add: eps_def)
  also have "\<dots> = of_int d / 1000000000 * of_int rate * ?g ^ 5" by (simp add: power_numeral_reduce)
  also have "\<dots> \<le> of_int d / 1000000000 * of_int rate * slack"
    using r eps_slack by (intro mult_left_mono) simp_all
  finally show ?thesis .
qed

subsection \<open>Buckets\<close>

text \<open>The verdicts of calls at the times \<open>ts\<close>, one after the other.\<close>

fun bucket_calls :: "('l \<Rightarrow> time \<Rightarrow> bool \<times> 'l) \<Rightarrow> 'l \<Rightarrow> time list \<Rightarrow> bool list" where
  "bucket_calls call l [] = []"
| "bucket_calls call l (t # ts) = (let (ok, l') = call l t in ok # bucket_calls call l' ts)"

text \<open>
  A bucket of the interface: a call either takes a token or is refused for want of one; the tokens
  may first be raised by the refill for the time since the last refill.
\<close>

locale token_bucket =
  fixes call :: "'l \<Rightarrow> time \<Rightarrow> bool \<times> 'l"
    and toks :: "'l \<Rightarrow> int"
    and rate :: "'l \<Rightarrow> int"
    and last_refill :: "'l \<Rightarrow> time"
    and invar :: "'l \<Rightarrow> bool"
  assumes call_spec: "invar l \<Longrightarrow> call l now = (ok, l') \<Longrightarrow>
      invar l' \<and> rate l' = rate l
      \<and> (\<exists>t. (t = toks l \<and> last_refill l' = last_refill l
              \<or> 0 < refill_of (time_sub now (last_refill l)) (rate l)
                \<and> t \<le> toks l + refill_of (time_sub now (last_refill l)) (rate l) \<and> last_refill l' = now)
            \<and> ok = (0 < t) \<and> toks l' = (if ok then t - 1 else t))"
begin

text \<open>What the tokens and the time since the last refill allow until time \<open>T\<close>.\<close>

definition budget :: "'l \<Rightarrow> time \<Rightarrow> rat" where
  "budget l T = of_int (max 0 (toks l)) + of_int (T - last_refill l) / 1000000000 * of_int (rate l) * slack"

lemma call_budget:
  assumes "invar l" "call l now = (ok, l')" "0 \<le> rate l" "last_refill l \<le> now" "now \<le> T"
  shows "invar l' \<and> rate l' = rate l \<and> last_refill l' \<le> now \<and> of_bool ok + budget l' T \<le> budget l T"
proof -
  let ?r = "refill_of (time_sub now (last_refill l)) (rate l)"
  from call_spec [OF assms(1,2)] obtain t where t: "invar l'" "rate l' = rate l" "ok = (0 < t)"
    "toks l' = (if ok then t - 1 else t)"
    "t = toks l \<and> last_refill l' = last_refill l \<or> 0 < ?r \<and> t \<le> toks l + ?r \<and> last_refill l' = now" by blast
  have step: "of_bool ok + of_int (max 0 (toks l')) = (of_int (max 0 t) :: rat)" using t(3,4) by auto
  from t(5) show ?thesis
  proof
    assume "t = toks l \<and> last_refill l' = last_refill l"
    then show ?thesis using t step assms(4) by (simp add: budget_def)
  next
    assume a: "0 < ?r \<and> t \<le> toks l + ?r \<and> last_refill l' = now"
    have d: "0 \<le> time_sub now (last_refill l)" "time_sub now (last_refill l) \<le> now - last_refill l"
      using assms(4) by (auto simp: time_sub_def)
    have "of_int ?r \<le> (of_int (time_sub now (last_refill l)) / 1000000000 * of_int (rate l) * slack :: rat)"
      using d(1) assms(3) by (rule refill_of_le)
    also have "\<dots> \<le> of_int (now - last_refill l) / 1000000000 * of_int (rate l) * slack"
      using d(2) assms(3) by (intro mult_right_mono divide_right_mono) (simp_all add: slack_def del: of_int_diff)
    finally have r: "of_int ?r \<le> (of_int (now - last_refill l) / 1000000000 * of_int (rate l) * slack :: rat)" .
    have "max 0 t \<le> max 0 (toks l) + ?r" using a by auto
    then have "(of_int (max 0 t) :: rat) \<le> of_int (max 0 (toks l)) + of_int ?r" by (metis of_int_add of_int_le_iff)
    with r step a t(1,2) show ?thesis by (simp add: budget_def algebra_simps diff_divide_distrib)
  qed
qed

lemma allowed_bound:
  assumes "invar l" "0 \<le> rate l" "sorted ts" "\<And>t. t \<in> set ts \<Longrightarrow> last_refill l \<le> t \<and> t \<le> T" "last_refill l \<le> T"
  shows "of_nat (length (filter id (bucket_calls call l ts))) \<le> budget l T"
  using assms
proof (induction ts arbitrary: l)
  case Nil
  have "0 \<le> (of_int (T - last_refill l) / 1000000000 * of_int (rate l) * slack :: rat)"
    using Nil(2,5) by (intro mult_nonneg_nonneg divide_nonneg_nonneg) (simp_all add: slack_def del: of_int_diff)
  then show ?case by (simp add: budget_def)
next
  case (Cons now ts)
  obtain ok l' where c: "call l now = (ok, l')" by fastforce
  have n: "last_refill l \<le> now" "now \<le> T" using Cons(5) by auto
  from call_budget [OF Cons(2) c Cons(3) n] have b: "invar l'" "rate l' = rate l" "last_refill l' \<le> now"
    "of_bool ok + budget l' T \<le> budget l T" by simp_all
  have "of_nat (length (filter id (bucket_calls call l' ts))) \<le> budget l' T"
    using Cons(1) [OF b(1)] Cons(3-6) b(2,3) n by fastforce
  with b(4) c show ?case by (cases ok) (auto simp: id_def)
qed

end

subsection \<open>The limiter of the security package\<close>

record rate_limiter =
  rl_rate :: int
  rl_burst :: int
  rl_tokens :: int
  rl_lastRefill :: time

definition NewRateLimiter :: "int \<Rightarrow> int \<Rightarrow> time \<Rightarrow> rate_limiter" where
  "NewRateLimiter rate burst now = \<lparr>rl_rate = rate, rl_burst = burst, rl_tokens = burst, rl_lastRefill = now\<rparr>"

definition go_min :: "int \<Rightarrow> int \<Rightarrow> int" where
  "go_min a b = (if a < b then a else b)"

definition Allow :: "rate_limiter \<Rightarrow> time \<Rightarrow> bool \<times> rate_limiter" where
  "Allow rl now =
     (let elapsed = time_sub now (rl_lastRefill rl);
          refill = refill_of elapsed (rl_rate rl);
          rl1 = (if refill > 0
                 then rl\<lparr>rl_tokens := go_min (rl_burst rl) (wrap64 (rl_tokens rl + refill)), rl_lastRefill := now\<rparr>
                 else rl)
      in if rl_tokens rl1 > 0 then (True, rl1\<lparr>rl_tokens := rl_tokens rl1 - 1\<rparr>) else (False, rl1))"

definition Stale :: "rate_limiter \<Rightarrow> time \<Rightarrow> bool" where
  "Stale rl now \<longleftrightarrow> time_sub now (rl_lastRefill rl) > 600 * second_ns"

text \<open>All that is needed of the integers: they are 64 bit values.\<close>

definition rl_invar :: "rate_limiter \<Rightarrow> bool" where
  "rl_invar rl \<longleftrightarrow> - (2 ^ 63) \<le> rl_tokens rl \<and> - (2 ^ 63) \<le> rl_burst rl"

lemma wrap64_ge: "- (2 ^ 63) \<le> wrap64 n"
  by (simp add: wrap64_def)

lemma go_min_wrap:
  assumes "- (2 ^ 63) \<le> b" "- (2 ^ 63) \<le> t" "0 < r"
  shows "go_min b (wrap64 (t + r)) \<le> t + r \<and> - (2 ^ 63) \<le> go_min b (wrap64 (t + r))"
  using wrap64_le [of "t + r"] wrap64_ge [of "t + r"] assms by (auto simp: go_min_def)

interpretation sec: token_bucket Allow rl_tokens rl_rate rl_lastRefill rl_invar
proof unfold_locales
  fix l now ok l'
  assume i: "rl_invar l" and c: "Allow l now = (ok, l')"
  let ?r = "refill_of (time_sub now (rl_lastRefill l)) (rl_rate l)"
  show "rl_invar l' \<and> rl_rate l' = rl_rate l
      \<and> (\<exists>t. (t = rl_tokens l \<and> rl_lastRefill l' = rl_lastRefill l
              \<or> 0 < ?r \<and> t \<le> rl_tokens l + ?r \<and> rl_lastRefill l' = now)
            \<and> ok = (0 < t) \<and> rl_tokens l' = (if ok then t - 1 else t))"
  proof (cases "0 < ?r")
    case True
    let ?t = "go_min (rl_burst l) (wrap64 (rl_tokens l + ?r))"
    have t: "?t \<le> rl_tokens l + ?r" "- (2 ^ 63) \<le> ?t"
      using go_min_wrap [of "rl_burst l" "rl_tokens l" ?r] i True by (simp_all add: rl_invar_def)
    with c i True show ?thesis
      by (auto simp: Allow_def Let_def rl_invar_def split: if_splits intro!: exI [of _ ?t])
  next
    case False
    with c i show ?thesis
      by (auto simp: Allow_def Let_def rl_invar_def split: if_splits intro!: exI [of _ "rl_tokens l"])
  qed
qed

subsection \<open>The limiter of the operations package\<close>

record ops_rate_limiter =
  ol_rate :: int
  ol_burst :: int
  ol_tokens :: int
  ol_lastTime :: time

definition ops_NewRateLimiter :: "int \<Rightarrow> int \<Rightarrow> time \<Rightarrow> ops_rate_limiter" where
  "ops_NewRateLimiter rate burst now = \<lparr>ol_rate = rate, ol_burst = burst, ol_tokens = burst, ol_lastTime = now\<rparr>"

definition ops_min :: "int \<Rightarrow> int \<Rightarrow> int" where
  "ops_min a b = (if a < b then a else b)"

definition ops_Allow :: "ops_rate_limiter \<Rightarrow> time \<Rightarrow> bool \<times> ops_rate_limiter" where
  "ops_Allow rl now =
     (let elapsed = time_sub now (ol_lastTime rl);
          refill = refill_of elapsed (ol_rate rl);
          rl1 = (if refill > 0
                 then rl\<lparr>ol_tokens := ops_min (ol_burst rl) (wrap64 (ol_tokens rl + refill)), ol_lastTime := now\<rparr>
                 else rl)
      in if ol_tokens rl1 > 0 then (True, rl1\<lparr>ol_tokens := ol_tokens rl1 - 1\<rparr>) else (False, rl1))"

definition ol_abs :: "ops_rate_limiter \<Rightarrow> rate_limiter" where
  "ol_abs l = \<lparr>rl_rate = ol_rate l, rl_burst = ol_burst l, rl_tokens = ol_tokens l, rl_lastRefill = ol_lastTime l\<rparr>"

lemma ol_abs_sel [simp]:
  "rl_rate (ol_abs l) = ol_rate l" "rl_burst (ol_abs l) = ol_burst l" "rl_tokens (ol_abs l) = ol_tokens l"
  "rl_lastRefill (ol_abs l) = ol_lastTime l"
  by (simp_all add: ol_abs_def)

text \<open>The two limiters are the same machine.\<close>

lemma ops_Allow_abs: "Allow (ol_abs l) now = map_prod id ol_abs (ops_Allow l now)"
  by (simp add: Allow_def ops_Allow_def ol_abs_def Let_def go_min_def ops_min_def)

interpretation opl: token_bucket ops_Allow ol_tokens ol_rate ol_lastTime "\<lambda>l. rl_invar (ol_abs l)"
proof unfold_locales
  fix l now ok l'
  assume i: "rl_invar (ol_abs l)" and c: "ops_Allow l now = (ok, l')"
  have "Allow (ol_abs l) now = (ok, ol_abs l')" using ops_Allow_abs [of l now] c by simp
  from sec.call_spec [OF i this]
  show "rl_invar (ol_abs l') \<and> ol_rate l' = ol_rate l
      \<and> (\<exists>t. (t = ol_tokens l \<and> ol_lastTime l' = ol_lastTime l
              \<or> 0 < refill_of (time_sub now (ol_lastTime l)) (ol_rate l)
                \<and> t \<le> ol_tokens l + refill_of (time_sub now (ol_lastTime l)) (ol_rate l) \<and> ol_lastTime l' = now)
            \<and> ok = (0 < t) \<and> ol_tokens l' = (if ok then t - 1 else t))"
    by (simp only: ol_abs_sel)
qed



end
