(* ===== verification/Security_Policy.thy ===== *)
theory Security_Policy
  imports Net_Addr Token_Bucket
begin

section \<open>Security policy enforcement\<close>

text \<open>
  Model of \<open>GoTunnel/internal/security/policy.go\<close>: the enforcer with its rule policies, network and
  TLS policy, rate limiters and bounded audit log. The event callback is outside this code; the
  model records its calls. \<open>Start\<close> and \<open>Stop\<close> only run the hourly \<open>cleanupRateLimiters\<close>.
\<close>

subsection \<open>Values\<close>

text \<open>A 64 bit float, as far as comparisons tell values apart.\<close>

datatype go_float = NaN | NegInf | PosInf | Finite rat

fun float_less :: "go_float \<Rightarrow> go_float \<Rightarrow> bool" where
  "float_less NaN _ = False"
| "float_less _ NaN = False"
| "float_less PosInf _ = False"
| "float_less _ NegInf = False"
| "float_less NegInf _ = True"
| "float_less _ PosInf = True"
| "float_less (Finite x) (Finite y) = (x < y)"

fun float_eq :: "go_float \<Rightarrow> go_float \<Rightarrow> bool" where
  "float_eq NaN _ = False"
| "float_eq _ NaN = False"
| "float_eq x y = (x = y)"

text \<open>
  A value of type \<open>interface{}\<close> as rules and request data hold them; \<open>VOther\<close> is a value of some
  other comparable type, named by its type and value.
\<close>

datatype go_value =
    VNil
  | VBool bool
  | VString string
  | VFloat go_float
  | VInt int
  | VSlice "go_value list"
  | VMap "(string \<times> go_value) list"
  | VOther string string

text \<open>Comparison of interface values: two slices, or two maps, panic.\<close>

fun go_eq :: "go_value \<Rightarrow> go_value \<Rightarrow> go_panic + bool" where
  "go_eq (VSlice _) (VSlice _) = Inl Comparing_Uncomparable"
| "go_eq (VMap _) (VMap _) = Inl Comparing_Uncomparable"
| "go_eq (VFloat x) (VFloat y) = Inr (float_eq x y)"
| "go_eq (VSlice _) _ = Inr False"
| "go_eq (VMap _) _ = Inr False"
| "go_eq _ (VSlice _) = Inr False"
| "go_eq _ (VMap _) = Inr False"
| "go_eq x y = Inr (x = y)"

subsection \<open>State\<close>

datatype policy_action = PolicyActionAllow | PolicyActionDeny | PolicyActionLog | PolicyActionRate | PolicyActionOther string

record rule =
  Field :: string
  Operator :: string
  r_Value :: go_value
  Negate :: bool

record policy =
  p_ID :: string
  p_Name :: string
  p_Type :: string
  p_Action :: policy_action
  p_Priority :: int
  p_Enabled :: bool
  p_Rules :: "rule list"
  p_CreatedAt :: time
  p_UpdatedAt :: time
  p_Description :: string

text \<open>The code never reads the ports, protocols, connection limit and timeout of a network policy.\<close>

record network_policy =
  AllowedCIDRs :: "string list"
  BlockedCIDRs :: "string list"
  AllowedPorts :: "int list"
  BlockedPorts :: "int list"
  AllowedProtocols :: "string list"
  MaxConnections :: int
  np_Timeout :: duration

record tls_policy =
  MinVersion :: "16 word"
  MaxVersion :: "16 word"
  CipherSuites :: "16 word list"
  RequireClientCert :: bool
  AllowedCNs :: "string list"
  AllowedSANs :: "string list"

record rate_limit_policy =
  RequestsPerSecond :: int
  BurstSize :: int
  WindowSize :: duration
  KeyField :: string

text \<open>The fields of an event that are ever set.\<close>

record security_event =
  ev_Type :: string
  ev_Severity :: string
  ev_Source :: string
  ev_PolicyID :: string
  ev_Action :: string
  ev_Result :: string
  ev_Message :: string
  ev_Timestamp :: time

definition no_event :: security_event where
  "no_event = \<lparr>ev_Type = [], ev_Severity = [], ev_Source = [], ev_PolicyID = [], ev_Action = [], ev_Result = [],
     ev_Message = [], ev_Timestamp = zero_time\<rparr>"

record enforcer =
  policies :: "(string, policy) fmap"
  networkPolicy :: network_policy
  tlsPolicy :: tls_policy
  rateLimiters :: "(string, rate_limiter) fmap"
  auditLog :: "security_event list"
  maxAuditLog :: int
  has_onEvent :: bool
  notified :: "security_event list"

record enforcer_config =
  cfg_NetworkPolicy :: network_policy
  cfg_TLSPolicy :: tls_policy
  cfg_MaxAuditLog :: int
  cfg_OnEvent :: bool

abbreviation VersionTLS12 :: "16 word" where "VersionTLS12 \<equiv> 0x303"

definition NewEnforcer :: "enforcer_config \<Rightarrow> go_panic + enforcer" where
  "NewEnforcer cfg =
     (let maxLog = (if cfg_MaxAuditLog cfg = 0 then 10000 else cfg_MaxAuditLog cfg);
          tp = cfg_TLSPolicy cfg
      in if maxLog < 0 then Inl Makeslice_Len_Out_Of_Range
         else Inr \<lparr>policies = fmempty, networkPolicy = cfg_NetworkPolicy cfg,
                   tlsPolicy = (if MinVersion tp = 0 then tp\<lparr>MinVersion := VersionTLS12\<rparr> else tp),
                   rateLimiters = fmempty, auditLog = [], maxAuditLog = maxLog,
                   has_onEvent = cfg_OnEvent cfg, notified = []\<rparr>)"

subsection \<open>Audit log\<close>

definition audit_append :: "int \<Rightarrow> security_event \<Rightarrow> security_event list \<Rightarrow> security_event list" where
  "audit_append cap ev l = (if int (length l) \<ge> cap then drop 1 l else l) @ [ev]"

definition logEvent :: "enforcer \<Rightarrow> security_event \<Rightarrow> enforcer" where
  "logEvent e ev =
     (let e1 = e\<lparr>auditLog := audit_append (maxAuditLog e) ev (auditLog e)\<rparr>
      in if has_onEvent e1 then e1\<lparr>notified := notified e1 @ [ev]\<rparr> else e1)"

definition GetAuditLog :: "enforcer \<Rightarrow> security_event list" where
  "GetAuditLog e = auditLog e"

subsection \<open>Policies\<close>

definition AddPolicy :: "enforcer \<Rightarrow> policy \<Rightarrow> enforcer" where
  "AddPolicy e p = e\<lparr>policies := fmupd (p_ID p) p (policies e)\<rparr>"

definition RemovePolicy :: "enforcer \<Rightarrow> string \<Rightarrow> enforcer" where
  "RemovePolicy e pid = e\<lparr>policies := fmdrop pid (policies e)\<rparr>"

definition GetPolicy :: "enforcer \<Rightarrow> string \<Rightarrow> policy option" where
  "GetPolicy e pid = fmlookup (policies e) pid"

definition ListPolicies :: "enforcer \<Rightarrow> string list \<Rightarrow> policy list" where
  "ListPolicies e ks = List.map_filter (fmlookup (policies e)) ks"

text \<open>The loop of the operator \<open>in\<close>.\<close>

fun value_in :: "go_value \<Rightarrow> go_value list \<Rightarrow> go_panic + bool" where
  "value_in v [] = Inr False"
| "value_in v (w # ws) =
     (case go_eq v w of
        Inl p \<Rightarrow> Inl p
      | Inr True \<Rightarrow> Inr True
      | Inr False \<Rightarrow> value_in v ws)"

definition rule_match :: "rule \<Rightarrow> go_value \<Rightarrow> go_panic + bool" where
  "rule_match r v =
     (if Operator r = ''eq'' then go_eq v (r_Value r)
      else if Operator r = ''ne'' then map_sum id Not (go_eq v (r_Value r))
      else if Operator r = ''in'' then (case r_Value r of VSlice vs \<Rightarrow> value_in v vs | _ \<Rightarrow> Inr False)
      else if Operator r = ''contains'' then
        (case (v, r_Value r) of (VString s, VString t) \<Rightarrow> Inr (Contains s t) | _ \<Rightarrow> Inr False)
      else if Operator r = ''prefix'' then
        (case (v, r_Value r) of (VString s, VString t) \<Rightarrow> Inr (HasPrefix s t) | _ \<Rightarrow> Inr False)
      else if Operator r = ''gt'' then
        (case (v, r_Value r) of (VFloat x, VFloat y) \<Rightarrow> Inr (float_less y x) | _ \<Rightarrow> Inr False)
      else if Operator r = ''lt'' then
        (case (v, r_Value r) of (VFloat x, VFloat y) \<Rightarrow> Inr (float_less x y) | _ \<Rightarrow> Inr False)
      else Inr False)"

fun evaluateRules :: "rule list \<Rightarrow> (string \<Rightarrow> go_value option) \<Rightarrow> go_panic + bool" where
  "evaluateRules [] data = Inr True"
| "evaluateRules (r # rs) data =
     (case data (Field r) of
        None \<Rightarrow> Inr False
      | Some v \<Rightarrow>
          (case rule_match r v of
             Inl p \<Rightarrow> Inl p
           | Inr m \<Rightarrow> if (if Negate r then \<not> m else m) then evaluateRules rs data else Inr False))"

datatype policy_error = Policy_Not_Found string | Denied_By_Policy string

definition EnforcePolicy ::
    "enforcer \<Rightarrow> string \<Rightarrow> (string \<Rightarrow> go_value option) \<Rightarrow> time \<Rightarrow> go_panic + policy_error option \<times> enforcer" where
  "EnforcePolicy e pid data now =
     (case fmlookup (policies e) pid of
        None \<Rightarrow> Inr (Some (Policy_Not_Found pid), e)
      | Some p \<Rightarrow>
          if \<not> p_Enabled p then Inr (None, e)
          else (case evaluateRules (p_Rules p) data of
                  Inl x \<Rightarrow> Inl x
                | Inr matches \<Rightarrow>
                    let ev = no_event\<lparr>ev_Type := ''policy_enforcement'', ev_Severity := ''low'', ev_PolicyID := pid,
                                      ev_Timestamp := now\<rparr>
                    in if matches then
                         let ev = ev\<lparr>ev_Action := ''matched''\<rparr>
                         in if p_Action p = PolicyActionDeny then
                              Inr (Some (Denied_By_Policy (p_Name p)),
                                   logEvent e (ev\<lparr>ev_Result := ''denied'', ev_Severity := ''medium'',
                                                  ev_Message := ''Policy '' @ p_Name p @ '' denied action''\<rparr>))
                            else if p_Action p = PolicyActionLog then
                              Inr (None, logEvent e (ev\<lparr>ev_Result := ''logged'',
                                                        ev_Message := ''Policy '' @ p_Name p @ '' logged action''\<rparr>))
                            else Inr (None, e)
                       else Inr (None, e)))"

subsection \<open>Network policy\<close>

datatype network_error =
    Invalid_Address
  | Invalid_IP string
  | IP_In_Blocked_Range
  | IP_Not_In_Allowed_Range

text \<open>The first blocked network that contains the address; texts that do not parse are skipped.\<close>

fun first_containing :: "string list \<Rightarrow> byte list \<Rightarrow> string option" where
  "first_containing [] ip = None"
| "first_containing (c # cs) ip =
     (case ParseCIDR c of
        None \<Rightarrow> first_containing cs ip
      | Some n \<Rightarrow> if net_contains n ip then Some c else first_containing cs ip)"

definition EnforceNetworkPolicy :: "enforcer \<Rightarrow> string \<Rightarrow> time \<Rightarrow> network_error option \<times> enforcer" where
  "EnforceNetworkPolicy e remoteAddr now =
     (case SplitHostPort remoteAddr of
        None \<Rightarrow> (Some Invalid_Address, e)
      | Some (ip, _) \<Rightarrow>
          (case ParseIP ip of
             None \<Rightarrow> (Some (Invalid_IP ip), e)
           | Some parsedIP \<Rightarrow>
               let denied = no_event\<lparr>ev_Type := ''network_blocked'', ev_Severity := ''medium'', ev_Source := remoteAddr,
                                     ev_Action := ''connect'', ev_Result := ''denied'', ev_Timestamp := now\<rparr>
               in (case first_containing (BlockedCIDRs (networkPolicy e)) parsedIP of
                     Some cidr \<Rightarrow>
                       (Some IP_In_Blocked_Range,
                        logEvent e (denied\<lparr>ev_Message := ''IP '' @ ip @ '' is in blocked CIDR '' @ cidr\<rparr>))
                   | None \<Rightarrow>
                       if AllowedCIDRs (networkPolicy e) \<noteq> []
                          \<and> first_containing (AllowedCIDRs (networkPolicy e)) parsedIP = None
                       then (Some IP_Not_In_Allowed_Range,
                             logEvent e (denied\<lparr>ev_Message := ''IP '' @ ip @ '' not in allowed CIDRs''\<rparr>))
                       else (None, e))))"

subsection \<open>TLS policy\<close>

record certificate =
  CommonName :: string
  DNSNames :: "string list"
  IPStrings :: "string list"

record connection_state =
  cs_Version :: "16 word"
  cs_CipherSuite :: "16 word"
  PeerCertificates :: "certificate list"

datatype tls_error =
    TLS_Required
  | TLS_Version_Too_Low "16 word"
  | Cipher_Suite_Not_Allowed
  | Client_Certificate_Required
  | Client_CN_Not_Allowed
  | Client_SAN_Not_Allowed

fun hex_nat :: "nat \<Rightarrow> string" where
  "hex_nat n = (if n < 16 then [''0123456789abcdef'' ! n] else hex_nat (n div 16) @ [''0123456789abcdef'' ! (n mod 16)])"

declare hex_nat.simps [simp del]

fun san_allowed :: "string list \<Rightarrow> certificate \<Rightarrow> bool" where
  "san_allowed [] cert = False"
| "san_allowed (san # sans) cert =
     (if san \<in> set (DNSNames cert) then True
      else if san \<in> set (IPStrings cert) then True
      else san_allowed sans cert)"

definition tls_event :: "string \<Rightarrow> string \<Rightarrow> time \<Rightarrow> security_event" where
  "tls_event severity msg now =
     no_event\<lparr>ev_Type := ''tls_violation'', ev_Severity := severity, ev_Action := ''tls_handshake'',
              ev_Result := ''denied'', ev_Message := msg, ev_Timestamp := now\<rparr>"

text \<open>
  The addresses of a certificate are given as texts, the result of their \<open>String\<close> method. A nil
  state is \<open>None\<close>.
\<close>

definition EnforceTLSPolicy :: "enforcer \<Rightarrow> connection_state option \<Rightarrow> time \<Rightarrow> tls_error option \<times> enforcer" where
  "EnforceTLSPolicy e state now =
     (let tp = tlsPolicy e
      in (case state of
            None \<Rightarrow> (Some TLS_Required, e)
          | Some st \<Rightarrow>
              if cs_Version st < MinVersion tp then
                (Some (TLS_Version_Too_Low (MinVersion tp)),
                 logEvent e (tls_event ''high'' (''TLS version '' @ hex_nat (unat (cs_Version st)) @ '' below minimum ''
                   @ hex_nat (unat (MinVersion tp))) now))
              else if CipherSuites tp \<noteq> [] \<and> cs_CipherSuite st \<notin> set (CipherSuites tp) then
                (Some Cipher_Suite_Not_Allowed,
                 logEvent e (tls_event ''medium'' (''Cipher suite '' @ hex_nat (unat (cs_CipherSuite st))
                   @ '' not in allowed list'') now))
              else if RequireClientCert tp then
                (case PeerCertificates st of
                   [] \<Rightarrow> (Some Client_Certificate_Required,
                          logEvent e (tls_event ''high'' ''Client certificate required but not provided'' now))
                 | cert # _ \<Rightarrow>
                     if AllowedCNs tp \<noteq> [] \<and> CommonName cert \<notin> set (AllowedCNs tp) then
                       (Some Client_CN_Not_Allowed,
                        logEvent e (tls_event ''medium'' (''CN '' @ CommonName cert @ '' not in allowed list'') now))
                     else if AllowedSANs tp \<noteq> [] \<and> \<not> san_allowed (AllowedSANs tp) cert then
                       (Some Client_SAN_Not_Allowed,
                        logEvent e (tls_event ''medium'' ''No matching SAN in allowed list'' now))
                     else (None, e))
              else (None, e)))"

record tls_config =
  tc_MinVersion :: "16 word"
  tc_MaxVersion :: "16 word"
  tc_CipherSuites :: "16 word list"
  tc_RequireAndVerifyClientCert :: bool

definition GetTLSConfig :: "enforcer \<Rightarrow> tls_config" where
  "GetTLSConfig e =
     \<lparr>tc_MinVersion = MinVersion (tlsPolicy e), tc_MaxVersion = MaxVersion (tlsPolicy e),
      tc_CipherSuites = (if CipherSuites (tlsPolicy e) \<noteq> [] then CipherSuites (tlsPolicy e) else []),
      tc_RequireAndVerifyClientCert = RequireClientCert (tlsPolicy e)\<rparr>"

subsection \<open>Rate limits\<close>

text \<open>Two clock readings: one for a new limiter, one for the call.\<close>

definition EnforceRateLimit :: "enforcer \<Rightarrow> rate_limit_policy \<Rightarrow> string \<Rightarrow> time \<Rightarrow> time \<Rightarrow> bool \<times> enforcer" where
  "EnforceRateLimit e p key t1 t2 =
     (let limiterKey = KeyField p @ '':'' @ key;
          limiter = (case fmlookup (rateLimiters e) limiterKey of
                       Some l \<Rightarrow> l
                     | None \<Rightarrow> NewRateLimiter (RequestsPerSecond p) (BurstSize p) t1);
          (ok, limiter') = Allow limiter t2;
          e1 = e\<lparr>rateLimiters := fmupd limiterKey limiter' (rateLimiters e)\<rparr>
      in if ok then (True, e1)
         else (False, logEvent e1 (no_event\<lparr>ev_Type := ''rate_limit_exceeded'', ev_Severity := ''medium'',
                 ev_Source := key, ev_Action := ''request'', ev_Result := ''denied'',
                 ev_Message := ''Rate limit exceeded for '' @ key, ev_Timestamp := t2\<rparr>)))"

definition cleanupRateLimiters :: "enforcer \<Rightarrow> (string \<Rightarrow> time) \<Rightarrow> string list \<Rightarrow> enforcer" where
  "cleanupRateLimiters e clk ks =
     foldl (\<lambda>e k. case fmlookup (rateLimiters e) k of
                None \<Rightarrow> e
              | Some l \<Rightarrow> if Stale l (clk k) then e\<lparr>rateLimiters := fmdrop k (rateLimiters e)\<rparr> else e) e ks"

subsection \<open>Properties\<close>

lemma first_containing_v4:
  assumes "\<And>c. c \<in> set cs \<Longrightarrow> \<not> is_v6_cidr c" "length ip = 4"
  shows "first_containing cs ip = None \<longleftrightarrow> (\<forall>c \<in> set cs. \<not> in_v4_range ip c)"
  using assms(1)
proof (induction cs)
  case (Cons c cs)
  from ParseCIDR_v4 [of c ip] Cons assms(2) show ?case by (cases "ParseCIDR c") auto
qed simp

lemma logEvent_log [simp]: "auditLog (logEvent e ev) = audit_append (maxAuditLog e) ev (auditLog e)"
  by (simp add: logEvent_def Let_def)


definition demo_enforcer :: enforcer where
  "demo_enforcer = \<lparr>policies = fmempty, networkPolicy = \<lparr>AllowedCIDRs = [''10.0.0.0/8''], BlockedCIDRs = [''10.1.0.0/16'', ''bad''], AllowedPorts = [], BlockedPorts = [], AllowedProtocols = [], MaxConnections = 0, np_Timeout = 0\<rparr>,
     tlsPolicy = \<lparr>MinVersion = VersionTLS12, MaxVersion = 0, CipherSuites = [], RequireClientCert = False, AllowedCNs = [], AllowedSANs = []\<rparr>,
     rateLimiters = fmempty, auditLog = [], maxAuditLog = 2, has_onEvent = False, notified = []\<rparr>"


lemma san_allowed_iff:
  "san_allowed sans cert \<longleftrightarrow> (\<exists>san \<in> set sans. san \<in> set (DNSNames cert) \<or> san \<in> set (IPStrings cert))"
  by (induction sans) auto

text \<open>
  The TLS policy. A connection passes iff it has TLS of at least the minimum version (TLS 1.2
  when none is configured), one of the configured cipher suites if any are configured, and, when
  client certificates are required, a certificate whose common name and alternative names are among
  the configured ones where these are configured. Every refusal of a TLS connection is logged.
\<close>

theorem tls_policy_decision:
  assumes "NewEnforcer cfg = Inr e0" "e = e0\<lparr>auditLog := l\<rparr>" "EnforceTLSPolicy e st now = (r, e')"
  shows "(r = None \<longleftrightarrow>
      (\<exists>s. st = Some s
         \<and> (if MinVersion (cfg_TLSPolicy cfg) = 0 then VersionTLS12 else MinVersion (cfg_TLSPolicy cfg)) \<le> cs_Version s
         \<and> (CipherSuites (cfg_TLSPolicy cfg) = [] \<or> cs_CipherSuite s \<in> set (CipherSuites (cfg_TLSPolicy cfg)))
         \<and> (RequireClientCert (cfg_TLSPolicy cfg) \<longrightarrow>
              (\<exists>cert rest. PeerCertificates s = cert # rest
                 \<and> (AllowedCNs (cfg_TLSPolicy cfg) = [] \<or> CommonName cert \<in> set (AllowedCNs (cfg_TLSPolicy cfg)))
                 \<and> (AllowedSANs (cfg_TLSPolicy cfg) = []
                    \<or> (\<exists>san \<in> set (AllowedSANs (cfg_TLSPolicy cfg)). san \<in> set (DNSNames cert) \<or> san \<in> set (IPStrings cert)))))))
    \<and> (if r = None \<or> st = None then e' = e
       else \<exists>ev. auditLog e' = audit_append (maxAuditLog e) ev (auditLog e) \<and> ev_Type ev = ''tls_violation'')"
proof -
  let ?tp = "cfg_TLSPolicy cfg"
  have tp: "MinVersion (tlsPolicy e) = (if MinVersion ?tp = 0 then VersionTLS12 else MinVersion ?tp)"
    "CipherSuites (tlsPolicy e) = CipherSuites ?tp" "RequireClientCert (tlsPolicy e) = RequireClientCert ?tp"
    "AllowedCNs (tlsPolicy e) = AllowedCNs ?tp" "AllowedSANs (tlsPolicy e) = AllowedSANs ?tp"
    using assms(1,2) by (auto simp: NewEnforcer_def Let_def split: if_splits)
  show ?thesis
  proof (cases st)
    case None
    with assms(3) show ?thesis by (auto simp: EnforceTLSPolicy_def Let_def)
  next
    case (Some s)
    have ty: "ev_Type (tls_event sev msg t) = ''tls_violation''" for sev msg t by (simp add: tls_event_def)
    from assms(3) Some have "(r, e') = EnforceTLSPolicy e (Some s) now" by simp
    then show ?thesis unfolding Some EnforceTLSPolicy_def Let_def option.case tp[symmetric]
      by (cases "PeerCertificates s") (auto simp: san_allowed_iff ty not_less split: if_splits)
  qed
qed

theorem tls_policy_decision_witness:
  "\<exists>e e'. EnforceTLSPolicy e (Some \<lparr>cs_Version = 0x302, cs_CipherSuite = 7, PeerCertificates = []\<rparr>) 5
     = (Some (TLS_Version_Too_Low VersionTLS12), e')"
proof -
  let ?cfg = "\<lparr>cfg_NetworkPolicy = \<lparr>AllowedCIDRs = [], BlockedCIDRs = [], AllowedPorts = [], BlockedPorts = [], AllowedProtocols = [], MaxConnections = 0, np_Timeout = 0\<rparr>,
     cfg_TLSPolicy = \<lparr>MinVersion = 0, MaxVersion = 0, CipherSuites = [], RequireClientCert = False, AllowedCNs = [], AllowedSANs = []\<rparr>,
     cfg_MaxAuditLog = 2, cfg_OnEvent = False\<rparr>"
  let ?st = "\<lparr>cs_Version = 0x302, cs_CipherSuite = 7, PeerCertificates = []\<rparr>"
  obtain e where e: "NewEnforcer ?cfg = Inr e" by (simp add: NewEnforcer_def)
  obtain r e' where r: "EnforceTLSPolicy e (Some ?st) 5 = (r, e')" by fastforce
  have ee: "e = e\<lparr>auditLog := auditLog e\<rparr>" by simp
  from tls_policy_decision [OF e ee r] have "r \<noteq> None" by (simp add: word_le_nat_alt)
  moreover have "MinVersion (tlsPolicy e) = VersionTLS12" using e by (auto simp: NewEnforcer_def)
  ultimately have "r = Some (TLS_Version_Too_Low VersionTLS12)"
    using r by (auto simp: EnforceTLSPolicy_def Let_def word_less_nat_alt split: if_splits)
  with r show ?thesis by blast
qed

fun scalar :: "go_value \<Rightarrow> bool" where
  "scalar (VSlice _) = False"
| "scalar (VMap _) = False"
| "scalar _ = True"

lemma go_eq_scalar: "scalar v \<Longrightarrow> \<exists>b. go_eq v w = Inr b"
  by (cases "(v, w)" rule: go_eq.cases) auto

lemma value_in_scalar: "scalar v \<Longrightarrow> \<exists>b. value_in v ws = Inr b"
proof (induction ws)
  case (Cons w ws)
  from go_eq_scalar [OF Cons(2), of w] obtain b where "go_eq v w = Inr b" by blast
  with Cons show ?case by (cases b) auto
qed auto

lemma rule_match_scalar: "scalar v \<Longrightarrow> \<exists>b. rule_match r v = Inr b"
  using go_eq_scalar [of v "r_Value r"] value_in_scalar [of v]
  by (cases "r_Value r"; cases v) (auto simp: rule_match_def map_sum_def split: sum.splits)

text \<open>What a rule asks of the data.\<close>

definition rule_holds :: "rule \<Rightarrow> (string \<Rightarrow> go_value option) \<Rightarrow> bool" where
  "rule_holds r data \<longleftrightarrow> (\<exists>v. data (Field r) = Some v \<and> rule_match r v = Inr (\<not> Negate r))"

lemma evaluateRules_scalar:
  assumes "\<And>f v. data f = Some v \<Longrightarrow> scalar v"
  shows "evaluateRules rs data = Inr (\<forall>r \<in> set rs. rule_holds r data)"
proof (induction rs)
  case (Cons r rs)
  show ?case
  proof (cases "data (Field r)")
    case None
    then show ?thesis by (simp add: rule_holds_def)
  next
    case (Some v)
    from rule_match_scalar [OF assms [OF Some], of r] obtain b where "rule_match r v = Inr b" by blast
    with Some Cons show ?thesis by (cases b; cases "Negate r") (simp_all add: rule_holds_def)
  qed
qed simp

text \<open>
  Rule policies. On data without slices and maps, enforcing a policy never panics; it refuses
  exactly when the policy exists, is enabled, has the action deny and every rule holds (a rule about
  a missing field never holds, negated or not), or when there is no such policy; a refusal by rules
  and a logging policy append one event. On other data it can crash the process: two slices under
  \<open>eq\<close> panic.
\<close>

theorem rule_policy_decision:
  assumes "\<forall>f v. data f = Some v \<longrightarrow> scalar v"
  shows "(\<exists>r e'. EnforcePolicy e pid data now = Inr (r, e')
      \<and> (r = None \<longleftrightarrow> (\<exists>p. GetPolicy e pid = Some p
            \<and> \<not> (p_Enabled p \<and> p_Action p = PolicyActionDeny \<and> (\<forall>q \<in> set (p_Rules p). rule_holds q data))))
      \<and> (if (\<exists>p. GetPolicy e pid = Some p \<and> p_Enabled p \<and> (p_Action p = PolicyActionDeny \<or> p_Action p = PolicyActionLog)
              \<and> (\<forall>q \<in> set (p_Rules p). rule_holds q data))
         then \<exists>ev. auditLog e' = audit_append (maxAuditLog e) ev (auditLog e) \<and> ev_PolicyID ev = pid
         else e' = e))
    \<and> (GetPolicy e pid' = Some p \<and> p_Enabled p \<and> p_Rules p = [\<lparr>Field = f, Operator = ''eq'', r_Value = VSlice xs, Negate = n\<rparr>]
        \<and> data' f = Some (VSlice ys) \<longrightarrow> EnforcePolicy e pid' data' now = Inl Comparing_Uncomparable)"
proof (rule conjI)
  show "\<exists>r e'. EnforcePolicy e pid data now = Inr (r, e')
      \<and> (r = None \<longleftrightarrow> (\<exists>p. GetPolicy e pid = Some p
            \<and> \<not> (p_Enabled p \<and> p_Action p = PolicyActionDeny \<and> (\<forall>q \<in> set (p_Rules p). rule_holds q data))))
      \<and> (if (\<exists>p. GetPolicy e pid = Some p \<and> p_Enabled p \<and> (p_Action p = PolicyActionDeny \<or> p_Action p = PolicyActionLog)
              \<and> (\<forall>q \<in> set (p_Rules p). rule_holds q data))
         then \<exists>ev. auditLog e' = audit_append (maxAuditLog e) ev (auditLog e) \<and> ev_PolicyID ev = pid
         else e' = e)"
  proof (cases "fmlookup (policies e) pid")
    case None
    then show ?thesis by (simp add: EnforcePolicy_def GetPolicy_def)
  next
    case (Some p)
    have ev: "evaluateRules (p_Rules p) data = Inr (\<forall>r \<in> set (p_Rules p). rule_holds r data)"
      using assms by (intro evaluateRules_scalar) blast
    show ?thesis
      by (cases "p_Enabled p"; cases "\<forall>r \<in> set (p_Rules p). rule_holds r data"; cases "p_Action p")
        (simp_all add: EnforcePolicy_def GetPolicy_def Some ev Let_def, fastforce+)
  qed
  show "GetPolicy e pid' = Some p \<and> p_Enabled p \<and> p_Rules p = [\<lparr>Field = f, Operator = ''eq'', r_Value = VSlice xs, Negate = n\<rparr>]
      \<and> data' f = Some (VSlice ys) \<longrightarrow> EnforcePolicy e pid' data' now = Inl Comparing_Uncomparable"
    by (simp add: EnforcePolicy_def GetPolicy_def rule_match_def)
qed

definition demo_policy :: policy where
  "demo_policy = \<lparr>p_ID = ''p'', p_Name = ''block'', p_Type = ''access'', p_Action = PolicyActionDeny, p_Priority = 0, p_Enabled = True,
     p_Rules = [\<lparr>Field = ''path'', Operator = ''prefix'', r_Value = VString ''/admin'', Negate = False\<rparr>], p_CreatedAt = 0, p_UpdatedAt = 0, p_Description = []\<rparr>"

theorem rule_policy_decision_witness:
  "\<exists>e'. EnforcePolicy (AddPolicy demo_enforcer demo_policy) ''p'' [''path'' \<mapsto> VString ''/admin/x''] 5
     = Inr (Some (Denied_By_Policy ''block''), e')"
proof -
  let ?e = "AddPolicy demo_enforcer demo_policy"
  have sc: "\<forall>f v. [''path'' \<mapsto> VString ''/admin/x''] f = Some v \<longrightarrow> scalar v"
    by (auto split: if_splits)
  from rule_policy_decision [OF sc, where e = ?e and pid = "''p''" and now = 5] obtain r e' where
    r: "EnforcePolicy ?e ''p'' [''path'' \<mapsto> VString ''/admin/x''] 5 = Inr (r, e')"
    "r = None \<longleftrightarrow> (\<exists>p. GetPolicy ?e ''p'' = Some p
       \<and> \<not> (p_Enabled p \<and> p_Action p = PolicyActionDeny \<and> (\<forall>q \<in> set (p_Rules p). rule_holds q [''path'' \<mapsto> VString ''/admin/x''])))"
    by blast
  have g: "GetPolicy ?e ''p'' = Some demo_policy" by (simp add: GetPolicy_def AddPolicy_def demo_policy_def)
  have "HasPrefix ''/admin/x'' ''/admin''" by code_simp
  then have "rule_holds q [''path'' \<mapsto> VString ''/admin/x'']" if "q \<in> set (p_Rules demo_policy)" for q
    using that by (simp add: demo_policy_def rule_holds_def rule_match_def)
  then have "r \<noteq> None" using r(2) g by (auto simp: demo_policy_def)
  with r(1) show ?thesis
    by (auto simp: EnforcePolicy_def AddPolicy_def demo_policy_def Let_def split: sum.splits if_splits)
qed

subsection \<open>The audit log\<close>

interpretation audit: bounded_log "audit_append (int (Suc n))" "Suc n" for n
  by unfold_locales (auto simp: audit_append_def dest: in_set_dropD)

datatype enforcer_op =
    E_Network string time
  | E_TLS "connection_state option" time
  | E_Rate rate_limit_policy string time time
  | E_Policy string "string \<Rightarrow> go_value option" time
  | E_Add policy
  | E_Remove string
  | E_Cleanup "string \<Rightarrow> time" "string list"

text \<open>The state after an operation; one that panics leaves no state.\<close>

fun enforcer_exec :: "enforcer \<Rightarrow> enforcer_op \<Rightarrow> enforcer" where
  "enforcer_exec e (E_Network a t) = snd (EnforceNetworkPolicy e a t)"
| "enforcer_exec e (E_TLS st t) = snd (EnforceTLSPolicy e st t)"
| "enforcer_exec e (E_Rate p k t1 t2) = snd (EnforceRateLimit e p k t1 t2)"
| "enforcer_exec e (E_Policy pid data t) = (case EnforcePolicy e pid data t of Inl _ \<Rightarrow> e | Inr (_, e') \<Rightarrow> e')"
| "enforcer_exec e (E_Add p) = AddPolicy e p"
| "enforcer_exec e (E_Remove pid) = RemovePolicy e pid"
| "enforcer_exec e (E_Cleanup clk ks) = cleanupRateLimiters e clk ks"

definition audit_invar :: "nat \<Rightarrow> enforcer \<Rightarrow> bool" where
  "audit_invar n e \<longleftrightarrow> maxAuditLog e = int (Suc n) \<and> length (auditLog e) \<le> Suc n
     \<and> (has_onEvent e \<longrightarrow> auditLog e = last_n (Suc n) (notified e))"

lemma audit_append_last_n: "audit_append (int (Suc n)) ev (last_n (Suc n) l) = last_n (Suc n) (l @ [ev])"
proof (cases "Suc n \<le> length l")
  case True
  then have "Suc (length l - Suc n) = length l - n" by simp
  with True show ?thesis by (simp add: audit_append_def last_n_def drop_Suc [symmetric])
next
  case False
  then show ?thesis by (simp add: audit_append_def last_n_def)
qed

lemma logEvent_invar: "audit_invar n e \<Longrightarrow> audit_invar n (logEvent e ev)"
  using audit.length_add [of "auditLog e" n ev]
  by (auto simp: audit_invar_def logEvent_def Let_def audit_append_last_n simp del: of_nat_Suc)

text \<open>Every operation leaves the log alone or appends one event.\<close>

lemma audit_invar_cong:
  "maxAuditLog e' = maxAuditLog e \<Longrightarrow> auditLog e' = auditLog e \<Longrightarrow> has_onEvent e' = has_onEvent e \<Longrightarrow>
   notified e' = notified e \<Longrightarrow> audit_invar n e' = audit_invar n e"
  by (simp add: audit_invar_def)

lemma cleanup_audit:
  "maxAuditLog (cleanupRateLimiters e clk ks) = maxAuditLog e \<and> auditLog (cleanupRateLimiters e clk ks) = auditLog e
   \<and> has_onEvent (cleanupRateLimiters e clk ks) = has_onEvent e \<and> notified (cleanupRateLimiters e clk ks) = notified e"
  unfolding cleanupRateLimiters_def by (induction ks arbitrary: e) (auto split: option.splits)

lemma enforcer_exec_invar:
  assumes "audit_invar n e"
  shows "audit_invar n (enforcer_exec e c)"
proof (cases c)
  case (E_Network a t)
  then show ?thesis using assms
    by (auto simp: EnforceNetworkPolicy_def Let_def logEvent_invar split: option.splits)
next
  case (E_TLS st t)
  then show ?thesis using assms
    by (auto simp: EnforceTLSPolicy_def Let_def logEvent_invar split: option.splits list.splits)
next
  case (E_Rate p k t1 t2)
  have "audit_invar n (e\<lparr>rateLimiters := m\<rparr>)" for m using assms by (simp add: audit_invar_def)
  with E_Rate show ?thesis by (auto simp: EnforceRateLimit_def Let_def logEvent_invar split: prod.splits)
next
  case (E_Policy pid data t)
  then show ?thesis using assms
    by (auto simp: EnforcePolicy_def Let_def logEvent_invar split: option.splits sum.splits if_splits)
next
  case (E_Cleanup clk ks)
  then show ?thesis using assms cleanup_audit [of e clk ks] by (simp add: audit_invar_def)
qed (use assms in \<open>simp_all add: AddPolicy_def RemovePolicy_def audit_invar_def\<close>)

lemma enforcer_exec_onEvent: "has_onEvent (enforcer_exec e c) = has_onEvent e"
proof (cases c)
  case (E_Policy pid data t)
  then show ?thesis
    by (auto simp: EnforcePolicy_def logEvent_def Let_def split: option.splits sum.splits if_splits)
next
  case (E_Cleanup clk ks)
  then show ?thesis using cleanup_audit [of e clk ks] by simp
qed (auto simp: EnforceNetworkPolicy_def EnforceTLSPolicy_def EnforceRateLimit_def AddPolicy_def RemovePolicy_def
    logEvent_def Let_def split: option.splits list.splits prod.splits)

interpretation enforcer: op_system enforcer_exec "audit_invar n" for n
  by unfold_locales (rule enforcer_exec_invar)

text \<open>
  the audit log is bounded and loses only the oldest events. Whatever operations run on a new
  enforcer, its audit log never exceeds the configured size (10000 when none is configured), and
  with a callback registered it is exactly the newest of the events the callback was given.
\<close>

theorem audit_log_keeps_newest:
  assumes "NewEnforcer cfg = Inr e0" "cfg_MaxAuditLog cfg = 0 \<or> 0 < cfg_MaxAuditLog cfg"
    and "cap = (if cfg_MaxAuditLog cfg = 0 then 10000 else nat (cfg_MaxAuditLog cfg))"
  shows "length (auditLog (foldl enforcer_exec e0 ops)) \<le> cap
    \<and> (has_onEvent (foldl enforcer_exec e0 ops) \<longrightarrow>
        GetAuditLog (foldl enforcer_exec e0 ops) = last_n cap (notified (foldl enforcer_exec e0 ops)))"
proof -
  have "0 < cap" using assms(2,3) by auto
  then obtain n where n: "cap = Suc n" using gr0_implies_Suc by blast
  have "int cap = (if cfg_MaxAuditLog cfg = 0 then 10000 else cfg_MaxAuditLog cfg)" using assms(2,3) by auto
  with n assms(1) have "audit_invar n e0" by (auto simp: NewEnforcer_def Let_def audit_invar_def split: if_splits)
  from enforcer.run_invar [OF this, of ops] n show ?thesis by (simp add: audit_invar_def GetAuditLog_def)
qed

definition demo_config :: enforcer_config where
  "demo_config = \<lparr>cfg_NetworkPolicy = \<lparr>AllowedCIDRs = [], BlockedCIDRs = [], AllowedPorts = [], BlockedPorts = [], AllowedProtocols = [], MaxConnections = 0, np_Timeout = 0\<rparr>,
     cfg_TLSPolicy = \<lparr>MinVersion = 0, MaxVersion = 0, CipherSuites = [], RequireClientCert = False, AllowedCNs = [], AllowedSANs = []\<rparr>,
     cfg_MaxAuditLog = 2, cfg_OnEvent = True\<rparr>"

theorem audit_log_keeps_newest_witness:
  "\<exists>e0. NewEnforcer demo_config = Inr e0
     \<and> GetAuditLog (foldl enforcer_exec e0 [E_TLS None 2, E_Network ''x'' 1, E_Network ''y'' 1, E_Network ''z'' 1])
       = last_n 2 (notified (foldl enforcer_exec e0 [E_TLS None 2, E_Network ''x'' 1, E_Network ''y'' 1, E_Network ''z'' 1]))"
proof -
  obtain e0 where e0: "NewEnforcer demo_config = Inr e0" by (simp add: NewEnforcer_def demo_config_def)
  have on: "has_onEvent (foldl enforcer_exec e0 [E_TLS None 2, E_Network ''x'' 1, E_Network ''y'' 1, E_Network ''z'' 1])"
    using e0 by (auto simp: NewEnforcer_def demo_config_def Let_def enforcer_exec_onEvent simp del: enforcer_exec.simps)
  have "cfg_MaxAuditLog demo_config = 0 \<or> 0 < cfg_MaxAuditLog demo_config"
    "2 = (if cfg_MaxAuditLog demo_config = 0 then 10000 else nat (cfg_MaxAuditLog demo_config))"
    by (simp_all add: demo_config_def)
  from audit_log_keeps_newest [OF e0 this] on e0 show ?thesis by blast
qed

end
