(* ===== verification/Hardening.thy ===== *)
theory Hardening
  imports Token_Bucket "HOL-Library.Finite_Map"
begin

section \<open>Operational hardening\<close>

text \<open>
  Model of \<open>GoTunnel/internal/ops/hardening.go\<close>: health checks and probes, graceful shutdown, the
  circuit breaker and retries with backoff (its rate limiter is in \<open>Token_Bucket\<close>). Checks, probes
  and the protected functions are callers' code and stand as arguments; \<open>Execute\<close> of the breaker is
  split where it releases its lock, so that interleavings of concurrent calls can be stated.
\<close>

subsection \<open>Contexts\<close>

text \<open>A \<open>context.Context\<close> as far as checks see it: when it expires and whether it is cancelled.\<close>

record context_ =
  deadline :: "time option"
  ctx_done :: bool

definition WithTimeout :: "context_ \<Rightarrow> time \<Rightarrow> duration \<Rightarrow> context_" where
  "WithTimeout ctx now d =
     \<lparr>deadline = (case deadline ctx of None \<Rightarrow> Some (now + d) | Some t \<Rightarrow> Some (min t (now + d))),
      ctx_done = (ctx_done ctx \<or> (case deadline ctx of None \<Rightarrow> now + d | Some t \<Rightarrow> min t (now + d)) \<le> now)\<rparr>"

subsection \<open>Health checks and probes\<close>

type_synonym health_status = string

definition HealthStatusHealthy :: health_status where "HealthStatusHealthy = ''healthy''"
definition HealthStatusDegraded :: health_status where "HealthStatusDegraded = ''degraded''"
definition HealthStatusUnhealthy :: health_status where "HealthStatusUnhealthy = ''unhealthy''"
definition HealthStatusUnknown :: health_status where "HealthStatusUnknown = ''unknown''"

lemmas health_status_defs =
  HealthStatusHealthy_def HealthStatusDegraded_def HealthStatusUnhealthy_def HealthStatusUnknown_def

record component_health =
  ch_Name :: string
  ch_Status :: health_status
  ch_Message :: string
  ch_Metrics :: "(string \<times> rat) list"
  LastChecked :: time
  Latency :: duration

record system_health =
  sh_Status :: health_status
  Components :: "(string, component_health) fmap"
  Uptime :: duration
  Version :: string
  Timestamp :: time

record 'e probe =
  probe_Name :: string
  Check :: "context_ \<Rightarrow> 'e option"
  probe_Timeout :: duration
  probe_Interval :: duration

record 'e hardener =
  healthChecks :: "(string, context_ \<Rightarrow> component_health) fmap"
  readinessProbes :: "(string, 'e probe) fmap"
  livenessProbes :: "(string, 'e probe) fmap"
  startTime :: time
  version :: string
  stopCh_closed :: bool
  workers :: nat

definition NewHardener :: "string \<Rightarrow> time \<Rightarrow> 'e hardener" where
  "NewHardener v now = \<lparr>healthChecks = fmempty, readinessProbes = fmempty, livenessProbes = fmempty,
     startTime = now, version = v, stopCh_closed = False, workers = 0\<rparr>"

text \<open>\<open>Start\<close> launches the worker that runs the health checks every thirty seconds; \<open>Stop\<close> ends it.\<close>

definition hardener_Start :: "'e hardener \<Rightarrow> 'e hardener" where
  "hardener_Start h = h\<lparr>workers := workers h + 1\<rparr>"

definition hardener_Stop :: "'e hardener \<Rightarrow> go_panic + 'e hardener" where
  "hardener_Stop h = (if stopCh_closed h then Inl Close_Of_Closed_Channel
     else Inr (h\<lparr>stopCh_closed := True, workers := 0\<rparr>))"

definition RegisterHealthCheck :: "'e hardener \<Rightarrow> string \<Rightarrow> (context_ \<Rightarrow> component_health) \<Rightarrow> 'e hardener" where
  "RegisterHealthCheck h name check = h\<lparr>healthChecks := fmupd name check (healthChecks h)\<rparr>"

definition RegisterReadinessProbe :: "'e hardener \<Rightarrow> 'e probe \<Rightarrow> 'e hardener" where
  "RegisterReadinessProbe h p = h\<lparr>readinessProbes := fmupd (probe_Name p) p (readinessProbes h)\<rparr>"

definition RegisterLivenessProbe :: "'e hardener \<Rightarrow> 'e probe \<Rightarrow> 'e hardener" where
  "RegisterLivenessProbe h p = h\<lparr>livenessProbes := fmupd (probe_Name p) p (livenessProbes h)\<rparr>"

text \<open>
  One round of the loop of \<open>GetSystemHealth\<close>; the clock is read before the check, after it for the
  latency, and once more.
\<close>

record check_times =
  t_start :: time
  t_since :: time
  t_checked :: time

definition run_check :: "(context_ \<Rightarrow> component_health) \<Rightarrow> context_ \<Rightarrow> check_times \<Rightarrow> component_health" where
  "run_check check ctx t = (check ctx)\<lparr>Latency := time_sub (t_since t) (t_start t), LastChecked := t_checked t\<rparr>"

definition overall :: "health_status \<Rightarrow> health_status \<Rightarrow> health_status" where
  "overall overallStatus st =
     (if st = HealthStatusUnhealthy then HealthStatusUnhealthy
      else if st = HealthStatusDegraded \<and> overallStatus = HealthStatusHealthy then HealthStatusDegraded
      else overallStatus)"

fun health_loop :: "(string, context_ \<Rightarrow> component_health) fmap \<Rightarrow> context_ \<Rightarrow> (string \<Rightarrow> check_times) \<Rightarrow> string list \<Rightarrow>
    (string, component_health) fmap \<times> health_status \<Rightarrow> (string, component_health) fmap \<times> health_status" where
  "health_loop checks ctx clk [] acc = acc"
| "health_loop checks ctx clk (k # ks) (comps, st) =
     (case fmlookup checks k of
        None \<Rightarrow> health_loop checks ctx clk ks (comps, st)
      | Some check \<Rightarrow>
          let health = run_check check ctx (clk k)
          in health_loop checks ctx clk ks (fmupd k health comps, overall st (ch_Status health)))"

text \<open>\<open>ks\<close> is the order in which the map is iterated; \<open>t1\<close> and \<open>t2\<close> are the last two clock readings.\<close>

definition GetSystemHealth :: "'e hardener \<Rightarrow> context_ \<Rightarrow> string list \<Rightarrow> (string \<Rightarrow> check_times) \<Rightarrow> time \<Rightarrow> time \<Rightarrow> system_health" where
  "GetSystemHealth h ctx ks clk t1 t2 =
     (let (comps, st) = health_loop (healthChecks h) ctx clk ks (fmempty, HealthStatusHealthy)
      in \<lparr>sh_Status = st, Components = comps, Uptime = time_sub t1 (startTime h), Version = version h, Timestamp = t2\<rparr>)"

fun probe_loop :: "(string, 'e probe) fmap \<Rightarrow> context_ \<Rightarrow> (string \<Rightarrow> time) \<Rightarrow> string list \<Rightarrow>
    (string, 'e option) fmap \<Rightarrow> (string, 'e option) fmap" where
  "probe_loop probes ctx clk [] results = results"
| "probe_loop probes ctx clk (k # ks) results =
     (case fmlookup probes k of
        None \<Rightarrow> probe_loop probes ctx clk ks results
      | Some p \<Rightarrow> probe_loop probes ctx clk ks (fmupd k (Check p (WithTimeout ctx (clk k) (probe_Timeout p))) results))"

definition CheckReadiness :: "'e hardener \<Rightarrow> context_ \<Rightarrow> (string \<Rightarrow> time) \<Rightarrow> string list \<Rightarrow> (string, 'e option) fmap" where
  "CheckReadiness h ctx clk ks = probe_loop (readinessProbes h) ctx clk ks fmempty"

definition CheckLiveness :: "'e hardener \<Rightarrow> context_ \<Rightarrow> (string \<Rightarrow> time) \<Rightarrow> string list \<Rightarrow> (string, 'e option) fmap" where
  "CheckLiveness h ctx clk ks = probe_loop (livenessProbes h) ctx clk ks fmempty"

text \<open>The loop over the results stops at the first error; \<open>rs\<close> is its order.\<close>

fun no_error :: "(string, 'e option) fmap \<Rightarrow> string list \<Rightarrow> bool" where
  "no_error results [] = True"
| "no_error results (k # rs) = (case fmlookup results k of Some (Some err) \<Rightarrow> False | _ \<Rightarrow> no_error results rs)"

definition IsReady :: "'e hardener \<Rightarrow> context_ \<Rightarrow> (string \<Rightarrow> time) \<Rightarrow> string list \<Rightarrow> string list \<Rightarrow> bool" where
  "IsReady h ctx clk ks rs = no_error (CheckReadiness h ctx clk ks) rs"

definition IsAlive :: "'e hardener \<Rightarrow> context_ \<Rightarrow> (string \<Rightarrow> time) \<Rightarrow> string list \<Rightarrow> string list \<Rightarrow> bool" where
  "IsAlive h ctx clk ks rs = no_error (CheckLiveness h ctx clk ks) rs"

subsection \<open>Graceful shutdown\<close>

record mem_stats =
  Alloc :: "64 word"
  TotalAlloc :: "64 word"
  Sys :: "64 word"
  HeapAlloc :: "64 word"
  HeapSys :: "64 word"
  NumGC :: "32 word"
  PauseTotalNs :: "64 word"

record runtime_stats =
  Goroutines :: int
  CPUCount :: int
  MemoryAlloc :: "64 word"
  MemoryTotal :: "64 word"
  MemorySys :: "64 word"
  MemoryHeapAlloc :: "64 word"
  MemoryHeapSys :: "64 word"
  GCCycles :: "32 word"
  GCPauseTotal :: duration
  rs_Uptime :: duration

text \<open>What the run-time answers is an argument: memory statistics, goroutines and processors.\<close>

definition GetRuntimeStats :: "'e hardener \<Rightarrow> mem_stats \<Rightarrow> int \<Rightarrow> int \<Rightarrow> time \<Rightarrow> runtime_stats" where
  "GetRuntimeStats h m goroutines cpus now =
     \<lparr>Goroutines = goroutines, CPUCount = cpus, MemoryAlloc = Alloc m, MemoryTotal = TotalAlloc m, MemorySys = Sys m,
      MemoryHeapAlloc = HeapAlloc m, MemoryHeapSys = HeapSys m, GCCycles = NumGC m,
      GCPauseTotal = sint (PauseTotalNs m), rs_Uptime = time_sub now (startTime h)\<rparr>"

text \<open>
  The loop of \<open>GracefulShutdown\<close> over what its \<open>select\<close> receives: the end of the context, or a tick
  together with the statistics read then. \<open>None\<close> is a loop that still waits.
\<close>

datatype shutdown_event = Shutdown_Done | Tick runtime_stats

datatype shutdown_result = Shutdown_Timeout_Exceeded | Shutdown_OK

fun GracefulShutdown :: "shutdown_event list \<Rightarrow> shutdown_result option" where
  "GracefulShutdown [] = None"
| "GracefulShutdown (Shutdown_Done # _) = Some Shutdown_Timeout_Exceeded"
| "GracefulShutdown (Tick stats # es) = (if Goroutines stats \<le> 10 then Some Shutdown_OK else GracefulShutdown es)"

subsection \<open>Circuit breaker\<close>

record circuit_breaker =
  cb_name :: string
  cb_state :: string
  failureCount :: int
  successCount :: int
  failureThreshold :: int
  successThreshold :: int
  cb_timeout :: duration
  lastFailure :: time

text \<open>The last argument is the zero time of Go, from which the zero value of \<open>lastFailure\<close> comes.\<close>

definition NewCircuitBreaker :: "string \<Rightarrow> int \<Rightarrow> int \<Rightarrow> duration \<Rightarrow> time \<Rightarrow> circuit_breaker" where
  "NewCircuitBreaker name ft st timeout zt =
     \<lparr>cb_name = name, cb_state = ''closed'', failureCount = 0, successCount = 0, failureThreshold = ft,
      successThreshold = st, cb_timeout = timeout, lastFailure = zt\<rparr>"

text \<open>The first critical section of \<open>Execute\<close>: whether the function is called.\<close>

definition execute_begin :: "circuit_breaker \<Rightarrow> time \<Rightarrow> bool \<times> circuit_breaker" where
  "execute_begin cb now =
     (if cb_state cb = ''open''
      then if time_sub now (lastFailure cb) > cb_timeout cb
           then (True, cb\<lparr>cb_state := ''half-open'', successCount := 0\<rparr>)
           else (False, cb)
      else (True, cb))"

text \<open>The second critical section, with the function's result.\<close>

definition execute_end :: "circuit_breaker \<Rightarrow> 'e option \<Rightarrow> time \<Rightarrow> circuit_breaker" where
  "execute_end cb err now =
     (case err of
        Some _ \<Rightarrow>
          let cb = cb\<lparr>failureCount := wrap64 (failureCount cb + 1), lastFailure := now\<rparr>
          in if failureCount cb \<ge> failureThreshold cb then cb\<lparr>cb_state := ''open''\<rparr> else cb
      | None \<Rightarrow>
          if cb_state cb = ''half-open''
          then let cb = cb\<lparr>successCount := wrap64 (successCount cb + 1)\<rparr>
               in if successCount cb \<ge> successThreshold cb then cb\<lparr>cb_state := ''closed'', failureCount := 0\<rparr> else cb
          else cb\<lparr>failureCount := 0\<rparr>)"

datatype 'e execute_result = Breaker_Is_Open string | Returned "'e option"

text \<open>A call with no other call in between: the function's result and the two clock readings.\<close>

definition Execute :: "circuit_breaker \<Rightarrow> time \<Rightarrow> 'e option \<Rightarrow> time \<Rightarrow> 'e execute_result \<times> circuit_breaker" where
  "Execute cb t1 err t2 =
     (case execute_begin cb t1 of
        (False, cb) \<Rightarrow> (Breaker_Is_Open (cb_name cb), cb)
      | (True, cb) \<Rightarrow> (Returned err, execute_end cb err t2))"

definition GetState :: "circuit_breaker \<Rightarrow> string" where
  "GetState cb = cb_state cb"

subsection \<open>Retries with backoff\<close>

datatype ('e, 'c) retry_error = Context_Err 'c | Max_Retries_Exceeded "'e option"

text \<open>
  The loop of \<open>RetryWithBackoff\<close>, with \<open>n\<close> tries left: \<open>fn i\<close> is what the \<open>i\<close>th call returns and
  \<open>done i\<close> the context's error when the wait after it ends by the context. The result carries the
  number of calls made and the waits started.
\<close>

fun retry_loop :: "nat \<Rightarrow> nat \<Rightarrow> duration \<Rightarrow> 'e option \<Rightarrow> (nat \<Rightarrow> 'e option) \<Rightarrow> (nat \<Rightarrow> 'c option) \<Rightarrow>
    ('e, 'c) retry_error option \<times> nat \<times> duration list" where
  "retry_loop 0 i backoff lastErr fn done = (Some (Max_Retries_Exceeded lastErr), 0, [])"
| "retry_loop (Suc n) i backoff lastErr fn done =
     (case fn i of
        None \<Rightarrow> (None, 1, [])
      | Some err \<Rightarrow>
          (case done i of
             Some c \<Rightarrow> (Some (Context_Err c), 1, [backoff])
           | None \<Rightarrow>
               let (r, calls, waits) = retry_loop n (Suc i) (wrap64 (backoff * 2)) (Some err) fn done
               in (r, Suc calls, backoff # waits)))"

definition RetryWithBackoff :: "int \<Rightarrow> duration \<Rightarrow> (nat \<Rightarrow> 'e option) \<Rightarrow> (nat \<Rightarrow> 'c option) \<Rightarrow>
    ('e, 'c) retry_error option \<times> nat \<times> duration list" where
  "RetryWithBackoff maxRetries initialBackoff fn done = retry_loop (nat maxRetries) 0 initialBackoff None fn done"

subsection \<open>Health\<close>

text \<open>The worst of the reported statuses: an unknown or unrecognised status counts as healthy.\<close>

definition worst_status :: "health_status set \<Rightarrow> health_status" where
  "worst_status S = (if HealthStatusUnhealthy \<in> S then HealthStatusUnhealthy
     else if HealthStatusDegraded \<in> S then HealthStatusDegraded else HealthStatusHealthy)"

lemma overall_worst: "overall (worst_status S) st = worst_status (insert st S)"
  by (auto simp: overall_def worst_status_def health_status_defs)

definition registered :: "('k, 'v) fmap \<Rightarrow> 'k list \<Rightarrow> 'v set" where
  "registered m ks = {v. \<exists>k \<in> set ks. fmlookup m k = Some v}"

lemma ch_Status_run_check [simp]: "ch_Status (run_check c ctx t) = ch_Status (c ctx)"
  by (simp add: run_check_def)

lemma health_loop_status:
  "snd (health_loop checks ctx clk ks (comps, worst_status S))
   = worst_status (S \<union> (\<lambda>c. ch_Status (c ctx)) ` registered checks ks)"
proof (induction ks arbitrary: comps S)
  case (Cons k ks)
  show ?case
  proof (cases "fmlookup checks k")
    case None
    then have "registered checks (k # ks) = registered checks ks" by (auto simp: registered_def)
    with None Cons show ?thesis by simp
  next
    case (Some c)
    then have "registered checks (k # ks) = insert c (registered checks ks)" by (auto simp: registered_def)
    with Some Cons [of _ "insert (ch_Status (c ctx)) S"] show ?thesis by (simp add: Let_def overall_worst)
  qed
qed (simp add: registered_def)

lemma health_loop_components:
  "fmlookup (fst (health_loop checks ctx clk ks (comps, st))) k =
   (if k \<in> set ks \<and> fmlookup checks k \<noteq> None then map_option (\<lambda>c. run_check c ctx (clk k)) (fmlookup checks k)
    else fmlookup comps k)"
  by (induction ks arbitrary: comps st) (auto simp: Let_def split: option.splits)

lemma probe_loop_lookup:
  "fmlookup (probe_loop probes ctx clk ks results) k =
   (if k \<in> set ks \<and> fmlookup probes k \<noteq> None
    then map_option (\<lambda>p. Check p (WithTimeout ctx (clk k) (probe_Timeout p))) (fmlookup probes k)
    else fmlookup results k)"
  by (induction ks arbitrary: results) (auto split: option.splits)

lemma no_error_iff: "no_error results rs \<longleftrightarrow> (\<forall>k \<in> set rs. \<forall>err. fmlookup results k \<noteq> Some (Some err))"
  by (induction rs) (auto split: option.splits)

lemma probes_pass:
  assumes "set ks = fmdom' probes" "set rs = fmdom' (probe_loop probes ctx clk ks fmempty)"
  shows "no_error (probe_loop probes ctx clk ks fmempty) rs
     \<longleftrightarrow> (\<forall>k p. fmlookup probes k = Some p \<longrightarrow> Check p (WithTimeout ctx (clk k) (probe_Timeout p)) = None)"
proof -
  let ?r = "probe_loop probes ctx clk ks fmempty"
  have l: "fmlookup ?r k = map_option (\<lambda>p. Check p (WithTimeout ctx (clk k) (probe_Timeout p))) (fmlookup probes k)" for k
    using assms(1) fmdom'I [of probes k] by (auto simp: probe_loop_lookup)
  have "no_error ?r rs \<longleftrightarrow> (\<forall>k err. fmlookup ?r k \<noteq> Some (Some err))"
    unfolding no_error_iff assms(2) by (meson fmdom'I)
  also have "\<dots> \<longleftrightarrow> (\<forall>k p. fmlookup probes k = Some p \<longrightarrow> Check p (WithTimeout ctx (clk k) (probe_Timeout p)) = None)"
    by (simp add: l) (metis not_None_eq)
  finally show ?thesis .
qed

lemma GracefulShutdown_returns:
  "GracefulShutdown es = None \<longleftrightarrow> (\<forall>e \<in> set es. \<exists>s. e = Tick s \<and> Goroutines s > 10)"
  by (induction es rule: GracefulShutdown.induct) auto

text \<open>
  The health of the system. Whatever the order in which the checks run, every registered check
  is run once and reported under its name with its latency and time, nothing else is reported, and
  the overall status is the worst of the reported ones, where anything but unhealthy and degraded
  counts as healthy.
\<close>

theorem system_health_is_worst:
  assumes "set ks = fmdom' (healthChecks h)"
  shows "sh_Status (GetSystemHealth h ctx ks clk t1 t2)
      = worst_status {ch_Status (c ctx) | k c. fmlookup (healthChecks h) k = Some c}
    \<and> fmlookup (Components (GetSystemHealth h ctx ks clk t1 t2)) k
      = map_option (\<lambda>c. (c ctx)\<lparr>Latency := time_sub (t_since (clk k)) (t_start (clk k)), LastChecked := t_checked (clk k)\<rparr>)
          (fmlookup (healthChecks h) k)"
proof (rule conjI)
  have eq: "(\<lambda>c. ch_Status (c ctx)) ` registered (healthChecks h) ks
      = {ch_Status (c ctx) | k c. fmlookup (healthChecks h) k = Some c}"
    using assms by (auto simp: registered_def intro!: imageI fmdom'I)
  have "worst_status {} = HealthStatusHealthy" by (simp add: worst_status_def)
  with health_loop_status [of "healthChecks h" ctx clk ks fmempty "{}"] eq
  show "sh_Status (GetSystemHealth h ctx ks clk t1 t2)
      = worst_status {ch_Status (c ctx) | k c. fmlookup (healthChecks h) k = Some c}"
    by (simp add: GetSystemHealth_def split_beta)
  have "k \<in> set ks \<longleftrightarrow> fmlookup (healthChecks h) k \<noteq> None" using assms by (simp add: fmlookup_dom'_iff)
  then show "fmlookup (Components (GetSystemHealth h ctx ks clk t1 t2)) k
      = map_option (\<lambda>c. (c ctx)\<lparr>Latency := time_sub (t_since (clk k)) (t_start (clk k)), LastChecked := t_checked (clk k)\<rparr>)
          (fmlookup (healthChecks h) k)"
    by (auto simp: GetSystemHealth_def split_beta health_loop_components run_check_def)
qed

definition demo_check :: "health_status \<Rightarrow> context_ \<Rightarrow> component_health" where
  "demo_check st ctx = \<lparr>ch_Name = ''c'', ch_Status = st, ch_Message = [], ch_Metrics = [], LastChecked = 0, Latency = 0\<rparr>"

definition demo_hardener :: "string hardener" where
  "demo_hardener = RegisterHealthCheck (RegisterHealthCheck (NewHardener ''1'' 0) ''db'' (demo_check HealthStatusUnhealthy))
     ''mq'' (demo_check HealthStatusDegraded)"

theorem system_health_is_worst_witness:
  "sh_Status (GetSystemHealth demo_hardener \<lparr>deadline = None, ctx_done = False\<rparr> [''mq'', ''db'']
     (\<lambda>_. \<lparr>t_start = 1, t_since = 2, t_checked = 3\<rparr>) 4 5) = HealthStatusUnhealthy"
proof -
  have dom: "set [''mq'', ''db''] = fmdom' (healthChecks demo_hardener)"
    by (simp add: demo_hardener_def RegisterHealthCheck_def NewHardener_def)
  have "fmlookup (healthChecks demo_hardener) ''db'' = Some (demo_check HealthStatusUnhealthy)"
    by (simp add: demo_hardener_def RegisterHealthCheck_def NewHardener_def)
  moreover have "ch_Status (demo_check HealthStatusUnhealthy \<lparr>deadline = None, ctx_done = False\<rparr>) = HealthStatusUnhealthy"
    by (simp add: demo_check_def)
  ultimately have "HealthStatusUnhealthy \<in> {ch_Status (c \<lparr>deadline = None, ctx_done = False\<rparr>) | k c.
      fmlookup (healthChecks demo_hardener) k = Some c}"
    by force
  then show ?thesis using system_health_is_worst [OF dom] by (simp add: worst_status_def)
qed

text \<open>
  Readiness and liveness. A process is ready (alive) exactly when every registered probe passes,
  whatever the order in which the probes and their results are visited; each probe runs under a
  context that ends no later than its caller's and no later than the probe's own timeout.
\<close>

theorem ready_iff_all_probes_pass:
  assumes "set ks = fmdom' (readinessProbes h)" "set rs = fmdom' (CheckReadiness h ctx clk ks)"
    and "set ks' = fmdom' (livenessProbes h)" "set rs' = fmdom' (CheckLiveness h ctx clk ks')"
  shows "(IsReady h ctx clk ks rs \<longleftrightarrow> (\<forall>k p. fmlookup (readinessProbes h) k = Some p \<longrightarrow>
             Check p (WithTimeout ctx (clk k) (probe_Timeout p)) = None))
    \<and> (IsAlive h ctx clk ks' rs' \<longleftrightarrow> (\<forall>k p. fmlookup (livenessProbes h) k = Some p \<longrightarrow>
             Check p (WithTimeout ctx (clk k) (probe_Timeout p)) = None))
    \<and> (\<exists>t. deadline (WithTimeout ctx now d) = Some t \<and> t \<le> now + d \<and> (\<forall>u. deadline ctx = Some u \<longrightarrow> t \<le> u))"
  using assms
  by (simp add: IsReady_def IsAlive_def CheckReadiness_def CheckLiveness_def probes_pass WithTimeout_def split: option.splits)

theorem ready_iff_all_probes_pass_witness:
  "\<not> IsReady (RegisterReadinessProbe (NewHardener ''1'' 0)
       \<lparr>probe_Name = ''db'', Check = \<lambda>c. if deadline c = Some 7 then Some ''late'' else None, probe_Timeout = 3, probe_Interval = 0\<rparr>)
     \<lparr>deadline = None, ctx_done = False\<rparr> (\<lambda>_. 4) [''db''] [''db'']"
proof -
  let ?h = "RegisterReadinessProbe (NewHardener ''1'' 0)
       \<lparr>probe_Name = ''db'', Check = \<lambda>c. if deadline c = Some 7 then Some ''late'' else None, probe_Timeout = 3, probe_Interval = 0\<rparr>"
  let ?c = "\<lparr>deadline = None, ctx_done = False\<rparr>"
  have l: "fmlookup (readinessProbes ?h) ''db'' = Some \<lparr>probe_Name = ''db'',
      Check = \<lambda>c. if deadline c = Some 7 then Some ''late'' else None, probe_Timeout = 3, probe_Interval = 0\<rparr>"
    by (simp add: RegisterReadinessProbe_def NewHardener_def)
  have h: "set [''db''] = fmdom' (readinessProbes ?h)" "set [''db''] = fmdom' (CheckReadiness ?h ?c (\<lambda>_. 4) [''db''])"
    "set [] = fmdom' (livenessProbes ?h)" "set [] = fmdom' (CheckLiveness ?h ?c (\<lambda>_. 4) [])"
    by (simp_all add: RegisterReadinessProbe_def NewHardener_def CheckReadiness_def CheckLiveness_def)
  from l have "\<not> (\<forall>k p. fmlookup (readinessProbes ?h) k = Some p \<longrightarrow> Check p (WithTimeout ?c 4 (probe_Timeout p)) = None)"
    by (fastforce simp: WithTimeout_def)
  with ready_iff_all_probes_pass [OF h] show ?thesis by blast
qed

subsection \<open>The breaker's contract\<close>

text \<open>
  What a circuit breaker promises: closed it counts failures in a row, open it refuses calls until
  its timeout has passed since it opened, and then a single failure opens it again while enough
  successes close it.
\<close>

datatype phase = Closed_After int | Opened time | Probing int

fun settle :: "int \<Rightarrow> int \<Rightarrow> phase \<Rightarrow> 'e option \<Rightarrow> time \<Rightarrow> phase" where
  "settle ft st (Closed_After f) None t = Closed_After 0"
| "settle ft st (Closed_After f) (Some _) t = (if f + 1 \<ge> ft then Opened t else Closed_After (f + 1))"
| "settle ft st (Probing s) None t = (if s + 1 \<ge> st then Closed_After 0 else Probing (s + 1))"
| "settle ft st (Probing s) (Some _) t = Opened t"
| "settle ft st (Opened u) _ t = Opened u"

fun spec_execute :: "int \<Rightarrow> int \<Rightarrow> duration \<Rightarrow> phase \<Rightarrow> time \<Rightarrow> 'e option \<Rightarrow> time \<Rightarrow> bool \<times> phase" where
  "spec_execute ft st timeout (Opened u) t1 err t2 =
     (if time_sub t1 u > timeout then (True, settle ft st (Probing 0) err t2) else (False, Opened u))"
| "spec_execute ft st timeout ph t1 err t2 = (True, settle ft st ph err t2)"

fun phase_name :: "phase \<Rightarrow> string" where
  "phase_name (Closed_After _) = ''closed''"
| "phase_name (Opened _) = ''open''"
| "phase_name (Probing _) = ''half-open''"

definition abs_breaker :: "circuit_breaker \<Rightarrow> phase" where
  "abs_breaker cb = (if cb_state cb = ''closed'' then Closed_After (failureCount cb)
     else if cb_state cb = ''open'' then Opened (lastFailure cb) else Probing (successCount cb))"

definition breaker_inv :: "nat \<Rightarrow> circuit_breaker \<Rightarrow> bool" where
  "breaker_inv k cb \<longleftrightarrow> cb_state cb \<in> {''closed'', ''open'', ''half-open''} \<and> 1 \<le> failureThreshold cb \<and> 1 \<le> successThreshold cb
     \<and> 0 \<le> failureCount cb \<and> failureCount cb \<le> int k \<and> 0 \<le> successCount cb \<and> successCount cb \<le> int k
     \<and> (cb_state cb = ''closed'' \<longleftrightarrow> failureCount cb < failureThreshold cb)"

fun run_breaker :: "circuit_breaker \<Rightarrow> (time \<times> 'e option \<times> time) list \<Rightarrow> ('e execute_result \<times> string) list" where
  "run_breaker cb [] = []"
| "run_breaker cb ((t1, err, t2) # cs) = (let (r, cb') = Execute cb t1 err t2 in (r, GetState cb') # run_breaker cb' cs)"

fun run_spec :: "string \<Rightarrow> int \<Rightarrow> int \<Rightarrow> duration \<Rightarrow> phase \<Rightarrow> (time \<times> 'e option \<times> time) list \<Rightarrow> ('e execute_result \<times> string) list" where
  "run_spec name ft st timeout ph [] = []"
| "run_spec name ft st timeout ph ((t1, err, t2) # cs) =
     (let (called, ph') = spec_execute ft st timeout ph t1 err t2
      in (if called then Returned err else Breaker_Is_Open name, phase_name ph') # run_spec name ft st timeout ph' cs)"

lemma phase_name_abs: "breaker_inv k cb \<Longrightarrow> phase_name (abs_breaker cb) = GetState cb"
  by (auto simp: breaker_inv_def abs_breaker_def GetState_def)

lemma wrap64_succ: "0 \<le> n \<Longrightarrow> n \<le> int k \<Longrightarrow> k < 2 ^ 63 - 1 \<Longrightarrow> wrap64 (n + 1) = n + 1"
  by (rule wrap64_id) simp_all

lemma execute_begin_refines:
  assumes "breaker_inv k cb" "execute_begin cb t = (called, cb')"
  shows "breaker_inv k cb'"
    and "cb_name cb' = cb_name cb \<and> failureThreshold cb' = failureThreshold cb \<and> successThreshold cb' = successThreshold cb
      \<and> cb_timeout cb' = cb_timeout cb"
    and "called = (case abs_breaker cb of Opened u \<Rightarrow> time_sub t u > cb_timeout cb | _ \<Rightarrow> True)"
    and "abs_breaker cb' = (case abs_breaker cb of Opened u \<Rightarrow> if called then Probing 0 else Opened u | ph \<Rightarrow> ph)"
    and "called \<Longrightarrow> cb_state cb' \<noteq> ''open''"
  using assms by (auto simp: execute_begin_def breaker_inv_def abs_breaker_def split: if_splits)

lemma execute_end_refines:
  assumes inv: "breaker_inv k cb" and k: "k < 2 ^ 63 - 1" and "cb_state cb \<noteq> ''open''"
  shows "breaker_inv (Suc k) (execute_end cb err t)"
    and "cb_name (execute_end cb err t) = cb_name cb \<and> failureThreshold (execute_end cb err t) = failureThreshold cb
      \<and> successThreshold (execute_end cb err t) = successThreshold cb \<and> cb_timeout (execute_end cb err t) = cb_timeout cb"
    and "abs_breaker (execute_end cb err t) = settle (failureThreshold cb) (successThreshold cb) (abs_breaker cb) err t"
proof -
  have w: "wrap64 (failureCount cb + 1) = failureCount cb + 1" "wrap64 (successCount cb + 1) = successCount cb + 1"
    using inv wrap64_succ [OF _ _ k] by (auto simp: breaker_inv_def)
  show "breaker_inv (Suc k) (execute_end cb err t)"
    using assms w by (cases err) (auto simp: execute_end_def breaker_inv_def Let_def)
  show "cb_name (execute_end cb err t) = cb_name cb \<and> failureThreshold (execute_end cb err t) = failureThreshold cb
      \<and> successThreshold (execute_end cb err t) = successThreshold cb \<and> cb_timeout (execute_end cb err t) = cb_timeout cb"
    by (cases err) (simp_all add: execute_end_def Let_def)
  show "abs_breaker (execute_end cb err t) = settle (failureThreshold cb) (successThreshold cb) (abs_breaker cb) err t"
    using assms w by (cases err) (auto simp: execute_end_def breaker_inv_def abs_breaker_def Let_def)
qed

lemma Execute_refines:
  assumes inv: "breaker_inv k cb" and k: "k < 2 ^ 63 - 1" and ex: "Execute cb t1 err t2 = (r, cb')"
    and par: "cb_name cb = name" "failureThreshold cb = ft" "successThreshold cb = st" "cb_timeout cb = timeout"
  shows "breaker_inv (Suc k) cb' \<and> cb_name cb' = name \<and> failureThreshold cb' = ft \<and> successThreshold cb' = st \<and> cb_timeout cb' = timeout
    \<and> (\<exists>called. spec_execute ft st timeout (abs_breaker cb) t1 err t2 = (called, abs_breaker cb')
         \<and> r = (if called then Returned err else Breaker_Is_Open name))"
proof -
  obtain called cb1 where b: "execute_begin cb t1 = (called, cb1)" by fastforce
  note B = execute_begin_refines [OF inv b]
  show ?thesis
  proof (cases called)
    case True
    with ex b have r: "r = Returned err" "cb' = execute_end cb1 err t2" by (auto simp: Execute_def)
    note E = execute_end_refines [OF B(1) k B(5) [OF True], of err t2]
    have "spec_execute ft st timeout (abs_breaker cb) t1 err t2 = (True, abs_breaker cb')"
      using True B(2-4) E(3) par r(2) by (cases "abs_breaker cb") auto
    with True r E(1,2) B(2) par show ?thesis by auto
  next
    case False
    with ex b have r: "r = Breaker_Is_Open (cb_name cb1)" "cb' = cb1" by (auto simp: Execute_def)
    have "breaker_inv (Suc k) cb1" using B(1) by (auto simp: breaker_inv_def)
    moreover have "spec_execute ft st timeout (abs_breaker cb) t1 err t2 = (False, abs_breaker cb1)"
      using False B(2-4) par by (cases "abs_breaker cb") auto
    ultimately show ?thesis using r B(2) par by auto
  qed
qed

lemma run_breaker_refines:
  assumes "breaker_inv k cb" "k + length cs < 2 ^ 63"
    and "cb_name cb = name" "failureThreshold cb = ft" "successThreshold cb = st" "cb_timeout cb = timeout"
  shows "run_breaker cb cs = run_spec name ft st timeout (abs_breaker cb) cs"
  using assms
proof (induction cs arbitrary: cb k)
  case (Cons c cs)
  obtain t1 err t2 where c: "c = (t1, err, t2)" by (cases c)
  obtain r cb' where ex: "Execute cb t1 err t2 = (r, cb')" by fastforce
  have k: "k < 2 ^ 63 - 1" using Cons.prems(2) by simp
  from Execute_refines [OF Cons.prems(1) k ex Cons.prems(3-6)] obtain called where
    R: "breaker_inv (Suc k) cb'" "cb_name cb' = name" "failureThreshold cb' = ft" "successThreshold cb' = st" "cb_timeout cb' = timeout"
      "spec_execute ft st timeout (abs_breaker cb) t1 err t2 = (called, abs_breaker cb')"
      "r = (if called then Returned err else Breaker_Is_Open name)"
    by blast
  have "run_breaker cb' cs = run_spec name ft st timeout (abs_breaker cb') cs"
    using Cons.IH [OF R(1) _ R(2-5)] Cons.prems(2) by simp
  with R ex phase_name_abs [OF R(1)] show ?case by (simp add: c)
qed simp

text \<open>
  C14: the circuit breaker keeps its contract when calls follow one another: their results and the
  reported states are those of the contract. So it opens after exactly \<open>failureThreshold\<close> failures
  in a row, refuses calls without making them until the timeout since the last failure has passed,
  opens again on one failure of a probing call and closes after \<open>successThreshold\<close> successes.
\<close>

theorem breaker_refines_contract:
  fixes cs :: "(time \<times> 'e option \<times> time) list"
  assumes "1 \<le> ft" "1 \<le> st" "length cs < 2 ^ 63"
  shows "run_breaker (NewCircuitBreaker name ft st timeout zero) cs = run_spec name ft st timeout (Closed_After 0) cs"
proof -
  let ?cb = "NewCircuitBreaker name ft st timeout zero"
  have "breaker_inv 0 ?cb" using assms by (simp add: NewCircuitBreaker_def breaker_inv_def)
  from run_breaker_refines [OF this, of cs name ft st timeout] assms(3) show ?thesis
    by (simp add: NewCircuitBreaker_def abs_breaker_def)
qed

theorem breaker_refines_contract_witness:
  "run_breaker (NewCircuitBreaker ''b'' 2 1 10 0)
      [(1, Some ''x'', 1), (2, Some ''x'', 2), (12, None, 12), (13, Some ''x'', 14), (20, None, 20), (25, None, 26)]
   = [(Returned (Some ''x''), ''closed''), (Returned (Some ''x''), ''open''), (Breaker_Is_Open ''b'', ''open''),
      (Returned (Some ''x''), ''open''), (Breaker_Is_Open ''b'', ''open''), (Returned None, ''closed'')]"
  by (subst breaker_refines_contract) (simp_all add: time_sub_def)

subsection \<open>Interleaved calls\<close>

text \<open>Calls of several goroutines: the breaker and the number of calls between their two critical
  sections. Errors are strings here; the breaker does not look at them.\<close>

inductive breaker_step :: "circuit_breaker \<times> nat \<Rightarrow> circuit_breaker \<times> nat \<Rightarrow> bool" where
  call_starts: "execute_begin cb now = (True, cb') \<Longrightarrow> breaker_step (cb, n) (cb', Suc n)"
| call_refused: "execute_begin cb now = (False, cb') \<Longrightarrow> breaker_step (cb, n) (cb', n)"
| call_succeeds: "breaker_step (cb, Suc n) (execute_end cb (None :: string option) now, n)"
| call_fails: "breaker_step (cb, Suc n) (execute_end cb (Some (err :: string)) now, n)"

definition breaker_reach :: "circuit_breaker \<Rightarrow> circuit_breaker \<Rightarrow> nat \<Rightarrow> bool" where
  "breaker_reach cb0 cb n \<longleftrightarrow> breaker_step\<^sup>*\<^sup>* (cb0, 0) (cb, n)"

definition closed_inv :: "int \<Rightarrow> circuit_breaker \<Rightarrow> bool" where
  "closed_inv ft cb \<longleftrightarrow> failureThreshold cb = ft \<and> cb_state cb \<in> {''closed'', ''open'', ''half-open''}
     \<and> (cb_state cb = ''closed'' \<longrightarrow> 0 \<le> failureCount cb \<and> failureCount cb < ft)"

lemma breaker_step_inv:
  assumes "breaker_step s s'" "1 \<le> ft" "ft < 2 ^ 62" "closed_inv ft (fst s)"
  shows "closed_inv ft (fst s')"
  using assms(1) assms(4)
proof cases
  case (call_fails cb n err now)
  have "wrap64 (failureCount cb + 1) = failureCount cb + 1" if "0 \<le> failureCount cb" "failureCount cb < ft"
    using that assms(3) by (intro wrap64_id) auto
  with call_fails assms(4) show ?thesis by (auto simp: closed_inv_def execute_end_def Let_def)
qed (use assms(2) in \<open>auto simp: closed_inv_def execute_begin_def execute_end_def Let_def split: if_splits\<close>)

lemma breaker_reach_inv:
  assumes "breaker_reach (NewCircuitBreaker name ft st timeout zero) cb n" "1 \<le> ft" "ft < 2 ^ 62"
  shows "closed_inv ft cb"
proof -
  have "breaker_step\<^sup>*\<^sup>* (NewCircuitBreaker name ft st timeout zero, 0) (cb, n)"
    using assms(1) by (simp add: breaker_reach_def)
  then have "closed_inv ft (fst (cb, n))"
  proof (induction rule: rtranclp_induct)
    case base
    show ?case using assms(2) by (simp add: closed_inv_def NewCircuitBreaker_def)
  next
    case (step s s')
    then show ?case using breaker_step_inv assms(2,3) by blast
  qed
  then show ?thesis by simp
qed

text \<open>Failing calls that end one after another.\<close>

definition fails :: "circuit_breaker \<Rightarrow> (string \<times> time) list \<Rightarrow> circuit_breaker" where
  "fails cb fs = foldl (\<lambda>cb (err, t). execute_end cb (Some err) t) cb fs"

lemma fails_count:
  assumes "0 \<le> failureCount cb" "failureCount cb + int (length fs) < 2 ^ 63"
  shows "failureCount (fails cb fs) = failureCount cb + int (length fs)
    \<and> failureThreshold (fails cb fs) = failureThreshold cb \<and> cb_timeout (fails cb fs) = cb_timeout cb
    \<and> lastFailure (fails cb fs) = (if fs = [] then lastFailure cb else snd (last fs))
    \<and> cb_state (fails cb fs) = (if fs \<noteq> [] \<and> failureThreshold cb \<le> failureCount cb + int (length fs) then ''open'' else cb_state cb)"
  using assms
proof (induction fs rule: rev_induct)
  case (snoc f fs)
  then have IH: "failureCount (fails cb fs) = failureCount cb + int (length fs)" "failureThreshold (fails cb fs) = failureThreshold cb"
      "cb_timeout (fails cb fs) = cb_timeout cb"
      "cb_state (fails cb fs) = (if fs \<noteq> [] \<and> failureThreshold cb \<le> failureCount cb + int (length fs) then ''open'' else cb_state cb)"
    by simp_all
  have eq: "fails cb (fs @ [f]) = execute_end (fails cb fs) (Some (fst f)) (snd f)"
    by (simp add: fails_def split_beta)
  have w: "wrap64 (failureCount cb + int (length fs) + 1) = failureCount cb + int (length fs) + 1"
    using snoc.prems by (intro wrap64_id) simp_all
  show ?case unfolding eq using IH w by (auto simp: execute_end_def Let_def)
qed (simp add: fails_def)

text \<open>
  C15: the breaker under concurrency. However calls of several goroutines interleave, a closed
  breaker has seen fewer than \<open>failureThreshold\<close> failures in a row, that many more open it, and a
  call is refused exactly when the breaker is open and its timeout since the last failure has not
  passed; a refused call changes nothing.
\<close>

theorem breaker_interleavings_safe:
  assumes "breaker_reach (NewCircuitBreaker name ft st timeout zero) cb n" "1 \<le> ft" "ft < 2 ^ 62"
  shows "GetState cb \<in> {''closed'', ''open'', ''half-open''}
    \<and> (GetState cb = ''closed'' \<longrightarrow> 0 \<le> failureCount cb \<and> failureCount cb < ft)
    \<and> (GetState cb = ''closed'' \<and> length fs = nat ft \<longrightarrow> GetState (fails cb fs) = ''open'')
    \<and> (fst (execute_begin cb now) \<longleftrightarrow> \<not> (GetState cb = ''open'' \<and> time_sub now (lastFailure cb) \<le> cb_timeout cb))
    \<and> (\<not> fst (execute_begin cb now) \<longrightarrow> snd (execute_begin cb now) = cb)"
proof -
  from breaker_reach_inv [OF assms] have inv: "closed_inv ft cb" .
  have "GetState (fails cb fs) = ''open''" if "GetState cb = ''closed''" "length fs = nat ft"
  proof -
    have "int (length fs) = ft" "fs \<noteq> []" using that assms(2) by auto
    moreover have "0 \<le> failureCount cb" "failureCount cb < ft" "failureThreshold cb = ft"
      using inv that by (auto simp: closed_inv_def GetState_def)
    ultimately show ?thesis using fails_count [of cb fs] assms(3) by (auto simp: GetState_def)
  qed
  with inv show ?thesis by (auto simp: closed_inv_def GetState_def execute_begin_def)
qed

theorem breaker_interleavings_safe_witness:
  "GetState (fails (NewCircuitBreaker ''b'' 2 1 10 0) [(''x'', 1), (''x'', 2)]) = ''open''"
proof -
  have r: "breaker_reach (NewCircuitBreaker ''b'' 2 1 10 0) (NewCircuitBreaker ''b'' 2 1 10 0) 0"
    by (simp add: breaker_reach_def)
  from breaker_interleavings_safe [OF r, of "[(''x'', 1), (''x'', 2)]" 0] show ?thesis
    by (simp add: NewCircuitBreaker_def GetState_def)
qed

lemma breaker_reach_step:
  "breaker_reach cb0 cb n \<Longrightarrow> breaker_step (cb, n) (cb', n') \<Longrightarrow> breaker_reach cb0 cb' n'"
  unfolding breaker_reach_def by (rule rtranclp.rtrancl_into_rtrancl)

lemma breaker_reach_fails:
  assumes "breaker_reach cb0 cb n" "cb_state cb = ''closed''" "failureThreshold cb = ft"
    and "0 \<le> failureCount cb" "failureCount cb + int (length fs) \<le> ft" "ft < 2 ^ 62"
  shows "breaker_reach cb0 (fails cb fs) n"
  using assms(5)
proof (induction fs rule: rev_induct)
  case Nil
  show ?case using assms(1) by (simp add: fails_def)
next
  case (snoc f fs)
  then have r: "breaker_reach cb0 (fails cb fs) n" by simp
  have st: "cb_state (fails cb fs) = ''closed''"
    using fails_count [of cb fs] snoc.prems assms by auto
  have "breaker_step (fails cb fs, n) (fails cb fs, Suc n)"
    by (rule call_starts [where now = 0]) (simp add: execute_begin_def st)
  from breaker_reach_step [OF breaker_reach_step [OF r this] call_fails [of _ _ "fst f" "snd f"]]
  show ?case by (simp add: fails_def split_beta)
qed

text \<open>
  a late success disarms the breaker. When a call that began while the breaker was closed
  succeeds after the breaker has opened, the failure count is reset although the breaker stays open;
  the next probing call then may fail and leave the breaker half-open, so calls go on although the
  contract above opens it again.
\<close>

theorem late_success_disarms_breaker:
  assumes "2 \<le> ft" "ft < 2 ^ 62" "0 \<le> timeout" "timeout < 2 ^ 62"
  shows "\<exists>cb. breaker_reach (NewCircuitBreaker name ft st timeout zero) cb 1
    \<and> GetState cb = ''half-open''
    \<and> GetState (execute_end cb (Some (err :: string)) t) = ''half-open''
    \<and> fst (execute_begin (execute_end cb (Some err) t) t')
    \<and> settle ft st (abs_breaker cb) (Some err) t = Opened t"
proof -
  let ?cb0 = "NewCircuitBreaker name ft st timeout zero"
  define fs :: "(string \<times> time) list" where "fs = replicate (nat ft) ([], 0)"
  have fs: "int (length fs) = ft" "fs \<noteq> []" "snd (last fs) = 0" using assms(1) by (simp_all add: fs_def)
  have start: "breaker_reach ?cb0 ?cb0 (Suc 0)"
    unfolding breaker_reach_def
    by (rule r_into_rtranclp, rule call_starts [where now = 0]) (simp add: NewCircuitBreaker_def execute_begin_def)
  let ?cb1 = "fails ?cb0 fs"
  have r1: "breaker_reach ?cb0 ?cb1 (Suc 0)"
    by (rule breaker_reach_fails [OF start, of ft]) (use fs assms in \<open>simp_all add: NewCircuitBreaker_def\<close>)
  have cb1: "cb_state ?cb1 = ''open''" "lastFailure ?cb1 = 0" "cb_timeout ?cb1 = timeout" "failureThreshold ?cb1 = ft"
    using fails_count [of ?cb0 fs] fs assms by (simp_all add: NewCircuitBreaker_def)
  let ?cb2 = "execute_end ?cb1 (None :: string option) 0"
  have cb2: "?cb2 = ?cb1\<lparr>failureCount := 0\<rparr>" using cb1 by (simp add: execute_end_def)
  from breaker_reach_step [OF r1 call_succeeds [where now = 0]] have r2: "breaker_reach ?cb0 ?cb2 0" .
  let ?cb3 = "?cb2\<lparr>cb_state := ''half-open'', successCount := 0\<rparr>"
  have "time_sub (timeout + 1) 0 = timeout + 1" using assms time_sub_small [of "timeout + 1" 0] by simp
  then have "execute_begin ?cb2 (timeout + 1) = (True, ?cb3)"
    using cb1 unfolding cb2 by (simp add: execute_begin_def)
  from breaker_reach_step [OF r2 call_starts [OF this]] have r3: "breaker_reach ?cb0 ?cb3 1" by simp
  have half: "execute_end ?cb3 (Some err) t = ?cb3\<lparr>failureCount := 1, lastFailure := t\<rparr>"
    using cb1 assms(1) unfolding cb2 by (simp add: execute_end_def wrap64_def)
  have "GetState ?cb3 = ''half-open''" "abs_breaker ?cb3 = Probing 0" by (simp_all add: GetState_def abs_breaker_def)
  moreover have "GetState (execute_end ?cb3 (Some err) t) = ''half-open''" "fst (execute_begin (execute_end ?cb3 (Some err) t) t')"
    unfolding half by (simp_all add: GetState_def execute_begin_def)
  ultimately show ?thesis using r3 by (intro exI [of _ ?cb3]) simp
qed

theorem late_success_disarms_breaker_witness:
  "\<exists>cb. breaker_reach (NewCircuitBreaker ''b'' 5 2 30 0) cb 1
    \<and> GetState cb = ''half-open'' \<and> GetState (execute_end cb (Some ''x'') 40) = ''half-open''"
  using late_success_disarms_breaker [of 5 30 "''b''" 2 0 "''x''" 40 41] by auto

subsection \<open>Retries\<close>

lemma wrap64_mod: "wrap64 a mod 2 ^ 64 = a mod 2 ^ 64"
  using mod_diff_left_eq [of "a + 2 ^ 63" "2 ^ 64" "2 ^ 63"] by (simp add: wrap64_def)

lemma wrap64_double: "wrap64 (wrap64 a * b) = wrap64 (a * b)"
proof -
  have "(wrap64 a * b) mod 2 ^ 64 = (a * b) mod 2 ^ 64"
    by (metis wrap64_mod mod_mult_left_eq)
  then have "(wrap64 a * b + 2 ^ 63) mod 2 ^ 64 = (a * b + 2 ^ 63) mod 2 ^ 64"
    by (metis mod_add_left_eq)
  then show ?thesis by (simp add: wrap64_def)
qed

text \<open>The round in which the loop stops: the first call that succeeds or whose wait is cut short.\<close>

definition gives_up :: "(nat \<Rightarrow> 'e option) \<Rightarrow> (nat \<Rightarrow> 'c option) \<Rightarrow> nat \<Rightarrow> nat \<Rightarrow> bool" where
  "gives_up fn cancel i k \<longleftrightarrow> i \<le> k \<and> (fn k = None \<or> cancel k \<noteq> None) \<and> (\<forall>j. i \<le> j \<and> j < k \<longrightarrow> fn j \<noteq> None \<and> cancel j = None)"

lemma retry_loop_stops:
  "gives_up fn cancel i k \<Longrightarrow> k < i + n \<Longrightarrow>
   \<exists>waits. retry_loop n i b e fn cancel
     = (if fn k = None then None else map_option Context_Err (cancel k), Suc (k - i), waits)"
proof (induction n arbitrary: i b e)
  case (Suc n)
  show ?case
  proof (cases "k = i")
    case True
    then show ?thesis using Suc.prems by (auto simp: gives_up_def split: option.splits)
  next
    case False
    with Suc.prems have i: "fn i \<noteq> None" "cancel i = None" "gives_up fn cancel (Suc i) k" "k < Suc i + n" "i < k"
      by (auto simp: gives_up_def)
    from i(1) obtain err where err: "fn i = Some err" by blast
    from Suc.IH [OF i(3,4), of "wrap64 (b * 2)" "Some err"] i(2,5) err show ?thesis
      by (auto simp: Suc_diff_Suc)
  qed
qed (auto simp: gives_up_def)

lemma retry_loop_exhausts:
  assumes "\<forall>j. i \<le> j \<and> j < i + n \<longrightarrow> fn j \<noteq> None \<and> cancel j = None"
  shows "\<exists>waits. retry_loop n i b e fn cancel = (Some (Max_Retries_Exceeded (if n = 0 then e else fn (i + n - 1))), n, waits)
    \<and> length waits = n"
  using assms
proof (induction n arbitrary: i b e)
  case (Suc n)
  then have "fn i \<noteq> None" "cancel i = None" by auto
  then obtain err where err: "fn i = Some err" "cancel i = None" by blast
  from Suc.prems have "\<forall>j. Suc i \<le> j \<and> j < Suc i + n \<longrightarrow> fn j \<noteq> None \<and> cancel j = None" by auto
  from Suc.IH [OF this, of "wrap64 (b * 2)" "Some err"] err show ?case by auto
qed simp

lemma retry_loop_waits:
  "retry_loop n i b e fn cancel = (r, calls, waits) \<Longrightarrow>
   waits = map (\<lambda>j. if j = 0 then b else wrap64 (b * 2 ^ j)) [0..<length waits] \<and> length waits \<le> calls \<and> calls \<le> Suc (length waits) \<and> calls \<le> n"
proof (induction n arbitrary: i b e r calls waits)
  case (Suc n)
  show ?case
  proof (cases "fn i = None \<or> cancel i \<noteq> None")
    case True
    then show ?thesis using Suc.prems by (auto split: option.splits)
  next
    case False
    then obtain err where err: "fn i = Some err" "cancel i = None" by auto
    obtain r' c' w' where l: "retry_loop n (Suc i) (wrap64 (b * 2)) (Some err) fn cancel = (r', c', w')" by (metis prod_cases3)
    from Suc.prems err l have eq: "waits = b # w'" "calls = Suc c'" by auto
    from Suc.IH [OF l] have IH: "w' = map (\<lambda>j. if j = 0 then wrap64 (b * 2) else wrap64 (wrap64 (b * 2) * 2 ^ j)) [0..<length w']"
        "length w' \<le> c'" "c' \<le> Suc (length w')" "c' \<le> n" by blast+
    have "(if j = 0 then wrap64 (b * 2) else wrap64 (wrap64 (b * 2) * 2 ^ j)) = wrap64 (b * 2 ^ Suc j)" for j
      by (simp add: wrap64_double mult.assoc)
    with IH(1) have "w' = map (\<lambda>j. wrap64 (b * 2 ^ Suc j)) [0..<length w']" by simp
    then have "waits = map (\<lambda>j. if j = 0 then b else wrap64 (b * 2 ^ j)) [0..<length waits]"
      unfolding eq by (simp add: upt_conv_Cons map_Suc_upt [symmetric] comp_def del: upt_Suc)
    with IH eq show ?thesis by simp
  qed
qed auto

text \<open>
  C16: retries. The function is called at most \<open>maxRetries\<close> times, the \<open>j\<close>th wait is \<open>2\<^sup>j\<close> times the
  initial backoff (modulo the wrap-around of a 64 bit duration), the loop ends at the first success
  or when the context ends during a wait, and otherwise reports the last error after as many waits
  as calls: the last failure is waited for too, and with no try at all there is no last error.
\<close>

theorem retry_behaviour:
  assumes "- (2 ^ 63) \<le> b" "b < 2 ^ 63" and run: "RetryWithBackoff maxRetries b fn cancel = (r, calls, waits)"
  shows "calls \<le> nat maxRetries \<and> waits = map (\<lambda>j. wrap64 (b * 2 ^ j)) [0..<length waits]
    \<and> (\<forall>k < nat maxRetries. gives_up fn cancel 0 k \<longrightarrow>
         calls = Suc k \<and> r = (if fn k = None then None else map_option Context_Err (cancel k)))
    \<and> ((\<forall>k < nat maxRetries. fn k \<noteq> None \<and> cancel k = None) \<longrightarrow>
         calls = nat maxRetries \<and> length waits = calls
         \<and> r = Some (Max_Retries_Exceeded (if maxRetries \<le> 0 then None else fn (nat maxRetries - 1))))"
proof -
  have l: "retry_loop (nat maxRetries) 0 b None fn cancel = (r, calls, waits)"
    using run by (simp add: RetryWithBackoff_def)
  have "(if j = 0 then b else wrap64 (b * 2 ^ j)) = wrap64 (b * 2 ^ j)" for j
    using assms(1,2) by (simp add: wrap64_id)
  with retry_loop_waits [OF l] have w: "calls \<le> nat maxRetries" "waits = map (\<lambda>j. wrap64 (b * 2 ^ j)) [0..<length waits]"
    by auto
  have s: "calls = Suc k \<and> r = (if fn k = None then None else map_option Context_Err (cancel k))"
    if "k < nat maxRetries" "gives_up fn cancel 0 k" for k
    using retry_loop_stops [OF that(2), of "nat maxRetries" b None] that(1) l by auto
  have e: "calls = nat maxRetries \<and> length waits = calls
      \<and> r = Some (Max_Retries_Exceeded (if maxRetries \<le> 0 then None else fn (nat maxRetries - 1)))"
    if "\<forall>k < nat maxRetries. fn k \<noteq> None \<and> cancel k = None"
    using retry_loop_exhausts [of 0 "nat maxRetries" fn cancel b None] that l by auto
  from w s e show ?thesis by blast
qed

theorem retry_behaviour_witness:
  "(case RetryWithBackoff 5 10 (\<lambda>i. if i = 2 then None else Some ''e'') (\<lambda>_. None :: string option) of (r, calls, _) \<Rightarrow> calls = 3 \<and> r = None)"
proof -
  let ?fn = "\<lambda>i :: nat. if i = 2 then None else Some ''e''" and ?c = "\<lambda>_ :: nat. None :: string option"
  obtain r calls waits where run: "RetryWithBackoff 5 10 ?fn ?c = (r, calls, waits)" by (metis prod_cases3)
  have "gives_up ?fn ?c 0 2" by (auto simp: gives_up_def)
  moreover have "2 < nat 5" by simp
  ultimately have "calls = Suc 2 \<and> r = (if ?fn 2 = None then None else map_option Context_Err (?c 2))"
    using retry_behaviour [OF _ _ run, THEN conjunct2, THEN conjunct2, THEN conjunct1, rule_format, of 2] by simp
  with run show ?thesis by simp
qed

end
