(* ===== verification/Crypto.thy ===== *)
theory Crypto
  imports Prelude
begin

section \<open>Digests and text encodings\<close>

text \<open>
  The parts of Go's standard library that authentication rests on: \<open>crypto/sha1\<close>, \<open>crypto/sha256\<close> and
  \<open>crypto/hmac\<close> (FIPS 180-4, RFC 2104), and \<open>encoding/hex\<close>, \<open>encoding/base32\<close> and \<open>encoding/base64\<close>.
  What the clients need of them is proved: the digests' lengths and that decoding undoes encoding.
\<close>

unbundle bit_operations_syntax

subsection \<open>Bytes and characters\<close>

definition bytes_of :: "string \<Rightarrow> byte list" where
  "bytes_of s = map of_char s"

definition string_of :: "byte list \<Rightarrow> string" where
  "string_of bs = map (\<lambda>b. char_of (unat b)) bs"

lemma length_bytes_of [simp]: "length (bytes_of s) = length s"
  by (simp add: bytes_of_def)

subsection \<open>SHA-1 and SHA-256\<close>

type_synonym word32 = "32 word"

definition rotl :: "nat \<Rightarrow> word32 \<Rightarrow> word32" where
  "rotl n w = push_bit n w OR drop_bit (32 - n) w"

definition rotr :: "nat \<Rightarrow> word32 \<Rightarrow> word32" where
  "rotr n w = drop_bit n w OR push_bit (32 - n) w"

definition sha_pad :: "byte list \<Rightarrow> byte list" where
  "sha_pad m = m @ [0x80] @ replicate ((119 - length m mod 64) mod 64) 0 @ PutUint64 (of_nat (8 * length m))"

function chunks :: "nat \<Rightarrow> 'a list \<Rightarrow> 'a list list" where
  "chunks n xs = (if n = 0 \<or> xs = [] then [] else take n xs # chunks n (drop n xs))"
  by pat_completeness auto

termination chunks
  by (relation "measure (\<lambda>(_, xs). length xs)") (auto simp: diff_less)

declare chunks.simps [simp del]

definition be_words :: "byte list \<Rightarrow> word32 list" where
  "be_words bs = map (\<lambda>c. of_nat (be_nat c)) (chunks 4 bs)"

definition sha1_schedule :: "word32 list \<Rightarrow> word32 list" where
  "sha1_schedule ws = foldl (\<lambda>w t. w @ [rotl 1 (w ! (t - 3) XOR w ! (t - 8) XOR w ! (t - 14) XOR w ! (t - 16))]) ws [16..<80]"

definition sha1_f :: "nat \<Rightarrow> word32 \<Rightarrow> word32 \<Rightarrow> word32 \<Rightarrow> word32" where
  "sha1_f t b c d =
     (if t < 20 then (b AND c) OR (NOT b AND d)
      else if t < 40 then b XOR c XOR d
      else if t < 60 then (b AND c) OR (b AND d) OR (c AND d)
      else b XOR c XOR d)"

definition sha1_k :: "nat \<Rightarrow> word32" where
  "sha1_k t = (if t < 20 then 0x5A827999 else if t < 40 then 0x6ED9EBA1 else if t < 60 then 0x8F1BBCDC else 0xCA62C1D6)"

type_synonym sha1_state = "word32 \<times> word32 \<times> word32 \<times> word32 \<times> word32"

fun sha1_round :: "word32 list \<Rightarrow> sha1_state \<Rightarrow> nat \<Rightarrow> sha1_state" where
  "sha1_round w (a, b, c, d, e) t = (rotl 5 a + sha1_f t b c d + e + sha1_k t + w ! t, a, rotl 30 b, c, d)"

fun sha1_block :: "sha1_state \<Rightarrow> byte list \<Rightarrow> sha1_state" where
  "sha1_block (h0, h1, h2, h3, h4) blk =
     (let w = sha1_schedule (be_words blk);
          (a, b, c, d, e) = foldl (sha1_round w) (h0, h1, h2, h3, h4) [0..<80]
      in (h0 + a, h1 + b, h2 + c, h3 + d, h4 + e))"

definition sha1 :: "byte list \<Rightarrow> byte list" where
  "sha1 m =
     (let (a, b, c, d, e) = foldl sha1_block (0x67452301, 0xEFCDAB89, 0x98BADCFE, 0x10325476, 0xC3D2E1F0) (chunks 64 (sha_pad m))
      in concat (map PutUint32 [a, b, c, d, e]))"

text \<open>
  The constants of SHA-256: the first 32 bits of the fractional parts of the cube roots of the first
  64 primes, found bit by bit.
\<close>

definition cube_root :: "int \<Rightarrow> int" where
  "cube_root n = foldl (\<lambda>r i. if (r + 2 ^ i) ^ 3 \<le> n then r + 2 ^ i else r) 0 (rev [0..<36])"

definition small_primes :: "int list" where
  "small_primes = filter (\<lambda>p. \<forall>d \<in> set [2..p - 1]. \<not> d dvd p) [2..311]"

definition sha256_k :: "word32 list" where
  "sha256_k = map (\<lambda>p. word_of_int (cube_root (p * 2 ^ 96))) small_primes"

definition sha256_schedule :: "word32 list \<Rightarrow> word32 list" where
  "sha256_schedule ws =
     foldl (\<lambda>w t.
       let s0 = rotr 7 (w ! (t - 15)) XOR rotr 18 (w ! (t - 15)) XOR drop_bit 3 (w ! (t - 15));
           s1 = rotr 17 (w ! (t - 2)) XOR rotr 19 (w ! (t - 2)) XOR drop_bit 10 (w ! (t - 2))
       in w @ [w ! (t - 16) + s0 + w ! (t - 7) + s1]) ws [16..<64]"

type_synonym sha256_state = "word32 \<times> word32 \<times> word32 \<times> word32 \<times> word32 \<times> word32 \<times> word32 \<times> word32"

fun sha256_round :: "word32 list \<Rightarrow> sha256_state \<Rightarrow> nat \<Rightarrow> sha256_state" where
  "sha256_round w (a, b, c, d, e, f, g, h) t =
     (let s1 = rotr 6 e XOR rotr 11 e XOR rotr 25 e;
          ch = (e AND f) XOR (NOT e AND g);
          t1 = h + s1 + ch + sha256_k ! t + w ! t;
          s0 = rotr 2 a XOR rotr 13 a XOR rotr 22 a;
          maj = (a AND b) XOR (a AND c) XOR (b AND c)
      in (t1 + s0 + maj, a, b, c, d + t1, e, f, g))"

fun sha256_block :: "sha256_state \<Rightarrow> byte list \<Rightarrow> sha256_state" where
  "sha256_block (h0, h1, h2, h3, h4, h5, h6, h7) blk =
     (let w = sha256_schedule (be_words blk);
          (a, b, c, d, e, f, g, h) = foldl (sha256_round w) (h0, h1, h2, h3, h4, h5, h6, h7) [0..<64]
      in (h0 + a, h1 + b, h2 + c, h3 + d, h4 + e, h5 + f, h6 + g, h7 + h))"

definition sha256 :: "byte list \<Rightarrow> byte list" where
  "sha256 m =
     (let (a, b, c, d, e, f, g, h) = foldl sha256_block
            (0x6a09e667, 0xbb67ae85, 0x3c6ef372, 0xa54ff53a, 0x510e527f, 0x9b05688c, 0x1f83d9ab, 0x5be0cd19) (chunks 64 (sha_pad m))
      in concat (map PutUint32 [a, b, c, d, e, f, g, h]))"

lemma length_sha1 [simp]: "length (sha1 m) = 20"
  by (simp add: sha1_def Let_def split_beta)

lemma length_sha256 [simp]: "length (sha256 m) = 32"
  by (simp add: sha256_def Let_def split_beta)

subsection \<open>HMAC\<close>

text \<open>Both digests have blocks of 64 bytes.\<close>

definition hmac :: "(byte list \<Rightarrow> byte list) \<Rightarrow> byte list \<Rightarrow> byte list \<Rightarrow> byte list" where
  "hmac H key msg =
     (let key' = (if length key > 64 then H key else key);
          k = key' @ replicate (64 - length key') 0
      in H (map (\<lambda>b. b XOR 0x5c) k @ H (map (\<lambda>b. b XOR 0x36) k @ msg)))"

lemma length_hmac_sha1 [simp]: "length (hmac sha1 key msg) = 20"
  by (simp add: hmac_def Let_def)

subsection \<open>Bits\<close>

text \<open>Most significant bit first, as the encodings group them.\<close>

fun bits :: "nat \<Rightarrow> nat \<Rightarrow> bool list" where
  "bits 0 n = []"
| "bits (Suc k) n = bits k (n div 2) @ [odd n]"

definition bits_val :: "bool list \<Rightarrow> nat" where
  "bits_val bs = foldl (\<lambda>a b. 2 * a + of_bool b) 0 bs"

lemma length_bits [simp]: "length (bits k n) = k"
  by (induction k arbitrary: n) auto

lemma bits_val_Nil [simp]: "bits_val [] = 0"
  by (simp add: bits_val_def)

lemma bits_val_snoc: "bits_val (bs @ [b]) = 2 * bits_val bs + of_bool b"
  by (simp add: bits_val_def)

lemma bits_val_bits: "bits_val (bits k n) = n mod 2 ^ k"
proof (induction k arbitrary: n)
  case (Suc k)
  have "bits_val (bits (Suc k) n) = 2 * (n div 2 mod 2 ^ k) + n mod 2"
    by (simp add: bits_val_snoc Suc of_bool_odd_eq_mod_2 [symmetric] del: of_bool_odd_eq_mod_2)
  also have "\<dots> = n mod 2 ^ Suc k"
    by (simp add: mod_mult2_eq)
  finally show ?case .
qed simp

lemma bits_bits_val: "bits (length bs) (bits_val bs) = bs"
  by (induction bs rule: rev_induct) (auto simp: bits_val_snoc)

lemma bits_val_less: "bits_val bs < 2 ^ length bs"
proof (induction bs rule: rev_induct)
  case (snoc b bs)
  then show ?case by (cases b) (simp_all add: bits_val_snoc)
qed simp

subsection \<open>Chunks\<close>

lemma chunks_Nil [simp]: "chunks n [] = []"
  by (subst chunks.simps) simp

lemma concat_chunks: "0 < n \<Longrightarrow> concat (chunks n xs) = xs"
  by (induction n xs rule: chunks.induct) (subst chunks.simps, auto)

lemma chunks_append: "0 < n \<Longrightarrow> length xs = n \<Longrightarrow> chunks n (xs @ ys) = xs # chunks n ys"
  by (subst chunks.simps) auto

lemma chunks_concat:
  "0 < n \<Longrightarrow> (\<And>xs. xs \<in> set xss \<Longrightarrow> length xs = n) \<Longrightarrow> chunks n (concat xss @ ys) = xss @ chunks n ys"
  by (induction xss) (auto simp: chunks_append)

lemma chunks_short: "length ys < n \<Longrightarrow> chunks n ys = (if ys = [] then [] else [ys])"
  by (subst chunks.simps) (auto simp: chunks.simps [of n "[]"])

lemma chunks_full: "0 < n \<Longrightarrow> n dvd length xs \<Longrightarrow> c \<in> set (chunks n xs) \<Longrightarrow> length c = n"
proof (induction n xs rule: chunks.induct)
  case (1 n xs)
  show ?case
  proof (cases "xs = []")
    case True
    with 1 show ?thesis by (simp add: chunks.simps [of n xs])
  next
    case False
    with 1(3) have "n \<le> length xs" by (simp add: dvd_imp_le)
    moreover from this 1(3) have "n dvd length (drop n xs)" by (simp add: dvd_diff_nat)
    moreover have "c = take n xs \<or> c \<in> set (chunks n (drop n xs))"
      using 1(4) False 1(2) by (simp add: chunks.simps [of n xs])
    ultimately show ?thesis using 1(1) 1(2) False by auto
  qed
qed

subsection \<open>Hexadecimal, base32 and base64\<close>

definition hex_digits :: string where "hex_digits = ''0123456789abcdef''"

definition hex_EncodeToString :: "byte list \<Rightarrow> string" where
  "hex_EncodeToString bs = concat (map (\<lambda>b. [hex_digits ! (unat b div 16), hex_digits ! (unat b mod 16)]) bs)"

definition byte_bits :: "byte list \<Rightarrow> bool list" where
  "byte_bits bs = concat (map (\<lambda>b. bits 8 (unat b)) bs)"

definition encode_bits :: "string \<Rightarrow> nat \<Rightarrow> byte list \<Rightarrow> string" where
  "encode_bits alphabet k bs =
     (let b = byte_bits bs
      in map (\<lambda>c. alphabet ! bits_val c) (chunks k (b @ replicate ((k - length b mod k) mod k) False)))"

definition alphabet_index :: "string \<Rightarrow> char \<Rightarrow> nat option" where
  "alphabet_index alphabet c = map_of (zip alphabet [0..<length alphabet]) c"

text \<open>Bits after the last whole byte are dropped: the decoders of Go are not strict.\<close>

definition decode_bits :: "string \<Rightarrow> nat \<Rightarrow> string \<Rightarrow> byte list option" where
  "decode_bits alphabet k s =
     (if \<forall>c \<in> set s. alphabet_index alphabet c \<noteq> None
      then Some (map (\<lambda>c. of_nat (bits_val c))
        (filter (\<lambda>c. length c = 8) (chunks 8 (concat (map (\<lambda>c. bits k (the (alphabet_index alphabet c))) s)))))
      else None)"

definition strip_newlines :: "string \<Rightarrow> string" where
  "strip_newlines s = filter (\<lambda>c. c \<noteq> CHR 0x0A \<and> c \<noteq> CHR 0x0D) s"

definition base32_alphabet :: string where
  "base32_alphabet = ''ABCDEFGHIJKLMNOPQRSTUVWXYZ234567''"

definition base32_EncodeToString :: "byte list \<Rightarrow> string" where
  "base32_EncodeToString bs = encode_bits base32_alphabet 5 bs"

text \<open>Without padding, a last group of 1, 3 or 6 characters yields no bytes and no error.\<close>

definition base32_DecodeString :: "string \<Rightarrow> byte list option" where
  "base32_DecodeString s0 =
     (let s = strip_newlines s0; r = length s mod 8
      in if r \<in> {1, 3, 6}
         then (if decode_bits base32_alphabet 5 s = None then None else decode_bits base32_alphabet 5 (take (length s - r) s))
         else decode_bits base32_alphabet 5 s)"

definition base64url_alphabet :: string where
  "base64url_alphabet = ''ABCDEFGHIJKLMNOPQRSTUVWXYZabcdefghijklmnopqrstuvwxyz0123456789-_''"

definition RawURL_EncodeToString :: "byte list \<Rightarrow> string" where
  "RawURL_EncodeToString bs = encode_bits base64url_alphabet 6 bs"

definition URL_EncodeToString :: "byte list \<Rightarrow> string" where
  "URL_EncodeToString bs =
     (let s = encode_bits base64url_alphabet 6 bs in s @ replicate ((4 - length s mod 4) mod 4) CHR ''='')"

definition RawURL_DecodeString :: "string \<Rightarrow> byte list option" where
  "RawURL_DecodeString s0 =
     (let s = strip_newlines s0 in if length s mod 4 = 1 then None else decode_bits base64url_alphabet 6 s)"

lemma length_byte_bits [simp]: "length (byte_bits bs) = 8 * length bs"
  by (induction bs) (auto simp: byte_bits_def)

lemma alphabet_index_nth: "distinct a \<Longrightarrow> i < length a \<Longrightarrow> alphabet_index a (a ! i) = Some i"
  by (simp add: alphabet_index_def map_of_zip_nth)

lemma padded_dvd: "0 < k \<Longrightarrow> k dvd n + (k - n mod k) mod (k :: nat)"
proof (cases "n mod k = 0")
  case False
  assume "0 < k"
  with False have "n mod k < k" "(k - n mod k) mod k = k - n mod k" by auto
  then have "n + (k - n mod k) mod k = n div k * k + k"
    by (metis add.assoc div_mult_mod_eq le_add_diff_inverse less_imp_le)
  then show ?thesis by simp
qed (simp add: mod_eq_0_iff_dvd)

lemma unat_mod_256 [simp]: "unat (b :: byte) mod 256 = unat b"
  using unsigned_less [of b, where ?'a = nat] by simp

lemma filter_byte_chunks:
  assumes "length ys < 8"
  shows "map (\<lambda>c. of_nat (bits_val c)) (filter (\<lambda>c. length c = 8) (chunks 8 (byte_bits bs @ ys))) = bs"
proof -
  have "chunks 8 (byte_bits bs @ ys) = map (\<lambda>b. bits 8 (unat b)) bs @ chunks 8 ys"
    unfolding byte_bits_def by (rule chunks_concat) auto
  with assms show ?thesis
    by (simp add: chunks_short o_def bits_val_bits)
qed

lemma decode_encode_bits:
  assumes "0 < k" "k \<le> 8" "distinct a" "length a = 2 ^ k"
  shows "decode_bits a k (encode_bits a k bs) = Some bs"
proof -
  let ?b = "byte_bits bs"
  let ?p = "?b @ replicate ((k - length ?b mod k) mod k) False"
  let ?cs = "chunks k ?p"
  have len: "length c = k" if "c \<in> set ?cs" for c
    using chunks_full [OF assms(1) _ that] padded_dvd [OF assms(1), of "length ?b"] by simp
  have idx: "alphabet_index a (a ! bits_val c) = Some (bits_val c)" if "c \<in> set ?cs" for c
    using len [OF that] bits_val_less [of c] assms by (intro alphabet_index_nth) auto
  have one: "bits k (the (alphabet_index a (a ! bits_val c))) = c" if "c \<in> set ?cs" for c
    using idx [OF that] len [OF that] bits_bits_val [of c] by simp
  have idm: "map ((\<lambda>c. bits k (the (alphabet_index a c))) \<circ> (\<lambda>c. a ! bits_val c)) ?cs = ?cs"
    by (rule map_idI) (simp add: one)
  have bits_back: "concat (map (\<lambda>c. bits k (the (alphabet_index a c))) (encode_bits a k bs)) = ?p"
    using idm by (simp add: encode_bits_def Let_def concat_chunks [OF assms(1)])
  have "(k - length ?b mod k) mod k < 8" using assms by (meson less_le_trans mod_less_divisor)
  with bits_back filter_byte_chunks [of "replicate ((k - length ?b mod k) mod k) False" bs]
  have "decode_bits a k (encode_bits a k bs) = Some bs"
    if "\<forall>c \<in> set (encode_bits a k bs). alphabet_index a c \<noteq> None"
    using that by (simp add: decode_bits_def)
  moreover have "\<forall>c \<in> set (encode_bits a k bs). alphabet_index a c \<noteq> None"
    using idx by (auto simp: encode_bits_def Let_def)
  ultimately show ?thesis by blast
qed

lemma set_encode_bits:
  assumes "0 < k" "length a = 2 ^ k"
  shows "set (encode_bits a k bs) \<subseteq> set a"
proof -
  let ?b = "byte_bits bs"
  let ?cs = "chunks k (?b @ replicate ((k - length ?b mod k) mod k) False)"
  have "length c = k" if "c \<in> set ?cs" for c
    using chunks_full [OF assms(1) _ that] padded_dvd [OF assms(1), of "length ?b"] by simp
  then have "a ! bits_val c \<in> set a" if "c \<in> set ?cs" for c
    using that bits_val_less [of c] assms by (intro nth_mem) auto
  then show ?thesis by (auto simp: encode_bits_def Let_def)
qed

lemma length_chunks_dvd: "0 < n \<Longrightarrow> n dvd length xs \<Longrightarrow> length (chunks n xs) = length xs div n"
proof (induction n xs rule: chunks.induct)
  case (1 n xs)
  show ?case
  proof (cases "xs = []")
    case False
    with 1(3) have "n \<le> length xs" "n dvd length (drop n xs)" by (auto simp: dvd_imp_le dvd_diff_nat)
    then show ?thesis using 1(1,2) False by (subst chunks.simps) (auto simp: le_div_geq)
  qed simp
qed

lemma length_encode_bits: "0 < k \<Longrightarrow> length (encode_bits a k bs) = (8 * length bs + (k - 8 * length bs mod k) mod k) div k"
  by (simp add: encode_bits_def Let_def length_chunks_dvd padded_dvd)

end
