(* ===== verification/Auth_Store.thy ===== *)
theory Auth_Store
  imports Crypto "HOL-Library.Finite_Map"
begin

section \<open>Accounts and sessions in memory\<close>

text \<open>
  Model of \<open>GoTunnel/internal/auth/store_memory.go\<close> with the data of \<open>auth.go\<close>: users with their two
  indices by email and by name, and sessions by token. The store is the only implementation of the
  interface \<open>Store\<close>; what its clients rely on is the locale \<open>user_directory\<close>.
\<close>

subsection \<open>Data\<close>

type_synonym role = string
type_synonym permission = string

abbreviation RoleAdmin :: role where "RoleAdmin \<equiv> ''admin''"
abbreviation RoleDeveloper :: role where "RoleDeveloper \<equiv> ''developer''"
abbreviation RoleViewer :: role where "RoleViewer \<equiv> ''viewer''"
abbreviation RoleDebugger :: role where "RoleDebugger \<equiv> ''debugger''"
abbreviation RoleOperator :: role where "RoleOperator \<equiv> ''operator''"

record mfa =
  mfa_Enabled :: bool
  Method :: string
  Secret :: string
  LastUsed :: time
  BackupCodes :: "string list"

definition no_mfa :: mfa where
  "no_mfa = \<lparr>mfa_Enabled = False, Method = [], Secret = [], LastUsed = zero_time, BackupCodes = []\<rparr>"

record user =
  u_ID :: string
  Username :: string
  Email :: string
  DisplayName :: string
  PasswordHash :: string
  Roles :: "role list"
  Permissions :: "permission list"
  u_MFA :: mfa
  u_SSOProvider :: string
  SSOExternalID :: string
  WorkspaceID :: string
  LastLogin :: time
  u_CreatedAt :: time
  u_UpdatedAt :: time
  u_Active :: bool
  u_Metadata :: "(string, string) fmap"

record session =
  s_ID :: string
  s_UserID :: string
  Token :: string
  ExpiresAt :: time
  s_CreatedAt :: time
  IPAddress :: string
  UserAgent :: string
  MFAVerified :: bool

subsection \<open>The store\<close>

record auth_store =
  usersByID :: "(string, user) fmap"
  userIDsByEmail :: "(string, string) fmap"
  userIDsByName :: "(string, string) fmap"
  sessionsByToken :: "(string, session) fmap"

definition auth_NewMemoryStore :: auth_store where
  "auth_NewMemoryStore = \<lparr>usersByID = fmempty, userIDsByEmail = fmempty, userIDsByName = fmempty, sessionsByToken = fmempty\<rparr>"

datatype store_error = Email_Already_Exists | Username_Already_Exists | User_Not_Found | Session_Not_Found

definition SaveUser :: "auth_store \<Rightarrow> user \<Rightarrow> store_error + auth_store" where
  "SaveUser s u =
     (if (case fmlookup (userIDsByEmail s) (Email u) of Some i \<Rightarrow> i \<noteq> u_ID u | None \<Rightarrow> False) then Inl Email_Already_Exists
      else if (case fmlookup (userIDsByName s) (Username u) of Some i \<Rightarrow> i \<noteq> u_ID u | None \<Rightarrow> False) then Inl Username_Already_Exists
      else let s1 = (case fmlookup (usersByID s) (u_ID u) of
                       None \<Rightarrow> s
                     | Some existing \<Rightarrow> s\<lparr>userIDsByEmail := fmdrop (Email existing) (userIDsByEmail s),
                                          userIDsByName := fmdrop (Username existing) (userIDsByName s)\<rparr>)
           in Inr (s1\<lparr>usersByID := fmupd (u_ID u) u (usersByID s1),
                      userIDsByEmail := fmupd (Email u) (u_ID u) (userIDsByEmail s1),
                      userIDsByName := fmupd (Username u) (u_ID u) (userIDsByName s1)\<rparr>))"

definition GetUser :: "auth_store \<Rightarrow> string \<Rightarrow> user option" where
  "GetUser s i = fmlookup (usersByID s) i"

definition GetUserByEmail :: "auth_store \<Rightarrow> string \<Rightarrow> user option" where
  "GetUserByEmail s email = (case fmlookup (userIDsByEmail s) email of None \<Rightarrow> None | Some i \<Rightarrow> GetUser s i)"

definition GetUserByUsername :: "auth_store \<Rightarrow> string \<Rightarrow> user option" where
  "GetUserByUsername s username = (case fmlookup (userIDsByName s) username of None \<Rightarrow> None | Some i \<Rightarrow> GetUser s i)"

text \<open>\<open>ks\<close> is the order in which the map of users is iterated.\<close>

fun ListUsers :: "auth_store \<Rightarrow> string \<Rightarrow> string list \<Rightarrow> user list" where
  "ListUsers s workspace [] = []"
| "ListUsers s workspace (k # ks) =
     (case fmlookup (usersByID s) k of
        None \<Rightarrow> ListUsers s workspace ks
      | Some u \<Rightarrow> if workspace = [] \<or> WorkspaceID u = workspace then u # ListUsers s workspace ks else ListUsers s workspace ks)"

text \<open>Deleting while iterating visits every entry, in whatever order.\<close>

definition drop_sessions :: "(session \<Rightarrow> bool) \<Rightarrow> auth_store \<Rightarrow> auth_store" where
  "drop_sessions P s = s\<lparr>sessionsByToken := fmfilter (\<lambda>t. case fmlookup (sessionsByToken s) t of Some se \<Rightarrow> \<not> P se | None \<Rightarrow> True) (sessionsByToken s)\<rparr>"

definition DeleteUser :: "auth_store \<Rightarrow> string \<Rightarrow> store_error + auth_store" where
  "DeleteUser s i =
     (case fmlookup (usersByID s) i of
        None \<Rightarrow> Inl User_Not_Found
      | Some u \<Rightarrow> Inr (drop_sessions (\<lambda>se. s_UserID se = i)
          (s\<lparr>usersByID := fmdrop i (usersByID s), userIDsByEmail := fmdrop (Email u) (userIDsByEmail s),
             userIDsByName := fmdrop (Username u) (userIDsByName s)\<rparr>)))"

definition SaveSession :: "auth_store \<Rightarrow> session \<Rightarrow> auth_store" where
  "SaveSession s se = s\<lparr>sessionsByToken := fmupd (Token se) se (sessionsByToken s)\<rparr>"

definition GetSession :: "auth_store \<Rightarrow> string \<Rightarrow> session option" where
  "GetSession s t = fmlookup (sessionsByToken s) t"

definition DeleteSession :: "auth_store \<Rightarrow> string \<Rightarrow> auth_store" where
  "DeleteSession s t = s\<lparr>sessionsByToken := fmdrop t (sessionsByToken s)\<rparr>"

definition DeleteUserSessions :: "auth_store \<Rightarrow> string \<Rightarrow> auth_store" where
  "DeleteUserSessions s i = drop_sessions (\<lambda>se. s_UserID se = i) s"

definition CleanupExpiredSessions :: "auth_store \<Rightarrow> time \<Rightarrow> auth_store" where
  "CleanupExpiredSessions s now = drop_sessions (\<lambda>se. ExpiresAt se \<noteq> zero_time \<and> ExpiresAt se < now) s"

subsection \<open>The contract of the directory\<close>

text \<open>
  What authentication relies on: users are found by id, name and email, names and emails are
  unique, and saving a user fails exactly when another user has its name or email.
\<close>

locale user_directory =
  fixes save :: "'s \<Rightarrow> user \<Rightarrow> 'e + 's"
    and get :: "'s \<Rightarrow> string \<Rightarrow> user option"
    and by_email :: "'s \<Rightarrow> string \<Rightarrow> user option"
    and by_name :: "'s \<Rightarrow> string \<Rightarrow> user option"
    and invar :: "'s \<Rightarrow> bool"
  assumes get_id: "invar s \<Longrightarrow> get s i = Some u \<Longrightarrow> u_ID u = i"
    and by_email_iff: "invar s \<Longrightarrow> by_email s m = Some u \<longleftrightarrow> get s (u_ID u) = Some u \<and> Email u = m"
    and by_name_iff: "invar s \<Longrightarrow> by_name s n = Some u \<longleftrightarrow> get s (u_ID u) = Some u \<and> Username u = n"
    and save_fails: "invar s \<Longrightarrow> (\<exists>e. save s u = Inl e) \<longleftrightarrow>
      (\<exists>v. get s (u_ID v) = Some v \<and> u_ID v \<noteq> u_ID u \<and> (Email v = Email u \<or> Username v = Username u))"
    and save_invar: "invar s \<Longrightarrow> save s u = Inr s' \<Longrightarrow> invar s'"
    and get_save: "save s u = Inr s' \<Longrightarrow> get s' i = (if i = u_ID u then Some u else get s i)"
begin

lemma unique_email: "invar s \<Longrightarrow> get s i = Some u \<Longrightarrow> get s j = Some v \<Longrightarrow> Email u = Email v \<Longrightarrow> u = v"
  using by_email_iff [of s "Email u" u] by_email_iff [of s "Email u" v] get_id [of s i u] get_id [of s j v] by simp

lemma unique_name: "invar s \<Longrightarrow> get s i = Some u \<Longrightarrow> get s j = Some v \<Longrightarrow> Username u = Username v \<Longrightarrow> u = v"
  using by_name_iff [of s "Username u" u] by_name_iff [of s "Username u" v] get_id [of s i u] get_id [of s j v] by simp

text \<open>Writing back a user read from the directory with the same keys never fails.\<close>

lemma save_back:
  assumes "invar s" "get s i = Some u" "u_ID u' = u_ID u" "Email u' = Email u" "Username u' = Username u"
  obtains s' where "save s u' = Inr s'"
proof (cases "save s u'")
  case (Inl e)
  then obtain v where v: "get s (u_ID v) = Some v" "u_ID v \<noteq> u_ID u'" "Email v = Email u' \<or> Username v = Username u'"
    using save_fails [OF assms(1), of u'] by blast
  then have "u = v" using assms unique_email [OF assms(1,2) v(1)] unique_name [OF assms(1,2) v(1)] by auto
  with v(2) assms(3) show ?thesis by simp
qed

end

subsection \<open>The store keeps the contract\<close>

definition dir_invar :: "auth_store \<Rightarrow> bool" where
  "dir_invar s \<longleftrightarrow>
     (\<forall>i u. fmlookup (usersByID s) i = Some u \<longrightarrow> u_ID u = i
        \<and> fmlookup (userIDsByEmail s) (Email u) = Some i \<and> fmlookup (userIDsByName s) (Username u) = Some i)
   \<and> (\<forall>m i. fmlookup (userIDsByEmail s) m = Some i \<longrightarrow> (\<exists>u. fmlookup (usersByID s) i = Some u \<and> Email u = m))
   \<and> (\<forall>n i. fmlookup (userIDsByName s) n = Some i \<longrightarrow> (\<exists>u. fmlookup (usersByID s) i = Some u \<and> Username u = n))"

lemma dir_invarD:
  assumes "dir_invar s"
  shows "fmlookup (usersByID s) i = Some u \<Longrightarrow> u_ID u = i"
    and "fmlookup (usersByID s) i = Some u \<Longrightarrow> fmlookup (userIDsByEmail s) (Email u) = Some i"
    and "fmlookup (usersByID s) i = Some u \<Longrightarrow> fmlookup (userIDsByName s) (Username u) = Some i"
    and "fmlookup (userIDsByEmail s) m = Some i \<Longrightarrow> \<exists>u. fmlookup (usersByID s) i = Some u \<and> Email u = m"
    and "fmlookup (userIDsByName s) n = Some i \<Longrightarrow> \<exists>u. fmlookup (usersByID s) i = Some u \<and> Username u = n"
  using assms by (auto simp: dir_invar_def)

lemma email_index_iff:
  "dir_invar s \<Longrightarrow> fmlookup (userIDsByEmail s) m = Some i \<longleftrightarrow> (\<exists>u. fmlookup (usersByID s) i = Some u \<and> Email u = m)"
  using dir_invarD(2,4) by blast

lemma name_index_iff:
  "dir_invar s \<Longrightarrow> fmlookup (userIDsByName s) n = Some i \<longleftrightarrow> (\<exists>u. fmlookup (usersByID s) i = Some u \<and> Username u = n)"
  using dir_invarD(3,5) by blast

text \<open>Replacing what a map holds for one value: the value's old key goes, a new one comes.\<close>

lemma reindex:
  assumes "\<And>m i. fmlookup ix m = Some i \<longleftrightarrow> (\<exists>u. fmlookup us i = Some u \<and> key u = m)"
  shows "fmlookup (case fmlookup us j of None \<Rightarrow> ix | Some v \<Rightarrow> fmdrop (key v) ix) m
    = (case fmlookup ix m of Some i \<Rightarrow> if i = j then None else Some i | None \<Rightarrow> None)"
proof (cases "fmlookup us j")
  case None
  then have "fmlookup ix m \<noteq> Some j" using assms by simp
  with None show ?thesis by (auto split: option.splits)
next
  case (Some v)
  then have "fmlookup ix m = Some j \<longleftrightarrow> key v = m" using assms by simp
  with Some show ?thesis by (auto split: option.splits)
qed

lemma SaveUser_cases:
  assumes "SaveUser s u = Inr s'"
  shows "usersByID s' = fmupd (u_ID u) u (usersByID s)" "sessionsByToken s' = sessionsByToken s"
    and "fmlookup (userIDsByEmail s) (Email u) \<in> {None, Some (u_ID u)}"
    and "fmlookup (userIDsByName s) (Username u) \<in> {None, Some (u_ID u)}"
    and "userIDsByEmail s' = fmupd (Email u) (u_ID u) (case fmlookup (usersByID s) (u_ID u) of
           None \<Rightarrow> userIDsByEmail s | Some v \<Rightarrow> fmdrop (Email v) (userIDsByEmail s))"
    and "userIDsByName s' = fmupd (Username u) (u_ID u) (case fmlookup (usersByID s) (u_ID u) of
           None \<Rightarrow> userIDsByName s | Some v \<Rightarrow> fmdrop (Username v) (userIDsByName s))"
  using assms by (auto simp: SaveUser_def Let_def split: if_splits option.splits)

lemma dir_invar_SaveUser:
  assumes inv: "dir_invar s" and save: "SaveUser s u = Inr s'"
  shows "dir_invar s'"
proof -
  note C = SaveUser_cases [OF save]
  have em: "fmlookup (userIDsByEmail s') m = (if m = Email u then Some (u_ID u)
      else case fmlookup (userIDsByEmail s) m of Some i \<Rightarrow> if i = u_ID u then None else Some i | None \<Rightarrow> None)" for m
    unfolding C(5) using reindex [of _ "usersByID s" Email, OF email_index_iff [OF inv], of "u_ID u" m] by simp
  have nm: "fmlookup (userIDsByName s') n = (if n = Username u then Some (u_ID u)
      else case fmlookup (userIDsByName s) n of Some i \<Rightarrow> if i = u_ID u then None else Some i | None \<Rightarrow> None)" for n
    unfolding C(6) using reindex [of _ "usersByID s" Username, OF name_index_iff [OF inv], of "u_ID u" n] by simp
  have us: "fmlookup (usersByID s') i = (if i = u_ID u then Some u else fmlookup (usersByID s) i)" for i
    by (simp add: C(1))
  show ?thesis
    unfolding dir_invar_def
  proof (intro conjI allI impI)
    fix i v assume v: "fmlookup (usersByID s') i = Some v"
    show "u_ID v = i" using v us dir_invarD(1) [OF inv] by (auto split: if_splits)
    show "fmlookup (userIDsByEmail s') (Email v) = Some i"
      using v us em dir_invarD(2) [OF inv, of i v] C(3) by (auto split: if_splits)
    show "fmlookup (userIDsByName s') (Username v) = Some i"
      using v us nm dir_invarD(3) [OF inv, of i v] C(4) by (auto split: if_splits)
  next
    fix m i assume "fmlookup (userIDsByEmail s') m = Some i"
    then show "\<exists>v. fmlookup (usersByID s') i = Some v \<and> Email v = m"
      using em us dir_invarD(4) [OF inv, of m i] by (auto split: if_splits option.splits)
  next
    fix n i assume "fmlookup (userIDsByName s') n = Some i"
    then show "\<exists>v. fmlookup (usersByID s') i = Some v \<and> Username v = n"
      using nm us dir_invarD(5) [OF inv, of n i] by (auto split: if_splits option.splits)
  qed
qed

lemma GetUserByEmail_iff:
  assumes "dir_invar s"
  shows "GetUserByEmail s m = Some u \<longleftrightarrow> GetUser s (u_ID u) = Some u \<and> Email u = m"
proof
  assume "GetUserByEmail s m = Some u"
  then obtain i where i: "fmlookup (userIDsByEmail s) m = Some i" "fmlookup (usersByID s) i = Some u"
    by (auto simp: GetUserByEmail_def GetUser_def split: option.splits)
  with email_index_iff [OF assms, of m i] dir_invarD(1) [OF assms i(2)]
  show "GetUser s (u_ID u) = Some u \<and> Email u = m" by (auto simp: GetUser_def)
next
  assume "GetUser s (u_ID u) = Some u \<and> Email u = m"
  with dir_invarD(2) [OF assms, of "u_ID u" u] show "GetUserByEmail s m = Some u"
    by (auto simp: GetUserByEmail_def GetUser_def)
qed

lemma GetUserByUsername_iff:
  assumes "dir_invar s"
  shows "GetUserByUsername s n = Some u \<longleftrightarrow> GetUser s (u_ID u) = Some u \<and> Username u = n"
proof
  assume "GetUserByUsername s n = Some u"
  then obtain i where i: "fmlookup (userIDsByName s) n = Some i" "fmlookup (usersByID s) i = Some u"
    by (auto simp: GetUserByUsername_def GetUser_def split: option.splits)
  with name_index_iff [OF assms, of n i] dir_invarD(1) [OF assms i(2)]
  show "GetUser s (u_ID u) = Some u \<and> Username u = n" by (auto simp: GetUser_def)
next
  assume "GetUser s (u_ID u) = Some u \<and> Username u = n"
  with dir_invarD(3) [OF assms, of "u_ID u" u] show "GetUserByUsername s n = Some u"
    by (auto simp: GetUserByUsername_def GetUser_def)
qed

lemma SaveUser_fails_iff:
  assumes "dir_invar s"
  shows "(\<exists>e. SaveUser s u = Inl e) \<longleftrightarrow>
    (\<exists>v. GetUser s (u_ID v) = Some v \<and> u_ID v \<noteq> u_ID u \<and> (Email v = Email u \<or> Username v = Username u))"
proof -
  have "(\<exists>e. SaveUser s u = Inl e) \<longleftrightarrow>
      (\<exists>i. i \<noteq> u_ID u \<and> (fmlookup (userIDsByEmail s) (Email u) = Some i \<or> fmlookup (userIDsByName s) (Username u) = Some i))"
    by (auto simp: SaveUser_def Let_def split: option.splits if_splits)
  also have "\<dots> \<longleftrightarrow> (\<exists>i v. i \<noteq> u_ID u \<and> fmlookup (usersByID s) i = Some v \<and> (Email v = Email u \<or> Username v = Username u))"
    using email_index_iff [OF assms] name_index_iff [OF assms] by blast
  also have "\<dots> \<longleftrightarrow> (\<exists>v. GetUser s (u_ID v) = Some v \<and> u_ID v \<noteq> u_ID u \<and> (Email v = Email u \<or> Username v = Username u))"
    unfolding GetUser_def using dir_invarD(1) [OF assms] by blast
  finally show ?thesis .
qed

interpretation accounts: user_directory SaveUser GetUser GetUserByEmail GetUserByUsername dir_invar
proof
  show "u_ID u = i" if "dir_invar s" "GetUser s i = Some u" for s i u
    using that by (simp add: GetUser_def dir_invarD(1))
  show "GetUser s' i = (if i = u_ID u then Some u else GetUser s i)" if "SaveUser s u = Inr s'" for s u s' i
    using SaveUser_cases(1) [OF that] by (simp add: GetUser_def)
qed (auto simp: GetUserByEmail_iff GetUserByUsername_iff SaveUser_fails_iff intro: dir_invar_SaveUser)

text \<open>Sessions are stored under their own token and belong to users of the directory.\<close>

definition store_invar :: "auth_store \<Rightarrow> bool" where
  "store_invar s \<longleftrightarrow> dir_invar s \<and>
     (\<forall>t se. GetSession s t = Some se \<longrightarrow> Token se = t \<and> GetUser s (s_UserID se) \<noteq> None)"

lemma store_invar_new: "store_invar auth_NewMemoryStore"
  by (simp add: store_invar_def dir_invar_def auth_NewMemoryStore_def GetSession_def)

lemma GetSession_SaveUser [simp]: "SaveUser s u = Inr s' \<Longrightarrow> GetSession s' t = GetSession s t"
  by (simp add: GetSession_def SaveUser_cases(2))

lemma store_invar_SaveUser: "store_invar s \<Longrightarrow> SaveUser s u = Inr s' \<Longrightarrow> store_invar s'"
  using accounts.save_invar accounts.get_save [of s u s'] by (auto simp: store_invar_def)

lemma dir_invar_sessions [simp]: "dir_invar (s\<lparr>sessionsByToken := m\<rparr>) = dir_invar s"
  by (simp add: dir_invar_def)

lemma GetUser_sessions [simp]: "GetUser (s\<lparr>sessionsByToken := m\<rparr>) i = GetUser s i"
  by (simp add: GetUser_def)

lemma store_invar_SaveSession: "store_invar s \<Longrightarrow> GetUser s (s_UserID se) \<noteq> None \<Longrightarrow> store_invar (SaveSession s se)"
  by (auto simp: store_invar_def SaveSession_def GetSession_def split: if_splits)

lemma GetSession_drop: "GetSession (drop_sessions P s) t = (case GetSession s t of Some se \<Rightarrow> if P se then None else Some se | None \<Rightarrow> None)"
  by (auto simp: drop_sessions_def GetSession_def split: option.splits)

lemma GetUser_drop [simp]: "GetUser (drop_sessions P s) i = GetUser s i"
  by (simp add: drop_sessions_def)

lemma dir_invar_drop [simp]: "dir_invar (drop_sessions P s) = dir_invar s"
  by (simp add: drop_sessions_def)

lemma store_invar_drop: "store_invar s \<Longrightarrow> store_invar (drop_sessions P s)"
  by (auto simp: store_invar_def GetSession_drop split: option.splits if_splits)

lemma GetSession_DeleteSession: "GetSession (DeleteSession s t) t' = (if t' = t then None else GetSession s t')"
  by (simp add: DeleteSession_def GetSession_def)

lemma GetUser_DeleteSession [simp]: "GetUser (DeleteSession s t) i = GetUser s i"
  by (simp add: DeleteSession_def)

lemma store_invar_DeleteSession: "store_invar s \<Longrightarrow> store_invar (DeleteSession s t)"
  by (auto simp: store_invar_def GetSession_DeleteSession DeleteSession_def dir_invar_sessions)
    (simp_all add: GetSession_def split: if_splits)

lemma DeleteUser_spec:
  assumes inv: "store_invar s" and del: "DeleteUser s i = Inr s'"
  shows "store_invar s'" "GetUser s' j = (if j = i then None else GetUser s j)"
    and "GetSession s' t = (case GetSession s t of Some se \<Rightarrow> if s_UserID se = i then None else Some se | None \<Rightarrow> None)"
proof -
  from del obtain u where u: "fmlookup (usersByID s) i = Some u" by (auto simp: DeleteUser_def split: option.splits)
  let ?s = "s\<lparr>usersByID := fmdrop i (usersByID s), userIDsByEmail := fmdrop (Email u) (userIDsByEmail s),
             userIDsByName := fmdrop (Username u) (userIDsByName s)\<rparr>"
  have s': "s' = drop_sessions (\<lambda>se. s_UserID se = i) ?s" using del u by (simp add: DeleteUser_def)
  show gu: "GetUser s' j = (if j = i then None else GetUser s j)" for j by (simp add: s') (simp add: GetUser_def)
  have "GetSession ?s t = GetSession s t" for t by (simp add: GetSession_def)
  then show gs: "GetSession s' t = (case GetSession s t of Some se \<Rightarrow> if s_UserID se = i then None else Some se | None \<Rightarrow> None)" for t
    by (simp add: s' GetSession_drop)
  have dir: "dir_invar s" using inv by (simp add: store_invar_def)
  have "dir_invar ?s"
    unfolding dir_invar_def
    using dir_invarD [OF dir] accounts.unique_email [OF dir] accounts.unique_name [OF dir] u
    by (auto simp: GetUser_def split: if_splits) (metis option.inject)+
  then show "store_invar s'" using inv gu gs by (auto simp: store_invar_def s' split: option.splits if_splits)
qed

end
