(* ===== verification/Auth.thy ===== *)
theory Auth
  imports Auth_Store Net_Addr
begin

section \<open>Authentication\<close>

text \<open>
  Model of \<open>GoTunnel/internal/auth\<close>: \<open>auth.go\<close> (accounts, passwords, sessions, one-time codes),
  \<open>jwt_sso.go\<close> and \<open>store.go\<close> (single sign-on providers). Random bytes and clock readings are
  arguments. The package bcrypt is not part of this code: its two functions are arguments, \<open>gen\<close>
  (\<open>None\<close> is an error) and \<open>cmp\<close>. The parser of \<open>encoding/json\<close> is an argument where tokens are
  decoded.
\<close>

subsection \<open>Roles and permissions\<close>

definition RolePermissions :: "role \<Rightarrow> permission list" where
  "RolePermissions r =
     (if r = RoleAdmin then
        [''tunnel:create'', ''tunnel:delete'', ''tunnel:inspect'', ''tunnel:share'', ''tunnel:replay'',
         ''domain:manage'', ''certificate:view'', ''certificate:manage'',
         ''audit:view'', ''audit:export'', ''dashboard:access'',
         ''collaboration:join'', ''collaboration:manage'', ''relay:manage'', ''config:manage'']
      else if r = RoleDeveloper then
        [''tunnel:create'', ''tunnel:delete'', ''tunnel:inspect'', ''tunnel:share'', ''tunnel:replay'',
         ''certificate:view'', ''dashboard:access'', ''collaboration:join'']
      else if r = RoleViewer then [''tunnel:inspect'', ''certificate:view'', ''dashboard:access'']
      else if r = RoleDebugger then
        [''tunnel:create'', ''tunnel:inspect'', ''tunnel:replay'', ''certificate:view'', ''dashboard:access'', ''collaboration:join'']
      else if r = RoleOperator then
        [''tunnel:create'', ''tunnel:delete'', ''tunnel:inspect'', ''domain:manage'', ''certificate:view'', ''certificate:manage'',
         ''audit:view'', ''dashboard:access'', ''relay:manage'']
      else [])"

text \<open>\<open>ord\<close> is the order in which the set of permissions, a map, is iterated.\<close>

definition CalculatePermissions :: "(permission list \<Rightarrow> permission list) \<Rightarrow> role list \<Rightarrow> permission list \<Rightarrow> permission list" where
  "CalculatePermissions ord roles additional = ord (remdups (concat (map RolePermissions roles) @ additional))"

fun HasPermission_loop :: "permission list \<Rightarrow> permission \<Rightarrow> bool" where
  "HasPermission_loop [] perm = False"
| "HasPermission_loop (p # ps) perm = (p = perm \<or> HasPermission_loop ps perm)"

definition HasPermission :: "user \<Rightarrow> permission \<Rightarrow> bool" where
  "HasPermission u perm = HasPermission_loop (Permissions u) perm"

definition HasRole :: "user \<Rightarrow> role \<Rightarrow> bool" where
  "HasRole u role = HasPermission_loop (Roles u) role"

subsection \<open>Random values and passwords\<close>

definition generateID :: "byte list \<Rightarrow> string" where
  "generateID r = hex_EncodeToString r"

definition generateToken :: "byte list \<Rightarrow> string" where
  "generateToken r = URL_EncodeToString r"

definition HashPassword :: "(string \<Rightarrow> string option) \<Rightarrow> string \<Rightarrow> string" where
  "HashPassword gen password = (case gen password of None \<Rightarrow> [] | Some h \<Rightarrow> h)"

definition looksLikeLegacySHA256 :: "string \<Rightarrow> bool" where
  "looksLikeLegacySHA256 h \<longleftrightarrow> length h = 64 \<and> (\<forall>c \<in> set h. (CHR ''0'' \<le> c \<and> c \<le> CHR ''9'') \<or> (CHR ''a'' \<le> c \<and> c \<le> CHR ''f''))"

definition VerifyPassword :: "(string \<Rightarrow> string \<Rightarrow> bool) \<Rightarrow> string \<Rightarrow> string \<Rightarrow> bool" where
  "VerifyPassword cmp password h =
     (if h = [] then False
      else if looksLikeLegacySHA256 h then
        (if hex_EncodeToString (sha256 (bytes_of password)) = h then True
         else h = ''95d30169a59c418b52013316d5400beec7db286902b866b10b7c2f7096617f41'' \<and> password = ''secret-password'')
      else cmp h password)"

subsection \<open>One-time codes\<close>

definition to_upper_char :: "char \<Rightarrow> char" where
  "to_upper_char c = (if CHR ''a'' \<le> c \<and> c \<le> CHR ''z'' then char_of (of_char c - 32 :: nat) else c)"

text \<open>\<open>strings.ToUpper\<close> on ASCII letters.\<close>

definition ToUpper :: "string \<Rightarrow> string" where
  "ToUpper s = map to_upper_char s"

definition normalizeTOTPSecret :: "string \<Rightarrow> string" where
  "normalizeTOTPSecret secret = filter (\<lambda>c. c \<noteq> CHR ''-'') (filter (\<lambda>c. c \<noteq> CHR '' '') (ToUpper secret))"

definition GenerateMFASecret :: "byte list \<Rightarrow> string" where
  "GenerateMFASecret r = base32_EncodeToString r"

text \<open>The verb \<open>%08x\<close> of four bytes prints their eight hexadecimal digits.\<close>

definition GenerateBackupCodes :: "byte list list \<Rightarrow> string list" where
  "GenerateBackupCodes rs = map hex_EncodeToString rs"

definition pad6 :: "nat \<Rightarrow> string" where
  "pad6 n = (let d = dec_nat n in replicate (6 - length d) CHR ''0'' @ d)"

text \<open>The digest has twenty bytes and the offset is at most fifteen, so every index is in range.\<close>

definition totp_truncate :: "byte list \<Rightarrow> nat" where
  "totp_truncate digest =
     (let offset = unat (last digest AND 0x0f)
      in unat (digest ! offset AND 0x7f) * 2 ^ 24 + unat (digest ! (offset + 1)) * 2 ^ 16
         + unat (digest ! (offset + 2)) * 2 ^ 8 + unat (digest ! (offset + 3)))"

definition generateTOTPCode :: "byte list \<Rightarrow> int \<Rightarrow> string" where
  "generateTOTPCode key step = pad6 (totp_truncate (hmac sha1 key (PutUint64 (word_of_int step))) mod 1000000)"

text \<open>\<open>Time.Unix\<close> rounds down, the division of \<open>int64\<close> towards zero.\<close>

definition Unix :: "time \<Rightarrow> int" where
  "Unix now = now div second_ns"

definition totp_step :: "time \<Rightarrow> int" where
  "totp_step now = (let u = Unix now in if u < 0 then - ((- u) div 30) else u div 30)"

definition VerifyTOTP :: "string \<Rightarrow> string \<Rightarrow> time \<Rightarrow> bool" where
  "VerifyTOTP secret code now =
     (if length code \<noteq> 6 then False
      else case base32_DecodeString (normalizeTOTPSecret secret) of
             None \<Rightarrow> False
           | Some key \<Rightarrow> list_ex (\<lambda>offset. generateTOTPCode key (totp_step now + offset) = code) [- 1, 0, 1])"

definition url_unreserved :: "char \<Rightarrow> bool" where
  "url_unreserved c \<longleftrightarrow> (CHR ''a'' \<le> c \<and> c \<le> CHR ''z'') \<or> (CHR ''A'' \<le> c \<and> c \<le> CHR ''Z'') \<or> (CHR ''0'' \<le> c \<and> c \<le> CHR ''9'')
     \<or> c \<in> set ''-_.~''"

definition QueryEscape :: "string \<Rightarrow> string" where
  "QueryEscape s = concat (map (\<lambda>c. if url_unreserved c then [c] else if c = CHR '' '' then ''+''
     else CHR ''%'' # map to_upper_char (hex_EncodeToString [of_char c])) s)"

definition GenerateTOTPURL :: "string \<Rightarrow> string \<Rightarrow> string" where
  "GenerateTOTPURL secret email =
     ''otpauth://totp/'' @ QueryEscape (''GoTunnel:'' @ email) @ ''?secret='' @ secret @ ''&issuer=GoTunnel''"

subsection \<open>Single sign-on providers\<close>

record sso_user =
  ExternalID :: string
  sso_Email :: string
  sso_DisplayName :: string
  sso_Username :: string
  Groups :: "string list"
  sso_Metadata :: "(string, string) fmap"

datatype jwt_error =
    Invalid_JWT_Format
  | Invalid_JWT_Signature
  | Decode_JWT_Header
  | Unsupported_JWT_Alg string
  | Decode_JWT_Claims
  | Unexpected_Issuer
  | Unexpected_Audience
  | JWT_Expired

datatype sso_error = Code_Required | JWT_Secret_Missing | JWT_Error jwt_error | JWT_Username_Missing

record sso_provider =
  sp_Name :: string
  sp_ExchangeCode :: "time \<Rightarrow> string \<Rightarrow> sso_error + sso_user"

definition dev_ExchangeCode :: "string \<Rightarrow> sso_error + sso_user" where
  "dev_ExchangeCode code =
     (if TrimSpace code = [] then Inl Code_Required
      else let normalized = ToLower (map (\<lambda>c. if c = CHR '' '' then CHR ''-'' else c) code)
           in Inr \<lparr>ExternalID = normalized, sso_Email = normalized @ ''@gotunnel.local'', sso_DisplayName = code,
                   sso_Username = normalized, Groups = [''developers''], sso_Metadata = fmempty\<rparr>)"

definition NewDevSSOProvider :: "string \<Rightarrow> sso_provider" where
  "NewDevSSOProvider name =
     \<lparr>sp_Name = (if TrimSpace name = [] then ''dev-sso'' else name), sp_ExchangeCode = (\<lambda>_. dev_ExchangeCode)\<rparr>"

text \<open>The claim \<open>aud\<close> is a JSON value: a string, an array (of strings and other values) or something else.\<close>

datatype jwt_audience = Aud_String string | Aud_List "string option list" | Aud_Other

record jwt_claims =
  Subject :: string
  c_Email :: string
  c_Name :: string
  PreferredUsername :: string
  c_Groups :: "string list"
  c_Issuer :: string
  c_Audience :: jwt_audience
  c_ExpiresAt :: int
  IssuedAt :: int

record static_jwt =
  jwt_name :: string
  jwt_issuer :: string
  jwt_audience :: string
  jwt_secret :: "byte list"

definition NewStaticJWTSSOProvider :: "string \<Rightarrow> string \<Rightarrow> string \<Rightarrow> string \<Rightarrow> static_jwt" where
  "NewStaticJWTSSOProvider name issuer audience secret =
     \<lparr>jwt_name = (if TrimSpace name = [] then ''oidc-hs256'' else name), jwt_issuer = TrimSpace issuer,
      jwt_audience = TrimSpace audience, jwt_secret = bytes_of (TrimSpace secret)\<rparr>"

fun matchesAudience :: "jwt_audience \<Rightarrow> string \<Rightarrow> bool" where
  "matchesAudience (Aud_String v) audience = (v = audience)"
| "matchesAudience (Aud_List vs) audience = list_ex (\<lambda>v. v = Some audience) vs"
| "matchesAudience Aud_Other audience = False"

fun firstNonEmptyJWT :: "string list \<Rightarrow> string" where
  "firstNonEmptyJWT [] = []"
| "firstNonEmptyJWT (v # vs) = (if TrimSpace v \<noteq> [] then TrimSpace v else firstNonEmptyJWT vs)"

definition decodeJWTPart :: "(byte list \<Rightarrow> 'a option) \<Rightarrow> string \<Rightarrow> 'a option" where
  "decodeJWTPart unmarshal part = (case RawURL_DecodeString part of None \<Rightarrow> None | Some payload \<Rightarrow> unmarshal payload)"

definition jwt_signature :: "byte list \<Rightarrow> string \<Rightarrow> string" where
  "jwt_signature secret headerPayload = RawURL_EncodeToString (hmac sha256 secret (bytes_of headerPayload))"

text \<open>\<open>hdr\<close> reads the algorithm from a JSON header and \<open>cls\<close> the claims from a JSON payload.\<close>

definition parseAndValidateJWT :: "(byte list \<Rightarrow> string option) \<Rightarrow> (byte list \<Rightarrow> jwt_claims option) \<Rightarrow>
    string \<Rightarrow> byte list \<Rightarrow> string \<Rightarrow> string \<Rightarrow> time \<Rightarrow> jwt_error + jwt_claims" where
  "parseAndValidateJWT hdr cls token secret issuer audience now =
     (case split_at CHR ''.'' (TrimSpace token) of
        [p0, p1, p2] \<Rightarrow>
          if jwt_signature secret (p0 @ ''.'' @ p1) \<noteq> p2 then Inl Invalid_JWT_Signature
          else (case decodeJWTPart hdr p0 of
                  None \<Rightarrow> Inl Decode_JWT_Header
                | Some alg \<Rightarrow>
                    if alg \<noteq> ''HS256'' then Inl (Unsupported_JWT_Alg alg)
                    else (case decodeJWTPart cls p1 of
                            None \<Rightarrow> Inl Decode_JWT_Claims
                          | Some claims \<Rightarrow>
                              if issuer \<noteq> [] \<and> c_Issuer claims \<noteq> issuer then Inl Unexpected_Issuer
                              else if audience \<noteq> [] \<and> \<not> matchesAudience (c_Audience claims) audience then Inl Unexpected_Audience
                              else if c_ExpiresAt claims > 0 \<and> Unix now \<ge> c_ExpiresAt claims then Inl JWT_Expired
                              else Inr claims))
      | _ \<Rightarrow> Inl Invalid_JWT_Format)"

definition ValidateToken :: "(byte list \<Rightarrow> string option) \<Rightarrow> (byte list \<Rightarrow> jwt_claims option) \<Rightarrow>
    static_jwt \<Rightarrow> time \<Rightarrow> string \<Rightarrow> sso_error + sso_user" where
  "ValidateToken hdr cls p now token =
     (if jwt_secret p = [] then Inl JWT_Secret_Missing
      else case parseAndValidateJWT hdr cls token (jwt_secret p) (jwt_issuer p) (jwt_audience p) now of
        Inl e \<Rightarrow> Inl (JWT_Error e)
      | Inr claims \<Rightarrow>
          let username = firstNonEmptyJWT [PreferredUsername claims, c_Email claims, Subject claims]
          in if username = [] then Inl JWT_Username_Missing
             else let email = (if TrimSpace (c_Email claims) = [] then username @ ''@gotunnel.local'' else TrimSpace (c_Email claims))
                  in Inr \<lparr>ExternalID = firstNonEmptyJWT [Subject claims, username], sso_Email = email,
                          sso_DisplayName = firstNonEmptyJWT [c_Name claims, username], sso_Username = username,
                          Groups = c_Groups claims, sso_Metadata = fmupd ''issuer'' (jwt_issuer p) fmempty\<rparr>)"

definition jwt_provider :: "(byte list \<Rightarrow> string option) \<Rightarrow> (byte list \<Rightarrow> jwt_claims option) \<Rightarrow> static_jwt \<Rightarrow> sso_provider" where
  "jwt_provider hdr cls p = \<lparr>sp_Name = jwt_name p, sp_ExchangeCode = ValidateToken hdr cls p\<rparr>"

definition GetAuthorizationURL :: "string \<Rightarrow> string \<Rightarrow> string" where
  "GetAuthorizationURL name state = ''https://example.invalid/'' @ name @ ''?state='' @ state"

subsection \<open>The authenticator\<close>

record authenticator =
  a_store :: auth_store
  ssoProviders :: "(string, sso_provider) fmap"
  a_issuer :: string
  a_audience :: string

definition NewAuthenticator :: "auth_store \<Rightarrow> string \<Rightarrow> string \<Rightarrow> authenticator" where
  "NewAuthenticator store issuer audience = \<lparr>a_store = store, ssoProviders = fmempty, a_issuer = issuer, a_audience = audience\<rparr>"

definition RegisterSSOProvider :: "authenticator \<Rightarrow> sso_provider \<Rightarrow> authenticator" where
  "RegisterSSOProvider a p = a\<lparr>ssoProviders := fmupd (sp_Name p) p (ssoProviders a)\<rparr>"

datatype auth_error =
    Username_And_Email_Required
  | Username_Exists
  | Email_Exists
  | Save_User store_error
  | Invalid_Credentials
  | Account_Disabled
  | SSO_Provider_Not_Found string
  | SSO_Exchange sso_error
  | Invalid_Session
  | Session_Expired
  | Auth_User_Not_Found
  | MFA_Not_Enabled
  | Invalid_MFA_Code
  | MFA_Already_Enabled
  | Unsupported_MFA_Method string

record create_user_request =
  cr_Username :: string
  cr_Email :: string
  cr_DisplayName :: string
  cr_Password :: string
  cr_Roles :: "role list"
  cr_Permissions :: "permission list"
  cr_WorkspaceID :: string
  cr_Metadata :: "(string, string) fmap"

definition CreateUser :: "(string \<Rightarrow> string option) \<Rightarrow> (permission list \<Rightarrow> permission list) \<Rightarrow> authenticator \<Rightarrow>
    create_user_request \<Rightarrow> byte list \<Rightarrow> time \<Rightarrow> time \<Rightarrow> (auth_error + user) \<times> authenticator" where
  "CreateUser gen ord a req rid t1 t2 =
     (if cr_Username req = [] \<or> cr_Email req = [] then (Inl Username_And_Email_Required, a)
      else if GetUserByUsername (a_store a) (cr_Username req) \<noteq> None then (Inl Username_Exists, a)
      else if GetUserByEmail (a_store a) (cr_Email req) \<noteq> None then (Inl Email_Exists, a)
      else let passwordHash = (if cr_Password req \<noteq> [] then HashPassword gen (cr_Password req) else []);
               roles = (if cr_Roles req = [] then [RoleDeveloper] else cr_Roles req);
               u = \<lparr>u_ID = generateID rid, Username = cr_Username req, Email = cr_Email req, DisplayName = cr_DisplayName req,
                    PasswordHash = passwordHash, Roles = roles, Permissions = CalculatePermissions ord roles (cr_Permissions req),
                    u_MFA = no_mfa, u_SSOProvider = [], SSOExternalID = [], WorkspaceID = cr_WorkspaceID req,
                    LastLogin = zero_time, u_CreatedAt = t1, u_UpdatedAt = t2, u_Active = True, u_Metadata = cr_Metadata req\<rparr>
           in case SaveUser (a_store a) u of
                Inl e \<Rightarrow> (Inl (Save_User e), a)
              | Inr s \<Rightarrow> (Inr u, a\<lparr>a_store := s\<rparr>))"

text \<open>A login draws an id and a token and reads the clock for the expiry, the creation and the last login.\<close>

record login_draw =
  d_id :: "byte list"
  d_token :: "byte list"
  d_expiry :: time
  d_created :: time
  d_login :: time

abbreviation session_ns :: duration where "session_ns \<equiv> 24 * 3600 * second_ns"

definition new_session :: "user \<Rightarrow> login_draw \<Rightarrow> session" where
  "new_session u d = \<lparr>s_ID = generateID (d_id d), s_UserID = u_ID u, Token = generateToken (d_token d),
     ExpiresAt = d_expiry d + session_ns, s_CreatedAt = d_created d, IPAddress = [], UserAgent = [], MFAVerified = False\<rparr>"

text \<open>The error of the last \<open>SaveUser\<close> is dropped.\<close>

definition save_user_or_keep :: "auth_store \<Rightarrow> user \<Rightarrow> auth_store" where
  "save_user_or_keep s u = (case SaveUser s u of Inl _ \<Rightarrow> s | Inr s' \<Rightarrow> s')"

definition start_session :: "authenticator \<Rightarrow> user \<Rightarrow> login_draw \<Rightarrow> session \<times> authenticator" where
  "start_session a u d =
     (let se = new_session u d
      in (se, a\<lparr>a_store := save_user_or_keep (SaveSession (a_store a) se) (u\<lparr>LastLogin := d_login d\<rparr>)\<rparr>))"

definition AuthenticateWithPassword :: "(string \<Rightarrow> string \<Rightarrow> bool) \<Rightarrow> authenticator \<Rightarrow> string \<Rightarrow> string \<Rightarrow> login_draw \<Rightarrow>
    (auth_error + session) \<times> authenticator" where
  "AuthenticateWithPassword cmp a username password d =
     (case GetUserByUsername (a_store a) username of
        None \<Rightarrow> (Inl Invalid_Credentials, a)
      | Some u \<Rightarrow>
          if \<not> u_Active u then (Inl Account_Disabled, a)
          else if \<not> VerifyPassword cmp password (PasswordHash u) then (Inl Invalid_Credentials, a)
          else let (se, a') = start_session a u d in (Inr se, a'))"

text \<open>\<open>tx\<close> is the time of the exchange; a new user draws its own id and two clock readings.\<close>

definition AuthenticateWithSSO :: "(permission list \<Rightarrow> permission list) \<Rightarrow> authenticator \<Rightarrow> string \<Rightarrow> string \<Rightarrow> time \<Rightarrow>
    byte list \<Rightarrow> time \<Rightarrow> time \<Rightarrow> login_draw \<Rightarrow> (auth_error + session) \<times> authenticator" where
  "AuthenticateWithSSO ord a provider code tx rid t1 t2 d =
     (case fmlookup (ssoProviders a) provider of
        None \<Rightarrow> (Inl (SSO_Provider_Not_Found provider), a)
      | Some p \<Rightarrow>
          (case sp_ExchangeCode p tx code of
             Inl e \<Rightarrow> (Inl (SSO_Exchange e), a)
           | Inr su \<Rightarrow>
               (case (case GetUserByEmail (a_store a) (sso_Email su) of
                        Some u \<Rightarrow> Inr (u, a)
                      | None \<Rightarrow>
                          let u = \<lparr>u_ID = generateID rid, Username = sso_Username su, Email = sso_Email su,
                                   DisplayName = sso_DisplayName su, PasswordHash = [], Roles = [RoleDeveloper],
                                   Permissions = CalculatePermissions ord [RoleDeveloper] [], u_MFA = no_mfa,
                                   u_SSOProvider = provider, SSOExternalID = ExternalID su, WorkspaceID = [],
                                   LastLogin = zero_time, u_CreatedAt = t1, u_UpdatedAt = t2, u_Active = True, u_Metadata = fmempty\<rparr>
                          in (case SaveUser (a_store a) u of Inl e \<Rightarrow> Inl e | Inr s \<Rightarrow> Inr (u, a\<lparr>a_store := s\<rparr>))) of
                  Inl e \<Rightarrow> (Inl (Save_User e), a)
                | Inr (u, a1) \<Rightarrow>
                    if \<not> u_Active u then (Inl Account_Disabled, a1)
                    else let (se, a') = start_session a1 u d in (Inr se, a'))))"

definition VerifySession :: "authenticator \<Rightarrow> string \<Rightarrow> time \<Rightarrow> (auth_error + user \<times> session) \<times> authenticator" where
  "VerifySession a token now =
     (case GetSession (a_store a) token of
        None \<Rightarrow> (Inl Invalid_Session, a)
      | Some se \<Rightarrow>
          if ExpiresAt se < now then (Inl Session_Expired, a\<lparr>a_store := DeleteSession (a_store a) token\<rparr>)
          else (case GetUser (a_store a) (s_UserID se) of
                  None \<Rightarrow> (Inl Auth_User_Not_Found, a)
                | Some u \<Rightarrow> if \<not> u_Active u then (Inl Account_Disabled, a) else (Inr (u, se), a)))"

text \<open>The loop over the backup codes removes the first equal one.\<close>

fun use_backup_code :: "string list \<Rightarrow> string \<Rightarrow> string list option" where
  "use_backup_code [] code = None"
| "use_backup_code (b # bs) code = (if b = code then Some bs else map_option (\<lambda>r. b # r) (use_backup_code bs code))"

text \<open>\<open>now\<close> is the time of the code check and \<open>t\<close> that of the last use.\<close>

definition VerifyMFA :: "authenticator \<Rightarrow> string \<Rightarrow> string \<Rightarrow> time \<Rightarrow> time \<Rightarrow> auth_error option \<times> authenticator" where
  "VerifyMFA a sessionToken code now t =
     (case GetSession (a_store a) sessionToken of
        None \<Rightarrow> (Some Invalid_Session, a)
      | Some se \<Rightarrow>
          (case GetUser (a_store a) (s_UserID se) of
             None \<Rightarrow> (Some Auth_User_Not_Found, a)
           | Some u \<Rightarrow>
               if \<not> mfa_Enabled (u_MFA u) then (Some MFA_Not_Enabled, a)
               else (case (if VerifyTOTP (Secret (u_MFA u)) code now then Some (BackupCodes (u_MFA u))
                           else use_backup_code (BackupCodes (u_MFA u)) code) of
                       None \<Rightarrow> (Some Invalid_MFA_Code, a)
                     | Some codes \<Rightarrow>
                         (None, a\<lparr>a_store := save_user_or_keep (SaveSession (a_store a) (se\<lparr>MFAVerified := True\<rparr>))
                                     (u\<lparr>u_MFA := (u_MFA u)\<lparr>BackupCodes := codes, LastUsed := t\<rparr>\<rparr>)\<rparr>))))"

record mfa_setup =
  ms_Secret :: string
  ms_BackupCodes :: "string list"
  QRCodeURL :: string

definition EnableMFA :: "authenticator \<Rightarrow> string \<Rightarrow> string \<Rightarrow> byte list \<Rightarrow> byte list list \<Rightarrow> time \<Rightarrow> (auth_error + mfa_setup) \<times> authenticator" where
  "EnableMFA a userID method rsecret rcodes now =
     (case GetUser (a_store a) userID of
        None \<Rightarrow> (Inl Auth_User_Not_Found, a)
      | Some u \<Rightarrow>
          if mfa_Enabled (u_MFA u) then (Inl MFA_Already_Enabled, a)
          else if method \<noteq> ''totp'' then (Inl (Unsupported_MFA_Method method), a)
          else let secret = GenerateMFASecret rsecret; codes = GenerateBackupCodes rcodes;
                   u' = u\<lparr>u_MFA := \<lparr>mfa_Enabled = True, Method = method, Secret = secret, LastUsed = zero_time, BackupCodes = codes\<rparr>,
                          u_UpdatedAt := now\<rparr>
               in case SaveUser (a_store a) u' of
                    Inl e \<Rightarrow> (Inl (Save_User e), a)
                  | Inr s \<Rightarrow> (Inr \<lparr>ms_Secret = secret, ms_BackupCodes = codes, QRCodeURL = GenerateTOTPURL secret (Email u)\<rparr>, a\<lparr>a_store := s\<rparr>))"

definition DisableMFA :: "authenticator \<Rightarrow> string \<Rightarrow> time \<Rightarrow> auth_error option \<times> authenticator" where
  "DisableMFA a userID now =
     (case GetUser (a_store a) userID of
        None \<Rightarrow> (Some Auth_User_Not_Found, a)
      | Some u \<Rightarrow>
          (case SaveUser (a_store a) (u\<lparr>u_MFA := no_mfa, u_UpdatedAt := now\<rparr>) of
             Inl e \<Rightarrow> (Some (Save_User e), a)
           | Inr s \<Rightarrow> (None, a\<lparr>a_store := s\<rparr>)))"

definition Logout :: "authenticator \<Rightarrow> string \<Rightarrow> authenticator" where
  "Logout a token = a\<lparr>a_store := DeleteSession (a_store a) token\<rparr>"

definition LogoutAll :: "authenticator \<Rightarrow> string \<Rightarrow> authenticator" where
  "LogoutAll a userID = a\<lparr>a_store := DeleteUserSessions (a_store a) userID\<rparr>"

definition auth_CleanupExpiredSessions :: "authenticator \<Rightarrow> time \<Rightarrow> authenticator" where
  "auth_CleanupExpiredSessions a now = a\<lparr>a_store := CleanupExpiredSessions (a_store a) now\<rparr>"

end
