(* ===== verification/Auth_Proofs.thy ===== *)
theory Auth_Proofs
  imports Auth
begin

section \<open>Authentication: what it guarantees\<close>

text \<open>
  Accounts and sessions stay consistent under every sequence of operations, sessions live from login
  to expiry or logout, one-time codes and backup codes open a session for their owner only, and
  signed tokens are accepted exactly when they are genuine and fresh.
\<close>

subsection \<open>Consistency\<close>

datatype auth_op =
    A_Create "string \<Rightarrow> string option" "permission list \<Rightarrow> permission list" create_user_request "byte list" time time
  | A_Password "string \<Rightarrow> string \<Rightarrow> bool" string string login_draw
  | A_SSO "permission list \<Rightarrow> permission list" string string time "byte list" time time login_draw
  | A_Verify string time
  | A_MFA string string time time
  | A_Enable string string "byte list" "byte list list" time
  | A_Disable string time
  | A_Logout string
  | A_LogoutAll string
  | A_Cleanup time
  | A_Delete string
  | A_Register sso_provider

fun auth_exec :: "authenticator \<Rightarrow> auth_op \<Rightarrow> authenticator" where
  "auth_exec a (A_Create gen ord req rid t1 t2) = snd (CreateUser gen ord a req rid t1 t2)"
| "auth_exec a (A_Password cmp n p d) = snd (AuthenticateWithPassword cmp a n p d)"
| "auth_exec a (A_SSO ord p c tx rid t1 t2 d) = snd (AuthenticateWithSSO ord a p c tx rid t1 t2 d)"
| "auth_exec a (A_Verify tok t) = snd (VerifySession a tok t)"
| "auth_exec a (A_MFA tok c t t') = snd (VerifyMFA a tok c t t')"
| "auth_exec a (A_Enable i m r rs t) = snd (EnableMFA a i m r rs t)"
| "auth_exec a (A_Disable i t) = snd (DisableMFA a i t)"
| "auth_exec a (A_Logout tok) = Logout a tok"
| "auth_exec a (A_LogoutAll i) = LogoutAll a i"
| "auth_exec a (A_Cleanup t) = auth_CleanupExpiredSessions a t"
| "auth_exec a (A_Delete i) = (case DeleteUser (a_store a) i of Inl _ \<Rightarrow> a | Inr s \<Rightarrow> a\<lparr>a_store := s\<rparr>)"
| "auth_exec a (A_Register p) = RegisterSSOProvider a p"

lemma store_invar_keep: "store_invar s \<Longrightarrow> store_invar (save_user_or_keep s u)"
  by (auto simp: save_user_or_keep_def store_invar_SaveUser split: sum.splits)

lemma store_invar_start_session:
  "store_invar (a_store a) \<Longrightarrow> GetUser (a_store a) (u_ID u) \<noteq> None \<Longrightarrow> store_invar (a_store (snd (start_session a u d)))"
  by (simp add: start_session_def Let_def new_session_def store_invar_keep store_invar_SaveSession)

lemma store_invar_dir: "store_invar s \<Longrightarrow> dir_invar s"
  by (simp add: store_invar_def)

lemma GetUserByUsername_GetUser: "store_invar s \<Longrightarrow> GetUserByUsername s n = Some u \<Longrightarrow> GetUser s (u_ID u) = Some u \<and> Username u = n"
  using accounts.by_name_iff store_invar_dir by blast

lemma GetUserByEmail_GetUser: "store_invar s \<Longrightarrow> GetUserByEmail s m = Some u \<Longrightarrow> GetUser s (u_ID u) = Some u \<and> Email u = m"
  using accounts.by_email_iff store_invar_dir by blast

lemma GetUser_saved: "SaveUser s u = Inr s' \<Longrightarrow> GetUser s' (u_ID u) = Some u"
  using accounts.get_save [of s u s'] by simp

lemma invar_AuthenticateWithSSO:
  assumes "store_invar (a_store a)"
  shows "store_invar (a_store (snd (AuthenticateWithSSO ord a p c tx rid t1 t2 d)))"
proof (cases "fmlookup (ssoProviders a) p")
  case prov: (Some sp)
  show ?thesis
  proof (cases "sp_ExchangeCode sp tx c")
    case ex: (Inr su)
    show ?thesis
    proof (cases "GetUserByEmail (a_store a) (sso_Email su)")
      case None
      let ?u = "\<lparr>u_ID = generateID rid, Username = sso_Username su, Email = sso_Email su,
                  DisplayName = sso_DisplayName su, PasswordHash = [], Roles = [RoleDeveloper],
                  Permissions = CalculatePermissions ord [RoleDeveloper] [], u_MFA = no_mfa,
                  u_SSOProvider = p, SSOExternalID = ExternalID su, WorkspaceID = [],
                  LastLogin = zero_time, u_CreatedAt = t1, u_UpdatedAt = t2, u_Active = True, u_Metadata = fmempty\<rparr>"
      show ?thesis
      proof (cases "SaveUser (a_store a) ?u")
        case (Inr s)
        have "store_invar (a_store (snd (start_session (a\<lparr>a_store := s\<rparr>) ?u d)))"
          by (rule store_invar_start_session) (use store_invar_SaveUser [OF assms Inr] GetUser_saved [OF Inr] in simp_all)
        with prov ex None Inr show ?thesis by (simp add: AuthenticateWithSSO_def Let_def split_beta)
      qed (use assms prov ex None in \<open>simp add: AuthenticateWithSSO_def Let_def\<close>)
    next
      case (Some u)
      have "store_invar (a_store (snd (start_session a u d)))"
        using GetUserByEmail_GetUser [OF assms Some] by (intro store_invar_start_session assms) simp
      with assms prov ex Some show ?thesis by (simp add: AuthenticateWithSSO_def Let_def split_beta)
    qed
  qed (use assms prov in \<open>simp add: AuthenticateWithSSO_def\<close>)
qed (use assms in \<open>simp add: AuthenticateWithSSO_def\<close>)

lemma invar_VerifyMFA:
  assumes inv: "store_invar (a_store a)"
  shows "store_invar (a_store (snd (VerifyMFA a tok c t t')))"
proof -
  have "store_invar (SaveSession (a_store a) (se\<lparr>MFAVerified := True\<rparr>))" if "GetUser (a_store a) (s_UserID se) = Some u" for se u
    using that by (intro store_invar_SaveSession inv) simp
  then show ?thesis using inv
    by (auto simp: VerifyMFA_def store_invar_keep split: option.splits)
qed

lemma auth_exec_invar:
  assumes inv: "store_invar (a_store a)"
  shows "store_invar (a_store (auth_exec a c))"
proof (cases c)
  case (A_Create gen ord req rid t1 t2)
  then show ?thesis using inv
    by (auto simp: CreateUser_def Let_def store_invar_SaveUser split: sum.splits)
next
  case (A_Password cmp n p d)
  then show ?thesis using inv GetUserByUsername_GetUser [OF inv]
    by (auto simp: AuthenticateWithPassword_def split_beta Let_def store_invar_start_session split: option.splits)
next
  case (A_Verify tok t)
  then show ?thesis using inv
    by (auto simp: VerifySession_def store_invar_DeleteSession split: option.splits)
next
  case (A_Enable i m r rs t)
  then show ?thesis using inv
    by (auto simp: EnableMFA_def Let_def store_invar_SaveUser split: option.splits sum.splits)
next
  case (A_Disable i t)
  then show ?thesis using inv
    by (auto simp: DisableMFA_def store_invar_SaveUser split: option.splits sum.splits)
next
  case (A_Delete i)
  then show ?thesis using inv DeleteUser_spec(1) [OF inv] by (auto split: sum.splits)
qed (use inv in \<open>simp_all add: invar_AuthenticateWithSSO invar_VerifyMFA Logout_def LogoutAll_def auth_CleanupExpiredSessions_def
  DeleteUserSessions_def CleanupExpiredSessions_def store_invar_drop store_invar_DeleteSession RegisterSSOProvider_def\<close>)

interpretation auth: op_system auth_exec "\<lambda>a. store_invar (a_store a)"
  by unfold_locales (rule auth_exec_invar)

text \<open>
  C20: accounts stay consistent. After any sequence of registrations, logins by password and single
  sign-on, session checks, changes of the second factor, logouts, clean-ups and deletions (also ones
  whose random ids collide), no two users share a name or an email, looking a user up by name or by
  email finds exactly the user that has it, and every session belongs to an existing user.
\<close>

theorem accounts_stay_consistent:
  assumes s_def: "s = a_store (foldl auth_exec (NewAuthenticator auth_NewMemoryStore issuer audience) ops)"
  shows "(GetUser s i = Some u \<and> GetUser s j = Some v \<and> (Username u = Username v \<or> Email u = Email v) \<longrightarrow> i = j)
    \<and> (GetUserByUsername s n = Some u \<longleftrightarrow> GetUser s (u_ID u) = Some u \<and> Username u = n)
    \<and> (GetUserByEmail s m = Some u \<longleftrightarrow> GetUser s (u_ID u) = Some u \<and> Email u = m)
    \<and> (GetSession s t = Some se \<longrightarrow> Token se = t \<and> (\<exists>w. GetUser s (s_UserID se) = Some w))"
proof -
  have "store_invar (a_store (NewAuthenticator auth_NewMemoryStore issuer audience))"
    by (simp add: NewAuthenticator_def store_invar_new)
  then have inv: "store_invar s" unfolding s_def by (rule auth.run_invar)
  then have dir: "dir_invar s" by (rule store_invar_dir)
  have "i = j" if "GetUser s i = Some u" "GetUser s j = Some v" "Username u = Username v \<or> Email u = Email v"
    using that accounts.unique_email [OF dir that(1,2)] accounts.unique_name [OF dir that(1,2)] accounts.get_id [OF dir]
    by auto
  with inv accounts.by_name_iff [OF dir] accounts.by_email_iff [OF dir] show ?thesis
    by (auto simp: store_invar_def)
qed

definition demo_request :: create_user_request where
  "demo_request = \<lparr>cr_Username = ''ann'', cr_Email = ''a@x'', cr_DisplayName = [], cr_Password = ''pw'', cr_Roles = [], cr_Permissions = [],
     cr_WorkspaceID = [], cr_Metadata = fmempty\<rparr>"

text \<open>A stand-in for bcrypt that keeps its documented limit of 72 bytes.\<close>

definition demo_gen :: "string \<Rightarrow> string option" where
  "demo_gen p = (if length p > 72 then None else Some (CHR ''$'' # p))"

definition demo_cmp :: "string \<Rightarrow> string \<Rightarrow> bool" where
  "demo_cmp h p = (h = CHR ''$'' # p)"

theorem accounts_stay_consistent_witness:
  "\<exists>s u. s = a_store (foldl auth_exec (NewAuthenticator auth_NewMemoryStore [] [])
       [A_Create demo_gen id demo_request [7] 1 1, A_Create demo_gen id (demo_request\<lparr>cr_Username := ''bob''\<rparr>) [8] 2 2])
     \<and> GetUserByUsername s ''ann'' = Some u \<and> GetUser s (u_ID u) = Some u \<and> Username u = ''ann'' \<and> GetUserByUsername s ''bob'' = None"
proof -
  define s where "s = a_store (foldl auth_exec (NewAuthenticator auth_NewMemoryStore [] [])
       [A_Create demo_gen id demo_request [7] 1 1, A_Create demo_gen id (demo_request\<lparr>cr_Username := ''bob''\<rparr>) [8] 2 2])"
  note D = CreateUser_def demo_request_def NewAuthenticator_def auth_NewMemoryStore_def GetUserByUsername_def GetUserByEmail_def
    SaveUser_def GetUser_def Let_def
  have b: "GetUserByUsername s ''bob'' = None" unfolding s_def by (simp add: D)
  have "GetUserByUsername s ''ann'' \<noteq> None" unfolding s_def by (simp add: D)
  then obtain u where u: "GetUserByUsername s ''ann'' = Some u" by blast
  with b accounts_stay_consistent [OF s_def, of _ u _ _ "''ann''"] s_def show ?thesis by blast
qed

subsection \<open>Sessions\<close>

lemma GetSession_keep [simp]: "GetSession (save_user_or_keep s u) t = GetSession s t"
  by (auto simp: save_user_or_keep_def split: sum.splits)

lemma GetSession_SaveSession: "GetSession (SaveSession s se) t = (if t = Token se then Some se else GetSession s t)"
  by (simp add: GetSession_def SaveSession_def)

lemma GetUser_SaveSession [simp]: "GetUser (SaveSession s se) i = GetUser s i"
  by (simp add: SaveSession_def)

lemma dir_invar_SaveSession [simp]: "dir_invar (SaveSession s se) = dir_invar s"
  by (simp add: SaveSession_def)

lemma GetUser_keep:
  assumes "dir_invar s" "GetUser s (u_ID u) = Some u" "u_ID u' = u_ID u" "Email u' = Email u" "Username u' = Username u"
  shows "GetUser (save_user_or_keep s u') i = (if i = u_ID u then Some u' else GetUser s i)"
proof -
  obtain s' where s': "SaveUser s u' = Inr s'" by (rule accounts.save_back [OF assms])
  then show ?thesis using accounts.get_save [OF s'] assms(3) by (simp add: save_user_or_keep_def)
qed

lemma start_session_spec:
  assumes "store_invar (a_store a)" "GetUser (a_store a) (u_ID u) = Some u" "start_session a u d = (se, a')"
  shows "se = new_session u d" "GetSession (a_store a') t = (if t = Token se then Some se else GetSession (a_store a) t)"
    and "GetUser (a_store a') i = (if i = u_ID u then Some (u\<lparr>LastLogin := d_login d\<rparr>) else GetUser (a_store a) i)"
proof -
  show se: "se = new_session u d" using assms(3) by (simp add: start_session_def Let_def)
  have a': "a_store a' = save_user_or_keep (SaveSession (a_store a) se) (u\<lparr>LastLogin := d_login d\<rparr>)"
    using assms(3) by (auto simp: start_session_def Let_def)
  show "GetSession (a_store a') t = (if t = Token se then Some se else GetSession (a_store a) t)"
    by (simp add: a' GetSession_SaveSession)
  show "GetUser (a_store a') i = (if i = u_ID u then Some (u\<lparr>LastLogin := d_login d\<rparr>) else GetUser (a_store a) i)"
    unfolding a' using assms(1,2) by (subst GetUser_keep [where u = u]) (simp_all add: store_invar_dir)
qed

text \<open>
  C17: sessions. A login by password succeeds exactly for the right password of an active user; the
  session it returns verifies, as that user and without a second factor, until 24 hours later, and
  no longer after that, after a logout, after all sessions of the user are ended or after the user
  is deleted; other sessions are not touched by the login.
\<close>

theorem session_lifecycle:
  assumes inv: "store_invar (a_store a)" and run: "AuthenticateWithPassword cmp a username password d = (r, a')"
  shows "((\<exists>se. r = Inr se) \<longleftrightarrow> (\<exists>u. GetUserByUsername (a_store a) username = Some u \<and> u_Active u \<and> VerifyPassword cmp password (PasswordHash u)))
    \<and> (\<forall>e. r = Inl e \<longrightarrow> a' = a \<and> e = (case GetUserByUsername (a_store a) username of
            Some u \<Rightarrow> if u_Active u then Invalid_Credentials else Account_Disabled | None \<Rightarrow> Invalid_Credentials))
    \<and> (r = Inr se \<and> GetUserByUsername (a_store a) username = Some u \<longrightarrow>
      (now \<le> d_expiry d + session_ns \<longrightarrow> fst (VerifySession a' (Token se) now) = Inr (u\<lparr>LastLogin := d_login d\<rparr>, se)
         \<and> Username u = username \<and> \<not> MFAVerified se)
      \<and> (now > d_expiry d + session_ns \<longrightarrow> VerifySession a' (Token se) now = (Inl Session_Expired, Logout a' (Token se)))
      \<and> fst (VerifySession (Logout a' (Token se)) (Token se) now) = Inl Invalid_Session
      \<and> fst (VerifySession (LogoutAll a' (u_ID u)) (Token se) now) = Inl Invalid_Session
      \<and> (\<exists>s. DeleteUser (a_store a') (u_ID u) = Inr s \<and> fst (VerifySession (a'\<lparr>a_store := s\<rparr>) (Token se) now) = Inl Invalid_Session)
      \<and> (t \<noteq> Token se \<longrightarrow> GetSession (a_store a') t = GetSession (a_store a) t))"
proof -
  have A: "((\<exists>se. r = Inr se) \<longleftrightarrow> (\<exists>u. GetUserByUsername (a_store a) username = Some u \<and> u_Active u \<and> VerifyPassword cmp password (PasswordHash u)))"
    using run by (auto simp: AuthenticateWithPassword_def split_beta Let_def split: option.splits if_splits)
  have B: "(\<forall>e. r = Inl e \<longrightarrow> a' = a \<and> e = (case GetUserByUsername (a_store a) username of
            Some u \<Rightarrow> if u_Active u then Invalid_Credentials else Account_Disabled | None \<Rightarrow> Invalid_Credentials))"
    using run by (auto simp: AuthenticateWithPassword_def split_beta Let_def split: option.splits if_splits)
  have C: "(now \<le> d_expiry d + session_ns \<longrightarrow> fst (VerifySession a' (Token se) now) = Inr (u\<lparr>LastLogin := d_login d\<rparr>, se)
         \<and> Username u = username \<and> \<not> MFAVerified se)
      \<and> (now > d_expiry d + session_ns \<longrightarrow> VerifySession a' (Token se) now = (Inl Session_Expired, Logout a' (Token se)))
      \<and> fst (VerifySession (Logout a' (Token se)) (Token se) now) = Inl Invalid_Session
      \<and> fst (VerifySession (LogoutAll a' (u_ID u)) (Token se) now) = Inl Invalid_Session
      \<and> (\<exists>s. DeleteUser (a_store a') (u_ID u) = Inr s \<and> fst (VerifySession (a'\<lparr>a_store := s\<rparr>) (Token se) now) = Inl Invalid_Session)
      \<and> (t \<noteq> Token se \<longrightarrow> GetSession (a_store a') t = GetSession (a_store a) t)"
    if r: "r = Inr se" and u: "GetUserByUsername (a_store a) username = Some u"
  proof -
    from GetUserByUsername_GetUser [OF inv u] have gu: "GetUser (a_store a) (u_ID u) = Some u" "Username u = username" by auto
    from run r u have st: "start_session a u d = (se, a')" and act: "u_Active u"
      by (auto simp: AuthenticateWithPassword_def split_beta Let_def split: if_splits)
    note S = start_session_spec [OF inv gu(1) st]
    have inv': "store_invar (a_store a')" using store_invar_start_session [OF inv, of u d] gu(1) st by simp
    have se: "GetSession (a_store a') (Token se) = Some se" "s_UserID se = u_ID u" "ExpiresAt se = d_expiry d + session_ns" "\<not> MFAVerified se"
      by (simp_all add: S(2)) (simp_all add: S(1) new_session_def)
    have us: "GetUser (a_store a') (u_ID u) = Some (u\<lparr>LastLogin := d_login d\<rparr>)" by (simp add: S(3))
    obtain s where s: "DeleteUser (a_store a') (u_ID u) = Inr s" using us by (simp add: DeleteUser_def GetUser_def)
    have "GetSession s (Token se) = None" using DeleteUser_spec(3) [OF inv' s] se by simp
    moreover have "GetSession (a_store (LogoutAll a' (u_ID u))) (Token se) = None"
      using se by (simp add: LogoutAll_def DeleteUserSessions_def GetSession_drop)
    moreover have "GetSession (a_store (Logout a' (Token se))) (Token se) = None"
      by (simp add: Logout_def GetSession_DeleteSession)
    ultimately show ?thesis
      using se us s act gu(2) S(2) by (simp add: VerifySession_def Logout_def)
  qed
  from A B C show ?thesis by blast
qed

definition demo_draw :: login_draw where
  "demo_draw = \<lparr>d_id = [1], d_token = [1, 2, 3], d_expiry = 100, d_created = 101, d_login = 102\<rparr>"

definition demo_auth :: authenticator where
  "demo_auth = snd (CreateUser demo_gen id (NewAuthenticator auth_NewMemoryStore [] []) demo_request [7] 1 1)"

lemma demo_auth_invar: "store_invar (a_store demo_auth)"
  using auth_exec_invar [of "NewAuthenticator auth_NewMemoryStore [] []" "A_Create demo_gen id demo_request [7] 1 1"] store_invar_new
  by (simp add: demo_auth_def NewAuthenticator_def)

theorem session_lifecycle_witness:
  "\<exists>r a'. AuthenticateWithPassword demo_cmp demo_auth ''ann'' ''pw'' demo_draw = (r, a') \<and> (\<exists>se. r = Inr se)"
proof -
  obtain r a' where run: "AuthenticateWithPassword demo_cmp demo_auth ''ann'' ''pw'' demo_draw = (r, a')" by fastforce
  have "\<exists>u. GetUserByUsername (a_store demo_auth) ''ann'' = Some u \<and> u_Active u \<and> VerifyPassword demo_cmp ''pw'' (PasswordHash u)"
    by (simp add: demo_auth_def CreateUser_def demo_request_def NewAuthenticator_def auth_NewMemoryStore_def GetUserByUsername_def
        GetUserByEmail_def SaveUser_def GetUser_def Let_def HashPassword_def demo_gen_def VerifyPassword_def looksLikeLegacySHA256_def demo_cmp_def)
  then have "\<exists>se. r = Inr se" by (rule iffD2 [OF session_lifecycle [OF demo_auth_invar run, THEN conjunct1]])
  with run show ?thesis by blast
qed

subsection \<open>One-time codes\<close>

lemma length_dec_nat: "n < 10 ^ Suc k \<Longrightarrow> length (dec_nat n) \<le> Suc k"
proof (induction n arbitrary: k rule: dec_nat.induct)
  case (1 n)
  show ?case
  proof (cases "n < 10")
    case False
    with 1(2) obtain k' where k: "k = Suc k'" by (cases k) auto
    with 1(2) have "n div 10 < 10 ^ Suc k'" by (simp add: less_mult_imp_div_less mult.commute)
    from 1(1) [OF False this] False k show ?thesis by (simp add: dec_nat.simps [of n])
  qed (simp add: dec_nat.simps [of n])
qed

lemma length_pad6: "n < 1000000 \<Longrightarrow> length (pad6 n) = 6"
  using length_dec_nat [of n 5] by (simp add: pad6_def Let_def)

lemma length_generateTOTPCode [simp]: "length (generateTOTPCode key step) = 6"
  by (simp add: generateTOTPCode_def length_pad6)

text \<open>Every index of the truncation is in range.\<close>

lemma totp_index_in_range: "unat (last (hmac sha1 key msg) AND 0x0f) + 3 < length (hmac sha1 key msg)"
proof -
  have "last (hmac sha1 key msg) AND 0x0f \<le> 0x0f" by (rule word_and_le1)
  then have "unat (last (hmac sha1 key msg) AND 0x0f) \<le> 15" by (simp add: word_le_nat_alt)
  then show ?thesis by simp
qed

lemma base32_alphabet_plain:
  "\<forall>c \<in> set base32_alphabet. to_upper_char c = c \<and> c \<noteq> CHR '' '' \<and> c \<noteq> CHR ''-'' \<and> c \<noteq> CHR 0x0A \<and> c \<noteq> CHR 0x0D"
  by (simp add: base32_alphabet_def to_upper_char_def less_eq_char_def)

lemma base32_alphabet_ok: "distinct base32_alphabet" "length base32_alphabet = 2 ^ 5"
  by (simp_all add: base32_alphabet_def)

lemma set_base32_Encode: "set (base32_EncodeToString bs) \<subseteq> set base32_alphabet"
  unfolding base32_EncodeToString_def using base32_alphabet_ok(2) by (intro set_encode_bits) simp_all

lemma encoded_char:
  assumes "c \<in> set (base32_EncodeToString bs)"
  shows "to_upper_char c = c" "c \<noteq> CHR '' ''" "c \<noteq> CHR ''-''" "c \<noteq> CHR 0x0A" "c \<noteq> CHR 0x0D"
proof -
  have "c \<in> set base32_alphabet" by (rule subsetD [OF set_base32_Encode assms])
  note p = bspec [OF base32_alphabet_plain this]
  show "to_upper_char c = c" "c \<noteq> CHR '' ''" "c \<noteq> CHR ''-''" "c \<noteq> CHR 0x0A" "c \<noteq> CHR 0x0D"
    using p by - (elim conjE, assumption)+
qed

lemma normalize_encoded: "normalizeTOTPSecret (base32_EncodeToString bs) = base32_EncodeToString bs"
proof -
  have "ToUpper (base32_EncodeToString bs) = base32_EncodeToString bs"
    unfolding ToUpper_def by (rule map_idI) (rule encoded_char)
  moreover have "filter (\<lambda>c. c \<noteq> CHR '' '') (base32_EncodeToString bs) = base32_EncodeToString bs"
    by (rule filter_True) (blast dest: encoded_char(2))
  moreover have "filter (\<lambda>c. c \<noteq> CHR ''-'') (base32_EncodeToString bs) = base32_EncodeToString bs"
    by (rule filter_True) (blast dest: encoded_char(3))
  ultimately show ?thesis by (simp only: normalizeTOTPSecret_def)
qed

lemma encoded_groups: "(8 * n + (5 - 8 * n mod 5) mod 5) div 5 mod 8 \<notin> {1, 3, 6 :: nat}"
proof -
  define q r where "q = n div 5" and "r = n mod 5"
  then have n: "n = 5 * q + r" "r < 5" by simp_all
  have g: "(8 * n + (5 - 8 * n mod 5) mod 5) div 5 mod 8 = (8 * r + (5 - 8 * r mod 5) mod 5) div 5 mod 8"
  proof -
    have e: "8 * n = 8 * r + 8 * q * 5" by (simp add: n(1))
    have "8 * n mod 5 = 8 * r mod 5" unfolding e by (rule mod_mult_self1)
    moreover have "(8 * n + x) div 5 = (8 * r + x) div 5 + 8 * q" for x
    proof -
      have "8 * n + x = (8 * r + x) + 8 * q * 5" unfolding e by simp
      then show ?thesis by (simp only: div_mult_self1)
    qed
    ultimately show ?thesis by (simp only: mod_mult_self2)
  qed
  from n(2) consider "r = 0" | "r = 1" | "r = 2" | "r = 3" | "r = 4" by linarith
  then show ?thesis unfolding g by cases simp_all
qed

lemma base32_roundtrip: "base32_DecodeString (base32_EncodeToString bs) = Some bs"
proof -
  have "strip_newlines (base32_EncodeToString bs) = base32_EncodeToString bs"
    unfolding strip_newlines_def by (rule filter_True) (blast dest: encoded_char(4,5))
  moreover have "length (base32_EncodeToString bs) mod 8 \<notin> {1, 3, 6}"
    using encoded_groups [of "length bs"] by (simp add: base32_EncodeToString_def length_encode_bits)
  moreover have "decode_bits base32_alphabet 5 (base32_EncodeToString bs) = Some bs"
    unfolding base32_EncodeToString_def using base32_alphabet_ok by (intro decode_encode_bits) simp_all
  ultimately show ?thesis by (simp add: base32_DecodeString_def Let_def)
qed

lemma VerifyTOTP_iff:
  "VerifyTOTP (GenerateMFASecret key) code now \<longleftrightarrow>
     (\<exists>step. totp_step now - 1 \<le> step \<and> step \<le> totp_step now + 1 \<and> code = generateTOTPCode key step)"
proof -
  have "VerifyTOTP (GenerateMFASecret key) code now \<longleftrightarrow> length code = 6 \<and>
      (code = generateTOTPCode key (totp_step now - 1) \<or> code = generateTOTPCode key (totp_step now)
       \<or> code = generateTOTPCode key (totp_step now + 1))"
    by (auto simp: VerifyTOTP_def GenerateMFASecret_def normalize_encoded base32_roundtrip)
  also have "\<dots> \<longleftrightarrow> (\<exists>step. totp_step now - 1 \<le> step \<and> step \<le> totp_step now + 1 \<and> code = generateTOTPCode key step)"
  proof -
    have "step \<in> {totp_step now - 1, totp_step now, totp_step now + 1} \<longleftrightarrow> totp_step now - 1 \<le> step \<and> step \<le> totp_step now + 1" for step
      by auto
    then show ?thesis by (metis insertCI insertE length_generateTOTPCode singletonD)
  qed
  finally show ?thesis .
qed

lemma use_backup_code_iff: "use_backup_code codes code = (if code \<in> set codes then Some (remove1 code codes) else None)"
  by (induction codes) auto

lemma VerifyMFA_success:
  assumes inv: "store_invar (a_store a)" and se: "GetSession (a_store a) tok = Some se"
    and u: "GetUser (a_store a) (s_UserID se) = Some u"
    and run: "VerifyMFA a tok code now t = (None, a')"
  defines "codes \<equiv> if VerifyTOTP (Secret (u_MFA u)) code now then BackupCodes (u_MFA u) else remove1 code (BackupCodes (u_MFA u))"
  shows "GetSession (a_store a') x = (if x = tok then Some (se\<lparr>MFAVerified := True\<rparr>) else GetSession (a_store a) x)"
    and "GetUser (a_store a') i = (if i = s_UserID se then Some (u\<lparr>u_MFA := (u_MFA u)\<lparr>BackupCodes := codes, LastUsed := t\<rparr>\<rparr>)
           else GetUser (a_store a) i)"
proof -
  have tok: "Token se = tok" using inv se by (simp add: store_invar_def)
  have dir: "dir_invar (a_store a)" using inv by (rule store_invar_dir)
  have uid: "u_ID u = s_UserID se" using accounts.get_id [OF dir u] .
  have a': "a_store a' = save_user_or_keep (SaveSession (a_store a) (se\<lparr>MFAVerified := True\<rparr>))
      (u\<lparr>u_MFA := (u_MFA u)\<lparr>BackupCodes := codes, LastUsed := t\<rparr>\<rparr>)"
    using run se u by (auto simp: VerifyMFA_def codes_def use_backup_code_iff split: option.splits if_splits)
  show "GetSession (a_store a') x = (if x = tok then Some (se\<lparr>MFAVerified := True\<rparr>) else GetSession (a_store a) x)"
    by (simp add: a' GetSession_SaveSession tok)
  show "GetUser (a_store a') i = (if i = s_UserID se then Some (u\<lparr>u_MFA := (u_MFA u)\<lparr>BackupCodes := codes, LastUsed := t\<rparr>\<rparr>)
           else GetUser (a_store a) i)"
    unfolding a' by (subst GetUser_keep [where u = u]) (use dir u uid in simp_all)
qed


definition demo_mfa :: authenticator where
  "demo_mfa = foldl auth_exec demo_auth
     [A_Enable (generateID [7]) ''totp'' [1, 2] [[1, 2, 3, 4]] 5, A_Password demo_cmp ''ann'' ''pw'' demo_draw]"


subsection \<open>Registration and passwords\<close>

text \<open>
  registration and login. With bcrypt behaving as documented (a hash of 60 bytes that its own
  password matches, an error exactly for passwords over 72 bytes), a user registered with a password
  of 1 to 72 bytes can log in with it at once; with a longer password the registration succeeds too,
  but stores no hash, and no password logs in.
\<close>

theorem registration_then_login:
  assumes inv: "store_invar (a_store a)"
    and gen: "\<And>p h. gen p = Some h \<Longrightarrow> length h = 60 \<and> cmp h p" "\<And>p. gen p = None \<longleftrightarrow> length p > 72"
    and req: "cr_Password req \<noteq> []" and run: "CreateUser gen ord a req rid t1 t2 = (Inr u, a')"
  shows "(length (cr_Password req) \<le> 72 \<longrightarrow>
           (\<exists>se. fst (AuthenticateWithPassword cmp a' (cr_Username req) (cr_Password req) d) = Inr se \<and> s_UserID se = u_ID u))
    \<and> (length (cr_Password req) > 72 \<longrightarrow>
           fst (AuthenticateWithPassword cmp a' (cr_Username req) password d) = Inl Invalid_Credentials)"
proof -
  from run obtain s where s: "SaveUser (a_store a) u = Inr s" "a' = a\<lparr>a_store := s\<rparr>"
      and u: "Username u = cr_Username req" "u_Active u" "PasswordHash u = HashPassword gen (cr_Password req)"
    using req by (auto simp: CreateUser_def Let_def split: if_splits sum.splits)
  have dir: "dir_invar s" using store_invar_SaveUser [OF inv s(1)] by (rule store_invar_dir)
  have gu: "GetUserByUsername s (cr_Username req) = Some u"
    using accounts.by_name_iff [OF dir, of "cr_Username req" u] accounts.get_save [OF s(1), of "u_ID u"] u(1) by simp
  have long: "PasswordHash u = []" if "length (cr_Password req) > 72"
    using that gen(2) [of "cr_Password req"] by (simp add: u(3) HashPassword_def)
  have short: "VerifyPassword cmp (cr_Password req) (PasswordHash u)" if "length (cr_Password req) \<le> 72"
  proof -
    from that gen(2) [of "cr_Password req"] obtain h where h: "gen (cr_Password req) = Some h" by fastforce
    from gen(1) [OF h] have "length h = 60" "cmp h (cr_Password req)" by auto
    with h show ?thesis by (auto simp: u(3) HashPassword_def VerifyPassword_def looksLikeLegacySHA256_def)
  qed
  show ?thesis
    using gu s(2) u(2) long short by (auto simp: AuthenticateWithPassword_def VerifyPassword_def start_session_def new_session_def Let_def)
qed

definition demo_bcrypt :: "string \<Rightarrow> string option" where
  "demo_bcrypt p = (if length p > 72 then None else Some (replicate 60 CHR ''$''))"

theorem registration_then_login_witness:
  "fst (AuthenticateWithPassword (\<lambda>_ _. True) (snd (CreateUser demo_bcrypt id (NewAuthenticator auth_NewMemoryStore [] [])
       (demo_request\<lparr>cr_Password := replicate 73 CHR ''p''\<rparr>) [7] 1 1)) ''ann'' (replicate 73 CHR ''p'') demo_draw) = Inl Invalid_Credentials"
proof -
  let ?a = "NewAuthenticator auth_NewMemoryStore [] []" and ?req = "demo_request\<lparr>cr_Password := replicate 73 CHR ''p''\<rparr>"
  have inv: "store_invar (a_store ?a)" by (simp add: NewAuthenticator_def store_invar_new)
  have g: "length h = 60 \<and> True" if "demo_bcrypt p = Some h" for p h
    using that by (auto simp: demo_bcrypt_def split: if_splits)
  have n: "demo_bcrypt p = None \<longleftrightarrow> length p > 72" for p by (simp add: demo_bcrypt_def)
  have pw: "cr_Password ?req \<noteq> []" "length (cr_Password ?req) > 72" "cr_Username ?req = ''ann''" by (simp_all add: demo_request_def)
  obtain u a' where run: "CreateUser demo_bcrypt id ?a ?req [7] 1 1 = (Inr u, a')"
    by (simp add: CreateUser_def demo_request_def NewAuthenticator_def auth_NewMemoryStore_def GetUserByUsername_def GetUserByEmail_def
        SaveUser_def Let_def)
  from registration_then_login [of ?a demo_bcrypt "\<lambda>_ _. True" ?req id "[7]" 1 1 u a' demo_draw "replicate 73 CHR ''p''", OF inv g n pw(1) run] pw(2,3) run
  show ?thesis by simp
qed

subsection \<open>Signed tokens\<close>

lemma split_at_nonempty: "split_at c s \<noteq> []"
  by (induction s) (auto split: list.splits)

lemma split_at_append: "c \<notin> set p \<Longrightarrow> split_at c (p @ c # s) = p # split_at c s"
  using split_at_nonempty [of c s] by (induction p) (auto split: list.splits)

lemma split_at_plain: "c \<notin> set p \<Longrightarrow> split_at c p = [p]"
  by (induction p) (auto split: list.splits)

lemma split_at_Cons: "split_at c s = p # ps \<Longrightarrow> c \<notin> set p \<and> (if ps = [] then s = p else \<exists>s'. s = p @ c # s' \<and> split_at c s' = ps)"
proof (induction s arbitrary: p ps)
  case (Cons x s)
  show ?case
  proof (cases "x = c")
    case True
    then show ?thesis using Cons.prems split_at_nonempty [of c s] by (auto split: list.splits)
  next
    case False
    obtain w ws where w: "split_at c s = w # ws" using split_at_nonempty [of c s] by (cases "split_at c s") auto
    with False Cons.prems have "p = x # w" "ps = ws" by auto
    with Cons.IH [OF w] False show ?thesis by (auto split: if_splits)
  qed
qed simp

lemma split_at_three:
  "split_at c s = [p0, p1, p2] \<longleftrightarrow> s = p0 @ c # p1 @ c # p2 \<and> c \<notin> set p0 \<and> c \<notin> set p1 \<and> c \<notin> set p2"
proof
  assume "split_at c s = [p0, p1, p2]"
  from split_at_Cons [OF this] obtain s' where s': "c \<notin> set p0" "s = p0 @ c # s'" "split_at c s' = [p1, p2]" by auto
  from split_at_Cons [OF s'(3)] obtain s'' where s'': "c \<notin> set p1" "s' = p1 @ c # s''" "split_at c s'' = [p2]" by auto
  from split_at_Cons [OF s''(3)] s' s'' show "s = p0 @ c # p1 @ c # p2 \<and> c \<notin> set p0 \<and> c \<notin> set p1 \<and> c \<notin> set p2" by auto
qed (auto simp: split_at_append split_at_plain)

lemma base64url_alphabet_ok: "distinct base64url_alphabet" "length base64url_alphabet = 2 ^ 6"
  by (simp_all add: base64url_alphabet_def)

lemma set_RawURL_Encode: "set (RawURL_EncodeToString bs) \<subseteq> set base64url_alphabet"
  unfolding RawURL_EncodeToString_def using base64url_alphabet_ok(2) by (intro set_encode_bits) simp_all

lemma base64url_plain: "list_all (\<lambda>c. c \<noteq> CHR ''.'' \<and> c \<noteq> CHR 0x0A \<and> c \<noteq> CHR 0x0D) base64url_alphabet"
  by (simp add: base64url_alphabet_def)

lemma RawURL_char:
  assumes "c \<in> set (RawURL_EncodeToString bs)"
  shows "c \<noteq> CHR ''.''" "c \<noteq> CHR 0x0A" "c \<noteq> CHR 0x0D"
proof -
  have "c \<in> set base64url_alphabet" by (rule subsetD [OF set_RawURL_Encode assms])
  note p = bspec [OF base64url_plain [unfolded list_all_iff] this]
  show "c \<noteq> CHR ''.''" "c \<noteq> CHR 0x0A" "c \<noteq> CHR 0x0D"
    using p by - (elim conjE, assumption)+
qed

lemma raw_groups: "(8 * n + (6 - 8 * n mod 6) mod 6) div 6 mod 4 \<noteq> (1 :: nat)"
proof -
  define q r where "q = n div 3" and "r = n mod 3"
  then have n: "n = 3 * q + r" "r < 3" by simp_all
  have e: "8 * n = 8 * r + 4 * q * 6" by (simp add: n(1))
  have "8 * n mod 6 = 8 * r mod 6" unfolding e by (rule mod_mult_self1)
  moreover have "(8 * n + x) div 6 = (8 * r + x) div 6 + 4 * q" for x
  proof -
    have "8 * n + x = (8 * r + x) + 4 * q * 6" unfolding e by simp
    then show ?thesis by (simp only: div_mult_self1)
  qed
  ultimately have g: "(8 * n + (6 - 8 * n mod 6) mod 6) div 6 mod 4 = (8 * r + (6 - 8 * r mod 6) mod 6) div 6 mod 4"
    by (simp only: mod_mult_self2)
  from n(2) consider "r = 0" | "r = 1" | "r = 2" by linarith
  then show ?thesis unfolding g by cases simp_all
qed

lemma RawURL_roundtrip: "RawURL_DecodeString (RawURL_EncodeToString bs) = Some bs"
proof -
  have "strip_newlines (RawURL_EncodeToString bs) = RawURL_EncodeToString bs"
    unfolding strip_newlines_def by (rule filter_True) (blast dest: RawURL_char(2,3))
  moreover have "length (RawURL_EncodeToString bs) mod 4 \<noteq> 1"
    using raw_groups [of "length bs"] by (simp add: RawURL_EncodeToString_def length_encode_bits)
  moreover have "decode_bits base64url_alphabet 6 (RawURL_EncodeToString bs) = Some bs"
    unfolding RawURL_EncodeToString_def using base64url_alphabet_ok by (intro decode_encode_bits) simp_all
  ultimately show ?thesis by (simp add: RawURL_DecodeString_def Let_def)
qed

text \<open>The characters of a token are visible, so \<open>TrimSpace\<close> does not change one.\<close>

lemma token_char_visible: "list_all visible base64url_alphabet"
  by (simp add: base64url_alphabet_def visible_def)

lemma TrimSpace_token:
  assumes "s \<noteq> []" "hd s \<in> set base64url_alphabet" "last s \<in> set base64url_alphabet"
  shows "TrimSpace s = s"
  using assms token_char_visible by (auto simp: list_all_iff intro: TrimSpace_visible)

text \<open>A token over a JSON header and a JSON payload, signed with a secret.\<close>

definition sign_jwt :: "byte list \<Rightarrow> byte list \<Rightarrow> byte list \<Rightarrow> string" where
  "sign_jwt secret hj cj =
     (let hp = RawURL_EncodeToString hj @ ''.'' @ RawURL_EncodeToString cj in hp @ ''.'' @ jwt_signature secret hp)"

lemma RawURL_Encode_nonempty: "bs \<noteq> [] \<Longrightarrow> RawURL_EncodeToString bs \<noteq> []"
  using RawURL_roundtrip [of bs] by (auto simp: RawURL_DecodeString_def strip_newlines_def decode_bits_def)

lemma no_dot_RawURL: "CHR ''.'' \<notin> set (RawURL_EncodeToString bs)"
  using RawURL_char(1) by blast

lemma split_signed:
  assumes "hj \<noteq> []"
  shows "split_at CHR ''.'' (TrimSpace (sign_jwt secret hj cj))
    = [RawURL_EncodeToString hj, RawURL_EncodeToString cj, jwt_signature secret (RawURL_EncodeToString hj @ ''.'' @ RawURL_EncodeToString cj)]"
proof -
  let ?h = "RawURL_EncodeToString hj" and ?c = "RawURL_EncodeToString cj"
  let ?s = "jwt_signature secret (?h @ ''.'' @ ?c)"
  have t: "sign_jwt secret hj cj = ?h @ CHR ''.'' # ?c @ CHR ''.'' # ?s" by (simp add: sign_jwt_def Let_def)
  have "length (hmac sha256 secret (bytes_of (?h @ ''.'' @ ?c))) = 32" by (simp add: hmac_def Let_def)
  then have "hmac sha256 secret (bytes_of (?h @ ''.'' @ ?c)) \<noteq> []" by auto
  then have ne: "?h \<noteq> []" "?s \<noteq> []" using assms by (simp_all add: RawURL_Encode_nonempty jwt_signature_def)
  have "hd ?h \<in> set base64url_alphabet" using ne(1) set_RawURL_Encode by (meson hd_in_set subsetD)
  moreover have "last ?s \<in> set base64url_alphabet"
    using ne(2) set_RawURL_Encode unfolding jwt_signature_def by (meson last_in_set subsetD)
  ultimately have "TrimSpace (sign_jwt secret hj cj) = sign_jwt secret hj cj"
    using ne by (intro TrimSpace_token) (simp_all add: t)
  then show ?thesis
    by (simp only: split_at_three t) (simp add: no_dot_RawURL jwt_signature_def)
qed

definition claims_ok :: "string \<Rightarrow> string \<Rightarrow> time \<Rightarrow> jwt_claims \<Rightarrow> bool" where
  "claims_ok issuer audience now c \<longleftrightarrow> (issuer = [] \<or> c_Issuer c = issuer) \<and> (audience = [] \<or> matchesAudience (c_Audience c) audience)
     \<and> (c_ExpiresAt c \<le> 0 \<or> Unix now < c_ExpiresAt c)"

text \<open>
  C19: signed tokens. A token is accepted exactly when, apart from surrounding white space, it is
  three parts without dots, the last the HMAC-SHA-256 signature of the first two under the
  provider's secret, the header names HS256, and the claims have the expected issuer and audience
  and have not expired; in particular every token signed with the secret is accepted with the claims
  that were signed.
\<close>

theorem jwt_accepts_exactly_genuine:
  "(parseAndValidateJWT hdr cls token secret issuer audience now = Inr claims \<longleftrightarrow>
      (\<exists>p0 p1. TrimSpace token = p0 @ ''.'' @ p1 @ ''.'' @ jwt_signature secret (p0 @ ''.'' @ p1)
         \<and> CHR ''.'' \<notin> set p0 \<and> CHR ''.'' \<notin> set p1
         \<and> decodeJWTPart hdr p0 = Some ''HS256'' \<and> decodeJWTPart cls p1 = Some claims \<and> claims_ok issuer audience now claims))
   \<and> (hj \<noteq> [] \<and> hdr hj = Some ''HS256'' \<and> cls cj = Some claims \<and> claims_ok issuer audience now claims \<longrightarrow>
      parseAndValidateJWT hdr cls (sign_jwt secret hj cj) secret issuer audience now = Inr claims)"
proof (intro conjI impI)
  have acc: "parseAndValidateJWT hdr cls token secret issuer audience now = Inr claims \<longleftrightarrow>
      (\<exists>p0 p1. split_at CHR ''.'' (TrimSpace token) = [p0, p1, jwt_signature secret (p0 @ ''.'' @ p1)]
         \<and> decodeJWTPart hdr p0 = Some ''HS256'' \<and> decodeJWTPart cls p1 = Some claims \<and> claims_ok issuer audience now claims)" for token
    by (auto simp: parseAndValidateJWT_def claims_ok_def split: list.splits option.splits)
  have "split_at CHR ''.'' (TrimSpace token) = [p0, p1, jwt_signature secret (p0 @ ''.'' @ p1)] \<longleftrightarrow>
      TrimSpace token = p0 @ ''.'' @ p1 @ ''.'' @ jwt_signature secret (p0 @ ''.'' @ p1) \<and> CHR ''.'' \<notin> set p0 \<and> CHR ''.'' \<notin> set p1"
    for p0 p1 by (auto simp: split_at_three jwt_signature_def no_dot_RawURL)
  then show "parseAndValidateJWT hdr cls token secret issuer audience now = Inr claims \<longleftrightarrow>
      (\<exists>p0 p1. TrimSpace token = p0 @ ''.'' @ p1 @ ''.'' @ jwt_signature secret (p0 @ ''.'' @ p1)
         \<and> CHR ''.'' \<notin> set p0 \<and> CHR ''.'' \<notin> set p1
         \<and> decodeJWTPart hdr p0 = Some ''HS256'' \<and> decodeJWTPart cls p1 = Some claims \<and> claims_ok issuer audience now claims)"
    by (auto simp: acc)
  assume h: "hj \<noteq> [] \<and> hdr hj = Some ''HS256'' \<and> cls cj = Some claims \<and> claims_ok issuer audience now claims"
  then show "parseAndValidateJWT hdr cls (sign_jwt secret hj cj) secret issuer audience now = Inr claims"
    unfolding acc by (simp add: split_signed decodeJWTPart_def RawURL_roundtrip)
qed

definition demo_claims :: jwt_claims where
  "demo_claims = \<lparr>Subject = ''u'', c_Email = [], c_Name = [], PreferredUsername = ''ann'', c_Groups = [], c_Issuer = ''i'',
     c_Audience = Aud_List [None, Some ''d''], c_ExpiresAt = 9, IssuedAt = 0\<rparr>"

theorem jwt_accepts_exactly_genuine_witness:
  "parseAndValidateJWT (\<lambda>_. Some ''HS256'') (\<lambda>_. Some demo_claims) (sign_jwt [1] [2] [3]) [1] ''i'' ''d'' (8 * second_ns) = Inr demo_claims"
proof -
  have "claims_ok ''i'' ''d'' (8 * second_ns) demo_claims" by (simp add: claims_ok_def demo_claims_def Unix_def)
  then show ?thesis
    using jwt_accepts_exactly_genuine [where hj = "[2]" and cj = "[3]" and hdr = "\<lambda>_. Some ''HS256''" and cls = "\<lambda>_. Some demo_claims"
        and claims = demo_claims and secret = "[1]" and issuer = "''i''" and audience = "''d''" and now = "8 * second_ns", THEN conjunct2] by simp
qed

end
