(* ===== verification/Domains.thy ===== *)
theory Domains
  imports Auth
begin

section \<open>Custom domains\<close>

text \<open>
  Model of \<open>GoTunnel/internal/domains/providers.go\<close> and of the functions of \<open>dns/providers.go\<close> it uses:
  the registry of domain providers, the manual and the memory provider, and the adapter that puts a
  record into the zone of a DNS service. The services behind the interface \<open>dns.Provider\<close> are HTTP
  clients; their answers are arguments.
\<close>

subsection \<open>Zones\<close>

definition TrimSuffix :: "string \<Rightarrow> string \<Rightarrow> string" where
  "TrimSuffix s suffix = (if HasSuffix s suffix then take (length s - length suffix) s else s)"

record dns_zone =
  z_ID :: string
  z_Name :: string
  z_Provider :: string
  z_Status :: string
  z_CreatedAt :: time

definition zone_matches :: "string \<Rightarrow> string \<Rightarrow> bool" where
  "zone_matches domain zoneName \<longleftrightarrow> HasSuffix domain (''.'' @ zoneName) \<or> domain = zoneName"

fun best_zone :: "string \<Rightarrow> dns_zone list \<Rightarrow> dns_zone option \<Rightarrow> dns_zone option" where
  "best_zone domain [] bestMatch = bestMatch"
| "best_zone domain (zone # zones) bestMatch =
     (let zoneName = TrimSuffix (z_Name zone) ''.''
      in best_zone domain zones
           (if zone_matches domain zoneName
               \<and> (case bestMatch of None \<Rightarrow> True | Some b \<Rightarrow> length zoneName > length (z_Name b))
            then Some zone else bestMatch))"

definition FindZone :: "string \<Rightarrow> dns_zone list \<Rightarrow> dns_zone option" where
  "FindZone domain zones = best_zone (TrimSuffix domain ''.'') zones None"

definition ExtractSubdomain :: "string \<Rightarrow> string \<Rightarrow> string" where
  "ExtractSubdomain domain zone =
     (let domain = TrimSuffix domain ''.''; zone = TrimSuffix zone ''.''
      in if domain = zone then ''@''
         else if HasSuffix domain (''.'' @ zone) then TrimSuffix domain (''.'' @ zone)
         else domain)"

lemma TrimSuffix_append [simp]: "TrimSuffix (s @ t) t = s"
  by (simp add: TrimSuffix_def)

lemma zone_matches_iff: "zone_matches d z \<longleftrightarrow> d = z \<or> (\<exists>p. d = p @ ''.'' @ z)"
  by (auto simp: zone_matches_def HasSuffix_iff)

text \<open>Two zones of one domain are nested, and unless they are equal their lengths differ by more than one.\<close>

lemma matching_zones_differ:
  assumes "zone_matches d a" "zone_matches d b" "length a < length b" "HasPrefix b ''.'' = False"
  shows "length a + 1 < length b"
proof (rule ccontr)
  assume "\<not> length a + 1 < length b"
  with assms(3) have len: "length b = Suc (length a)" by simp
  from assms(1) obtain p where p: "d = p @ a" "p = [] \<or> (\<exists>q. p = q @ ''.'')" by (auto simp: zone_matches_iff)
  from assms(2) obtain r where r: "d = r @ b" by (auto simp: zone_matches_iff)
  from p(1) r len have lp: "length p = Suc (length r)"
    by (metis add_Suc_right add_right_imp_eq add_Suc length_append)
  then obtain q where q: "p = q @ ''.''" using p(2) by auto
  with lp have "length q = length r" by simp
  with p(1) q r have "b = ''.'' @ a" by simp
  with assms(4) show False by (simp add: HasPrefix_def)
qed

lemma zone_name_length: "length (TrimSuffix s ''.'') \<le> length s \<and> length s \<le> Suc (length (TrimSuffix s ''.''))"
  by (auto simp: TrimSuffix_def)

definition zone_ok :: "dns_zone \<Rightarrow> bool" where
  "zone_ok z \<longleftrightarrow> \<not> HasPrefix (TrimSuffix (z_Name z) ''.'') ''.''"

definition best_of :: "string \<Rightarrow> dns_zone set \<Rightarrow> dns_zone option \<Rightarrow> bool" where
  "best_of d Z b \<longleftrightarrow> (case b of
       None \<Rightarrow> \<forall>z \<in> Z. \<not> zone_matches d (TrimSuffix (z_Name z) ''.'')
     | Some z \<Rightarrow> z \<in> Z \<and> zone_matches d (TrimSuffix (z_Name z) ''.'') \<and>
         (\<forall>y \<in> Z. zone_matches d (TrimSuffix (z_Name y) ''.'') \<longrightarrow> length (TrimSuffix (z_Name y) ''.'') \<le> length (TrimSuffix (z_Name z) ''.'')))"

lemma best_zone_best:
  assumes "\<forall>z \<in> Z \<union> set zones. zone_ok z" "best_of d Z b"
  shows "best_of d (Z \<union> set zones) (best_zone d zones b)"
  using assms
proof (induction zones arbitrary: Z b)
  case (Cons z zones)
  let ?n = "TrimSuffix (z_Name z) ''.''"
  let ?b = "if zone_matches d ?n \<and> (case b of None \<Rightarrow> True | Some b \<Rightarrow> length ?n > length (z_Name b)) then Some z else b"
  have "best_of d (insert z Z) ?b"
  proof (cases b)
    case None
    with Cons.prems(2) show ?thesis by (auto simp: best_of_def)
  next
    case (Some y)
    let ?y = "TrimSuffix (z_Name y) ''.''"
    from Some Cons.prems(2) have y: "y \<in> Z" "zone_matches d ?y" by (auto simp: best_of_def)
    show ?thesis
    proof (cases "zone_matches d ?n")
      case True
      have "length ?n > length (z_Name y) \<longleftrightarrow> length ?n > length ?y"
      proof
        assume "length ?n > length ?y"
        moreover have "HasPrefix ?n ''.'' = False" using Cons.prems(1) by (simp add: zone_ok_def)
        ultimately have "length ?y + 1 < length ?n" using matching_zones_differ [OF y(2) True] by blast
        then show "length ?n > length (z_Name y)" using zone_name_length [of "z_Name y"] by linarith
      qed (use zone_name_length [of "z_Name y"] in linarith)
      with Some True Cons.prems(2) show ?thesis by (auto simp: best_of_def)
    qed (use Some Cons.prems(2) in \<open>auto simp: best_of_def\<close>)
  qed
  from Cons.IH [OF _ this] Cons.prems(1) show ?case by (simp add: Let_def)
qed simp

text \<open>
  Finding the zone of a domain: the zone found is the longest configured one that the domain lies in,
  and the record name extracted for it, followed by the zone, is the domain again.
\<close>

theorem zone_of_domain:
  assumes "\<forall>z \<in> set zones. zone_ok z"
  shows "best_of (TrimSuffix domain ''.'') (set zones) (FindZone domain zones)
    \<and> (FindZone domain zones = Some z \<longrightarrow>
         (if ExtractSubdomain domain (z_Name z) = ''@'' \<and> TrimSuffix domain ''.'' = TrimSuffix (z_Name z) ''.'' then True
          else TrimSuffix domain ''.'' = ExtractSubdomain domain (z_Name z) @ ''.'' @ TrimSuffix (z_Name z) ''.''))"
proof -
  have best: "best_of (TrimSuffix domain ''.'') (set zones) (FindZone domain zones)"
    using best_zone_best [of "{}" zones "TrimSuffix domain ''.''" None] assms by (simp add: FindZone_def best_of_def)
  moreover have "TrimSuffix domain ''.'' = TrimSuffix (z_Name z) ''.''
      \<or> TrimSuffix domain ''.'' = ExtractSubdomain domain (z_Name z) @ ''.'' @ TrimSuffix (z_Name z) ''.''"
    if "FindZone domain zones = Some z"
  proof -
    from best that have "zone_matches (TrimSuffix domain ''.'') (TrimSuffix (z_Name z) ''.'')" by (simp add: best_of_def)
    then consider "TrimSuffix domain ''.'' = TrimSuffix (z_Name z) ''.''"
      | p where "TrimSuffix domain ''.'' = p @ ''.'' @ TrimSuffix (z_Name z) ''.''" by (auto simp: zone_matches_iff)
    then show ?thesis
    proof cases
      case 2
      have "HasSuffix (p @ ''.'' @ TrimSuffix (z_Name z) ''.'') (''.'' @ TrimSuffix (z_Name z) ''.'')"
        by (rule HasSuffix_append)
      moreover have "TrimSuffix (p @ ''.'' @ TrimSuffix (z_Name z) ''.'') (''.'' @ TrimSuffix (z_Name z) ''.'') = p"
        by (rule TrimSuffix_append)
      ultimately have "ExtractSubdomain domain (z_Name z) = p" using 2 by (simp add: ExtractSubdomain_def Let_def)
      with 2 show ?thesis by simp
    qed simp
  qed
  ultimately show ?thesis by (auto simp: ExtractSubdomain_def)
qed

subsection \<open>The registry\<close>

record domain_record =
  dr_Domain :: string
  dr_Provider :: string
  dr_Status :: string
  dr_Challenge :: string
  dr_Metadata :: "(string, string) fmap"
  dr_UpdatedAt :: time

record domain_request =
  dq_Domain :: string
  dq_Provider :: string
  dq_Metadata :: "(string, string) fmap"

record dns_record =
  rec_Type :: string
  rec_Name :: string
  rec_Value :: string
  rec_TTL :: int

text \<open>
  A DNS service as the adapter sees it: the zones it lists, whether it accepts a record, and the
  environment's credential for it.
\<close>

record dns_service =
  srv_zones :: "string + dns_zone list"
  srv_create :: "string \<Rightarrow> dns_record \<Rightarrow> string option"
  srv_token :: string

datatype domain_provider =
    ManualProvider
  | MemoryProvider
  | DNSProviderAdapter string "dns_service option"

fun provider_Name :: "domain_provider \<Rightarrow> string" where
  "provider_Name ManualProvider = ''manual''"
| "provider_Name MemoryProvider = ''memory''"
| "provider_Name (DNSProviderAdapter n _) = n"

datatype domain_error = Unknown_Domain_Provider string | DNS_Provider_Not_Configured | Service_Error string | No_Zone_Found string

definition map_get :: "(string, string) fmap \<Rightarrow> string \<Rightarrow> string" where
  "map_get m k = (case fmlookup m k of Some v \<Rightarrow> v | None \<Rightarrow> [])"

definition adapter_record :: "string \<Rightarrow> string \<Rightarrow> string \<Rightarrow> (string, string) fmap \<Rightarrow> dns_record" where
  "adapter_record domain zone target metadata =
     (let recordName = ExtractSubdomain domain zone
      in if recordName = ''@''
         then \<lparr>rec_Type = ''TXT'', rec_Name = recordName,
               rec_Value = (if TrimSpace (map_get metadata ''validation'') = [] then ''managed-by-gotunnel'' else map_get metadata ''validation''),
               rec_TTL = 60\<rparr>
         else \<lparr>rec_Type = ''CNAME'', rec_Name = recordName, rec_Value = target, rec_TTL = 60\<rparr>)"

definition adapter_Ensure :: "string \<Rightarrow> dns_service \<Rightarrow> string \<Rightarrow> (string, string) fmap \<Rightarrow> time \<Rightarrow> domain_error + domain_record" where
  "adapter_Ensure name srv domain metadata now =
     (case srv_zones srv of
        Inl e \<Rightarrow> Inl (Service_Error e)
      | Inr zones \<Rightarrow>
          (case FindZone domain zones of
             None \<Rightarrow> Inl (No_Zone_Found domain)
           | Some zone \<Rightarrow>
               let target = TrimSpace (map_get metadata ''target'')
               in (case (if target = [] then None else srv_create srv (z_Name zone) (adapter_record domain (z_Name zone) target metadata)) of
                     Some e \<Rightarrow> Inl (Service_Error e)
                   | None \<Rightarrow>
                       let out = fmupd ''zone'' (z_Name zone) metadata;
                           out = (if TrimSpace (srv_token srv) \<noteq> [] then fmupd ''credential_source'' ''env'' out else out)
                       in Inr \<lparr>dr_Domain = domain, dr_Provider = name,
                               dr_Status = (if target = [] then ''pending_dns_validation'' else ''verified''),
                               dr_Challenge = ''_acme-challenge.'' @ domain, dr_Metadata = out, dr_UpdatedAt = now\<rparr>)))"

fun provider_Ensure :: "domain_provider \<Rightarrow> string \<Rightarrow> (string, string) fmap \<Rightarrow> time \<Rightarrow> domain_error + domain_record" where
  "provider_Ensure ManualProvider domain metadata now =
     Inr \<lparr>dr_Domain = domain, dr_Provider = ''manual'', dr_Status = ''pending_dns_validation'',
          dr_Challenge = ''_acme-challenge.'' @ domain, dr_Metadata = metadata, dr_UpdatedAt = now\<rparr>"
| "provider_Ensure MemoryProvider domain metadata now =
     Inr \<lparr>dr_Domain = domain, dr_Provider = ''memory'', dr_Status = ''verified'', dr_Challenge = [],
          dr_Metadata = metadata, dr_UpdatedAt = now\<rparr>"
| "provider_Ensure (DNSProviderAdapter name None) domain metadata now = Inl DNS_Provider_Not_Configured"
| "provider_Ensure (DNSProviderAdapter name (Some srv)) domain metadata now = adapter_Ensure name srv domain metadata now"

type_synonym domain_registry = "string \<Rightarrow> domain_provider option"

definition Register :: "domain_registry \<Rightarrow> domain_provider \<Rightarrow> domain_registry" where
  "Register r p = r(provider_Name p \<mapsto> p)"

text \<open>The DNS services the environment configures are arguments.\<close>

definition NewRegistry :: "dns_service option \<Rightarrow> dns_service option \<Rightarrow> domain_registry" where
  "NewRegistry cloudflare digitalocean =
     (let r = Register (Register Map.empty ManualProvider) MemoryProvider;
          r = (case cloudflare of None \<Rightarrow> r | Some s \<Rightarrow> Register r (DNSProviderAdapter ''cloudflare'' (Some s)))
      in case digitalocean of None \<Rightarrow> r | Some s \<Rightarrow> Register r (DNSProviderAdapter ''digitalocean'' (Some s)))"

definition Ensure :: "domain_registry \<Rightarrow> domain_request \<Rightarrow> time \<Rightarrow> domain_error + domain_record" where
  "Ensure r req now =
     (let providerName = (if TrimSpace (dq_Provider req) = [] then ''manual'' else TrimSpace (dq_Provider req))
      in case r providerName of
           None \<Rightarrow> Inl (Unknown_Domain_Provider providerName)
         | Some p \<Rightarrow> provider_Ensure p (dq_Domain req) (dq_Metadata req) now)"

end
