(* ===== verification/Requirements.thy ===== *)
theory Requirements
  imports Security_Policy
begin

section \<open>Requirement monitoring and metrics\<close>

text \<open>
  Models of \<open>GoTunnel/internal/nfr/validator.go\<close> (non-functional requirements, judged by the metrics
  recorded for them) and of the counters of \<open>metrics/metrics.go\<close>. The violation callback is outside
  this code; its calls are recorded.
\<close>

subsection \<open>Requirements\<close>

definition float_le :: "go_float \<Rightarrow> go_float \<Rightarrow> bool" where
  "float_le x y \<longleftrightarrow> float_less x y \<or> float_eq x y"

datatype nfr_status = NFRStatusPassing | NFRStatusWarning | NFRStatusFailing | NFRStatusUnknown | NFRStatusOther string

datatype nfr_type = NFRLatency | NFRUptime | NFRThroughput | NFRRecovery | NFRScalability | NFRAvailability | NFROther string

record nfr_metric =
  mt_Name :: string
  mt_Value :: go_float
  mt_Unit :: string
  mt_Threshold :: go_float
  mt_Timestamp :: time

record nfr_requirement =
  rq_ID :: string
  rq_Type :: nfr_type
  rq_Name :: string
  rq_Description :: string
  rq_Threshold :: go_float
  rq_Unit :: string
  rq_Status :: nfr_status
  rq_LastChecked :: time
  rq_History :: "nfr_metric list"

text \<open>
  Requirements are kept by pointer, so callers of \<open>GetRequirement\<close> see later changes; the model has
  the requirement itself, read at the time of the call.
\<close>

record validator =
  requirements :: "(string, nfr_requirement) fmap"
  metrics :: "string \<Rightarrow> nfr_metric list"
  v_stopped :: bool
  has_onViolation :: bool
  violations :: "(nfr_requirement \<times> nfr_metric) list"

definition NewValidator :: "bool \<Rightarrow> validator" where
  "NewValidator onViolation = \<lparr>requirements = fmempty, metrics = (\<lambda>_. []), v_stopped = False,
     has_onViolation = onViolation, violations = []\<rparr>"

definition validator_Stop :: "validator \<Rightarrow> go_panic + validator" where
  "validator_Stop v = (if v_stopped v then Inl Close_Of_Closed_Channel else Inr (v\<lparr>v_stopped := True\<rparr>))"

definition AddRequirement :: "validator \<Rightarrow> nfr_requirement \<Rightarrow> validator" where
  "AddRequirement v req = v\<lparr>requirements := fmupd (rq_ID req) req (requirements v)\<rparr>"

definition RemoveRequirement :: "validator \<Rightarrow> string \<Rightarrow> validator" where
  "RemoveRequirement v reqID = v\<lparr>requirements := fmdrop reqID (requirements v)\<rparr>"

definition GetRequirement :: "validator \<Rightarrow> string \<Rightarrow> nfr_requirement option" where
  "GetRequirement v reqID = fmlookup (requirements v) reqID"

definition ListRequirements :: "validator \<Rightarrow> string list \<Rightarrow> nfr_requirement list" where
  "ListRequirements v ks = List.map_filter (fmlookup (requirements v)) ks"

definition metric_passes :: "nfr_requirement \<Rightarrow> nfr_metric \<Rightarrow> bool" where
  "metric_passes req metric =
     (case rq_Type req of
        NFRLatency \<Rightarrow> float_le (mt_Value metric) (rq_Threshold req)
      | NFRUptime \<Rightarrow> float_le (rq_Threshold req) (mt_Value metric)
      | NFRThroughput \<Rightarrow> float_le (rq_Threshold req) (mt_Value metric)
      | NFRRecovery \<Rightarrow> float_le (mt_Value metric) (rq_Threshold req)
      | NFRScalability \<Rightarrow> float_le (rq_Threshold req) (mt_Value metric)
      | _ \<Rightarrow> True)"

definition validateMetric :: "validator \<Rightarrow> nfr_requirement \<Rightarrow> nfr_metric \<Rightarrow> time \<Rightarrow> validator" where
  "validateMetric v req metric now =
     (let passing = metric_passes req metric;
          req1 = req\<lparr>rq_Status := (if passing then NFRStatusPassing else NFRStatusFailing)\<rparr>;
          v1 = (if \<not> passing \<and> has_onViolation v then v\<lparr>violations := violations v @ [(req1, metric)]\<rparr> else v)
      in v1\<lparr>requirements := fmupd (rq_ID req) (req1\<lparr>rq_LastChecked := now\<rparr>) (requirements v1)\<rparr>)"

definition history_add :: "nfr_metric \<Rightarrow> nfr_metric list \<Rightarrow> nfr_metric list" where
  "history_add metric ms = (if length ms \<ge> 100 then tl ms else ms) @ [metric]"

text \<open>\<open>None\<close> is the error that the requirement is not found.\<close>

definition RecordMetric :: "validator \<Rightarrow> string \<Rightarrow> nfr_metric \<Rightarrow> time \<Rightarrow> validator option" where
  "RecordMetric v reqID metric now =
     (case fmlookup (requirements v) reqID of
        None \<Rightarrow> None
      | Some req \<Rightarrow> Some (validateMetric (v\<lparr>metrics := (metrics v)(reqID := history_add metric (metrics v reqID))\<rparr>) req metric now))"

definition GetMetrics :: "validator \<Rightarrow> string \<Rightarrow> nfr_metric list" where
  "GetMetrics v reqID = metrics v reqID"

definition Validate :: "validator \<Rightarrow> string \<Rightarrow> nfr_status option" where
  "Validate v reqID = map_option rq_Status (fmlookup (requirements v) reqID)"

abbreviation metric_of :: "string \<Rightarrow> go_float \<Rightarrow> string \<Rightarrow> time \<Rightarrow> nfr_metric" where
  "metric_of name val un now \<equiv>
     \<lparr>mt_Name = name, mt_Value = val, mt_Unit = un, mt_Threshold = Finite 0, mt_Timestamp = now\<rparr>"

definition ValidateLatency :: "validator \<Rightarrow> string \<Rightarrow> duration \<Rightarrow> time \<Rightarrow> time \<Rightarrow> validator option" where
  "ValidateLatency v reqID latency t1 t2 =
     RecordMetric v reqID (metric_of ''latency'' (Finite (float64 (of_int (sgn latency * (\<bar>latency\<bar> div 1000000))))) ''ms'' t1) t2"

definition ValidateUptime :: "validator \<Rightarrow> string \<Rightarrow> go_float \<Rightarrow> time \<Rightarrow> time \<Rightarrow> validator option" where
  "ValidateUptime v reqID uptimePercent t1 t2 = RecordMetric v reqID (metric_of ''uptime'' uptimePercent ''percent'' t1) t2"

definition ValidateThroughput :: "validator \<Rightarrow> string \<Rightarrow> go_float \<Rightarrow> time \<Rightarrow> time \<Rightarrow> validator option" where
  "ValidateThroughput v reqID throughput t1 t2 =
     RecordMetric v reqID (metric_of ''throughput'' throughput ''requests/second'' t1) t2"

definition ValidateRecovery :: "validator \<Rightarrow> string \<Rightarrow> duration \<Rightarrow> time \<Rightarrow> time \<Rightarrow> validator option" where
  "ValidateRecovery v reqID recoveryTime t1 t2 =
     RecordMetric v reqID (metric_of ''recovery_time'' (Finite (Seconds recoveryTime)) ''seconds'' t1) t2"

definition ValidateScalability :: "validator \<Rightarrow> string \<Rightarrow> int \<Rightarrow> time \<Rightarrow> time \<Rightarrow> validator option" where
  "ValidateScalability v reqID concurrentTunnels t1 t2 =
     RecordMetric v reqID (metric_of ''concurrent_tunnels'' (Finite (float64 (of_int concurrentTunnels))) ''tunnels'' t1) t2"

text \<open>The tick of the validation worker; the clock is read for each requirement.\<close>

definition checkRequirements :: "validator \<Rightarrow> (string \<Rightarrow> time) \<Rightarrow> validator" where
  "checkRequirements v clk =
     v\<lparr>requirements := fmmap_keys (\<lambda>k req. if time_sub (clk k) (rq_LastChecked req) > 300 * second_ns
                                     then req\<lparr>rq_Status := NFRStatusUnknown\<rparr> else req) (requirements v)\<rparr>"

fun GetStatusSummary :: "validator \<Rightarrow> string list \<Rightarrow> nfr_status \<Rightarrow> nat" where
  "GetStatusSummary v [] st = 0"
| "GetStatusSummary v (k # ks) st =
     (case fmlookup (requirements v) k of
        Some req \<Rightarrow> if rq_Status req = st then Suc (GetStatusSummary v ks st) else GetStatusSummary v ks st
      | None \<Rightarrow> GetStatusSummary v ks st)"

definition GetFailingRequirements :: "validator \<Rightarrow> string list \<Rightarrow> nfr_requirement list" where
  "GetFailingRequirements v ks = filter (\<lambda>req. rq_Status req = NFRStatusFailing) (ListRequirements v ks)"

subsection \<open>What the status says\<close>

interpretation nfr_history: bounded_log history_add 100
  by unfold_locales (auto simp: history_add_def dest: list.set_sel(2) [rotated])

lemma history_add_last_n: "history_add m (last_n 100 ms) = last_n 100 (ms @ [m])"
proof (cases "length ms \<ge> 100")
  case True
  then have "Suc (length ms - 100) = length ms - 99" by simp
  with True show ?thesis by (simp add: history_add_def last_n_def drop_Suc [symmetric] tl_drop)
qed (simp add: history_add_def last_n_def)

definition record_all :: "validator \<Rightarrow> string \<Rightarrow> (nfr_metric \<times> time) list \<Rightarrow> validator" where
  "record_all v k ms = foldl (\<lambda>v (m, t). case RecordMetric v k m t of None \<Rightarrow> v | Some v' \<Rightarrow> v') v ms"

lemma record_all_snoc: "record_all v k (ms @ [(m, t)]) = (let v1 = record_all v k ms in case RecordMetric v1 k m t of None \<Rightarrow> v1 | Some v' \<Rightarrow> v')"
  by (simp add: record_all_def Let_def)

lemma record_all_Nil [simp]: "record_all v k [] = v"
  by (simp add: record_all_def)

text \<open>
  Recording metrics: the requirement's status is that of the last metric, the time of its check is
  that of the last recording, and the history holds the last hundred metrics.
\<close>

theorem status_of_last_metric:
  assumes "fmlookup (requirements v) k = Some req" "rq_ID req = k" "metrics v k = []" "ms \<noteq> []"
  shows "\<exists>req'. GetRequirement (record_all v k ms) k = Some req'
    \<and> rq_Status req' = (if metric_passes req (fst (last ms)) then NFRStatusPassing else NFRStatusFailing)
    \<and> rq_LastChecked req' = snd (last ms)
    \<and> GetMetrics (record_all v k ms) k = last_n 100 (map fst ms)"
proof -
  have "\<exists>req'. fmlookup (requirements (record_all v k ms)) k = Some req' \<and> rq_ID req' = k \<and> rq_Type req' = rq_Type req
      \<and> rq_Threshold req' = rq_Threshold req \<and> metrics (record_all v k ms) k = last_n 100 (map fst ms)
      \<and> (ms \<noteq> [] \<longrightarrow> rq_Status req' = (if metric_passes req (fst (last ms)) then NFRStatusPassing else NFRStatusFailing)
            \<and> rq_LastChecked req' = snd (last ms))" for ms
  proof (induction ms rule: rev_induct)
    case (snoc x ms)
    obtain m t where x: "x = (m, t)" by (cases x)
    from snoc obtain r where r: "fmlookup (requirements (record_all v k ms)) k = Some r" "rq_ID r = k" "rq_Type r = rq_Type req"
      "rq_Threshold r = rq_Threshold req" "metrics (record_all v k ms) k = last_n 100 (map fst ms)" by blast
    have "metric_passes r m = metric_passes req m" using r(3,4) by (simp add: metric_passes_def cong: nfr_type.case_cong)
    with r show ?case
      by (simp add: x record_all_snoc Let_def RecordMetric_def validateMetric_def history_add_last_n)
  qed (use assms in \<open>simp add: last_n_def\<close>)
  with assms(4) show ?thesis unfolding GetRequirement_def GetMetrics_def by meson
qed

lemma summary_counts:
  "GetStatusSummary v ks st = length (filter (\<lambda>req. rq_Status req = st) (ListRequirements v ks))"
  by (induction ks) (auto simp: ListRequirements_def map_filter_simps split: option.splits)

subsection \<open>Counters\<close>

type_synonym counters = "string \<Rightarrow> 64 word"

definition AddCounter :: "counters \<Rightarrow> string \<Rightarrow> 64 word \<Rightarrow> counters" where
  "AddCounter c name n = c(name := c name + n)"

definition IncCounter :: "counters \<Rightarrow> string \<Rightarrow> counters" where
  "IncCounter c name = c(name := c name + 1)"

definition sanitize :: "string \<Rightarrow> string" where
  "sanitize s = map (\<lambda>c. if c \<in> set ''-. /'' then CHR ''_'' else c) s"

end
