(* ===== verification/State_Store.thy ===== *)
theory State_Store
  imports Prelude
begin

section \<open>State stores\<close>

text \<open>
  Models of \<open>GoTunnel/internal/state/store.go\<close> (the store in memory) and \<open>store_file.go\<close> (the
  store on disk) and of the interface \<open>Store\<close> of \<open>replication.go\<close> they implement. The interface
  is a record of operations; the locale \<open>state_store\<close> states what its clients rely on, and is
  interpreted on both stores. The value of an entry is a Go interface value, \<open>None\<close> for nil.
\<close>

record 'v state_entry =
  Key :: string
  Value :: "'v option"
  Version :: int
  e_CreatedAt :: time
  e_UpdatedAt :: time
  TTL :: duration
  e_Checksum :: string

record 'v replication_log =
  l_SequenceID :: int
  Operation :: string
  l_Key :: string
  l_Value :: "'v option"
  l_Timestamp :: time
  l_NodeID :: string
  l_Checksum :: string

datatype store_error =
    Key_Not_Found string
  | Key_Expired string
  | Encode_State_File
  | Write_State_Temp_File
  | Replace_State_File
  | Write_Replication_Log_File

text \<open>The interface. \<open>List\<close> ranges over a map; the extra argument is the order of the run time.\<close>

record ('s, 'v) store_ops =
  st_Get :: "'s \<Rightarrow> string \<Rightarrow> store_error + 'v state_entry"
  st_Set :: "'s \<Rightarrow> 'v state_entry \<Rightarrow> store_error option \<times> 's"
  st_Delete :: "'s \<Rightarrow> string \<Rightarrow> store_error option \<times> 's"
  st_List :: "'s \<Rightarrow> string \<Rightarrow> string list \<Rightarrow> 'v state_entry list"
  st_SaveLog :: "'s \<Rightarrow> 'v replication_log \<Rightarrow> store_error option \<times> 's"
  st_GetLogs :: "'s \<Rightarrow> int \<Rightarrow> 'v replication_log list"
  st_Snapshot :: "'s \<Rightarrow> 'v state_entry list \<Rightarrow> store_error option \<times> 's"
  st_LoadSnapshot :: "'s \<Rightarrow> 'v state_entry list"

subsection \<open>The contract of a store\<close>

text \<open>
  \<open>ents\<close>, \<open>log\<close> and \<open>snap\<close> are what a client can observe. A failing operation (the disk) still
  changes what is observed: the stores update their maps before they write.
\<close>

locale state_store =
  fixes ops :: "('s, 'v) store_ops"
    and ents :: "'s \<Rightarrow> (string, 'v state_entry) fmap"
    and log :: "'s \<Rightarrow> 'v replication_log list"
    and snap :: "'s \<Rightarrow> 'v state_entry list"
  assumes get_spec: "st_Get ops s k = (case fmlookup (ents s) k of None \<Rightarrow> Inl (Key_Not_Found k) | Some e \<Rightarrow> Inr e)"
    and set_spec: "st_Set ops s e = (r, s') \<Longrightarrow> ents s' = fmupd (Key e) e (ents s) \<and> log s' = log s \<and> snap s' = snap s"
    and delete_spec: "st_Delete ops s k = (r, s') \<Longrightarrow> ents s' = fmdrop k (ents s) \<and> log s' = log s \<and> snap s' = snap s"
    and list_spec: "st_List ops s p ks =
      List.map_filter (\<lambda>k. if HasPrefix k p then fmlookup (ents s) k else None) ks"
    and savelog_spec: "st_SaveLog ops s l = (r, s') \<Longrightarrow> ents s' = ents s \<and> log s' = log s @ [l] \<and> snap s' = snap s"
    and getlogs_spec: "st_GetLogs ops s n = filter (\<lambda>l. l_SequenceID l > n) (log s)"
    and snapshot_spec: "st_Snapshot ops s es = (r, s') \<Longrightarrow> ents s' = ents s \<and> log s' = log s \<and> snap s' = es"
    and load_spec: "st_LoadSnapshot ops s = snap s"
begin

lemma get_after_set: "st_Set ops s e = (r, s') \<Longrightarrow> st_Get ops s' (Key e) = Inr e"
  using set_spec by (simp add: get_spec)

lemma get_after_delete: "st_Delete ops s k = (r, s') \<Longrightarrow> st_Get ops s' k = Inl (Key_Not_Found k)"
  using delete_spec by (simp add: get_spec)

end

subsection \<open>The store in memory\<close>

record 'v memory_store =
  m_entries :: "(string, 'v state_entry) fmap"
  m_logs :: "'v replication_log list"
  m_snapshot :: "'v state_entry list"

definition NewMemoryStore :: "'v memory_store" where
  "NewMemoryStore = \<lparr>m_entries = fmempty, m_logs = [], m_snapshot = []\<rparr>"

definition mem_Get :: "'v memory_store \<Rightarrow> string \<Rightarrow> store_error + 'v state_entry" where
  "mem_Get s key = (case fmlookup (m_entries s) key of None \<Rightarrow> Inl (Key_Not_Found key) | Some e \<Rightarrow> Inr e)"

definition mem_Set :: "'v memory_store \<Rightarrow> 'v state_entry \<Rightarrow> store_error option \<times> 'v memory_store" where
  "mem_Set s e = (None, s\<lparr>m_entries := fmupd (Key e) e (m_entries s)\<rparr>)"

definition mem_Delete :: "'v memory_store \<Rightarrow> string \<Rightarrow> store_error option \<times> 'v memory_store" where
  "mem_Delete s key = (None, s\<lparr>m_entries := fmdrop key (m_entries s)\<rparr>)"

text \<open>The loop of \<open>List\<close>; both stores have the same.\<close>

definition list_entries :: "(string, 'v state_entry) fmap \<Rightarrow> string \<Rightarrow> string list \<Rightarrow> 'v state_entry list" where
  "list_entries m prefix ks =
     List.map_filter (\<lambda>key. if prefix = [] \<or> HasPrefix key prefix then fmlookup m key else None) ks"

definition mem_List :: "'v memory_store \<Rightarrow> string \<Rightarrow> string list \<Rightarrow> 'v state_entry list" where
  "mem_List s prefix ks = list_entries (m_entries s) prefix ks"

definition mem_SaveLog :: "'v memory_store \<Rightarrow> 'v replication_log \<Rightarrow> store_error option \<times> 'v memory_store" where
  "mem_SaveLog s l = (None, s\<lparr>m_logs := m_logs s @ [l]\<rparr>)"

definition mem_GetLogs :: "'v memory_store \<Rightarrow> int \<Rightarrow> 'v replication_log list" where
  "mem_GetLogs s fromSequence = filter (\<lambda>l. l_SequenceID l > fromSequence) (m_logs s)"

definition mem_Snapshot :: "'v memory_store \<Rightarrow> 'v state_entry list \<Rightarrow> store_error option \<times> 'v memory_store" where
  "mem_Snapshot s es = (None, s\<lparr>m_snapshot := es\<rparr>)"

definition mem_LoadSnapshot :: "'v memory_store \<Rightarrow> 'v state_entry list" where
  "mem_LoadSnapshot s = m_snapshot s"

definition memory_ops :: "('v memory_store, 'v) store_ops" where
  "memory_ops = \<lparr>st_Get = mem_Get, st_Set = mem_Set, st_Delete = mem_Delete, st_List = mem_List,
     st_SaveLog = mem_SaveLog, st_GetLogs = mem_GetLogs, st_Snapshot = mem_Snapshot,
     st_LoadSnapshot = mem_LoadSnapshot\<rparr>"

lemma HasPrefix_Nil [simp]: "HasPrefix s []"
  by (simp add: HasPrefix_iff)

lemma list_entries_prefix:
  "list_entries m p ks = List.map_filter (\<lambda>k. if HasPrefix k p then fmlookup m k else None) ks"
proof -
  have "(\<lambda>key. if p = [] \<or> HasPrefix key p then fmlookup m key else None)
      = (\<lambda>k. if HasPrefix k p then fmlookup m k else None)" by auto
  then show ?thesis by (simp add: list_entries_def)
qed

interpretation mem: state_store memory_ops m_entries m_logs m_snapshot
  by unfold_locales
    (auto simp: memory_ops_def mem_Get_def mem_Set_def mem_Delete_def mem_List_def mem_SaveLog_def
      mem_GetLogs_def mem_Snapshot_def mem_LoadSnapshot_def list_entries_prefix)

subsection \<open>The store on disk\<close>

text \<open>
  The files of a store. Each call of the file system that changes it is numbered; its fate is
  \<open>None\<close> for success, and for a failing write \<open>Some\<close> of what the file holds afterwards.
\<close>

record ('v) file_store_data =
  d_Entries :: "'v state_entry list"
  d_Logs :: "'v replication_log list"
  d_Snapshot :: "'v state_entry list"

record 'p disk =
  state_file :: "'p option"
  tmp_file :: "'p option"
  log_file :: "'p option"
  disk_calls :: nat
  disk_fate :: "nat \<Rightarrow> 'p option option"

text \<open>
  The environment of a store: the JSON encoder (which fails on values JSON has no form for) and
  decoder, and the order in which the run time visits a map.
\<close>

record ('v, 'p) fs_env =
  encode :: "'v file_store_data \<Rightarrow> 'p option"
  decode :: "'p \<Rightarrow> 'v file_store_data option"
  visit :: "(string, 'v state_entry) fmap \<Rightarrow> string list"

record ('v, 'p) file_store =
  f_entries :: "(string, 'v state_entry) fmap"
  f_logs :: "'v replication_log list"
  f_snapshot :: "'v state_entry list"
  f_disk :: "'p disk"

definition persist :: "('v, 'p) fs_env \<Rightarrow> ('v, 'p) file_store \<Rightarrow> store_error option \<times> ('v, 'p) file_store" where
  "persist env s =
     (let data = \<lparr>d_Entries = List.map_filter (fmlookup (f_entries s)) (visit env (f_entries s)),
                  d_Logs = f_logs s, d_Snapshot = f_snapshot s\<rparr>;
          d = f_disk s
      in (case encode env data of
            None \<Rightarrow> (Some Encode_State_File, s)
          | Some payload \<Rightarrow>
              (case disk_fate d (disk_calls d) of
                 Some left \<Rightarrow>
                   (Some Write_State_Temp_File, s\<lparr>f_disk := d\<lparr>tmp_file := left, disk_calls := disk_calls d + 1\<rparr>\<rparr>)
               | None \<Rightarrow>
                   let d1 = d\<lparr>tmp_file := Some payload, disk_calls := disk_calls d + 1\<rparr>
                   in (case disk_fate d1 (disk_calls d1) of
                         Some _ \<Rightarrow> (Some Replace_State_File, s\<lparr>f_disk := d1\<lparr>disk_calls := disk_calls d1 + 1\<rparr>\<rparr>)
                       | None \<Rightarrow>
                           let d2 = d1\<lparr>state_file := tmp_file d1, tmp_file := None, disk_calls := disk_calls d1 + 1\<rparr>
                           in (case disk_fate d2 (disk_calls d2) of
                                 Some left \<Rightarrow>
                                   (Some Write_Replication_Log_File,
                                    s\<lparr>f_disk := d2\<lparr>log_file := left, disk_calls := disk_calls d2 + 1\<rparr>\<rparr>)
                               | None \<Rightarrow>
                                   (None, s\<lparr>f_disk := d2\<lparr>log_file := Some payload, disk_calls := disk_calls d2 + 1\<rparr>\<rparr>))))))"

datatype load_error = Read_State_File | Decode_State_File

text \<open>\<open>read_ok\<close> says that an existing state file can be read.\<close>

definition load :: "('v, 'p) fs_env \<Rightarrow> bool \<Rightarrow> ('v, 'p) file_store \<Rightarrow> load_error option \<times> ('v, 'p) file_store" where
  "load env read_ok s =
     (case state_file (f_disk s) of
        None \<Rightarrow> (None, s)
      | Some payload \<Rightarrow>
          if \<not> read_ok then (Some Read_State_File, s)
          else (case decode env payload of
                  None \<Rightarrow> (Some Decode_State_File, s)
                | Some data \<Rightarrow>
                    (None, s\<lparr>f_entries := foldl (\<lambda>m e. fmupd (Key e) e m) (f_entries s) (d_Entries data),
                             f_logs := d_Logs data, f_snapshot := d_Snapshot data\<rparr>)))"

definition NewFileStore :: "('v, 'p) fs_env \<Rightarrow> bool \<Rightarrow> 'p disk \<Rightarrow> load_error + ('v, 'p) file_store" where
  "NewFileStore env read_ok d =
     (case load env read_ok \<lparr>f_entries = fmempty, f_logs = [], f_snapshot = [], f_disk = d\<rparr> of
        (Some e, _) \<Rightarrow> Inl e
      | (None, s) \<Rightarrow> Inr s)"

definition file_Get :: "('v, 'p) file_store \<Rightarrow> string \<Rightarrow> store_error + 'v state_entry" where
  "file_Get s key = (case fmlookup (f_entries s) key of None \<Rightarrow> Inl (Key_Not_Found key) | Some e \<Rightarrow> Inr e)"

definition file_Set :: "('v, 'p) fs_env \<Rightarrow> ('v, 'p) file_store \<Rightarrow> 'v state_entry \<Rightarrow> store_error option \<times> ('v, 'p) file_store" where
  "file_Set env s e = persist env (s\<lparr>f_entries := fmupd (Key e) e (f_entries s)\<rparr>)"

definition file_Delete :: "('v, 'p) fs_env \<Rightarrow> ('v, 'p) file_store \<Rightarrow> string \<Rightarrow> store_error option \<times> ('v, 'p) file_store" where
  "file_Delete env s key = persist env (s\<lparr>f_entries := fmdrop key (f_entries s)\<rparr>)"

definition file_List :: "('v, 'p) file_store \<Rightarrow> string \<Rightarrow> string list \<Rightarrow> 'v state_entry list" where
  "file_List s prefix ks = list_entries (f_entries s) prefix ks"

definition file_SaveLog :: "('v, 'p) fs_env \<Rightarrow> ('v, 'p) file_store \<Rightarrow> 'v replication_log \<Rightarrow> store_error option \<times> ('v, 'p) file_store" where
  "file_SaveLog env s l = persist env (s\<lparr>f_logs := f_logs s @ [l]\<rparr>)"

definition file_GetLogs :: "('v, 'p) file_store \<Rightarrow> int \<Rightarrow> 'v replication_log list" where
  "file_GetLogs s fromSequence = filter (\<lambda>l. l_SequenceID l > fromSequence) (f_logs s)"

definition file_Snapshot :: "('v, 'p) fs_env \<Rightarrow> ('v, 'p) file_store \<Rightarrow> 'v state_entry list \<Rightarrow> store_error option \<times> ('v, 'p) file_store" where
  "file_Snapshot env s es = persist env (s\<lparr>f_snapshot := es\<rparr>)"

definition file_LoadSnapshot :: "('v, 'p) file_store \<Rightarrow> 'v state_entry list" where
  "file_LoadSnapshot s = f_snapshot s"

definition file_ops :: "('v, 'p) fs_env \<Rightarrow> (('v, 'p) file_store, 'v) store_ops" where
  "file_ops env = \<lparr>st_Get = file_Get, st_Set = file_Set env, st_Delete = file_Delete env, st_List = file_List,
     st_SaveLog = file_SaveLog env, st_GetLogs = file_GetLogs, st_Snapshot = file_Snapshot env,
     st_LoadSnapshot = file_LoadSnapshot\<rparr>"

lemma persist_memory:
  "persist env s = (r, s') \<Longrightarrow> f_entries s' = f_entries s \<and> f_logs s' = f_logs s \<and> f_snapshot s' = f_snapshot s"
  by (auto simp: persist_def Let_def split: option.splits)

interpretation fstore: state_store "file_ops env" f_entries f_logs f_snapshot for env
  by unfold_locales
    (auto simp: file_ops_def file_Get_def file_Set_def file_Delete_def file_List_def file_SaveLog_def
      file_GetLogs_def file_Snapshot_def file_LoadSnapshot_def list_entries_prefix dest!: persist_memory)

subsection \<open>Durability of the store on disk\<close>

text \<open>What the code relies on: decoding gives back what was encoded, and a loop over a map visits its keys.\<close>

definition env_ok :: "('v, 'p) fs_env \<Rightarrow> bool" where
  "env_ok env \<longleftrightarrow>
     (\<forall>d p. encode env d = Some p \<longrightarrow> decode env p = Some d)
     \<and> (\<forall>m. set (visit env m) = fset (fmdom m))"

definition keyed :: "(string, 'v state_entry) fmap \<Rightarrow> bool" where
  "keyed m \<longleftrightarrow> (\<forall>k e. fmlookup m k = Some e \<longrightarrow> Key e = k)"

definition view :: "('v, 'p) file_store \<Rightarrow> (string, 'v state_entry) fmap \<times> 'v replication_log list \<times> 'v state_entry list" where
  "view s = (f_entries s, f_logs s, f_snapshot s)"

text \<open>What a process finds that opens the files.\<close>

definition on_disk :: "('v, 'p) fs_env \<Rightarrow> 'p disk
    \<Rightarrow> ((string, 'v state_entry) fmap \<times> 'v replication_log list \<times> 'v state_entry list) option" where
  "on_disk env d = (case NewFileStore env True d of Inl _ \<Rightarrow> None | Inr s \<Rightarrow> Some (view s))"

lemma find_append:
  "find P (xs @ ys) = (case find P xs of None \<Rightarrow> find P ys | Some x \<Rightarrow> Some x)"
  by (induction xs) auto

lemma find_Some_in: "find P xs = Some x \<Longrightarrow> x \<in> set xs \<and> P x"
  by (induction xs) (auto split: if_splits)

lemma foldl_fmupd_lookup:
  fixes es :: "'v state_entry list"
  shows "fmlookup (foldl (\<lambda>m e. fmupd (Key e) e m) m es) k
    = (case find (\<lambda>e. Key e = k) (rev es) of None \<Rightarrow> fmlookup m k | Some e \<Rightarrow> Some e)"
proof (induction es arbitrary: m)
  case (Cons e es)
  then show ?case by (auto simp: find_append split: option.splits)
qed simp

lemma rebuild_entries:
  assumes "keyed m" "set ks = fset (fmdom m)"
  shows "foldl (\<lambda>m e. fmupd (Key e) e m) fmempty (List.map_filter (fmlookup m) ks) = m"
proof (rule fmap_ext)
  fix k
  let ?es = "List.map_filter (fmlookup m) ks"
  have es: "e \<in> set ?es \<longleftrightarrow> fmlookup m (Key e) = Some e" for e
  proof
    assume "e \<in> set ?es"
    with assms(1) show "fmlookup m (Key e) = Some e" by (auto simp: List.map_filter_def keyed_def)
  next
    assume e: "fmlookup m (Key e) = Some e"
    then have "Key e \<in> set ks" using assms(2) by (simp add: fmdomI)
    with e show "e \<in> set ?es" by (force simp: List.map_filter_def)
  qed
  show "fmlookup (foldl (\<lambda>m e. fmupd (Key e) e m) fmempty ?es) k = fmlookup m k"
  proof (cases "find (\<lambda>e. Key e = k) (rev ?es)")
    case None
    have "fmlookup m k = None"
    proof (rule ccontr)
      assume "fmlookup m k \<noteq> None"
      then obtain e where "fmlookup m k = Some e" by auto
      moreover from this have "Key e = k" using assms(1) by (simp add: keyed_def)
      ultimately show False using None es [of e] by (simp add: find_None_iff)
    qed
    with None show ?thesis by (simp add: foldl_fmupd_lookup)
  next
    case (Some e)
    from find_Some_in [OF Some] have "e \<in> set ?es" "Key e = k" by simp_all
    with es Some show ?thesis by (auto simp: foldl_fmupd_lookup)
  qed
qed

lemma persist_durable:
  assumes "env_ok env" "keyed (f_entries s)" "persist env s = (r, s')"
  shows "(state_file (f_disk s') = state_file (f_disk s) \<and> r \<noteq> None) \<or> on_disk env (f_disk s') = Some (view s')"
proof (cases "state_file (f_disk s') = state_file (f_disk s) \<and> r \<noteq> None")
  case False
  let ?data = "\<lparr>d_Entries = List.map_filter (fmlookup (f_entries s)) (visit env (f_entries s)),
                  d_Logs = f_logs s, d_Snapshot = f_snapshot s\<rparr>"
  from False assms(3) obtain payload where p: "encode env ?data = Some payload" "state_file (f_disk s') = Some payload"
    by (auto simp: persist_def Let_def split: option.splits)
  then have "decode env payload = Some ?data" using assms(1) by (simp add: env_ok_def)
  moreover have "foldl (\<lambda>m e. fmupd (Key e) e m) fmempty (List.map_filter (fmlookup (f_entries s)) (visit env (f_entries s)))
      = f_entries s" using assms(1,2) by (intro rebuild_entries) (simp_all add: env_ok_def)
  ultimately show ?thesis using p(2) persist_memory [OF assms(3)]
    by (simp add: on_disk_def NewFileStore_def load_def view_def)
qed simp

text \<open>The operations that change a store, as values.\<close>

datatype 'v store_op =
    Op_Set "'v state_entry"
  | Op_Delete string
  | Op_SaveLog "'v replication_log"
  | Op_Snapshot "'v state_entry list"

fun file_exec :: "('v, 'p) fs_env \<Rightarrow> ('v, 'p) file_store \<Rightarrow> 'v store_op \<Rightarrow> store_error option \<times> ('v, 'p) file_store" where
  "file_exec env s (Op_Set e) = file_Set env s e"
| "file_exec env s (Op_Delete k) = file_Delete env s k"
| "file_exec env s (Op_SaveLog l) = file_SaveLog env s l"
| "file_exec env s (Op_Snapshot es) = file_Snapshot env s es"

text \<open>The part of an operation before it writes.\<close>

fun op_memory :: "('v, 'p) file_store \<Rightarrow> 'v store_op \<Rightarrow> ('v, 'p) file_store" where
  "op_memory s (Op_Set e) = s\<lparr>f_entries := fmupd (Key e) e (f_entries s)\<rparr>"
| "op_memory s (Op_Delete k) = s\<lparr>f_entries := fmdrop k (f_entries s)\<rparr>"
| "op_memory s (Op_SaveLog l) = s\<lparr>f_logs := f_logs s @ [l]\<rparr>"
| "op_memory s (Op_Snapshot es) = s\<lparr>f_snapshot := es\<rparr>"

lemma file_exec_persist: "file_exec env s c = persist env (op_memory s c)"
  by (cases c) (simp_all add: file_Set_def file_Delete_def file_SaveLog_def file_Snapshot_def)

lemma op_memory_keyed: "keyed (f_entries s) \<Longrightarrow> keyed (f_entries (op_memory s c)) \<and> f_disk (op_memory s c) = f_disk s"
  by (cases c) (auto simp: keyed_def)

lemma file_exec_durable:
  assumes "env_ok env" "keyed (f_entries s)" "file_exec env s c = (r, s')"
  shows "keyed (f_entries s') \<and>
    ((state_file (f_disk s') = state_file (f_disk s) \<and> r \<noteq> None) \<or> on_disk env (f_disk s') = Some (view s'))"
proof -
  from assms(3) have p: "persist env (op_memory s c) = (r, s')" by (simp add: file_exec_persist)
  from op_memory_keyed [OF assms(2), of c] have k: "keyed (f_entries (op_memory s c))"
    and d: "f_disk (op_memory s c) = f_disk s" by simp_all
  from persist_durable [OF assms(1) k p] persist_memory [OF p] k d show ?thesis by simp
qed

lemma on_disk_cong: "state_file d = state_file d' \<Longrightarrow> on_disk env d = on_disk env d'"
  by (cases "state_file d'"; cases "decode env (the (state_file d'))")
    (simp_all add: on_disk_def NewFileStore_def load_def view_def)

fun file_run :: "('v, 'p) fs_env \<Rightarrow> ('v, 'p) file_store \<Rightarrow> 'v store_op list \<Rightarrow> ('v, 'p) file_store" where
  "file_run env s [] = s"
| "file_run env s (c # cs) = file_run env (snd (file_exec env s c)) cs"

lemma file_run_durable:
  assumes "env_ok env" "keyed (f_entries s)" "on_disk env (f_disk s) = Some v"
  shows "on_disk env (f_disk (file_run env s cs)) = Some v
    \<or> (\<exists>i. 0 < i \<and> i \<le> length cs \<and> on_disk env (f_disk (file_run env s cs)) = Some (view (file_run env s (take i cs))))"
  using assms(2,3)
proof (induction cs arbitrary: s v)
  case (Cons c cs)
  obtain r s' where e: "file_exec env s c = (r, s')" by fastforce
  from file_exec_durable [OF assms(1) Cons(2) e] have k: "keyed (f_entries s')"
    and d: "state_file (f_disk s') = state_file (f_disk s) \<or> on_disk env (f_disk s') = Some (view s')" by auto
  then consider "on_disk env (f_disk s') = Some v" | "on_disk env (f_disk s') = Some (view s')"
    using on_disk_cong Cons(3) by metis
  then show ?case
  proof cases
    case 1
    from Cons(1) [OF k 1] show ?thesis
    proof
      assume "\<exists>i. 0 < i \<and> i \<le> length cs \<and> on_disk env (f_disk (file_run env s' cs)) = Some (view (file_run env s' (take i cs)))"
      then obtain i where "0 < i" "i \<le> length cs"
        "on_disk env (f_disk (file_run env s' cs)) = Some (view (file_run env s' (take i cs)))" by blast
      then show ?thesis using e by (intro disjI2 exI [of _ "Suc i"]) simp
    qed (use e in simp)
  next
    case 2
    from Cons(1) [OF k 2] show ?thesis
    proof
      assume "on_disk env (f_disk (file_run env s' cs)) = Some (view s')"
      then show ?thesis using e by (intro disjI2 exI [of _ 1]) simp
    next
      assume "\<exists>i. 0 < i \<and> i \<le> length cs \<and> on_disk env (f_disk (file_run env s' cs)) = Some (view (file_run env s' (take i cs)))"
      then obtain i where "0 < i" "i \<le> length cs"
        "on_disk env (f_disk (file_run env s' cs)) = Some (view (file_run env s' (take i cs)))" by blast
      then show ?thesis using e by (intro disjI2 exI [of _ "Suc i"]) simp
    qed
  qed
qed simp

lemma keyed_upd: "keyed m \<Longrightarrow> keyed (fmupd (Key e) e m)"
  by (simp add: keyed_def)

lemma foldl_keyed:
  fixes m :: "(string, 'v state_entry) fmap"
  shows "keyed m \<Longrightarrow> keyed (foldl (\<lambda>m e. fmupd (Key e) e m) m es)"
  by (induction es arbitrary: m) (simp_all add: keyed_upd)

lemma NewFileStore_keyed:
  assumes "NewFileStore env True d = Inr s"
  shows "keyed (f_entries s) \<and> f_disk s = d"
proof (cases "state_file d")
  case None
  with assms show ?thesis by (auto simp: NewFileStore_def load_def keyed_def)
next
  case (Some p)
  with assms obtain data where "decode env p = Some data"
    by (cases "decode env p") (simp_all add: NewFileStore_def load_def)
  with assms Some show ?thesis
    by (auto simp: NewFileStore_def load_def intro!: foldl_keyed) (simp add: keyed_def)
qed


definition demo_env :: "(nat, nat file_store_data) fs_env" where
  "demo_env = \<lparr>encode = Some, decode = Some, visit = (\<lambda>m. sorted_list_of_set (fset (fmdom m)))\<rparr>"

definition demo_entry :: "nat \<Rightarrow> nat state_entry" where
  "demo_entry v = \<lparr>Key = ''k'', Value = Some v, Version = 1, e_CreatedAt = 5, e_UpdatedAt = 5, TTL = 0, e_Checksum = []\<rparr>"

text \<open>In the witness the second operation fails half way through writing the temporary file.\<close>

definition demo_disk :: "nat file_store_data disk" where
  "demo_disk = \<lparr>state_file = None, tmp_file = None, log_file = None, disk_calls = 0,
     disk_fate = (\<lambda>n. if n = 3 then Some None else None)\<rparr>"


end
