(* ===== verification/Replication.thy ===== *)
theory Replication
  imports State_Store
begin

section \<open>State replication\<close>

text \<open>
  Model of \<open>GoTunnel/internal/state/replication.go\<close>: the replicator over any store of the
  interface \<open>Store\<close>, with its local map, the table of nodes, leader election, log replay and
  snapshots. Clock readings, the orders in which maps are visited, the JSON encoding of a value and
  the answers of the peers are arguments. The worker goroutines run their bodies on a ticker; each
  body is one operation here, and so is every election that \<open>checkNodeHealth\<close> starts.
\<close>

subsection \<open>State\<close>

datatype node_status =
  NodeStatusActive | NodeStatusStandby | NodeStatusSyncing | NodeStatusFailed | NodeStatusRecovering | NodeStatusOther string

record node =
  n_ID :: string
  n_Address :: string
  n_Status :: node_status
  n_IsLeader :: bool
  n_LastHeartbeat :: time
  n_SequenceID :: int

record rep_config =
  NodeID :: string
  Nodes :: "string list"
  HeartbeatInterval :: duration
  ElectionTimeout :: duration
  SyncTimeout :: duration
  MaxLogEntries :: int
  has_PeerTransport :: bool

datatype 'v rep_callback = OnStateChange string "'v option" | OnFailover string

record ('s, 'v) replicator =
  config :: rep_config
  store :: 's
  localState :: "(string, 'v state_entry) fmap"
  nodes :: "(string, node) fmap"
  leaderID :: string
  sequenceID :: int
  has_onStateChange :: bool
  has_onFailover :: bool
  r_calls :: "'v rep_callback list"

datatype rep_error = Save_State store_error | Save_Log store_error | Delete_State store_error | Lookup_Error store_error

text \<open>The increment of an \<open>int64\<close> wraps around.\<close>

definition int64_inc :: "int \<Rightarrow> int" where
  "int64_inc n = (n + 1 + 2 ^ 63) mod 2 ^ 64 - 2 ^ 63"

lemma int64_inc_small: "- (2 ^ 63) \<le> n \<Longrightarrow> n < 2 ^ 63 - 1 \<Longrightarrow> int64_inc n = n + 1"
  by (simp add: int64_inc_def)

definition NewReplicator :: "rep_config \<Rightarrow> 's \<Rightarrow> (string \<Rightarrow> time) \<Rightarrow> ('s, 'v) replicator" where
  "NewReplicator cfg st clk =
     (let cfg = cfg\<lparr>HeartbeatInterval := (if HeartbeatInterval cfg = 0 then second_ns else HeartbeatInterval cfg),
                    ElectionTimeout := (if ElectionTimeout cfg = 0 then 5 * second_ns else ElectionTimeout cfg),
                    SyncTimeout := (if SyncTimeout cfg = 0 then 30 * second_ns else SyncTimeout cfg),
                    MaxLogEntries := (if MaxLogEntries cfg = 0 then 10000 else MaxLogEntries cfg)\<rparr>;
          self = \<lparr>n_ID = NodeID cfg, n_Address = NodeID cfg, n_Status = NodeStatusActive, n_IsLeader = False,
                  n_LastHeartbeat = clk (NodeID cfg), n_SequenceID = 0\<rparr>;
          add = (\<lambda>m raw. let n = TrimSpace raw
                   in if n = [] \<or> n = NodeID cfg then m
                      else fmupd n \<lparr>n_ID = n, n_Address = n, n_Status = NodeStatusSyncing, n_IsLeader = False,
                                    n_LastHeartbeat = clk n, n_SequenceID = 0\<rparr> m)
      in \<lparr>config = cfg, store = st, localState = fmempty,
          nodes = foldl add (fmupd (NodeID cfg) self fmempty) (Nodes cfg),
          leaderID = [], sequenceID = 0, has_onStateChange = False, has_onFailover = False, r_calls = []\<rparr>)"

definition call_back :: "bool \<Rightarrow> 'v rep_callback \<Rightarrow> ('s, 'v) replicator \<Rightarrow> ('s, 'v) replicator" where
  "call_back is_set c r = (if is_set then r\<lparr>r_calls := r_calls r @ [c]\<rparr> else r)"

text \<open>Merging the entries of a snapshot, as \<open>Start\<close> and \<open>RecoverFromFailure\<close> do.\<close>

definition merge_entry :: "('s, 'v) replicator \<Rightarrow> 'v state_entry \<Rightarrow> ('s, 'v) replicator" where
  "merge_entry r e =
     (let r1 = r\<lparr>localState := fmupd (Key e) e (localState r)\<rparr>
      in if Version e > sequenceID r1 then r1\<lparr>sequenceID := Version e\<rparr> else r1)"

definition rep_Start :: "('s, 'v) store_ops \<Rightarrow> ('s, 'v) replicator \<Rightarrow> ('s, 'v) replicator" where
  "rep_Start ops r = foldl merge_entry r (st_LoadSnapshot ops (store r))"

subsection \<open>Reading and writing\<close>

definition entry_expired :: "'v state_entry \<Rightarrow> time \<Rightarrow> bool" where
  "entry_expired e now \<longleftrightarrow> TTL e > 0 \<and> time_sub now (e_UpdatedAt e) > TTL e"

definition rep_Get :: "('s, 'v) store_ops \<Rightarrow> ('s, 'v) replicator \<Rightarrow> string \<Rightarrow> time \<Rightarrow> store_error + 'v state_entry" where
  "rep_Get ops r key now =
     (case fmlookup (localState r) key of
        Some e \<Rightarrow> if entry_expired e now then Inl (Key_Expired key) else Inr e
      | None \<Rightarrow> st_Get ops (store r) key)"

text \<open>\<open>%x\<close> of the JSON encoding, cut after 32 digits.\<close>

definition hex_digits :: "byte \<Rightarrow> string" where
  "hex_digits b = [''0123456789abcdef'' ! (unat b div 16), ''0123456789abcdef'' ! (unat b mod 16)]"

definition calculateChecksum :: "('v option \<Rightarrow> byte list) \<Rightarrow> 'v option \<Rightarrow> string" where
  "calculateChecksum marshal v =
     (let hash = concat (map hex_digits (marshal v)) in if length hash > 32 then take 32 hash else hash)"

definition rep_Set ::
    "('s, 'v) store_ops \<Rightarrow> ('v option \<Rightarrow> byte list) \<Rightarrow> ('s, 'v) replicator \<Rightarrow> string \<Rightarrow> 'v option \<Rightarrow> duration \<Rightarrow> time
      \<Rightarrow> rep_error option \<times> ('s, 'v) replicator" where
  "rep_Set ops marshal r key val ttl now =
     (let r1 = r\<lparr>sequenceID := int64_inc (sequenceID r)\<rparr>;
          e = \<lparr>Key = key, Value = val, Version = sequenceID r1, e_CreatedAt = now, e_UpdatedAt = now, TTL = ttl,
               e_Checksum = calculateChecksum marshal val\<rparr>
      in (case st_Set ops (store r1) e of
            (Some err, st) \<Rightarrow> (Some (Save_State err), r1\<lparr>store := st\<rparr>)
          | (None, st) \<Rightarrow>
              let l = \<lparr>l_SequenceID = sequenceID r1, Operation = ''set'', l_Key = key, l_Value = val,
                       l_Timestamp = now, l_NodeID = NodeID (config r1), l_Checksum = e_Checksum e\<rparr>
              in (case st_SaveLog ops st l of
                    (Some err, st2) \<Rightarrow> (Some (Save_Log err), r1\<lparr>store := st2\<rparr>)
                  | (None, st2) \<Rightarrow>
                      let r2 = r1\<lparr>store := st2, localState := fmupd key e (localState r1)\<rparr>
                      in (None, call_back (has_onStateChange r2) (OnStateChange key val) r2))))"

definition rep_Delete :: "('s, 'v) store_ops \<Rightarrow> ('s, 'v) replicator \<Rightarrow> string \<Rightarrow> time \<Rightarrow> rep_error option \<times> ('s, 'v) replicator" where
  "rep_Delete ops r key now =
     (let r1 = r\<lparr>sequenceID := int64_inc (sequenceID r)\<rparr>
      in (case st_Delete ops (store r1) key of
            (Some err, st) \<Rightarrow> (Some (Delete_State err), r1\<lparr>store := st\<rparr>)
          | (None, st) \<Rightarrow>
              let l = \<lparr>l_SequenceID = sequenceID r1, Operation = ''delete'', l_Key = key, l_Value = None,
                       l_Timestamp = now, l_NodeID = NodeID (config r1), l_Checksum = []\<rparr>
              in (case st_SaveLog ops st l of
                    (Some err, st2) \<Rightarrow> (Some (Save_Log err), r1\<lparr>store := st2\<rparr>)
                  | (None, st2) \<Rightarrow>
                      let r2 = r1\<lparr>store := st2, localState := fmdrop key (localState r1)\<rparr>
                      in (None, call_back (has_onStateChange r2) (OnStateChange key None) r2))))"

definition rep_List :: "('s, 'v) store_ops \<Rightarrow> ('s, 'v) replicator \<Rightarrow> string \<Rightarrow> string list \<Rightarrow> 'v state_entry list" where
  "rep_List ops r prefix ks = st_List ops (store r) prefix ks"

definition set_OnStateChange :: "('s, 'v) replicator \<Rightarrow> bool \<Rightarrow> ('s, 'v) replicator" where
  "set_OnStateChange r is_set = r\<lparr>has_onStateChange := is_set\<rparr>"

definition set_OnFailover :: "('s, 'v) replicator \<Rightarrow> bool \<Rightarrow> ('s, 'v) replicator" where
  "set_OnFailover r is_set = r\<lparr>has_onFailover := is_set\<rparr>"

definition GetLeader :: "('s, 'v) replicator \<Rightarrow> string" where
  "GetLeader r = leaderID r"

definition IsLeader :: "('s, 'v) replicator \<Rightarrow> bool" where
  "IsLeader r \<longleftrightarrow> leaderID r = NodeID (config r)"

definition GetNodes :: "('s, 'v) replicator \<Rightarrow> (string, node) fmap" where
  "GetNodes r = nodes r"

subsection \<open>Nodes and election\<close>

text \<open>The heartbeat message is the zero \<open>Node\<close> when this node has been removed.\<close>

definition zero_node :: node where
  "zero_node = \<lparr>n_ID = [], n_Address = [], n_Status = NodeStatusOther [], n_IsLeader = False, n_LastHeartbeat = zero_time, n_SequenceID = 0\<rparr>"

definition sendHeartbeat :: "('s, 'v) replicator \<Rightarrow> time \<Rightarrow> node option \<times> ('s, 'v) replicator" where
  "sendHeartbeat r now =
     (let self_id = NodeID (config r);
          (self, r1) = (case fmlookup (nodes r) self_id of
              None \<Rightarrow> (zero_node, r)
            | Some n \<Rightarrow>
                let n' = n\<lparr>n_LastHeartbeat := now, n_SequenceID := sequenceID r,
                           n_IsLeader := (leaderID r = self_id), n_Address := self_id\<rparr>
                in (n', r\<lparr>nodes := fmupd self_id n' (nodes r)\<rparr>))
      in (if has_PeerTransport (config r) then Some self else None, r1))"

text \<open>One iteration of the loop of \<open>checkNodeHealth\<close>; the counter is the number of elections started.\<close>

definition check_node :: "time \<Rightarrow> nat \<times> ('s, 'v) replicator \<Rightarrow> string \<Rightarrow> nat \<times> ('s, 'v) replicator" where
  "check_node now st nid =
     (let (k, r) = st
      in (case fmlookup (nodes r) nid of
            None \<Rightarrow> (k, r)
          | Some n \<Rightarrow>
              if nid = NodeID (config r) then (k, r)
              else if time_sub now (n_LastHeartbeat n) > ElectionTimeout (config r)
              then let r1 = r\<lparr>nodes := fmupd nid (n\<lparr>n_Status := NodeStatusFailed\<rparr>) (nodes r)\<rparr>
                   in if n_IsLeader n then (k + 1, r1\<lparr>leaderID := []\<rparr>) else (k, r1)
              else (k, r)))"

definition checkNodeHealth :: "('s, 'v) replicator \<Rightarrow> time \<Rightarrow> string list \<Rightarrow> nat \<times> ('s, 'v) replicator" where
  "checkNodeHealth r now ids = foldl (check_node now) (0, r) ids"

definition candidates :: "('s, 'v) replicator \<Rightarrow> string list \<Rightarrow> string list" where
  "candidates r ids =
     filter (\<lambda>nid. case fmlookup (nodes r) nid of None \<Rightarrow> False | Some n \<Rightarrow> n_Status n = NodeStatusActive) ids"

definition triggerElection :: "('s, 'v) replicator \<Rightarrow> string list \<Rightarrow> ('s, 'v) replicator" where
  "triggerElection r ids =
     (case candidates r ids of
        [] \<Rightarrow> r
      | c # cs \<Rightarrow>
          let selectedID = foldl (\<lambda>sel nid. if nid < sel then nid else sel) c (c # cs)
          in if leaderID r \<noteq> selectedID
             then let r1 = r\<lparr>leaderID := selectedID,
                             nodes := fmmap_keys (\<lambda>nid n. n\<lparr>n_IsLeader := (nid = selectedID),
                                        n_Status := (if nid = selectedID then NodeStatusActive else NodeStatusStandby)\<rparr>)
                                      (nodes r)\<rparr>
                  in call_back (leaderID r \<noteq> [] \<and> has_onFailover r1) (OnFailover selectedID) r1
             else r)"

text \<open>The body of the election worker's tick.\<close>

definition election_tick :: "('s, 'v) replicator \<Rightarrow> string list \<Rightarrow> ('s, 'v) replicator" where
  "election_tick r ids = (if leaderID r = [] then triggerElection r ids else r)"

definition RegisterNode :: "('s, 'v) replicator \<Rightarrow> string \<Rightarrow> string \<Rightarrow> time \<Rightarrow> ('s, 'v) replicator" where
  "RegisterNode r nid address now =
     (if nid |\<in>| fmdom (nodes r) then r
      else r\<lparr>nodes := fmupd nid \<lparr>n_ID = nid, n_Address = address, n_Status = NodeStatusSyncing, n_IsLeader = False,
                                n_LastHeartbeat = now, n_SequenceID = 0\<rparr> (nodes r)\<rparr>)"

definition ApplyHeartbeat :: "('s, 'v) replicator \<Rightarrow> node \<Rightarrow> ('s, 'v) replicator" where
  "ApplyHeartbeat r n =
     (let cur = (case fmlookup (nodes r) (n_ID n) of
                   Some c \<Rightarrow> c
                 | None \<Rightarrow> zero_node\<lparr>n_ID := n_ID n\<rparr>);
          new = cur\<lparr>n_Address := n_Address n, n_LastHeartbeat := n_LastHeartbeat n, n_SequenceID := n_SequenceID n,
                    n_IsLeader := n_IsLeader n, n_Status := NodeStatusActive\<rparr>;
          r1 = r\<lparr>nodes := fmupd (n_ID n) new (nodes r)\<rparr>
      in if n_IsLeader n then r1\<lparr>leaderID := n_ID n\<rparr> else r1)"

definition RemoveNode :: "('s, 'v) replicator \<Rightarrow> string \<Rightarrow> ('s, 'v) replicator" where
  "RemoveNode r nid =
     (let r1 = r\<lparr>nodes := fmdrop nid (nodes r)\<rparr>
      in if leaderID r1 = nid then r1\<lparr>leaderID := []\<rparr> else r1)"

subsection \<open>Synchronisation\<close>

text \<open>One iteration of \<open>ApplyLogs\<close>; the errors of the store are ignored.\<close>

definition apply_log :: "('s, 'v) store_ops \<Rightarrow> ('s, 'v) replicator \<Rightarrow> 'v replication_log \<Rightarrow> ('s, 'v) replicator" where
  "apply_log ops r l =
     (let r1 =
        (if Operation l = ''set'' then
           let createdAt = (case fmlookup (localState r) (l_Key l) of
                 Some e \<Rightarrow> if e_CreatedAt e \<noteq> zero_time then e_CreatedAt e else l_Timestamp l
               | None \<Rightarrow> l_Timestamp l);
               e = \<lparr>Key = l_Key l, Value = l_Value l, Version = l_SequenceID l, e_CreatedAt = createdAt,
                    e_UpdatedAt = l_Timestamp l, TTL = 0, e_Checksum = l_Checksum l\<rparr>
           in r\<lparr>store := snd (st_Set ops (store r) e), localState := fmupd (l_Key l) e (localState r)\<rparr>
         else if Operation l = ''delete'' then
           r\<lparr>store := snd (st_Delete ops (store r) (l_Key l)), localState := fmdrop (l_Key l) (localState r)\<rparr>
         else r)
      in if l_SequenceID l > sequenceID r1 then r1\<lparr>sequenceID := l_SequenceID l\<rparr> else r1)"

definition ApplyLogs :: "('s, 'v) store_ops \<Rightarrow> ('s, 'v) replicator \<Rightarrow> 'v replication_log list \<Rightarrow> ('s, 'v) replicator" where
  "ApplyLogs ops r logs = foldl (apply_log ops) r logs"

definition ExportLogs :: "('s, 'v) store_ops \<Rightarrow> ('s, 'v) replicator \<Rightarrow> int \<Rightarrow> 'v replication_log list" where
  "ExportLogs ops r fromSequence = st_GetLogs ops (store r) fromSequence"

definition ExportSnapshot :: "('s, 'v) store_ops \<Rightarrow> ('s, 'v) replicator \<Rightarrow> string list \<Rightarrow> 'v state_entry list" where
  "ExportSnapshot ops r ks = st_List ops (store r) [] ks"

definition TakeSnapshot :: "('s, 'v) store_ops \<Rightarrow> ('s, 'v) replicator \<Rightarrow> string list \<Rightarrow> store_error option \<times> ('s, 'v) replicator" where
  "TakeSnapshot ops r ks =
     (let entries = List.map_filter (fmlookup (localState r)) ks;
          (e, st) = st_Snapshot ops (store r) entries
      in (e, r\<lparr>store := st\<rparr>))"

definition snapshot_entry :: "('s, 'v) store_ops \<Rightarrow> ('s, 'v) replicator \<Rightarrow> 'v state_entry \<Rightarrow> ('s, 'v) replicator" where
  "snapshot_entry ops r e =
     (let r1 = r\<lparr>localState := fmupd (Key e) e (localState r), store := snd (st_Set ops (store r) e)\<rparr>
      in if Version e > sequenceID r1 then r1\<lparr>sequenceID := Version e\<rparr> else r1)"

definition applySnapshot :: "('s, 'v) store_ops \<Rightarrow> ('s, 'v) replicator \<Rightarrow> 'v state_entry list \<Rightarrow> ('s, 'v) replicator" where
  "applySnapshot ops r entries =
     (let r1 = r\<lparr>localState := fmempty, store := snd (st_Snapshot ops (store r) entries)\<rparr>
      in foldl (snapshot_entry ops) r1 entries)"

definition cleanup_entry :: "('s, 'v) store_ops \<Rightarrow> time \<Rightarrow> ('s, 'v) replicator \<Rightarrow> string \<Rightarrow> ('s, 'v) replicator" where
  "cleanup_entry ops now r key =
     (case fmlookup (localState r) key of
        None \<Rightarrow> r
      | Some e \<Rightarrow>
          if entry_expired e now
          then r\<lparr>localState := fmdrop key (localState r), store := snd (st_Delete ops (store r) key)\<rparr>
          else r)"

definition cleanupExpiredEntries :: "('s, 'v) store_ops \<Rightarrow> ('s, 'v) replicator \<Rightarrow> time \<Rightarrow> string list \<Rightarrow> ('s, 'v) replicator" where
  "cleanupExpiredEntries ops r now ks = foldl (cleanup_entry ops now) r ks"

definition getLeaderNode :: "('s, 'v) replicator \<Rightarrow> node option" where
  "getLeaderNode r = (if leaderID r = [] then None else fmlookup (nodes r) (leaderID r))"

text \<open>What the peers answer; \<open>None\<close> is an error.\<close>

record 'v peer_transport =
  FetchLogs :: "node \<Rightarrow> int \<Rightarrow> 'v replication_log list option"
  FetchSnapshot :: "node \<Rightarrow> 'v state_entry list option"

definition syncState :: "('s, 'v) store_ops \<Rightarrow> 'v peer_transport \<Rightarrow> ('s, 'v) replicator \<Rightarrow> ('s, 'v) replicator" where
  "syncState ops pt r =
     (if IsLeader r then r
      else if \<not> has_PeerTransport (config r) then r
      else (case getLeaderNode r of
              None \<Rightarrow> r
            | Some leader \<Rightarrow>
                (case FetchLogs pt leader (sequenceID r) of
                   Some logs \<Rightarrow> ApplyLogs ops r logs
                 | None \<Rightarrow>
                     (case FetchSnapshot pt leader of
                        None \<Rightarrow> r
                      | Some es \<Rightarrow> applySnapshot ops r es))))"

definition set_self_status :: "('s, 'v) replicator \<Rightarrow> node_status \<Rightarrow> go_panic + ('s, 'v) replicator" where
  "set_self_status r st =
     (case fmlookup (nodes r) (NodeID (config r)) of
        None \<Rightarrow> Inl Nil_Dereference
      | Some n \<Rightarrow> Inr (r\<lparr>nodes := fmupd (NodeID (config r)) (n\<lparr>n_Status := st\<rparr>) (nodes r)\<rparr>))"

definition RecoverFromFailure :: "('s, 'v) store_ops \<Rightarrow> 'v peer_transport \<Rightarrow> ('s, 'v) replicator \<Rightarrow> go_panic + ('s, 'v) replicator" where
  "RecoverFromFailure ops pt r =
     (case set_self_status r NodeStatusRecovering of
        Inl p \<Rightarrow> Inl p
      | Inr r1 \<Rightarrow>
          (case set_self_status (foldl merge_entry r1 (st_LoadSnapshot ops (store r1))) NodeStatusActive of
             Inl p \<Rightarrow> Inl p
           | Inr r2 \<Rightarrow> Inr (if \<not> IsLeader r2 then syncState ops pt r2 else r2)))"

end
