(* ===== verification/Replication_Proofs.thy ===== *)
theory Replication_Proofs
  imports Replication
begin

section \<open>Correctness of replication\<close>

text \<open>
  Reading back what was written, convergence of followers that replay the leader's log, leader
  election, and two scenarios in which a cluster is stuck. The lemmas about stores are proved once
  for every store of the interface and used for the stores in memory and on disk.
\<close>

subsection \<open>A store that does not fail\<close>

locale reliable_store = state_store ops ents log snap
  for ops :: "('s, 'v) store_ops" and ents log snap +
  assumes set_ok: "fst (st_Set ops s e) = None"
    and delete_ok: "fst (st_Delete ops s k) = None"
    and savelog_ok: "fst (st_SaveLog ops s l) = None"

interpretation rmem: reliable_store memory_ops m_entries m_logs m_snapshot
  by unfold_locales (simp_all add: memory_ops_def mem_Set_def mem_Delete_def mem_SaveLog_def)

subsection \<open>Reading and writing\<close>

context state_store
begin

lemma rep_Set_ok:
  assumes "rep_Set ops marshal r key v ttl now = (None, r')"
  shows "\<exists>e. e = \<lparr>Key = key, Value = v, Version = int64_inc (sequenceID r), e_CreatedAt = now, e_UpdatedAt = now,
              TTL = ttl, e_Checksum = calculateChecksum marshal v\<rparr>
    \<and> localState r' = fmupd key e (localState r) \<and> ents (store r') = fmupd key e (ents (store r))
    \<and> log (store r') = log (store r) @ [\<lparr>l_SequenceID = int64_inc (sequenceID r), Operation = ''set'', l_Key = key,
         l_Value = v, l_Timestamp = now, l_NodeID = NodeID (config r), l_Checksum = calculateChecksum marshal v\<rparr>]
    \<and> sequenceID r' = int64_inc (sequenceID r) \<and> snap (store r') = snap (store r)"
proof -
  let ?e = "\<lparr>Key = key, Value = v, Version = int64_inc (sequenceID r), e_CreatedAt = now, e_UpdatedAt = now,
              TTL = ttl, e_Checksum = calculateChecksum marshal v\<rparr>"
  from assms obtain st st2 where s: "st_Set ops (store r) ?e = (None, st)"
    "st_SaveLog ops st \<lparr>l_SequenceID = int64_inc (sequenceID r), Operation = ''set'', l_Key = key,
         l_Value = v, l_Timestamp = now, l_NodeID = NodeID (config r), l_Checksum = calculateChecksum marshal v\<rparr> = (None, st2)"
    and r': "localState r' = fmupd key ?e (localState r)" "store r' = st2" "sequenceID r' = int64_inc (sequenceID r)"
    by (auto simp: rep_Set_def Let_def call_back_def split: prod.splits option.splits)
  from set_spec [OF s(1)] savelog_spec [OF s(2)] r' show ?thesis by simp
qed

lemma rep_Delete_ok:
  assumes "rep_Delete ops r key now = (None, r')"
  shows "localState r' = fmdrop key (localState r) \<and> ents (store r') = fmdrop key (ents (store r))
    \<and> log (store r') = log (store r) @ [\<lparr>l_SequenceID = int64_inc (sequenceID r), Operation = ''delete'', l_Key = key,
         l_Value = None, l_Timestamp = now, l_NodeID = NodeID (config r), l_Checksum = []\<rparr>]
    \<and> sequenceID r' = int64_inc (sequenceID r) \<and> snap (store r') = snap (store r)"
proof -
  from assms obtain st st2 where s: "st_Delete ops (store r) key = (None, st)"
    "st_SaveLog ops st \<lparr>l_SequenceID = int64_inc (sequenceID r), Operation = ''delete'', l_Key = key,
         l_Value = None, l_Timestamp = now, l_NodeID = NodeID (config r), l_Checksum = []\<rparr> = (None, st2)"
    and r': "localState r' = fmdrop key (localState r)" "store r' = st2" "sequenceID r' = int64_inc (sequenceID r)"
    by (auto simp: rep_Delete_def Let_def call_back_def split: prod.splits option.splits)
  from delete_spec [OF s(1)] savelog_spec [OF s(2)] r' show ?thesis by simp
qed

lemma get_after_rep_Set:
  assumes "rep_Set ops marshal r key v ttl now = (None, r')"
  shows "rep_Get ops r' k now' =
    (if k \<noteq> key then rep_Get ops r k now'
     else if ttl > 0 \<and> time_sub now' now > ttl then Inl (Key_Expired key)
     else Inr \<lparr>Key = key, Value = v, Version = int64_inc (sequenceID r), e_CreatedAt = now, e_UpdatedAt = now,
               TTL = ttl, e_Checksum = calculateChecksum marshal v\<rparr>)"
  using rep_Set_ok [OF assms] by (auto simp: rep_Get_def get_spec entry_expired_def split: option.split)

lemma get_after_rep_Delete:
  assumes "rep_Delete ops r key now = (None, r')"
  shows "rep_Get ops r' k now' = (if k \<noteq> key then rep_Get ops r k now' else Inl (Key_Not_Found key))"
  using rep_Delete_ok [OF assms] by (auto simp: rep_Get_def get_spec split: option.split)

end

text \<open>
  Reading back. On both stores, after a successful \<open>Set\<close> a read of the key gives the new
  value with the next version until its time to live has passed, and an expiry error from then on;
  after a successful \<open>Delete\<close> the key is not found; reads of all other keys are unaffected.
\<close>

theorem replicator_reads_its_writes:
  "(rep_Set memory_ops marshal r key v ttl now = (None, r') \<longrightarrow>
      rep_Get memory_ops r' k now' =
        (if k \<noteq> key then rep_Get memory_ops r k now'
         else if ttl > 0 \<and> time_sub now' now > ttl then Inl (Key_Expired key)
         else Inr \<lparr>Key = key, Value = v, Version = int64_inc (sequenceID r), e_CreatedAt = now, e_UpdatedAt = now,
               TTL = ttl, e_Checksum = calculateChecksum marshal v\<rparr>))
   \<and> (rep_Delete memory_ops r key now = (None, r') \<longrightarrow>
      rep_Get memory_ops r' k now' = (if k \<noteq> key then rep_Get memory_ops r k now' else Inl (Key_Not_Found key)))
   \<and> (rep_Set (file_ops env) marshal q key v ttl now = (None, q') \<longrightarrow>
      rep_Get (file_ops env) q' k now' =
        (if k \<noteq> key then rep_Get (file_ops env) q k now'
         else if ttl > 0 \<and> time_sub now' now > ttl then Inl (Key_Expired key)
         else Inr \<lparr>Key = key, Value = v, Version = int64_inc (sequenceID q), e_CreatedAt = now, e_UpdatedAt = now,
               TTL = ttl, e_Checksum = calculateChecksum marshal v\<rparr>))
   \<and> (rep_Delete (file_ops env) q key now = (None, q') \<longrightarrow>
      rep_Get (file_ops env) q' k now' = (if k \<noteq> key then rep_Get (file_ops env) q k now' else Inl (Key_Not_Found key)))"
  by (intro conjI impI; erule mem.get_after_rep_Set mem.get_after_rep_Delete
      fstore.get_after_rep_Set fstore.get_after_rep_Delete)

definition demo_rep_config :: "string \<Rightarrow> rep_config" where
  "demo_rep_config nid = \<lparr>NodeID = nid, Nodes = [], HeartbeatInterval = 0, ElectionTimeout = 0, SyncTimeout = 0,
     MaxLogEntries = 0, has_PeerTransport = True\<rparr>"

definition demo_rep :: "string \<Rightarrow> (nat memory_store, nat) replicator" where
  "demo_rep nid = NewReplicator (demo_rep_config nid) NewMemoryStore (\<lambda>_. 0)"

definition demo_marshal :: "nat option \<Rightarrow> byte list" where
  "demo_marshal v = (case v of None \<Rightarrow> [0] | Some n \<Rightarrow> [word_of_nat n])"

theorem replicator_reads_its_writes_witness:
  "\<exists>r'. rep_Set memory_ops demo_marshal (demo_rep ''a'') ''k'' (Some 3) 10 100 = (None, r')
     \<and> rep_Get memory_ops r' ''k'' 111 = Inl (Key_Expired ''k'')"
proof -
  let ?s = "rep_Set memory_ops demo_marshal (demo_rep ''a'') ''k'' (Some 3) 10 100"
  have "fst ?s = None"
    by (simp add: rep_Set_def memory_ops_def mem_Set_def mem_SaveLog_def Let_def)
  then have s: "?s = (None, snd ?s)" by (simp add: prod_eq_iff)
  have "time_sub 111 100 > 10" by (simp add: time_sub_def)
  with s replicator_reads_its_writes [of demo_marshal "demo_rep ''a''" "''k''" "Some 3" 10 100 "snd ?s" "''k''" 111]
  show ?thesis by auto
qed

subsection \<open>Convergence of followers\<close>

datatype 'v rep_op = Do_Set string "'v option" duration time | Do_Delete string time

fun rep_exec :: "('s, 'v) store_ops \<Rightarrow> ('v option \<Rightarrow> byte list) \<Rightarrow> ('s, 'v) replicator \<Rightarrow> 'v rep_op \<Rightarrow> ('s, 'v) replicator" where
  "rep_exec ops marshal r (Do_Set k v ttl t) = snd (rep_Set ops marshal r k v ttl t)"
| "rep_exec ops marshal r (Do_Delete k t) = snd (rep_Delete ops r k t)"

text \<open>
  What of an entry is replicated: the value, the version, the time of the change and the checksum.
  The time to live is not part of the log, and a follower keeps its own time of creation.
\<close>

definition core :: "'v state_entry \<Rightarrow> 'v option \<times> int \<times> time \<times> string" where
  "core e = (Value e, Version e, e_UpdatedAt e, e_Checksum e)"

definition core_map :: "(string, 'v state_entry) fmap \<Rightarrow> string \<Rightarrow> ('v option \<times> int \<times> time \<times> string) option" where
  "core_map m k = map_option core (fmlookup m k)"

definition core_apply :: "(string \<Rightarrow> ('v option \<times> int \<times> time \<times> string) option) \<Rightarrow> 'v replication_log
    \<Rightarrow> (string \<Rightarrow> ('v option \<times> int \<times> time \<times> string) option)" where
  "core_apply M l =
     (if Operation l = ''set'' then M(l_Key l \<mapsto> (l_Value l, l_SequenceID l, l_Timestamp l, l_Checksum l))
      else if Operation l = ''delete'' then M(l_Key l := None) else M)"

lemma core_map_upd: "core_map (fmupd k e m) = (core_map m)(k \<mapsto> core e)"
  by (rule ext) (simp add: core_map_def)

lemma core_map_drop: "core_map (fmdrop k m) = (core_map m)(k := None)"
  by (rule ext) (simp add: core_map_def)

lemma core_map_empty [simp]: "core_map fmempty = Map.empty"
  by (rule ext) (simp add: core_map_def)

text \<open>The state after the logs \<open>ls\<close>, numbered from 1.\<close>

definition replayed :: "('s, 'v) replicator \<Rightarrow> (string, 'v state_entry) fmap \<Rightarrow> 'v replication_log list \<Rightarrow> bool" where
  "replayed r m ls \<longleftrightarrow>
     core_map (localState r) = foldl core_apply Map.empty ls \<and> core_map m = foldl core_apply Map.empty ls
     \<and> sequenceID r = int (length ls)"

definition numbered :: "'v replication_log list \<Rightarrow> bool" where
  "numbered ls \<longleftrightarrow> (\<forall>i < length ls. l_SequenceID (ls ! i) = int i + 1)"

lemma numbered_snoc: "numbered ls \<Longrightarrow> l_SequenceID l = int (length ls) + 1 \<Longrightarrow> numbered (ls @ [l])"
  by (auto simp: numbered_def nth_append less_Suc_eq)

lemma numbered_filter:
  assumes "numbered ls"
  shows "filter (\<lambda>l. l_SequenceID l > int n) ls = drop n ls"
proof -
  have nth: "l_SequenceID (ls ! i) = int i + 1" if "i < length ls" for i
    using assms that by (simp add: numbered_def)
  have "filter (\<lambda>l. l_SequenceID l > int n) ls
      = filter (\<lambda>l. l_SequenceID l > int n) (take n ls) @ filter (\<lambda>l. l_SequenceID l > int n) (drop n ls)"
    by (metis append_take_drop_id filter_append)
  moreover have "filter (\<lambda>l. l_SequenceID l > int n) (take n ls) = []"
    using nth by (auto simp: filter_empty_conv in_set_conv_nth)
  moreover have "filter (\<lambda>l. l_SequenceID l > int n) (drop n ls) = drop n ls"
    using nth by (auto simp: filter_id_conv in_set_conv_nth)
  ultimately show ?thesis by simp
qed

context reliable_store
begin

text \<open>A leader's own operations: the state is the replay of its log.\<close>

lemma leader_exec:
  assumes "replayed r (ents (store r)) (log (store r))" "numbered (log (store r))" "length (log (store r)) < 2 ^ 63 - 1"
  shows "replayed (rep_exec ops marshal r c) (ents (store (rep_exec ops marshal r c))) (log (store (rep_exec ops marshal r c)))
    \<and> numbered (log (store (rep_exec ops marshal r c)))
    \<and> (\<exists>l. log (store (rep_exec ops marshal r c)) = log (store r) @ [l])"
proof -
  have seq: "int64_inc (sequenceID r) = int (length (log (store r))) + 1"
    using assms(1,3) by (subst int64_inc_small) (auto simp: replayed_def)
  show ?thesis
  proof (cases c)
    case (Do_Set k v ttl t)
    have "fst (rep_Set ops marshal r k v ttl t) = None"
      using set_ok savelog_ok by (auto simp: rep_Set_def Let_def split: prod.splits option.splits) (metis fst_conv option.distinct(1))+
    then have "rep_Set ops marshal r k v ttl t = (None, rep_exec ops marshal r c)" using Do_Set by (simp add: prod_eq_iff)
    from rep_Set_ok [OF this] assms seq show ?thesis
      by (auto simp: replayed_def core_map_upd core_apply_def core_def intro!: numbered_snoc)
  next
    case (Do_Delete k t)
    have "fst (rep_Delete ops r k t) = None"
      using delete_ok savelog_ok by (auto simp: rep_Delete_def Let_def split: prod.splits option.splits) (metis fst_conv option.distinct(1))+
    then have "rep_Delete ops r k t = (None, rep_exec ops marshal r c)" using Do_Delete by (simp add: prod_eq_iff)
    from rep_Delete_ok [OF this] assms seq show ?thesis
      by (auto simp: replayed_def core_map_drop core_apply_def intro!: numbered_snoc)
  qed
qed

lemma leader_run:
  assumes "replayed r (ents (store r)) (log (store r))" "numbered (log (store r))"
    and "length (log (store r)) + length cs < 2 ^ 63"
  shows "replayed (foldl (rep_exec ops marshal) r cs) (ents (store (foldl (rep_exec ops marshal) r cs)))
      (log (store (foldl (rep_exec ops marshal) r cs)))
    \<and> numbered (log (store (foldl (rep_exec ops marshal) r cs)))
    \<and> (\<exists>ls. length ls = length cs \<and> log (store (foldl (rep_exec ops marshal) r cs)) = log (store r) @ ls)"
  using assms
proof (induction cs arbitrary: r)
  case (Cons c cs)
  from leader_exec [OF Cons(2,3), of marshal c] Cons(4) obtain l where
    e: "replayed (rep_exec ops marshal r c) (ents (store (rep_exec ops marshal r c))) (log (store (rep_exec ops marshal r c)))"
    "numbered (log (store (rep_exec ops marshal r c)))" "log (store (rep_exec ops marshal r c)) = log (store r) @ [l]" by auto
  from Cons(1) [OF e(1,2)] Cons(4) e(3) show ?case by auto
qed simp

lemma apply_log_replayed:
  assumes "replayed r (ents (store r)) ls" "l_SequenceID l = int (length ls) + 1"
  shows "replayed (apply_log ops r l) (ents (store (apply_log ops r l))) (ls @ [l])"
proof -
  have "ents (snd (st_Set ops s e)) = fmupd (Key e) e (ents s)" "ents (snd (st_Delete ops s k)) = fmdrop k (ents s)" for s e k
    using set_spec [of s e] delete_spec [of s k] by (metis surjective_pairing)+
  with assms show ?thesis
    by (auto simp: replayed_def apply_log_def Let_def core_map_upd core_map_drop core_apply_def core_def
        split: if_splits)
qed

lemma ApplyLogs_replayed:
  assumes "replayed r (ents (store r)) ls" "numbered (ls @ ls')"
  shows "replayed (ApplyLogs ops r ls') (ents (store (ApplyLogs ops r ls'))) (ls @ ls')"
  using assms unfolding ApplyLogs_def
proof (induction ls' arbitrary: r ls)
  case (Cons l ls')
  have "l_SequenceID l = int (length ls) + 1"
    using Cons(3) by (auto simp: numbered_def nth_append dest: spec [of _ "length ls"])
  from Cons(1) [OF apply_log_replayed [OF Cons(2) this]] Cons(3) show ?case by simp
qed simp

end

lemma apply_log_fields [simp]:
  "nodes (apply_log ops r l) = nodes r" "leaderID (apply_log ops r l) = leaderID r" "config (apply_log ops r l) = config r"
  by (simp_all add: apply_log_def Let_def)

lemma ApplyLogs_fields [simp]:
  "nodes (ApplyLogs ops r ls) = nodes r" "leaderID (ApplyLogs ops r ls) = leaderID r" "config (ApplyLogs ops r ls) = config r"
  unfolding ApplyLogs_def by (induction ls arbitrary: r) simp_all

text \<open>A transport that reaches a leader in state \<open>l\<close>.\<close>

definition leader_transport :: "('s, 'v) store_ops \<Rightarrow> ('s, 'v) replicator \<Rightarrow> string list \<Rightarrow> 'v peer_transport" where
  "leader_transport ops l ks =
     \<lparr>FetchLogs = (\<lambda>_ n. Some (ExportLogs ops l n)), FetchSnapshot = (\<lambda>_. Some (ExportSnapshot ops l ks))\<rparr>"

lemma syncState_logs:
  "\<not> IsLeader f \<Longrightarrow> has_PeerTransport (config f) \<Longrightarrow> getLeaderNode f \<noteq> None \<Longrightarrow>
     syncState ops (leader_transport ops l ks) f = ApplyLogs ops f (ExportLogs ops l (sequenceID f))"
  by (auto simp: syncState_def leader_transport_def)

context reliable_store
begin

lemma sync_converges:
  assumes "replayed f (ents (store f)) (take n (log (store l)))" "n \<le> length (log (store l))"
    and "numbered (log (store l))"
  shows "replayed (ApplyLogs ops f (ExportLogs ops l (sequenceID f)))
     (ents (store (ApplyLogs ops f (ExportLogs ops l (sequenceID f))))) (log (store l))"
proof -
  have "sequenceID f = int n" using assms(1,2) by (simp add: replayed_def)
  then have "ExportLogs ops l (sequenceID f) = drop n (log (store l))"
    using assms(3) by (simp add: ExportLogs_def getlogs_spec numbered_filter)
  with ApplyLogs_replayed [OF assms(1), of "drop n (log (store l))"] assms(3) show ?thesis by simp
qed

end

text \<open>
  C10: followers converge. A leader executes any sequence of writes and deletions; a fresh follower
  that knows the leader synchronises, the leader goes on, the follower synchronises again. After
  each synchronisation the follower has the leader's sequence number and agrees with it on every
  key, in memory and in its store: the same keys with the same value, version, time of change and
  checksum. (The time to live is not replicated.)
\<close>

theorem followers_converge:
  assumes "length cs1 + length cs2 < 2 ^ 63"
    and "l0 = NewReplicator cfg NewMemoryStore clk" "localState f0 = fmempty" "sequenceID f0 = 0" "store f0 = NewMemoryStore"
    and "\<not> IsLeader f0" "has_PeerTransport (config f0)" "getLeaderNode f0 \<noteq> None"
    and "l1 = foldl (rep_exec memory_ops marshal) l0 cs1" "f1 = syncState memory_ops (leader_transport memory_ops l1 ks1) f0"
    and "l2 = foldl (rep_exec memory_ops marshal) l1 cs2" "f2 = syncState memory_ops (leader_transport memory_ops l2 ks2) f1"
  shows "sequenceID f1 = sequenceID l1 \<and> (\<forall>k. core_map (localState f1) k = core_map (localState l1) k)
    \<and> sequenceID f2 = sequenceID l2 \<and> (\<forall>k. core_map (localState f2) k = core_map (localState l2) k)
    \<and> (\<forall>k. core_map (m_entries (store f2)) k = core_map (m_entries (store l2)) k)"
proof -
  have l0: "replayed l0 (m_entries (store l0)) (m_logs (store l0))" "numbered (m_logs (store l0))" "m_logs (store l0) = []"
    by (simp_all add: assms(2) NewReplicator_def NewMemoryStore_def replayed_def numbered_def Let_def)
  from rmem.leader_run [OF l0(1,2), of cs1 marshal] assms(1,9) l0(3) have
    l1: "replayed l1 (m_entries (store l1)) (m_logs (store l1))" "numbered (m_logs (store l1))"
    "length (m_logs (store l1)) = length cs1" by auto
  from rmem.leader_run [OF l1(1,2), of cs2 marshal] assms(1,11) l1(3) obtain ls where
    l2: "replayed l2 (m_entries (store l2)) (m_logs (store l2))" "numbered (m_logs (store l2))"
    "m_logs (store l2) = m_logs (store l1) @ ls" by auto
  have f0: "replayed f0 (m_entries (store f0)) (take 0 (m_logs (store l1)))"
    using assms(3-5) by (simp add: replayed_def NewMemoryStore_def)
  have f1: "f1 = ApplyLogs memory_ops f0 (ExportLogs memory_ops l1 (sequenceID f0))"
    using assms(6-8,10) by (simp add: syncState_logs)
  then have "replayed f1 (m_entries (store f1)) (m_logs (store l1))"
    using rmem.sync_converges [OF f0 _ l1(2)] by simp
  then have f1r: "replayed f1 (m_entries (store f1)) (take (length (m_logs (store l1))) (m_logs (store l2)))"
    and e1: "sequenceID f1 = sequenceID l1" "core_map (localState f1) = core_map (localState l1)"
    using l1(1) by (simp_all add: l2(3) replayed_def)
  have "f2 = ApplyLogs memory_ops f1 (ExportLogs memory_ops l2 (sequenceID f1))"
    unfolding assms(12) by (rule syncState_logs) (use assms(6-8) f1 in \<open>auto simp: IsLeader_def getLeaderNode_def split: if_splits\<close>)
  then have "replayed f2 (m_entries (store f2)) (m_logs (store l2))"
    using rmem.sync_converges [OF f1r _ l2(2)] l2(3) by simp
  with l2(1) e1 show ?thesis by (simp add: replayed_def)
qed

definition demo_leader :: node where
  "demo_leader = \<lparr>n_ID = ''a'', n_Address = ''a'', n_Status = NodeStatusActive, n_IsLeader = True, n_LastHeartbeat = 0, n_SequenceID = 0\<rparr>"

theorem followers_converge_witness:
  "\<exists>f2 :: (nat memory_store, nat) replicator. \<forall>k. core_map (localState f2) k
     = core_map (localState (foldl (rep_exec memory_ops demo_marshal)
         (foldl (rep_exec memory_ops demo_marshal) (demo_rep ''a'') [Do_Set ''k'' (Some 1) 0 5, Do_Delete ''k'' 6])
         [Do_Set ''j'' (Some 2) 0 7])) k"
proof -
  let ?f0 = "ApplyHeartbeat (demo_rep ''b'') demo_leader"
  have f0: "localState ?f0 = fmempty" "sequenceID ?f0 = 0" "store ?f0 = NewMemoryStore" "\<not> IsLeader ?f0"
    "has_PeerTransport (config ?f0)" "getLeaderNode ?f0 \<noteq> None"
    by (simp_all add: ApplyHeartbeat_def demo_rep_def NewReplicator_def demo_rep_config_def demo_leader_def Let_def
        IsLeader_def getLeaderNode_def)
  have "length [Do_Set ''k'' (Some 1) 0 5, Do_Delete ''k'' 6] + length [Do_Set ''j'' (Some (2 :: nat)) 0 7] < 2 ^ 63" by simp
  from followers_converge [OF this demo_rep_def [of "''a''"] f0 refl refl refl refl, of demo_marshal "[]" "[]"]
  show ?thesis by blast
qed

subsection \<open>Leader election\<close>

definition active_nodes :: "('s, 'v) replicator \<Rightarrow> string set" where
  "active_nodes r = {nid. \<exists>n. fmlookup (nodes r) nid = Some n \<and> n_Status n = NodeStatusActive}"

lemma set_candidates:
  "set ids = fset (fmdom (nodes r)) \<Longrightarrow> set (candidates r ids) = active_nodes r"
  by (auto simp: candidates_def active_nodes_def fmdomI split: option.splits)

lemma foldl_min: "foldl (\<lambda>sel nid. if nid < sel then nid else sel) (c :: string) cs = Min (insert c (set cs))"
proof -
  have "(\<lambda>sel nid. if nid < sel then nid else sel) = (min :: string \<Rightarrow> string \<Rightarrow> string)"
    by (intro ext) (auto simp: min_def)
  then have "foldl (\<lambda>sel nid. if nid < sel then nid else sel) c cs = fold min cs c"
    by (simp add: foldl_conv_fold min.commute)
  then show ?thesis by (simp add: Min.set_eq_fold [symmetric])
qed

lemma triggerElection_cases:
  assumes "set ids = fset (fmdom (nodes r))"
  shows "triggerElection r ids =
    (if active_nodes r = {} \<or> leaderID r = Min (active_nodes r) then r
     else let sel = Min (active_nodes r);
              r1 = r\<lparr>leaderID := sel,
                     nodes := fmmap_keys (\<lambda>nid n. n\<lparr>n_IsLeader := (nid = sel),
                       n_Status := (if nid = sel then NodeStatusActive else NodeStatusStandby)\<rparr>) (nodes r)\<rparr>
          in call_back (leaderID r \<noteq> [] \<and> has_onFailover r1) (OnFailover sel) r1)"
proof (cases "candidates r ids")
  case Nil
  with set_candidates [OF assms] show ?thesis by (simp add: triggerElection_def)
next
  case (Cons c cs)
  have "foldl (\<lambda>sel nid. if nid < sel then nid else sel) c (c # cs) = Min (active_nodes r)"
    using foldl_min [of c "c # cs"] Cons set_candidates [OF assms] by (metis insert_absorb2 list.simps(15))
  moreover have "active_nodes r \<noteq> {}" using Cons set_candidates [OF assms] by auto
  ultimately show ?thesis by (simp only: triggerElection_def Cons list.case Let_def) simp
qed

lemma call_back_fields [simp]:
  "nodes (call_back b c r) = nodes r" "leaderID (call_back b c r) = leaderID r" "config (call_back b c r) = config r"
  by (simp_all add: call_back_def)

text \<open>
  C11: election. Whatever the order in which the nodes are visited, an election with at least one
  active node makes the active node with the smallest identifier the leader; when that changes the
  leader, exactly that node is marked as leader and active and every other node is on standby; with
  no active node, or when the leader stays, nothing changes.
\<close>

theorem election_elects_smallest_active:
  assumes "set ids = fset (fmdom (nodes r))"
  shows "(active_nodes r \<noteq> {} \<longrightarrow> leaderID (triggerElection r ids) = Min (active_nodes r))
    \<and> (active_nodes r \<noteq> {} \<and> leaderID r \<noteq> Min (active_nodes r) \<longrightarrow>
        active_nodes (triggerElection r ids) = {Min (active_nodes r)}
        \<and> fmdom (nodes (triggerElection r ids)) = fmdom (nodes r)
        \<and> (\<forall>nid n. fmlookup (nodes (triggerElection r ids)) nid = Some n \<longrightarrow>
              n_IsLeader n = (nid = leaderID (triggerElection r ids))
              \<and> (nid \<noteq> leaderID (triggerElection r ids) \<longrightarrow> n_Status n = NodeStatusStandby)))
    \<and> (active_nodes r = {} \<or> leaderID r = Min (active_nodes r) \<longrightarrow> triggerElection r ids = r)"
proof (cases "active_nodes r = {} \<or> leaderID r = Min (active_nodes r)")
  case True
  then show ?thesis using triggerElection_cases [OF assms] by auto
next
  case False
  let ?sel = "Min (active_nodes r)"
  let ?r = "triggerElection r ids"
  have fin: "finite (active_nodes r)"
    by (rule finite_subset [of _ "fset (fmdom (nodes r))"]) (auto simp: active_nodes_def fmdomI)
  have nodes: "fmlookup (nodes ?r) nid = map_option (\<lambda>n. n\<lparr>n_IsLeader := (nid = ?sel),
       n_Status := (if nid = ?sel then NodeStatusActive else NodeStatusStandby)\<rparr>) (fmlookup (nodes r) nid)" for nid
    using False triggerElection_cases [OF assms] by (simp add: Let_def)
  have lead: "leaderID ?r = ?sel" using False triggerElection_cases [OF assms] by (simp add: Let_def)
  have "?sel \<in> active_nodes r" using False fin by (intro Min_in) auto
  then have act: "active_nodes ?r = {?sel}"
    unfolding active_nodes_def nodes by (auto split: if_splits)
  have dom: "fmdom (nodes ?r) = fmdom (nodes r)"
    using False triggerElection_cases [OF assms] by (simp add: Let_def)
  have each: "n_IsLeader n = (nid = ?sel) \<and> (nid \<noteq> ?sel \<longrightarrow> n_Status n = NodeStatusStandby)"
    if "fmlookup (nodes ?r) nid = Some n" for nid n
    using that by (auto simp: nodes)
  from lead act dom each False show ?thesis by auto
qed

definition demo_node :: "string \<Rightarrow> node_status \<Rightarrow> node" where
  "demo_node nid st = \<lparr>n_ID = nid, n_Address = nid, n_Status = st, n_IsLeader = False, n_LastHeartbeat = 0, n_SequenceID = 0\<rparr>"

lemma Min_a_b: "Min {''a'', ''b''} = ''a''"
proof -
  have "''a'' < ''b''" by (simp add: less_char_def)
  then show ?thesis by (simp add: min_def)
qed

theorem election_elects_smallest_active_witness:
  "leaderID (triggerElection ((demo_rep ''b'')\<lparr>nodes := fmupd ''b'' (demo_node ''b'' NodeStatusActive)
      (fmupd ''a'' (demo_node ''a'' NodeStatusActive) fmempty)\<rparr>) [''b'', ''a'']) = ''a''"
proof -
  let ?r = "(demo_rep ''b'')\<lparr>nodes := fmupd ''b'' (demo_node ''b'' NodeStatusActive)
      (fmupd ''a'' (demo_node ''a'' NodeStatusActive) fmempty)\<rparr>"
  have a: "active_nodes ?r = {''a'', ''b''}" by (auto simp: active_nodes_def demo_node_def)
  have "Min {''a'', ''b''} = ''a''" by (rule Min_a_b)
  with election_elects_smallest_active [of "[''b'', ''a'']" ?r] a show ?thesis by simp
qed

subsection \<open>Two ways a cluster gets stuck\<close>

text \<open>What the workers of a node do when no peer is heard from.\<close>

datatype worker_tick = Heartbeat_Tick time "string list" | Election_Run "string list" | Election_Tick "string list"

fun worker :: "('s, 'v) replicator \<Rightarrow> worker_tick \<Rightarrow> ('s, 'v) replicator" where
  "worker r (Heartbeat_Tick now ids) = snd (checkNodeHealth (snd (sendHeartbeat r now)) now ids)"
| "worker r (Election_Run ids) = triggerElection r ids"
| "worker r (Election_Tick ids) = election_tick r ids"

text \<open>Only node \<open>l\<close> may be active, and the leader is that node or nobody.\<close>

definition only_leader :: "string \<Rightarrow> ('s, 'v) replicator \<Rightarrow> bool" where
  "only_leader l r \<longleftrightarrow> active_nodes r \<subseteq> {l} \<and> (leaderID r = l \<or> leaderID r = []) \<and> NodeID (config r) \<noteq> l
     \<and> NodeID (config r) \<noteq> []"

lemma candidates_active: "set (candidates r ids) \<subseteq> active_nodes r"
  by (auto simp: candidates_def active_nodes_def split: option.splits)

lemma foldl_const: "(\<And>x. x \<in> set cs \<Longrightarrow> x = c) \<Longrightarrow> foldl (\<lambda>sel nid. if nid < sel then nid else sel) (c :: string) cs = c"
  by (induction cs) auto

lemma triggerElection_only_leader:
  assumes "only_leader l r"
  shows "only_leader l (triggerElection r ids)"
proof (cases "candidates r ids")
  case (Cons c cs)
  have "c = l" "\<And>x. x \<in> set cs \<Longrightarrow> x = l"
    using candidates_active [of r ids] assms Cons by (auto simp: only_leader_def)
  then have "foldl (\<lambda>sel nid. if nid < sel then nid else sel) c (c # cs) = l"
    by (intro trans [OF foldl_const]) auto
  with Cons assms show ?thesis
    by (auto simp: triggerElection_def only_leader_def active_nodes_def Let_def split: if_splits)
qed (use assms in \<open>simp add: triggerElection_def\<close>)

lemma sendHeartbeat_nodes:
  "leaderID (snd (sendHeartbeat r now)) = leaderID r" "config (snd (sendHeartbeat r now)) = config r"
  "nid \<noteq> NodeID (config r) \<Longrightarrow> fmlookup (nodes (snd (sendHeartbeat r now))) nid = fmlookup (nodes r) nid"
  "active_nodes (snd (sendHeartbeat r now)) = active_nodes r"
  by (auto simp: sendHeartbeat_def Let_def active_nodes_def split: option.splits)

lemma check_node_only_leader:
  "only_leader l (snd st) \<Longrightarrow> only_leader l (snd (check_node now st nid))"
  by (cases st) (auto simp: check_node_def only_leader_def active_nodes_def Let_def split: option.splits if_splits)

lemma foldl_check_node_only_leader:
  "only_leader l (snd st) \<Longrightarrow> only_leader l (snd (foldl (check_node now) st ids))"
proof (induction ids arbitrary: st)
  case (Cons nid ids)
  from Cons(1) [OF check_node_only_leader [OF Cons(2)]] show ?case by simp
qed simp

lemma sendHeartbeat_only_leader: "only_leader l r \<Longrightarrow> only_leader l (snd (sendHeartbeat r now))"
  by (simp add: only_leader_def sendHeartbeat_nodes)

lemma worker_only_leader: "only_leader l r \<Longrightarrow> only_leader l (worker r t)"
  by (cases t) (simp_all add: election_tick_def checkNodeHealth_def triggerElection_only_leader
      foldl_check_node_only_leader sendHeartbeat_only_leader)

interpretation workers: op_system worker "only_leader l" for l
  by unfold_locales (rule worker_only_leader)

text \<open>
  A standby never takes over. Once an election has chosen another node, a node that hears from
  no peer any more never becomes the leader itself, however long its workers run and however often
  they hold elections: the election has put every other node, itself included, on standby, and only
  active nodes are candidates. When the leader dies, a cluster of two stays without one.
\<close>

theorem standby_never_takes_over:
  assumes "set ids = fset (fmdom (nodes r))" "active_nodes r \<noteq> {}" "leaderID r \<noteq> Min (active_nodes r)"
    and "NodeID (config r) \<noteq> Min (active_nodes r)" "NodeID (config r) \<noteq> []"
  shows "\<not> IsLeader (foldl worker (triggerElection r ids) ticks)"
proof -
  let ?l = "Min (active_nodes r)"
  have "only_leader ?l (triggerElection r ids)"
    using assms triggerElection_cases [OF assms(1)]
    by (auto simp: only_leader_def active_nodes_def Let_def split: if_splits)
  from workers.run_invar [OF this, of ticks] show ?thesis by (auto simp: only_leader_def IsLeader_def)
qed

theorem standby_never_takes_over_witness:
  "\<not> IsLeader (foldl worker (triggerElection ((demo_rep ''b'')\<lparr>nodes := fmupd ''b'' (demo_node ''b'' NodeStatusActive)
      (fmupd ''a'' (demo_node ''a'' NodeStatusActive) fmempty)\<rparr>) [''b'', ''a''])
      [Heartbeat_Tick 10000000000 [''a'', ''b''], Election_Run [''a'', ''b''], Election_Tick [''b'', ''a'']])"
proof -
  let ?r = "(demo_rep ''b'')\<lparr>nodes := fmupd ''b'' (demo_node ''b'' NodeStatusActive)
      (fmupd ''a'' (demo_node ''a'' NodeStatusActive) fmempty)\<rparr>"
  have a: "active_nodes ?r = {''a'', ''b''}" by (auto simp: active_nodes_def demo_node_def)
  have "Min {''a'', ''b''} = ''a''" by (rule Min_a_b)
  with a show ?thesis
    by (intro standby_never_takes_over)
      (auto simp: demo_rep_def NewReplicator_def demo_rep_config_def Let_def)
qed

text \<open>
  A restart reuses sequence numbers. \<open>Start\<close> restores the sequence number from the snapshot
  only, not from the log. With no snapshot taken, the first write after a restart is logged as
  number 1 again, whatever the log already holds, and a follower that has ever synchronised is never
  sent it: what such a follower is sent is what it would have been sent without the write.
\<close>

theorem restart_reuses_sequence_numbers:
  fixes st :: "('v, 'p) file_store"
  assumes "f_snapshot st = []"
    and "rep_Set (file_ops env) marshal (rep_Start (file_ops env) (NewReplicator cfg st clk)) key v ttl now = (None, r)"
  shows "\<exists>l. f_logs (store r) = f_logs st @ [l] \<and> l_SequenceID l = 1 \<and> l_Key l = key \<and> l_Value l = v
    \<and> (\<forall>n \<ge> 1. ExportLogs (file_ops env) r n = filter (\<lambda>l. l_SequenceID l > n) (f_logs st))"
proof -
  let ?r0 = "NewReplicator cfg st clk :: (('v, 'p) file_store, 'v) replicator"
  have r0: "rep_Start (file_ops env) ?r0 = ?r0" "sequenceID ?r0 = 0" "store ?r0 = st"
    using assms(1) by (simp_all add: rep_Start_def fstore.load_spec NewReplicator_def Let_def)
  have "int64_inc 0 = 1" by (simp add: int64_inc_def)
  with fstore.rep_Set_ok [OF assms(2)] r0 obtain l where
    l: "f_logs (store r) = f_logs st @ [l]" "l_SequenceID l = 1" "l_Key l = key" "l_Value l = v" by auto
  then show ?thesis by (auto simp: ExportLogs_def fstore.getlogs_spec)
qed

definition good_disk :: "nat file_store_data disk" where
  "good_disk = \<lparr>state_file = None, tmp_file = None, log_file = None, disk_calls = 0, disk_fate = (\<lambda>_. None)\<rparr>"

definition demo_log :: "nat replication_log" where
  "demo_log = \<lparr>l_SequenceID = 1, Operation = ''set'', l_Key = ''k'', l_Value = Some 3, l_Timestamp = 5, l_NodeID = ''a'', l_Checksum = []\<rparr>"

theorem restart_reuses_sequence_numbers_witness:
  "\<exists>r l. rep_Set (file_ops demo_env) demo_marshal
       (rep_Start (file_ops demo_env) (NewReplicator (demo_rep_config ''a'')
          \<lparr>f_entries = fmempty, f_logs = [demo_log], f_snapshot = [], f_disk = good_disk\<rparr> (\<lambda>_. 0)))
       ''j'' (Some 4) 0 9 = (None, r)
     \<and> f_logs (store r) = [demo_log, l] \<and> l_SequenceID l = l_SequenceID demo_log
     \<and> ExportLogs (file_ops demo_env) r 1 = []"
proof -
  let ?st = "\<lparr>f_entries = fmempty, f_logs = [demo_log], f_snapshot = [], f_disk = good_disk\<rparr>"
  let ?q = "rep_Set (file_ops demo_env) demo_marshal
       (rep_Start (file_ops demo_env) (NewReplicator (demo_rep_config ''a'') ?st (\<lambda>_. 0))) ''j'' (Some 4) 0 9"
  have "fst ?q = None"
    by (simp add: rep_Set_def file_ops_def file_Set_def file_SaveLog_def persist_def demo_env_def good_disk_def
        rep_Start_def file_LoadSnapshot_def NewReplicator_def demo_rep_config_def Let_def)
  then have q: "?q = (None, snd ?q)" by (simp add: prod_eq_iff)
  from restart_reuses_sequence_numbers [OF _ q] obtain l where
    "f_logs (store (snd ?q)) = [demo_log, l]" "l_SequenceID l = 1"
    "ExportLogs (file_ops demo_env) (snd ?q) 1 = filter (\<lambda>l. l_SequenceID l > 1) [demo_log]" by auto
  with q show ?thesis by (auto simp: demo_log_def)
qed

end
