(* ===== verification/Broker.thy ===== *)
theory Broker
  imports Domains Requirements Hardening Replication_Proofs
begin

section \<open>The broker\<close>

text \<open>
  Model of \<open>GoTunnel/internal/broker\<close>: clients open sessions and get leases, relays register and
  report their load, brokers of a cluster exchange their replicated state. A handler takes the parsed
  request and answers with a status; the JSON body that does not parse is \<open>None\<close>. The database
  behind the interface \<open>Store\<close> is outside this code: its answers are arguments, what is saved is
  recorded, and \<open>memoryStore\<close> answers nothing. Readings of the clock between which a handler does
  nothing else share one argument. The orders in which maps are visited are arguments too; since the
  order in which \<open>sort.Slice\<close> sees its input is arbitrary, a stable sort stands for it.
\<close>

subsection \<open>Data\<close>

record lease =
  le_ID :: string
  le_Name :: string
  le_Protocol :: string
  Subdomain :: string
  PublicHost :: string
  PublicURL :: string
  DebugURL :: string
  le_RelayURL :: string
  Inspection :: bool
  HTTPSMode :: string
  WebhookURL :: string
  IssuedTLS :: bool
  le_Region :: string
  CustomDomain :: string
  Production :: bool
  le_AllowSharing :: bool
  Labels :: "string list"
  le_CreatedAt :: time

record relay_registration =
  rr_ID :: string
  rr_Name :: string
  rr_Region :: string
  rr_RelayURL :: string
  PublicBase :: string
  Capacity :: int
  Features :: "string list"
  RegisteredAt :: time
  LastHeartbeat :: time
  AssignedTunnels :: int
  rr_Status :: string

definition zero_lease :: lease where
  "zero_lease = \<lparr>le_ID = [], le_Name = [], le_Protocol = [], Subdomain = [], PublicHost = [], PublicURL = [], DebugURL = [],
     le_RelayURL = [], Inspection = False, HTTPSMode = [], WebhookURL = [], IssuedTLS = False, le_Region = [], CustomDomain = [],
     Production = False, le_AllowSharing = False, Labels = [], le_CreatedAt = zero_time\<rparr>"

definition zero_relay :: relay_registration where
  "zero_relay = \<lparr>rr_ID = [], rr_Name = [], rr_Region = [], rr_RelayURL = [], PublicBase = [], Capacity = 0, Features = [],
     RegisteredAt = zero_time, LastHeartbeat = zero_time, AssignedTunnels = 0, rr_Status = []\<rparr>"

record open_session_request =
  os_Token :: string
  os_Name :: string
  os_Protocol :: string
  RequestedSubdomain :: string
  RequestedRegion :: string
  LocalURL :: string
  InspectionEnabled :: bool
  os_HTTPSMode :: string
  os_WebhookURL :: string
  os_CustomDomain :: string
  os_Production :: bool
  os_AllowSharing :: bool
  os_Labels :: "string list"

record relay_registration_request =
  rq_relay_ID :: string
  rq_relay_Name :: string
  rq_relay_Region :: string
  rq_relay_URL :: string
  rq_PublicBase :: string
  rq_Capacity :: int
  rq_Features :: "string list"

record relay_heartbeat_request =
  hb_ID :: string
  hb_AssignedTunnels :: int

text \<open>A replicated value, by the structure it was written from.\<close>

datatype broker_value = V_Lease lease | V_Relay relay_registration

text \<open>
  \<open>decodeInto\<close> goes through JSON, which keeps the fields whose names both structures have: \<open>id\<close>,
  \<open>name\<close>, \<open>region\<close> and \<open>relay_url\<close>.
\<close>

fun toLease :: "broker_value option \<Rightarrow> lease option" where
  "toLease None = None"
| "toLease (Some (V_Lease l)) = (if le_ID l = [] then None else Some l)"
| "toLease (Some (V_Relay r)) = (if rr_ID r = [] then None
     else Some (zero_lease\<lparr>le_ID := rr_ID r, le_Name := rr_Name r, le_Region := rr_Region r, le_RelayURL := rr_RelayURL r\<rparr>))"

fun toRelay :: "broker_value option \<Rightarrow> relay_registration option" where
  "toRelay None = None"
| "toRelay (Some (V_Relay r)) = (if rr_ID r = [] then None else Some r)"
| "toRelay (Some (V_Lease l)) = (if le_ID l = [] then None
     else Some (zero_relay\<lparr>rr_ID := le_ID l, rr_Name := le_Name l, rr_Region := le_Region l, rr_RelayURL := le_RelayURL l\<rparr>))"

datatype store_write = Saved_Lease lease | Saved_Relay relay_registration

record 's broker =
  b_relayURL :: string
  validToken :: string
  publicBase :: string
  nodeID :: string
  leases :: "(string, lease) fmap"
  relays :: "(string, relay_registration) fmap"
  audits :: "(time \<times> string) list"
  store_writes :: "store_write list"
  b_counters :: counters
  domains :: domain_registry
  ensured :: "domain_request list"
  b_replicator :: "('s, broker_value) replicator"
  nfrValidator :: validator

subsection \<open>Start-up\<close>

definition TrimRightSlash :: "string \<Rightarrow> string" where
  "TrimRightSlash s = rev (dropWhile (\<lambda>c. c = CHR ''/'') (rev s))"

fun firstNonEmpty :: "string list \<Rightarrow> string" where
  "firstNonEmpty [] = []"
| "firstNonEmpty (v # vs) = (if TrimSpace v \<noteq> [] then TrimSpace v else firstNonEmpty vs)"

abbreviation broker_requirement :: "string \<Rightarrow> nfr_type \<Rightarrow> string \<Rightarrow> rat \<Rightarrow> string \<Rightarrow> nfr_requirement" where
  "broker_requirement i ty name threshold un \<equiv> \<lparr>rq_ID = i, rq_Type = ty, rq_Name = name, rq_Description = [],
     rq_Threshold = Finite threshold, rq_Unit = un, rq_Status = NFRStatusUnknown, rq_LastChecked = zero_time, rq_History = []\<rparr>"

definition newBrokerNFRValidator :: validator where
  "newBrokerNFRValidator =
     AddRequirement
       (AddRequirement (NewValidator False)
          (broker_requirement ''broker_concurrent_tunnels'' NFRScalability ''Concurrent tunnels'' 10000 ''tunnels''))
       (broker_requirement ''broker_uptime'' NFRUptime ''Broker uptime'' (float64 (999 / 10)) ''percent'')"

text \<open>\<open>env\<close> is the variable \<open>NODE_ID\<close>, \<open>st\<close> the store chosen for the replicator, \<open>clk\<close> its clock.\<close>

definition New :: "string \<Rightarrow> string \<Rightarrow> string \<Rightarrow> string \<Rightarrow> string \<Rightarrow> string list \<Rightarrow> domain_registry \<Rightarrow> 's \<Rightarrow> (string \<Rightarrow> time) \<Rightarrow> 's broker" where
  "New relay_url token public_base node env clusterNodes reg st clk =
     (let node = (if TrimSpace node = [] then firstNonEmpty [env, ''broker-local''] else node);
          cfg = \<lparr>NodeID = node, Nodes = clusterNodes, HeartbeatInterval = 0, ElectionTimeout = 0, SyncTimeout = 0,
                 MaxLogEntries = 0, has_PeerTransport = (clusterNodes \<noteq> [])\<rparr>
      in \<lparr>b_relayURL = TrimRightSlash relay_url, validToken = TrimSpace token, publicBase = TrimRightSlash public_base, nodeID = node,
          leases = fmempty, relays = fmempty, audits = [], store_writes = [], b_counters = (\<lambda>_. 0), domains = reg, ensured = [],
          b_replicator = NewReplicator cfg st clk, nfrValidator = newBrokerNFRValidator\<rparr>)"

definition applyReplicatedStateChange :: "'s broker \<Rightarrow> string \<Rightarrow> broker_value option \<Rightarrow> 's broker" where
  "applyReplicatedStateChange b key val =
     (if HasPrefix key ''leases/'' then
        (case toLease val of None \<Rightarrow> b | Some l \<Rightarrow> b\<lparr>leases := fmupd (le_ID l) l (leases b)\<rparr>)
      else if HasPrefix key ''relays/'' then
        (case toRelay val of None \<Rightarrow> b | Some r \<Rightarrow> b\<lparr>relays := fmupd (rr_ID r) r (relays b)\<rparr>)
      else b)"

definition hydrateFromReplicatedState :: "('s, broker_value) store_ops \<Rightarrow> 's broker \<Rightarrow> string list \<Rightarrow> 's broker" where
  "hydrateFromReplicatedState ops b ks =
     foldl (\<lambda>b e. applyReplicatedStateChange b (Key e) (Value e)) b (rep_List ops (b_replicator b) [] ks)"

text \<open>The start of \<open>ListenAndServe\<close>, before it serves requests.\<close>

definition broker_start :: "('s, broker_value) store_ops \<Rightarrow> 's broker \<Rightarrow> string list \<Rightarrow> 's broker" where
  "broker_start ops b ks =
     hydrateFromReplicatedState ops
       (b\<lparr>b_replicator := set_OnStateChange (rep_Start ops (b_replicator b)) True\<rparr>) ks"

text \<open>Writing to the replicator: its callback, when set, is \<open>applyReplicatedStateChange\<close>.\<close>

definition replicate_value :: "('s, broker_value) store_ops \<Rightarrow> (broker_value option \<Rightarrow> byte list) \<Rightarrow> 's broker \<Rightarrow> string \<Rightarrow> broker_value \<Rightarrow> time \<Rightarrow> 's broker" where
  "replicate_value ops marshal b key v now =
     (let (e, r) = rep_Set ops marshal (b_replicator b) key (Some v) 0 now;
          b1 = b\<lparr>b_replicator := r\<rparr>
      in if e = None \<and> has_onStateChange (b_replicator b) then applyReplicatedStateChange b1 key (Some v) else b1)"

subsection \<open>Choosing a relay\<close>

fun insert_by :: "('a \<Rightarrow> 'a \<Rightarrow> bool) \<Rightarrow> 'a \<Rightarrow> 'a list \<Rightarrow> 'a list" where
  "insert_by lt x [] = [x]"
| "insert_by lt x (y # ys) = (if lt y x then y # insert_by lt x ys else x # y # ys)"

definition sort_Slice :: "('a \<Rightarrow> 'a \<Rightarrow> bool) \<Rightarrow> 'a list \<Rightarrow> 'a list" where
  "sort_Slice lt xs = foldr (insert_by lt) xs []"

definition load_less :: "relay_registration \<Rightarrow> relay_registration \<Rightarrow> bool" where
  "load_less a b = (if AssignedTunnels a = AssignedTunnels b then rr_Region a < rr_Region b
     else AssignedTunnels a < AssignedTunnels b)"

abbreviation stale_after :: duration where "stale_after \<equiv> 45 * second_ns"

definition relay_candidates :: "'s broker \<Rightarrow> (relay_registration \<Rightarrow> bool) \<Rightarrow> (string \<Rightarrow> time) \<Rightarrow> string list \<Rightarrow> relay_registration list" where
  "relay_candidates b wanted clk ks =
     filter (\<lambda>r. \<not> time_sub (clk (rr_ID r)) (LastHeartbeat r) > stale_after \<and> wanted r) (List.map_filter (fmlookup (relays b)) ks)"

definition selectRelay :: "'s broker \<Rightarrow> string \<Rightarrow> (string \<Rightarrow> time) \<Rightarrow> (string \<Rightarrow> time) \<Rightarrow> string list \<Rightarrow> string list \<Rightarrow> relay_registration option" where
  "selectRelay b region clk1 clk2 ks1 ks2 =
     (let cs = relay_candidates b (\<lambda>r. region = [] \<or> rr_Region r = region) clk1 ks1;
          cs = (if cs = [] \<and> region \<noteq> [] then relay_candidates b (\<lambda>_. True) clk2 ks2 else cs)
      in case sort_Slice load_less cs of [] \<Rightarrow> None | r # _ \<Rightarrow> Some r)"

subsection \<open>Requests\<close>

text \<open>
  An answer: an error text with its status, or a status with a body. Texts that other packages word
  are abbreviated.
\<close>

datatype 'a response = Http_Error nat string | Http_OK nat 'a

text \<open>The audit log, newest first; an entry is printed with its time in front.\<close>

definition auditLocked :: "'s broker \<Rightarrow> string \<Rightarrow> time \<Rightarrow> 's broker" where
  "auditLocked b entry now = b\<lparr>audits := take 200 ((now, entry) # audits b)\<rparr>"

definition randomID :: "byte list option \<Rightarrow> time \<Rightarrow> string" where
  "randomID rnd now = (case rnd of Some buf \<Rightarrow> hex_EncodeToString buf | None \<Rightarrow> ''lease-'' @ dec now)"

definition shortID :: "byte list option \<Rightarrow> time \<Rightarrow> string" where
  "shortID rnd now = take 6 (randomID rnd now)"

text \<open>\<open>hostname\<close> is the host name \<open>url.Parse\<close> finds, empty when it fails.\<close>

fun publicCNAMEHost_loop :: "(string \<Rightarrow> string) \<Rightarrow> string list \<Rightarrow> string" where
  "publicCNAMEHost_loop hostname [] = []"
| "publicCNAMEHost_loop hostname (c # cs) =
     (if TrimSpace c = [] then publicCNAMEHost_loop hostname cs
      else if hostname c \<noteq> [] then hostname c
      else publicCNAMEHost_loop hostname cs)"

definition publicCNAMEHost :: "(string \<Rightarrow> string) \<Rightarrow> string \<Rightarrow> string \<Rightarrow> string \<Rightarrow> string" where
  "publicCNAMEHost hostname debugURL relayURL public_base = publicCNAMEHost_loop hostname [public_base, debugURL, relayURL]"

text \<open>What a request to open a session draws and reads besides the request.\<close>

record open_env =
  oe_short :: "byte list option"
  oe_id :: "byte list option"
  oe_select1 :: "string \<Rightarrow> time"
  oe_select2 :: "string \<Rightarrow> time"
  oe_order1 :: "string list"
  oe_order2 :: "string list"
  oe_now :: time
  oe_audit :: time
  oe_later :: time
  oe_provider :: string
  oe_hostname :: "string \<Rightarrow> string"

definition bool_text :: "bool \<Rightarrow> string" where
  "bool_text v = (if v then ''true'' else ''false'')"

text \<open>The lease of a request: its addresses depend on the protocol, the relay and a custom domain.\<close>

definition lease_for :: "'s broker \<Rightarrow> open_session_request \<Rightarrow> relay_registration option \<Rightarrow> open_env \<Rightarrow> lease" where
  "lease_for b req relay env =
     (let subdomain = (if RequestedSubdomain req = [] then ''tunnel-'' @ shortID (oe_short env) (oe_now env) else RequestedSubdomain req);
          host = subdomain @ ''.gotunnel.local'';
          relay_url = (case relay of None \<Rightarrow> b_relayURL b | Some r \<Rightarrow> rr_RelayURL r);
          region = (case relay of None \<Rightarrow> [] | Some r \<Rightarrow> rr_Region r);
          debug = (case relay of
                     Some r \<Rightarrow> if PublicBase r \<noteq> [] then TrimRightSlash (PublicBase r) @ ''/t/'' @ subdomain
                               else publicBase b @ ''/t/'' @ subdomain
                   | None \<Rightarrow> publicBase b @ ''/t/'' @ subdomain);
          (public_host, public_url, debug_url) =
            (if os_Protocol req = ''tcp'' then (host, ''tcp://pending-relay-assignment'', [])
             else if os_Protocol req = ''udp'' then (host, ''udp://pending-relay-assignment'', [])
             else if os_CustomDomain req \<noteq> [] then (os_CustomDomain req, ''https://'' @ os_CustomDomain req, debug)
             else (host, if debug \<noteq> [] then debug else ''https://'' @ host, debug))
      in \<lparr>le_ID = randomID (oe_id env) (oe_now env), le_Name = os_Name req, le_Protocol = os_Protocol req, Subdomain = subdomain,
          PublicHost = public_host, PublicURL = public_url, DebugURL = debug_url, le_RelayURL = relay_url,
          Inspection = InspectionEnabled req, HTTPSMode = os_HTTPSMode req, WebhookURL = os_WebhookURL req,
          IssuedTLS = (os_HTTPSMode req = ''auto''), le_Region = region, CustomDomain = os_CustomDomain req,
          Production = os_Production req, le_AllowSharing = os_AllowSharing req, Labels = os_Labels req, le_CreatedAt = oe_now env\<rparr>)"

definition count_tunnel :: "'s broker \<Rightarrow> relay_registration option \<Rightarrow> 's broker" where
  "count_tunnel b relay =
     (case relay of
        None \<Rightarrow> b
      | Some r \<Rightarrow>
          let reg = (case fmlookup (relays b) (rr_ID r) of Some x \<Rightarrow> x | None \<Rightarrow> zero_relay)
          in b\<lparr>relays := fmupd (rr_ID r) (reg\<lparr>AssignedTunnels := wrap64 (AssignedTunnels reg + 1)\<rparr>) (relays b)\<rparr>)"

text \<open>A custom domain of an HTTP tunnel is announced to the domain registry; its answer changes nothing.\<close>

definition announce_domain :: "'s broker \<Rightarrow> open_session_request \<Rightarrow> lease \<Rightarrow> open_env \<Rightarrow> 's broker" where
  "announce_domain b req l env =
     (if os_Protocol req = ''http'' \<and> os_CustomDomain req \<noteq> []
      then b\<lparr>ensured := ensured b @ [\<lparr>dq_Domain = os_CustomDomain req, dq_Provider = TrimSpace (oe_provider env),
               dq_Metadata = fmupd ''target'' (publicCNAMEHost (oe_hostname env) (DebugURL l) (le_RelayURL l) (publicBase b)) fmempty\<rparr>]\<rparr>
      else b)"

text \<open>The critical section of a granted request, and what follows it.\<close>

definition record_lease :: "'s broker \<Rightarrow> open_session_request \<Rightarrow> relay_registration option \<Rightarrow> lease \<Rightarrow> open_env \<Rightarrow> 's broker" where
  "record_lease b req relay l env =
     (let b0 = announce_domain b req l env;
          b1 = count_tunnel (b0\<lparr>leases := fmupd (le_ID l) l (leases b0)\<rparr>) relay
      in auditLocked b1 (''lease_created id='' @ le_ID l @ '' region='' @ le_Region l @ '' subdomain='' @ Subdomain l
           @ '' production='' @ bool_text (Production l)) (oe_audit env))"

definition publish_lease :: "('s, broker_value) store_ops \<Rightarrow> (broker_value option \<Rightarrow> byte list) \<Rightarrow> 's broker \<Rightarrow> lease \<Rightarrow> open_env \<Rightarrow> 's broker" where
  "publish_lease ops marshal b l env =
     (let b3 = b\<lparr>store_writes := store_writes b @ [Saved_Lease l]\<rparr>;
          b4 = replicate_value ops marshal b3 (''leases/'' @ le_ID l) (V_Lease l) (oe_later env);
          b5 = b4\<lparr>b_counters := IncCounter (b_counters b4) ''gotunnel_broker_leases_created_total''\<rparr>
      in (case ValidateScalability (nfrValidator b5) ''broker_concurrent_tunnels'' (int (fcard (fmdom (leases b5))))
                 (oe_later env) (oe_later env) of
            None \<Rightarrow> b5 | Some v \<Rightarrow> b5\<lparr>nfrValidator := v\<rparr>))"

definition handleOpenSession :: "('s, broker_value) store_ops \<Rightarrow> (broker_value option \<Rightarrow> byte list) \<Rightarrow> 's broker \<Rightarrow> string \<Rightarrow>
    open_session_request option \<Rightarrow> open_env \<Rightarrow> lease response \<times> 's broker" where
  "handleOpenSession ops marshal b meth body env =
     (if meth \<noteq> ''POST'' then (Http_Error 405 ''method not allowed'', b)
      else case body of
        None \<Rightarrow> (Http_Error 400 ''decode request'', b)
      | Some req \<Rightarrow>
          if TrimSpace (os_Token req) = [] then (Http_Error 401 ''token is required'', b)
          else if validToken b \<noteq> [] \<and> os_Token req \<noteq> validToken b
          then (Http_Error 401 ''invalid token'', b\<lparr>b_counters := IncCounter (b_counters b) ''gotunnel_broker_auth_failures_total''\<rparr>)
          else if os_Protocol req \<noteq> ''http'' \<and> os_Protocol req \<noteq> ''tcp'' \<and> os_Protocol req \<noteq> ''udp''
          then (Http_Error 400 ''only http, tcp, and udp tunnels are currently supported'', b)
          else
            let relay = selectRelay b (RequestedRegion req) (oe_select1 env) (oe_select2 env) (oe_order1 env) (oe_order2 env);
                l = lease_for b req relay env
            in (Http_OK 201 l, publish_lease ops marshal (record_lease b req relay l env) l env))"

definition TrimPrefix :: "string \<Rightarrow> string \<Rightarrow> string" where
  "TrimPrefix s p = (if HasPrefix s p then drop (length p) s else s)"

text \<open>\<open>persisted\<close> is what the database finds.\<close>

definition handleGetLease :: "(string \<Rightarrow> lease option) \<Rightarrow> 's broker \<Rightarrow> string \<Rightarrow> string \<Rightarrow> lease response" where
  "handleGetLease persisted b meth path =
     (if meth \<noteq> ''GET'' then Http_Error 405 ''method not allowed''
      else let i = TrimPrefix path ''/v1/leases/''
           in case fmlookup (leases b) i of
                Some l \<Rightarrow> Http_OK 200 l
              | None \<Rightarrow> (case persisted i of Some l \<Rightarrow> Http_OK 200 l | None \<Rightarrow> Http_Error 404 ''lease not found''))"

definition requireBrokerPermission :: "'s broker \<Rightarrow> string \<Rightarrow> bool" where
  "requireBrokerPermission b header \<longleftrightarrow>
     TrimSpace (validToken b) = [] \<or> TrimSpace (TrimPrefix header ''Bearer '') = validToken b"

definition handleRelayRegister :: "('s, broker_value) store_ops \<Rightarrow> (broker_value option \<Rightarrow> byte list) \<Rightarrow> 's broker \<Rightarrow> string \<Rightarrow>
    relay_registration_request option \<Rightarrow> byte list option \<Rightarrow> time \<Rightarrow> time \<Rightarrow> relay_registration response \<times> 's broker" where
  "handleRelayRegister ops marshal b meth body rnd now later =
     (if meth \<noteq> ''POST'' then (Http_Error 405 ''method not allowed'', b)
      else case body of
        None \<Rightarrow> (Http_Error 400 ''decode request'', b)
      | Some req \<Rightarrow>
          if TrimSpace (rq_relay_Region req) = [] \<or> TrimSpace (rq_relay_URL req) = []
          then (Http_Error 400 ''region and relay_url are required'', b)
          else
            let i = (if rq_relay_ID req = [] then ''relay-'' @ shortID rnd now else rq_relay_ID req);
                reg = \<lparr>rr_ID = i, rr_Name = firstNonEmpty [rq_relay_Name req, i], rr_Region = rq_relay_Region req,
                       rr_RelayURL = TrimRightSlash (rq_relay_URL req), PublicBase = TrimRightSlash (rq_PublicBase req),
                       Capacity = rq_Capacity req, Features = rq_Features req, RegisteredAt = now, LastHeartbeat = now,
                       AssignedTunnels = 0, rr_Status = ''online''\<rparr>;
                reg = (case fmlookup (relays b) i of
                         None \<Rightarrow> reg
                       | Some old \<Rightarrow> reg\<lparr>AssignedTunnels := AssignedTunnels old, RegisteredAt := RegisteredAt old\<rparr>);
                b1 = auditLocked (b\<lparr>relays := fmupd i reg (relays b)\<rparr>)
                       (''relay_registered id='' @ rr_ID reg @ '' region='' @ rr_Region reg) later;
                b2 = b1\<lparr>store_writes := store_writes b1 @ [Saved_Relay reg]\<rparr>;
                b3 = replicate_value ops marshal b2 (''relays/'' @ rr_ID reg) (V_Relay reg) later
            in (Http_OK 201 reg, b3\<lparr>b_counters := IncCounter (b_counters b3) ''gotunnel_broker_relays_registered_total''\<rparr>))"

definition handleRelayHeartbeat :: "('s, broker_value) store_ops \<Rightarrow> (broker_value option \<Rightarrow> byte list) \<Rightarrow> 's broker \<Rightarrow> string \<Rightarrow>
    relay_heartbeat_request option \<Rightarrow> time \<Rightarrow> time \<Rightarrow> relay_registration response \<times> 's broker" where
  "handleRelayHeartbeat ops marshal b meth body now later =
     (if meth \<noteq> ''POST'' then (Http_Error 405 ''method not allowed'', b)
      else case body of
        None \<Rightarrow> (Http_Error 400 ''decode request'', b)
      | Some req \<Rightarrow>
          (case fmlookup (relays b) (hb_ID req) of
             None \<Rightarrow> (Http_Error 404 ''relay not found'', b)
           | Some reg \<Rightarrow>
               let reg = reg\<lparr>LastHeartbeat := now, AssignedTunnels := hb_AssignedTunnels req, rr_Status := ''online''\<rparr>;
                   b1 = b\<lparr>relays := fmupd (hb_ID req) reg (relays b)\<rparr>;
                   b2 = b1\<lparr>store_writes := store_writes b1 @ [Saved_Relay reg]\<rparr>
               in (Http_OK 200 reg, replicate_value ops marshal b2 (''relays/'' @ rr_ID reg) (V_Relay reg) later)))"

definition region_less :: "relay_registration \<Rightarrow> relay_registration \<Rightarrow> bool" where
  "region_less a b = (if rr_Region a = rr_Region b then AssignedTunnels a < AssignedTunnels b else rr_Region a < rr_Region b)"

definition handleRelays :: "relay_registration list option \<Rightarrow> 's broker \<Rightarrow> string \<Rightarrow> string \<Rightarrow> (string \<Rightarrow> time) \<Rightarrow> string list \<Rightarrow>
    relay_registration list response" where
  "handleRelays persisted b header meth clk ks =
     (if \<not> requireBrokerPermission b header then Http_Error 401 ''unauthorized''
      else if meth \<noteq> ''GET'' then Http_Error 405 ''method not allowed''
      else let out = map (\<lambda>r. if time_sub (clk (rr_ID r)) (LastHeartbeat r) > stale_after then r\<lparr>rr_Status := ''stale''\<rparr> else r)
                       (List.map_filter (fmlookup (relays b)) ks);
               out = (if out = [] then (case persisted of Some rs \<Rightarrow> rs | None \<Rightarrow> out) else out)
           in Http_OK 200 (sort_Slice region_less out))"

record audit_export =
  ae_generated :: time
  ae_leases :: "lease list"
  ae_relays :: "relay_registration list"
  ae_entries :: "(time \<times> string) list"

definition handleAuditExport :: "'s broker \<Rightarrow> string \<Rightarrow> string \<Rightarrow> string list \<Rightarrow> string list \<Rightarrow> time \<Rightarrow> audit_export response" where
  "handleAuditExport b header meth ks1 ks2 now =
     (if \<not> requireBrokerPermission b header then Http_Error 401 ''unauthorized''
      else if meth \<noteq> ''GET'' then Http_Error 405 ''method not allowed''
      else Http_OK 200 \<lparr>ae_generated = now, ae_leases = List.map_filter (fmlookup (leases b)) ks1,
             ae_relays = List.map_filter (fmlookup (relays b)) ks2, ae_entries = audits b\<rparr>)"

definition handleDomains :: "'s broker \<Rightarrow> string \<Rightarrow> string \<Rightarrow> domain_request option \<Rightarrow> time \<Rightarrow> domain_record response \<times> 's broker" where
  "handleDomains b header meth body now =
     (if \<not> requireBrokerPermission b header then (Http_Error 401 ''unauthorized'', b)
      else if meth \<noteq> ''POST'' then (Http_Error 405 ''method not allowed'', b)
      else case body of
        None \<Rightarrow> (Http_Error 400 ''decode request'', b)
      | Some req \<Rightarrow>
          (case Ensure (domains b) req now of
             Inl e \<Rightarrow> (Http_Error 400 ''ensure'', b\<lparr>ensured := ensured b @ [req]\<rparr>)
           | Inr rec \<Rightarrow> (Http_OK 201 rec, b\<lparr>ensured := ensured b @ [req]\<rparr>)))"

text \<open>The status pages: the replicator's view of the cluster, and the requirements.\<close>

definition handleStateStatus :: "'s broker \<Rightarrow> string \<Rightarrow> string \<Rightarrow> (string \<times> bool \<times> (string, node) fmap) response" where
  "handleStateStatus b header meth =
     (if \<not> requireBrokerPermission b header then Http_Error 401 ''unauthorized''
      else if meth \<noteq> ''GET'' then Http_Error 405 ''method not allowed''
      else Http_OK 200 (GetLeader (b_replicator b), IsLeader (b_replicator b), GetNodes (b_replicator b)))"

definition handleNFRStatus :: "'s broker \<Rightarrow> string \<Rightarrow> string \<Rightarrow> string list \<Rightarrow> string list \<Rightarrow> string list \<Rightarrow>
    (nfr_requirement list \<times> (nfr_status \<Rightarrow> nat) \<times> nfr_requirement list) response" where
  "handleNFRStatus b header meth ks1 ks2 ks3 =
     (if \<not> requireBrokerPermission b header then Http_Error 401 ''unauthorized''
      else if meth \<noteq> ''GET'' then Http_Error 405 ''method not allowed''
      else Http_OK 200 (ListRequirements (nfrValidator b) ks1, GetStatusSummary (nfrValidator b) ks2,
             GetFailingRequirements (nfrValidator b) ks3))"

text \<open>
  The checks close over the server; \<open>b\<close> is its state when they run, \<open>has_store\<close> whether it has a store.
\<close>

definition registerOperationalChecks :: "'s broker \<Rightarrow> bool \<Rightarrow> string hardener \<Rightarrow> string hardener" where
  "registerOperationalChecks b has_store h =
     (let h1 = RegisterHealthCheck h ''broker_runtime'' (\<lambda>_.
            \<lparr>ch_Name = ''broker_runtime'', ch_Status = HealthStatusHealthy, ch_Message = ''broker runtime healthy'',
             ch_Metrics = [(''leases'', float64 (of_nat (fcard (fmdom (leases b))))), (''relays'', float64 (of_nat (fcard (fmdom (relays b))))),
                           (''audits'', float64 (of_nat (length (audits b))))],
             LastChecked = zero_time, Latency = 0\<rparr>);
          h2 = RegisterReadinessProbe h1 \<lparr>probe_Name = ''broker_store'',
                 Check = (\<lambda>_. if has_store then None else Some ''store not configured''), probe_Timeout = 2 * second_ns, probe_Interval = 0\<rparr>
      in RegisterLivenessProbe h2 \<lparr>probe_Name = ''broker_process'', Check = (\<lambda>_. None), probe_Timeout = 2 * second_ns, probe_Interval = 0\<rparr>)"

text \<open>The requests of peers: heartbeats, logs and snapshots of the replicator.\<close>

definition handlePeerHeartbeat :: "'s broker \<Rightarrow> string \<Rightarrow> string \<Rightarrow> node option \<Rightarrow> unit response \<times> 's broker" where
  "handlePeerHeartbeat b header meth body =
     (if \<not> requireBrokerPermission b header then (Http_Error 401 ''unauthorized'', b)
      else if meth \<noteq> ''POST'' then (Http_Error 405 ''method not allowed'', b)
      else case body of
        None \<Rightarrow> (Http_Error 400 ''decode request'', b)
      | Some n \<Rightarrow>
          if TrimSpace (n_ID n) = [] then (Http_Error 400 ''node id is required'', b)
          else (Http_OK 200 (), b\<lparr>b_replicator := ApplyHeartbeat (b_replicator b) n\<rparr>))"

definition handlePeerLogs :: "('s, broker_value) store_ops \<Rightarrow> 's broker \<Rightarrow> string \<Rightarrow> string \<Rightarrow> int \<Rightarrow> broker_value replication_log list response" where
  "handlePeerLogs ops b header meth from_seq =
     (if \<not> requireBrokerPermission b header then Http_Error 401 ''unauthorized''
      else if meth \<noteq> ''GET'' then Http_Error 405 ''method not allowed''
      else Http_OK 200 (ExportLogs ops (b_replicator b) from_seq))"

definition handlePeerSnapshot :: "('s, broker_value) store_ops \<Rightarrow> 's broker \<Rightarrow> string \<Rightarrow> string \<Rightarrow> string list \<Rightarrow> broker_value state_entry list response" where
  "handlePeerSnapshot ops b header meth ks =
     (if \<not> requireBrokerPermission b header then Http_Error 401 ''unauthorized''
      else if meth \<noteq> ''GET'' then Http_Error 405 ''method not allowed''
      else Http_OK 200 (ExportSnapshot ops (b_replicator b) ks))"

text \<open>The tick of the replicator's synchronisation worker inside a broker.\<close>

definition broker_sync :: "('s, broker_value) store_ops \<Rightarrow> broker_value peer_transport \<Rightarrow> 's broker \<Rightarrow> 's broker" where
  "broker_sync ops pt b = b\<lparr>b_replicator := syncState ops pt (b_replicator b)\<rparr>"

end
