(* ===== verification/Relay_State.thy ===== *)
theory Relay_State
  imports Broker
begin

section \<open>The relay: state, events and plugins\<close>

text \<open>
  Data of \<open>GoTunnel/internal/relay\<close> and of \<open>protocol/types.go\<close> and \<open>session.go\<close>, the plugins
  (\<open>plugins/plugins.go\<close>), and what all handlers of the relay share: events, webhooks, the request log.

  What the code reaches through pointers and channels is kept apart by addresses: clients, channels
  for answers, for debugger actions and for subscribers each have a numbered cell, and a map holds
  the number. A goroutine the code starts with \<open>go\<close> is a task that some later step runs. A panic in
  a task ends the process and is recorded in the field \<open>crashed\<close>. The \<open>n\<close>-th reading of the clock in a
  handler is \<open>clk n\<close>. What a handler writes is a list of replies, of which the first sets the status; a handler
  that writes nothing answers with status 200.
\<close>

subsection \<open>Messages\<close>

type_synonym http_headers = "(string, string list) fmap"

record pending_request =
  pr_ID :: string
  pr_TunnelID :: string
  pr_Subdomain :: string
  pr_Method :: string
  pr_Path :: string
  pr_Query :: string
  pr_Headers :: http_headers
  pr_Body :: "byte list"
  pr_ReceivedAt :: time
  pr_ContentType :: string

record submit_response =
  sr_ClientID :: string
  sr_RequestID :: string
  sr_StatusCode :: int
  sr_Headers :: http_headers
  sr_Body :: "byte list"
  sr_Error :: string

text \<open>A duration is printed by another package; the log keeps the duration itself or a word.\<close>

datatype log_duration = Took duration | Discarded

record request_log =
  rl_RequestID :: string
  rl_TunnelID :: string
  rl_Subdomain :: string
  rl_Method :: string
  rl_Path :: string
  rl_StatusCode :: int
  rl_Duration :: log_duration
  rl_ReceivedAt :: time
  rl_CompletedAt :: time
  rl_ResponseError :: string

record participant =
  pa_Name :: string
  pa_Role :: string
  JoinedAt :: time

record collaboration_session =
  co_ID :: string
  co_TunnelID :: string
  co_Subdomain :: string
  InviteToken :: string
  InviteURL :: string
  Owner :: string
  co_Status :: string
  Participants :: "participant list"
  co_CreatedAt :: time
  LastActivityAt :: time

record annotation =
  an_ID :: string
  an_RequestID :: string
  an_SessionID :: string
  Author :: string
  an_Message :: string
  an_CreatedAt :: time

record breakpoint =
  bp_ID :: string
  bp_TunnelID :: string
  bp_Method :: string
  PathPrefix :: string
  HeaderName :: string
  HeaderValue :: string
  CreatedBy :: string
  bp_CreatedAt :: time
  bp_Enabled :: bool

record pause_action_request =
  pa_RequestID :: string
  pa_Actor :: string
  pa_Action :: string

record paused_request_snapshot =
  ps_Request :: pending_request
  SessionIDs :: "string list"
  ps_BreakpointID :: string
  ps_PausedAt :: time

text \<open>The payload of an event, by the structure it is made from.\<close>

datatype event_payload =
    P_Lease lease
  | P_Pending pending_request
  | P_Paused paused_request_snapshot
  | P_Log request_log
  | P_Session collaboration_session
  | P_Annotation annotation
  | P_Breakpoint breakpoint
  | P_Action pause_action_request

record stream_event =
  se_ID :: string
  se_Type :: string
  se_Message :: string
  se_TunnelID :: string
  se_RequestID :: string
  se_SessionID :: string
  se_CreatedAt :: time
  se_Payload :: event_payload

record webhook_event =
  wh_Type :: string
  wh_Timestamp :: time
  wh_Payload :: event_payload

record tcp_event =
  te_Type :: string
  te_ConnectionID :: string
  te_TunnelID :: string
  te_Payload :: "byte list"

record tcp_chunk_request =
  tk_ClientID :: string
  tk_ConnectionID :: string
  tk_Payload :: "byte list"
  tk_Close :: bool

record udp_event =
  ue_Type :: string
  ue_ConnectionID :: string
  ue_TunnelID :: string
  ue_PeerAddr :: string
  ue_Payload :: "byte list"

record udp_chunk_request =
  uk_ClientID :: string
  uk_ConnectionID :: string
  uk_PeerAddr :: string
  uk_Payload :: "byte list"
  uk_Close :: bool

text \<open>A control message, by the pointer of it that is set.\<close>

datatype control_message =
    Msg_Request string string pending_request
  | Msg_TCP_Event string string tcp_event
  | Msg_UDP_Event string string udp_event

subsection \<open>Plugins\<close>

record plugin_spec =
  pl_Name :: string
  pl_Type :: string
  pl_Enabled :: bool
  pl_Config :: "(string, string) fmap"

type_synonym plugin_runtime = "plugin_spec list"

datatype plugin_error = Read_Plugin_Config | Parse_Plugin_Config

text \<open>\<open>content\<close> is what the file system finds under the path, \<open>parse\<close> the JSON parser.\<close>

definition Load :: "string \<Rightarrow> string option \<Rightarrow> (string \<Rightarrow> plugin_spec list option) \<Rightarrow> plugin_error + plugin_runtime" where
  "Load path content parse =
     (if TrimSpace path = [] then Inr []
      else case content of
        None \<Rightarrow> Inl Read_Plugin_Config
      | Some data \<Rightarrow> (case parse data of None \<Rightarrow> Inl Parse_Plugin_Config | Some specs \<Rightarrow> Inr specs))"

fun FeatureNames :: "plugin_runtime \<Rightarrow> string list" where
  "FeatureNames [] = []"
| "FeatureNames (spec # specs) = (if pl_Enabled spec then [pl_Name spec] else []) @ FeatureNames specs"

fun AllowSharing_loop :: "plugin_runtime \<Rightarrow> lease \<Rightarrow> bool \<Rightarrow> bool" where
  "AllowSharing_loop [] l allowed = allowed"
| "AllowSharing_loop (spec # specs) l allowed =
     (if \<not> pl_Enabled spec then AllowSharing_loop specs l allowed
      else AllowSharing_loop specs l
        (if pl_Name spec = ''production_guard'' \<and> Production l \<and> map_get (pl_Config spec) ''allow_production_sharing'' \<noteq> ''true''
         then False else allowed))"

definition AllowSharing :: "plugin_runtime \<Rightarrow> lease \<Rightarrow> bool" where
  "AllowSharing r l = AllowSharing_loop r l (le_AllowSharing l)"

fun EnrichLabels :: "plugin_runtime \<Rightarrow> string list \<Rightarrow> string list" where
  "EnrichLabels [] out = out"
| "EnrichLabels (spec # specs) out =
     (if \<not> pl_Enabled spec then EnrichLabels specs out
      else EnrichLabels specs
        (if pl_Name spec = ''audit_labels'' \<and> TrimSpace (map_get (pl_Config spec) ''label'') \<noteq> []
         then out @ [TrimSpace (map_get (pl_Config spec) ''label'')] else out))"

text \<open>The payload is a map whose other values do not matter here.\<close>

fun EnrichEventPayload :: "plugin_runtime \<Rightarrow> (string, string) fmap \<Rightarrow> (string, string) fmap" where
  "EnrichEventPayload [] payload = payload"
| "EnrichEventPayload (spec # specs) payload =
     (if \<not> pl_Enabled spec then EnrichEventPayload specs payload
      else EnrichEventPayload specs
        (if pl_Name spec = ''audit_labels'' \<and> TrimSpace (map_get (pl_Config spec) ''label'') \<noteq> []
         then fmupd ''plugin_label'' (TrimSpace (map_get (pl_Config spec) ''label'')) payload else payload))"

subsection \<open>The server\<close>

text \<open>
  Connections are numbered cells too, with what has been written to each; a UDP socket is its port, and what
  has been sent from which socket to which peer is recorded.
\<close>

record client_state =
  c_ID :: string
  c_TunnelID :: string
  Queue :: "pending_request list"
  QUICSend :: "control_message list"
  QUICUp :: bool

record paused_state =
  pz_Request :: pending_request
  pz_ActionC :: nat
  pz_PausedAt :: time
  pz_BreakpointID :: string

datatype relay_task =
    Task_Emit string string string string string event_payload
  | Task_Webhook string event_payload
  | Task_Deliver "byte list" string

record tcp_runtime =
  tcp_queues :: "(string, nat) fmap"
  tcp_chans :: "nat \<Rightarrow> tcp_event list"
  listeners :: "(string, int) fmap"
  conns :: "(string, nat) fmap"
  conn_closed :: "nat set"
  conn_written :: "nat \<Rightarrow> byte list"

record udp_runtime =
  udp_queues :: "(string, nat) fmap"
  udp_chans :: "nat \<Rightarrow> udp_event list"
  sockets :: "(string, int) fmap"
  peers :: "(string, string) fmap"
  udp_sent :: "(int \<times> string \<times> byte list) list"

text \<open>
  The structure \<open>Server\<close> in three layers: what \<open>New\<close> sets once; the state of \<open>server.go\<close>; and the states that
  \<open>phase2.go\<close>, \<open>phase3.go\<close>, \<open>tcp.go\<close> and \<open>udp.go\<close> keep beside it, one for each server.
\<close>

record relay_settings =
  rs_addr :: string
  rs_brokerURL :: string
  relayName :: string
  relayRegion :: string
  rs_capacity :: int
  dashboardUser :: string
  dashboardPass :: string
  webhookURL :: string
  rs_publicBase :: string
  certFile :: string
  keyFile :: string
  quicAddr :: string
  has_acmeManager :: bool
  webhookSecret :: string
  allowMutation :: bool
  plugins :: plugin_runtime

record relay_core = relay_settings +
  reconnectTokens :: "(string, string) fmap"
  rs_authenticator :: authenticator
  rs_enforcer :: enforcer
  rs_nfrValidator :: validator
  rs_counters :: counters
  tunnels :: "(string, lease) fmap"
  clients :: "(string, nat) fmap"
  client_at :: "nat \<Rightarrow> client_state"
  requests :: "(string, pending_request \<times> nat) fmap"
  response_chan :: "nat \<Rightarrow> submit_response list"
  requestLog :: "request_log list"
  relayID :: string
  next_cell :: nat
  tasks :: "relay_task list"
  crashed :: "go_panic option"

record relay = relay_core +
  paused :: "(string, paused_state) fmap"
  action_chan :: "nat \<Rightarrow> string list"
  collab_sessions :: "(string, collaboration_session) fmap"
  invites :: "(string, string) fmap"
  annotations :: "string \<Rightarrow> annotation list"
  breakpoints :: "(string, breakpoint list) fmap"
  events :: "stream_event list"
  subscribers :: "nat list"
  event_chan :: "nat \<Rightarrow> stream_event list"
  event_closed :: "nat set"
  tcp :: tcp_runtime
  udp :: udp_runtime

subsection \<open>Events, webhooks and the log\<close>

definition next_event :: "relay \<Rightarrow> string \<Rightarrow> string \<Rightarrow> string \<Rightarrow> string \<Rightarrow> string \<Rightarrow> event_payload \<Rightarrow> time \<Rightarrow> time \<Rightarrow> stream_event" where
  "next_event s kind message tunnelID requestID sessionID payload t1 t2 =
     \<lparr>se_ID = ''evt-'' @ dec t1, se_Type = kind, se_Message = message, se_TunnelID = tunnelID, se_RequestID = requestID,
      se_SessionID = sessionID, se_CreatedAt = t2, se_Payload = payload\<rparr>"

text \<open>
  \<open>emitEvent\<close> in two steps: under the lock it adds the event and copies the subscribers; after that it
  sends to the copies. A channel holds 16 events, and what does not fit is dropped. A subscriber that has
  left in between has closed its channel: sending to it panics, even from a \<open>select\<close> with a default. The
  subscribers are a map in the code; its order makes no difference, since each channel is sent to once.
\<close>

definition emit_begin :: "relay \<Rightarrow> stream_event \<Rightarrow> nat list \<times> relay" where
  "emit_begin s event = (subscribers s, s\<lparr>events := take 100 (event # events s)\<rparr>)"

fun emit_send :: "relay \<Rightarrow> stream_event \<Rightarrow> nat list \<Rightarrow> relay" where
  "emit_send s event [] = s"
| "emit_send s event (c # cs) =
     (if c \<in> event_closed s then s\<lparr>crashed := Some Send_On_Closed_Channel\<rparr>
      else if length (event_chan s c) < 16
      then emit_send (s\<lparr>event_chan := (event_chan s)(c := event_chan s c @ [event])\<rparr>) event cs
      else emit_send s event cs)"

definition emitEvent :: "relay \<Rightarrow> string \<Rightarrow> string \<Rightarrow> string \<Rightarrow> string \<Rightarrow> string \<Rightarrow> event_payload \<Rightarrow> time \<Rightarrow> time \<Rightarrow> relay" where
  "emitEvent s kind message tunnelID requestID sessionID payload t1 t2 =
     (let event = next_event s kind message tunnelID requestID sessionID payload t1 t2;
          (subs, s1) = emit_begin s event
      in emit_send s1 event subs)"

text \<open>\<open>marshal\<close> is the JSON encoder; it fails with \<open>None\<close>.\<close>

definition webhook_signature :: "string \<Rightarrow> byte list \<Rightarrow> string" where
  "webhook_signature secret data =
     (if secret = [] then [] else ''sha256='' @ hex_EncodeToString (hmac sha256 (bytes_of secret) data))"

definition dispatchWebhook :: "(webhook_event \<Rightarrow> byte list option) \<Rightarrow> relay \<Rightarrow> string \<Rightarrow> event_payload \<Rightarrow> time \<Rightarrow> relay" where
  "dispatchWebhook marshal s eventType payload now =
     (if webhookURL s = [] then s
      else case marshal \<lparr>wh_Type = eventType, wh_Timestamp = now, wh_Payload = payload\<rparr> of
        None \<Rightarrow> s
      | Some data \<Rightarrow> s\<lparr>tasks := tasks s @ [Task_Deliver data (webhook_signature (webhookSecret s) data)]\<rparr>)"

text \<open>
  The goroutine that delivers: \<open>answers n\<close> is the status of attempt \<open>n\<close>, \<open>None\<close> a failed call. The
  result is the number of attempts made and the time slept.
\<close>

fun deliver_webhook :: "(nat \<Rightarrow> int option) \<Rightarrow> nat \<Rightarrow> nat \<Rightarrow> nat \<times> duration" where
  "deliver_webhook answers attempt 0 = (0, 0)"
| "deliver_webhook answers attempt (Suc left) =
     (case answers attempt of
        Some code \<Rightarrow>
          if 200 \<le> code \<and> code < 300 then (1, 0)
          else let (n, d) = deliver_webhook answers (Suc attempt) left in (Suc n, d + (int attempt + 1) * 500000000)
      | None \<Rightarrow> let (n, d) = deliver_webhook answers (Suc attempt) left in (Suc n, d + (int attempt + 1) * 500000000))"

definition recordRequest :: "relay \<Rightarrow> request_log \<Rightarrow> relay" where
  "recordRequest s entry =
     s\<lparr>requestLog := take 100 (entry # requestLog s),
       tasks := tasks s @ [Task_Emit ''request_completed'' ''Request completed'' (rl_TunnelID entry) (rl_RequestID entry) [] (P_Log entry),
                           Task_Webhook ''request_completed'' (P_Log entry)]\<rparr>"

definition inc_metric :: "relay \<Rightarrow> string \<Rightarrow> relay" where
  "inc_metric s name = s\<lparr>rs_counters := IncCounter (rs_counters s) name\<rparr>"

end
