(* ===== verification/Relay_Access.thy ===== *)
theory Relay_Access
  imports Relay_State
begin

section \<open>The relay: construction, access control and accounts\<close>

text \<open>
  The function \<open>New\<close> and the access checks of \<open>relay/server.go\<close>, and \<open>relay/enterprise.go\<close>: login, second factor and the
  status pages. The request structure has the parts the handlers read; parsed bodies, the session
  cookie and the basic credentials are what package \<open>net/http\<close> and \<open>encoding/json\<close> make of a request.
\<close>

subsection \<open>Requests and replies\<close>

record http_request =
  hr_Method :: string
  hr_Path :: string
  hr_RawQuery :: string
  hr_Query :: "string \<Rightarrow> string"
  hr_Host :: string
  RemoteAddr :: string
  hr_TLS :: "connection_state option"
  hr_Headers :: http_headers
  hr_Body :: "byte list option"
  hr_Cookie :: "string option"
  hr_BasicAuth :: "(string \<times> string) option"

text \<open>\<open>Aborted\<close> is a handler that panics: package \<open>net/http\<close> cuts the connection.\<close>

datatype 'a reply = Failed nat string | Answer nat 'a | Status nat | Redirected nat string | Aborted

type_synonym 'a handled = "'a reply list \<times> relay"

fun reply_status :: "'a reply list \<Rightarrow> nat" where
  "reply_status [] = 200"
| "reply_status (Failed n _ # _) = n"
| "reply_status (Answer n _ # _) = n"
| "reply_status (Status n # _) = n"
| "reply_status (Redirected n _ # _) = n"
| "reply_status (Aborted # _) = 0"

abbreviation failed :: "(nat \<times> string) list \<Rightarrow> 'a reply list" where
  "failed ws \<equiv> map (\<lambda>(n, t). Failed n t) ws"

definition header_get :: "http_headers \<Rightarrow> string \<Rightarrow> string" where
  "header_get h key = (case fmlookup h key of Some (v # _) \<Rightarrow> v | _ \<Rightarrow> [])"

subsection \<open>Access control\<close>

definition sessionTokenFromRequest :: "http_request \<Rightarrow> string" where
  "sessionTokenFromRequest r =
     (if HasPrefix (header_get (hr_Headers r) ''Authorization'') ''Bearer ''
      then TrimSpace (TrimPrefix (header_get (hr_Headers r) ''Authorization'') ''Bearer '')
      else case hr_Cookie r of Some v \<Rightarrow> TrimSpace v | None \<Rightarrow> [])"

text \<open>What has been written when the check fails: nothing at all when there is no token.\<close>

definition authorizePermission :: "relay \<Rightarrow> http_request \<Rightarrow> permission \<Rightarrow> time \<Rightarrow> ((nat \<times> string) list + user) \<times> relay" where
  "authorizePermission s r perm now =
     (let token = sessionTokenFromRequest r
      in if token = [] then (Inl [], s)
         else (case VerifySession (rs_authenticator s) token now of
                 (Inl e, a) \<Rightarrow> (Inl [(401, ''invalid session'')], s\<lparr>rs_authenticator := a\<rparr>)
               | (Inr (u, se), a) \<Rightarrow>
                   (let s1 = s\<lparr>rs_authenticator := a\<rparr>
                    in if mfa_Enabled (u_MFA u) \<and> \<not> MFAVerified se then (Inl [(403, ''mfa verification required'')], s1)
                       else if \<not> HasPermission u perm then (Inl [(403, ''forbidden'')], s1)
                       else (Inr u, s1))))"

definition with_permission :: "relay \<Rightarrow> http_request \<Rightarrow> permission \<Rightarrow> time \<Rightarrow> (user \<Rightarrow> relay \<Rightarrow> 'a handled) \<Rightarrow> 'a handled" where
  "with_permission s r perm now continue =
     (case authorizePermission s r perm now of
        (Inl ws, s1) \<Rightarrow> (failed ws, s1)
      | (Inr u, s1) \<Rightarrow> continue u s1)"

definition checkBasicAuth :: "relay \<Rightarrow> http_request \<Rightarrow> bool" where
  "checkBasicAuth s r =
     (if dashboardUser s = [] \<and> dashboardPass s = [] then True
      else case hr_BasicAuth r of
        None \<Rightarrow> False
      | Some (name, pass) \<Rightarrow> name = dashboardUser s \<and> pass = dashboardPass s)"

text \<open>
  The dashboard falls back to basic credentials after the session check has failed and, where it
  wrote something, has already answered. \<open>ord\<close> is the order in which the permissions, a map, are listed.
\<close>

definition dashboard_admin :: "(permission list \<Rightarrow> permission list) \<Rightarrow> relay \<Rightarrow> user" where
  "dashboard_admin ord s = \<lparr>u_ID = [], Username = dashboardUser s, Email = [], DisplayName = [], PasswordHash = [], Roles = [],
     Permissions = CalculatePermissions ord [RoleAdmin] [], u_MFA = no_mfa, u_SSOProvider = [], SSOExternalID = [], WorkspaceID = [],
     LastLogin = zero_time, u_CreatedAt = zero_time, u_UpdatedAt = zero_time, u_Active = False, u_Metadata = fmempty\<rparr>"

definition authorizeDashboard :: "(permission list \<Rightarrow> permission list) \<Rightarrow> relay \<Rightarrow> http_request \<Rightarrow> time \<Rightarrow>
    (nat \<times> string) list \<times> user option \<times> relay" where
  "authorizeDashboard ord s r now =
     (case authorizePermission s r ''dashboard:access'' now of
        (Inr u, s1) \<Rightarrow> ([], Some u, s1)
      | (Inl ws, s1) \<Rightarrow>
          if checkBasicAuth s1 r then (ws, Some (dashboard_admin ord s1), s1)
          else (ws @ [(401, ''authentication required'')], None, s1))"

text \<open>The wrapper around every route.\<close>

definition wrapSecurity :: "relay \<Rightarrow> http_request \<Rightarrow> time \<Rightarrow> time \<Rightarrow> (relay \<Rightarrow> 'a handled) \<Rightarrow> 'a handled" where
  "wrapSecurity s r t1 t2 serve =
     (case EnforceNetworkPolicy (rs_enforcer s) (RemoteAddr r) t1 of
        (Some e, en) \<Rightarrow> ([Failed 403 ''network policy''], s\<lparr>rs_enforcer := en\<rparr>)
      | (None, en) \<Rightarrow>
          let s1 = s\<lparr>rs_enforcer := en\<rparr>
          in if hr_TLS r \<noteq> None \<or> certFile s1 \<noteq> [] \<or> keyFile s1 \<noteq> [] \<or> has_acmeManager s1
             then (case hr_TLS r of
                     None \<Rightarrow> ([Failed 426 ''TLS required''], s1)
                   | Some st \<Rightarrow>
                       (case EnforceTLSPolicy (rs_enforcer s1) (Some st) t2 of
                          (Some e, en2) \<Rightarrow> ([Failed 403 ''tls policy''], s1\<lparr>rs_enforcer := en2\<rparr>)
                        | (None, en2) \<Rightarrow> serve (s1\<lparr>rs_enforcer := en2\<rparr>)))
             else serve s1)"

subsection \<open>Accounts\<close>

fun localFirstNonEmpty :: "string list \<Rightarrow> string" where
  "localFirstNonEmpty [] = []"
| "localFirstNonEmpty (v # vs) = (if TrimSpace v \<noteq> [] then TrimSpace v else localFirstNonEmpty vs)"

record auth_session_response =
  as_Token :: string
  as_ExpiresAt :: time
  as_MFAVerified :: bool
  as_User :: "user option"

text \<open>A successful login sets the session cookie to the token it answers with.\<close>

definition session_reply :: "relay \<Rightarrow> session \<Rightarrow> time \<Rightarrow> auth_session_response handled" where
  "session_reply s se now =
     (let (res, a) = VerifySession (rs_authenticator s) (Token se) now
      in ([Answer 200 \<lparr>as_Token = Token se, as_ExpiresAt = ExpiresAt se, as_MFAVerified = MFAVerified se,
             as_User = (case res of Inl _ \<Rightarrow> None | Inr (u, _) \<Rightarrow> Some u)\<rparr>], s\<lparr>rs_authenticator := a\<rparr>))"

definition handleLogin :: "(string \<Rightarrow> string \<Rightarrow> bool) \<Rightarrow> relay \<Rightarrow> http_request \<Rightarrow> (string \<times> string) option \<Rightarrow> login_draw \<Rightarrow> time \<Rightarrow>
    auth_session_response handled" where
  "handleLogin cmp s r body d now =
     (if hr_Method r \<noteq> ''POST'' then ([Failed 405 ''method not allowed''], s)
      else case body of
        None \<Rightarrow> ([Failed 400 ''decode request''], s)
      | Some (username, password) \<Rightarrow>
          (case AuthenticateWithPassword cmp (rs_authenticator s) username password d of
             (Inl e, a) \<Rightarrow> ([Failed 401 ''authentication failed''], s\<lparr>rs_authenticator := a\<rparr>)
           | (Inr se, a) \<Rightarrow> session_reply (s\<lparr>rs_authenticator := a\<rparr>) se now))"

definition handleSSOLogin :: "(permission list \<Rightarrow> permission list) \<Rightarrow> relay \<Rightarrow> http_request \<Rightarrow> (string \<times> string) option \<Rightarrow> time \<Rightarrow>
    byte list \<Rightarrow> time \<Rightarrow> time \<Rightarrow> login_draw \<Rightarrow> time \<Rightarrow> auth_session_response handled" where
  "handleSSOLogin ord s r body tx rid t1 t2 d now =
     (if hr_Method r \<noteq> ''POST'' then ([Failed 405 ''method not allowed''], s)
      else case body of
        None \<Rightarrow> ([Failed 400 ''decode request''], s)
      | Some (provider, code) \<Rightarrow>
          (case AuthenticateWithSSO ord (rs_authenticator s) (localFirstNonEmpty [provider, ''dev-sso'']) code tx rid t1 t2 d of
             (Inl e, a) \<Rightarrow> ([Failed 401 ''authentication failed''], s\<lparr>rs_authenticator := a\<rparr>)
           | (Inr se, a) \<Rightarrow> session_reply (s\<lparr>rs_authenticator := a\<rparr>) se now))"

definition handleMFASetup :: "relay \<Rightarrow> http_request \<Rightarrow> time \<Rightarrow> byte list \<Rightarrow> byte list list \<Rightarrow> time \<Rightarrow> mfa_setup handled" where
  "handleMFASetup s r now rsecret rcodes t =
     with_permission s r ''dashboard:access'' now (\<lambda>u s1.
       if hr_Method r \<noteq> ''POST'' then ([Failed 405 ''method not allowed''], s1)
       else (case EnableMFA (rs_authenticator s1) (u_ID u) ''totp'' rsecret rcodes t of
               (Inl e, a) \<Rightarrow> ([Failed 400 ''enable mfa''], s1\<lparr>rs_authenticator := a\<rparr>)
             | (Inr setup, a) \<Rightarrow> ([Answer 201 setup], s1\<lparr>rs_authenticator := a\<rparr>)))"

definition handleMFAVerify :: "relay \<Rightarrow> http_request \<Rightarrow> string option \<Rightarrow> time \<Rightarrow> time \<Rightarrow> unit handled" where
  "handleMFAVerify s r body now t =
     (if hr_Method r \<noteq> ''POST'' then ([Failed 405 ''method not allowed''], s)
      else case body of
        None \<Rightarrow> ([Failed 400 ''decode request''], s)
      | Some code \<Rightarrow>
          let token = sessionTokenFromRequest r
          in if token = [] then ([Failed 401 ''missing session''], s)
             else (case VerifyMFA (rs_authenticator s) token code now t of
                     (Some e, a) \<Rightarrow> ([Failed 401 ''verify mfa''], s\<lparr>rs_authenticator := a\<rparr>)
                   | (None, a) \<Rightarrow> ([Answer 200 ()], s\<lparr>rs_authenticator := a\<rparr>)))"

definition handleMe :: "relay \<Rightarrow> http_request \<Rightarrow> time \<Rightarrow> auth_session_response handled" where
  "handleMe s r now =
     (let token = sessionTokenFromRequest r
      in if token = [] then ([Failed 401 ''missing session''], s)
         else (case VerifySession (rs_authenticator s) token now of
                 (Inl e, a) \<Rightarrow> ([Failed 401 ''verify session''], s\<lparr>rs_authenticator := a\<rparr>)
               | (Inr (u, se), a) \<Rightarrow>
                   ([Answer 200 \<lparr>as_Token = Token se, as_ExpiresAt = ExpiresAt se, as_MFAVerified = MFAVerified se, as_User = Some u\<rparr>],
                    s\<lparr>rs_authenticator := a\<rparr>)))"

definition handleSecurityAudit :: "relay \<Rightarrow> http_request \<Rightarrow> time \<Rightarrow> security_event list handled" where
  "handleSecurityAudit s r now =
     with_permission s r ''audit:view'' now (\<lambda>_ s1.
       if hr_Method r \<noteq> ''GET'' then ([Failed 405 ''method not allowed''], s1)
       else ([Answer 200 (GetAuditLog (rs_enforcer s1))], s1))"

definition relay_handleNFRStatus :: "relay \<Rightarrow> http_request \<Rightarrow> time \<Rightarrow> string list \<Rightarrow> string list \<Rightarrow> string list \<Rightarrow>
    (nfr_requirement list \<times> (nfr_status \<Rightarrow> nat) \<times> nfr_requirement list) handled" where
  "relay_handleNFRStatus s r now ks1 ks2 ks3 =
     with_permission s r ''dashboard:access'' now (\<lambda>_ s1.
       if hr_Method r \<noteq> ''GET'' then ([Failed 405 ''method not allowed''], s1)
       else ([Answer 200 (ListRequirements (rs_nfrValidator s1) ks1, GetStatusSummary (rs_nfrValidator s1) ks2,
                GetFailingRequirements (rs_nfrValidator s1) ks3)], s1))"

subsection \<open>Construction\<close>

definition bootstrapUser :: "(string \<Rightarrow> string option) \<Rightarrow> (permission list \<Rightarrow> permission list) \<Rightarrow> authenticator \<Rightarrow> string \<Rightarrow> string \<Rightarrow>
    byte list \<Rightarrow> time \<Rightarrow> time \<Rightarrow> authenticator" where
  "bootstrapUser gen ord a username password rid t1 t2 =
     (if TrimSpace username = [] then a
      else snd (CreateUser gen ord a
             \<lparr>cr_Username = username, cr_Email = username @ ''@gotunnel.local'', cr_DisplayName = ''GoTunnel Admin'',
              cr_Password = password, cr_Roles = [RoleAdmin], cr_Permissions = [], cr_WorkspaceID = ''default'', cr_Metadata = fmempty\<rparr>
             rid t1 t2))"

definition addDefaultNFRs :: "validator \<Rightarrow> validator" where
  "addDefaultNFRs v =
     AddRequirement
       (AddRequirement
          (AddRequirement v (broker_requirement ''relay_latency_p99'' NFRLatency ''Relay latency p99'' 100 ''ms''))
          (broker_requirement ''relay_uptime'' NFRUptime ''Relay uptime'' (float64 (999 / 10)) ''percent''))
       (broker_requirement ''relay_concurrent_tunnels'' NFRScalability ''Concurrent tunnels'' 10000 ''tunnels'')"

text \<open>
  The arguments of \<open>New\<close> that reach the model. \<open>ra_lifecycle\<close> says whether the certificate store, the DNS
  providers and the certificate manager could be built; \<open>ra_env\<close> is the environment, \<open>ra_header\<close> and \<open>ra_claims\<close> parse the
  parts of a token; the rest is what the administrator's account draws.
\<close>

record relay_args =
  ra_settings :: relay_settings
  ra_acmeCache :: string
  ra_acmeStorage :: string
  ra_acmeEmail :: string
  ra_lifecycle :: bool
  ra_pluginConfig :: string
  ra_content :: "string option"
  ra_parse :: "string \<Rightarrow> plugin_spec list option"
  ra_env :: "string \<Rightarrow> string"
  ra_header :: "byte list \<Rightarrow> string option"
  ra_claims :: "byte list \<Rightarrow> jwt_claims option"
  ra_gen :: "string \<Rightarrow> string option"
  ra_ord :: "permission list \<Rightarrow> permission list"
  ra_rid :: "byte list"
  ra_t1 :: time
  ra_t2 :: time

definition relay_enforcer_config :: enforcer_config where
  "relay_enforcer_config = \<lparr>cfg_NetworkPolicy = \<lparr>AllowedCIDRs = [], BlockedCIDRs = [], AllowedPorts = [], BlockedPorts = [],
       AllowedProtocols = [''http'', ''https'', ''tcp'', ''udp''], MaxConnections = 10000, np_Timeout = 30 * second_ns\<rparr>,
     cfg_TLSPolicy = \<lparr>MinVersion = 0x304, MaxVersion = 0, CipherSuites = [], RequireClientCert = False, AllowedCNs = [], AllowedSANs = []\<rparr>,
     cfg_MaxAuditLog = 2000, cfg_OnEvent = False\<rparr>"

definition manages_certificates :: "relay_args \<Rightarrow> bool" where
  "manages_certificates ra \<longleftrightarrow> certFile (ra_settings ra) = [] \<and> keyFile (ra_settings ra) = [] \<and> TrimSpace (ra_acmeStorage ra) \<noteq> []
     \<and> TrimSpace (ra_acmeEmail ra) \<noteq> [] \<and> ra_lifecycle ra"

definition relay_sso :: "relay_args \<Rightarrow> authenticator" where
  "relay_sso ra =
     (let a = RegisterSSOProvider (NewAuthenticator auth_NewMemoryStore ''gotunnel-relay'' ''gotunnel-dashboard'') (NewDevSSOProvider ''dev-sso'');
          secret = TrimSpace (ra_env ra ''GOTUNNEL_SSO_HS256_SECRET'')
      in if secret = [] then a
         else RegisterSSOProvider a (jwt_provider (ra_header ra) (ra_claims ra)
                (NewStaticJWTSSOProvider (localFirstNonEmpty [ra_env ra ''GOTUNNEL_SSO_PROVIDER'', ''oidc-hs256''])
                   (TrimSpace (ra_env ra ''GOTUNNEL_SSO_ISSUER'')) (TrimSpace (ra_env ra ''GOTUNNEL_SSO_AUDIENCE'')) secret)))"

definition relay_authenticator :: "relay_args \<Rightarrow> authenticator" where
  "relay_authenticator ra =
     bootstrapUser (ra_gen ra) (ra_ord ra) (relay_sso ra) (dashboardUser (ra_settings ra)) (dashboardPass (ra_settings ra))
       (ra_rid ra) (ra_t1 ra) (ra_t2 ra)"

definition no_client :: client_state where
  "no_client = \<lparr>c_ID = [], c_TunnelID = [], Queue = [], QUICSend = [], QUICUp = False\<rparr>"

definition relay_New :: "relay_args \<Rightarrow> go_panic + relay" where
  "relay_New ra =
     (case NewEnforcer relay_enforcer_config of
        Inl p \<Rightarrow> Inl p
      | Inr en \<Rightarrow>
          let c = ra_settings ra
          in Inr \<lparr>rs_addr = rs_addr c, rs_brokerURL = TrimRightSlash (rs_brokerURL c), relayName = relayName c, relayRegion = relayRegion c,
               rs_capacity = rs_capacity c, dashboardUser = dashboardUser c, dashboardPass = dashboardPass c,
               webhookURL = TrimSpace (webhookURL c), rs_publicBase = TrimRightSlash (rs_publicBase c), certFile = certFile c,
               keyFile = keyFile c, quicAddr = quicAddr c,
               has_acmeManager = (certFile c = [] \<and> keyFile c = [] \<and> TrimSpace (ra_acmeCache ra) \<noteq> [] \<and> \<not> manages_certificates ra),
               webhookSecret = TrimSpace (webhookSecret c), allowMutation = allowMutation c,
               plugins = (case Load (ra_pluginConfig ra) (ra_content ra) (ra_parse ra) of Inl _ \<Rightarrow> [] | Inr specs \<Rightarrow> specs),
               reconnectTokens = fmempty, rs_authenticator = relay_authenticator ra, rs_enforcer = en,
               rs_nfrValidator = addDefaultNFRs (NewValidator False), rs_counters = (\<lambda>_. 0), tunnels = fmempty, clients = fmempty,
               client_at = (\<lambda>_. no_client), requests = fmempty, response_chan = (\<lambda>_. []), requestLog = [], relayID = [], next_cell = 0,
               tasks = [], crashed = None, paused = fmempty, action_chan = (\<lambda>_. []), collab_sessions = fmempty, invites = fmempty,
               annotations = (\<lambda>_. []), breakpoints = fmempty, events = [], subscribers = [], event_chan = (\<lambda>_. []), event_closed = {},
               tcp = \<lparr>tcp_queues = fmempty, tcp_chans = (\<lambda>_. []), listeners = fmempty, conns = fmempty, conn_closed = {}, conn_written = (\<lambda>_. [])\<rparr>,
               udp = \<lparr>udp_queues = fmempty, udp_chans = (\<lambda>_. []), sockets = fmempty, peers = fmempty, udp_sent = []\<rparr>\<rparr>)"

text \<open>As for the broker: \<open>s\<close> is the server's state when the checks run.\<close>

definition relay_registerOperationalChecks :: "relay \<Rightarrow> string hardener \<Rightarrow> string hardener" where
  "relay_registerOperationalChecks s h =
     (let h1 = RegisterHealthCheck h ''relay_runtime'' (\<lambda>_.
            \<lparr>ch_Name = ''relay_runtime'', ch_Status = HealthStatusHealthy, ch_Message = ''relay runtime healthy'',
             ch_Metrics = [(''tunnels'', float64 (of_nat (fcard (fmdom (tunnels s))))), (''clients'', float64 (of_nat (fcard (fmdom (clients s))))),
                           (''requests'', float64 (of_nat (fcard (fmdom (requests s)))))],
             LastChecked = zero_time, Latency = 0\<rparr>);
          h2 = RegisterReadinessProbe h1 \<lparr>probe_Name = ''relay_broker_url'',
                 Check = (\<lambda>_. if rs_brokerURL s = [] then Some ''broker URL not configured'' else None), probe_Timeout = 2 * second_ns,
                 probe_Interval = 0\<rparr>
      in RegisterLivenessProbe h2 \<lparr>probe_Name = ''relay_process'', Check = (\<lambda>_. None), probe_Timeout = 2 * second_ns, probe_Interval = 0\<rparr>)"

end
