(* ===== verification/Relay_Debug.thy ===== *)
theory Relay_Debug
  imports Relay_Access
begin

section \<open>The relay: collaborative debugging\<close>

text \<open>
  Model of \<open>relay/phase2.go\<close>: collaboration sessions and invitations, annotations, breakpoints, paused
  requests, replays and the stream of dashboard events. The orders in which maps are visited are
  arguments; \<open>sort.Slice\<close> is the stable sort of the broker's model.
\<close>

subsection \<open>Text\<close>

text \<open>\<open>http.CanonicalHeaderKey\<close>: a name with a byte that no header name has is left alone.\<close>

definition header_byte :: "char \<Rightarrow> bool" where
  "header_byte c \<longleftrightarrow> (CHR ''a'' \<le> c \<and> c \<le> CHR ''z'') \<or> (CHR ''A'' \<le> c \<and> c \<le> CHR ''Z'') \<or> (CHR ''0'' \<le> c \<and> c \<le> CHR ''9'')
     \<or> c \<in> set ''!#$%&*+-.^_`|~'' \<or> c = CHR 0x27"

fun canonical_case :: "bool \<Rightarrow> string \<Rightarrow> string" where
  "canonical_case upper [] = []"
| "canonical_case upper (c # cs) =
     (if upper then to_upper_char c else to_lower_char c) # canonical_case (c = CHR ''-'') cs"

definition CanonicalHeaderKey :: "string \<Rightarrow> string" where
  "CanonicalHeaderKey s = (if list_all header_byte s then canonical_case True s else s)"

subsection \<open>Tunnels by identifier\<close>

fun find_tunnel :: "relay \<Rightarrow> string \<Rightarrow> string list \<Rightarrow> (string \<times> lease) option" where
  "find_tunnel s tunnelID [] = None"
| "find_tunnel s tunnelID (sub # subs) =
     (case fmlookup (tunnels s) sub of
        Some l \<Rightarrow> if le_ID l = tunnelID then Some (sub, l) else find_tunnel s tunnelID subs
      | None \<Rightarrow> find_tunnel s tunnelID subs)"

definition resolveTunnelIdentity :: "relay \<Rightarrow> string \<Rightarrow> string \<Rightarrow> string list \<Rightarrow> (string \<times> string) option" where
  "resolveTunnelIdentity s tunnelID subdomain ks =
     (case (if tunnelID = [] then None else find_tunnel s tunnelID ks) of
        Some (sub, l) \<Rightarrow> Some (le_ID l, sub)
      | None \<Rightarrow>
          if subdomain = [] then None
          else map_option (\<lambda>l. (le_ID l, subdomain)) (fmlookup (tunnels s) subdomain))"

definition findLeaseByTunnelID :: "relay \<Rightarrow> string \<Rightarrow> string list \<Rightarrow> lease" where
  "findLeaseByTunnelID s tunnelID ks = (case find_tunnel s tunnelID ks of Some (_, l) \<Rightarrow> l | None \<Rightarrow> zero_lease)"

subsection \<open>Sessions and annotations\<close>

datatype phase2_error =
    Owner_Required
  | Tunnel_Not_Found
  | Sharing_Disabled
  | Token_And_Name_Required
  | Invite_Not_Found
  | Annotation_Fields_Required
  | Breakpoint_Fields_Required
  | Paused_Request_Not_Found
  | Paused_Request_Already_Resolved
  | Request_ID_Required
  | Request_Not_Found
  | Tunnel_Is_Offline
  | Panics go_panic

record create_session_request =
  cq_TunnelID :: string
  cq_Subdomain :: string
  cq_Owner :: string
  InviteRole :: string

record join_session_request =
  jq_Token :: string
  jq_Name :: string
  jq_Role :: string

definition createSession :: "(webhook_event \<Rightarrow> byte list option) \<Rightarrow> relay \<Rightarrow> create_session_request \<Rightarrow> (nat \<Rightarrow> time) \<Rightarrow> string list \<Rightarrow> string list \<Rightarrow>
    (phase2_error + collaboration_session) \<times> relay" where
  "createSession marshal s req clk ks1 ks2 =
     (if TrimSpace (cq_Owner req) = [] then (Inl Owner_Required, s)
      else case resolveTunnelIdentity s (cq_TunnelID req) (cq_Subdomain req) ks1 of
        None \<Rightarrow> (Inl Tunnel_Not_Found, s)
      | Some (tunnelID, subdomain) \<Rightarrow>
          let l = findLeaseByTunnelID s tunnelID ks2
          in if \<not> le_AllowSharing l \<or> \<not> AllowSharing (plugins s) l then (Inl Sharing_Disabled, s)
             else let token = ''invite-'' @ dec (clk 1);
                      session = \<lparr>co_ID = ''sess-'' @ dec (clk 0), co_TunnelID = tunnelID, co_Subdomain = subdomain, InviteToken = token,
                         InviteURL = TrimRightSlash (rs_publicBase s) @ ''/dashboard?invite='' @ token, Owner = cq_Owner req,
                         co_Status = ''active'', Participants = [\<lparr>pa_Name = cq_Owner req, pa_Role = ''owner'', JoinedAt = clk 3\<rparr>],
                         co_CreatedAt = clk 4, LastActivityAt = clk 5\<rparr>;
                      s1 = s\<lparr>collab_sessions := fmupd (co_ID session) session (collab_sessions s),
                             invites := fmupd token (co_ID session) (invites s)\<rparr>;
                      s2 = emitEvent s1 ''session_created'' ''Collaborative session created'' tunnelID [] (co_ID session) (P_Session session) (clk 6) (clk 7)
                  in (Inr session, dispatchWebhook marshal s2 ''collaboration_session_started'' (P_Session session) (clk 8)))"

definition joinSession :: "relay \<Rightarrow> join_session_request \<Rightarrow> (nat \<Rightarrow> time) \<Rightarrow> (phase2_error + collaboration_session) \<times> relay" where
  "joinSession s req clk =
     (if TrimSpace (jq_Token req) = [] \<or> TrimSpace (jq_Name req) = [] then (Inl Token_And_Name_Required, s)
      else case fmlookup (invites s) (jq_Token req) of
        None \<Rightarrow> (Inl Invite_Not_Found, s)
      | Some sessionID \<Rightarrow>
          (case fmlookup (collab_sessions s) sessionID of
             None \<Rightarrow> (Inl (Panics Nil_Dereference), s)
           | Some session \<Rightarrow>
               if list_ex (\<lambda>p. pa_Name p = jq_Name req) (Participants session) then (Inr session, s)
               else let role = (if jq_Role req = [] then ''debugger'' else jq_Role req);
                        out = session\<lparr>Participants := Participants session @ [\<lparr>pa_Name = jq_Name req, pa_Role = role, JoinedAt = clk 0\<rparr>],
                                      LastActivityAt := clk 1\<rparr>
                    in (Inr out, s\<lparr>collab_sessions := fmupd sessionID out (collab_sessions s),
                                   tasks := tasks s @ [Task_Emit ''session_joined'' ''Participant joined collaborative session''
                                     (co_TunnelID out) [] (co_ID out) (P_Session out)]\<rparr>)))"

definition listSessions :: "relay \<Rightarrow> string list \<Rightarrow> collaboration_session list" where
  "listSessions s ks = sort_Slice (\<lambda>a b. co_CreatedAt a > co_CreatedAt b) (List.map_filter (fmlookup (collab_sessions s)) ks)"

definition findSessionsForTunnel :: "relay \<Rightarrow> string \<Rightarrow> string list \<Rightarrow> string list" where
  "findSessionsForTunnel s tunnelID ks =
     map co_ID (filter (\<lambda>c. co_TunnelID c = tunnelID \<and> co_Status c = ''active'') (List.map_filter (fmlookup (collab_sessions s)) ks))"

record annotate_request =
  aq_RequestID :: string
  aq_SessionID :: string
  aq_Author :: string
  aq_Message :: string

definition addAnnotation :: "relay \<Rightarrow> annotate_request \<Rightarrow> (nat \<Rightarrow> time) \<Rightarrow> (phase2_error + annotation) \<times> relay" where
  "addAnnotation s req clk =
     (if TrimSpace (aq_RequestID req) = [] \<or> TrimSpace (aq_Author req) = [] \<or> TrimSpace (aq_Message req) = []
      then (Inl Annotation_Fields_Required, s)
      else let a = \<lparr>an_ID = ''ann-'' @ dec (clk 0), an_RequestID = aq_RequestID req, an_SessionID = aq_SessionID req,
                    Author = aq_Author req, an_Message = aq_Message req, an_CreatedAt = clk 1\<rparr>;
               s1 = s\<lparr>annotations := (annotations s)(aq_RequestID req := annotations s (aq_RequestID req) @ [a])\<rparr>
           in (Inr a, emitEvent s1 ''annotation_created'' ''Request annotation added'' [] (aq_RequestID req) (aq_SessionID req) (P_Annotation a) (clk 2) (clk 3)))"

subsection \<open>Breakpoints and paused requests\<close>

record create_breakpoint_request =
  bq_TunnelID :: string
  bq_Method :: string
  bq_PathPrefix :: string
  bq_HeaderName :: string
  bq_HeaderValue :: string
  bq_CreatedBy :: string

definition breakpoints_of :: "relay \<Rightarrow> string \<Rightarrow> breakpoint list" where
  "breakpoints_of s tunnelID = (case fmlookup (breakpoints s) tunnelID of Some bs \<Rightarrow> bs | None \<Rightarrow> [])"

definition addBreakpoint :: "relay \<Rightarrow> create_breakpoint_request \<Rightarrow> (nat \<Rightarrow> time) \<Rightarrow> (phase2_error + breakpoint) \<times> relay" where
  "addBreakpoint s req clk =
     (if TrimSpace (bq_TunnelID req) = [] \<or> TrimSpace (bq_CreatedBy req) = [] then (Inl Breakpoint_Fields_Required, s)
      else let b = \<lparr>bp_ID = ''bp-'' @ dec (clk 0), bp_TunnelID = bq_TunnelID req, bp_Method = ToUpper (bq_Method req),
                    PathPrefix = bq_PathPrefix req, HeaderName = CanonicalHeaderKey (bq_HeaderName req), HeaderValue = bq_HeaderValue req,
                    CreatedBy = bq_CreatedBy req, bp_CreatedAt = clk 1, bp_Enabled = True\<rparr>;
               s1 = s\<lparr>breakpoints := fmupd (bq_TunnelID req) (breakpoints_of s (bq_TunnelID req) @ [b]) (breakpoints s)\<rparr>
           in (Inr b, emitEvent s1 ''breakpoint_created'' ''Traffic breakpoint created'' (bq_TunnelID req) [] [] (P_Breakpoint b) (clk 2) (clk 3)))"

fun value_matches :: "string list \<Rightarrow> string \<Rightarrow> bool" where
  "value_matches [] wanted = False"
| "value_matches (v # vs) wanted = (if v = wanted then True else value_matches vs wanted)"

fun match_loop :: "breakpoint list \<Rightarrow> pending_request \<Rightarrow> breakpoint option" where
  "match_loop [] req = None"
| "match_loop (bp # bps) req =
     (if \<not> bp_Enabled bp then match_loop bps req
      else if bp_Method bp \<noteq> [] \<and> bp_Method bp \<noteq> ToUpper (pr_Method req) then match_loop bps req
      else if PathPrefix bp \<noteq> [] \<and> \<not> HasPrefix (pr_Path req) (PathPrefix bp) then match_loop bps req
      else if HeaderName bp \<noteq> [] then
        (let vals = (case fmlookup (pr_Headers req) (HeaderName bp) of Some vs \<Rightarrow> vs | None \<Rightarrow> [])
         in if vals = [] then match_loop bps req
            else if HeaderValue bp \<noteq> [] \<and> \<not> value_matches vals (HeaderValue bp) then match_loop bps req
            else Some bp)
      else Some bp)"

definition matchBreakpoint :: "relay \<Rightarrow> pending_request \<Rightarrow> breakpoint option" where
  "matchBreakpoint s req = match_loop (breakpoints_of s (pr_TunnelID req)) req"

definition listBreakpoints :: "relay \<Rightarrow> string list \<Rightarrow> breakpoint list" where
  "listBreakpoints s ks = sort_Slice (\<lambda>a b. bp_CreatedAt a > bp_CreatedAt b) (concat (List.map_filter (fmlookup (breakpoints s)) ks))"

definition newPausedState :: "nat \<Rightarrow> pending_request \<Rightarrow> string \<Rightarrow> time \<Rightarrow> paused_state" where
  "newPausedState chan req breakpointID now = \<lparr>pz_Request = req, pz_ActionC = chan, pz_PausedAt = now, pz_BreakpointID = breakpointID\<rparr>"

definition storePausedRequest :: "relay \<Rightarrow> paused_state \<Rightarrow> relay" where
  "storePausedRequest s p = s\<lparr>paused := fmupd (pr_ID (pz_Request p)) p (paused s)\<rparr>"

definition deletePausedRequest :: "relay \<Rightarrow> string \<Rightarrow> relay" where
  "deletePausedRequest s requestID = s\<lparr>paused := fmdrop requestID (paused s)\<rparr>"

definition pausedSnapshot :: "paused_state \<Rightarrow> string list \<Rightarrow> paused_request_snapshot" where
  "pausedSnapshot p sessionIDs =
     \<lparr>ps_Request = pz_Request p, SessionIDs = sessionIDs, ps_BreakpointID = pz_BreakpointID p, ps_PausedAt = pz_PausedAt p\<rparr>"

definition listPausedRequests :: "relay \<Rightarrow> string list \<Rightarrow> string list \<Rightarrow> paused_request_snapshot list" where
  "listPausedRequests s ks ks2 =
     sort_Slice (\<lambda>a b. ps_PausedAt a > ps_PausedAt b)
       (map (\<lambda>p. pausedSnapshot p (findSessionsForTunnel s (pr_TunnelID (pz_Request p)) ks2)) (List.map_filter (fmlookup (paused s)) ks))"

text \<open>The action channel holds one action; a second one is refused.\<close>

definition resolvePausedRequest :: "relay \<Rightarrow> pause_action_request \<Rightarrow> (nat \<Rightarrow> time) \<Rightarrow> phase2_error option \<times> relay" where
  "resolvePausedRequest s req clk =
     (case fmlookup (paused s) (pa_RequestID req) of
        None \<Rightarrow> (Some Paused_Request_Not_Found, s)
      | Some p \<Rightarrow>
          if length (action_chan s (pz_ActionC p)) < 1
          then (None, emitEvent (s\<lparr>action_chan := (action_chan s)(pz_ActionC p := action_chan s (pz_ActionC p) @ [pa_Action req])\<rparr>)
                  (''paused_request_'' @ pa_Action req) ''Paused request action applied'' (pr_TunnelID (pz_Request p)) (pr_ID (pz_Request p)) []
                  (P_Action req) (clk 0) (clk 1))
          else (Some Paused_Request_Already_Resolved, s))"

subsection \<open>Queues of a client\<close>

text \<open>Each client has a queue of 64 requests; a full queue refuses.\<close>

definition enqueueRequestToClient :: "relay \<Rightarrow> nat \<Rightarrow> pending_request \<Rightarrow> bool \<times> relay" where
  "enqueueRequestToClient s c pending =
     (if length (Queue (client_at s c)) < 64
      then (True, s\<lparr>client_at := (client_at s)(c := (client_at s c)\<lparr>Queue := Queue (client_at s c) @ [pending]\<rparr>)\<rparr>)
      else (False, s))"

definition send_quic :: "relay \<Rightarrow> nat \<Rightarrow> control_message \<Rightarrow> bool \<times> relay" where
  "send_quic s c msg =
     (if length (QUICSend (client_at s c)) < 256
      then (True, s\<lparr>client_at := (client_at s)(c := (client_at s c)\<lparr>QUICSend := QUICSend (client_at s c) @ [msg]\<rparr>)\<rparr>)
      else (False, s))"

definition sendHTTPToClient :: "relay \<Rightarrow> nat \<Rightarrow> pending_request \<Rightarrow> bool \<times> relay" where
  "sendHTTPToClient s c pending =
     (if QUICUp (client_at s c)
      then (case send_quic s c (Msg_Request ''http_request'' (c_ID (client_at s c)) pending) of
              (True, s1) \<Rightarrow> (True, s1)
            | (False, s1) \<Rightarrow> enqueueRequestToClient s1 c pending)
      else enqueueRequestToClient s c pending)"

fun findClientByTunnelID :: "relay \<Rightarrow> string \<Rightarrow> string list \<Rightarrow> nat option" where
  "findClientByTunnelID s tunnelID [] = None"
| "findClientByTunnelID s tunnelID (k # ks) =
     (case fmlookup (clients s) k of
        Some c \<Rightarrow> if c_TunnelID (client_at s c) = tunnelID then Some c else findClientByTunnelID s tunnelID ks
      | None \<Rightarrow> findClientByTunnelID s tunnelID ks)"

definition enqueueRequest :: "relay \<Rightarrow> pending_request \<Rightarrow> string list \<Rightarrow> bool \<times> relay" where
  "enqueueRequest s pending ks =
     (case findClientByTunnelID s (pr_TunnelID pending) ks of
        None \<Rightarrow> (False, s)
      | Some c \<Rightarrow> enqueueRequestToClient s c pending)"

subsection \<open>Replays\<close>

record replay_request =
  rp_RequestID :: string
  rp_Actor :: string
  rp_Path :: string
  rp_Body :: "byte list"
  rp_Headers :: http_headers

definition replayRequest :: "relay \<Rightarrow> replay_request \<Rightarrow> (nat \<Rightarrow> time) \<Rightarrow> string list \<Rightarrow> (phase2_error + pending_request) \<times> relay" where
  "replayRequest s req clk ks =
     (if TrimSpace (rp_RequestID req) = [] then (Inl Request_ID_Required, s)
      else case fmlookup (requests s) (rp_RequestID req) of
        None \<Rightarrow> (Inl Request_Not_Found, s)
      | Some (original, _) \<Rightarrow>
          let r1 = original\<lparr>pr_ID := ''req-'' @ dec (clk 0), pr_ReceivedAt := clk 1\<rparr>;
              r2 = (if allowMutation s
                    then r1\<lparr>pr_Path := (if rp_Path req \<noteq> [] then rp_Path req else pr_Path r1),
                            pr_Body := (if rp_Body req \<noteq> [] then rp_Body req else pr_Body r1),
                            pr_Headers := (if rp_Headers req \<noteq> fmempty then rp_Headers req else pr_Headers r1)\<rparr>
                    else r1)
          in (case enqueueRequest s r2 ks of
                (False, s1) \<Rightarrow> (Inl Tunnel_Is_Offline, s1)
              | (True, s1) \<Rightarrow> (Inr r2, emitEvent s1 ''request_replayed'' ''Request replay queued'' (pr_TunnelID r2) (pr_ID r2) [] (P_Pending r2) (clk 2) (clk 3))))"

subsection \<open>Handlers\<close>

definition of_result :: "nat \<Rightarrow> nat \<Rightarrow> ('e + 'a) \<times> relay \<Rightarrow> 'a handled" where
  "of_result ok bad res = (case res of (Inl e, s) \<Rightarrow> ([Failed bad ''request refused''], s) | (Inr v, s) \<Rightarrow> ([Answer ok v], s))"

text \<open>A body that does not parse is \<open>None\<close>.\<close>

definition decoded :: "relay \<Rightarrow> 'b option \<Rightarrow> ('b \<Rightarrow> 'a handled) \<Rightarrow> 'a handled" where
  "decoded s body continue = (case body of None \<Rightarrow> ([Failed 400 ''decode request''], s) | Some req \<Rightarrow> continue req)"

definition post_only :: "relay \<Rightarrow> http_request \<Rightarrow> 'a handled \<Rightarrow> 'a handled" where
  "post_only s r continue = (if hr_Method r \<noteq> ''POST'' then ([Failed 405 ''method not allowed''], s) else continue)"

definition handleSessions_get :: "relay \<Rightarrow> http_request \<Rightarrow> time \<Rightarrow> string list \<Rightarrow> collaboration_session list handled" where
  "handleSessions_get s r now ks =
     with_permission s r ''collaboration:join'' now (\<lambda>_ s1. ([Answer 200 (listSessions s1 ks)], s1))"

definition handleSessions_post :: "(webhook_event \<Rightarrow> byte list option) \<Rightarrow> relay \<Rightarrow> http_request \<Rightarrow> create_session_request option \<Rightarrow> time \<Rightarrow>
    (nat \<Rightarrow> time) \<Rightarrow> string list \<Rightarrow> string list \<Rightarrow> collaboration_session handled" where
  "handleSessions_post marshal s r body now clk ks1 ks2 =
     with_permission s r ''collaboration:manage'' now (\<lambda>_ s1.
       decoded s1 body (\<lambda>req. of_result 201 400 (createSession marshal s1 req clk ks1 ks2)))"

definition handleJoinSession :: "relay \<Rightarrow> http_request \<Rightarrow> join_session_request option \<Rightarrow> time \<Rightarrow> (nat \<Rightarrow> time) \<Rightarrow> collaboration_session handled" where
  "handleJoinSession s r body now clk =
     with_permission s r ''collaboration:join'' now (\<lambda>_ s1.
       post_only s1 r (decoded s1 body (\<lambda>req. of_result 200 400 (joinSession s1 req clk))))"

definition handleAnnotation :: "relay \<Rightarrow> http_request \<Rightarrow> annotate_request option \<Rightarrow> time \<Rightarrow> (nat \<Rightarrow> time) \<Rightarrow> annotation handled" where
  "handleAnnotation s r body now clk =
     with_permission s r ''tunnel:inspect'' now (\<lambda>_ s1.
       post_only s1 r (decoded s1 body (\<lambda>req. of_result 201 400 (addAnnotation s1 req clk))))"

definition handleBreakpoints_get :: "relay \<Rightarrow> http_request \<Rightarrow> time \<Rightarrow> string list \<Rightarrow> breakpoint list handled" where
  "handleBreakpoints_get s r now ks =
     with_permission s r ''tunnel:inspect'' now (\<lambda>_ s1. ([Answer 200 (listBreakpoints s1 ks)], s1))"

definition handleBreakpoints_post :: "relay \<Rightarrow> http_request \<Rightarrow> create_breakpoint_request option \<Rightarrow> time \<Rightarrow> (nat \<Rightarrow> time) \<Rightarrow> breakpoint handled" where
  "handleBreakpoints_post s r body now clk =
     with_permission s r ''collaboration:manage'' now (\<lambda>_ s1.
       decoded s1 body (\<lambda>req. of_result 201 400 (addBreakpoint s1 req clk)))"

definition handlePausedAction :: "relay \<Rightarrow> http_request \<Rightarrow> pause_action_request option \<Rightarrow> time \<Rightarrow> (nat \<Rightarrow> time) \<Rightarrow> string handled" where
  "handlePausedAction s r body now clk =
     with_permission s r ''collaboration:manage'' now (\<lambda>_ s1.
       post_only s1 r (decoded s1 body (\<lambda>req.
         if pa_Action req \<noteq> ''release'' \<and> pa_Action req \<noteq> ''discard'' then ([Failed 400 ''action must be release or discard''], s1)
         else (case resolvePausedRequest s1 req clk of
                 (Some e, s2) \<Rightarrow> ([Failed 400 ''request refused''], s2)
               | (None, s2) \<Rightarrow> ([Answer 200 (pa_Action req)], s2)))))"

definition handleReplayAPI :: "relay \<Rightarrow> http_request \<Rightarrow> replay_request option \<Rightarrow> time \<Rightarrow> (nat \<Rightarrow> time) \<Rightarrow> string list \<Rightarrow> pending_request handled" where
  "handleReplayAPI s r body now clk ks =
     with_permission s r ''tunnel:replay'' now (\<lambda>_ s1.
       post_only s1 r (decoded s1 body (\<lambda>req. of_result 202 400 (replayRequest s1 req clk ks))))"

text \<open>The two routes that serve two methods.\<close>

definition handled_as :: "('a \<Rightarrow> 'b) \<Rightarrow> 'a handled \<Rightarrow> 'b handled" where
  "handled_as f h = (map (map_reply f) (fst h), snd h)"

definition handleSessions :: "(webhook_event \<Rightarrow> byte list option) \<Rightarrow> relay \<Rightarrow> http_request \<Rightarrow> create_session_request option \<Rightarrow> time \<Rightarrow>
    (nat \<Rightarrow> time) \<Rightarrow> string list \<Rightarrow> string list \<Rightarrow> (collaboration_session list + collaboration_session) handled" where
  "handleSessions marshal s r body now clk ks1 ks2 =
     (if hr_Method r = ''GET'' then handled_as Inl (handleSessions_get s r now ks1)
      else if hr_Method r = ''POST'' then handled_as Inr (handleSessions_post marshal s r body now clk ks1 ks2)
      else ([Failed 405 ''method not allowed''], s))"

definition handleBreakpoints :: "relay \<Rightarrow> http_request \<Rightarrow> create_breakpoint_request option \<Rightarrow> time \<Rightarrow> (nat \<Rightarrow> time) \<Rightarrow> string list \<Rightarrow>
    (breakpoint list + breakpoint) handled" where
  "handleBreakpoints s r body now clk ks =
     (if hr_Method r = ''GET'' then handled_as Inl (handleBreakpoints_get s r now ks)
      else if hr_Method r = ''POST'' then handled_as Inr (handleBreakpoints_post s r body now clk)
      else ([Failed 405 ''method not allowed''], s))"

text \<open>
  The event stream: a viewer subscribes with a new channel and is sent the history, oldest first; later it
  receives what its channel holds; when it leaves, its channel is removed under the lock and then closed.
\<close>

definition handleDashboardEvents_open :: "(permission list \<Rightarrow> permission list) \<Rightarrow> relay \<Rightarrow> http_request \<Rightarrow> time \<Rightarrow> bool \<Rightarrow>
    (nat \<times> string) list \<times> (nat \<times> stream_event list) option \<times> relay" where
  "handleDashboardEvents_open ord s r now can_flush =
     (case authorizeDashboard ord s r now of
        (ws, None, s1) \<Rightarrow> (ws, None, s1)
      | (ws, Some _, s1) \<Rightarrow>
          if \<not> can_flush then (ws @ [(500, ''streaming unsupported'')], None, s1)
          else let c = next_cell s1
               in (ws, Some (c, rev (events s1)),
                   s1\<lparr>next_cell := c + 1, event_chan := (event_chan s1)(c := []), subscribers := subscribers s1 @ [c]\<rparr>))"

definition events_receive :: "relay \<Rightarrow> nat \<Rightarrow> (stream_event \<times> relay) option" where
  "events_receive s c =
     (case event_chan s c of
        [] \<Rightarrow> None
      | e # es \<Rightarrow> Some (e, s\<lparr>event_chan := (event_chan s)(c := es)\<rparr>))"

definition events_leave :: "relay \<Rightarrow> nat \<Rightarrow> relay" where
  "events_leave s c = s\<lparr>subscribers := filter (\<lambda>x. x \<noteq> c) (subscribers s)\<rparr>"

definition events_close :: "relay \<Rightarrow> nat \<Rightarrow> relay" where
  "events_close s c = s\<lparr>event_closed := insert c (event_closed s)\<rparr>"

text \<open>One event in the wire format of server-sent events; \<open>data\<close> is its JSON.\<close>

definition writeSSE :: "(stream_event \<Rightarrow> string) \<Rightarrow> stream_event \<Rightarrow> string" where
  "writeSSE json event = ''event: '' @ se_Type event @ [CHR 0x0A] @ ''data: '' @ json event @ [CHR 0x0A, CHR 0x0A]"

end
