(* ===== verification/Relay_Server.thy ===== *)
theory Relay_Server
  imports Relay_Debug
begin

section \<open>The relay: tunnels and requests\<close>

text \<open>
  Model of the tunnel side of \<open>relay/server.go\<close> and of \<open>relay/phase3.go\<close>. A visitor's request passes through several
  steps, between which other handlers run: it begins (\<open>tunnel_begin\<close>: policies, routing, registration, breakpoints),
  may be paused (\<open>tunnel_resume\<close>), is handed to the client (\<open>tunnel_forward\<close>) and waits for the answer
  (\<open>tunnel_finish\<close>). A wait ends by a receive, which needs something to receive, or by a timeout, or because
  the visitor has gone; a step that would still be waiting is \<open>None\<close>.
\<close>

subsection \<open>Clients\<close>

record register_response =
  rg_ClientID :: string
  rg_Lease :: lease
  TCPPort :: int
  QUICAddr :: string
  ReconnectToken :: string

text \<open>What the broker answers to a lease lookup.\<close>

datatype lease_answer = Lease_Unreachable | Lease_Refused | Lease_Undecodable | Lease_Found lease

definition fetchLease :: "relay \<Rightarrow> lease_answer \<Rightarrow> lease option" where
  "fetchLease s answer =
     (case answer of
        Lease_Found l \<Rightarrow>
          Some (if DebugURL l = [] \<and> rs_publicBase s \<noteq> [] then l\<lparr>DebugURL := rs_publicBase s @ ''/t/'' @ Subdomain l\<rparr> else l)
      | _ \<Rightarrow> None)"

text \<open>\<open>listen\<close> is the port the operating system gives a new listener, \<open>None\<close> an error.\<close>

definition ensureTCPTunnelListener :: "relay \<Rightarrow> lease \<Rightarrow> string \<Rightarrow> int option \<Rightarrow> int option \<times> relay" where
  "ensureTCPTunnelListener s l clientID listen =
     (case fmlookup (listeners (tcp s)) (le_ID l) of
        Some port \<Rightarrow> (Some port, s)
      | None \<Rightarrow>
          (case listen of
             None \<Rightarrow> (None, s)
           | Some port \<Rightarrow>
               (Some port, s\<lparr>next_cell := next_cell s + 1,
                  tcp := (tcp s)\<lparr>listeners := fmupd (le_ID l) port (listeners (tcp s)),
                                 tcp_queues := fmupd clientID (next_cell s) (tcp_queues (tcp s)),
                                 tcp_chans := (tcp_chans (tcp s))(next_cell s := [])\<rparr>\<rparr>)))"

definition ensureUDPTunnelListener :: "relay \<Rightarrow> lease \<Rightarrow> string \<Rightarrow> int option \<Rightarrow> int option \<times> relay" where
  "ensureUDPTunnelListener s l clientID listen =
     (case fmlookup (sockets (udp s)) (le_ID l) of
        Some port \<Rightarrow> (Some port, s)
      | None \<Rightarrow>
          (case listen of
             None \<Rightarrow> (None, s)
           | Some port \<Rightarrow>
               (Some port, s\<lparr>next_cell := next_cell s + 1,
                  udp := (udp s)\<lparr>sockets := fmupd (le_ID l) port (sockets (udp s)),
                                 udp_queues := fmupd clientID (next_cell s) (udp_queues (udp s)),
                                 udp_chans := (udp_chans (udp s))(next_cell s := [])\<rparr>\<rparr>)))"

text \<open>
  The certificate of a custom domain: \<open>manager\<close> is \<open>None\<close> without a certificate manager, otherwise whether it
  has the certificate already and whether it can issue one.
\<close>

definition mark_issued :: "string \<Rightarrow> (string, lease) fmap \<Rightarrow> (string, lease) fmap" where
  "mark_issued key ts = (case fmlookup ts key of None \<Rightarrow> ts | Some l \<Rightarrow> fmupd key (l\<lparr>IssuedTLS := True\<rparr>) ts)"

definition ensureManagedCertificate :: "relay \<Rightarrow> lease \<Rightarrow> (bool \<times> bool) option \<Rightarrow> relay" where
  "ensureManagedCertificate s l manager =
     (case manager of
        None \<Rightarrow> s
      | Some (present, issued) \<Rightarrow>
          if CustomDomain l = [] then s
          else if present then s
          else if issued then s\<lparr>tunnels := mark_issued (CustomDomain l) (mark_issued (Subdomain l) (tunnels s))\<rparr>
          else s)"

definition add_client :: "relay \<Rightarrow> lease \<Rightarrow> string \<Rightarrow> string \<Rightarrow> relay" where
  "add_client s l clientID token =
     (let c = next_cell s; ts = fmupd (Subdomain l) l (tunnels s)
      in s\<lparr>next_cell := c + 1,
           client_at := (client_at s)(c := \<lparr>c_ID = clientID, c_TunnelID = le_ID l, Queue = [], QUICSend = [], QUICUp = False\<rparr>),
           clients := fmupd clientID c (clients s),
           tunnels := (if CustomDomain l = [] then ts else fmupd (CustomDomain l) l ts),
           reconnectTokens := fmupd token clientID (reconnectTokens s)\<rparr>)"

definition handleRegisterClient :: "(webhook_event \<Rightarrow> byte list option) \<Rightarrow> relay \<Rightarrow> http_request \<Rightarrow> string option \<Rightarrow> (string \<Rightarrow> lease_answer) \<Rightarrow>
    int option \<Rightarrow> (bool \<times> bool) option \<Rightarrow> (nat \<Rightarrow> time) \<Rightarrow> register_response handled" where
  "handleRegisterClient marshal s r body broker listen manager clk =
     (if hr_Method r \<noteq> ''POST'' then ([Failed 405 ''method not allowed''], s)
      else case body of
        None \<Rightarrow> ([Failed 400 ''decode request''], s)
      | Some leaseID \<Rightarrow>
          (case fetchLease s (broker leaseID) of
             None \<Rightarrow> ([Failed 502 ''fetch lease''], s)
           | Some l \<Rightarrow>
               let clientID = ''client-'' @ dec (clk 0);
                   token = ''reconnect-'' @ dec (clk 1);
                   s1 = add_client s l clientID token;
                   (port, s2) = (if le_Protocol l = ''tcp''
                                 then (case ensureTCPTunnelListener s1 l clientID listen of (Some p, s') \<Rightarrow> (p, s') | (None, s') \<Rightarrow> (0, s'))
                                 else (0, s1));
                   (port, s3) = (if le_Protocol l = ''udp''
                                 then (case ensureUDPTunnelListener s2 l clientID listen of (Some p, s') \<Rightarrow> (p, s') | (None, s') \<Rightarrow> (port, s'))
                                 else (port, s2));
                   s4 = inc_metric s3 ''gotunnel_relay_tunnel_registrations_total'';
                   s5 = emitEvent s4 ''tunnel_registered'' ''Tunnel registered with relay'' (le_ID l) [] [] (P_Lease l) (clk 2) (clk 3);
                   s6 = dispatchWebhook marshal s5 ''tunnel_registered'' (P_Lease l) (clk 4);
                   s7 = (if CustomDomain l \<noteq> [] \<and> HTTPSMode l = ''auto'' then ensureManagedCertificate s6 l manager else s6)
               in ([Answer 201 \<lparr>rg_ClientID = clientID, rg_Lease = l, TCPPort = port,
                     QUICAddr = (if HasPrefix (quicAddr s) '':'' then ''127.0.0.1'' @ quicAddr s else quicAddr s),
                     ReconnectToken = token\<rparr>], s7)))"

datatype wait_end = Received | Timed_Out | Visitor_Gone

definition handleNextRequest :: "relay \<Rightarrow> http_request \<Rightarrow> wait_end \<Rightarrow> pending_request handled option" where
  "handleNextRequest s r ending =
     (if hr_Method r \<noteq> ''GET'' then Some ([Failed 405 ''method not allowed''], s)
      else case fmlookup (clients s) (hr_Query r ''client_id'') of
        None \<Rightarrow> Some ([Failed 404 ''client not found''], s)
      | Some c \<Rightarrow>
          (case ending of
             Received \<Rightarrow>
               (case Queue (client_at s c) of
                  [] \<Rightarrow> None
                | p # ps \<Rightarrow> Some ([Answer 200 p], inc_metric (s\<lparr>client_at := (client_at s)(c := (client_at s c)\<lparr>Queue := ps\<rparr>)\<rparr>)
                                    ''gotunnel_relay_client_polls_delivered_total''))
           | Timed_Out \<Rightarrow> Some ([Status 204], s)
           | Visitor_Gone \<Rightarrow> Some ([Status 408], s)))"

text \<open>An answer channel holds one answer.\<close>

definition put_response :: "relay \<Rightarrow> nat \<Rightarrow> submit_response \<Rightarrow> bool \<times> relay" where
  "put_response s ch resp =
     (if length (response_chan s ch) < 1
      then (True, s\<lparr>response_chan := (response_chan s)(ch := response_chan s ch @ [resp])\<rparr>)
      else (False, s))"

definition handleSubmitResponse :: "relay \<Rightarrow> http_request \<Rightarrow> submit_response option \<Rightarrow> unit handled" where
  "handleSubmitResponse s r body =
     (if hr_Method r \<noteq> ''POST'' then ([Failed 405 ''method not allowed''], s)
      else case body of
        None \<Rightarrow> ([Failed 400 ''decode response''], s)
      | Some resp \<Rightarrow>
          (case fmlookup (requests s) (sr_RequestID resp) of
             None \<Rightarrow> ([Failed 404 ''request not found''], s)
           | Some (_, ch) \<Rightarrow>
               (case put_response s ch resp of
                  (True, s1) \<Rightarrow> ([Answer 202 ()], s1)
                | (False, s1) \<Rightarrow> ([Failed 409 ''response channel unavailable''], s1))))"

subsection \<open>Requests of visitors\<close>

text \<open>The request of a visitor inside the relay: what its handler keeps between its steps.\<close>

record in_flight =
  fl_pending :: pending_request
  fl_client :: nat
  fl_chan :: nat
  fl_action :: "nat option"
  fl_start :: time

datatype outcome = Finished "submit_response reply list" | Paused in_flight | Ready in_flight

definition relay_rate_limit :: rate_limit_policy where
  "relay_rate_limit = \<lparr>RequestsPerSecond = 100, BurstSize = 200, WindowSize = second_ns, KeyField = ''ip''\<rparr>"

definition pass_policies :: "relay \<Rightarrow> http_request \<Rightarrow> (nat \<Rightarrow> time) \<Rightarrow> (nat \<times> string) option \<times> relay" where
  "pass_policies s r clk =
     (case EnforceNetworkPolicy (rs_enforcer s) (RemoteAddr r) (clk 0) of
        (Some e, en) \<Rightarrow> (Some (403, ''network policy''), s\<lparr>rs_enforcer := en\<rparr>)
      | (None, en) \<Rightarrow>
          (case (case hr_TLS r of None \<Rightarrow> (None, en) | Some st \<Rightarrow> EnforceTLSPolicy en (Some st) (clk 1)) of
             (Some e, en2) \<Rightarrow> (Some (426, ''tls policy''), s\<lparr>rs_enforcer := en2\<rparr>)
           | (None, en2) \<Rightarrow>
               (case EnforceRateLimit en2 relay_rate_limit (RemoteAddr r) (clk 2) (clk 3) of
                  (False, en3) \<Rightarrow> (Some (429, ''rate limit''), s\<lparr>rs_enforcer := en3\<rparr>)
                | (True, en3) \<Rightarrow> (None, s\<lparr>rs_enforcer := en3\<rparr>))))"

definition make_pending :: "http_request \<Rightarrow> lease \<Rightarrow> string \<Rightarrow> string \<Rightarrow> byte list \<Rightarrow> (nat \<Rightarrow> time) \<Rightarrow> pending_request" where
  "make_pending r l subdomain path body clk =
     \<lparr>pr_ID = ''req-'' @ dec (clk 4), pr_TunnelID = le_ID l, pr_Subdomain = subdomain, pr_Method = hr_Method r, pr_Path = path,
      pr_Query = hr_RawQuery r, pr_Headers = hr_Headers r, pr_Body = body, pr_ReceivedAt = clk 5,
      pr_ContentType = header_get (hr_Headers r) ''Content-Type''\<rparr>"

text \<open>Registering the request and, when a breakpoint matches, pausing it.\<close>

definition register_request :: "relay \<Rightarrow> pending_request \<Rightarrow> nat \<times> relay" where
  "register_request s p =
     (let ch = next_cell s
      in (ch, s\<lparr>next_cell := ch + 1, response_chan := (response_chan s)(ch := []), requests := fmupd (pr_ID p) (p, ch) (requests s)\<rparr>))"

definition pause_request :: "relay \<Rightarrow> in_flight \<Rightarrow> breakpoint \<Rightarrow> (nat \<Rightarrow> time) \<Rightarrow> string list \<Rightarrow> outcome \<times> relay" where
  "pause_request s fl bp clk ks =
     (let ch = next_cell s;
          p = newPausedState ch (fl_pending fl) (bp_ID bp) (clk 7);
          s1 = storePausedRequest (s\<lparr>next_cell := ch + 1, action_chan := (action_chan s)(ch := [])\<rparr>) p;
          s2 = emitEvent s1 ''request_paused'' ''Request paused by breakpoint'' (pr_TunnelID (fl_pending fl)) (pr_ID (fl_pending fl)) []
                 (P_Paused (pausedSnapshot p (findSessionsForTunnel s1 (pr_TunnelID (fl_pending fl)) ks))) (clk 8) (clk 9)
      in (Paused (fl\<lparr>fl_action := Some ch\<rparr>), s2))"

text \<open>\<open>io.LimitReader\<close> cuts the body after two megabytes.\<close>

abbreviation max_body :: nat where "max_body \<equiv> 2097152"

definition tunnel_begin :: "relay \<Rightarrow> http_request \<Rightarrow> string \<Rightarrow> string \<Rightarrow> (nat \<Rightarrow> time) \<Rightarrow> string list \<Rightarrow> string list \<Rightarrow> outcome \<times> relay" where
  "tunnel_begin s r subdomain path clk ks1 ks2 =
     (case pass_policies s r clk of
        (Some (n, t), s1) \<Rightarrow> (Finished [Failed n t], s1)
      | (None, s1) \<Rightarrow>
          (case fmlookup (tunnels s1) subdomain of
             None \<Rightarrow> (Finished [Failed 404 ''tunnel not found''], s1)
           | Some l \<Rightarrow>
               (case findClientByTunnelID s1 (le_ID l) ks1 of
                  None \<Rightarrow> (Finished [Failed 502 ''tunnel client is offline''], s1)
                | Some c \<Rightarrow>
                    (case hr_Body r of
                       None \<Rightarrow> (Finished [Failed 400 ''read body''], s1)
                     | Some body \<Rightarrow>
                         let p = make_pending r l subdomain path (take max_body body) clk;
                             (ch, s2) = register_request s1 p;
                             fl = \<lparr>fl_pending = p, fl_client = c, fl_chan = ch, fl_action = None, fl_start = clk 6\<rparr>
                         in (case matchBreakpoint s2 p of
                               Some bp \<Rightarrow> pause_request s2 fl bp clk ks2
                             | None \<Rightarrow> (Ready fl, s2))))))"

definition request_log_of :: "pending_request \<Rightarrow> int \<Rightarrow> log_duration \<Rightarrow> time \<Rightarrow> string \<Rightarrow> request_log" where
  "request_log_of p code dur completed err =
     \<lparr>rl_RequestID = pr_ID p, rl_TunnelID = pr_TunnelID p, rl_Subdomain = pr_Subdomain p, rl_Method = pr_Method p, rl_Path = pr_Path p,
      rl_StatusCode = code, rl_Duration = dur, rl_ReceivedAt = pr_ReceivedAt p, rl_CompletedAt = completed, rl_ResponseError = err\<rparr>"

definition tunnel_resume :: "relay \<Rightarrow> in_flight \<Rightarrow> wait_end \<Rightarrow> time \<Rightarrow> (outcome \<times> relay) option" where
  "tunnel_resume s fl ending now =
     (case fl_action fl of
        None \<Rightarrow> None
      | Some ch \<Rightarrow>
          (case ending of
             Received \<Rightarrow>
               (case action_chan s ch of
                  [] \<Rightarrow> None
                | a # as \<Rightarrow>
                    let s1 = deletePausedRequest (s\<lparr>action_chan := (action_chan s)(ch := as)\<rparr>) (pr_ID (fl_pending fl))
                    in Some (if a = ''discard''
                             then (Finished [Status 204],
                                   recordRequest s1 (request_log_of (fl_pending fl) 204 Discarded now ''discarded by debugger''))
                             else (Ready fl, s1)))
           | Timed_Out \<Rightarrow> Some (Finished [Failed 408 ''paused request expired''], deletePausedRequest s (pr_ID (fl_pending fl)))
           | Visitor_Gone \<Rightarrow> Some (Finished [], deletePausedRequest s (pr_ID (fl_pending fl)))))"

definition tunnel_forward :: "relay \<Rightarrow> in_flight \<Rightarrow> time \<Rightarrow> time \<Rightarrow> submit_response reply list option \<times> relay" where
  "tunnel_forward s fl t1 t2 =
     (case sendHTTPToClient s (fl_client fl) (fl_pending fl) of
        (False, s1) \<Rightarrow> (Some [Failed 503 ''tunnel queue is full''], inc_metric s1 ''gotunnel_relay_queue_full_total'')
      | (True, s1) \<Rightarrow>
          (None, emitEvent (inc_metric s1 ''gotunnel_relay_requests_forwarded_total'') ''request_forwarded'' ''Request forwarded to local client''
             (pr_TunnelID (fl_pending fl)) (pr_ID (fl_pending fl)) [] (P_Pending (fl_pending fl)) t1 t2))"

definition validate_or_keep :: "validator option \<Rightarrow> relay \<Rightarrow> relay" where
  "validate_or_keep v s = (case v of None \<Rightarrow> s | Some v' \<Rightarrow> s\<lparr>rs_nfrValidator := v'\<rparr>)"

text \<open>
  The status 0 of an answer becomes 502. \<open>WriteHeader\<close> panics on a status outside 100 to 999, and an
  informational one is followed by 200.
\<close>

definition visitor_status :: "int \<Rightarrow> nat" where
  "visitor_status code = (if code < 200 \<and> code \<noteq> 101 then 200 else nat code)"

definition tunnel_finish :: "relay \<Rightarrow> in_flight \<Rightarrow> wait_end \<Rightarrow> (nat \<Rightarrow> time) \<Rightarrow> (submit_response reply list \<times> relay) option" where
  "tunnel_finish s fl ending clk =
     (case ending of
        Received \<Rightarrow>
          (case response_chan s (fl_chan fl) of
             [] \<Rightarrow> None
           | resp # rest \<Rightarrow>
               let result = (if sr_StatusCode resp = 0 then resp\<lparr>sr_StatusCode := 502\<rparr> else resp);
                   s0 = s\<lparr>response_chan := (response_chan s)(fl_chan fl := rest)\<rparr>;
                   s1 = recordRequest s0
                          (request_log_of (fl_pending fl) (sr_StatusCode result) (Took (time_sub (clk 0) (fl_start fl))) (clk 1) (sr_Error result));
                   s2 = validate_or_keep (ValidateLatency (rs_nfrValidator s1) ''relay_latency_p99'' (time_sub (clk 2) (fl_start fl)) (clk 3) (clk 4)) s1;
                   s3 = validate_or_keep (ValidateScalability (rs_nfrValidator s2) ''relay_concurrent_tunnels'' (int (fcard (fmdom (tunnels s2)))) (clk 5) (clk 6)) s2
               in if sr_StatusCode result < 100 \<or> 999 < sr_StatusCode result then Some ([Aborted], s0)
                  else Some ([Answer (visitor_status (sr_StatusCode result)) result], s3))
      | Timed_Out \<Rightarrow>
          let s1 = recordRequest s (request_log_of (fl_pending fl) 504 (Took (time_sub (clk 0) (fl_start fl))) (clk 1) [])
          in Some ([Failed 504 ''client did not respond in time''],
                   validate_or_keep (ValidateLatency (rs_nfrValidator s1) ''relay_latency_p99'' (30 * second_ns) (clk 2) (clk 3)) s1)
      | Visitor_Gone \<Rightarrow> None)"

text \<open>The two ways in: under the path \<open>/t/\<close> and by host name.\<close>

definition debug_target :: "string \<Rightarrow> (string \<times> string) option" where
  "debug_target path =
     (let trimmed = TrimPrefix path ''/t/'';
          sub = takeWhile (\<lambda>c. c \<noteq> CHR ''/'') trimmed;
          rest = dropWhile (\<lambda>c. c \<noteq> CHR ''/'') trimmed
      in if sub = [] then None else Some (sub, if rest = [] then ''/'' else rest))"

definition handleDebugIngress :: "relay \<Rightarrow> http_request \<Rightarrow> (nat \<Rightarrow> time) \<Rightarrow> string list \<Rightarrow> string list \<Rightarrow> outcome \<times> relay" where
  "handleDebugIngress s r clk ks1 ks2 =
     (case debug_target (hr_Path r) of
        None \<Rightarrow> (Finished [Failed 400 ''missing subdomain''], s)
      | Some (sub, path) \<Rightarrow> tunnel_begin s r sub path clk ks1 ks2)"

definition host_name :: "string \<Rightarrow> string" where
  "host_name host = (case index_of CHR '':'' host of Some i \<Rightarrow> if i > 0 then take i host else host | None \<Rightarrow> host)"

definition handleHostIngress :: "relay \<Rightarrow> http_request \<Rightarrow> (nat \<Rightarrow> time) \<Rightarrow> string list \<Rightarrow> string list \<Rightarrow> outcome \<times> relay" where
  "handleHostIngress s r clk ks1 ks2 =
     (if HasPrefix (hr_Path r) ''/v1/'' \<or> HasPrefix (hr_Path r) ''/dashboard'' \<or> HasPrefix (hr_Path r) ''/healthz''
      then (Finished [Failed 404 ''404 page not found''], s)
      else let host = host_name (hr_Host r)
           in if \<not> HasSuffix host ''.gotunnel.local''
              then (if fmlookup (tunnels s) host = None then (Finished [Failed 404 ''404 page not found''], s)
                    else tunnel_begin s r host (hr_Path r) clk ks1 ks2)
              else tunnel_begin s r (TrimSuffix host ''.gotunnel.local'') (hr_Path r) clk ks1 ks2)"

subsection \<open>The dashboard\<close>

record tunnel_snapshot =
  ts_ID :: string
  ts_Name :: string
  ts_Subdomain :: string
  ts_PublicHost :: string
  ts_DebugURL :: string
  Connected :: bool
  ts_Protocol :: string
  ts_Inspection :: bool
  ts_IssuedTLS :: bool
  StartedAt :: time
  LastRequestAt :: time

record dashboard_snapshot =
  ds_Tunnels :: "tunnel_snapshot list"
  ds_Requests :: "request_log list"
  ds_Sessions :: "collaboration_session list"
  ds_Paused :: "paused_request_snapshot list"
  ds_Breakpoints :: "breakpoint list"
  ds_Events :: "stream_event list"

text \<open>The orders in which the maps are visited.\<close>

record visit_orders =
  vo_tunnels :: "string list"
  vo_clients :: "string list"
  vo_sessions :: "string list"
  vo_paused :: "string list"
  vo_breakpoints :: "string list"

definition hasClientLocked :: "relay \<Rightarrow> string \<Rightarrow> string list \<Rightarrow> bool" where
  "hasClientLocked s tunnelID ks \<longleftrightarrow> findClientByTunnelID s tunnelID ks \<noteq> None"

definition last_request :: "request_log list \<Rightarrow> string \<Rightarrow> time" where
  "last_request logs tunnelID = (case find (\<lambda>l. rl_TunnelID l = tunnelID) logs of Some l \<Rightarrow> rl_ReceivedAt l | None \<Rightarrow> zero_time)"

definition tunnel_entry :: "relay \<Rightarrow> visit_orders \<Rightarrow> lease \<Rightarrow> tunnel_snapshot" where
  "tunnel_entry s vo l =
     \<lparr>ts_ID = le_ID l, ts_Name = le_Name l, ts_Subdomain = Subdomain l, ts_PublicHost = PublicHost l, ts_DebugURL = DebugURL l,
      Connected = hasClientLocked s (le_ID l) (vo_clients vo), ts_Protocol = le_Protocol l, ts_Inspection = Inspection l,
      ts_IssuedTLS = IssuedTLS l, StartedAt = le_CreatedAt l, LastRequestAt = last_request (requestLog s) (le_ID l)\<rparr>"

definition snapshot :: "relay \<Rightarrow> visit_orders \<Rightarrow> dashboard_snapshot" where
  "snapshot s vo =
     \<lparr>ds_Tunnels = sort_Slice (\<lambda>a b. StartedAt a > StartedAt b)
        (map (tunnel_entry s vo) (List.map_filter (fmlookup (tunnels s)) (vo_tunnels vo))),
      ds_Requests = requestLog s, ds_Sessions = listSessions s (vo_sessions vo),
      ds_Paused = listPausedRequests s (vo_paused vo) (vo_sessions vo), ds_Breakpoints = listBreakpoints s (vo_breakpoints vo),
      ds_Events = events s\<rparr>"

definition handleListTunnels :: "relay \<Rightarrow> http_request \<Rightarrow> time \<Rightarrow> visit_orders \<Rightarrow> dashboard_snapshot handled" where
  "handleListTunnels s r now vo =
     with_permission s r ''dashboard:access'' now (\<lambda>_ s1.
       if hr_Method r \<noteq> ''GET'' then ([Failed 405 ''method not allowed''], s1) else ([Answer 200 (snapshot s1 vo)], s1))"

text \<open>The page is the template applied to the snapshot.\<close>

definition handleDashboard :: "(permission list \<Rightarrow> permission list) \<Rightarrow> relay \<Rightarrow> http_request \<Rightarrow> time \<Rightarrow> visit_orders \<Rightarrow> dashboard_snapshot handled" where
  "handleDashboard ord s r now vo =
     (case authorizeDashboard ord s r now of
        (ws, None, s1) \<Rightarrow> (failed ws, s1)
      | (ws, Some _, s1) \<Rightarrow> (failed ws @ [Answer 200 (snapshot s1 vo)], s1))"

definition handleReplay :: "relay \<Rightarrow> http_request \<Rightarrow> time \<Rightarrow> (nat \<Rightarrow> time) \<Rightarrow> string list \<Rightarrow> unit handled" where
  "handleReplay s r now clk ks =
     post_only s r (with_permission s r ''tunnel:replay'' now (\<lambda>_ s1.
       (case replayRequest s1 \<lparr>rp_RequestID = hr_Query r ''id'', rp_Actor = ''dashboard'', rp_Path = [], rp_Body = [], rp_Headers = fmempty\<rparr> clk ks of
          (Inl e, s2) \<Rightarrow> ([Failed 400 ''request refused''], s2)
        | (Inr p, s2) \<Rightarrow> ([Redirected 303 ''/dashboard''], s2))))"

definition handleRelayAuditExport :: "relay \<Rightarrow> http_request \<Rightarrow> time \<Rightarrow> visit_orders \<Rightarrow> time \<Rightarrow> (time \<times> dashboard_snapshot) handled" where
  "handleRelayAuditExport s r now vo t =
     with_permission s r ''audit:export'' now (\<lambda>_ s1.
       if hr_Method r \<noteq> ''GET'' then ([Failed 405 ''method not allowed''], s1)
       else ([Answer 200 (t, (snapshot s1 vo)\<lparr>ds_Paused := []\<rparr>)], s1))"

subsection \<open>Registration at the broker\<close>

definition inferRelayURL :: "relay \<Rightarrow> string" where
  "inferRelayURL s =
     (if rs_publicBase s \<noteq> [] then TrimRightSlash (rs_publicBase s)
      else if HasPrefix (rs_addr s) '':'' then ''http://127.0.0.1'' @ rs_addr s
      else ''http://'' @ rs_addr s)"

definition registration_request :: "relay \<Rightarrow> relay_registration_request" where
  "registration_request s =
     \<lparr>rq_relay_ID = relayID s,
      rq_relay_Name = localFirstNonEmpty [TrimSpace (relayName s), ''relay-'' @ dropWhile (\<lambda>c. c = CHR '':'') (rs_addr s)],
      rq_relay_Region = localFirstNonEmpty [TrimSpace (relayRegion s), ''local''], rq_relay_URL = inferRelayURL s,
      rq_PublicBase = rs_publicBase s, rq_Capacity = rs_capacity s, rq_Features = FeatureNames (plugins s)\<rparr>"

text \<open>\<open>post\<close> is what the broker answers: a registration when it answers 201 with one.\<close>

definition registerRelay :: "relay \<Rightarrow> (relay_registration_request \<Rightarrow> relay_registration option) \<Rightarrow> relay" where
  "registerRelay s post =
     (if rs_brokerURL s = [] then s
      else case post (registration_request s) of None \<Rightarrow> s | Some reg \<Rightarrow> s\<lparr>relayID := rr_ID reg\<rparr>)"

text \<open>The heartbeat that is sent, if one is.\<close>

definition sendHeartbeat_relay :: "relay \<Rightarrow> relay_heartbeat_request option" where
  "sendHeartbeat_relay s =
     (if relayID s = [] \<or> rs_brokerURL s = [] then None
      else Some \<lparr>hb_ID = relayID s, hb_AssignedTunnels = int (fcard (fmdom (tunnels s)))\<rparr>)"

subsection \<open>Tasks\<close>

text \<open>A goroutine started earlier runs from beginning to end.\<close>

definition run_task :: "(webhook_event \<Rightarrow> byte list option) \<Rightarrow> relay \<Rightarrow> relay_task \<Rightarrow> time \<Rightarrow> time \<Rightarrow> relay" where
  "run_task marshal s t t1 t2 =
     (case t of
        Task_Emit kind message tunnelID requestID sessionID payload \<Rightarrow> emitEvent s kind message tunnelID requestID sessionID payload t1 t2
      | Task_Webhook eventType payload \<Rightarrow> dispatchWebhook marshal s eventType payload t1
      | Task_Deliver data signature \<Rightarrow> s)"

end
