(* ===== verification/Relay_Streams.thy ===== *)
theory Relay_Streams
  imports Relay_Server
begin

section \<open>The relay: TCP, UDP and QUIC\<close>

text \<open>
  Model of \<open>relay/tcp.go\<close>, \<open>relay/udp.go\<close> and \<open>relay/quic.go\<close>, whose listeners the registration of a client opens.
  Each turn of a goroutine's loop is one step: a connection or a datagram arrives, bytes are read, a message is
  sent over QUIC. A send to a full channel blocks: such a step is \<open>None\<close>. The results of writing
  to sockets and streams are arguments.
\<close>

subsection \<open>TCP\<close>

definition findClientByID :: "relay \<Rightarrow> string \<Rightarrow> nat option" where
  "findClientByID s clientID = fmlookup (clients s) clientID"

text \<open>The message goes over QUIC when that is up and has room, otherwise into the queue of 256 events.\<close>

definition try_quic :: "relay \<Rightarrow> string \<Rightarrow> control_message \<Rightarrow> relay option" where
  "try_quic s clientID msg =
     (case findClientByID s clientID of
        None \<Rightarrow> None
      | Some c \<Rightarrow>
          if QUICUp (client_at s c)
          then (case send_quic s c msg of (True, s1) \<Rightarrow> Some s1 | (False, _) \<Rightarrow> None)
          else None)"

definition sendTCPEventToClient :: "relay \<Rightarrow> string \<Rightarrow> nat \<Rightarrow> tcp_event \<Rightarrow> relay option" where
  "sendTCPEventToClient s clientID queue event =
     (case try_quic s clientID (Msg_TCP_Event ''tcp_event'' clientID event) of
        Some s1 \<Rightarrow> Some s1
      | None \<Rightarrow>
          if length (tcp_chans (tcp s) queue) < 256
          then Some (s\<lparr>tcp := (tcp s)\<lparr>tcp_chans := (tcp_chans (tcp s))(queue := tcp_chans (tcp s) queue @ [event])\<rparr>\<rparr>)
          else None)"

text \<open>A turn of \<open>acceptTCPConnections\<close>: the new connection is recorded, then announced.\<close>

definition accept_conn :: "relay \<Rightarrow> time \<Rightarrow> string \<times> relay" where
  "accept_conn s now =
     (let connectionID = ''tcp-'' @ dec now
      in (connectionID, s\<lparr>next_cell := next_cell s + 1,
            tcp := (tcp s)\<lparr>conns := fmupd connectionID (next_cell s) (conns (tcp s))\<rparr>\<rparr>))"

definition acceptTCPConnections :: "relay \<Rightarrow> lease \<Rightarrow> string \<Rightarrow> nat \<Rightarrow> time \<Rightarrow> relay option" where
  "acceptTCPConnections s l clientID queue now =
     (let (connectionID, s1) = accept_conn s now
      in sendTCPEventToClient s1 clientID queue
           \<lparr>te_Type = ''open'', te_ConnectionID = connectionID, te_TunnelID = le_ID l, te_Payload = []\<rparr>)"

definition closeTCPPublicConn :: "relay \<Rightarrow> string \<Rightarrow> relay" where
  "closeTCPPublicConn s connectionID =
     (case fmlookup (conns (tcp s)) connectionID of
        None \<Rightarrow> s
      | Some c \<Rightarrow> s\<lparr>tcp := (tcp s)\<lparr>conns := fmdrop connectionID (conns (tcp s)), conn_closed := insert c (conn_closed (tcp s))\<rparr>\<rparr>)"

text \<open>A turn of \<open>readPublicTCP\<close>: what \<open>Read\<close> returned, and whether with an error, which ends the loop.\<close>

definition readPublicTCP :: "relay \<Rightarrow> string \<Rightarrow> string \<Rightarrow> string \<Rightarrow> nat \<Rightarrow> byte list \<Rightarrow> bool \<Rightarrow> relay option" where
  "readPublicTCP s clientID connectionID tunnelID queue data err =
     (case (if data \<noteq> [] then sendTCPEventToClient s clientID queue
                \<lparr>te_Type = ''data'', te_ConnectionID = connectionID, te_TunnelID = tunnelID, te_Payload = data\<rparr>
            else Some s) of
        None \<Rightarrow> None
      | Some s1 \<Rightarrow>
          if err
          then map_option (\<lambda>s2. closeTCPPublicConn s2 connectionID)
                 (sendTCPEventToClient s1 clientID queue
                    \<lparr>te_Type = ''close'', te_ConnectionID = connectionID, te_TunnelID = tunnelID, te_Payload = []\<rparr>)
          else Some s1)"

definition handleNextTCPEvent :: "relay \<Rightarrow> http_request \<Rightarrow> wait_end \<Rightarrow> tcp_event handled option" where
  "handleNextTCPEvent s r ending =
     (case fmlookup (tcp_queues (tcp s)) (hr_Query r ''client_id'') of
        None \<Rightarrow> Some ([Status 204], s)
      | Some q \<Rightarrow>
          (case ending of
             Received \<Rightarrow>
               (case tcp_chans (tcp s) q of
                  [] \<Rightarrow> None
                | e # es \<Rightarrow> Some ([Answer 200 e], inc_metric (s\<lparr>tcp := (tcp s)\<lparr>tcp_chans := (tcp_chans (tcp s))(q := es)\<rparr>\<rparr>)
                                    ''gotunnel_relay_tcp_events_delivered_total''))
           | Timed_Out \<Rightarrow> Some ([Status 204], s)
           | Visitor_Gone \<Rightarrow> Some ([Status 408], s)))"

definition write_conn :: "relay \<Rightarrow> nat \<Rightarrow> byte list \<Rightarrow> relay" where
  "write_conn s c bs = s\<lparr>tcp := (tcp s)\<lparr>conn_written := (conn_written (tcp s))(c := conn_written (tcp s) c @ bs)\<rparr>\<rparr>"

text \<open>\<open>ok\<close> says whether the write succeeds; one that fails may have written a part, which is not tracked.\<close>

definition handleTCPChunk :: "relay \<Rightarrow> http_request \<Rightarrow> tcp_chunk_request option \<Rightarrow> bool \<Rightarrow> unit handled" where
  "handleTCPChunk s r body ok =
     post_only s r (decoded s body (\<lambda>chunk.
       case fmlookup (conns (tcp s)) (tk_ConnectionID chunk) of
         None \<Rightarrow> ([Failed 404 ''connection not found''], s)
       | Some c \<Rightarrow>
           if tk_Payload chunk \<noteq> [] \<and> \<not> ok then ([Failed 502 ''write''], s)
           else let s1 = write_conn s c (tk_Payload chunk)
                in ([Status 202], if tk_Close chunk then closeTCPPublicConn s1 (tk_ConnectionID chunk) else s1)))"

definition writeTCPChunkToPublic :: "relay \<Rightarrow> tcp_chunk_request \<Rightarrow> bool \<Rightarrow> relay" where
  "writeTCPChunkToPublic s chunk ok =
     (case fmlookup (conns (tcp s)) (tk_ConnectionID chunk) of
        None \<Rightarrow> s
      | Some c \<Rightarrow>
          let s1 = (if ok then write_conn s c (tk_Payload chunk) else s)
          in if tk_Close chunk then closeTCPPublicConn s1 (tk_ConnectionID chunk) else s1)"

subsection \<open>UDP\<close>

definition sendUDPEventToClient :: "relay \<Rightarrow> string \<Rightarrow> nat \<Rightarrow> udp_event \<Rightarrow> relay option" where
  "sendUDPEventToClient s clientID queue event =
     (case try_quic s clientID (Msg_UDP_Event ''udp_event'' clientID event) of
        Some s1 \<Rightarrow> Some s1
      | None \<Rightarrow>
          if length (udp_chans (udp s) queue) < 256
          then Some (s\<lparr>udp := (udp s)\<lparr>udp_chans := (udp_chans (udp s))(queue := udp_chans (udp s) queue @ [event])\<rparr>\<rparr>)
          else None)"

text \<open>A datagram arrives from \<open>peer\<close>; every datagram gets a connection identifier of its own.\<close>

definition readPublicUDP :: "relay \<Rightarrow> lease \<Rightarrow> string \<Rightarrow> nat \<Rightarrow> byte list \<Rightarrow> string \<Rightarrow> time \<Rightarrow> relay option" where
  "readPublicUDP s l clientID queue data peer now =
     (let connectionID = ''udp-'' @ le_ID l @ ''-'' @ dec now;
          s1 = s\<lparr>udp := (udp s)\<lparr>peers := fmupd connectionID peer (peers (udp s))\<rparr>\<rparr>
      in sendUDPEventToClient s1 clientID queue
           \<lparr>ue_Type = ''data'', ue_ConnectionID = connectionID, ue_TunnelID = le_ID l, ue_PeerAddr = peer, ue_Payload = data\<rparr>)"

definition handleNextUDPEvent :: "relay \<Rightarrow> http_request \<Rightarrow> wait_end \<Rightarrow> udp_event handled option" where
  "handleNextUDPEvent s r ending =
     (case fmlookup (udp_queues (udp s)) (hr_Query r ''client_id'') of
        None \<Rightarrow> Some ([Status 204], s)
      | Some q \<Rightarrow>
          (case ending of
             Received \<Rightarrow>
               (case udp_chans (udp s) q of
                  [] \<Rightarrow> None
                | e # es \<Rightarrow> Some ([Answer 200 e], inc_metric (s\<lparr>udp := (udp s)\<lparr>udp_chans := (udp_chans (udp s))(q := es)\<rparr>\<rparr>)
                                    ''gotunnel_relay_udp_events_delivered_total''))
           | Timed_Out \<Rightarrow> Some ([Status 204], s)
           | Visitor_Gone \<Rightarrow> Some ([Status 408], s)))"

text \<open>The loop over the sockets stops at the first one it visits, whichever tunnel that belongs to.\<close>

definition any_socket :: "relay \<Rightarrow> string list \<Rightarrow> int option" where
  "any_socket s ks = (case List.map_filter (fmlookup (sockets (udp s))) ks of [] \<Rightarrow> None | socket # _ \<Rightarrow> Some socket)"

definition write_to :: "relay \<Rightarrow> int \<Rightarrow> string \<Rightarrow> byte list \<Rightarrow> relay" where
  "write_to s socket peer bs = s\<lparr>udp := (udp s)\<lparr>udp_sent := udp_sent (udp s) @ [(socket, peer, bs)]\<rparr>\<rparr>"

definition handleUDPChunk :: "relay \<Rightarrow> http_request \<Rightarrow> udp_chunk_request option \<Rightarrow> string list \<Rightarrow> bool \<Rightarrow> unit handled" where
  "handleUDPChunk s r body ks ok =
     post_only s r (decoded s body (\<lambda>chunk.
       case (any_socket s ks, fmlookup (peers (udp s)) (uk_ConnectionID chunk)) of
         (Some socket, Some peer) \<Rightarrow>
           if uk_Payload chunk = [] then ([Status 202], s)
           else if \<not> ok then ([Failed 502 ''write''], s)
           else ([Status 202], write_to s socket peer (uk_Payload chunk))
       | _ \<Rightarrow> ([Failed 404 ''udp connection not found''], s)))"

definition writeUDPChunkToPublic :: "relay \<Rightarrow> udp_chunk_request \<Rightarrow> string list \<Rightarrow> bool \<Rightarrow> relay" where
  "writeUDPChunkToPublic s chunk ks ok =
     (case (any_socket s ks, fmlookup (peers (udp s)) (uk_ConnectionID chunk)) of
        (Some socket, Some peer) \<Rightarrow> if uk_Payload chunk \<noteq> [] \<and> ok then write_to s socket peer (uk_Payload chunk) else s
      | _ \<Rightarrow> s)"

subsection \<open>QUIC\<close>

definition resolveReconnectToken :: "relay \<Rightarrow> string \<Rightarrow> string" where
  "resolveReconnectToken s token = map_get (reconnectTokens s) token"

text \<open>The first line of a connection: its type, whether it names a session with which client, and a token.\<close>

record hello_message =
  he_Type :: string
  he_Session :: "string option"
  he_ReconnectToken :: string

definition set_quic :: "relay \<Rightarrow> nat \<Rightarrow> bool \<Rightarrow> relay" where
  "set_quic s c up = s\<lparr>client_at := (client_at s)(c := (client_at s c)\<lparr>QUICUp := up\<rparr>)\<rparr>"

text \<open>The start of \<open>handleQUICConn\<close> once a stream is accepted; without a client the connection is closed again.\<close>

definition handleQUICConn_open :: "relay \<Rightarrow> hello_message option \<Rightarrow> nat option \<times> relay" where
  "handleQUICConn_open s hello =
     (let s1 = inc_metric s ''gotunnel_relay_quic_streams_total''
      in case hello of
           None \<Rightarrow> (None, s1)
         | Some h \<Rightarrow>
             (case he_Session h of
                None \<Rightarrow> (None, s1)
              | Some client \<Rightarrow>
                  if he_Type h \<noteq> ''session_open'' then (None, s1)
                  else let resumed = (if he_ReconnectToken h = [] then [] else resolveReconnectToken s1 (he_ReconnectToken h));
                           clientID = (if resumed \<noteq> [] then resumed else client)
                       in (case findClientByID s1 clientID of
                             None \<Rightarrow> (None, s1)
                           | Some c \<Rightarrow> (Some c, set_quic s1 c True))))"

text \<open>
  The goroutine that sends: it takes a message and encodes it to the stream, and ends when that fails. The
  handler itself ends only after this goroutine has, and then marks the client as not connected.
\<close>

definition quic_sender :: "relay \<Rightarrow> nat \<Rightarrow> bool \<Rightarrow> (control_message \<times> bool \<times> relay) option" where
  "quic_sender s c ok =
     (case QUICSend (client_at s c) of
        [] \<Rightarrow> None
      | m # ms \<Rightarrow> Some (m, ok, s\<lparr>client_at := (client_at s)(c := (client_at s c)\<lparr>QUICSend := ms\<rparr>)\<rparr>))"

definition handleQUICConn_close :: "relay \<Rightarrow> nat \<Rightarrow> relay" where
  "handleQUICConn_close s c = set_quic s c False"

datatype quic_message =
    Quic_Response "submit_response option"
  | Quic_TCP "tcp_chunk_request option"
  | Quic_UDP "udp_chunk_request option"
  | Quic_Other string

definition handleQUICMessage :: "relay \<Rightarrow> quic_message \<Rightarrow> string list \<Rightarrow> bool \<Rightarrow> relay" where
  "handleQUICMessage s msg ks ok =
     (case msg of
        Quic_Response None \<Rightarrow> s
      | Quic_Response (Some resp) \<Rightarrow>
          (case fmlookup (requests s) (sr_RequestID resp) of
             None \<Rightarrow> s
           | Some (_, ch) \<Rightarrow> snd (put_response s ch resp))
      | Quic_TCP None \<Rightarrow> s
      | Quic_TCP (Some chunk) \<Rightarrow> writeTCPChunkToPublic s chunk ok
      | Quic_UDP None \<Rightarrow> s
      | Quic_UDP (Some chunk) \<Rightarrow> writeUDPChunkToPublic s chunk ks ok
      | Quic_Other _ \<Rightarrow> s)"

definition splitCSV :: "string \<Rightarrow> string list" where
  "splitCSV s = filter (\<lambda>p. p \<noteq> []) (map TrimSpace (split_at CHR '','' s))"

end
