(* ===== verification/Broker_Proofs.thy ===== *)
theory Broker_Proofs
  imports Broker "HOL-Library.Multiset"
begin

section \<open>The broker: what it guarantees\<close>

text \<open>
  Sessions are opened for valid requests only and on the least loaded live relay, leases can be read
  back, the audit log stays bounded. Two behaviours are proved as they are: relays register without
  any credential, and a running broker does not serve what its peers have written.
\<close>

subsection \<open>Sorting\<close>

text \<open>The orders handed to \<open>sort.Slice\<close> are strict weak orders.\<close>

locale weak_order =
  fixes lt :: "'a \<Rightarrow> 'a \<Rightarrow> bool"
  assumes lt_asym: "lt x y \<Longrightarrow> \<not> lt y x"
    and lt_neg_trans: "\<not> lt x y \<Longrightarrow> \<not> lt y z \<Longrightarrow> \<not> lt x z"
begin

lemma set_insert_by [simp]: "set (insert_by lt x xs) = insert x (set xs)"
  by (induction xs) auto

lemma mset_insert_by [simp]: "mset (insert_by lt x xs) = add_mset x (mset xs)"
  by (induction xs) auto

lemma sorted_insert_by:
  "sorted_wrt (\<lambda>a b. \<not> lt b a) xs \<Longrightarrow> sorted_wrt (\<lambda>a b. \<not> lt b a) (insert_by lt x xs)"
proof (induction xs)
  case (Cons y ys)
  show ?case
  proof (cases "lt y x")
    case True
    with Cons lt_asym [OF True] show ?thesis by simp
  next
    case False
    with Cons.prems have "\<not> lt z x" if "z \<in> set ys" for z using that lt_neg_trans [of z y x] by simp
    with False Cons.prems show ?thesis by simp
  qed
qed simp

lemma sort_Slice_perm: "mset (sort_Slice lt xs) = mset xs"
  by (induction xs) (auto simp: sort_Slice_def)

lemma sort_Slice_sorted: "sorted_wrt (\<lambda>a b. \<not> lt b a) (sort_Slice lt xs)"
  by (induction xs) (auto simp: sort_Slice_def sorted_insert_by)

lemma set_sort_Slice: "set (sort_Slice lt xs) = set xs"
  using sort_Slice_perm [of xs] by (metis set_mset_mset)

lemma sort_Slice_head:
  assumes "sort_Slice lt xs = y # ys"
  shows "y \<in> set xs \<and> (\<forall>x \<in> set xs. \<not> lt x y)"
proof -
  have e: "set xs = insert y (set ys)" using set_sort_Slice [of xs] assms by simp
  have "\<not> lt y y" using lt_asym [of y y] by blast
  with sort_Slice_sorted [of xs] e assms show ?thesis by simp
qed

lemma sort_Slice_Nil: "sort_Slice lt xs = [] \<longleftrightarrow> xs = []"
  using set_sort_Slice [of xs] by auto

end

interpretation by_load: weak_order load_less
  by unfold_locales (auto simp: load_less_def split: if_splits)

interpretation by_region: weak_order region_less
  by unfold_locales (auto simp: region_less_def split: if_splits)

subsection \<open>The state of a broker\<close>

text \<open>Leases and relays are kept under their own ids, and at most 200 audit entries.\<close>

definition broker_invar :: "'s broker \<Rightarrow> bool" where
  "broker_invar b \<longleftrightarrow> (\<forall>k l. fmlookup (leases b) k = Some l \<longrightarrow> le_ID l = k)
     \<and> (\<forall>k r. fmlookup (relays b) k = Some r \<longrightarrow> rr_ID r = k) \<and> length (audits b) \<le> 200"

lemma toLease_id: "toLease v = Some l \<Longrightarrow> le_ID l \<noteq> []"
  by (induction v rule: toLease.induct) (auto simp: zero_lease_def split: if_splits)

lemma apply_invar: "broker_invar b \<Longrightarrow> broker_invar (applyReplicatedStateChange b k v)"
  by (auto simp: applyReplicatedStateChange_def broker_invar_def split: option.splits if_splits)

lemma replicate_value_cases:
  "replicate_value ops marshal b key v now =
     (let b1 = b\<lparr>b_replicator := snd (rep_Set ops marshal (b_replicator b) key (Some v) 0 now)\<rparr>
      in if fst (rep_Set ops marshal (b_replicator b) key (Some v) 0 now) = None \<and> has_onStateChange (b_replicator b)
         then applyReplicatedStateChange b1 key (Some v) else b1)"
  by (simp add: replicate_value_def split_beta Let_def)

lemma invar_replicator [simp]: "broker_invar (b\<lparr>b_replicator := r\<rparr>) = broker_invar b"
  by (simp add: broker_invar_def)

lemma replicate_invar: "broker_invar b \<Longrightarrow> broker_invar (replicate_value ops marshal b key v now)"
  by (simp add: replicate_value_cases Let_def apply_invar)

lemma audit_invar: "broker_invar b \<Longrightarrow> broker_invar (auditLocked b entry now)"
  by (simp add: broker_invar_def auditLocked_def)

lemma invar_other [simp]:
  "broker_invar (b\<lparr>b_counters := c\<rparr>) = broker_invar b" "broker_invar (b\<lparr>store_writes := w\<rparr>) = broker_invar b"
  "broker_invar (b\<lparr>nfrValidator := v\<rparr>) = broker_invar b" "broker_invar (b\<lparr>ensured := e\<rparr>) = broker_invar b"
  by (simp_all add: broker_invar_def)

lemma invar_lease: "broker_invar b \<Longrightarrow> broker_invar (b\<lparr>leases := fmupd (le_ID l) l (leases b)\<rparr>)"
  by (auto simp: broker_invar_def split: if_splits)

lemma invar_relay: "broker_invar b \<Longrightarrow> rr_ID r = k \<Longrightarrow> broker_invar (b\<lparr>relays := fmupd k r (relays b)\<rparr>)"
  by (auto simp: broker_invar_def split: if_splits)

lemma in_map_filter: "x \<in> set (List.map_filter f xs) \<longleftrightarrow> (\<exists>y \<in> set xs. f y = Some x)"
  by (induction xs) (auto simp: List.map_filter_simps split: option.splits)

lemma in_relay_candidates:
  "r \<in> set (relay_candidates b wanted clk ks) \<longleftrightarrow>
     (\<exists>k \<in> set ks. fmlookup (relays b) k = Some r) \<and> time_sub (clk (rr_ID r)) (LastHeartbeat r) \<le> stale_after \<and> wanted r"
  by (simp add: relay_candidates_def in_map_filter not_less conj_commute)

lemma selectRelay_registered:
  assumes "selectRelay b region clk1 clk2 ks1 ks2 = Some r"
  shows "\<exists>k. fmlookup (relays b) k = Some r"
proof -
  let ?cs = "relay_candidates b (\<lambda>r. region = [] \<or> rr_Region r = region) clk1 ks1"
  let ?cs' = "if ?cs = [] \<and> region \<noteq> [] then relay_candidates b (\<lambda>_. True) clk2 ks2 else ?cs"
  from assms obtain rs where "sort_Slice load_less ?cs' = r # rs"
    by (auto simp: selectRelay_def Let_def split: list.splits)
  from by_load.sort_Slice_head [OF this] have "r \<in> set ?cs'" by blast
  then show ?thesis by (auto simp: in_relay_candidates split: if_splits)
qed

lemma count_invar:
  assumes "broker_invar b" "relay = None \<or> (\<exists>r k. relay = Some r \<and> fmlookup (relays b) k = Some r)"
  shows "broker_invar (count_tunnel b relay)"
proof (cases relay)
  case (Some r)
  with assms obtain k where "fmlookup (relays b) k = Some r" by auto
  moreover from this assms(1) have "rr_ID r = k" by (simp add: broker_invar_def)
  ultimately show ?thesis using Some assms(1) by (simp add: count_tunnel_def Let_def invar_relay)
qed (use assms(1) in \<open>simp add: count_tunnel_def\<close>)

lemma announce_invar: "broker_invar (announce_domain b req l env) = broker_invar b"
  by (simp add: announce_domain_def)

lemma announce_fields [simp]:
  "relays (announce_domain b req l env) = relays b" "leases (announce_domain b req l env) = leases b"
  "b_replicator (announce_domain b req l env) = b_replicator b"
  by (simp_all add: announce_domain_def)

lemma record_lease_invar:
  assumes "broker_invar b" "relay = None \<or> (\<exists>r k. relay = Some r \<and> fmlookup (relays b) k = Some r)"
  shows "broker_invar (record_lease b req relay l env)"
proof -
  let ?b0 = "announce_domain b req l env"
  have "broker_invar (count_tunnel (?b0\<lparr>leases := fmupd (le_ID l) l (leases ?b0)\<rparr>) relay)"
    by (rule count_invar [OF invar_lease]) (use assms in \<open>simp_all add: announce_invar\<close>)
  then show ?thesis unfolding record_lease_def Let_def by (rule audit_invar)
qed

lemma publish_lease_invar: "broker_invar b \<Longrightarrow> broker_invar (publish_lease ops marshal b l env)"
  using replicate_invar [of "b\<lparr>store_writes := store_writes b @ [Saved_Lease l]\<rparr>" ops marshal "''leases/'' @ le_ID l" "V_Lease l" "oe_later env"]
  by (simp add: publish_lease_def Let_def split: option.split)

lemma handleOpenSession_cases:
  assumes "handleOpenSession ops marshal b meth body env = (r, b')"
  obtains (granted) req relay l where "body = Some req" "meth = ''POST''" "TrimSpace (os_Token req) \<noteq> []"
      "validToken b = [] \<or> os_Token req = validToken b" "os_Protocol req \<in> {''http'', ''tcp'', ''udp''}"
      "relay = selectRelay b (RequestedRegion req) (oe_select1 env) (oe_select2 env) (oe_order1 env) (oe_order2 env)"
      "l = lease_for b req relay env" "r = Http_OK 201 l" "b' = publish_lease ops marshal (record_lease b req relay l env) l env"
    | (refused) n t where "r = Http_Error n t" "b' = b \<or> b' = b\<lparr>b_counters := IncCounter (b_counters b) ''gotunnel_broker_auth_failures_total''\<rparr>"
proof (cases "meth = ''POST''")
  case False
  then show ?thesis using assms that(2) [of 405] by (auto simp: handleOpenSession_def)
next
  case meth: True
  show ?thesis
  proof (cases body)
    case None
    then show ?thesis using assms meth that(2) [of 400] by (auto simp add: handleOpenSession_def)
  next
    case (Some req)
    consider "TrimSpace (os_Token req) = []" | "TrimSpace (os_Token req) \<noteq> []" "validToken b \<noteq> []" "os_Token req \<noteq> validToken b"
      | "TrimSpace (os_Token req) \<noteq> []" "validToken b = [] \<or> os_Token req = validToken b" "os_Protocol req \<notin> {''http'', ''tcp'', ''udp''}"
      | "TrimSpace (os_Token req) \<noteq> []" "validToken b = [] \<or> os_Token req = validToken b" "os_Protocol req \<in> {''http'', ''tcp'', ''udp''}"
      by blast
    then show ?thesis
    proof cases
      case 1
      then show ?thesis using assms meth Some that(2) [of 401] by (auto simp add: handleOpenSession_def)
    next
      case 2
      then show ?thesis using assms meth Some that(2) [of 401] by (auto simp add: handleOpenSession_def)
    next
      case 3
      then show ?thesis using assms meth Some that(2) [of 400] by (auto simp: handleOpenSession_def)
    next
      case 4
      then have "handleOpenSession ops marshal b meth body env =
          (let relay = selectRelay b (RequestedRegion req) (oe_select1 env) (oe_select2 env) (oe_order1 env) (oe_order2 env);
               l = lease_for b req relay env
           in (Http_OK 201 l, publish_lease ops marshal (record_lease b req relay l env) l env))"
        using meth Some by (auto simp: handleOpenSession_def)
      with assms that(1) [OF Some meth 4(1,2,3) refl refl] show ?thesis by (simp add: Let_def)
    qed
  qed
qed

lemma handleOpenSession_invar:
  assumes "broker_invar b"
  shows "broker_invar (snd (handleOpenSession ops marshal b meth body env))"
proof -
  obtain r b' where run: "handleOpenSession ops marshal b meth body env = (r, b')" by fastforce
  from this show ?thesis
  proof (cases rule: handleOpenSession_cases)
    case (granted req relay l)
    have "broker_invar (record_lease b req relay l env)"
    proof (rule record_lease_invar [OF assms])
      show "relay = None \<or> (\<exists>r k. relay = Some r \<and> fmlookup (relays b) k = Some r)"
        using selectRelay_registered [of b, folded granted(6)] granted(6) by (cases relay) (metis)+
    qed
    with granted(9) run show ?thesis by (simp add: publish_lease_invar)
  next
    case refused
    with assms run show ?thesis by auto
  qed
qed

lemma handleRelayRegister_invar:
  "broker_invar b \<Longrightarrow> broker_invar (snd (handleRelayRegister ops marshal b meth body rnd now later))"
  by (auto simp: handleRelayRegister_def Let_def intro!: replicate_invar audit_invar invar_relay split: option.splits)

lemma handleRelayHeartbeat_invar:
  assumes "broker_invar b"
  shows "broker_invar (snd (handleRelayHeartbeat ops marshal b meth body now later))"
proof -
  have "rr_ID r = k" if "fmlookup (relays b) k = Some r" for k r using that assms by (simp add: broker_invar_def)
  then show ?thesis using assms
    by (auto simp: handleRelayHeartbeat_def Let_def intro!: replicate_invar invar_relay split: option.splits)
qed

datatype 's broker_op =
    B_Open string "open_session_request option" open_env
  | B_Register string "relay_registration_request option" "byte list option" time time
  | B_Heartbeat string "relay_heartbeat_request option" time time
  | B_Domains string string "domain_request option" time
  | B_Peer string string "node option"
  | B_Sync "broker_value peer_transport"
  | B_Change string "broker_value option"

fun broker_exec :: "('s, broker_value) store_ops \<Rightarrow> (broker_value option \<Rightarrow> byte list) \<Rightarrow> 's broker \<Rightarrow> 's broker_op \<Rightarrow> 's broker" where
  "broker_exec ops marshal b (B_Open m r env) = snd (handleOpenSession ops marshal b m r env)"
| "broker_exec ops marshal b (B_Register m r rnd t1 t2) = snd (handleRelayRegister ops marshal b m r rnd t1 t2)"
| "broker_exec ops marshal b (B_Heartbeat m r t1 t2) = snd (handleRelayHeartbeat ops marshal b m r t1 t2)"
| "broker_exec ops marshal b (B_Domains h m r t) = snd (handleDomains b h m r t)"
| "broker_exec ops marshal b (B_Peer h m n) = snd (handlePeerHeartbeat b h m n)"
| "broker_exec ops marshal b (B_Sync pt) = broker_sync ops pt b"
| "broker_exec ops marshal b (B_Change k v) = applyReplicatedStateChange b k v"

lemma broker_exec_invar: "broker_invar b \<Longrightarrow> broker_invar (broker_exec ops marshal b c)"
  by (cases c) (auto simp: handleOpenSession_invar handleRelayRegister_invar handleRelayHeartbeat_invar apply_invar
      handleDomains_def handlePeerHeartbeat_def broker_sync_def split: option.splits sum.splits)

interpretation broker: op_system "broker_exec ops marshal" broker_invar for ops marshal
  by unfold_locales (rule broker_exec_invar)

subsection \<open>Opening sessions\<close>

definition live :: "'s broker \<Rightarrow> time \<Rightarrow> relay_registration \<Rightarrow> bool" where
  "live b now r \<longleftrightarrow> (\<exists>k. fmlookup (relays b) k = Some r) \<and> time_sub now (LastHeartbeat r) \<le> stale_after"

lemma set_relay_candidates:
  assumes "set ks = fmdom' (relays b)"
  shows "set (relay_candidates b wanted (\<lambda>_. now) ks) = {r. live b now r \<and> wanted r}"
  using assms by (auto simp: in_relay_candidates live_def intro!: bexI [OF _ fmdom'I])

lemma selectRelay_spec:
  assumes "set ks1 = fmdom' (relays b)" "set ks2 = fmdom' (relays b)"
  shows "case selectRelay b region (\<lambda>_. now) (\<lambda>_. now) ks1 ks2 of
      None \<Rightarrow> \<not> (\<exists>r. live b now r)
    | Some r \<Rightarrow> live b now r
        \<and> (\<forall>x. live b now x \<and> rr_Region x = region \<longrightarrow> rr_Region r = region \<or> region = [])
        \<and> (\<forall>x. live b now x \<and> (region = [] \<or> rr_Region r \<noteq> region \<or> rr_Region x = region) \<longrightarrow> \<not> load_less x r)"
proof -
  let ?in = "relay_candidates b (\<lambda>r. region = [] \<or> rr_Region r = region) (\<lambda>_. now) ks1"
  let ?all = "relay_candidates b (\<lambda>_. True) (\<lambda>_. now) ks2"
  let ?cs = "if ?in = [] \<and> region \<noteq> [] then ?all else ?in"
  have i: "set ?in = {r. live b now r \<and> (region = [] \<or> rr_Region r = region)}" by (rule set_relay_candidates [OF assms(1)])
  have a: "set ?all = {r. live b now r}" using set_relay_candidates [OF assms(2)] by simp
  have sel: "selectRelay b region (\<lambda>_. now) (\<lambda>_. now) ks1 ks2 = (case sort_Slice load_less ?cs of [] \<Rightarrow> None | r # _ \<Rightarrow> Some r)"
    by (simp add: selectRelay_def Let_def)
  show ?thesis
  proof (cases "sort_Slice load_less ?cs")
    case Nil
    then have "?cs = []" by (simp add: by_load.sort_Slice_Nil)
    then have "set ?cs = {}" by simp
    then have "\<not> (\<exists>r. live b now r)" using i a by (auto split: if_splits)
    with sel Nil show ?thesis by simp
  next
    case (Cons r rs)
    from by_load.sort_Slice_head [OF Cons] have r: "r \<in> set ?cs" "\<And>x. x \<in> set ?cs \<Longrightarrow> \<not> load_less x r" by auto
    show ?thesis
    proof (cases "?in = [] \<and> region \<noteq> []")
      case True
      then have none: "\<not> (live b now x \<and> rr_Region x = region)" for x using i by auto
      from True r a have "live b now r" "\<And>x. live b now x \<Longrightarrow> \<not> load_less x r" by auto
      with sel Cons none show ?thesis by auto
    next
      case False
      then have cs: "?cs = ?in" by auto
      from r i have "live b now r" "region = [] \<or> rr_Region r = region"
        "\<And>x. live b now x \<Longrightarrow> region = [] \<or> rr_Region x = region \<Longrightarrow> \<not> load_less x r" unfolding cs by auto
      with sel Cons show ?thesis by auto
    qed
  qed
qed

lemma HasPrefix_lease: "HasPrefix (''leases/'' @ x) ''leases/''"
  by (rule HasPrefix_append)

lemma relay_key: "\<not> HasPrefix (''relays/'' @ x) ''leases/''" "HasPrefix (''relays/'' @ x) ''relays/''"
  by (simp add: HasPrefix_def) (rule HasPrefix_append)

lemma apply_lease_key:
  assumes "HasPrefix key ''leases/''"
  shows "applyReplicatedStateChange b key (Some (V_Lease l)) = (if le_ID l = [] then b else b\<lparr>leases := fmupd (le_ID l) l (leases b)\<rparr>)"
  using assms by (simp add: applyReplicatedStateChange_def)

lemma apply_relay_key:
  assumes "\<not> HasPrefix key ''leases/''" "HasPrefix key ''relays/''"
  shows "applyReplicatedStateChange b key (Some (V_Relay r)) = (if rr_ID r = [] then b else b\<lparr>relays := fmupd (rr_ID r) r (relays b)\<rparr>)"
  using assms by (simp add: applyReplicatedStateChange_def)

lemma replicate_lease_cases:
  assumes "HasPrefix key ''leases/''"
  obtains r where "replicate_value ops marshal b key (V_Lease l) now = b\<lparr>b_replicator := r\<rparr>"
  | r where "replicate_value ops marshal b key (V_Lease l) now = b\<lparr>b_replicator := r, leases := fmupd (le_ID l) l (leases b)\<rparr>"
proof (cases "rep_Set ops marshal (b_replicator b) key (Some (V_Lease l)) 0 now")
  case (Pair e r)
  then show thesis using that [of r] by (cases "e = None \<and> has_onStateChange (b_replicator b)"; cases "le_ID l = []")
    (auto simp: replicate_value_def apply_lease_key [OF assms])
qed

lemma replicate_lease_key_fields:
  assumes "HasPrefix key ''leases/''" "fmlookup (leases b) (le_ID l) = Some l" "replicate_value ops marshal b key (V_Lease l) now = b'"
  shows "fmlookup (leases b') k = fmlookup (leases b) k \<and> relays b' = relays b \<and> audits b' = audits b"
  using assms(2,3) by (cases rule: replicate_lease_cases [OF assms(1), of ops marshal b l now]) auto

lemmas replicate_lease_fields = replicate_lease_key_fields [OF HasPrefix_lease _ refl]

lemma publish_lease_fields:
  assumes "fmlookup (leases b) (le_ID l) = Some l"
  shows "fmlookup (leases (publish_lease ops marshal b l env)) k = fmlookup (leases b) k"
    and "relays (publish_lease ops marshal b l env) = relays b"
    and "audits (publish_lease ops marshal b l env) = audits b"
  using replicate_lease_fields [of "b\<lparr>store_writes := store_writes b @ [Saved_Lease l]\<rparr>" l ops marshal "le_ID l" "oe_later env" k] assms
  by (simp_all add: publish_lease_def Let_def split: option.split)

lemma count_fields [simp]: "leases (count_tunnel b relay) = leases b" "audits (count_tunnel b relay) = audits b"
  by (simp_all add: count_tunnel_def Let_def split: option.split)

lemma audit_fields [simp]: "leases (auditLocked b e t) = leases b" "relays (auditLocked b e t) = relays b"
  by (simp_all add: auditLocked_def)

lemma record_lease_fields:
  "leases (record_lease b req relay l env) = fmupd (le_ID l) l (leases b)"
  "relays (record_lease b req relay l env) = relays (count_tunnel b relay)"
  by (simp_all add: record_lease_def Let_def count_tunnel_def split: option.split)

lemma lease_for_relay:
  "le_RelayURL (lease_for b req relay env) = (case relay of None \<Rightarrow> b_relayURL b | Some r \<Rightarrow> rr_RelayURL r)"
  "le_Region (lease_for b req relay env) = (case relay of None \<Rightarrow> [] | Some r \<Rightarrow> rr_Region r)"
  by (simp_all add: lease_for_def Let_def split_beta)

lemma TrimPrefix_append [simp]: "TrimPrefix (p @ s) p = s"
  by (simp add: TrimPrefix_def)


definition demo_broker_marshal :: "broker_value option \<Rightarrow> byte list" where
  "demo_broker_marshal v = []"

definition demo_broker :: "string list \<Rightarrow> broker_value memory_store broker" where
  "demo_broker cluster = New ''http://relay/'' ''secret'' ''http://pub'' ''b1'' [] cluster (NewRegistry None None) NewMemoryStore (\<lambda>_. 0)"

definition demo_session :: open_session_request where
  "demo_session = \<lparr>os_Token = ''secret'', os_Name = ''web'', os_Protocol = ''http'', RequestedSubdomain = ''app'', RequestedRegion = ''eu'',
     LocalURL = [], InspectionEnabled = False, os_HTTPSMode = ''auto'', os_WebhookURL = [], os_CustomDomain = [],
     os_Production = False, os_AllowSharing = False, os_Labels = []\<rparr>"

definition demo_open_env :: "string list \<Rightarrow> open_env" where
  "demo_open_env ks = \<lparr>oe_short = None, oe_id = Some [1, 2], oe_select1 = (\<lambda>_. 9), oe_select2 = (\<lambda>_. 9), oe_order1 = ks, oe_order2 = ks,
     oe_now = 9, oe_audit = 9, oe_later = 9, oe_provider = [], oe_hostname = (\<lambda>_. [])\<rparr>"

definition demo_relay_request :: relay_registration_request where
  "demo_relay_request = \<lparr>rq_relay_ID = ''r'', rq_relay_Name = [], rq_relay_Region = ''eu'', rq_relay_URL = ''http://r/'',
     rq_PublicBase = [], rq_Capacity = 5, rq_Features = []\<rparr>"

lemma demo_trim: "TrimSpace ''secret'' = ''secret''" "TrimSpace ''b1'' = ''b1''" "TrimSpace ''eu'' = ''eu''" "TrimSpace ''http://r/'' = ''http://r/''"
  by (rule TrimSpace_visible; simp add: visible_def)+


subsection \<open>Relays that register themselves\<close>

lemma replicate_relay_key_fields:
  assumes "\<not> HasPrefix key ''leases/''" "HasPrefix key ''relays/''" "fmlookup (relays b) (rr_ID r) = Some r"
    and "replicate_value ops marshal b key (V_Relay r) now = b'"
  shows "fmlookup (relays b') k = fmlookup (relays b) k \<and> validToken b' = validToken b"
proof (cases "rep_Set ops marshal (b_replicator b) key (Some (V_Relay r)) 0 now")
  case (Pair e q)
  then show ?thesis using assms(3,4)
    by (auto simp: replicate_value_def apply_relay_key [OF assms(1,2)] Let_def split: if_splits)
qed

lemmas replicate_relay_fields = replicate_relay_key_fields [OF relay_key _ refl]

text \<open>A registration with an identifier that is new, and a heartbeat of a registered relay.\<close>

lemma handleRelayRegister_new:
  assumes "handleRelayRegister ops marshal b ''POST'' (Some rq) rnd now later = (r, b')"
    and "TrimSpace (rq_relay_Region rq) \<noteq> []" "TrimSpace (rq_relay_URL rq) \<noteq> []" "rq_relay_ID rq \<noteq> []"
    and "fmlookup (relays b) (rq_relay_ID rq) = None"
  shows "\<exists>reg. r = Http_OK 201 reg \<and> rr_ID reg = rq_relay_ID rq \<and> rr_Region reg = rq_relay_Region rq
    \<and> rr_RelayURL reg = TrimRightSlash (rq_relay_URL rq) \<and> AssignedTunnels reg = 0
    \<and> (\<forall>k. fmlookup (relays b') k = (if k = rq_relay_ID rq then Some reg else fmlookup (relays b) k)) \<and> validToken b' = validToken b"
proof -
  let ?reg = "\<lparr>rr_ID = rq_relay_ID rq, rr_Name = firstNonEmpty [rq_relay_Name rq, rq_relay_ID rq], rr_Region = rq_relay_Region rq,
     rr_RelayURL = TrimRightSlash (rq_relay_URL rq), PublicBase = TrimRightSlash (rq_PublicBase rq),
     Capacity = rq_Capacity rq, Features = rq_Features rq, RegisteredAt = now, LastHeartbeat = now,
     AssignedTunnels = 0, rr_Status = ''online''\<rparr>"
  let ?b1 = "auditLocked (b\<lparr>relays := fmupd (rq_relay_ID rq) ?reg (relays b)\<rparr>)
     (''relay_registered id='' @ rr_ID ?reg @ '' region='' @ rr_Region ?reg) later"
  let ?b2 = "?b1\<lparr>store_writes := store_writes ?b1 @ [Saved_Relay ?reg]\<rparr>"
  have "fmlookup (relays ?b2) (rr_ID ?reg) = Some ?reg" by simp
  note f = replicate_relay_fields [OF this, where x = "rr_ID ?reg" and ops = ops and marshal = marshal and now = later]
  from assms have r: "r = Http_OK 201 ?reg"
    "relays b' = relays (replicate_value ops marshal ?b2 (''relays/'' @ rr_ID ?reg) (V_Relay ?reg) later)"
    "validToken b' = validToken (replicate_value ops marshal ?b2 (''relays/'' @ rr_ID ?reg) (V_Relay ?reg) later)"
    by (auto simp: handleRelayRegister_def Let_def)
  have "fmlookup (relays b') k = (if k = rq_relay_ID rq then Some ?reg else fmlookup (relays b) k)" for k
    unfolding r(2) using f [where k = k] by simp
  moreover have "validToken b' = validToken b" unfolding r(3) using f by (simp add: auditLocked_def)
  ultimately show ?thesis using r(1) by simp
qed

lemma handleRelayHeartbeat_known:
  assumes "handleRelayHeartbeat ops marshal b ''POST'' (Some hb) now later = (r, b')"
    and "fmlookup (relays b) (hb_ID hb) = Some reg" "rr_ID reg = hb_ID hb"
  shows "\<exists>reg'. r = Http_OK 200 reg' \<and> reg' = reg\<lparr>LastHeartbeat := now, AssignedTunnels := hb_AssignedTunnels hb, rr_Status := ''online''\<rparr>
    \<and> (\<forall>k. fmlookup (relays b') k = (if k = hb_ID hb then Some reg' else fmlookup (relays b) k)) \<and> validToken b' = validToken b"
proof -
  let ?reg = "reg\<lparr>LastHeartbeat := now, AssignedTunnels := hb_AssignedTunnels hb, rr_Status := ''online''\<rparr>"
  let ?b2 = "b\<lparr>relays := fmupd (hb_ID hb) ?reg (relays b), store_writes := store_writes b @ [Saved_Relay ?reg]\<rparr>"
  have "fmlookup (relays ?b2) (rr_ID ?reg) = Some ?reg" using assms(3) by simp
  note f = replicate_relay_fields [OF this, where x = "rr_ID ?reg" and ops = ops and marshal = marshal and now = later]
  from assms(1,2) have r: "r = Http_OK 200 ?reg" "b' = replicate_value ops marshal ?b2 (''relays/'' @ rr_ID ?reg) (V_Relay ?reg) later"
    by (auto simp: handleRelayHeartbeat_def Let_def)
  have "fmlookup (relays b') k = (if k = hb_ID hb then Some ?reg else fmlookup (relays b) k)" for k
    unfolding r(2) using f [where k = k] by simp
  moreover have "validToken b' = validToken b" unfolding r(2) using f by simp
  ultimately show ?thesis using r(1) by blast
qed

text \<open>
  Anyone can take over new sessions. Registering a relay and sending its heartbeats need no
  credential, and the load a heartbeat reports is believed, even a negative one. Whoever registers a
  new identifier and then reports less load than every registered relay receives the next session
  opened within 45 seconds for its region or for any region: the client is told to connect to that
  relay's address.
\<close>

theorem unauthenticated_relay_takes_sessions:
  assumes new: "fmlookup (relays b) (rq_relay_ID rq) = None" "rq_relay_ID rq \<noteq> []"
      "TrimSpace (rq_relay_Region rq) \<noteq> []" "TrimSpace (rq_relay_URL rq) \<noteq> []"
    and low: "\<And>k r. fmlookup (relays b) k = Some r \<Longrightarrow> n < AssignedTunnels r"
    and reg: "handleRelayRegister ops marshal b ''POST'' (Some rq) rnd t1 t2 = (a1, b1)"
    and hb: "handleRelayHeartbeat ops marshal b1 ''POST'' (Some \<lparr>hb_ID = rq_relay_ID rq, hb_AssignedTunnels = n\<rparr>) t3 t4 = (a2, b2)"
    and run: "handleOpenSession ops marshal b2 meth (Some req) env = (Http_OK 201 l, b3)"
      "RequestedRegion req \<in> {[], rq_relay_Region rq}" "time_sub now t3 \<le> stale_after"
    and env: "oe_select1 env = (\<lambda>_. now)" "oe_select2 env = (\<lambda>_. now)"
      "set (oe_order1 env) = fmdom' (relays b2)" "set (oe_order2 env) = fmdom' (relays b2)"
  shows "le_RelayURL l = TrimRightSlash (rq_relay_URL rq)"
proof -
  from handleRelayRegister_new [OF reg new(3,4,2,1)] obtain x where
    x: "rr_ID x = rq_relay_ID rq" "rr_Region x = rq_relay_Region rq" "rr_RelayURL x = TrimRightSlash (rq_relay_URL rq)"
      "\<And>k. fmlookup (relays b1) k = (if k = rq_relay_ID rq then Some x else fmlookup (relays b) k)" by blast
  let ?x = "x\<lparr>LastHeartbeat := t3, AssignedTunnels := n, rr_Status := ''online''\<rparr>"
  from handleRelayHeartbeat_known [OF hb] x have
    b2: "fmlookup (relays b2) k = (if k = rq_relay_ID rq then Some ?x else fmlookup (relays b) k)" for k by auto
  have live: "live b2 now ?x" using run(3) b2 [of "rq_relay_ID rq"] by (auto simp: live_def)
  have least: "y = ?x \<or> load_less ?x y" if "live b2 now y" for y
    using that b2 low by (fastforce simp: live_def load_less_def split: if_splits)
  from run(1) show ?thesis
  proof (cases rule: handleOpenSession_cases)
    case (granted req' relay l')
    then have "relay = selectRelay b2 (RequestedRegion req) (\<lambda>_. now) (\<lambda>_. now) (oe_order1 env) (oe_order2 env)" using env by simp
    note S = selectRelay_spec [OF env(3,4), where region = "RequestedRegion req" and now = now, folded this]
    have "relay = Some ?x"
    proof (cases relay)
      case None
      with S live show ?thesis by auto
    next
      case (Some y)
      with S have y: "live b2 now y" "\<not> load_less ?x y" using live run(2) x(2) by auto
      then show ?thesis using least [of y] Some by auto
    qed
    then show ?thesis using granted x(3) by (simp add: lease_for_relay)
  qed simp
qed

definition demo_hostile_request :: relay_registration_request where
  "demo_hostile_request = demo_relay_request\<lparr>rq_relay_ID := ''h'', rq_relay_URL := ''http://h''\<rparr>"

lemma demo_trim_hostile: "TrimSpace ''http://h'' = ''http://h''"
  by (rule TrimSpace_visible; simp add: visible_def)

lemma demo_broker_fields:
  "validToken (demo_broker ns) = ''secret''" "relays (demo_broker ns) = fmempty" "leases (demo_broker ns) = fmempty"
  by (simp_all add: demo_broker_def New_def Let_def demo_trim)

definition demo_with_relay :: "broker_value memory_store broker" where
  "demo_with_relay = snd (handleRelayRegister memory_ops demo_broker_marshal (demo_broker []) ''POST'' (Some demo_relay_request) None 1 1)"

definition demo_with_hostile :: "broker_value memory_store broker" where
  "demo_with_hostile = snd (handleRelayRegister memory_ops demo_broker_marshal demo_with_relay ''POST'' (Some demo_hostile_request) None 2 2)"

definition demo_after_heartbeat :: "broker_value memory_store broker" where
  "demo_after_heartbeat = snd (handleRelayHeartbeat memory_ops demo_broker_marshal demo_with_hostile ''POST''
     (Some \<lparr>hb_ID = ''h'', hb_AssignedTunnels = -1\<rparr>) 3 3)"

theorem unauthenticated_relay_takes_sessions_witness:
  "\<exists>l b3. handleOpenSession memory_ops demo_broker_marshal demo_after_heartbeat ''POST'' (Some demo_session) (demo_open_env [''h'', ''r''])
       = (Http_OK 201 l, b3) \<and> le_RelayURL l = ''http://h''"
proof -
  let ?m = "demo_broker_marshal"
  have q: "rq_relay_ID demo_relay_request = ''r''" "rq_relay_ID demo_hostile_request = ''h''"
    "TrimSpace (rq_relay_Region demo_relay_request) \<noteq> []" "TrimSpace (rq_relay_URL demo_relay_request) \<noteq> []"
    "TrimSpace (rq_relay_Region demo_hostile_request) \<noteq> []" "TrimSpace (rq_relay_URL demo_hostile_request) \<noteq> []"
    by (simp_all add: demo_relay_request_def demo_hostile_request_def demo_trim demo_trim_hostile)
  have r1: "handleRelayRegister memory_ops ?m (demo_broker []) ''POST'' (Some demo_relay_request) None 1 1
      = (fst (handleRelayRegister memory_ops ?m (demo_broker []) ''POST'' (Some demo_relay_request) None 1 1), demo_with_relay)"
    by (simp add: demo_with_relay_def)
  from handleRelayRegister_new [OF r1] q obtain x where x: "AssignedTunnels x = 0" "validToken demo_with_relay = ''secret''"
    "\<And>k. fmlookup (relays demo_with_relay) k = (if k = ''r'' then Some x else None)" by (auto simp: demo_broker_fields)
  have r2: "handleRelayRegister memory_ops ?m demo_with_relay ''POST'' (Some demo_hostile_request) None 2 2
      = (fst (handleRelayRegister memory_ops ?m demo_with_relay ''POST'' (Some demo_hostile_request) None 2 2), demo_with_hostile)"
    by (simp add: demo_with_hostile_def)
  from handleRelayRegister_new [OF r2] q x obtain y where y: "rr_ID y = ''h''" "validToken demo_with_hostile = ''secret''"
    "\<And>k. fmlookup (relays demo_with_hostile) k = (if k = ''h'' then Some y else fmlookup (relays demo_with_relay) k)" by auto
  have r3: "handleRelayHeartbeat memory_ops ?m demo_with_hostile ''POST'' (Some \<lparr>hb_ID = rq_relay_ID demo_hostile_request, hb_AssignedTunnels = -1\<rparr>) 3 3
      = (fst (handleRelayHeartbeat memory_ops ?m demo_with_hostile ''POST'' (Some \<lparr>hb_ID = rq_relay_ID demo_hostile_request, hb_AssignedTunnels = -1\<rparr>) 3 3),
         demo_after_heartbeat)"
    by (simp add: demo_after_heartbeat_def q)
  from handleRelayHeartbeat_known [OF r3] q x y obtain z where z: "validToken demo_after_heartbeat = ''secret''"
    "\<And>k. fmlookup (relays demo_after_heartbeat) k = (if k = ''h'' then Some z else fmlookup (relays demo_with_hostile) k)" by auto
  have "fmdom' (relays demo_after_heartbeat) = {''h'', ''r''}" using x(3) y(3) z(2) by (auto simp: fmlookup_dom'_iff split: if_splits)
  then have e: "oe_select1 (demo_open_env [''h'', ''r'']) = (\<lambda>_. 9)" "oe_select2 (demo_open_env [''h'', ''r'']) = (\<lambda>_. 9)"
    "set (oe_order1 (demo_open_env [''h'', ''r''])) = fmdom' (relays demo_after_heartbeat)"
    "set (oe_order2 (demo_open_env [''h'', ''r''])) = fmdom' (relays demo_after_heartbeat)"
    by (simp_all add: demo_open_env_def)
  obtain l b3 where run: "handleOpenSession memory_ops ?m demo_after_heartbeat ''POST'' (Some demo_session) (demo_open_env [''h'', ''r'']) = (Http_OK 201 l, b3)"
    by (simp add: handleOpenSession_def demo_session_def z demo_trim Let_def)
  have "le_RelayURL l = TrimRightSlash (rq_relay_URL demo_hostile_request)"
    by (rule unauthenticated_relay_takes_sessions [OF _ _ q(5,6) _ r2 r3 run _ _ e])
      (use x in \<open>auto simp: q demo_session_def demo_hostile_request_def demo_relay_request_def time_sub_def split: if_splits\<close>)
  with run show ?thesis by (simp add: demo_hostile_request_def TrimRightSlash_def)
qed

subsection \<open>A cluster of brokers\<close>

text \<open>What a started broker with an empty memory store holds.\<close>

lemma New_fields [simp]:
  "leases (New u tok pb node ev cl reg st clk) = fmempty" "sequenceID (b_replicator (New u tok pb node ev cl reg st clk)) = 0"
  "store (b_replicator (New u tok pb node ev cl reg st clk)) = st" "localState (b_replicator (New u tok pb node ev cl reg st clk)) = fmempty"
  "has_PeerTransport (config (b_replicator (New u tok pb node ev cl reg st clk))) \<longleftrightarrow> cl \<noteq> []"
  "NodeID (config (b_replicator (New u tok pb node ev cl reg st clk))) = nodeID (New u tok pb node ev cl reg st clk)"
  by (simp_all add: New_def Let_def NewReplicator_def)

lemma broker_start_fresh:
  "broker_start memory_ops (New u tok pb node ev cl reg NewMemoryStore clk) [] =
     (New u tok pb node ev cl reg NewMemoryStore clk)\<lparr>b_replicator :=
        set_OnStateChange (b_replicator (New u tok pb node ev cl reg NewMemoryStore clk)) True\<rparr>"
  by (simp add: broker_start_def hydrateFromReplicatedState_def rep_List_def mem.list_spec rep_Start_def mem.load_spec
      NewMemoryStore_def map_filter_simps)

text \<open>On the memory store a write succeeds, so the value of a granted lease is in the log.\<close>

lemma mem_rep_Set_ok: "\<exists>r'. rep_Set memory_ops marshal r key v ttl now = (None, r')"
  by (simp add: rep_Set_def memory_ops_def mem_Set_def mem_SaveLog_def Let_def)

lemma publish_lease_log:
  "m_logs (store (b_replicator (publish_lease memory_ops marshal b l env))) = m_logs (store (b_replicator b)) @
     [\<lparr>l_SequenceID = int64_inc (sequenceID (b_replicator b)), Operation = ''set'', l_Key = ''leases/'' @ le_ID l,
       l_Value = Some (V_Lease l), l_Timestamp = oe_later env, l_NodeID = NodeID (config (b_replicator b)),
       l_Checksum = calculateChecksum marshal (Some (V_Lease l))\<rparr>]"
proof -
  obtain r' where r': "rep_Set memory_ops marshal (b_replicator b) (''leases/'' @ le_ID l) (Some (V_Lease l)) 0 (oe_later env) = (None, r')"
    using mem_rep_Set_ok by blast
  have rep: "b_replicator (applyReplicatedStateChange b1 k v) = b_replicator b1" for b1 :: "broker_value memory_store broker" and k v
    by (simp add: applyReplicatedStateChange_def split: option.split)
  have "b_replicator (publish_lease memory_ops marshal b l env) = r'"
    using r' by (simp add: publish_lease_def replicate_value_def Let_def rep split: option.split)
  then show ?thesis using mem.rep_Set_ok [OF r'] by auto
qed

text \<open>
  A follower holds a lease and does not find it. A fresh leader grants a session; a fresh
  follower of the same cluster learns who leads by a heartbeat and synchronises. The replicated state of
  the follower then holds the lease, yet the follower answers that the lease does not exist: applying
  the leader's log does not call back the broker, whose own table is only filled at start-up and by
  its own writes. Reading the replicated state again, as a restart does, makes the lease available.
\<close>

theorem follower_broker_misses_leases:
  assumes lead: "handleOpenSession memory_ops marshal
        (broker_start memory_ops (New lu tok lpb lnode lev lcl lreg NewMemoryStore lclk) []) meth body env = (Http_OK 201 l, lb)"
      "le_ID l \<noteq> []"
    and follow: "f0 = broker_start memory_ops (New fu tok fpb fnode fev fcl freg NewMemoryStore fclk) []" "fcl \<noteq> []"
      "handlePeerHeartbeat f0 hdr ''POST'' (Some n) = (Http_OK 200 (), f1)" "n_IsLeader n" "n_ID n \<noteq> nodeID f0"
    and sync: "f2 = broker_sync memory_ops (leader_transport memory_ops (b_replicator lb) ks) f1"
  shows "(\<exists>e. rep_Get memory_ops (b_replicator f2) (''leases/'' @ le_ID l) now = Inr e \<and> Value e = Some (V_Lease l))
    \<and> handleGetLease (\<lambda>_. None) f2 ''GET'' (''/v1/leases/'' @ le_ID l) = Http_Error 404 ''lease not found''
    \<and> handleGetLease (\<lambda>_. None) (hydrateFromReplicatedState memory_ops f2 [''leases/'' @ le_ID l]) ''GET'' (''/v1/leases/'' @ le_ID l) = Http_OK 200 l"
proof -
  let ?key = "''leases/'' @ le_ID l" and ?path = "''/v1/leases/'' @ le_ID l"
  let ?g = "\<lparr>l_SequenceID = 1, Operation = ''set'', l_Key = ?key, l_Value = Some (V_Lease l), l_Timestamp = oe_later env,
     l_NodeID = NodeID (config (b_replicator (New lu tok lpb lnode lev lcl lreg (NewMemoryStore :: broker_value memory_store) lclk))), l_Checksum = calculateChecksum marshal (Some (V_Lease l))\<rparr>"
  have rec: "b_replicator (record_lease b req relay l env) = b_replicator b" for b :: "broker_value memory_store broker" and req relay
    by (simp add: record_lease_def Let_def count_tunnel_def auditLocked_def announce_domain_def split: option.split)
  from lead(1) have log: "m_logs (store (b_replicator lb)) = [?g]"
  proof (cases rule: handleOpenSession_cases)
    case (granted req relay l')
    then have lb: "lb = publish_lease memory_ops marshal (record_lease
        (broker_start memory_ops (New lu tok lpb lnode lev lcl lreg NewMemoryStore lclk) []) req relay l env) l env" by simp
    have "m_logs NewMemoryStore = ([] :: broker_value replication_log list)" by (simp add: NewMemoryStore_def)
    then show ?thesis
      unfolding lb publish_lease_log rec broker_start_fresh by (simp add: set_OnStateChange_def int64_inc_def)
  qed simp
  from follow(3,4) have f1: "f1 = f0\<lparr>b_replicator := ApplyHeartbeat (b_replicator f0) n\<rparr>" "TrimSpace (n_ID n) \<noteq> []"
    by (auto simp: handlePeerHeartbeat_def split: if_splits)
  then have "n_ID n \<noteq> []" by auto
  then have f: "\<not> IsLeader (b_replicator f1)" "has_PeerTransport (config (b_replicator f1))" "getLeaderNode (b_replicator f1) \<noteq> None"
    "sequenceID (b_replicator f1) = 0" "store (b_replicator f1) = NewMemoryStore" "localState (b_replicator f1) = fmempty" "leases f1 = fmempty"
    using follow by (simp_all add: f1 broker_start_fresh ApplyHeartbeat_def Let_def IsLeader_def getLeaderNode_def set_OnStateChange_def)
  have "b_replicator f2 = ApplyLogs memory_ops (b_replicator f1) [?g]" "leases f2 = fmempty"
    using f log by (simp_all add: sync broker_sync_def syncState_logs ExportLogs_def mem.getlogs_spec)
  then obtain e where e: "localState (b_replicator f2) = fmupd ?key e fmempty" "m_entries (store (b_replicator f2)) = fmupd ?key e fmempty"
    "Value e = Some (V_Lease l)" "TTL e = 0" "Key e = ?key" and l2: "leases f2 = fmempty"
    using f(5,6) by (auto simp: ApplyLogs_def apply_log_def memory_ops_def mem_Set_def NewMemoryStore_def Let_def)
  have get: "handleGetLease (\<lambda>_. None) b ''GET'' ?path = (case fmlookup (leases b) (le_ID l) of Some l \<Rightarrow> Http_OK 200 l
      | None \<Rightarrow> Http_Error 404 ''lease not found'')" for b :: "broker_value memory_store broker"
    unfolding handleGetLease_def TrimPrefix_append by (simp split: option.split)
  have hyd: "hydrateFromReplicatedState memory_ops f2 [?key] = applyReplicatedStateChange f2 ?key (Some (V_Lease l))"
    using e by (simp add: hydrateFromReplicatedState_def rep_List_def mem.list_spec list_entries_def List.map_filter_simps)
  show ?thesis
    unfolding get hyd apply_lease_key [OF HasPrefix_lease] using e l2 lead(2) by (simp add: rep_Get_def entry_expired_def)
qed

definition demo_follower :: "broker_value memory_store broker" where
  "demo_follower = broker_start memory_ops
     (New ''http://relay/'' ''secret'' ''http://pub'' ''b2'' [] [''b1''] (NewRegistry None None) NewMemoryStore (\<lambda>_. 0)) []"

definition demo_broker_node :: node where
  "demo_broker_node = \<lparr>n_ID = ''b1'', n_Address = ''b1'', n_Status = NodeStatusActive, n_IsLeader = True, n_LastHeartbeat = 0, n_SequenceID = 0\<rparr>"

theorem follower_broker_misses_leases_witness:
  "\<exists>l lb f1. handleOpenSession memory_ops demo_broker_marshal (broker_start memory_ops (demo_broker [''b2'']) []) ''POST'' (Some demo_session)
       (demo_open_env []) = (Http_OK 201 l, lb)
     \<and> handlePeerHeartbeat demo_follower ''Bearer secret'' ''POST'' (Some demo_broker_node) = (Http_OK 200 (), f1)
     \<and> handleGetLease (\<lambda>_. None) (broker_sync memory_ops (leader_transport memory_ops (b_replicator lb) []) f1) ''GET'' (''/v1/leases/'' @ le_ID l)
         = Http_Error 404 ''lease not found''"
proof -
  have lead: "validToken (broker_start memory_ops (demo_broker [''b2'']) []) = ''secret''"
    unfolding demo_broker_def broker_start_fresh by (simp add: New_def Let_def demo_trim)
  obtain l lb where l: "handleOpenSession memory_ops demo_broker_marshal (broker_start memory_ops (demo_broker [''b2'']) []) ''POST'' (Some demo_session)
       (demo_open_env []) = (Http_OK 201 l, lb)" "le_ID l = randomID (Some [1, 2]) 9"
    by (simp add: handleOpenSession_def demo_session_def lead demo_trim Let_def lease_for_def split_beta demo_open_env_def)
  have i: "le_ID l \<noteq> []" by (simp add: l(2) randomID_def hex_EncodeToString_def)
  have b2: "TrimSpace ''b2'' = ''b2''" by (rule TrimSpace_visible; simp add: visible_def)
  have f: "validToken demo_follower = ''secret''" "nodeID demo_follower = ''b2''"
    unfolding demo_follower_def broker_start_fresh by (simp_all add: New_def Let_def demo_trim b2)
  have "TrimPrefix ''Bearer secret'' ''Bearer '' = ''secret''" by (simp add: TrimPrefix_def HasPrefix_def)
  then obtain f1 where f1: "handlePeerHeartbeat demo_follower ''Bearer secret'' ''POST'' (Some demo_broker_node) = (Http_OK 200 (), f1)"
    by (simp add: handlePeerHeartbeat_def requireBrokerPermission_def f demo_trim demo_broker_node_def)
  have n: "n_IsLeader demo_broker_node" "n_ID demo_broker_node \<noteq> nodeID demo_follower" by (simp_all add: demo_broker_node_def f)
  from follower_broker_misses_leases [OF l(1) [unfolded demo_broker_def] i demo_follower_def _ f1 n refl] l(1) f1
  show ?thesis by blast
qed

end
