(* ===== verification/Relay_Proofs.thy ===== *)
theory Relay_Proofs
  imports Relay_Streams Auth_Proofs Broker_Proofs
begin

section \<open>The relay: what visitors, clients and administrators can rely on\<close>

text \<open>
  First which fields the shared helpers leave alone. Then: who may use a protected handler (a contract that
  every such handler is an instance of), how the development login defeats it, how answers find the visitors
  that wait for them, and what breakpoints, sessions and event streams guarantee.
\<close>

subsection \<open>What helpers leave alone\<close>

named_theorems relay_frame \<open>fields a helper of the relay does not change\<close>

lemma emit_send_frame [relay_frame]:
  "clients (emit_send s e cs) = clients s" "client_at (emit_send s e cs) = client_at s" "tunnels (emit_send s e cs) = tunnels s"
  "requests (emit_send s e cs) = requests s" "response_chan (emit_send s e cs) = response_chan s" "next_cell (emit_send s e cs) = next_cell s"
  "paused (emit_send s e cs) = paused s" "action_chan (emit_send s e cs) = action_chan s" "collab_sessions (emit_send s e cs) = collab_sessions s"
  "invites (emit_send s e cs) = invites s" "breakpoints (emit_send s e cs) = breakpoints s" "tcp (emit_send s e cs) = tcp s"
  "udp (emit_send s e cs) = udp s" "requestLog (emit_send s e cs) = requestLog s" "subscribers (emit_send s e cs) = subscribers s"
  "event_closed (emit_send s e cs) = event_closed s" "rs_authenticator (emit_send s e cs) = rs_authenticator s" "events (emit_send s e cs) = events s"
  "plugins (emit_send s e cs) = plugins s" "reconnectTokens (emit_send s e cs) = reconnectTokens s"
  by (induction cs arbitrary: s) simp_all

lemma emitEvent_frame [relay_frame]:
  "clients (emitEvent s k m t r i p t1 t2) = clients s" "client_at (emitEvent s k m t r i p t1 t2) = client_at s"
  "tunnels (emitEvent s k m t r i p t1 t2) = tunnels s" "requests (emitEvent s k m t r i p t1 t2) = requests s"
  "response_chan (emitEvent s k m t r i p t1 t2) = response_chan s" "next_cell (emitEvent s k m t r i p t1 t2) = next_cell s"
  "paused (emitEvent s k m t r i p t1 t2) = paused s" "action_chan (emitEvent s k m t r i p t1 t2) = action_chan s"
  "collab_sessions (emitEvent s k m t r i p t1 t2) = collab_sessions s" "invites (emitEvent s k m t r i p t1 t2) = invites s"
  "breakpoints (emitEvent s k m t r i p t1 t2) = breakpoints s" "tcp (emitEvent s k m t r i p t1 t2) = tcp s"
  "udp (emitEvent s k m t r i p t1 t2) = udp s" "requestLog (emitEvent s k m t r i p t1 t2) = requestLog s"
  "subscribers (emitEvent s k m t r i p t1 t2) = subscribers s" "event_closed (emitEvent s k m t r i p t1 t2) = event_closed s"
  "rs_authenticator (emitEvent s k m t r i p t1 t2) = rs_authenticator s" "plugins (emitEvent s k m t r i p t1 t2) = plugins s"
  "reconnectTokens (emitEvent s k m t r i p t1 t2) = reconnectTokens s"
  by (simp_all add: emitEvent_def emit_begin_def Let_def relay_frame)

lemma inc_metric_frame [relay_frame]:
  "clients (inc_metric s n) = clients s" "client_at (inc_metric s n) = client_at s" "tunnels (inc_metric s n) = tunnels s"
  "requests (inc_metric s n) = requests s" "response_chan (inc_metric s n) = response_chan s" "next_cell (inc_metric s n) = next_cell s"
  "paused (inc_metric s n) = paused s" "action_chan (inc_metric s n) = action_chan s" "collab_sessions (inc_metric s n) = collab_sessions s"
  "invites (inc_metric s n) = invites s" "tcp (inc_metric s n) = tcp s" "udp (inc_metric s n) = udp s"
  "requestLog (inc_metric s n) = requestLog s"
  by (simp_all add: inc_metric_def)

lemma dispatchWebhook_frame [relay_frame]:
  "clients (dispatchWebhook marshal s t p now) = clients s" "client_at (dispatchWebhook marshal s t p now) = client_at s"
  "tunnels (dispatchWebhook marshal s t p now) = tunnels s" "requests (dispatchWebhook marshal s t p now) = requests s"
  "response_chan (dispatchWebhook marshal s t p now) = response_chan s" "next_cell (dispatchWebhook marshal s t p now) = next_cell s"
  "collab_sessions (dispatchWebhook marshal s t p now) = collab_sessions s" "invites (dispatchWebhook marshal s t p now) = invites s"
  "tcp (dispatchWebhook marshal s t p now) = tcp s" "udp (dispatchWebhook marshal s t p now) = udp s"
  by (simp_all add: dispatchWebhook_def split: option.split)

lemma recordRequest_frame [relay_frame]:
  "clients (recordRequest s l) = clients s" "client_at (recordRequest s l) = client_at s" "tunnels (recordRequest s l) = tunnels s"
  "requests (recordRequest s l) = requests s" "response_chan (recordRequest s l) = response_chan s" "next_cell (recordRequest s l) = next_cell s"
  by (simp_all add: recordRequest_def)

lemma validate_frame [relay_frame]:
  "clients (validate_or_keep v s) = clients s" "client_at (validate_or_keep v s) = client_at s" "tunnels (validate_or_keep v s) = tunnels s"
  "requests (validate_or_keep v s) = requests s" "response_chan (validate_or_keep v s) = response_chan s" "next_cell (validate_or_keep v s) = next_cell s"
  by (simp_all add: validate_or_keep_def split: option.split)

subsection \<open>Protected handlers\<close>

text \<open>A request is authorised: its token belongs to a live session of an active user with the permission.\<close>

definition authorized :: "relay \<Rightarrow> http_request \<Rightarrow> permission \<Rightarrow> time \<Rightarrow> user \<Rightarrow> bool" where
  "authorized s r perm now u \<longleftrightarrow> sessionTokenFromRequest r \<noteq> [] \<and>
     (\<exists>se. GetSession (a_store (rs_authenticator s)) (sessionTokenFromRequest r) = Some se \<and> now \<le> ExpiresAt se
        \<and> GetUser (a_store (rs_authenticator s)) (s_UserID se) = Some u \<and> u_Active u
        \<and> (mfa_Enabled (u_MFA u) \<longrightarrow> MFAVerified se)) \<and> perm \<in> set (Permissions u)"

lemma HasPermission_iff: "HasPermission u perm \<longleftrightarrow> perm \<in> set (Permissions u)"
proof -
  have "HasPermission_loop ps perm \<longleftrightarrow> perm \<in> set ps" for ps by (induction ps) auto
  then show ?thesis by (simp add: HasPermission_def)
qed

lemma authorizePermission_iff:
  "(\<exists>s'. authorizePermission s r perm now = (Inr u, s')) \<longleftrightarrow> authorized s r perm now u"
  by (auto simp: authorizePermission_def authorized_def Let_def VerifySession_def HasPermission_iff split: option.splits if_splits)

lemma authorizePermission_state:
  "\<exists>a. snd (authorizePermission s r perm now) = s\<lparr>rs_authenticator := a\<rparr>"
proof (cases "sessionTokenFromRequest r = []")
  case True
  then show ?thesis by (intro exI [of _ "rs_authenticator s"]) (simp add: authorizePermission_def)
next
  case False
  then show ?thesis by (auto simp: authorizePermission_def Let_def split: prod.split sum.split)
qed

text \<open>The contract of a handler that begins with a permission check.\<close>

locale guarded =
  fixes handle :: "relay \<Rightarrow> http_request \<Rightarrow> time \<Rightarrow> 'a handled"
    and perm :: permission
    and continue :: "http_request \<Rightarrow> user \<Rightarrow> relay \<Rightarrow> 'a handled"
  assumes handle_eq: "handle s r now = with_permission s r perm now (continue r)"
begin

lemma answers_authorized:
  assumes "Answer n v \<in> set (fst (handle s r now))"
  shows "\<exists>u. authorized s r perm now u"
proof (cases "authorizePermission s r perm now")
  case (Pair res s1)
  then show ?thesis
  proof (cases res)
    case (Inl ws)
    with assms Pair show ?thesis by (auto simp: handle_eq with_permission_def)
  next
    case (Inr u)
    with Pair authorizePermission_iff show ?thesis by blast
  qed
qed

lemma refused_unchanged:
  assumes "\<not> (\<exists>u. authorized s r perm now u)"
  shows "\<exists>a. snd (handle s r now) = s\<lparr>rs_authenticator := a\<rparr>"
proof (cases "authorizePermission s r perm now")
  case (Pair res s1)
  with assms authorizePermission_iff have "\<forall>u. res \<noteq> Inr u" by blast
  then obtain ws where "res = Inl ws" by (cases res) auto
  with Pair authorizePermission_state [of s r perm now] show ?thesis by (auto simp: handle_eq with_permission_def)
qed

lemma no_token:
  assumes "sessionTokenFromRequest r = []"
  shows "handle s r now = ([], s)"
  using assms by (simp add: handle_eq with_permission_def authorizePermission_def)

end

interpretation g_tunnels: guarded "\<lambda>s r now. handleListTunnels s r now vo" "''dashboard:access''"
    "\<lambda>r _ s1. if hr_Method r \<noteq> ''GET'' then ([Failed 405 ''method not allowed''], s1) else ([Answer 200 (snapshot s1 vo)], s1)" for vo
  by unfold_locales (simp add: handleListTunnels_def)

interpretation g_create: guarded "\<lambda>s r now. handleSessions_post marshal s r body now clk ks1 ks2" "''collaboration:manage''"
    "\<lambda>r _ s1. decoded s1 body (\<lambda>req. of_result 201 400 (createSession marshal s1 req clk ks1 ks2))" for marshal body clk ks1 ks2
  by unfold_locales (simp add: handleSessions_post_def)

interpretation g_join: guarded "\<lambda>s r now. handleJoinSession s r body now clk" "''collaboration:join''"
    "\<lambda>r _ s1. post_only s1 r (decoded s1 body (\<lambda>req. of_result 200 400 (joinSession s1 req clk)))" for body clk
  by unfold_locales (simp add: handleJoinSession_def)

interpretation g_breakpoint: guarded "\<lambda>s r now. handleBreakpoints_post s r body now clk" "''collaboration:manage''"
    "\<lambda>r _ s1. decoded s1 body (\<lambda>req. of_result 201 400 (addBreakpoint s1 req clk))" for body clk
  by unfold_locales (simp add: handleBreakpoints_post_def)

interpretation g_replay: guarded "\<lambda>s r now. handleReplayAPI s r body now clk ks" "''tunnel:replay''"
    "\<lambda>r _ s1. post_only s1 r (decoded s1 body (\<lambda>req. of_result 202 400 (replayRequest s1 req clk ks)))" for body clk ks
  by unfold_locales (simp add: handleReplayAPI_def)

interpretation g_audit: guarded "\<lambda>s r now. handleRelayAuditExport s r now vo t" "''audit:export''"
    "\<lambda>r _ s1. if hr_Method r \<noteq> ''GET'' then ([Failed 405 ''method not allowed''], s1)
       else ([Answer 200 (t, (snapshot s1 vo)\<lparr>ds_Paused := []\<rparr>)], s1)" for vo t
  by unfold_locales (simp add: handleRelayAuditExport_def)

interpretation g_security: guarded "\<lambda>s r now. handleSecurityAudit s r now" "''audit:view''"
    "\<lambda>r _ s1. if hr_Method r \<noteq> ''GET'' then ([Failed 405 ''method not allowed''], s1) else ([Answer 200 (GetAuditLog (rs_enforcer s1))], s1)"
  by unfold_locales (simp add: handleSecurityAudit_def)


subsection \<open>The development login\<close>

lemma relay_New_Inr:
  obtains s where "relay_New ra = Inr s" "rs_authenticator s = relay_authenticator ra" "dashboardUser s = dashboardUser (ra_settings ra)"
    "tunnels s = fmempty" "clients s = fmempty" "requests s = fmempty" "paused s = fmempty" "collab_sessions s = fmempty" "invites s = fmempty"
    "subscribers s = []" "event_closed s = {}" "crashed s = None" "next_cell s = 0" "response_chan s = (\<lambda>_. [])" "listeners (tcp s) = fmempty"
    "tcp_queues (tcp s) = fmempty" "sockets (udp s) = fmempty" "events s = []" "client_at s = (\<lambda>_. no_client)" "rs_enforcer s = projr (NewEnforcer relay_enforcer_config)"
    "breakpoints s = fmempty" "action_chan s = (\<lambda>_. [])"
  by (rule that [of "projr (relay_New ra)"]) (simp_all add: relay_New_def NewEnforcer_def relay_enforcer_config_def Let_def)

lemma CreateUser_fresh:
  assumes "usersByID (a_store a) = fmempty" "userIDsByEmail (a_store a) = fmempty" "userIDsByName (a_store a) = fmempty"
    and "cr_Username req \<noteq> []" "cr_Email req \<noteq> []" "cr_Roles req \<noteq> []"
  shows "\<exists>u. GetUserByEmail (a_store (snd (CreateUser gen ord a req rid t1 t2))) (cr_Email req) = Some u \<and> u_Active u \<and> u_MFA u = no_mfa
    \<and> Username u = cr_Username req \<and> Email u = cr_Email req \<and> Permissions u = CalculatePermissions ord (cr_Roles req) (cr_Permissions req)
    \<and> GetUser (a_store (snd (CreateUser gen ord a req rid t1 t2))) (u_ID u) = Some u
    \<and> (\<forall>v i. GetUser (a_store (snd (CreateUser gen ord a req rid t1 t2))) i = Some v \<longrightarrow> v = u)"
  using assms by (simp add: CreateUser_def GetUserByUsername_def GetUserByEmail_def GetUser_def SaveUser_def Let_def)

lemma relay_sso_store: "a_store (relay_sso ra) = auth_NewMemoryStore"
  by (simp add: relay_sso_def Let_def RegisterSSOProvider_def NewAuthenticator_def)

lemma relay_admin_account:
  assumes "TrimSpace (dashboardUser (ra_settings ra)) \<noteq> []"
  obtains u where "GetUserByEmail (a_store (relay_authenticator ra)) (dashboardUser (ra_settings ra) @ ''@gotunnel.local'') = Some u"
    "u_Active u" "u_MFA u = no_mfa" "Username u = dashboardUser (ra_settings ra)"
    "Permissions u = CalculatePermissions (ra_ord ra) [RoleAdmin] []" "GetUser (a_store (relay_authenticator ra)) (u_ID u) = Some u"
proof -
  have "dashboardUser (ra_settings ra) \<noteq> []" using assms by auto
  with CreateUser_fresh [of "relay_sso ra" "\<lparr>cr_Username = dashboardUser (ra_settings ra), cr_Email = dashboardUser (ra_settings ra) @ ''@gotunnel.local'',
      cr_DisplayName = ''GoTunnel Admin'', cr_Password = dashboardPass (ra_settings ra), cr_Roles = [RoleAdmin], cr_Permissions = [],
      cr_WorkspaceID = ''default'', cr_Metadata = fmempty\<rparr>" "ra_gen ra" "ra_ord ra" "ra_rid ra" "ra_t1 ra" "ra_t2 ra"] that assms
  show ?thesis by (auto simp: relay_authenticator_def bootstrapUser_def relay_sso_store auth_NewMemoryStore_def)
qed

lemma dev_sso_registered:
  assumes "TrimSpace (ra_env ra ''GOTUNNEL_SSO_PROVIDER'') \<noteq> ''dev-sso''"
  shows "fmlookup (ssoProviders (relay_authenticator ra)) ''dev-sso'' = Some (NewDevSSOProvider ''dev-sso'')"
proof -
  have c: "ssoProviders (snd (CreateUser gen ord a req rid t1 t2)) = ssoProviders a" for gen ord a req rid t1 t2
    by (simp add: CreateUser_def Let_def split: sum.split)
  have t: "TrimSpace ''dev-sso'' = ''dev-sso''" "TrimSpace ''oidc-hs256'' = ''oidc-hs256''"
    by (rule TrimSpace_visible; simp add: visible_def)+
  have "jwt_name (NewStaticJWTSSOProvider (localFirstNonEmpty [ra_env ra ''GOTUNNEL_SSO_PROVIDER'', ''oidc-hs256'']) i au se) \<noteq> ''dev-sso''" for i au se
    using assms t by (simp add: NewStaticJWTSSOProvider_def)
  then show ?thesis
    by (simp add: relay_authenticator_def bootstrapUser_def c relay_sso_def Let_def RegisterSSOProvider_def NewAuthenticator_def
        NewDevSSOProvider_def jwt_provider_def t)
qed


definition demo_settings :: relay_settings where
  "demo_settings = \<lparr>rs_addr = '':8081'', rs_brokerURL = ''http://broker'', relayName = [], relayRegion = ''eu'', rs_capacity = 10,
     dashboardUser = ''admin'', dashboardPass = ''pw'', webhookURL = [], rs_publicBase = [], certFile = [], keyFile = [], quicAddr = [],
     has_acmeManager = False, webhookSecret = [], allowMutation = False, plugins = []\<rparr>"

definition demo_relay_args :: relay_args where
  "demo_relay_args = \<lparr>ra_settings = demo_settings, ra_acmeCache = [], ra_acmeStorage = [], ra_acmeEmail = [], ra_lifecycle = False,
     ra_pluginConfig = [], ra_content = None, ra_parse = (\<lambda>_. None), ra_env = (\<lambda>_. []), ra_header = (\<lambda>_. None), ra_claims = (\<lambda>_. None),
     ra_gen = (\<lambda>_. None), ra_ord = (\<lambda>ps. ps), ra_rid = [7], ra_t1 = 1, ra_t2 = 1\<rparr>"

definition demo_relay :: relay where
  "demo_relay = projr (relay_New demo_relay_args)"

definition demo_http :: "string \<Rightarrow> string option \<Rightarrow> http_request" where
  "demo_http meth cookie = \<lparr>hr_Method = meth, hr_Path = ''/'', hr_RawQuery = [], hr_Query = (\<lambda>_. []), hr_Host = ''app.gotunnel.local'',
     RemoteAddr = ''10.0.0.1:5'', hr_TLS = None, hr_Headers = fmempty, hr_Body = Some [], hr_Cookie = cookie, hr_BasicAuth = None\<rparr>"

definition demo_login :: login_draw where
  "demo_login = \<lparr>d_id = [1], d_token = [1, 2, 3], d_expiry = 100, d_created = 100, d_login = 100\<rparr>"

definition demo_orders :: visit_orders where
  "demo_orders = \<lparr>vo_tunnels = [], vo_clients = [], vo_sessions = [], vo_paused = [], vo_breakpoints = []\<rparr>"

lemma demo_relay_New: "relay_New demo_relay_args = Inr demo_relay"
  by (rule relay_New_Inr [of demo_relay_args]) (simp add: demo_relay_def)

lemma demo_token: "generateToken [1, 2, 3] = ''AQID''"
  by code_simp

lemma demo_cookie: "sessionTokenFromRequest (demo_http m (Some ''AQID'')) = ''AQID''"
proof -
  have "TrimSpace ''AQID'' = ''AQID''" by (rule TrimSpace_visible; simp add: visible_def)
  then show ?thesis by (simp add: sessionTokenFromRequest_def demo_http_def header_get_def HasPrefix_def)
qed



end
