(* ===== verification/Relay_Requests.thy ===== *)
theory Relay_Requests
  imports Relay_Proofs
begin

section \<open>The relay: requests and their answers under interleaving\<close>

text \<open>
  The handlers of visitors' requests run side by side, each through the steps of \<open>Relay_Server\<close>, mixed with the
  handlers of clients that poll and answer. A world holds the relay, the running handlers, named by the cell of
  their answer channel, and what has been handed to visitors. The step relation lets any handler do its next step;
  everything that neither registers requests nor touches answer channels is one rule, which the other handlers
  are shown to obey.
\<close>

subsection \<open>Steps\<close>

datatype phase = Is_Ready | Is_Paused | Is_Waiting

record world =
  net :: relay
  handlers :: "nat \<Rightarrow> (phase \<times> in_flight) option"
  delivered :: "(in_flight \<times> submit_response) list"

definition quiet :: "relay \<Rightarrow> relay \<Rightarrow> bool" where
  "quiet s s' \<longleftrightarrow> requests s' = requests s \<and> response_chan s' = response_chan s \<and> next_cell s \<le> next_cell s'"

inductive relay_step :: "world \<Rightarrow> world \<Rightarrow> bool" where
  visit_ready: "tunnel_begin (net w) r sub path clk ks1 ks2 = (Ready fl, s) \<Longrightarrow>
     relay_step w (w\<lparr>net := s, handlers := (handlers w)(fl_chan fl \<mapsto> (Is_Ready, fl))\<rparr>)"
| visit_paused: "tunnel_begin (net w) r sub path clk ks1 ks2 = (Paused fl, s) \<Longrightarrow>
     relay_step w (w\<lparr>net := s, handlers := (handlers w)(fl_chan fl \<mapsto> (Is_Paused, fl))\<rparr>)"
| visit_refused: "tunnel_begin (net w) r sub path clk ks1 ks2 = (Finished reps, s) \<Longrightarrow> relay_step w (w\<lparr>net := s\<rparr>)"
| released: "handlers w ch = Some (Is_Paused, fl) \<Longrightarrow> tunnel_resume (net w) fl ending now = Some (Ready fl', s) \<Longrightarrow>
     relay_step w (w\<lparr>net := s, handlers := (handlers w)(ch \<mapsto> (Is_Ready, fl'))\<rparr>)"
| dropped: "handlers w ch = Some (Is_Paused, fl) \<Longrightarrow> tunnel_resume (net w) fl ending now = Some (Finished reps, s) \<Longrightarrow>
     relay_step w (w\<lparr>net := s, handlers := (handlers w)(ch := None)\<rparr>)"
| forwarded: "handlers w ch = Some (Is_Ready, fl) \<Longrightarrow> tunnel_forward (net w) fl t1 t2 = (None, s) \<Longrightarrow>
     relay_step w (w\<lparr>net := s, handlers := (handlers w)(ch \<mapsto> (Is_Waiting, fl))\<rparr>)"
| refused: "handlers w ch = Some (Is_Ready, fl) \<Longrightarrow> tunnel_forward (net w) fl t1 t2 = (Some reps, s) \<Longrightarrow>
     relay_step w (w\<lparr>net := s, handlers := (handlers w)(ch := None)\<rparr>)"
| answered: "handlers w ch = Some (Is_Waiting, fl) \<Longrightarrow> response_chan (net w) ch = resp # rest \<Longrightarrow>
     tunnel_finish (net w) fl Received clk = Some (reps, s) \<Longrightarrow>
     relay_step w (w\<lparr>net := s, handlers := (handlers w)(ch := None), delivered := (fl, resp) # delivered w\<rparr>)"
| expired: "handlers w ch = Some (Is_Waiting, fl) \<Longrightarrow> tunnel_finish (net w) fl Timed_Out clk = Some (reps, s) \<Longrightarrow>
     relay_step w (w\<lparr>net := s, handlers := (handlers w)(ch := None)\<rparr>)"
| submitted: "relay_step w (w\<lparr>net := snd (handleSubmitResponse (net w) r body)\<rparr>)"
| over_quic: "relay_step w (w\<lparr>net := handleQUICMessage (net w) msg ks ok\<rparr>)"
| elsewhere: "quiet (net w) s \<Longrightarrow> relay_step w (w\<lparr>net := s\<rparr>)"

inductive_cases relay_stepE: "relay_step w w'"

inductive reachable :: "world \<Rightarrow> world \<Rightarrow> bool" for w0 where
  start: "reachable w0 w0"
| more: "reachable w0 w \<Longrightarrow> relay_step w w' \<Longrightarrow> reachable w0 w'"

subsection \<open>What the steps do to requests and answer channels\<close>

lemma quiet_refl [simp]: "quiet s s"
  by (simp add: quiet_def)

lemma pass_policies_quiet: "pass_policies s r clk = (e, s') \<Longrightarrow> quiet s s'"
  by (auto simp: pass_policies_def quiet_def split: prod.splits option.splits bool.splits)

text \<open>Beginning a request that is not refused registers it under a new channel.\<close>

definition registers :: "relay \<Rightarrow> relay \<Rightarrow> in_flight \<Rightarrow> bool" where
  "registers s s' fl \<longleftrightarrow> fl_chan fl = next_cell s \<and> next_cell s < next_cell s'
     \<and> requests s' = fmupd (pr_ID (fl_pending fl)) (fl_pending fl, fl_chan fl) (requests s)
     \<and> response_chan s' = (response_chan s)(fl_chan fl := [])"

lemma tunnel_begin_effect:
  assumes "tunnel_begin s r sub path clk ks1 ks2 = (out, s')"
  shows "case out of Finished reps \<Rightarrow> quiet s s' | Ready fl \<Rightarrow> registers s s' fl | Paused fl \<Rightarrow> registers s s' fl"
proof (cases "pass_policies s r clk")
  case (Pair e s1)
  then have q: "quiet s s1" by (rule pass_policies_quiet)
  have n: "next_cell s1 = next_cell s"
    using Pair by (auto simp: pass_policies_def split: prod.splits option.splits bool.splits)
  from assms Pair q n show ?thesis
    by (auto simp: tunnel_begin_def register_request_def registers_def quiet_def pause_request_def Let_def relay_frame storePausedRequest_def
        split: option.splits prod.splits outcome.splits)
qed

lemma tunnel_resume_effect:
  assumes "tunnel_resume s fl ending now = Some (out, s')"
  shows "quiet s s' \<and> (case out of Ready fl' \<Rightarrow> fl' = fl | Paused _ \<Rightarrow> False | Finished _ \<Rightarrow> True)"
  using assms by (auto simp: tunnel_resume_def quiet_def deletePausedRequest_def Let_def relay_frame
      split: option.splits wait_end.splits list.splits if_splits)

lemma send_quiet: "quiet s (snd (sendHTTPToClient s c p))" "quiet s (snd (enqueueRequestToClient s c p))" "quiet s (snd (send_quic s c m))"
  by (auto simp: sendHTTPToClient_def enqueueRequestToClient_def send_quic_def quiet_def)

lemma tunnel_forward_quiet: "tunnel_forward s fl t1 t2 = (out, s') \<Longrightarrow> quiet s s'"
  using send_quiet(1) [of s "fl_client fl" "fl_pending fl"]
  by (auto simp: tunnel_forward_def quiet_def relay_frame split: prod.splits bool.splits)

lemma tunnel_finish_received:
  assumes "tunnel_finish s fl Received clk = Some (reps, s')" "response_chan s (fl_chan fl) = resp # rest"
  shows "requests s' = requests s" "next_cell s' = next_cell s" "response_chan s' = (response_chan s)(fl_chan fl := rest)"
  using assms by (auto simp: tunnel_finish_def Let_def relay_frame split: if_splits)

lemma tunnel_finish_timeout: "tunnel_finish s fl Timed_Out clk = Some (reps, s') \<Longrightarrow> quiet s s'"
  by (auto simp: tunnel_finish_def Let_def relay_frame quiet_def)

text \<open>Answering a request fills at most the channel registered for the request's identifier.\<close>

definition answers :: "relay \<Rightarrow> relay \<Rightarrow> bool" where
  "answers s s' \<longleftrightarrow> quiet s s' \<or> (\<exists>resp p ch. fmlookup (requests s) (sr_RequestID resp) = Some (p, ch) \<and> response_chan s ch = []
     \<and> requests s' = requests s \<and> next_cell s' = next_cell s \<and> response_chan s' = (response_chan s)(ch := [resp]))"

lemma put_response_answers:
  "fmlookup (requests s) (sr_RequestID resp) = Some (p, ch) \<Longrightarrow> answers s (snd (put_response s ch resp))"
  by (auto simp: put_response_def answers_def)

lemma submit_answers: "answers s (snd (handleSubmitResponse s r body))"
proof -
  have q: "answers s s" by (simp add: answers_def)
  have "answers s s'" if "fmlookup (requests s) (sr_RequestID resp) = Some (p, ch)" "put_response s ch resp = (b, s')" for resp p ch b s'
    using put_response_answers [OF that(1)] that(2) by simp
  then show ?thesis using q by (auto simp: handleSubmitResponse_def split: option.splits prod.splits bool.splits)
qed

lemma chunk_quiet: "quiet s (writeTCPChunkToPublic s k ok)" "quiet s (writeUDPChunkToPublic s uk ks ok)"
  by (auto simp: writeTCPChunkToPublic_def writeUDPChunkToPublic_def closeTCPPublicConn_def write_conn_def write_to_def quiet_def Let_def
      split: option.splits)

lemma quic_answers: "answers s (handleQUICMessage s msg ks ok)"
  using chunk_quiet put_response_answers
  by (auto simp: handleQUICMessage_def answers_def split: quic_message.splits option.splits)

subsection \<open>The invariant\<close>

definition world_invar :: "world \<Rightarrow> bool" where
  "world_invar w \<longleftrightarrow>
     (\<forall>i p ch. fmlookup (requests (net w)) i = Some (p, ch) \<longrightarrow> pr_ID p = i \<and> ch < next_cell (net w))
   \<and> (\<forall>ch ph fl. handlers w ch = Some (ph, fl) \<longrightarrow> fl_chan fl = ch \<and> ch < next_cell (net w)
        \<and> (\<forall>i p. fmlookup (requests (net w)) i = Some (p, ch) \<longrightarrow> p = fl_pending fl)
        \<and> (\<forall>resp \<in> set (response_chan (net w) ch). sr_RequestID resp = pr_ID (fl_pending fl)))
   \<and> distinct (map (\<lambda>d. fl_chan (fst d)) (delivered w))
   \<and> (\<forall>d \<in> set (delivered w). handlers w (fl_chan (fst d)) = None \<and> fl_chan (fst d) < next_cell (net w)
        \<and> sr_RequestID (snd d) = pr_ID (fl_pending (fst d)))"

lemma world_invarI:
  assumes "\<And>i p ch. fmlookup (requests (net w)) i = Some (p, ch) \<Longrightarrow> pr_ID p = i \<and> ch < next_cell (net w)"
    and "\<And>ch ph fl. handlers w ch = Some (ph, fl) \<Longrightarrow> fl_chan fl = ch \<and> ch < next_cell (net w)"
    and "\<And>ch ph fl i p. handlers w ch = Some (ph, fl) \<Longrightarrow> fmlookup (requests (net w)) i = Some (p, ch) \<Longrightarrow> p = fl_pending fl"
    and "\<And>ch ph fl resp. handlers w ch = Some (ph, fl) \<Longrightarrow> resp \<in> set (response_chan (net w) ch) \<Longrightarrow> sr_RequestID resp = pr_ID (fl_pending fl)"
    and "distinct (map (\<lambda>d. fl_chan (fst d)) (delivered w))"
    and "\<And>d. d \<in> set (delivered w) \<Longrightarrow> handlers w (fl_chan (fst d)) = None \<and> fl_chan (fst d) < next_cell (net w)
        \<and> sr_RequestID (snd d) = pr_ID (fl_pending (fst d))"
  shows "world_invar w"
  using assms unfolding world_invar_def by blast

lemma world_invarD:
  assumes "world_invar w"
  shows "fmlookup (requests (net w)) i = Some (p, ch) \<Longrightarrow> pr_ID p = i \<and> ch < next_cell (net w)"
    and "handlers w ch = Some (ph, fl) \<Longrightarrow> fl_chan fl = ch \<and> ch < next_cell (net w)"
    and "handlers w ch = Some (ph, fl) \<Longrightarrow> fmlookup (requests (net w)) i = Some (p, ch) \<Longrightarrow> p = fl_pending fl"
    and "handlers w ch = Some (ph, fl) \<Longrightarrow> resp \<in> set (response_chan (net w) ch) \<Longrightarrow> sr_RequestID resp = pr_ID (fl_pending fl)"
    and "distinct (map (\<lambda>d. fl_chan (fst d)) (delivered w))"
    and "d \<in> set (delivered w) \<Longrightarrow> handlers w (fl_chan (fst d)) = None \<and> fl_chan (fst d) < next_cell (net w)
        \<and> sr_RequestID (snd d) = pr_ID (fl_pending (fst d))"
  using assms unfolding world_invar_def by blast+

lemma invar_quiet:
  assumes "world_invar w" "quiet (net w) s"
  shows "world_invar (w\<lparr>net := s\<rparr>)"
proof -
  have q: "requests s = requests (net w)" "response_chan s = response_chan (net w)" "next_cell (net w) \<le> next_cell s"
    using assms(2) by (simp_all add: quiet_def)
  have "k < next_cell s" if "k < next_cell (net w)" for k using that q(3) by simp
  with assms(1) q(1,2) show ?thesis by (simp add: world_invar_def)
qed

lemma invar_drop: "world_invar w \<Longrightarrow> world_invar (w\<lparr>handlers := (handlers w)(ch := None)\<rparr>)"
  by (auto simp: world_invar_def)

lemma invar_phase: "world_invar w \<Longrightarrow> handlers w ch = Some (ph, fl) \<Longrightarrow> world_invar (w\<lparr>handlers := (handlers w)(ch \<mapsto> (ph', fl))\<rparr>)"
  by (auto simp: world_invar_def)

lemma invar_registers:
  assumes "world_invar w" "registers (net w) s fl"
  shows "world_invar (w\<lparr>net := s, handlers := (handlers w)(fl_chan fl \<mapsto> (ph, fl))\<rparr>)"
proof -
  have new: "fl_chan fl = next_cell (net w)" "next_cell (net w) < next_cell s"
    "requests s = fmupd (pr_ID (fl_pending fl)) (fl_pending fl, fl_chan fl) (requests (net w))" "response_chan s = (response_chan (net w))(fl_chan fl := [])"
    using assms(2) by (simp_all add: registers_def)
  note old = world_invarD [OF assms(1)]
  show ?thesis
    apply (rule world_invarI)
    subgoal for i p ch using old(1) [of i p ch] new by (auto split: if_splits)
    subgoal for ch ph f using old(2) [of ch ph f] new by (auto split: if_splits)
    subgoal for ch ph f i p using old(1) [of i p ch] old(2) [of ch ph f] old(3) [of ch ph f i p] new by (auto split: if_splits)
    subgoal for ch ph f resp using old(4) [of ch ph f resp] new by (auto split: if_splits)
    subgoal using old(5) by simp
    subgoal for d using old(6) [of d] new by auto
    done
qed

lemma invar_answers:
  assumes "world_invar w" "answers (net w) s"
  shows "world_invar (w\<lparr>net := s\<rparr>)"
proof (cases "quiet (net w) s")
  case False
  with assms(2) obtain resp p ch where a: "fmlookup (requests (net w)) (sr_RequestID resp) = Some (p, ch)"
    "requests s = requests (net w)" "next_cell s = next_cell (net w)" "response_chan s = (response_chan (net w))(ch := [resp])"
    by (auto simp: answers_def)
  have "sr_RequestID resp = pr_ID (fl_pending fl)" if "handlers w ch = Some (ph, fl)" for ph fl
    using assms(1) a(1) that unfolding world_invar_def by metis
  with assms(1) a show ?thesis unfolding world_invar_def by auto
qed (use assms in \<open>simp add: invar_quiet\<close>)

lemma invar_quiet_drop:
  assumes "world_invar w" "quiet (net w) s"
  shows "world_invar (w\<lparr>net := s, handlers := (handlers w)(ch := None)\<rparr>)"
  using invar_drop [OF invar_quiet [OF assms], of ch] by simp

lemma invar_quiet_phase:
  assumes "world_invar w" "handlers w ch = Some (ph, fl)" "quiet (net w) s"
  shows "world_invar (w\<lparr>net := s, handlers := (handlers w)(ch \<mapsto> (ph', fl))\<rparr>)"
  using invar_phase [OF invar_quiet [OF assms(1,3)], of ch ph fl ph'] assms(2) by simp

lemma relay_step_invar:
  assumes "relay_step w w'" "world_invar w"
  shows "world_invar w'"
  using assms
proof (cases rule: relay_step.cases)
  case (visit_ready r sub path clk ks1 ks2 fl s)
  with assms(2) tunnel_begin_effect [OF visit_ready(2)] show ?thesis by (simp add: invar_registers)
next
  case (visit_paused r sub path clk ks1 ks2 fl s)
  with assms(2) tunnel_begin_effect [OF visit_paused(2)] show ?thesis by (simp add: invar_registers)
next
  case (visit_refused r sub path clk ks1 ks2 reps s)
  with assms(2) tunnel_begin_effect [OF visit_refused(2)] show ?thesis by (simp add: invar_quiet)
next
  case (released ch fl ending now fl' s)
  with tunnel_resume_effect [OF released(3)] invar_quiet_phase [OF assms(2) released(2)] show ?thesis by simp
next
  case (dropped ch fl ending now reps s)
  with tunnel_resume_effect [OF dropped(3)] invar_quiet_drop [OF assms(2)] show ?thesis by simp
next
  case (forwarded ch fl t1 t2 s)
  with tunnel_forward_quiet [OF forwarded(3)] invar_quiet_phase [OF assms(2) forwarded(2)] show ?thesis by simp
next
  case (refused ch fl t1 t2 reps s)
  with tunnel_forward_quiet [OF refused(3)] invar_quiet_drop [OF assms(2)] show ?thesis by simp
next
  case (answered ch fl resp rest clk reps s)
  have fl: "fl_chan fl = ch" "ch < next_cell (net w)" "sr_RequestID resp = pr_ID (fl_pending fl)"
    using assms(2) answered(2,3) by (auto simp: world_invar_def)
  have s: "requests s = requests (net w)" "next_cell s = next_cell (net w)" "response_chan s = (response_chan (net w))(ch := rest)"
    using tunnel_finish_received [OF answered(4)] answered(3) fl(1) by simp_all
  note old = world_invarD [OF assms(2)]
  show ?thesis unfolding answered(1)
    apply (rule world_invarI)
    subgoal for i p c using old(1) [of i p c] s by simp
    subgoal for c ph f using old(2) [of c ph f] s by (simp split: if_splits)
    subgoal for c ph f i p using old(3) [of c ph f i p] s by (simp split: if_splits)
    subgoal for c ph f resp using old(4) [of c ph f resp] s by (simp split: if_splits)
    subgoal using old(5,6) answered(2) fl(1) by force
    subgoal for d using old(6) [of d] fl s answered(2) by (auto split: if_splits)
    done
next
  case (expired ch fl clk reps s)
  with tunnel_finish_timeout [OF expired(3)] invar_quiet_drop [OF assms(2)] show ?thesis by simp
next
  case (submitted r body)
  with assms(2) submit_answers show ?thesis by (simp add: invar_answers)
next
  case (over_quic msg ks ok)
  with assms(2) quic_answers show ?thesis by (simp add: invar_answers)
next
  case (elsewhere s)
  with assms(2) show ?thesis by (simp add: invar_quiet)
qed

lemma reachable_invar: "reachable w0 w \<Longrightarrow> world_invar w0 \<Longrightarrow> world_invar w"
  by (induction rule: reachable.induct) (auto intro: relay_step_invar)

subsection \<open>The other handlers\<close>

named_theorems quiet_intro \<open>handlers that leave requests and answer channels alone\<close>

lemma quiet_trans: "quiet s s1 \<Longrightarrow> quiet s1 s2 \<Longrightarrow> quiet s s2"
  by (simp add: quiet_def)

lemma emitEvent_quiet [simp]: "quiet s (emitEvent s' k m t r i p t1 t2) = quiet s s'"
  by (simp add: quiet_def relay_frame)

lemma inc_metric_quiet [simp]: "quiet s (inc_metric s' n) = quiet s s'"
  by (simp add: quiet_def relay_frame)

lemma dispatchWebhook_quiet [simp]: "quiet s (dispatchWebhook marshal s' t p now) = quiet s s'"
  by (simp add: quiet_def relay_frame)

lemma recordRequest_quiet [simp]: "quiet s (recordRequest s' l) = quiet s s'"
  by (simp add: quiet_def relay_frame)

lemma handleNextRequest_quiet [quiet_intro]: "handleNextRequest s r ending = Some (reps, s') \<Longrightarrow> quiet s s'"
  by (auto simp: handleNextRequest_def quiet_def relay_frame split: if_splits option.splits wait_end.splits list.splits)

lemma listeners_quiet:
  "quiet s s' \<Longrightarrow> quiet s (snd (ensureTCPTunnelListener s' l c lo))" "quiet s s' \<Longrightarrow> quiet s (snd (ensureUDPTunnelListener s' l c lo))"
  "quiet s s' \<Longrightarrow> quiet s (ensureManagedCertificate s' l m)" "quiet s s' \<Longrightarrow> quiet s (add_client s' l cid tok)"
  by (auto simp: ensureTCPTunnelListener_def ensureUDPTunnelListener_def ensureManagedCertificate_def add_client_def quiet_def Let_def split: option.split)

lemma or_default: "(case x of (Some p, s') \<Rightarrow> (p, s') | (None, s') \<Rightarrow> (d, s')) = (case_option d id (fst x), snd x)"
  by (cases x; cases "fst x") auto

lemma handleRegisterClient_quiet [quiet_intro]: "quiet s (snd (handleRegisterClient marshal s r body broker listen manager clk))"
  by (simp add: handleRegisterClient_def Let_def or_default split: option.split prod.split) (auto intro!: listeners_quiet)

lemma debug_quiet [quiet_intro]:
  "quiet s (snd (createSession marshal s cq clk ks1 ks2))" "quiet s (snd (joinSession s jq clk))" "quiet s (snd (addAnnotation s aq clk))"
  "quiet s (snd (addBreakpoint s bq clk))" "quiet s (snd (resolvePausedRequest s pa clk))"
  subgoal by (simp add: createSession_def Let_def split: option.split) (simp add: quiet_def)
  subgoal by (simp add: joinSession_def Let_def split: option.split) (simp add: quiet_def)
  subgoal by (simp add: addAnnotation_def Let_def) (simp add: quiet_def)
  subgoal by (simp add: addBreakpoint_def Let_def) (simp add: quiet_def)
  subgoal by (simp add: resolvePausedRequest_def split: option.split) (simp add: quiet_def)
  done

lemma enqueueRequest_quiet: "quiet s (snd (enqueueRequest s p ks))"
  by (simp add: enqueueRequest_def send_quiet split: option.split)

lemma replayRequest_quiet [quiet_intro]: "quiet s (snd (replayRequest s rq clk ks))"
proof -
  have "quiet s (snd (case enqueueRequest s p ks of (False, s1) \<Rightarrow> (a, s1) | (True, s1) \<Rightarrow> (b, emitEvent s1 k m t r i pl t1 t2)))"
    for p k m t r i pl t1 t2 and a b :: "phase2_error + pending_request"
    using enqueueRequest_quiet [of s p ks] by (cases "enqueueRequest s p ks"; cases "fst (enqueueRequest s p ks)") auto
  then show ?thesis by (simp add: replayRequest_def Let_def split: option.split)
qed

lemma sendEvent_quiet:
  "sendTCPEventToClient s c q e = Some s' \<Longrightarrow> quiet s s'" "sendUDPEventToClient s c q u = Some s' \<Longrightarrow> quiet s s'"
  by (auto simp: sendTCPEventToClient_def sendUDPEventToClient_def try_quic_def send_quic_def quiet_def split: option.splits if_splits bool.splits)

lemma closeTCPPublicConn_quiet: "quiet s s' \<Longrightarrow> quiet s (closeTCPPublicConn s' k)"
  by (simp add: closeTCPPublicConn_def quiet_def split: option.split)

lemma acceptTCPConnections_quiet [quiet_intro]:
  assumes "acceptTCPConnections s l c q now = Some s'"
  shows "quiet s s'"
proof -
  have "quiet s (snd (accept_conn s now))" by (simp add: accept_conn_def quiet_def Let_def)
  moreover from assms have "quiet (snd (accept_conn s now)) s'"
    by (auto simp: acceptTCPConnections_def split: prod.splits dest: sendEvent_quiet(1))
  ultimately show ?thesis by (rule quiet_trans)
qed

lemma readPublicTCP_quiet [quiet_intro]:
  assumes "readPublicTCP s c k t q data err = Some s'"
  shows "quiet s s'"
proof -
  define first where "first = (if data \<noteq> [] then sendTCPEventToClient s c q \<lparr>te_Type = ''data'', te_ConnectionID = k, te_TunnelID = t, te_Payload = data\<rparr> else Some s)"
  from assms obtain s1 where f: "first = Some s1" unfolding readPublicTCP_def first_def by (auto split: option.splits)
  then have s1: "quiet s s1" by (auto simp: first_def split: if_splits intro: sendEvent_quiet(1))
  from assms f have "s' = s1 \<or> (\<exists>e s2. sendTCPEventToClient s1 c q e = Some s2 \<and> s' = closeTCPPublicConn s2 k)"
    unfolding readPublicTCP_def first_def by (auto split: if_splits)
  then show ?thesis using s1 quiet_trans [OF s1 sendEvent_quiet(1)] closeTCPPublicConn_quiet by auto
qed

lemma readPublicUDP_quiet [quiet_intro]: "readPublicUDP s l c q data peer now = Some s' \<Longrightarrow> quiet s s'"
  by (auto simp: readPublicUDP_def Let_def quiet_def dest!: sendEvent_quiet(2))

lemma next_event_quiet [quiet_intro]:
  "handleNextTCPEvent s r ending = Some (tr, s1) \<Longrightarrow> quiet s s1" "handleNextUDPEvent s r ending = Some (ur, s2) \<Longrightarrow> quiet s s2"
  by (auto simp: handleNextTCPEvent_def handleNextUDPEvent_def quiet_def relay_frame split: option.splits wait_end.splits list.splits)

lemma write_quiet: "quiet s (write_to s k p bs)" "quiet s (write_conn s n bs)"
  by (simp_all add: write_to_def write_conn_def quiet_def)

lemma chunk_handlers_quiet [quiet_intro]: "quiet s (snd (handleTCPChunk s r tb ok))" "quiet s (snd (handleUDPChunk s r ub ks ok))"
  by (auto simp: handleTCPChunk_def handleUDPChunk_def post_only_def decoded_def write_quiet closeTCPPublicConn_quiet Let_def split: option.split)

lemma set_quic_quiet: "quiet s s' \<Longrightarrow> quiet s (set_quic s' c up)"
  by (simp add: set_quic_def quiet_def)

lemma quic_quiet [quiet_intro]:
  "quiet s (snd (handleQUICConn_open s hello))" "quic_sender s c ok = Some (m, b, s4) \<Longrightarrow> quiet s s4"
  "quiet s (handleQUICConn_close s c)"
  subgoal by (simp add: handleQUICConn_open_def Let_def set_quic_quiet split: option.split)
  subgoal by (auto simp: quic_sender_def quiet_def split: list.splits)
  subgoal by (simp add: handleQUICConn_close_def set_quic_quiet)
  done

lemma event_handlers_quiet [quiet_intro]:
  "quiet s (events_leave s c)" "quiet s (events_close s c)" "events_receive s c = Some (e, s1) \<Longrightarrow> quiet s s1"
  by (auto simp: events_leave_def events_close_def events_receive_def quiet_def split: list.splits)

lemma run_task_quiet [quiet_intro]: "quiet s (run_task marshal s t t1 t2)"
  by (simp add: run_task_def split: relay_task.split)

subsection \<open>Answers reach their visitors\<close>

abbreviation fresh_world :: "relay \<Rightarrow> world" where
  "fresh_world s \<equiv> \<lparr>net = s, handlers = (\<lambda>_. None), delivered = []\<rparr>"

lemma fresh_world_invar: "relay_New ra = Inr s0 \<Longrightarrow> world_invar (fresh_world s0)"
  by (rule relay_New_Inr [of ra]) (simp add: world_invar_def)

text \<open>
  C22: answers reach the visitors they are for. From the start of the relay, however the handlers of visitors,
  of clients and of administrators are interleaved, every answer handed to a visitor carries the identifier of
  that visitor's request, and no visitor gets two. While a handler waits for the request registered under its
  identifier, the first answer a client submits for it is accepted with 202 and is what the visitor gets; a second
  one is refused with 409.
\<close>

theorem answers_reach_their_visitors:
  assumes "relay_New ra = Inr s0" "reachable (fresh_world s0) w"
  shows "(\<forall>d \<in> set (delivered w). sr_RequestID (snd d) = pr_ID (fl_pending (fst d))) \<and> distinct (map (\<lambda>d. fl_chan (fst d)) (delivered w))
    \<and> (\<forall>ch fl p resp resp2 r s1 clk. handlers w ch = Some (Is_Waiting, fl) \<and> fmlookup (requests (net w)) (pr_ID (fl_pending fl)) = Some (p, ch)
         \<and> response_chan (net w) ch = [] \<and> hr_Method r = ''POST'' \<and> sr_RequestID resp = pr_ID (fl_pending fl)
         \<and> 100 \<le> sr_StatusCode resp \<and> sr_StatusCode resp \<le> 999 \<and> s1 = snd (handleSubmitResponse (net w) r (Some resp)) \<longrightarrow>
         fst (handleSubmitResponse (net w) r (Some resp)) = [Answer 202 ()]
         \<and> (\<exists>s2. tunnel_finish s1 fl Received clk = Some ([Answer (visitor_status (sr_StatusCode resp)) resp], s2))
         \<and> (sr_RequestID resp2 = pr_ID (fl_pending fl) \<longrightarrow>
              handleSubmitResponse s1 r (Some resp2) = ([Failed 409 ''response channel unavailable''], s1)))"
proof -
  have inv: "world_invar w" using reachable_invar [OF assms(2)] fresh_world_invar [OF assms(1)] by blast
  have chan: "fl_chan fl = ch" if "handlers w ch = Some (ph, fl)" for ch ph fl using world_invarD(2) [OF inv that] by blast
  show ?thesis
  proof (intro conjI allI impI)
    show "\<forall>d \<in> set (delivered w). sr_RequestID (snd d) = pr_ID (fl_pending (fst d))" using world_invarD(6) [OF inv] by blast
    show "distinct (map (\<lambda>d. fl_chan (fst d)) (delivered w))" using world_invarD(5) [OF inv] .
  qed (auto simp: handleSubmitResponse_def put_response_def tunnel_finish_def Let_def dest!: chan)
qed

subsection \<open>Colliding identifiers\<close>

definition orphan :: "relay \<Rightarrow> nat \<Rightarrow> bool" where
  "orphan s ch \<longleftrightarrow> ch < next_cell s \<and> (\<forall>i p. fmlookup (requests s) i \<noteq> Some (p, ch)) \<and> response_chan s ch = []"

lemma orphan_quiet: "orphan s ch \<Longrightarrow> quiet s s' \<Longrightarrow> orphan s' ch"
  by (auto simp: orphan_def quiet_def)

lemma orphan_registers: "orphan s ch \<Longrightarrow> registers s s' fl \<Longrightarrow> orphan s' ch"
  by (auto simp: orphan_def registers_def)

lemma orphan_answers: "orphan s ch \<Longrightarrow> answers s s' \<Longrightarrow> orphan s' ch"
  unfolding answers_def by (auto simp: orphan_quiet) (auto simp: orphan_def)

lemma orphan_step:
  assumes "relay_step w w'" "orphan (net w) ch" "world_invar w" "\<forall>d \<in> set (delivered w). fl_chan (fst d) \<noteq> ch"
  shows "orphan (net w') ch \<and> (\<forall>d \<in> set (delivered w'). fl_chan (fst d) \<noteq> ch)"
  using assms
proof (cases rule: relay_step.cases)
  case (answered c fl resp rest clk reps s)
  have "fl_chan fl = c" using world_invarD(2) [OF assms(3) answered(2)] by blast
  moreover have "c \<noteq> ch" using assms(2) answered(3) by (auto simp: orphan_def)
  ultimately show ?thesis using tunnel_finish_received [OF answered(4)] answered assms(2,4) by (simp add: orphan_def)
qed (use assms(2,4) in \<open>auto dest!: tunnel_begin_effect tunnel_resume_effect tunnel_forward_quiet tunnel_finish_timeout
      intro: orphan_quiet orphan_registers orphan_answers submit_answers quic_answers\<close>)

lemma orphan_reachable:
  assumes "reachable w w'" "world_invar w" "orphan (net w) ch" "\<forall>d \<in> set (delivered w). fl_chan (fst d) \<noteq> ch"
  shows "orphan (net w') ch \<and> (\<forall>d \<in> set (delivered w'). fl_chan (fst d) \<noteq> ch)"
  using assms by (induction rule: reachable.induct) (blast dest: orphan_step reachable_invar)+

lemma tunnel_begin_id: "tunnel_begin s r sub path clk ks1 ks2 = (Ready fl, s') \<Longrightarrow> pr_ID (fl_pending fl) = ''req-'' @ dec (clk 4)"
  unfolding tunnel_begin_def
  by (auto simp: register_request_def pause_request_def make_pending_def Let_def simp del: append_Cons split: prod.splits option.splits)

text \<open>
  Requests that begin at the same clock reading share an identifier, and the answers go astray. When a
  second visitor's request gets the identifier of one that is still on its way, a client's answer to the first is
  accepted and handed to the second visitor, and whatever happens afterwards the first visitor never gets an
  answer: its wait can only end by the timeout.
\<close>

theorem colliding_ids_swap_answers:
  assumes "relay_New ra = Inr s0" "reachable (fresh_world s0) w"
    and "tunnel_begin (net w) r1 sub1 path1 clk1 ks1 ks1' = (Ready f1, s1)" "tunnel_begin s1 r2 sub2 path2 clk2 ks2 ks2' = (Ready f2, s2)"
    and "clk1 4 = clk2 4" "hr_Method r = ''POST''" "sr_RequestID resp = pr_ID (fl_pending f1)"
    and "w2 = w\<lparr>net := s2, handlers := (handlers w)(fl_chan f1 \<mapsto> (Is_Ready, f1), fl_chan f2 \<mapsto> (Is_Ready, f2))\<rparr>" "reachable w2 w3"
  shows "fl_chan f1 \<noteq> fl_chan f2 \<and> fst (handleSubmitResponse s2 r (Some resp)) = [Answer 202 ()]
    \<and> response_chan (snd (handleSubmitResponse s2 r (Some resp))) (fl_chan f2) = [resp]
    \<and> reachable (fresh_world s0) w3 \<and> (\<forall>d \<in> set (delivered w3). fl_chan (fst d) \<noteq> fl_chan f1) \<and> tunnel_finish (net w3) f1 Received clk = None"
proof -
  have inv: "world_invar w" using reachable_invar [OF assms(2)] fresh_world_invar [OF assms(1)] by blast
  have reg: "registers (net w) s1 f1" "registers s1 s2 f2" using tunnel_begin_effect [OF assms(3)] tunnel_begin_effect [OF assms(4)] by simp_all
  have id: "pr_ID (fl_pending f2) = pr_ID (fl_pending f1)" using tunnel_begin_id [OF assms(3)] tunnel_begin_id [OF assms(4)] assms(5) by simp
  have step: "relay_step w (w\<lparr>net := s1, handlers := (handlers w)(fl_chan f1 \<mapsto> (Is_Ready, f1))\<rparr>)"
    using assms(3) by (rule relay_step.visit_ready)
  have "relay_step (w\<lparr>net := s1, handlers := (handlers w)(fl_chan f1 \<mapsto> (Is_Ready, f1))\<rparr>) w2"
    using relay_step.visit_ready [of "w\<lparr>net := s1, handlers := (handlers w)(fl_chan f1 \<mapsto> (Is_Ready, f1))\<rparr>" r2 sub2 path2 clk2 ks2 ks2' f2 s2] assms(4,8)
    by simp
  then have r2: "reachable (fresh_world s0) w2" by (rule reachable.more [OF reachable.more [OF assms(2) step]])
  have r3: "reachable (fresh_world s0) w3" using assms(9) r2 by (induction rule: reachable.induct) (auto intro: reachable.more)
  have orp: "orphan s2 (fl_chan f1)"
    using reg id world_invarD(1) [OF inv] unfolding orphan_def registers_def by (auto split: if_splits)
  have "\<forall>d \<in> set (delivered w2). fl_chan (fst d) \<noteq> fl_chan f1"
    using world_invarD(6) [OF inv] reg(1) assms(8) by (force simp: registers_def)
  with orphan_reachable [OF assms(9)] orp assms(8) reachable_invar [OF r2] fresh_world_invar [OF assms(1)]
  have "orphan (net w3) (fl_chan f1)" "\<forall>d \<in> set (delivered w3). fl_chan (fst d) \<noteq> fl_chan f1" by auto
  then show ?thesis using reg id assms(6,7) r3
    by (auto simp: orphan_def registers_def handleSubmitResponse_def put_response_def tunnel_finish_def)
qed

definition demo_lease :: lease where
  "demo_lease = \<lparr>le_ID = ''t1'', le_Name = ''app'', le_Protocol = ''http'', Subdomain = ''app'', PublicHost = ''app.gotunnel.local'',
     PublicURL = [], DebugURL = ''/t/app'', le_RelayURL = [], Inspection = True, HTTPSMode = [], WebhookURL = [], IssuedTLS = False, le_Region = [],
     CustomDomain = [], Production = False, le_AllowSharing = True, Labels = [], le_CreatedAt = 0\<rparr>"

definition demo_connected :: relay where
  "demo_connected = snd (handleRegisterClient (\<lambda>_. None) demo_relay (demo_http ''POST'' None) (Some ''t1'') (\<lambda>_. Lease_Found demo_lease) None None (\<lambda>_. 5))"

definition demo_visitor :: "string \<Rightarrow> http_request" where
  "demo_visitor addr = (demo_http ''GET'' None)\<lparr>RemoteAddr := addr\<rparr>"

text \<open>A relay with the client of the lease, not yet visited from an address.\<close>

definition demo_open :: "relay \<Rightarrow> string \<Rightarrow> bool" where
  "demo_open s addr \<longleftrightarrow> networkPolicy (rs_enforcer s) = cfg_NetworkPolicy relay_enforcer_config
     \<and> fmlookup (rateLimiters (rs_enforcer s)) (''ip:'' @ addr) = None \<and> fmlookup (tunnels s) ''app'' = Some demo_lease
     \<and> fmlookup (clients s) ''client-5'' = Some 0 \<and> c_TunnelID (client_at s 0) = ''t1'' \<and> breakpoints s = fmempty"

lemma refill_of_0: "refill_of 0 100 = 0"
  by (simp add: refill_of_def Seconds_def float64_def float_to_int_def)

lemma demo_begin:
  assumes "demo_open s addr" "SplitHostPort addr = Some (''10.0.0.1'', po)"
  obtains fl s' where "tunnel_begin s (demo_visitor addr) ''app'' ''/'' (\<lambda>_. 5) [''client-5''] [] = (Ready fl, s')"
    "\<And>a. a \<noteq> addr \<Longrightarrow> demo_open s a \<Longrightarrow> demo_open s' a" "fl_client fl = 0" "pr_ID (fl_pending fl) = ''req-5''" "client_at s' = client_at s"
proof -
  have ip: "ParseIP ''10.0.0.1'' \<noteq> None" by code_simp
  have id: "''req-'' @ dec 5 = ''req-5''" by code_simp
  have lim: "EnforceRateLimit e relay_rate_limit addr 5 5 = (True, e\<lparr>rateLimiters := fmupd (''ip:'' @ addr)
      \<lparr>rl_rate = 100, rl_burst = 200, rl_tokens = 199, rl_lastRefill = 5\<rparr> (rateLimiters e)\<rparr>)" if "fmlookup (rateLimiters e) (''ip:'' @ addr) = None" for e
    using that by (simp add: EnforceRateLimit_def relay_rate_limit_def NewRateLimiter_def Allow_def time_sub_def refill_of_0 Let_def)
  have "pass_policies s (demo_visitor addr) (\<lambda>_. 5) = (None, s\<lparr>rs_enforcer := (rs_enforcer s)\<lparr>rateLimiters := fmupd (''ip:'' @ addr)
      \<lparr>rl_rate = 100, rl_burst = 200, rl_tokens = 199, rl_lastRefill = 5\<rparr> (rateLimiters (rs_enforcer s))\<rparr>\<rparr>)"
    using assms(1,2) ip lim [of "rs_enforcer s"] by (auto simp: pass_policies_def demo_open_def demo_visitor_def demo_http_def EnforceNetworkPolicy_def Let_def relay_enforcer_config_def)
  with assms that id show ?thesis
    by (auto simp: tunnel_begin_def demo_open_def demo_lease_def register_request_def make_pending_def matchBreakpoint_def breakpoints_of_def
        demo_visitor_def demo_http_def Let_def)
qed

lemma enforcer_frame [relay_frame]:
  "rs_enforcer (emit_send t e cs) = rs_enforcer t" "rs_enforcer (emitEvent t k m u r i p t1 t2) = rs_enforcer t"
  "rs_enforcer (inc_metric t n) = rs_enforcer t" "rs_enforcer (dispatchWebhook mar t ty p now) = rs_enforcer t"
  "breakpoints (inc_metric t n) = breakpoints t" "breakpoints (dispatchWebhook mar t ty p now) = breakpoints t"
proof -
  show e: "rs_enforcer (emit_send t e cs) = rs_enforcer t" for t e cs by (induction cs arbitrary: t) simp_all
  show "rs_enforcer (emitEvent t k m u r i p t1 t2) = rs_enforcer t" by (simp add: emitEvent_def emit_begin_def Let_def e)
qed (simp_all add: inc_metric_def dispatchWebhook_def split: option.split)

lemma demo_connected_state:
  "demo_open demo_connected addr" "QUICUp (client_at demo_connected 0) = False" "Queue (client_at demo_connected 0) = []"
  "reachable (fresh_world demo_relay) (fresh_world demo_connected)"
proof -
  obtain s where s: "relay_New demo_relay_args = Inr s" "tunnels s = fmempty" "clients s = fmempty" "next_cell s = 0" "breakpoints s = fmempty"
    "rs_enforcer s = projr (NewEnforcer relay_enforcer_config)" by (rule relay_New_Inr)
  with demo_relay_New have d: "s = demo_relay" by simp
  have id: "''client-'' @ dec 5 = ''client-5''" by code_simp
  show "demo_open demo_connected addr" "QUICUp (client_at demo_connected 0) = False" "Queue (client_at demo_connected 0) = []"
    using s id unfolding d
    by (simp_all add: demo_open_def demo_connected_def handleRegisterClient_def demo_http_def fetchLease_def demo_lease_def Let_def relay_frame
        add_client_def NewEnforcer_def relay_enforcer_config_def)
  have "relay_step (fresh_world demo_relay) ((fresh_world demo_relay)\<lparr>net := demo_connected\<rparr>)"
    unfolding demo_connected_def by (rule relay_step.elsewhere) (simp add: quiet_intro)
  then show "reachable (fresh_world demo_relay) (fresh_world demo_connected)" using reachable.more [OF reachable.start] by simp
qed

definition demo_answer :: submit_response where
  "demo_answer = \<lparr>sr_ClientID = ''client-5'', sr_RequestID = ''req-5'', sr_StatusCode = 200, sr_Headers = fmempty, sr_Body = [], sr_Error = []\<rparr>"

theorem answers_reach_their_visitors_witness:
  "\<exists>w fl. reachable (fresh_world demo_relay) w \<and> handlers w (fl_chan fl) = Some (Is_Waiting, fl)
     \<and> fst (handleSubmitResponse (net w) (demo_http ''POST'' None) (Some demo_answer)) = [Answer 202 ()]
     \<and> (\<exists>s2. tunnel_finish (snd (handleSubmitResponse (net w) (demo_http ''POST'' None) (Some demo_answer))) fl Received (\<lambda>_. 6)
          = Some ([Answer 200 demo_answer], s2))"
proof -
  have sp: "SplitHostPort ''10.0.0.1:5'' = Some (''10.0.0.1'', ''5'')" by code_simp
  obtain fl s where v: "tunnel_begin demo_connected (demo_visitor ''10.0.0.1:5'') ''app'' ''/'' (\<lambda>_. 5) [''client-5''] [] = (Ready fl, s)"
      "fl_client fl = 0" "pr_ID (fl_pending fl) = ''req-5''" "client_at s = client_at demo_connected"
    by (rule demo_begin [OF demo_connected_state(1) sp])
  have reg: "registers demo_connected s fl" using tunnel_begin_effect [OF v(1)] by simp
  define f where "f = tunnel_forward s fl 5 5"
  have f: "tunnel_forward s fl 5 5 = (None, snd f)"
    using v(2,4) demo_connected_state(2,3) by (simp add: f_def tunnel_forward_def sendHTTPToClient_def enqueueRequestToClient_def)
  let ?w1 = "(fresh_world demo_connected)\<lparr>net := s, handlers := (handlers (fresh_world demo_connected))(fl_chan fl \<mapsto> (Is_Ready, fl))\<rparr>"
  let ?w = "?w1\<lparr>net := snd f, handlers := (handlers ?w1)(fl_chan fl \<mapsto> (Is_Waiting, fl))\<rparr>"
  have "relay_step (fresh_world demo_connected) ?w1" using v(1) by (intro relay_step.visit_ready) simp
  moreover have "relay_step ?w1 ?w" using f by (intro relay_step.forwarded [where fl = fl]) simp_all
  ultimately have w: "reachable (fresh_world demo_relay) ?w" using demo_connected_state(4) reachable.more by meson
  have h: "handlers ?w (fl_chan fl) = Some (Is_Waiting, fl)" by simp
  have "requests (snd f) = requests s" "response_chan (snd f) = response_chan s" using tunnel_forward_quiet [OF f] by (simp_all add: quiet_def)
  then have n: "fmlookup (requests (net ?w)) (pr_ID (fl_pending fl)) = Some (fl_pending fl, fl_chan fl)" "response_chan (net ?w) (fl_chan fl) = []"
    using reg by (simp_all add: registers_def)
  have a: "hr_Method (demo_http ''POST'' None) = ''POST''" "sr_RequestID demo_answer = pr_ID (fl_pending fl)" "100 \<le> sr_StatusCode demo_answer"
    "sr_StatusCode demo_answer \<le> 999" "visitor_status (sr_StatusCode demo_answer) = 200"
    by (simp_all add: demo_http_def demo_answer_def v(3) visitor_status_def)
  from answers_reach_their_visitors [OF demo_relay_New w, THEN conjunct2, THEN conjunct2, rule_format, of "fl_chan fl" fl "fl_pending fl"
      "demo_http ''POST'' None" demo_answer _ "\<lambda>_. 6"] h n a
  have "fst (handleSubmitResponse (net ?w) (demo_http ''POST'' None) (Some demo_answer)) = [Answer 202 ()]
     \<and> (\<exists>s2. tunnel_finish (snd (handleSubmitResponse (net ?w) (demo_http ''POST'' None) (Some demo_answer))) fl Received (\<lambda>_. 6)
          = Some ([Answer 200 demo_answer], s2))" by simp
  with w h show ?thesis by blast
qed

theorem colliding_ids_swap_answers_witness:
  "\<exists>(f1 :: in_flight) (f2 :: in_flight) s2. fl_chan f1 \<noteq> fl_chan f2 \<and> sr_RequestID demo_answer = pr_ID (fl_pending f1)
     \<and> response_chan (snd (handleSubmitResponse s2 (demo_http ''POST'' None) (Some demo_answer))) (fl_chan f2) = [demo_answer]
     \<and> tunnel_finish s2 f1 Received (\<lambda>_. 6) = None"
proof -
  have sp: "SplitHostPort ''10.0.0.1:5'' = Some (''10.0.0.1'', ''5'')" "SplitHostPort ''10.0.0.1:6'' = Some (''10.0.0.1'', ''6'')" by code_simp+
  obtain f1 s1 where v1: "tunnel_begin demo_connected (demo_visitor ''10.0.0.1:5'') ''app'' ''/'' (\<lambda>_. 5) [''client-5''] [] = (Ready f1, s1)"
      "\<And>a. a \<noteq> ''10.0.0.1:5'' \<Longrightarrow> demo_open demo_connected a \<Longrightarrow> demo_open s1 a" "pr_ID (fl_pending f1) = ''req-5''"
    by (rule demo_begin [OF demo_connected_state(1) sp(1)]) blast
  have o: "demo_open s1 ''10.0.0.1:6''" using v1(2) demo_connected_state(1) by simp
  obtain f2 s2 where v2: "tunnel_begin s1 (demo_visitor ''10.0.0.1:6'') ''app'' ''/'' (\<lambda>_. 5) [''client-5''] [] = (Ready f2, s2)"
    by (rule demo_begin [OF o sp(2)])
  have a: "hr_Method (demo_http ''POST'' None) = ''POST''" "sr_RequestID demo_answer = pr_ID (fl_pending f1)"
    by (simp_all add: demo_http_def demo_answer_def v1(3))
  let ?w = "(fresh_world demo_connected)\<lparr>net := s2, handlers := (handlers (fresh_world demo_connected))
    (fl_chan f1 \<mapsto> (Is_Ready, f1), fl_chan f2 \<mapsto> (Is_Ready, f2))\<rparr>"
  have b: "tunnel_begin (net (fresh_world demo_connected)) (demo_visitor ''10.0.0.1:5'') ''app'' ''/'' (\<lambda>_. 5) [''client-5''] [] = (Ready f1, s1)"
    using v1(1) by simp
  from colliding_ids_swap_answers [OF demo_relay_New demo_connected_state(4) b v2 refl a refl reachable.start, of "\<lambda>_. 6"] 
  have c: "fl_chan f1 \<noteq> fl_chan f2" "response_chan (snd (handleSubmitResponse s2 (demo_http ''POST'' None) (Some demo_answer))) (fl_chan f2) = [demo_answer]"
    "tunnel_finish s2 f1 Received (\<lambda>_. 6) = None" by simp_all
  show ?thesis by (intro exI conjI) (rule c(1) a(2) c(2) c(3))+
qed

end
