(* ===== verification/Relay_Debug_Proofs.thy ===== *)
theory Relay_Debug_Proofs
  imports Relay_Requests
begin

section \<open>The relay: queues, breakpoints, sessions and event streams\<close>

text \<open>
  First the contract of a buffered Go channel, which the queues of clients obey; then breakpoints against a
  declarative reading, the invariant of collaboration sessions, the life of an event stream, and three ways in
  which messages get lost: replays, QUIC connections that break, and UDP replies.
\<close>

subsection \<open>Channels\<close>

text \<open>
  A bounded queue as its users see it: while \<open>ok\<close> holds, a message is accepted iff there is room, and messages are
  taken from the front.
\<close>

datatype 'm fifo_op = Push 'm | Pop

fun fifo_run :: "('s \<Rightarrow> 'm \<Rightarrow> bool \<times> 's) \<Rightarrow> ('s \<Rightarrow> ('m \<times> 's) option) \<Rightarrow> 'm fifo_op list \<Rightarrow> 's \<Rightarrow> 'm list \<times> 'm list \<times> 's" where
  "fifo_run push pop [] s = ([], [], s)"
| "fifo_run push pop (Push m # ops) s =
     (let (b, s1) = push s m; (acc, rec, s2) = fifo_run push pop ops s1 in (if b then m # acc else acc, rec, s2))"
| "fifo_run push pop (Pop # ops) s =
     (case pop s of
        None \<Rightarrow> fifo_run push pop ops s
      | Some (m, s1) \<Rightarrow> let (acc, rec, s2) = fifo_run push pop ops s1 in (acc, m # rec, s2))"

locale bounded_fifo =
  fixes cap :: nat
    and ok :: "'s \<Rightarrow> bool"
    and content :: "'s \<Rightarrow> 'm list"
    and push :: "'s \<Rightarrow> 'm \<Rightarrow> bool \<times> 's"
    and pop :: "'s \<Rightarrow> ('m \<times> 's) option"
  assumes push_room: "ok s \<Longrightarrow> length (content s) < cap \<Longrightarrow> push s m = (b, s') \<Longrightarrow> b \<and> ok s' \<and> content s' = content s @ [m]"
    and push_full: "ok s \<Longrightarrow> \<not> length (content s) < cap \<Longrightarrow> push s m = (b, s') \<Longrightarrow> \<not> b \<and> ok s' \<and> content s' = content s"
    and pop_empty: "ok s \<Longrightarrow> content s = [] \<Longrightarrow> pop s = None"
    and pop_head: "ok s \<Longrightarrow> content s = m # ms \<Longrightarrow> \<exists>s'. pop s = Some (m, s') \<and> ok s' \<and> content s' = ms"
begin

lemma fifo_order:
  assumes "fifo_run push pop ops s = (acc, rec, s')" "ok s" "length (content s) \<le> cap"
  shows "content s @ acc = rec @ content s' \<and> ok s' \<and> length (content s') \<le> cap"
  using assms
proof (induction ops arbitrary: s acc rec)
  case (Cons c ops)
  show ?case
  proof (cases c)
    case (Push m)
    obtain b s1 where p: "push s m = (b, s1)" by fastforce
    obtain acc1 rec1 where r: "fifo_run push pop ops s1 = (acc1, rec1, s')" "acc = (if b then m # acc1 else acc1)" "rec = rec1"
      using Cons.prems(1) Push p by (auto split: prod.splits)
    show ?thesis
      using Cons.IH [OF r(1)] Cons.prems(2,3) push_room [OF _ _ p] push_full [OF _ _ p] r(2,3)
      by (cases "length (content s) < cap") auto
  next
    case Pop
    show ?thesis
    proof (cases "content s")
      case Nil
      with Cons.prems Pop pop_empty have "fifo_run push pop ops s = (acc, rec, s')" by simp
      from Cons.IH [OF this Cons.prems(2,3)] show ?thesis .
    next
      case (Cons m ms)
      then obtain s1 where p: "pop s = Some (m, s1)" "ok s1" "content s1 = ms" using pop_head Cons.prems(2) by blast
      obtain rec1 where r: "fifo_run push pop ops s1 = (acc, rec1, s')" "rec = m # rec1"
        using Cons.prems(1) Pop p(1) by (auto split: prod.splits)
      with Cons.IH [OF r(1)] Cons.prems(3) p Cons show ?thesis by simp
    qed
  qed
qed simp

end

subsection \<open>The queues of a client\<close>

text \<open>How a client takes the next request or event.\<close>

definition answered_with :: "'a handled option \<Rightarrow> ('a \<times> relay) option" where
  "answered_with h = (case h of Some ([Answer _ v], s) \<Rightarrow> Some (v, s) | _ \<Rightarrow> None)"

definition sent_event :: "relay option \<Rightarrow> relay \<Rightarrow> bool \<times> relay" where
  "sent_event res s = (case res of Some s1 \<Rightarrow> (True, s1) | None \<Rightarrow> (False, s))"

definition polls :: "http_request \<Rightarrow> string \<Rightarrow> nat \<Rightarrow> relay \<Rightarrow> bool" where
  "polls r clientID c s \<longleftrightarrow> hr_Method r = ''GET'' \<and> hr_Query r ''client_id'' = clientID \<and> fmlookup (clients s) clientID = Some c \<and> \<not> QUICUp (client_at s c)"

interpretation http_queue: bounded_fifo 64 "polls r clientID c" "\<lambda>s. Queue (client_at s c)" "\<lambda>s p. sendHTTPToClient s c p"
    "\<lambda>s. answered_with (handleNextRequest s r Received)" for r clientID c
  by unfold_locales (auto simp: polls_def sendHTTPToClient_def enqueueRequestToClient_def answered_with_def handleNextRequest_def relay_frame split: if_splits)

interpretation tcp_queue: bounded_fifo 256 "\<lambda>s. polls r clientID c s \<and> fmlookup (tcp_queues (tcp s)) clientID = Some q" "\<lambda>s. tcp_chans (tcp s) q"
    "\<lambda>s e. sent_event (sendTCPEventToClient s clientID q e) s" "\<lambda>s. answered_with (handleNextTCPEvent s r Received)" for r clientID c q
  by unfold_locales (auto simp: polls_def sendTCPEventToClient_def try_quic_def findClientByID_def sent_event_def answered_with_def handleNextTCPEvent_def
      relay_frame split: if_splits)

interpretation udp_queue: bounded_fifo 256 "\<lambda>s. polls r clientID c s \<and> fmlookup (udp_queues (udp s)) clientID = Some q" "\<lambda>s. udp_chans (udp s) q"
    "\<lambda>s e. sent_event (sendUDPEventToClient s clientID q e) s" "\<lambda>s. answered_with (handleNextUDPEvent s r Received)" for r clientID c q
  by unfold_locales (auto simp: polls_def sendUDPEventToClient_def try_quic_def findClientByID_def sent_event_def answered_with_def handleNextUDPEvent_def
      relay_frame split: if_splits)

interpretation quic_queue: bounded_fifo 256 "\<lambda>_. True" "\<lambda>s. QUICSend (client_at s c)" "\<lambda>s m. send_quic s c m"
    "\<lambda>s. map_option (\<lambda>(m, _, s1). (m, s1)) (quic_sender s c True)" for c
  by unfold_locales (auto simp: send_quic_def quic_sender_def split: if_splits)

text \<open>
  C25: a client that polls gets its requests and its TCP and UDP events in the order in which they were accepted,
  each once. However sending and polling are mixed, what has been accepted is what was taken, in that order,
  followed by what is still queued; at most 64 requests and 256 events are queued, and only a full queue refuses.
\<close>

theorem polled_queues_are_fifo:
  assumes "polls r clientID c s" "length (Queue (client_at s c)) \<le> 64"
    and "fmlookup (tcp_queues (tcp s)) clientID = Some q" "length (tcp_chans (tcp s) q) \<le> 256"
    and "fmlookup (udp_queues (udp s)) clientID = Some u" "length (udp_chans (udp s) u) \<le> 256"
    and "fifo_run (\<lambda>s p. sendHTTPToClient s c p) (\<lambda>s. answered_with (handleNextRequest s r Received)) ops1 s = (acc1, rec1, s1)"
    and "fifo_run (\<lambda>s e. sent_event (sendTCPEventToClient s clientID q e) s) (\<lambda>s. answered_with (handleNextTCPEvent s r Received)) ops2 s = (acc2, rec2, s2)"
    and "fifo_run (\<lambda>s e. sent_event (sendUDPEventToClient s clientID u e) s) (\<lambda>s. answered_with (handleNextUDPEvent s r Received)) ops3 s = (acc3, rec3, s3)"
  shows "Queue (client_at s c) @ acc1 = rec1 @ Queue (client_at s1 c) \<and> length (Queue (client_at s1 c)) \<le> 64
    \<and> tcp_chans (tcp s) q @ acc2 = rec2 @ tcp_chans (tcp s2) q \<and> length (tcp_chans (tcp s2) q) \<le> 256
    \<and> udp_chans (udp s) u @ acc3 = rec3 @ udp_chans (udp s3) u \<and> length (udp_chans (udp s3) u) \<le> 256
    \<and> (fst (sendHTTPToClient s c p) \<longleftrightarrow> length (Queue (client_at s c)) < 64)"
  using http_queue.fifo_order [OF assms(7,1,2)] tcp_queue.fifo_order [OF assms(8) _ assms(4)] udp_queue.fifo_order [OF assms(9) _ assms(6)] assms(1,3,5)
    http_queue.push_room [OF assms(1)] http_queue.push_full [OF assms(1)] by (metis prod.collapse)

definition demo_streams :: relay where
  "demo_streams = snd (ensureUDPTunnelListener (snd (ensureTCPTunnelListener demo_connected demo_lease ''client-5'' (Some 4000))) demo_lease ''client-5'' (Some 4001))"

definition demo_poll :: http_request where
  "demo_poll = (demo_http ''GET'' None)\<lparr>hr_Query := (\<lambda>_. ''client-5'')\<rparr>"

lemma demo_connected_streams:
  "listeners (tcp demo_connected) = fmempty" "sockets (udp demo_connected) = fmempty" "fmlookup (clients demo_connected) ''client-5'' = Some 0"
proof -
  obtain s where s: "relay_New demo_relay_args = Inr s" "listeners (tcp s) = fmempty" "sockets (udp s) = fmempty" by (rule relay_New_Inr)
  with demo_relay_New have d: "s = demo_relay" by simp
  show "listeners (tcp demo_connected) = fmempty" "sockets (udp demo_connected) = fmempty"
    using s unfolding d by (simp_all add: demo_connected_def handleRegisterClient_def demo_http_def fetchLease_def demo_lease_def Let_def relay_frame add_client_def)
  show "fmlookup (clients demo_connected) ''client-5'' = Some 0" using demo_connected_state(1) by (simp add: demo_open_def)
qed

lemma demo_streams_state:
  "polls demo_poll ''client-5'' 0 demo_streams" "Queue (client_at demo_streams 0) = []"
  "\<exists>q. fmlookup (tcp_queues (tcp demo_streams)) ''client-5'' = Some q \<and> tcp_chans (tcp demo_streams) q = []"
  "\<exists>u. fmlookup (udp_queues (udp demo_streams)) ''client-5'' = Some u \<and> udp_chans (udp demo_streams) u = []"
  using demo_connected_streams demo_connected_state(2,3)
  by (simp_all add: polls_def demo_poll_def demo_http_def demo_streams_def ensureUDPTunnelListener_def ensureTCPTunnelListener_def)

definition demo_pending :: pending_request where
  "demo_pending = make_pending demo_poll demo_lease ''app'' ''/'' [] (\<lambda>_. 5)"

theorem polled_queues_are_fifo_witness:
  "\<exists>acc rec s1. fifo_run (\<lambda>s p. sendHTTPToClient s 0 p) (\<lambda>s. answered_with (handleNextRequest s demo_poll Received))
       [Push demo_pending, Push (demo_pending\<lparr>pr_ID := ''req-6''\<rparr>), Pop] demo_streams = (acc, rec, s1)
     \<and> acc = rec @ Queue (client_at s1 0) \<and> fst (sendHTTPToClient demo_streams 0 demo_pending)"
proof -
  obtain q u where q: "fmlookup (tcp_queues (tcp demo_streams)) ''client-5'' = Some q" "tcp_chans (tcp demo_streams) q = []"
      "fmlookup (udp_queues (udp demo_streams)) ''client-5'' = Some u" "udp_chans (udp demo_streams) u = []"
    using demo_streams_state(3,4) by blast
  then have l: "length (Queue (client_at demo_streams 0)) \<le> 64" "length (tcp_chans (tcp demo_streams) q) \<le> 256" "length (udp_chans (udp demo_streams) u) \<le> 256"
    using demo_streams_state(2) by simp_all
  obtain acc rec s1 where run: "fifo_run (\<lambda>s p. sendHTTPToClient s 0 p) (\<lambda>s. answered_with (handleNextRequest s demo_poll Received))
       [Push demo_pending, Push (demo_pending\<lparr>pr_ID := ''req-6''\<rparr>), Pop] demo_streams = (acc, rec, s1)"
    by (metis prod.collapse)
  from polled_queues_are_fifo [OF demo_streams_state(1) l(1) q(1) l(2) q(3) l(3) run fifo_run.simps(1) fifo_run.simps(1), of demo_pending]
  have "acc = rec @ Queue (client_at s1 0)" "fst (sendHTTPToClient demo_streams 0 demo_pending)" using demo_streams_state(2) by simp_all
  with run show ?thesis by blast
qed

subsection \<open>Breakpoints\<close>

text \<open>What a breakpoint asks of a request.\<close>

definition bp_holds :: "pending_request \<Rightarrow> breakpoint \<Rightarrow> bool" where
  "bp_holds req bp \<longleftrightarrow> bp_Enabled bp \<and> (bp_Method bp = [] \<or> bp_Method bp = ToUpper (pr_Method req)) \<and> (\<exists>rest. PathPrefix bp @ rest = pr_Path req)
     \<and> (HeaderName bp = [] \<or> (\<exists>vs. fmlookup (pr_Headers req) (HeaderName bp) = Some vs \<and> vs \<noteq> [] \<and> (HeaderValue bp = [] \<or> HeaderValue bp \<in> set vs)))"

lemma value_matches_iff: "value_matches vs wanted \<longleftrightarrow> wanted \<in> set vs"
  by (induction vs) auto

lemma HasPrefix_iff_append: "HasPrefix p q \<longleftrightarrow> (\<exists>rest. q @ rest = p)"
  by (auto simp: HasPrefix_def) (metis append_take_drop_id)

lemma match_loop_find: "match_loop bps req = find (bp_holds req) bps"
  by (induction bps) (auto simp: bp_holds_def Let_def value_matches_iff HasPrefix_iff_append split: option.splits)

lemma tunnel_begin_client_at:
  assumes "tunnel_begin s r sub path clk ks1 ks2 = (out, s')"
  shows "client_at s' = client_at s"
proof -
  have "client_at s1 = client_at s" if "pass_policies s r clk = (e, s1)" for e s1
    using that by (auto simp: pass_policies_def split: prod.splits option.splits bool.splits)
  with assms show ?thesis
    by (auto simp: tunnel_begin_def register_request_def pause_request_def storePausedRequest_def Let_def relay_frame split: prod.splits option.splits)
qed

text \<open>A request that is not refused has passed the policies and is registered; then a breakpoint decides.\<close>

lemma tunnel_begin_shape:
  assumes "tunnel_begin s r sub path clk ks1 ks2 = (out, s')"
  obtains reps where "out = Finished reps"
  | s1 p s2 fl where "pass_policies s r clk = (None, s1)" "s2 = snd (register_request s1 p)" "fl_pending fl = p"
      "case matchBreakpoint s2 p of None \<Rightarrow> out = Ready fl \<and> s' = s2 | Some bp \<Rightarrow> (out, s') = pause_request s2 fl bp clk ks2"
proof (cases "pass_policies s r clk")
  case (Pair e s1)
  show thesis
  proof (cases "e = None \<and> fmlookup (tunnels s1) sub \<noteq> None \<and> hr_Body r \<noteq> None")
    case True
    then obtain l body where l: "e = None" "fmlookup (tunnels s1) sub = Some l" "hr_Body r = Some body" by auto
    show thesis
    proof (cases "findClientByTunnelID s1 (le_ID l) ks1")
      case None
      with assms Pair l that(1) show thesis by (auto simp: tunnel_begin_def)
    next
      case (Some c)
      define p where "p = make_pending r l sub path (take max_body body) clk"
      obtain ch s2 where reg: "register_request s1 p = (ch, s2)" by fastforce
      from assms Pair l Some reg have "(case matchBreakpoint s2 p of
          Some bp \<Rightarrow> pause_request s2 \<lparr>fl_pending = p, fl_client = c, fl_chan = ch, fl_action = None, fl_start = clk 6\<rparr> bp clk ks2
        | None \<Rightarrow> (Ready \<lparr>fl_pending = p, fl_client = c, fl_chan = ch, fl_action = None, fl_start = clk 6\<rparr>, s2)) = (out, s')"
        by (simp add: tunnel_begin_def p_def [symmetric] Let_def)
      with that(2) [of s1 s2 p "\<lparr>fl_pending = p, fl_client = c, fl_chan = ch, fl_action = None, fl_start = clk 6\<rparr>"] Pair l(1) reg
      show thesis by (auto split: option.splits)
    qed
  next
    case False
    with assms Pair that(1) show thesis by (auto simp: tunnel_begin_def split: option.splits)
  qed
qed

lemma tunnel_begin_breakpoints:
  assumes "tunnel_begin s r sub path clk ks1 ks2 = (out, s')"
  shows "case out of Finished _ \<Rightarrow> True
    | Ready fl \<Rightarrow> matchBreakpoint s (fl_pending fl) = None \<and> paused s' = paused s
    | Paused fl \<Rightarrow> \<exists>bp p. matchBreakpoint s (fl_pending fl) = Some bp \<and> fmlookup (paused s') (pr_ID (fl_pending fl)) = Some p
        \<and> pz_Request p = fl_pending fl \<and> pz_BreakpointID p = bp_ID bp \<and> fl_action fl = Some (pz_ActionC p) \<and> action_chan s' (pz_ActionC p) = []"
proof -
  have b: "breakpoints s1 = breakpoints s \<and> paused s1 = paused s" if "pass_policies s r clk = (e, s1)" for e s1
    using that by (auto simp: pass_policies_def split: prod.splits option.splits bool.splits)
  have p: "\<exists>p. out = Paused (fl\<lparr>fl_action := Some (pz_ActionC p)\<rparr>) \<and> fmlookup (paused s') (pr_ID (fl_pending fl)) = Some p
      \<and> pz_Request p = fl_pending fl \<and> pz_BreakpointID p = bp_ID bp \<and> action_chan s' (pz_ActionC p) = []"
    if "(out, s') = pause_request t fl bp clk ks2" for t fl bp
    using that by (simp add: pause_request_def storePausedRequest_def newPausedState_def Let_def relay_frame)
  consider reps where "out = Finished reps"
    | s1 p s2 fl where "pass_policies s r clk = (None, s1)" "s2 = snd (register_request s1 p)" "fl_pending fl = p"
        "case matchBreakpoint s2 p of None \<Rightarrow> out = Ready fl \<and> s' = s2 | Some bp \<Rightarrow> (out, s') = pause_request s2 fl bp clk ks2"
    using assms by (rule tunnel_begin_shape)
  then show ?thesis
  proof cases
    case 1
    then show ?thesis by simp
  next
    case 2
    have mm: "matchBreakpoint s2 p = matchBreakpoint s p" "paused s2 = paused s"
      using b [OF 2(1)] by (simp_all add: 2(2) register_request_def matchBreakpoint_def breakpoints_of_def Let_def)
    show ?thesis
    proof (cases "matchBreakpoint s p")
      case None
      with 2 mm show ?thesis by simp
    next
      case (Some bp)
      with 2(4) mm have "(out, s') = pause_request s2 fl bp clk ks2" by simp
      from p [OF this] show ?thesis using Some 2(3) by auto
    qed
  qed
qed

text \<open>
  C24: breakpoints. The loop that looks for one returns the first breakpoint of the tunnel, in the order in which
  they were set, that is enabled and whose method, path prefix and header the request has. A request is paused
  exactly when there is one, and beginning a request hands nothing to the client; a paused request that is
  discarded ends with 204 and never reaches the client, any other action lets it go on.
\<close>

theorem breakpoints_hold_requests:
  "matchBreakpoint s p = find (bp_holds p) (breakpoints_of s (pr_TunnelID p))
   \<and> (tunnel_begin s r sub path clk ks1 ks2 = (out, s') \<longrightarrow> client_at s' = client_at s
      \<and> (case out of Finished _ \<Rightarrow> True
         | Ready fl \<Rightarrow> \<not> (\<exists>bp \<in> set (breakpoints_of s (pr_TunnelID (fl_pending fl))). bp_holds (fl_pending fl) bp)
         | Paused fl \<Rightarrow> (\<exists>bp \<in> set (breakpoints_of s (pr_TunnelID (fl_pending fl))). bp_holds (fl_pending fl) bp)
             \<and> pr_ID (fl_pending fl) \<in> fmdom' (paused s')))
   \<and> (fl_action fl = Some ch \<and> action_chan s ch = a # acts \<longrightarrow>
        (\<exists>s1. tunnel_resume s fl Received now = Some (if a = ''discard'' then Finished [Status 204] else Ready fl, s1)
           \<and> client_at s1 = client_at s \<and> fmlookup (paused s1) (pr_ID (fl_pending fl)) = None))"
proof (intro conjI impI)
  show f: "matchBreakpoint s p = find (bp_holds p) (breakpoints_of s (pr_TunnelID p))" for p by (simp add: matchBreakpoint_def match_loop_find)
  assume b: "tunnel_begin s r sub path clk ks1 ks2 = (out, s')"
  from b show "client_at s' = client_at s" by (rule tunnel_begin_client_at)
  from tunnel_begin_breakpoints [OF b] show "case out of Finished _ \<Rightarrow> True
         | Ready fl \<Rightarrow> \<not> (\<exists>bp \<in> set (breakpoints_of s (pr_TunnelID (fl_pending fl))). bp_holds (fl_pending fl) bp)
         | Paused fl \<Rightarrow> (\<exists>bp \<in> set (breakpoints_of s (pr_TunnelID (fl_pending fl))). bp_holds (fl_pending fl) bp)
             \<and> pr_ID (fl_pending fl) \<in> fmdom' (paused s')"
    by (auto simp: f find_None_iff find_Some_iff intro: fmdom'I split: outcome.splits)
next
  assume "fl_action fl = Some ch \<and> action_chan s ch = a # acts"
  then show "\<exists>s1. tunnel_resume s fl Received now = Some (if a = ''discard'' then Finished [Status 204] else Ready fl, s1)
           \<and> client_at s1 = client_at s \<and> fmlookup (paused s1) (pr_ID (fl_pending fl)) = None"
    by (auto simp: tunnel_resume_def deletePausedRequest_def recordRequest_def Let_def)
qed

definition demo_paused :: relay where
  "demo_paused = snd (addBreakpoint demo_connected \<lparr>bq_TunnelID = ''t1'', bq_Method = ''get'', bq_PathPrefix = ''/'', bq_HeaderName = [], bq_HeaderValue = [],
     bq_CreatedBy = ''ann''\<rparr> (\<lambda>_. 5))"

theorem breakpoints_hold_requests_witness:
  "\<exists>bp. matchBreakpoint demo_paused demo_pending = Some bp \<and> bp_holds demo_pending bp
     \<and> client_at (snd (tunnel_begin demo_paused (demo_visitor ''10.0.0.1:5'') ''app'' ''/'' (\<lambda>_. 5) [''client-5''] [])) = client_at demo_paused
     \<and> (\<exists>s1. tunnel_resume (demo_paused\<lparr>action_chan := (\<lambda>_. [''discard''])\<rparr>)
             \<lparr>fl_pending = demo_pending, fl_client = 0, fl_chan = 1, fl_action = Some 2, fl_start = 5\<rparr> Received 9 = Some (Finished [Status 204], s1))"
proof -
  have t: "TrimSpace ''t1'' = ''t1''" "TrimSpace ''ann'' = ''ann''" by (rule TrimSpace_visible; simp add: visible_def)+
  have c: "ToUpper ''get'' = ''GET''" "ToUpper ''GET'' = ''GET''" "CanonicalHeaderKey [] = []" by code_simp+
  have pen: "pr_TunnelID demo_pending = ''t1''" "pr_Method demo_pending = ''GET''" "pr_Path demo_pending = ''/''"
    by (simp_all add: demo_pending_def make_pending_def demo_lease_def demo_poll_def demo_http_def)
  have "breakpoints demo_connected = fmempty" using demo_connected_state(1) by (simp add: demo_open_def)
  then obtain bp where bp: "breakpoints_of demo_paused ''t1'' = [bp]" "bp_holds demo_pending bp"
    unfolding demo_paused_def using t c pen by (simp add: addBreakpoint_def breakpoints_of_def bp_holds_def relay_frame Let_def)
  note main = breakpoints_hold_requests [where r = "demo_visitor ''10.0.0.1:5''" and sub = "''app''" and path = "''/''" and clk = "\<lambda>_. 5" and ?ks1.0 = "[''client-5'']"
      and ?ks2.0 = "[]" and ch = 2 and a = "''discard''" and acts = "[]" and now = 9
      and fl = "\<lparr>fl_pending = demo_pending, fl_client = 0, fl_chan = 1, fl_action = Some 2, fl_start = 5\<rparr>"]
  obtain out s' where b: "tunnel_begin demo_paused (demo_visitor ''10.0.0.1:5'') ''app'' ''/'' (\<lambda>_. 5) [''client-5''] [] = (out, s')" by fastforce
  from main [of demo_paused demo_pending out s'] bp b pen have "matchBreakpoint demo_paused demo_pending = Some bp" "client_at s' = client_at demo_paused" by simp_all
  moreover from main [of "demo_paused\<lparr>action_chan := (\<lambda>_. [''discard''])\<rparr>" demo_pending undefined undefined]
  have "\<exists>s1. tunnel_resume (demo_paused\<lparr>action_chan := (\<lambda>_. [''discard''])\<rparr>)
     \<lparr>fl_pending = demo_pending, fl_client = 0, fl_chan = 1, fl_action = Some 2, fl_start = 5\<rparr> Received 9 = Some (Finished [Status 204], s1)" by auto
  ultimately show ?thesis using b bp by auto
qed

subsection \<open>Collaboration sessions\<close>

text \<open>Every invitation leads to a session; sessions are stored under their identifiers, begin with their owner and name nobody twice.\<close>

definition session_ok :: "collaboration_session \<Rightarrow> bool" where
  "session_ok c \<longleftrightarrow> (\<exists>p ps. Participants c = p # ps \<and> pa_Name p = Owner c \<and> pa_Role p = ''owner'') \<and> distinct (map pa_Name (Participants c))"

definition collab_invar :: "relay \<Rightarrow> bool" where
  "collab_invar s \<longleftrightarrow> (\<forall>t i. fmlookup (invites s) t = Some i \<longrightarrow> fmlookup (collab_sessions s) i \<noteq> None)
     \<and> (\<forall>i c. fmlookup (collab_sessions s) i = Some c \<longrightarrow> co_ID c = i \<and> session_ok c)"

datatype collab_op =
    C_Create "webhook_event \<Rightarrow> byte list option" create_session_request "nat \<Rightarrow> time" "string list" "string list"
  | C_Join join_session_request "nat \<Rightarrow> time"
  | C_Annotate annotate_request "nat \<Rightarrow> time"
  | C_Breakpoint create_breakpoint_request "nat \<Rightarrow> time"
  | C_Resolve pause_action_request "nat \<Rightarrow> time"
  | C_Replay replay_request "nat \<Rightarrow> time" "string list"
  | C_Register "webhook_event \<Rightarrow> byte list option" http_request "string option" "string \<Rightarrow> lease_answer" "int option" "(bool \<times> bool) option" "nat \<Rightarrow> time"

fun collab_exec :: "relay \<Rightarrow> collab_op \<Rightarrow> relay" where
  "collab_exec s (C_Create m req clk ks1 ks2) = snd (createSession m s req clk ks1 ks2)"
| "collab_exec s (C_Join req clk) = snd (joinSession s req clk)"
| "collab_exec s (C_Annotate req clk) = snd (addAnnotation s req clk)"
| "collab_exec s (C_Breakpoint req clk) = snd (addBreakpoint s req clk)"
| "collab_exec s (C_Resolve req clk) = snd (resolvePausedRequest s req clk)"
| "collab_exec s (C_Replay req clk ks) = snd (replayRequest s req clk ks)"
| "collab_exec s (C_Register m r body broker listen manager clk) = snd (handleRegisterClient m s r body broker listen manager clk)"

lemma collab_invar_same: "collab_sessions s' = collab_sessions s \<Longrightarrow> invites s' = invites s \<Longrightarrow> collab_invar s \<Longrightarrow> collab_invar s'"
  by (simp add: collab_invar_def)

lemma createSession_invar: "collab_invar s \<Longrightarrow> collab_invar (snd (createSession m s req clk ks1 ks2))"
  by (auto simp: createSession_def collab_invar_def session_ok_def Let_def relay_frame split: option.splits)

lemma joinSession_cases:
  assumes "collab_invar s"
  obtains (refused) e where "joinSession s req clk = (Inl e, s)" "e = Token_And_Name_Required \<or> e = Invite_Not_Found"
  | (joined) c out s' where "joinSession s req clk = (Inr out, s')" "fmlookup (collab_sessions s) (co_ID out) = Some c" "session_ok c" "session_ok out"
      "jq_Name req \<in> set (map pa_Name (Participants out))" "set (map pa_Name (Participants c)) \<subseteq> set (map pa_Name (Participants out))" "Owner out = Owner c"
      "s' = s \<or> collab_sessions s' = fmupd (co_ID out) out (collab_sessions s) \<and> invites s' = invites s"
      "jq_Name req \<in> set (map pa_Name (Participants c)) \<Longrightarrow> s' = s \<and> out = c"
proof (cases "TrimSpace (jq_Token req) = [] \<or> TrimSpace (jq_Name req) = [] \<or> fmlookup (invites s) (jq_Token req) = None")
  case True
  then have "joinSession s req clk = (Inl Token_And_Name_Required, s) \<or> joinSession s req clk = (Inl Invite_Not_Found, s)"
    by (auto simp: joinSession_def)
  with refused show thesis by blast
next
  case False
  then obtain i where i: "fmlookup (invites s) (jq_Token req) = Some i" by auto
  then obtain c where c: "fmlookup (collab_sessions s) i = Some c" "co_ID c = i" "session_ok c" using assms unfolding collab_invar_def by blast
  show thesis
  proof (cases "list_ex (\<lambda>p. pa_Name p = jq_Name req) (Participants c)")
    case True
    with False i c have "joinSession s req clk = (Inr c, s)" by (simp add: joinSession_def)
    moreover from True have "jq_Name req \<in> set (map pa_Name (Participants c))" by (force simp: list_ex_iff)
    ultimately show thesis using c by (intro joined [of c s c]) simp_all
  next
    case new: False
    from False i c new have j: "\<exists>out s'. joinSession s req clk = (Inr out, s') \<and> co_ID out = i \<and> Owner out = Owner c
        \<and> (\<exists>p. pa_Name p = jq_Name req \<and> Participants out = Participants c @ [p]) \<and> collab_sessions s' = fmupd i out (collab_sessions s) \<and> invites s' = invites s"
      by (simp add: joinSession_def Let_def)
    then obtain out s' p where o: "joinSession s req clk = (Inr out, s')" "co_ID out = i" "Owner out = Owner c" "pa_Name p = jq_Name req"
        "Participants out = Participants c @ [p]" "collab_sessions s' = fmupd i out (collab_sessions s)" "invites s' = invites s" by blast
    have "session_ok out" using c(3) new o(3-5) by (auto simp: session_ok_def list_ex_iff)
    with o c new show thesis by (intro joined [of out s' c]) (auto simp: list_ex_iff)
  qed
qed

lemma joinSession_invar:
  assumes "collab_invar s"
  shows "collab_invar (snd (joinSession s req clk))"
proof (rule joinSession_cases [OF assms, of req clk], goal_cases)
  case joined: (2 c out s')
  then consider "s' = s" | "collab_sessions s' = fmupd (co_ID out) out (collab_sessions s)" "invites s' = invites s" by blast
  then show ?thesis using assms joined(1,4) by cases (auto simp: collab_invar_def)
qed (use assms in simp)


lemma enqueueRequest_frame: "collab_sessions (snd (enqueueRequest s p ks)) = collab_sessions s" "invites (snd (enqueueRequest s p ks)) = invites s"
  by (simp_all add: enqueueRequest_def enqueueRequestToClient_def split: option.split)

lemma replayRequest_frame: "collab_sessions (snd (replayRequest s rq clk ks)) = collab_sessions s" "invites (snd (replayRequest s rq clk ks)) = invites s"
proof -
  have e: "collab_sessions (snd (case enqueueRequest s p ks of (False, s1) \<Rightarrow> (a, s1) | (True, s1) \<Rightarrow> (b, emitEvent s1 k m t r i pl t1 t2))) = collab_sessions s
      \<and> invites (snd (case enqueueRequest s p ks of (False, s1) \<Rightarrow> (a, s1) | (True, s1) \<Rightarrow> (b, emitEvent s1 k m t r i pl t1 t2))) = invites s"
    for p k m t r i pl t1 t2 and a b :: "phase2_error + pending_request"
    using enqueueRequest_frame [of s p ks] by (cases "enqueueRequest s p ks"; cases "fst (enqueueRequest s p ks)") (auto simp: relay_frame)
  show "collab_sessions (snd (replayRequest s rq clk ks)) = collab_sessions s" "invites (snd (replayRequest s rq clk ks)) = invites s"
    by (simp_all add: replayRequest_def Let_def e split: option.split)
qed

lemma registration_frame:
  "collab_sessions (snd (handleRegisterClient m s r body broker listen manager clk)) = collab_sessions s"
  "invites (snd (handleRegisterClient m s r body broker listen manager clk)) = invites s"
proof -
  have f: "collab_sessions (snd (ensureTCPTunnelListener t l c lo)) = collab_sessions t" "invites (snd (ensureTCPTunnelListener t l c lo)) = invites t"
    "collab_sessions (snd (ensureUDPTunnelListener t l c lo)) = collab_sessions t" "invites (snd (ensureUDPTunnelListener t l c lo)) = invites t"
    "collab_sessions (ensureManagedCertificate t l mg) = collab_sessions t" "invites (ensureManagedCertificate t l mg) = invites t"
    "collab_sessions (add_client t l c tok) = collab_sessions t" "invites (add_client t l c tok) = invites t" for t l c lo mg tok
    by (simp_all add: ensureTCPTunnelListener_def ensureUDPTunnelListener_def ensureManagedCertificate_def add_client_def Let_def split: option.split)
  show "collab_sessions (snd (handleRegisterClient m s r body broker listen manager clk)) = collab_sessions s"
    "invites (snd (handleRegisterClient m s r body broker listen manager clk)) = invites s"
    by (simp_all add: handleRegisterClient_def Let_def or_default relay_frame f split: option.split prod.split)
qed

lemma collab_exec_invar: "collab_invar s \<Longrightarrow> collab_invar (collab_exec s c)"
proof (cases c)
  case (C_Resolve req clk)
  then show "collab_invar s \<Longrightarrow> ?thesis" by (auto simp: resolvePausedRequest_def relay_frame elim!: collab_invar_same [rotated 2] split: option.split)
next
  case (C_Annotate req clk)
  then show "collab_invar s \<Longrightarrow> ?thesis" by (auto simp: addAnnotation_def Let_def relay_frame elim!: collab_invar_same [rotated 2])
next
  case (C_Breakpoint req clk)
  then show "collab_invar s \<Longrightarrow> ?thesis" by (auto simp: addBreakpoint_def Let_def relay_frame elim!: collab_invar_same [rotated 2])
qed (auto simp: createSession_invar joinSession_invar replayRequest_frame registration_frame elim!: collab_invar_same [rotated 2])

interpretation collaboration: op_system collab_exec collab_invar
  by unfold_locales (rule collab_exec_invar)

text \<open>
  C26: collaboration sessions. Whatever sequence of registrations, sessions, invitations, annotations, breakpoints
  and replays a new relay serves: every session begins with its owner and names nobody twice, and an invitation
  always leads to a session, so that joining never fails on a missing one. Somebody who joins is a participant
  afterwards, nobody is lost, and joining again changes nothing. A session is opened only on a tunnel whose lease
  and whose plugins allow sharing.
\<close>

theorem collaboration_sessions_sound:
  assumes "relay_New ra = Inr s0" "s = foldl collab_exec s0 ops"
  shows "(\<forall>i c. fmlookup (collab_sessions s) i = Some c \<longrightarrow> co_ID c = i \<and> pa_Name (hd (Participants c)) = Owner c \<and> distinct (map pa_Name (Participants c)))
    \<and> fst (joinSession s jq clk) \<noteq> Inl (Panics Nil_Dereference)
    \<and> (fst (joinSession s jq clk) = Inr out \<longrightarrow> jq_Name jq \<in> set (map pa_Name (Participants out))
         \<and> (\<exists>c. fmlookup (collab_sessions s) (co_ID out) = Some c \<and> set (map pa_Name (Participants c)) \<subseteq> set (map pa_Name (Participants out))
              \<and> (jq_Name jq \<in> set (map pa_Name (Participants c)) \<longrightarrow> joinSession s jq clk = (Inr c, s))))
    \<and> (fst (createSession marshal s cq clk ks1 ks2) = Inr c \<longrightarrow>
         le_AllowSharing (findLeaseByTunnelID s (co_TunnelID c) ks2) \<and> AllowSharing (plugins s) (findLeaseByTunnelID s (co_TunnelID c) ks2))"
proof -
  have "collab_invar s0" by (rule relay_New_Inr [of ra]) (use assms(1) in \<open>simp add: collab_invar_def\<close>)
  then have inv: "collab_invar s" unfolding assms(2) by (rule collaboration.run_invar)
  have "fst (createSession marshal s cq clk ks1 ks2) = Inr c \<longrightarrow>
      le_AllowSharing (findLeaseByTunnelID s (co_TunnelID c) ks2) \<and> AllowSharing (plugins s) (findLeaseByTunnelID s (co_TunnelID c) ks2)"
    by (auto simp: createSession_def Let_def split: option.splits if_splits)
  moreover have "\<forall>i c. fmlookup (collab_sessions s) i = Some c \<longrightarrow> co_ID c = i \<and> pa_Name (hd (Participants c)) = Owner c \<and> distinct (map pa_Name (Participants c))"
    using inv unfolding collab_invar_def session_ok_def by fastforce
  ultimately show ?thesis by - (rule joinSession_cases [OF inv, of jq clk]; auto)
qed

definition demo_create :: collab_op where
  "demo_create = C_Create (\<lambda>_. None) \<lparr>cq_TunnelID = ''t1'', cq_Subdomain = [], cq_Owner = ''ann'', InviteRole = []\<rparr> (\<lambda>_. 5) [''app''] [''app'']"

definition demo_register :: collab_op where
  "demo_register = C_Register (\<lambda>_. None) (demo_http ''POST'' None) (Some ''t1'') (\<lambda>_. Lease_Found demo_lease) None None (\<lambda>_. 5)"

definition demo_join :: join_session_request where
  "demo_join = \<lparr>jq_Token = ''invite-5'', jq_Name = ''bob'', jq_Role = []\<rparr>"

definition demo_shared :: relay where
  "demo_shared = foldl collab_exec demo_relay [demo_register, demo_create]"

lemma AllowSharing_not_production: "\<not> Production l \<Longrightarrow> AllowSharing ps l = le_AllowSharing l"
proof -
  assume "\<not> Production l"
  then have "AllowSharing_loop ps l b = b" for b by (induction ps arbitrary: b) auto
  then show ?thesis by (simp add: AllowSharing_def)
qed

lemma demo_lease_id: "le_ID demo_lease = ''t1''" and demo_lease_sharing: "le_AllowSharing demo_lease"
  by (simp_all add: demo_lease_def)

lemma demo_shared_invite: "fmlookup (invites demo_shared) ''invite-5'' \<noteq> None"
proof -
  have t: "TrimSpace ''ann'' = ''ann''" by (rule TrimSpace_visible; simp add: visible_def)
  have d: "dec 5 = ''5''" by code_simp
  have l: "fmlookup (tunnels demo_connected) ''app'' = Some demo_lease" using demo_connected_state(1) by (simp add: demo_open_def)
  have p: "AllowSharing ps demo_lease" for ps by (simp add: AllowSharing_not_production demo_lease_def)
  have e: "demo_shared = collab_exec demo_connected demo_create" by (simp add: demo_shared_def demo_register_def demo_connected_def)
  show ?thesis unfolding e using t l p d
    by (simp add: demo_create_def createSession_def resolveTunnelIdentity_def findLeaseByTunnelID_def demo_lease_id demo_lease_sharing Let_def relay_frame)
qed

theorem collaboration_sessions_sound_witness:
  "\<exists>out. fst (joinSession demo_shared demo_join (\<lambda>_. 6)) = Inr out \<and> ''bob'' \<in> set (map pa_Name (Participants out))"
proof -
  have t: "TrimSpace ''invite-5'' = ''invite-5''" "TrimSpace ''bob'' = ''bob''" by (rule TrimSpace_visible; simp add: visible_def)+
  from collaboration_sessions_sound [OF demo_relay_New demo_shared_def, of demo_join "\<lambda>_. 6"]
  have np: "fst (joinSession demo_shared demo_join (\<lambda>_. 6)) \<noteq> Inl (Panics Nil_Dereference)" by blast
  obtain out where "fst (joinSession demo_shared demo_join (\<lambda>_. 6)) = Inr out"
    using t np demo_shared_invite by (auto simp: joinSession_def demo_join_def Let_def split: option.splits if_splits)
  moreover from collaboration_sessions_sound [OF demo_relay_New demo_shared_def, of demo_join "\<lambda>_. 6" out] this
  have "''bob'' \<in> set (map pa_Name (Participants out))" by (simp add: demo_join_def)
  ultimately show ?thesis by blast
qed

subsection \<open>Event streams\<close>

text \<open>Subscribed channels are distinct, have been created, and are open.\<close>

definition streams_ok :: "relay \<Rightarrow> bool" where
  "streams_ok s \<longleftrightarrow> distinct (subscribers s) \<and> (\<forall>c \<in> set (subscribers s) \<union> event_closed s. c < next_cell s) \<and> set (subscribers s) \<inter> event_closed s = {}"

lemma emit_send_open:
  assumes "distinct cs" "set cs \<inter> event_closed s = {}"
  shows "crashed (emit_send s e cs) = crashed s"
    and "event_chan (emit_send s e cs) c = (if c \<in> set cs \<and> length (event_chan s c) < 16 then event_chan s c @ [e] else event_chan s c)"
  using assms by (induction cs arbitrary: s) auto

lemma emit_send_closed:
  assumes "c \<in> set cs" "c \<in> event_closed s"
  shows "crashed (emit_send s e cs) = Some Send_On_Closed_Channel"
  using assms by (induction cs arbitrary: s) auto

lemma emitEvent_streams_ok: "streams_ok (emitEvent s k m t r i p t1 t2) = streams_ok s"
  by (simp add: streams_ok_def relay_frame)

lemma open_streams_ok: "handleDashboardEvents_open ord s r now fl = (ws, Some (c, hist), s') \<Longrightarrow> streams_ok s \<Longrightarrow> streams_ok s' \<and> c \<in> set (subscribers s')"
proof -
  assume a: "handleDashboardEvents_open ord s r now fl = (ws, Some (c, hist), s')" "streams_ok s"
  obtain ws1 u s1 where d: "authorizeDashboard ord s r now = (ws1, u, s1)" by (metis prod.collapse)
  have "subscribers s1 = subscribers s \<and> event_closed s1 = event_closed s \<and> next_cell s1 = next_cell s"
    using d authorizePermission_state [of s r "''dashboard:access''" now]
    by (auto simp: authorizeDashboard_def Let_def split: prod.splits sum.splits if_splits option.splits)
  with a d show ?thesis by (auto simp: handleDashboardEvents_open_def streams_ok_def Let_def less_Suc_eq split: option.splits if_splits)
qed

lemma leave_streams_ok: "streams_ok s \<Longrightarrow> c < next_cell s \<Longrightarrow> streams_ok (events_close (events_leave s c) c)"
  by (auto simp: streams_ok_def events_close_def events_leave_def)

text \<open>
  The event streams of the dashboard. An event reaches the channel of every viewer that has room, in order,
  and the 100 newest are kept, as long as sending it is not interrupted by a viewer that leaves. But an event is
  sent after the lock is released: when a viewer leaves after its channel has been copied, the send panics on the
  closed channel. In the goroutine that announces each completed request nothing recovers the panic, and the relay
  ends.
\<close>

theorem event_streams:
  assumes "streams_ok s" "e = next_event s kind message tunnelID requestID sessionID payload t1 t2"
  shows "crashed (emitEvent s kind message tunnelID requestID sessionID payload t1 t2) = crashed s
    \<and> events (emitEvent s kind message tunnelID requestID sessionID payload t1 t2) = take 100 (e # events s)
    \<and> streams_ok (emitEvent s kind message tunnelID requestID sessionID payload t1 t2)
    \<and> (\<forall>c \<in> set (subscribers s). event_chan (emitEvent s kind message tunnelID requestID sessionID payload t1 t2) c =
         event_chan s c @ (if length (event_chan s c) < 16 then [e] else []))
    \<and> (c \<in> set (subscribers s) \<and> emit_begin s e = (subs, s1) \<longrightarrow>
         streams_ok (events_close (events_leave s1 c) c)
         \<and> crashed (emit_send (events_close (events_leave s1 c) c) e subs) = Some Send_On_Closed_Channel)"
proof -
  let ?s = "s\<lparr>events := take 100 (e # events s)\<rparr>"
  have e: "emitEvent s kind message tunnelID requestID sessionID payload t1 t2 = emit_send ?s e (subscribers s)"
    by (simp add: emitEvent_def emit_begin_def assms(2) Let_def)
  have ok: "distinct (subscribers s)" "set (subscribers s) \<inter> event_closed ?s = {}" "streams_ok ?s" using assms(1) by (auto simp: streams_ok_def)
  have "streams_ok (events_close (events_leave s1 c) c) \<and> crashed (emit_send (events_close (events_leave s1 c) c) e subs) = Some Send_On_Closed_Channel"
    if "c \<in> set (subscribers s) \<and> emit_begin s e = (subs, s1)"
  proof -
    from that have "subs = subscribers s" "s1 = ?s" by (auto simp: emit_begin_def)
    with that ok(3) leave_streams_ok [of ?s c] emit_send_closed [of c subs "events_close (events_leave s1 c) c" e] show ?thesis
      by (auto simp: streams_ok_def events_close_def)
  qed
  then show ?thesis using emit_send_open [OF ok(1,2)] ok(3) emitEvent_streams_ok assms(1) unfolding e
    by (auto simp: relay_frame streams_ok_def)
qed


definition demo_viewed :: relay where
  "demo_viewed = demo_relay\<lparr>next_cell := 3, subscribers := [1, 2], event_closed := {0}\<rparr>"

theorem event_streams_witness:
  "crashed (emitEvent demo_viewed ''request_completed'' [] [] [] [] (P_Lease demo_lease) 5 5) = None
   \<and> (\<exists>subs s1. emit_begin demo_viewed (next_event demo_viewed ''request_completed'' [] [] [] [] (P_Lease demo_lease) 5 5) = (subs, s1)
        \<and> crashed (emit_send (events_close (events_leave s1 1) 1) (next_event demo_viewed ''request_completed'' [] [] [] [] (P_Lease demo_lease) 5 5) subs)
          = Some Send_On_Closed_Channel)"
proof -
  let ?e = "next_event demo_viewed ''request_completed'' [] [] [] [] (P_Lease demo_lease) 5 5"
  have ok: "streams_ok demo_viewed" by (simp add: streams_ok_def demo_viewed_def)
  obtain s where "relay_New demo_relay_args = Inr s" "crashed s = None" by (rule relay_New_Inr)
  with demo_relay_New have c: "crashed demo_viewed = None" by (simp add: demo_viewed_def)
  have m: "1 \<in> set (subscribers demo_viewed)" by (simp add: demo_viewed_def)
  obtain subs s1 where b: "emit_begin demo_viewed ?e = (subs, s1)" by fastforce
  from event_streams [OF ok refl, where c = 1] b c m show ?thesis by metis
qed

subsection \<open>Lost messages\<close>

text \<open>
  A replayed request is handed to the client but never registered: the client's answer to it is refused with
  404, over QUIC silently.
\<close>

theorem replayed_answers_are_refused:
  assumes "replayRequest s req clk ks = (Inr p, s1)" "fmlookup (requests s) (pr_ID p) = None" "sr_RequestID resp = pr_ID p" "hr_Method r = ''POST''"
  shows "handleSubmitResponse s1 r (Some resp) = ([Failed 404 ''request not found''], s1) \<and> handleQUICMessage s1 (Quic_Response (Some resp)) qs ok = s1"
proof -
  have "requests s1 = requests s" using replayRequest_quiet [of s req clk ks] assms(1) by (simp add: quiet_def)
  with assms(2-4) show ?thesis by (simp add: handleSubmitResponse_def handleQUICMessage_def)
qed

text \<open>
  A request forwarded over a QUIC connection that has broken is lost: it counts as forwarded, the sender takes it
  and fails, and closing the connection does not put it into the queue that the client polls.
\<close>

theorem broken_quic_loses_request:
  assumes "c = fl_client fl" "QUICUp (client_at s c)" "QUICSend (client_at s c) = []" "tunnel_forward s fl t1 t2 = (out, s1)"
    and "quic_sender s1 c False = Some (m, b, s2)"
  shows "out = None \<and> m = Msg_Request ''http_request'' (c_ID (client_at s c)) (fl_pending fl) \<and> b = False
    \<and> QUICSend (client_at (handleQUICConn_close s2 c) c) = [] \<and> Queue (client_at (handleQUICConn_close s2 c) c) = Queue (client_at s c)"
  using assms by (auto simp: tunnel_forward_def sendHTTPToClient_def send_quic_def quic_sender_def handleQUICConn_close_def set_quic_def relay_frame)

text \<open>
  A reply to a datagram leaves by the socket that the relay visits first, not by the one the datagram came
  to: with two UDP tunnels the visitor of the second may be answered from the port of the first.
\<close>

theorem udp_reply_leaves_by_any_socket:
  assumes "fmlookup (sockets (udp s)) other = Some port" "fmlookup (peers (udp s)) (uk_ConnectionID chunk) = Some peer" "uk_Payload chunk \<noteq> []"
    and "hr_Method r = ''POST''"
  shows "udp_sent (udp (snd (handleUDPChunk s r (Some chunk) (other # ks) True))) = udp_sent (udp s) @ [(port, peer, uk_Payload chunk)]"
  using assms by (simp add: handleUDPChunk_def post_only_def decoded_def any_socket_def write_to_def List.map_filter_simps)

text \<open>
  A client that registers again for a TCP tunnel, whose listener is still open, gets no queue: the relay goes on
  queueing the events for the identifier of the former registration, and polling answers 204 for ever.
\<close>

theorem reregistered_tcp_client_gets_no_events:
  assumes "fmlookup (listeners (tcp s)) (le_ID l) = Some port" "fmlookup (tcp_queues (tcp s)) clientID = None" "hr_Query r ''client_id'' = clientID"
  shows "ensureTCPTunnelListener s l clientID lo = (Some port, s) \<and> handleNextTCPEvent s r ending = Some ([Status 204], s)"
  using assms by (simp add: ensureTCPTunnelListener_def handleNextTCPEvent_def)

end
