(* ===== verification/Dns_Providers.thy ===== *)
theory Dns_Providers
  imports Domains
begin

section \<open>DNS providers\<close>

text \<open>
  Model of \<open>GoTunnel/internal/dns\<close>: the providers that keep records in memory (\<open>providers.go\<close>), the HTTP clients of
  Cloudflare and DigitalOcean (\<open>cloudflare.go\<close>, \<open>digitalocean.go\<close>) and the registry (\<open>registry_config.go\<close>). The
  services themselves are an argument: a function from the state of the service and a call to the reply and the
  new state. A reply carries its body as the JSON package decodes it, or \<open>None\<close> when it does not decode.
\<close>

subsection \<open>Records in memory\<close>

record dns_entry = dns_record +
  ent_Priority :: int
  ent_ZoneID :: string
  ent_RecordID :: string
  ent_CreatedAt :: time
  ent_UpdatedAt :: time

type_synonym record_book = "(string, dns_entry list) fmap"

definition book_key :: "string \<Rightarrow> string \<Rightarrow> string \<Rightarrow> string" where
  "book_key zone name typ = zone @ '':'' @ name @ '':'' @ typ"

definition book_get :: "record_book \<Rightarrow> string \<Rightarrow> dns_entry list" where
  "book_get b key = (case fmlookup b key of Some es \<Rightarrow> es | None \<Rightarrow> [])"

text \<open>The manual and the memory provider differ in the prefix of their identifiers only: \<open>manual-\<close> and \<open>mem-\<close>.\<close>

definition book_CreateRecord :: "string \<Rightarrow> record_book \<Rightarrow> string \<Rightarrow> dns_entry \<Rightarrow> (nat \<Rightarrow> time) \<Rightarrow> dns_entry \<times> record_book" where
  "book_CreateRecord prefix b zone rec clk =
     (let rec = rec\<lparr>ent_RecordID := prefix @ dec (clk 0), ent_CreatedAt := clk 1, ent_UpdatedAt := clk 2\<rparr>;
          key = book_key zone (rec_Name rec) (rec_Type rec)
      in (rec, fmupd key (book_get b key @ [rec]) b))"

definition book_UpdateRecord :: "record_book \<Rightarrow> string \<Rightarrow> dns_entry \<Rightarrow> time \<Rightarrow> record_book" where
  "book_UpdateRecord b zone rec now =
     fmupd (book_key zone (rec_Name rec) (rec_Type rec)) [rec\<lparr>ent_UpdatedAt := now\<rparr>] b"

text \<open>The loop visits every list of the map; lists that become empty are removed. Its order makes no difference.\<close>

definition book_DeleteRecord :: "record_book \<Rightarrow> string \<Rightarrow> record_book" where
  "book_DeleteRecord b recordID =
     fmmap_keys (\<lambda>_ es. filter (\<lambda>e. ent_RecordID e \<noteq> recordID) es)
       (fmfilter (\<lambda>key. filter (\<lambda>e. ent_RecordID e \<noteq> recordID) (book_get b key) \<noteq> []) b)"

definition book_GetRecords :: "record_book \<Rightarrow> string \<Rightarrow> string \<Rightarrow> string \<Rightarrow> dns_entry list" where
  "book_GetRecords b zone name typ = book_get b (book_key zone name typ)"

definition manual_GetZones :: "time \<Rightarrow> dns_zone list" where
  "manual_GetZones now = [\<lparr>z_ID = ''manual'', z_Name = ''manual'', z_Provider = ''manual'', z_Status = ''active'', z_CreatedAt = now\<rparr>]"

definition memory_GetZones :: "time \<Rightarrow> dns_zone list" where
  "memory_GetZones now = [\<lparr>z_ID = ''memory'', z_Name = ''memory.local'', z_Provider = ''memory'', z_Status = ''active'', z_CreatedAt = now\<rparr>]"

abbreviation challenge_name :: "string \<Rightarrow> string" where
  "challenge_name domain \<equiv> ''_acme-challenge.'' @ domain"

definition new_entry :: "string \<Rightarrow> string \<Rightarrow> string \<Rightarrow> dns_entry" where
  "new_entry typ name value = \<lparr>rec_Type = typ, rec_Name = name, rec_Value = value, rec_TTL = 60, ent_Priority = 0, ent_ZoneID = [],
     ent_RecordID = [], ent_CreatedAt = zero_time, ent_UpdatedAt = zero_time\<rparr>"

definition memory_CreateChallengeRecord :: "record_book \<Rightarrow> string \<Rightarrow> string \<Rightarrow> (nat \<Rightarrow> time) \<Rightarrow> record_book" where
  "memory_CreateChallengeRecord b domain keyAuth clk =
     snd (book_CreateRecord ''mem-'' b ''memory.local''
       ((new_entry ''TXT'' (challenge_name domain) keyAuth)\<lparr>ent_CreatedAt := clk 3, ent_UpdatedAt := clk 4\<rparr>) clk)"

definition memory_DeleteChallengeRecord :: "record_book \<Rightarrow> string \<Rightarrow> record_book" where
  "memory_DeleteChallengeRecord b domain = fmdrop (book_key ''memory.local'' (challenge_name domain) ''TXT'') b"

subsection \<open>Calls of the services\<close>

text \<open>A call as far as it matters: query parameters are kept apart from the path, the body is a record.\<close>

record api_call =
  ac_Method :: string
  ac_Path :: string
  ac_Query :: "(string \<times> string) list"
  ac_Body :: "dns_record option"
  ac_Token :: string

datatype api_body =
    Cf_Zones "(string \<times> string) list"
  | Cf_Records "(string \<times> dns_record) list"
  | Cf_Result bool string
  | Do_Domains "string list"
  | Do_Records "(int \<times> dns_record) list"
  | Do_Created int

datatype api_reply = No_Reply string | Reply nat string "api_body option"

datatype dns_error =
    Call_Failed string
  | API_Failed string string string
  | Undecodable_Reply
  | Create_Record_Failed
  | Zone_Not_Found string
  | Record_ID_Required
  | DNS_Provider_Not_Found string

type_synonym 's dns_api = "'s \<Rightarrow> api_call \<Rightarrow> api_reply \<times> 's"

text \<open>\<open>wanted\<close> says whether the reply is decoded.\<close>

definition request :: "'s dns_api \<Rightarrow> 's \<Rightarrow> api_call \<Rightarrow> bool \<Rightarrow> (dns_error + api_body option) \<times> 's" where
  "request api st call wanted =
     (case api st call of
        (No_Reply e, st1) \<Rightarrow> (Inl (Call_Failed e), st1)
      | (Reply status text body, st1) \<Rightarrow>
          if status \<ge> 300 then (Inl (API_Failed (ac_Method call) (ac_Path call) (TrimSpace text)), st1)
          else if \<not> wanted then (Inr None, st1)
          else (case body of None \<Rightarrow> (Inl Undecodable_Reply, st1) | Some b \<Rightarrow> (Inr (Some b), st1)))"

text \<open>Fields that a reply does not have are left at their zero values.\<close>

fun cf_zones :: "api_body option \<Rightarrow> (string \<times> string) list" where
  "cf_zones (Some (Cf_Zones zs)) = zs"
| "cf_zones _ = []"

fun cf_records :: "api_body option \<Rightarrow> (string \<times> dns_record) list" where
  "cf_records (Some (Cf_Records rs)) = rs"
| "cf_records _ = []"

fun cf_result :: "api_body option \<Rightarrow> bool \<times> string" where
  "cf_result (Some (Cf_Result ok i)) = (ok, i)"
| "cf_result _ = (False, [])"

fun do_domains :: "api_body option \<Rightarrow> string list" where
  "do_domains (Some (Do_Domains ds)) = ds"
| "do_domains _ = []"

fun do_records :: "api_body option \<Rightarrow> (int \<times> dns_record) list" where
  "do_records (Some (Do_Records rs)) = rs"
| "do_records _ = []"

fun do_created :: "api_body option \<Rightarrow> int" where
  "do_created (Some (Do_Created i)) = i"
| "do_created _ = 0"

text \<open>\<open>strings.EqualFold\<close> on names of ASCII characters.\<close>

definition EqualFold :: "string \<Rightarrow> string \<Rightarrow> bool" where
  "EqualFold a b \<longleftrightarrow> ToLower a = ToLower b"

fun containsZone :: "string list \<Rightarrow> string \<Rightarrow> bool" where
  "containsZone [] zone = False"
| "containsZone (candidate # zs) zone = (if EqualFold (TrimSuffix candidate ''.'') (TrimSuffix zone ''.'') then True else containsZone zs zone)"

record http_provider =
  hp_Token :: string
  hp_Zones :: "string list"

text \<open>The zones of a reply that the provider is configured for, each with a clock reading of its own.\<close>

fun listed_zones :: "string list \<Rightarrow> string \<Rightarrow> (string \<times> string) list \<Rightarrow> (nat \<Rightarrow> time) \<Rightarrow> nat \<Rightarrow> dns_zone list" where
  "listed_zones configured provider [] clk n = []"
| "listed_zones configured provider ((i, name) # rs) clk n =
     (if configured \<noteq> [] \<and> \<not> containsZone configured name then listed_zones configured provider rs clk n
      else \<lparr>z_ID = i, z_Name = name, z_Provider = provider, z_Status = ''active'', z_CreatedAt = clk n\<rparr>
           # listed_zones configured provider rs clk (n + 1))"

subsection \<open>Cloudflare\<close>

definition NewCloudflareProvider :: "string \<Rightarrow> string list \<Rightarrow> http_provider" where
  "NewCloudflareProvider apiToken zones = \<lparr>hp_Token = TrimSpace apiToken, hp_Zones = zones\<rparr>"

definition cf_call :: "http_provider \<Rightarrow> string \<Rightarrow> string \<Rightarrow> (string \<times> string) list \<Rightarrow> dns_record option \<Rightarrow> api_call" where
  "cf_call p meth path query body = \<lparr>ac_Method = meth, ac_Path = path, ac_Query = query, ac_Body = body, ac_Token = hp_Token p\<rparr>"

definition cf_GetZones :: "'s dns_api \<Rightarrow> http_provider \<Rightarrow> 's \<Rightarrow> (nat \<Rightarrow> time) \<Rightarrow> (dns_error + dns_zone list) \<times> 's" where
  "cf_GetZones api p st clk =
     (let query = (if length (hp_Zones p) = 1 then [(''name'', hp_Zones p ! 0)] else [])
      in case request api st (cf_call p ''GET'' ''/zones'' query None) True of
           (Inl e, st1) \<Rightarrow> (Inl e, st1)
         | (Inr body, st1) \<Rightarrow> (Inr (listed_zones (hp_Zones p) ''cloudflare'' (cf_zones body) clk 0), st1))"

definition resolveZoneID :: "'s dns_api \<Rightarrow> http_provider \<Rightarrow> 's \<Rightarrow> string \<Rightarrow> (nat \<Rightarrow> time) \<Rightarrow> (dns_error + string) \<times> 's" where
  "resolveZoneID api p st zone clk =
     (case cf_GetZones api p st clk of
        (Inl e, st1) \<Rightarrow> (Inl e, st1)
      | (Inr zones, st1) \<Rightarrow>
          (case find (\<lambda>z. EqualFold (TrimSuffix (z_Name z) ''.'') (TrimSuffix zone ''.'')) zones of
             None \<Rightarrow> (Inl (Zone_Not_Found zone), st1)
           | Some z \<Rightarrow> (Inr (z_ID z), st1)))"

definition sent_record :: "dns_entry \<Rightarrow> dns_record" where
  "sent_record rec = \<lparr>rec_Type = rec_Type rec, rec_Name = rec_Name rec, rec_Value = rec_Value rec, rec_TTL = rec_TTL rec\<rparr>"

definition cf_CreateRecord :: "'s dns_api \<Rightarrow> http_provider \<Rightarrow> 's \<Rightarrow> string \<Rightarrow> dns_entry \<Rightarrow> (nat \<Rightarrow> time) \<Rightarrow> time \<Rightarrow> (dns_error + dns_entry) \<times> 's" where
  "cf_CreateRecord api p st zone rec clk now =
     (case resolveZoneID api p st zone clk of
        (Inl e, st1) \<Rightarrow> (Inl e, st1)
      | (Inr zoneID, st1) \<Rightarrow>
          (case request api st1 (cf_call p ''POST'' (''/zones/'' @ zoneID @ ''/dns_records'') [] (Some (sent_record rec))) True of
             (Inl e, st2) \<Rightarrow> (Inl e, st2)
           | (Inr body, st2) \<Rightarrow>
               (case cf_result body of
                  (False, _) \<Rightarrow> (Inl Create_Record_Failed, st2)
                | (True, i) \<Rightarrow> (Inr (rec\<lparr>ent_ZoneID := zoneID, ent_RecordID := i, ent_CreatedAt := now, ent_UpdatedAt := now\<rparr>), st2))))"

definition cf_UpdateRecord :: "'s dns_api \<Rightarrow> http_provider \<Rightarrow> 's \<Rightarrow> string \<Rightarrow> dns_entry \<Rightarrow> (nat \<Rightarrow> time) \<Rightarrow> dns_error option \<times> 's" where
  "cf_UpdateRecord api p st zone rec clk =
     (case resolveZoneID api p st zone clk of
        (Inl e, st1) \<Rightarrow> (Some e, st1)
      | (Inr zoneID, st1) \<Rightarrow>
          if ent_RecordID rec = [] then (Some Record_ID_Required, st1)
          else (case request api st1 (cf_call p ''PUT'' (''/zones/'' @ zoneID @ ''/dns_records/'' @ ent_RecordID rec) [] (Some (sent_record rec))) True of
                  (Inl e, st2) \<Rightarrow> (Some e, st2)
                | (Inr _, st2) \<Rightarrow> (None, st2)))"

definition cf_DeleteRecord :: "'s dns_api \<Rightarrow> http_provider \<Rightarrow> 's \<Rightarrow> string \<Rightarrow> string \<Rightarrow> (nat \<Rightarrow> time) \<Rightarrow> dns_error option \<times> 's" where
  "cf_DeleteRecord api p st zone recordID clk =
     (case resolveZoneID api p st zone clk of
        (Inl e, st1) \<Rightarrow> (Some e, st1)
      | (Inr zoneID, st1) \<Rightarrow>
          (case request api st1 (cf_call p ''DELETE'' (''/zones/'' @ zoneID @ ''/dns_records/'' @ recordID) [] None) True of
             (Inl e, st2) \<Rightarrow> (Some e, st2)
           | (Inr _, st2) \<Rightarrow> (None, st2)))"

definition entry_of :: "string \<Rightarrow> string \<Rightarrow> dns_record \<Rightarrow> dns_entry" where
  "entry_of zoneID recordID r = \<lparr>rec_Type = rec_Type r, rec_Name = rec_Name r, rec_Value = rec_Value r, rec_TTL = rec_TTL r, ent_Priority = 0,
     ent_ZoneID = zoneID, ent_RecordID = recordID, ent_CreatedAt = zero_time, ent_UpdatedAt = zero_time\<rparr>"

text \<open>\<open>url.Values.Encode\<close> sorts the parameters.\<close>

definition cf_GetRecords :: "'s dns_api \<Rightarrow> http_provider \<Rightarrow> 's \<Rightarrow> string \<Rightarrow> string \<Rightarrow> string \<Rightarrow> (nat \<Rightarrow> time) \<Rightarrow> (dns_error + dns_entry list) \<times> 's" where
  "cf_GetRecords api p st zone name typ clk =
     (case resolveZoneID api p st zone clk of
        (Inl e, st1) \<Rightarrow> (Inl e, st1)
      | (Inr zoneID, st1) \<Rightarrow>
          (case request api st1 (cf_call p ''GET'' (''/zones/'' @ zoneID @ ''/dns_records'') [(''name'', name), (''type'', typ)] None) True of
             (Inl e, st2) \<Rightarrow> (Inl e, st2)
           | (Inr body, st2) \<Rightarrow> (Inr (map (\<lambda>(i, r). entry_of zoneID i r) (cf_records body)), st2)))"

definition cf_CreateChallengeRecord :: "'s dns_api \<Rightarrow> http_provider \<Rightarrow> 's \<Rightarrow> string \<Rightarrow> string \<Rightarrow> (nat \<Rightarrow> time) \<Rightarrow> time \<Rightarrow> dns_error option \<times> 's" where
  "cf_CreateChallengeRecord api p st domain keyAuth clk now =
     (case cf_GetZones api p st clk of
        (Inl e, st1) \<Rightarrow> (Some e, st1)
      | (Inr zones, st1) \<Rightarrow>
          (case FindZone domain zones of
             None \<Rightarrow> (Some (Zone_Not_Found domain), st1)
           | Some zone \<Rightarrow>
               (case cf_CreateRecord api p st1 (z_Name zone) (new_entry ''TXT'' (challenge_name (TrimSuffix domain ''.'')) keyAuth) clk now of
                  (Inl e, st2) \<Rightarrow> (Some e, st2)
                | (Inr _, st2) \<Rightarrow> (None, st2))))"

text \<open>The loop stops at the first record it cannot delete.\<close>

fun delete_all :: "('s \<Rightarrow> string \<Rightarrow> dns_error option \<times> 's) \<Rightarrow> 's \<Rightarrow> dns_entry list \<Rightarrow> dns_error option \<times> 's" where
  "delete_all del st [] = (None, st)"
| "delete_all del st (r # rs) = (case del st (ent_RecordID r) of (Some e, st1) \<Rightarrow> (Some e, st1) | (None, st1) \<Rightarrow> delete_all del st1 rs)"

definition cf_DeleteChallengeRecord :: "'s dns_api \<Rightarrow> http_provider \<Rightarrow> 's \<Rightarrow> string \<Rightarrow> (nat \<Rightarrow> time) \<Rightarrow> dns_error option \<times> 's" where
  "cf_DeleteChallengeRecord api p st domain clk =
     (case cf_GetZones api p st clk of
        (Inl e, st1) \<Rightarrow> (Some e, st1)
      | (Inr zones, st1) \<Rightarrow>
          (case FindZone domain zones of
             None \<Rightarrow> (Some (Zone_Not_Found domain), st1)
           | Some zone \<Rightarrow>
               (case cf_GetRecords api p st1 (z_Name zone) (challenge_name (TrimSuffix domain ''.'')) ''TXT'' clk of
                  (Inl e, st2) \<Rightarrow> (Some e, st2)
                | (Inr records, st2) \<Rightarrow> delete_all (\<lambda>st i. cf_DeleteRecord api p st (z_Name zone) i clk) st2 records)))"

definition cf_ValidateCredentials :: "'s dns_api \<Rightarrow> http_provider \<Rightarrow> 's \<Rightarrow> (nat \<Rightarrow> time) \<Rightarrow> dns_error option \<times> 's" where
  "cf_ValidateCredentials api p st clk = (case cf_GetZones api p st clk of (Inl e, st1) \<Rightarrow> (Some e, st1) | (Inr _, st1) \<Rightarrow> (None, st1))"

subsection \<open>DigitalOcean\<close>

definition NewDigitalOceanProvider :: "string \<Rightarrow> string list \<Rightarrow> http_provider" where
  "NewDigitalOceanProvider apiToken zones = \<lparr>hp_Token = TrimSpace apiToken, hp_Zones = zones\<rparr>"

definition do_GetZones :: "'s dns_api \<Rightarrow> http_provider \<Rightarrow> 's \<Rightarrow> (nat \<Rightarrow> time) \<Rightarrow> (dns_error + dns_zone list) \<times> 's" where
  "do_GetZones api p st clk =
     (case request api st (cf_call p ''GET'' ''/domains'' [] None) True of
        (Inl e, st1) \<Rightarrow> (Inl e, st1)
      | (Inr body, st1) \<Rightarrow> (Inr (listed_zones (hp_Zones p) ''digitalocean'' (map (\<lambda>n. (n, n)) (do_domains body)) clk 0), st1))"

definition do_CreateRecord :: "'s dns_api \<Rightarrow> http_provider \<Rightarrow> 's \<Rightarrow> string \<Rightarrow> dns_entry \<Rightarrow> time \<Rightarrow> (dns_error + dns_entry) \<times> 's" where
  "do_CreateRecord api p st zone rec now =
     (case request api st (cf_call p ''POST'' (''/domains/'' @ zone @ ''/records'') [] (Some (sent_record rec))) True of
        (Inl e, st1) \<Rightarrow> (Inl e, st1)
      | (Inr body, st1) \<Rightarrow>
          (Inr (rec\<lparr>ent_ZoneID := zone, ent_RecordID := dec (do_created body), ent_CreatedAt := now, ent_UpdatedAt := now\<rparr>), st1))"

definition do_UpdateRecord :: "'s dns_api \<Rightarrow> http_provider \<Rightarrow> 's \<Rightarrow> string \<Rightarrow> dns_entry \<Rightarrow> dns_error option \<times> 's" where
  "do_UpdateRecord api p st zone rec =
     (if ent_RecordID rec = [] then (Some Record_ID_Required, st)
      else case request api st (cf_call p ''PUT'' (''/domains/'' @ zone @ ''/records/'' @ ent_RecordID rec) [] (Some (sent_record rec))) False of
             (Inl e, st1) \<Rightarrow> (Some e, st1)
           | (Inr _, st1) \<Rightarrow> (None, st1))"

definition do_DeleteRecord :: "'s dns_api \<Rightarrow> http_provider \<Rightarrow> 's \<Rightarrow> string \<Rightarrow> string \<Rightarrow> dns_error option \<times> 's" where
  "do_DeleteRecord api p st zone recordID =
     (case request api st (cf_call p ''DELETE'' (''/domains/'' @ zone @ ''/records/'' @ recordID) [] None) False of
        (Inl e, st1) \<Rightarrow> (Some e, st1)
      | (Inr _, st1) \<Rightarrow> (None, st1))"

definition do_fqdn :: "string \<Rightarrow> string \<Rightarrow> string" where
  "do_fqdn zone name = (if name = ''@'' then zone else if \<not> HasSuffix name zone then name @ ''.'' @ zone else name)"

definition do_wanted :: "string \<Rightarrow> string \<Rightarrow> string \<Rightarrow> dns_record \<Rightarrow> bool" where
  "do_wanted zone name typ r \<longleftrightarrow>
     \<not> (name \<noteq> [] \<and> \<not> EqualFold (TrimSuffix (do_fqdn zone (rec_Name r)) ''.'') (TrimSuffix name ''.''))
   \<and> \<not> (typ \<noteq> [] \<and> \<not> EqualFold (rec_Type r) typ)"

definition do_GetRecords :: "'s dns_api \<Rightarrow> http_provider \<Rightarrow> 's \<Rightarrow> string \<Rightarrow> string \<Rightarrow> string \<Rightarrow> (dns_error + dns_entry list) \<times> 's" where
  "do_GetRecords api p st zone name typ =
     (case request api st (cf_call p ''GET'' (''/domains/'' @ zone @ ''/records'') [] None) True of
        (Inl e, st1) \<Rightarrow> (Inl e, st1)
      | (Inr body, st1) \<Rightarrow>
          (Inr (map (\<lambda>(i, r). entry_of zone (dec i) (r\<lparr>rec_Name := do_fqdn zone (rec_Name r)\<rparr>))
                  (filter (\<lambda>(i, r). do_wanted zone name typ r) (do_records body))), st1))"

definition do_CreateChallengeRecord :: "'s dns_api \<Rightarrow> http_provider \<Rightarrow> 's \<Rightarrow> string \<Rightarrow> string \<Rightarrow> (nat \<Rightarrow> time) \<Rightarrow> time \<Rightarrow> dns_error option \<times> 's" where
  "do_CreateChallengeRecord api p st domain keyAuth clk now =
     (case do_GetZones api p st clk of
        (Inl e, st1) \<Rightarrow> (Some e, st1)
      | (Inr zones, st1) \<Rightarrow>
          (case FindZone domain zones of
             None \<Rightarrow> (Some (Zone_Not_Found domain), st1)
           | Some zone \<Rightarrow>
               let name = ExtractSubdomain (challenge_name (TrimSuffix domain ''.'')) (z_Name zone)
               in (case do_CreateRecord api p st1 (z_Name zone) (new_entry ''TXT'' name keyAuth) now of
                     (Inl e, st2) \<Rightarrow> (Some e, st2)
                   | (Inr _, st2) \<Rightarrow> (None, st2))))"

definition do_DeleteChallengeRecord :: "'s dns_api \<Rightarrow> http_provider \<Rightarrow> 's \<Rightarrow> string \<Rightarrow> (nat \<Rightarrow> time) \<Rightarrow> dns_error option \<times> 's" where
  "do_DeleteChallengeRecord api p st domain clk =
     (case do_GetZones api p st clk of
        (Inl e, st1) \<Rightarrow> (Some e, st1)
      | (Inr zones, st1) \<Rightarrow>
          (case FindZone domain zones of
             None \<Rightarrow> (Some (Zone_Not_Found domain), st1)
           | Some zone \<Rightarrow>
               (case do_GetRecords api p st1 (z_Name zone) (challenge_name (TrimSuffix domain ''.'')) ''TXT'' of
                  (Inl e, st2) \<Rightarrow> (Some e, st2)
                | (Inr records, st2) \<Rightarrow> delete_all (\<lambda>st i. do_DeleteRecord api p st (z_Name zone) i) st2 records)))"

subsection \<open>The registry\<close>

datatype dns_provider = Manual record_book | Memory record_book | Cloudflare http_provider | DigitalOcean http_provider

record provider_config =
  pc_Name :: string
  pc_Type :: string
  pc_Credentials :: "(string, string) fmap"
  pc_Zones :: "string list"
  pc_Enabled :: bool

record dns_registry =
  reg_providers :: "(string, dns_provider) fmap"
  reg_configs :: "(string, provider_config) fmap"

definition dns_NewRegistry :: dns_registry where
  "dns_NewRegistry = \<lparr>reg_providers = fmempty, reg_configs = fmempty\<rparr>"

definition RegisterProvider :: "dns_registry \<Rightarrow> string \<Rightarrow> dns_provider \<Rightarrow> provider_config \<Rightarrow> dns_registry" where
  "RegisterProvider r name provider config =
     r\<lparr>reg_providers := fmupd name provider (reg_providers r), reg_configs := fmupd name config (reg_configs r)\<rparr>"

definition GetProvider :: "dns_registry \<Rightarrow> string \<Rightarrow> dns_error + dns_provider" where
  "GetProvider r name = (case fmlookup (reg_providers r) name of None \<Rightarrow> Inl (DNS_Provider_Not_Found name) | Some p \<Rightarrow> Inr p)"

definition ListProviders :: "dns_registry \<Rightarrow> string list \<Rightarrow> provider_config list" where
  "ListProviders r ks = List.map_filter (fmlookup (reg_configs r)) ks"

text \<open>The manual provider prints what the administrator has to do, and succeeds.\<close>

definition CreateChallenge :: "'s dns_api \<Rightarrow> 's dns_api \<Rightarrow> dns_registry \<Rightarrow> 's \<Rightarrow> string \<Rightarrow> string \<Rightarrow> string \<Rightarrow> (nat \<Rightarrow> time) \<Rightarrow> time \<Rightarrow>
    dns_error option \<times> dns_registry \<times> 's" where
  "CreateChallenge cf ocean r st providerName domain keyAuth clk now =
     (case GetProvider r providerName of
        Inl e \<Rightarrow> (Some e, r, st)
      | Inr (Manual b) \<Rightarrow> (None, r, st)
      | Inr (Memory b) \<Rightarrow>
          (None, r\<lparr>reg_providers := fmupd providerName (Memory (memory_CreateChallengeRecord b domain keyAuth clk)) (reg_providers r)\<rparr>, st)
      | Inr (Cloudflare p) \<Rightarrow> (case cf_CreateChallengeRecord cf p st domain keyAuth clk now of (e, st1) \<Rightarrow> (e, r, st1))
      | Inr (DigitalOcean p) \<Rightarrow> (case do_CreateChallengeRecord ocean p st domain keyAuth clk now of (e, st1) \<Rightarrow> (e, r, st1)))"

definition CleanupChallenge :: "'s dns_api \<Rightarrow> 's dns_api \<Rightarrow> dns_registry \<Rightarrow> 's \<Rightarrow> string \<Rightarrow> string \<Rightarrow> (nat \<Rightarrow> time) \<Rightarrow> dns_error option \<times> dns_registry \<times> 's" where
  "CleanupChallenge cf ocean r st providerName domain clk =
     (case GetProvider r providerName of
        Inl e \<Rightarrow> (Some e, r, st)
      | Inr (Manual b) \<Rightarrow> (None, r, st)
      | Inr (Memory b) \<Rightarrow> (None, r\<lparr>reg_providers := fmupd providerName (Memory (memory_DeleteChallengeRecord b domain)) (reg_providers r)\<rparr>, st)
      | Inr (Cloudflare p) \<Rightarrow> (case cf_DeleteChallengeRecord cf p st domain clk of (e, st1) \<Rightarrow> (e, r, st1))
      | Inr (DigitalOcean p) \<Rightarrow> (case do_DeleteChallengeRecord ocean p st domain clk of (e, st1) \<Rightarrow> (e, r, st1)))"

definition splitCSVEnv :: "string \<Rightarrow> string list" where
  "splitCSVEnv v = (if TrimSpace v = [] then [] else filter (\<lambda>p. p \<noteq> []) (map TrimSpace (split_at CHR '','' v)))"

definition http_config :: "string \<Rightarrow> string \<Rightarrow> string list \<Rightarrow> provider_config" where
  "http_config name var zones = \<lparr>pc_Name = name, pc_Type = name, pc_Credentials = fmupd ''api_token'' (''env:'' @ var) fmempty, pc_Zones = zones, pc_Enabled = True\<rparr>"

definition local_config :: "string \<Rightarrow> provider_config" where
  "local_config name = \<lparr>pc_Name = name, pc_Type = name, pc_Credentials = fmempty, pc_Zones = [], pc_Enabled = True\<rparr>"

text \<open>\<open>env\<close> is the environment; \<open>None\<close> is the error that the default provider is not configured.\<close>

definition NewRegistryFromEnv :: "(string \<Rightarrow> string) \<Rightarrow> (dns_registry \<times> string) option" where
  "NewRegistryFromEnv env =
     (let r = RegisterProvider dns_NewRegistry ''manual'' (Manual fmempty) (local_config ''manual'');
          r = RegisterProvider r ''memory'' (Memory fmempty) (local_config ''memory'');
          def = TrimSpace (env ''GOTUNNEL_DNS_PROVIDER'');
          def = (if def = [] then ''manual'' else def);
          token = TrimSpace (env ''CLOUDFLARE_API_TOKEN'');
          zones = splitCSVEnv (env ''CLOUDFLARE_ZONES'');
          r = (if token \<noteq> [] then RegisterProvider r ''cloudflare'' (Cloudflare (NewCloudflareProvider token zones))
                 (http_config ''cloudflare'' ''CLOUDFLARE_API_TOKEN'' zones) else r);
          token = TrimSpace (env ''DIGITALOCEAN_API_TOKEN'');
          zones = splitCSVEnv (env ''DIGITALOCEAN_ZONES'');
          r = (if token \<noteq> [] then RegisterProvider r ''digitalocean'' (DigitalOcean (NewDigitalOceanProvider token zones))
                 (http_config ''digitalocean'' ''DIGITALOCEAN_API_TOKEN'' zones) else r)
      in case GetProvider r def of Inl e \<Rightarrow> None | Inr _ \<Rightarrow> Some (r, def))"

subsection \<open>Challenges come and go\<close>

lemma memory_challenge:
  "rec_Value ` set (book_GetRecords (memory_CreateChallengeRecord b d v clk) ''memory.local'' (challenge_name d) ''TXT'')
     = insert v (rec_Value ` set (book_GetRecords b ''memory.local'' (challenge_name d) ''TXT''))"
  "book_GetRecords (memory_DeleteChallengeRecord b d) ''memory.local'' (challenge_name d) ''TXT'' = []"
  "k \<noteq> book_key ''memory.local'' (challenge_name d) ''TXT'' \<Longrightarrow> book_get (memory_DeleteChallengeRecord (memory_CreateChallengeRecord b d v clk) d) k = book_get b k"
  unfolding memory_CreateChallengeRecord_def memory_DeleteChallengeRecord_def book_CreateRecord_def
  by (auto simp: book_GetRecords_def book_get_def new_entry_def Let_def simp del: append_Cons)

text \<open>
  What Cloudflare documents: listing zones and records, and adding and removing a record of a zone. \<open>recs\<close> is
  what the service stores for a zone, with the records' identifiers.
\<close>

definition cf_contract :: "'s dns_api \<Rightarrow> ('s \<Rightarrow> string \<Rightarrow> (string \<times> dns_record) list) \<Rightarrow> http_provider \<Rightarrow> (string \<times> string) list \<Rightarrow> bool" where
  "cf_contract api recs p zs \<longleftrightarrow>
     (\<forall>st. \<exists>t. api st (cf_call p ''GET'' ''/zones'' (if length (hp_Zones p) = 1 then [(''name'', hp_Zones p ! 0)] else []) None)
        = (Reply 200 t (Some (Cf_Zones zs)), st))
   \<and> (\<forall>st r. \<forall>z \<in> fst ` set zs. \<exists>t i st'. api st (cf_call p ''POST'' (''/zones/'' @ z @ ''/dns_records'') [] (Some r)) = (Reply 200 t (Some (Cf_Result True i)), st')
        \<and> i \<notin> fst ` set (recs st z) \<and> recs st' = (recs st)(z := recs st z @ [(i, r)]))
   \<and> (\<forall>st n ty. \<forall>z \<in> fst ` set zs. \<exists>t. api st (cf_call p ''GET'' (''/zones/'' @ z @ ''/dns_records'') [(''name'', n), (''type'', ty)] None)
        = (Reply 200 t (Some (Cf_Records (filter (\<lambda>(i, r). rec_Name r = n \<and> rec_Type r = ty) (recs st z)))), st))
   \<and> (\<forall>st i. \<forall>z \<in> fst ` set zs. \<exists>t st'. api st (cf_call p ''DELETE'' (''/zones/'' @ z @ ''/dns_records/'' @ i) [] None) = (Reply 200 t (Some (Cf_Result True i)), st')
        \<and> recs st' = (recs st)(z := filter (\<lambda>(j, r). j \<noteq> i) (recs st z)))"

lemma cf_contractD:
  assumes "cf_contract api recs p zs"
  shows "\<exists>t. api st (cf_call p ''GET'' ''/zones'' (if length (hp_Zones p) = 1 then [(''name'', hp_Zones p ! 0)] else []) None) = (Reply 200 t (Some (Cf_Zones zs)), st)"
    and "z \<in> fst ` set zs \<Longrightarrow> \<exists>t i st'. api st (cf_call p ''POST'' (''/zones/'' @ z @ ''/dns_records'') [] (Some r)) = (Reply 200 t (Some (Cf_Result True i)), st')
        \<and> i \<notin> fst ` set (recs st z) \<and> recs st' = (recs st)(z := recs st z @ [(i, r)])"
    and "z \<in> fst ` set zs \<Longrightarrow> \<exists>t. api st (cf_call p ''GET'' (''/zones/'' @ z @ ''/dns_records'') [(''name'', n), (''type'', ty)] None)
        = (Reply 200 t (Some (Cf_Records (filter (\<lambda>(i, r). rec_Name r = n \<and> rec_Type r = ty) (recs st z)))), st)"
    and "z \<in> fst ` set zs \<Longrightarrow> \<exists>t st'. api st (cf_call p ''DELETE'' (''/zones/'' @ z @ ''/dns_records/'' @ i) [] None) = (Reply 200 t (Some (Cf_Result True i)), st')
        \<and> recs st' = (recs st)(z := filter (\<lambda>(j, r). j \<noteq> i) (recs st z))"
proof -
  note c = assms [unfolded cf_contract_def]
  show "\<exists>t. api st (cf_call p ''GET'' ''/zones'' (if length (hp_Zones p) = 1 then [(''name'', hp_Zones p ! 0)] else []) None) = (Reply 200 t (Some (Cf_Zones zs)), st)"
    by (rule c [THEN conjunct1, THEN spec])
  show "\<exists>t i st'. api st (cf_call p ''POST'' (''/zones/'' @ z @ ''/dns_records'') [] (Some r)) = (Reply 200 t (Some (Cf_Result True i)), st')
        \<and> i \<notin> fst ` set (recs st z) \<and> recs st' = (recs st)(z := recs st z @ [(i, r)])" if "z \<in> fst ` set zs"
    by (rule c [THEN conjunct2, THEN conjunct1, THEN spec, THEN spec, THEN bspec, OF that])
  show "\<exists>t. api st (cf_call p ''GET'' (''/zones/'' @ z @ ''/dns_records'') [(''name'', n), (''type'', ty)] None)
        = (Reply 200 t (Some (Cf_Records (filter (\<lambda>(i, r). rec_Name r = n \<and> rec_Type r = ty) (recs st z)))), st)" if "z \<in> fst ` set zs"
    by (rule c [THEN conjunct2, THEN conjunct2, THEN conjunct1, THEN spec, THEN spec, THEN spec, THEN bspec, OF that])
  show "\<exists>t st'. api st (cf_call p ''DELETE'' (''/zones/'' @ z @ ''/dns_records/'' @ i) [] None) = (Reply 200 t (Some (Cf_Result True i)), st')
        \<and> recs st' = (recs st)(z := filter (\<lambda>(j, r). j \<noteq> i) (recs st z))" if "z \<in> fst ` set zs"
    by (rule c [THEN conjunct2, THEN conjunct2, THEN conjunct2, THEN spec, THEN spec, THEN bspec, OF that])
qed

lemma listed_zones_names:
  "map z_ID (listed_zones cs pr rs clk n) = map fst (filter (\<lambda>r. cs = [] \<or> containsZone cs (snd r)) rs)"
  "map z_Name (listed_zones cs pr rs clk n) = map snd (filter (\<lambda>r. cs = [] \<or> containsZone cs (snd r)) rs)"
  by (induction cs pr rs clk n rule: listed_zones.induct) auto

lemma listed_zone_id: "z \<in> set (listed_zones cs pr rs clk n) \<Longrightarrow> z_ID z \<in> fst ` set rs"
  using arg_cong [OF listed_zones_names(1), of set cs pr rs clk n] by fastforce

lemma find_unique:
  assumes "z \<in> set zs" "P z" "\<And>y. y \<in> set zs \<Longrightarrow> P y \<Longrightarrow> y = z"
  shows "find P zs = Some z"
proof (cases "find P zs")
  case None
  with assms(1,2) show ?thesis by (auto simp: find_None_iff)
next
  case (Some y)
  then have "y \<in> set zs" "P y" by (auto simp: find_Some_iff)
  with assms(3) Some show ?thesis by simp
qed

lemma cf_zones_listed:
  assumes "cf_contract api recs p zs"
  shows "cf_GetZones api p st clk = (Inr (listed_zones (hp_Zones p) ''cloudflare'' zs clk 0), st)"
proof -
  obtain t where "api st (cf_call p ''GET'' ''/zones'' (if length (hp_Zones p) = 1 then [(''name'', hp_Zones p ! 0)] else []) None)
      = (Reply 200 t (Some (Cf_Zones zs)), st)" using cf_contractD(1) [OF assms, of st] by (elim exE)
  then show ?thesis by (simp add: cf_GetZones_def request_def Let_def)
qed

lemma cf_resolve:
  assumes "cf_contract api recs p zs" "distinct (map (\<lambda>z. ToLower (TrimSuffix (snd z) ''.'')) zs)"
    and "z \<in> set (listed_zones (hp_Zones p) ''cloudflare'' zs clk 0)"
  shows "resolveZoneID api p st (z_Name z) clk = (Inr (z_ID z), st)"
proof -
  let ?zs = "listed_zones (hp_Zones p) ''cloudflare'' zs clk 0"
  note g = cf_zones_listed [OF assms(1), of st clk]
  have "distinct (map (\<lambda>z. ToLower (TrimSuffix (z_Name z) ''.'')) ?zs)"
  proof -
    have "map (\<lambda>z. ToLower (TrimSuffix (z_Name z) ''.'')) ?zs = map (\<lambda>n. ToLower (TrimSuffix n ''.'')) (map z_Name ?zs)" by (simp add: comp_def)
    also have "\<dots> = map (\<lambda>n. ToLower (TrimSuffix n ''.'')) (map snd (filter (\<lambda>r. hp_Zones p = [] \<or> containsZone (hp_Zones p) (snd r)) zs))"
      unfolding listed_zones_names(2) by (rule refl)
    finally have "map (\<lambda>z. ToLower (TrimSuffix (z_Name z) ''.'')) ?zs
        = map (\<lambda>n. ToLower (TrimSuffix n ''.'')) (map snd (filter (\<lambda>r. hp_Zones p = [] \<or> containsZone (hp_Zones p) (snd r)) zs))" .
    then show ?thesis using assms(2) by (simp add: distinct_map_filter comp_def)
  qed
  then have "y = z" if "y \<in> set ?zs" "EqualFold (TrimSuffix (z_Name y) ''.'') (TrimSuffix (z_Name z) ''.'')" for y
    using that assms(3) by (auto simp: EqualFold_def distinct_map dest: inj_onD)
  then have "find (\<lambda>y. EqualFold (TrimSuffix (z_Name y) ''.'') (TrimSuffix (z_Name z) ''.'')) ?zs = Some z"
    using assms(3) by (intro find_unique) (auto simp: EqualFold_def)
  with g show ?thesis by (simp add: resolveZoneID_def)
qed

lemma cf_deletes:
  assumes "cf_contract api recs p zs" "distinct (map (\<lambda>z. ToLower (TrimSuffix (snd z) ''.'')) zs)"
    and "z \<in> set (listed_zones (hp_Zones p) ''cloudflare'' zs clk 0)"
  shows "\<exists>st'. delete_all (\<lambda>st i. cf_DeleteRecord api p st (z_Name z) i clk) st es = (None, st')
    \<and> recs st' = (recs st)(z_ID z := filter (\<lambda>(j, r). j \<notin> ent_RecordID ` set es) (recs st (z_ID z)))"
proof (induction es arbitrary: st)
  case (Cons e es)
  obtain t st1 where d: "api st (cf_call p ''DELETE'' (''/zones/'' @ z_ID z @ ''/dns_records/'' @ ent_RecordID e) [] None)
      = (Reply 200 t (Some (Cf_Result True (ent_RecordID e))), st1)"
      "recs st1 = (recs st)(z_ID z := filter (\<lambda>(j, r). j \<noteq> ent_RecordID e) (recs st (z_ID z)))" using cf_contractD(4) [OF assms(1) listed_zone_id [OF assms(3)], of st "ent_RecordID e"] by (elim exE conjE)
  have "request api st (cf_call p ''DELETE'' (''/zones/'' @ z_ID z @ ''/dns_records/'' @ ent_RecordID e) [] None) True
      = (Inr (Some (Cf_Result True (ent_RecordID e))), st1)" unfolding request_def d(1) by simp
  then have "cf_DeleteRecord api p st (z_Name z) (ent_RecordID e) clk = (None, st1)"
    unfolding cf_DeleteRecord_def cf_resolve [OF assms] prod.case sum.case by simp
  moreover from Cons.IH obtain st2 where "delete_all (\<lambda>st i. cf_DeleteRecord api p st (z_Name z) i clk) st1 es = (None, st2)"
      "recs st2 = (recs st1)(z_ID z := filter (\<lambda>(j, r). j \<notin> ent_RecordID ` set es) (recs st1 (z_ID z)))" by blast
  ultimately show ?case using d(2) by (auto simp: fun_eq_iff intro!: filter_cong)
qed (simp add: case_prod_beta)

lemma filter_by_key:
  assumes "distinct (map fst xs)"
  shows "filter (\<lambda>x. fst x \<notin> fst ` set (filter P xs)) xs = filter (\<lambda>x. \<not> P x) xs"
proof (rule filter_cong [OF refl])
  fix x assume x: "x \<in> set xs"
  have "y = x" if "y \<in> set xs" "fst y = fst x" for y using assms x that by (auto simp: distinct_map dest: inj_onD)
  then have "P x" if "fst x \<in> fst ` set (filter P xs)" using that by fastforce
  moreover have "fst x \<in> fst ` set (filter P xs)" if "P x" using that x by simp
  ultimately show "(fst x \<notin> fst ` set (filter P xs)) = (\<not> P x)" by blast
qed

lemma FindZone_in: "FindZone d zs = Some z \<Longrightarrow> z \<in> set zs"
proof -
  have "best_zone d' zs b = Some z \<Longrightarrow> z \<in> set zs \<or> b = Some z" for d' b
    by (induction zs arbitrary: b) (auto simp: Let_def split: if_splits)
  then show "FindZone d zs = Some z \<Longrightarrow> z \<in> set zs" unfolding FindZone_def by blast
qed

lemma cf_creates:
  assumes "cf_contract api recs p zs" "distinct (map (\<lambda>z. ToLower (TrimSuffix (snd z) ''.'')) zs)"
    and "FindZone d (listed_zones (hp_Zones p) ''cloudflare'' zs clk 0) = Some z"
  obtains i st' where "cf_CreateChallengeRecord api p st d v clk now = (None, st')" "i \<notin> fst ` set (recs st (z_ID z))"
    "recs st' = (recs st)(z_ID z := recs st (z_ID z) @ [(i, \<lparr>rec_Type = ''TXT'', rec_Name = challenge_name (TrimSuffix d ''.''), rec_Value = v, rec_TTL = 60\<rparr>)])"
proof -
  let ?e = "new_entry ''TXT'' (challenge_name (TrimSuffix d ''.'')) v"
  have r: "sent_record ?e = \<lparr>rec_Type = ''TXT'', rec_Name = challenge_name (TrimSuffix d ''.''), rec_Value = v, rec_TTL = 60\<rparr>"
    by (simp add: sent_record_def new_entry_def)
  obtain t i st' where a: "api st (cf_call p ''POST'' (''/zones/'' @ z_ID z @ ''/dns_records'') [] (Some (sent_record ?e)))
      = (Reply 200 t (Some (Cf_Result True i)), st')" "i \<notin> fst ` set (recs st (z_ID z))"
      "recs st' = (recs st)(z_ID z := recs st (z_ID z) @ [(i, sent_record ?e)])"
    using cf_contractD(2) [OF assms(1) listed_zone_id [OF FindZone_in [OF assms(3)]], of st "sent_record ?e"] by (elim exE conjE)
  have q: "request api st (cf_call p ''POST'' (''/zones/'' @ z_ID z @ ''/dns_records'') [] (Some (sent_record ?e))) True = (Inr (Some (Cf_Result True i)), st')"
    unfolding request_def a(1) by simp
  have "\<exists>e. cf_CreateRecord api p st (z_Name z) ?e clk now = (Inr e, st')"
    unfolding cf_CreateRecord_def cf_resolve [OF assms(1,2) FindZone_in [OF assms(3)]] prod.case sum.case q by simp
  then have "cf_CreateChallengeRecord api p st d v clk now = (None, st')"
    unfolding cf_CreateChallengeRecord_def cf_zones_listed [OF assms(1)] prod.case sum.case assms(3) option.case by auto
  with a(2,3) that show thesis unfolding r by blast
qed



text \<open>A service with one zone that behaves so.\<close>

definition demo_fresh :: "(string \<times> dns_record) list \<Rightarrow> string" where
  "demo_fresh rs = replicate (Suc (sum_list (map (\<lambda>r. length (fst r)) rs))) CHR ''r''"

definition demo_cf :: "(string \<times> dns_record) list dns_api" where
  "demo_cf rs call =
     (if ac_Method call = ''POST'' then
        (case ac_Body call of
           Some r \<Rightarrow> (Reply 200 [] (Some (Cf_Result True (demo_fresh rs))), rs @ [(demo_fresh rs, r)])
         | None \<Rightarrow> (Reply 400 [] None, rs))
      else if ac_Method call = ''DELETE'' then
        (let i = drop (length ''/zones/z1/dns_records/'') (ac_Path call)
         in (Reply 200 [] (Some (Cf_Result True i)), filter (\<lambda>(j, r). j \<noteq> i) rs))
      else if ac_Path call = ''/zones'' then (Reply 200 [] (Some (Cf_Zones [(''z1'', ''example.com'')])), rs)
      else (case ac_Query call of
              [(_, n), (_, ty)] \<Rightarrow> (Reply 200 [] (Some (Cf_Records (filter (\<lambda>(i, r). rec_Name r = n \<and> rec_Type r = ty) rs))), rs)
            | _ \<Rightarrow> (Reply 400 [] None, rs)))"

definition demo_recs :: "(string \<times> dns_record) list \<Rightarrow> string \<Rightarrow> (string \<times> dns_record) list" where
  "demo_recs rs z = (if z = ''z1'' then rs else [])"

definition demo_cloudflare :: http_provider where
  "demo_cloudflare = NewCloudflareProvider ''token'' []"

definition demo_dns :: dns_registry where
  "demo_dns = RegisterProvider dns_NewRegistry ''cloudflare'' (Cloudflare demo_cloudflare) (http_config ''cloudflare'' ''CLOUDFLARE_API_TOKEN'' [])"

lemma demo_fresh_new: "demo_fresh rs \<notin> fst ` set rs"
proof
  assume "demo_fresh rs \<in> fst ` set rs"
  then obtain r where "r \<in> set rs" "fst r = demo_fresh rs" by auto
  moreover have "length (fst r) \<le> sum_list (map (\<lambda>r. length (fst r)) rs)" if "r \<in> set rs" for r using that by (induction rs) auto
  ultimately have "length (demo_fresh rs) \<le> sum_list (map (\<lambda>r. length (fst r)) rs)" by metis
  then show False by (simp add: demo_fresh_def)
qed

lemma demo_cf_contract: "cf_contract demo_cf demo_recs demo_cloudflare [(''z1'', ''example.com'')]"
  using demo_fresh_new
  by (auto simp: cf_contract_def demo_cf_def cf_call_def demo_recs_def demo_cloudflare_def NewCloudflareProvider_def Let_def fun_eq_iff)


end
