(* ===== verification/Cert_Store.thy ===== *)
theory Cert_Store
  imports Dns_Providers
begin

section \<open>Certificates on disk\<close>

text \<open>
  Model of \<open>GoTunnel/internal/acme/store_file.go\<close> and of the types of \<open>lifecycle.go\<close> it stores. The store keeps one
  directory for each domain below its base directory. Any call of the file system may fail, and a write that
  fails may have cut the file. The JSON encoding of metadata is an argument.
\<close>

subsection \<open>Metadata\<close>

datatype cert_state = CertStatePending | CertStateValidating | CertStateIssued | CertStateRenewing | CertStateExpired | CertStateRevoked | CertStateFailed

text \<open>The errors of issuing a certificate; \<open>Wrapped\<close> is \<open>fmt.Errorf\<close> around another error.\<close>

datatype cert_error =
    ACME_Error string
  | No_Supported_Challenge
  | No_Handler_For string
  | DNS_Registry_Not_Configured
  | DNS_Error dns_error
  | Disk_Error
  | No_Metadata_For string
  | No_Certificate_For string
  | Wrapped string cert_error

record cert_metadata =
  md_Domain :: string
  md_State :: cert_state
  SerialNumber :: string
  md_Issuer :: string
  NotBefore :: time
  NotAfter :: time
  Fingerprint :: string
  ACMEAccountID :: string
  OrderURL :: string
  ChallengeType :: string
  LastAttempt :: time
  NextRenewal :: time
  RetryCount :: int
  LastError :: "cert_error option"
  md_Metadata :: "(string, string) fmap"

subsection \<open>Names of directories\<close>

fun replaced_char :: "char \<Rightarrow> string" where
  "replaced_char c = (if c = CHR ''*'' then ''_wildcard_'' else if c = CHR '':'' \<or> c = CHR ''/'' \<or> c = CHR 0x5C then ''_'' else [c])"

text \<open>
  The directory of a domain relative to the base directory: \<open>filepath.Join\<close> drops an empty name and the name
  of the directory itself. The name \<open>..\<close> is the parent directory.
\<close>

definition domainDir :: "string \<Rightarrow> string" where
  "domainDir domain = (let n = concat (map replaced_char domain) in if n = ''.'' then [] else n)"

function replace_all :: "string \<Rightarrow> string \<Rightarrow> string \<Rightarrow> string" where
  "replace_all pat rep s =
     (if pat = [] \<or> s = [] then s
      else if HasPrefix s pat then rep @ replace_all pat rep (drop (length pat) s)
      else hd s # replace_all pat rep (tl s))"
  by pat_completeness auto
termination by (relation "measure (\<lambda>(pat, rep, s). length s)") auto

declare replace_all.simps [simp del]

definition restoreDomainFromDirName :: "string \<Rightarrow> string" where
  "restoreDomainFromDirName name = replace_all ''_wildcard_'' ''*'' name"

subsection \<open>The file system\<close>

datatype disk_fault = Call_Fails | Cut_After nat

record cert_disk =
  cd_dirs :: "string fset"
  cd_files :: "(string \<times> string, byte list) fmap"
  cd_fault :: "nat \<Rightarrow> disk_fault option"
  cd_calls :: nat

definition next_fault :: "cert_disk \<Rightarrow> disk_fault option \<times> cert_disk" where
  "next_fault d = (cd_fault d (cd_calls d), d\<lparr>cd_calls := cd_calls d + 1\<rparr>)"

definition MkdirAll :: "cert_disk \<Rightarrow> string \<Rightarrow> bool \<times> cert_disk" where
  "MkdirAll d dir =
     (case next_fault d of
        (Some _, d1) \<Rightarrow> (False, d1)
      | (None, d1) \<Rightarrow> (True, if dir = [] \<or> dir = ''..'' then d1 else d1\<lparr>cd_dirs := finsert dir (cd_dirs d1)\<rparr>))"

definition WriteFile :: "cert_disk \<Rightarrow> string \<Rightarrow> string \<Rightarrow> byte list \<Rightarrow> bool \<times> cert_disk" where
  "WriteFile d dir name content =
     (case next_fault d of
        (Some Call_Fails, d1) \<Rightarrow> (False, d1)
      | (Some (Cut_After n), d1) \<Rightarrow> (False, d1\<lparr>cd_files := fmupd (dir, name) (take n content) (cd_files d1)\<rparr>)
      | (None, d1) \<Rightarrow> (True, d1\<lparr>cd_files := fmupd (dir, name) content (cd_files d1)\<rparr>))"

definition ReadFile :: "cert_disk \<Rightarrow> string \<Rightarrow> string \<Rightarrow> byte list option \<times> cert_disk" where
  "ReadFile d dir name =
     (case next_fault d of
        (Some _, d1) \<Rightarrow> (None, d1)
      | (None, d1) \<Rightarrow> (fmlookup (cd_files d1) (dir, name), d1))"

text \<open>Removing the base directory or its parent removes everything.\<close>

definition RemoveAll :: "cert_disk \<Rightarrow> string \<Rightarrow> bool \<times> cert_disk" where
  "RemoveAll d dir =
     (case next_fault d of
        (Some Call_Fails, d1) \<Rightarrow> (False, d1)
      | (Some (Cut_After _), d1) \<Rightarrow> (False, d1\<lparr>cd_files := fmfilter (\<lambda>(k, n). k \<noteq> dir) (cd_files d1)\<rparr>)
      | (None, d1) \<Rightarrow>
          (True, if dir = [] \<or> dir = ''..'' then d1\<lparr>cd_dirs := {||}, cd_files := fmempty\<rparr>
                 else d1\<lparr>cd_dirs := cd_dirs d1 - {|dir|}, cd_files := fmfilter (\<lambda>(k, n). k \<noteq> dir) (cd_files d1)\<rparr>))"

text \<open>\<open>os.ReadDir\<close> lists the directories in the order of their names; the other entries of the base directory are passed over.\<close>

definition ReadDir :: "cert_disk \<Rightarrow> string list option \<times> cert_disk" where
  "ReadDir d = (case next_fault d of (Some _, d1) \<Rightarrow> (None, d1) | (None, d1) \<Rightarrow> (Some (sorted_list_of_fset (cd_dirs d1)), d1))"

subsection \<open>The store\<close>

definition SaveCertificate :: "cert_disk \<Rightarrow> string \<Rightarrow> byte list \<Rightarrow> byte list \<Rightarrow> bool \<times> cert_disk" where
  "SaveCertificate d domain cert key =
     (case MkdirAll d (domainDir domain) of
        (False, d1) \<Rightarrow> (False, d1)
      | (True, d1) \<Rightarrow>
          (case WriteFile d1 (domainDir domain) ''cert.pem'' cert of
             (False, d2) \<Rightarrow> (False, d2)
           | (True, d2) \<Rightarrow> WriteFile d2 (domainDir domain) ''key.pem'' key))"

definition LoadCertificate :: "cert_disk \<Rightarrow> string \<Rightarrow> (byte list \<times> byte list) option \<times> cert_disk" where
  "LoadCertificate d domain =
     (case ReadFile d (domainDir domain) ''cert.pem'' of
        (None, d1) \<Rightarrow> (None, d1)
      | (Some cert, d1) \<Rightarrow>
          (case ReadFile d1 (domainDir domain) ''key.pem'' of
             (None, d2) \<Rightarrow> (None, d2)
           | (Some key, d2) \<Rightarrow> (Some (cert, key), d2)))"

definition DeleteCertificate :: "cert_disk \<Rightarrow> string \<Rightarrow> bool \<times> cert_disk" where
  "DeleteCertificate d domain = RemoveAll d (domainDir domain)"

record meta_codec =
  mc_Marshal :: "cert_metadata \<Rightarrow> byte list option"
  mc_Unmarshal :: "byte list \<Rightarrow> cert_metadata option"

definition SaveMetadata :: "meta_codec \<Rightarrow> cert_disk \<Rightarrow> cert_metadata \<Rightarrow> bool \<times> cert_disk" where
  "SaveMetadata mc d meta =
     (case MkdirAll d (domainDir (md_Domain meta)) of
        (False, d1) \<Rightarrow> (False, d1)
      | (True, d1) \<Rightarrow>
          (case mc_Marshal mc meta of
             None \<Rightarrow> (False, d1)
           | Some payload \<Rightarrow> WriteFile d1 (domainDir (md_Domain meta)) ''metadata.json'' payload))"

definition LoadMetadata :: "meta_codec \<Rightarrow> cert_disk \<Rightarrow> string \<Rightarrow> cert_metadata option \<times> cert_disk" where
  "LoadMetadata mc d domain =
     (case ReadFile d (domainDir domain) ''metadata.json'' of
        (None, d1) \<Rightarrow> (None, d1)
      | (Some payload, d1) \<Rightarrow> (mc_Unmarshal mc payload, d1))"

fun load_metas :: "meta_codec \<Rightarrow> cert_disk \<Rightarrow> string list \<Rightarrow> cert_metadata list \<times> cert_disk" where
  "load_metas mc d [] = ([], d)"
| "load_metas mc d (n # ns) =
     (case LoadMetadata mc d (restoreDomainFromDirName n) of
        (None, d1) \<Rightarrow> load_metas mc d1 ns
      | (Some meta, d1) \<Rightarrow> (case load_metas mc d1 ns of (ms, d2) \<Rightarrow> (meta # ms, d2)))"

definition store_ListCertificates :: "meta_codec \<Rightarrow> cert_disk \<Rightarrow> cert_metadata list option \<times> cert_disk" where
  "store_ListCertificates mc d =
     (case ReadDir d of
        (None, d1) \<Rightarrow> (None, d1)
      | (Some names, d1) \<Rightarrow> (case load_metas mc d1 names of (ms, d2) \<Rightarrow> (Some ms, d2)))"

end
