(* ===== verification/Certificates.thy ===== *)
theory Certificates
  imports Cert_Store
begin

section \<open>Certificates\<close>

text \<open>
  Model of \<open>GoTunnel/internal/acme/lifecycle.go\<close> and \<open>dns_handler.go\<close>, and of the host policy of \<open>manager.go\<close>. The manager
  issues a certificate in several calls of the certificate authority, whose answers are arguments, keeps it in
  memory and in its store, and an hourly worker renews what is near its end. The calls of the manager follow one
  another, so a pointer to the metadata of a domain is the entry of the map. Certificates that were handed to
  the authority for revocation, and the callbacks, are recorded.
\<close>

subsection \<open>Challenges\<close>

record dns_handler =
  dh_providerName :: string
  dh_registry :: "dns_registry option"

definition NewDNSChallengeHandler :: "dns_registry option \<Rightarrow> string \<Rightarrow> dns_handler" where
  "NewDNSChallengeHandler registry providerName = \<lparr>dh_providerName = TrimSpace providerName, dh_registry = registry\<rparr>"

definition handler_Type :: "dns_handler \<Rightarrow> string" where
  "handler_Type h = ''dns-01''"

text \<open>The services of the DNS providers and the JSON encoding.\<close>

record 's cert_env =
  ce_cloudflare :: "'s dns_api"
  ce_digitalocean :: "'s dns_api"
  ce_codec :: meta_codec

definition HandleChallenge :: "'s cert_env \<Rightarrow> dns_handler \<Rightarrow> 's \<Rightarrow> string \<Rightarrow> string \<Rightarrow> (nat \<Rightarrow> time) \<Rightarrow> cert_error option \<times> dns_handler \<times> 's" where
  "HandleChallenge env h st domain challenge clk =
     (case dh_registry h of
        None \<Rightarrow> (Some DNS_Registry_Not_Configured, h, st)
      | Some r \<Rightarrow>
          (case CreateChallenge (ce_cloudflare env) (ce_digitalocean env) r st (dh_providerName h) domain challenge clk (clk 5) of
             (e, r1, st1) \<Rightarrow> (map_option DNS_Error e, h\<lparr>dh_registry := Some r1\<rparr>, st1)))"

text \<open>The result of the cleanup is ignored by its callers.\<close>

definition handler_CleanupChallenge :: "'s cert_env \<Rightarrow> dns_handler \<Rightarrow> 's \<Rightarrow> string \<Rightarrow> (nat \<Rightarrow> time) \<Rightarrow> dns_handler \<times> 's" where
  "handler_CleanupChallenge env h st domain clk =
     (case dh_registry h of
        None \<Rightarrow> (h, st)
      | Some r \<Rightarrow>
          (case CleanupChallenge (ce_cloudflare env) (ce_digitalocean env) r st (dh_providerName h) domain clk of
             (e, r1, st1) \<Rightarrow> (h\<lparr>dh_registry := Some r1\<rparr>, st1)))"

subsection \<open>The manager\<close>

record tls_certificate =
  tc_Certificate :: "byte list list"
  tc_Key :: "byte list"

record x509_fields =
  xf_SerialNumber :: string
  xf_Issuer :: string
  xf_NotBefore :: time
  xf_NotAfter :: time
  xf_AuthorityKeyId :: "byte list"

record lifecycle_config =
  lc_Email :: string
  lc_DirectoryURL :: string
  lc_Store :: "cert_disk option"
  lc_RenewalWindow :: duration
  lc_MaxRetries :: int
  lc_RetryBackoff :: duration
  lc_OnCertIssued :: bool
  lc_OnCertRenewed :: bool
  lc_OnCertFailed :: bool

record 's lifecycle =
  lm_config :: lifecycle_config
  accountURL :: string
  lm_disk :: "cert_disk option"
  challenges :: "string \<Rightarrow> dns_handler option"
  certificates :: "(string, tls_certificate) fmap"
  lm_metadata :: "(string, cert_metadata) fmap"
  lm_dns :: 's
  revoked :: "byte list list"
  issued_calls :: "(string \<times> tls_certificate) list"
  renewed_calls :: "(string \<times> tls_certificate) list"
  failed_calls :: "(string \<times> cert_error) list"
  lm_started :: bool
  lm_stopped :: bool

text \<open>\<open>directory\<close> is the address of the default authority, \<open>key\<close> whether a key can be generated.\<close>

definition NewLifecycleManager :: "string \<Rightarrow> bool \<Rightarrow> 's \<Rightarrow> lifecycle_config \<Rightarrow> 's lifecycle option" where
  "NewLifecycleManager directory key st cfg =
     (let cfg = (if lc_DirectoryURL cfg = [] then cfg\<lparr>lc_DirectoryURL := directory\<rparr> else cfg);
          cfg = (if lc_RenewalWindow cfg = 0 then cfg\<lparr>lc_RenewalWindow := 30 * 24 * 3600 * second_ns\<rparr> else cfg);
          cfg = (if lc_MaxRetries cfg = 0 then cfg\<lparr>lc_MaxRetries := 5\<rparr> else cfg);
          cfg = (if lc_RetryBackoff cfg = 0 then cfg\<lparr>lc_RetryBackoff := 300 * second_ns\<rparr> else cfg)
      in if \<not> key then None
         else Some \<lparr>lm_config = cfg, accountURL = [], lm_disk = lc_Store cfg, challenges = Map.empty, certificates = fmempty, lm_metadata = fmempty,
                    lm_dns = st, revoked = [], issued_calls = [], renewed_calls = [], failed_calls = [], lm_started = False, lm_stopped = False\<rparr>)"

definition RegisterChallengeHandler :: "'s lifecycle \<Rightarrow> dns_handler \<Rightarrow> 's lifecycle" where
  "RegisterChallengeHandler m h = m\<lparr>challenges := (challenges m)(handler_Type h \<mapsto> h)\<rparr>"

definition updateMetadataState :: "'s lifecycle \<Rightarrow> string \<Rightarrow> cert_state \<Rightarrow> cert_error \<Rightarrow> time \<Rightarrow> 's lifecycle" where
  "updateMetadataState m domain state lastErr now =
     (case fmlookup (lm_metadata m) domain of
        None \<Rightarrow> m
      | Some meta \<Rightarrow> m\<lparr>lm_metadata := fmupd domain (meta\<lparr>md_State := state, LastError := Some lastErr, LastAttempt := now\<rparr>) (lm_metadata m)\<rparr>)"

definition save_metadata :: "'s cert_env \<Rightarrow> 's lifecycle \<Rightarrow> cert_metadata \<Rightarrow> 's lifecycle" where
  "save_metadata env m meta =
     (case lm_disk m of None \<Rightarrow> m | Some d \<Rightarrow> m\<lparr>lm_disk := Some (snd (SaveMetadata (ce_codec env) d meta))\<rparr>)"

text \<open>
  What the authority and the packages for keys and certificates answer while one certificate is issued: an error
  text or a result. \<open>an_KeyPair\<close> is \<open>tls.X509KeyPair\<close>, \<open>an_Parse\<close> is \<open>x509.ParseCertificate\<close>.
\<close>

record acme_answers =
  an_Authorize :: "string + string \<times> (string \<times> string) list"
  an_DNS01 :: "string \<Rightarrow> string + string"
  an_Accept :: "string option"
  an_Wait :: "string option"
  an_Key :: "string option"
  an_CSR :: "string option"
  an_CreateCert :: "string + byte list list"
  an_MarshalKey :: "string + byte list"
  an_KeyPair :: "byte list \<Rightarrow> byte list \<Rightarrow> string + tls_certificate"
  an_Parse :: "byte list \<Rightarrow> x509_fields option"

text \<open>The challenge that is taken: one of the requested type, or the first one that has a handler.\<close>

definition choose_challenge :: "'s lifecycle \<Rightarrow> string \<Rightarrow> (string \<times> string) list \<Rightarrow> (string \<times> string) option" where
  "choose_challenge m challengeType chs =
     (case find (\<lambda>ch. fst ch = challengeType) chs of
        Some ch \<Rightarrow> Some (challengeType, snd ch)
      | None \<Rightarrow>
          (case find (\<lambda>ch. challenges m (fst ch) \<noteq> None) chs of
             None \<Rightarrow> None
           | Some ch \<Rightarrow> Some (handler_Type (the (challenges m (fst ch))), snd ch)))"

definition failed_with :: "'s lifecycle \<Rightarrow> string \<Rightarrow> cert_error \<Rightarrow> cert_error \<Rightarrow> time \<Rightarrow> (cert_error + 'a) \<times> 's lifecycle" where
  "failed_with m domain lastErr err now = (Inl err, updateMetadataState m domain CertStateFailed lastErr now)"

text \<open>
  Proving control of the domain, up to the cleanup of the challenge, which comes after the authority has
  refused the challenge, after its check has failed, and after its check has succeeded.
\<close>

definition clean_up :: "'s cert_env \<Rightarrow> 's lifecycle \<Rightarrow> string \<Rightarrow> dns_handler \<Rightarrow> string \<Rightarrow> (nat \<Rightarrow> time) \<Rightarrow> 's lifecycle" where
  "clean_up env m challengeType h domain clk =
     (case handler_CleanupChallenge env h (lm_dns m) domain clk of
        (h1, st1) \<Rightarrow> m\<lparr>challenges := (challenges m)(challengeType \<mapsto> h1), lm_dns := st1\<rparr>)"

definition prove_control :: "'s cert_env \<Rightarrow> 's lifecycle \<Rightarrow> string \<Rightarrow> string \<Rightarrow> string \<Rightarrow> acme_answers \<Rightarrow> (nat \<Rightarrow> time) \<Rightarrow> (cert_error + unit) \<times> 's lifecycle" where
  "prove_control env m domain challengeType token an clk =
     (case challenges m challengeType of
        None \<Rightarrow> failed_with m domain (No_Handler_For challengeType) (No_Handler_For challengeType) (clk 1)
      | Some h \<Rightarrow>
          (case (if challengeType = ''dns-01'' then an_DNS01 an token else Inr token) of
             Inl e \<Rightarrow> failed_with m domain (ACME_Error e) (Wrapped ''dns01 challenge record'' (ACME_Error e)) (clk 1)
           | Inr value \<Rightarrow>
               (case HandleChallenge env h (lm_dns m) domain value (\<lambda>n. clk (10 + n)) of
                  (r, h1, st1) \<Rightarrow>
                    let m1 = m\<lparr>challenges := (challenges m)(challengeType \<mapsto> h1), lm_dns := st1\<rparr>
                    in (case r of
                          Some e \<Rightarrow> failed_with m1 domain e (Wrapped ''handle challenge'' e) (clk 1)
                        | None \<Rightarrow>
                            let cleaned = clean_up env m1 challengeType h1 domain (\<lambda>n. clk (20 + n))
                            in (case an_Accept an of
                                  Some e \<Rightarrow> failed_with cleaned domain (ACME_Error e) (Wrapped ''accept challenge'' (ACME_Error e)) (clk 1)
                                | None \<Rightarrow>
                                    (case an_Wait an of
                                       Some e \<Rightarrow> failed_with cleaned domain (ACME_Error e) (Wrapped ''wait authorization'' (ACME_Error e)) (clk 1)
                                     | None \<Rightarrow> (Inr (), cleaned)))))))"

definition base64_lines :: "byte list \<Rightarrow> string list" where
  "base64_lines bs =
     (let s = encode_bits ''ABCDEFGHIJKLMNOPQRSTUVWXYZabcdefghijklmnopqrstuvwxyz0123456789+/'' 6 bs
      in chunks 64 (s @ replicate ((4 - length s mod 4) mod 4) CHR ''=''))"

definition pem_EncodeToMemory :: "string \<Rightarrow> byte list \<Rightarrow> byte list" where
  "pem_EncodeToMemory typ bs =
     bytes_of (''-----BEGIN '' @ typ @ ''-----'' @ [CHR 0x0A] @ concat (map (\<lambda>l. l @ [CHR 0x0A]) (base64_lines bs)) @ ''-----END '' @ typ @ ''-----'' @ [CHR 0x0A])"

text \<open>The key, the certificate and their encodings; an empty chain of certificates is a panic.\<close>

definition obtain_pair :: "'s lifecycle \<Rightarrow> string \<Rightarrow> acme_answers \<Rightarrow> (nat \<Rightarrow> time) \<Rightarrow> (go_panic + (cert_error + byte list \<times> byte list)) \<times> 's lifecycle" where
  "obtain_pair m domain an clk =
     (let failing = (\<lambda>what e. case failed_with m domain (ACME_Error e) (Wrapped what (ACME_Error e)) (clk 2) of (r, m1) \<Rightarrow> (Inr r, m1))
      in case an_Key an of
           Some e \<Rightarrow> failing ''generate certificate key'' e
         | None \<Rightarrow>
             (case an_CSR an of
                Some e \<Rightarrow> failing ''create CSR'' e
              | None \<Rightarrow>
                  (case an_CreateCert an of
                     Inl e \<Rightarrow> failing ''create certificate'' e
                   | Inr [] \<Rightarrow> (Inl Index_Out_Of_Range, m)
                   | Inr (der # _) \<Rightarrow>
                       (case an_MarshalKey an of
                          Inl e \<Rightarrow> failing ''marshal key'' e
                        | Inr key \<Rightarrow>
                            (Inr (Inr (pem_EncodeToMemory ''CERTIFICATE'' der, pem_EncodeToMemory ''EC PRIVATE KEY'' key)), m)))))"

definition described :: "duration \<Rightarrow> x509_fields \<Rightarrow> cert_metadata \<Rightarrow> cert_metadata" where
  "described window x meta =
     meta\<lparr>SerialNumber := xf_SerialNumber x, md_Issuer := xf_Issuer x, NotBefore := xf_NotBefore x, NotAfter := xf_NotAfter x,
          Fingerprint := hex_EncodeToString (xf_AuthorityKeyId x), NextRenewal := xf_NotAfter x - window\<rparr>"

definition issued_metadata :: "'s lifecycle \<Rightarrow> acme_answers \<Rightarrow> tls_certificate \<Rightarrow> cert_metadata \<Rightarrow> cert_metadata" where
  "issued_metadata m an cert meta =
     (let meta = meta\<lparr>md_State := CertStateIssued, RetryCount := 0, LastError := None\<rparr>
      in case tc_Certificate cert of
           [] \<Rightarrow> meta
         | leaf # _ \<Rightarrow> (case an_Parse an leaf of None \<Rightarrow> meta | Some x \<Rightarrow> described (lc_RenewalWindow (lm_config m)) x meta))"

definition install :: "'s cert_env \<Rightarrow> 's lifecycle \<Rightarrow> string \<Rightarrow> acme_answers \<Rightarrow> byte list \<Rightarrow> byte list \<Rightarrow> (nat \<Rightarrow> time) \<Rightarrow> (cert_error + tls_certificate) \<times> 's lifecycle" where
  "install env m domain an certPEM keyPEM clk =
     (case (case lm_disk m of None \<Rightarrow> (True, m) | Some d \<Rightarrow> (case SaveCertificate d domain certPEM keyPEM of (ok, d1) \<Rightarrow> (ok, m\<lparr>lm_disk := Some d1\<rparr>))) of
        (False, m1) \<Rightarrow> failed_with m1 domain Disk_Error (Wrapped ''save certificate'' Disk_Error) (clk 3)
      | (True, m1) \<Rightarrow>
          (case an_KeyPair an certPEM keyPEM of
             Inl e \<Rightarrow> failed_with m1 domain (ACME_Error e) (Wrapped ''parse certificate'' (ACME_Error e)) (clk 3)
           | Inr cert \<Rightarrow>
               let meta = issued_metadata m1 an cert (the (fmlookup (lm_metadata m1) domain));
                   m2 = m1\<lparr>lm_metadata := fmupd domain meta (lm_metadata m1), certificates := fmupd domain cert (certificates m1)\<rparr>;
                   m3 = save_metadata env m2 meta
               in (Inr cert, if lc_OnCertIssued (lm_config m3) then m3\<lparr>issued_calls := issued_calls m3 @ [(domain, cert)]\<rparr> else m3)))"

definition fresh_metadata :: "string \<Rightarrow> string \<Rightarrow> time \<Rightarrow> cert_metadata" where
  "fresh_metadata domain challengeType now =
     \<lparr>md_Domain = domain, md_State = CertStatePending, SerialNumber = [], md_Issuer = [], NotBefore = zero_time, NotAfter = zero_time, Fingerprint = [],
      ACMEAccountID = [], OrderURL = [], ChallengeType = challengeType, LastAttempt = now, NextRenewal = zero_time, RetryCount = 0, LastError = None,
      md_Metadata = fmempty\<rparr>"

text \<open>The rest of issuing, once the authority has named its challenges.\<close>

definition complete_order :: "'s cert_env \<Rightarrow> 's lifecycle \<Rightarrow> string \<Rightarrow> string \<Rightarrow> (string \<times> string) list \<Rightarrow> acme_answers \<Rightarrow> (nat \<Rightarrow> time) \<Rightarrow>
    (go_panic + (cert_error + tls_certificate)) \<times> 's lifecycle" where
  "complete_order env m domain challengeType chs an clk =
     (case choose_challenge m challengeType chs of
        None \<Rightarrow> (case failed_with m domain No_Supported_Challenge No_Supported_Challenge (clk 1) of (r, m3) \<Rightarrow> (Inr r, m3))
      | Some (ty, token) \<Rightarrow>
          (case prove_control env m domain ty token an clk of
             (Inl e, m3) \<Rightarrow> (Inr (Inl e), m3)
           | (Inr _, m3) \<Rightarrow>
               (case obtain_pair m3 domain an clk of
                  (Inl p, m4) \<Rightarrow> (Inl p, m4)
                | (Inr (Inl e), m4) \<Rightarrow> (Inr (Inl e), m4)
                | (Inr (Inr (certPEM, keyPEM)), m4) \<Rightarrow>
                    (case install env m4 domain an certPEM keyPEM clk of (r, m5) \<Rightarrow> (Inr r, m5)))))"

definition IssueCertificate :: "'s cert_env \<Rightarrow> 's lifecycle \<Rightarrow> string \<Rightarrow> string \<Rightarrow> acme_answers \<Rightarrow> (nat \<Rightarrow> time) \<Rightarrow>
    (go_panic + (cert_error + tls_certificate)) \<times> 's lifecycle" where
  "IssueCertificate env m domain challengeType an clk =
     (let meta = fresh_metadata domain challengeType (clk 0);
          m1 = m\<lparr>lm_metadata := fmupd domain meta (lm_metadata m)\<rparr>
      in case an_Authorize an of
           Inl e \<Rightarrow> (case failed_with m1 domain (ACME_Error e) (Wrapped ''create authorization'' (ACME_Error e)) (clk 1) of (r, m2) \<Rightarrow> (Inr r, m2))
         | Inr (uri, chs) \<Rightarrow>
             let meta = meta\<lparr>OrderURL := uri, md_State := CertStateValidating\<rparr>;
                 m2 = save_metadata env (m1\<lparr>lm_metadata := fmupd domain meta (lm_metadata m1)\<rparr>) meta
             in complete_order env m2 domain challengeType chs an clk)"

text \<open>\<open>answer\<close> is what the authority says to the revocation.\<close>

definition RevokeCertificate :: "'s lifecycle \<Rightarrow> string \<Rightarrow> string option \<Rightarrow> cert_error option \<times> 's lifecycle" where
  "RevokeCertificate m domain answer =
     (case fmlookup (certificates m) domain of
        None \<Rightarrow> (Some (No_Certificate_For domain), m)
      | Some cert \<Rightarrow>
          let m1 = m\<lparr>certificates := fmdrop domain (certificates m), lm_metadata := fmdrop domain (lm_metadata m)\<rparr>;
              deleted = (\<lambda>m. case lm_disk m of None \<Rightarrow> m | Some d \<Rightarrow> m\<lparr>lm_disk := Some (snd (DeleteCertificate d domain))\<rparr>)
          in (case tc_Certificate cert of
                [] \<Rightarrow> (None, deleted m1)
              | leaf # _ \<Rightarrow>
                  (case answer of
                     Some e \<Rightarrow> (Some (Wrapped ''revoke certificate'' (ACME_Error e)), m1)
                   | None \<Rightarrow> (None, deleted (m1\<lparr>revoked := revoked m1 @ [leaf]\<rparr>)))))"

definition GetCertificate :: "'s lifecycle \<Rightarrow> string \<Rightarrow> tls_certificate option" where
  "GetCertificate m domain = fmlookup (certificates m) domain"

definition GetMetadata :: "'s lifecycle \<Rightarrow> string \<Rightarrow> cert_metadata option" where
  "GetMetadata m domain = fmlookup (lm_metadata m) domain"

definition ListCertificates :: "'s lifecycle \<Rightarrow> string list \<Rightarrow> cert_metadata list" where
  "ListCertificates m ks = List.map_filter (fmlookup (lm_metadata m)) ks"

fun findDotIndex :: "string \<Rightarrow> nat option" where
  "findDotIndex [] = None"
| "findDotIndex (c # cs) = (if c = CHR ''.'' then Some 0 else map_option Suc (findDotIndex cs))"

text \<open>The callback of \<open>TLSConfig\<close>; the index of a dot at the start is not used.\<close>

definition TLSConfig_GetCertificate :: "'s lifecycle \<Rightarrow> string \<Rightarrow> tls_certificate option" where
  "TLSConfig_GetCertificate m serverName =
     (case GetCertificate m serverName of
        Some cert \<Rightarrow> Some cert
      | None \<Rightarrow>
          (case findDotIndex serverName of
             Some idx \<Rightarrow> if idx > 0 then GetCertificate m (''*.'' @ drop (idx + 1) serverName) else None
           | None \<Rightarrow> None))"

subsection \<open>Renewal\<close>

text \<open>Whether the old certificate is revoked is up to the authority; its answer is ignored.\<close>

definition renewCertificate :: "'s cert_env \<Rightarrow> 's lifecycle \<Rightarrow> string \<Rightarrow> bool \<Rightarrow> acme_answers \<Rightarrow> (nat \<Rightarrow> time) \<Rightarrow> (go_panic + cert_error option) \<times> 's lifecycle" where
  "renewCertificate env m domain accepted an clk =
     (case fmlookup (lm_metadata m) domain of
        None \<Rightarrow> (Inr (Some (No_Metadata_For domain)), m)
      | Some meta0 \<Rightarrow>
          let meta = meta0\<lparr>md_State := CertStateRenewing, LastAttempt := clk 40\<rparr>;
              challengeType = (if ChallengeType meta = [] then ''dns-01'' else ChallengeType meta);
              m1 = save_metadata env (m\<lparr>lm_metadata := fmupd domain meta (lm_metadata m)\<rparr>) meta;
              m2 = (case fmlookup (certificates m1) domain of
                      Some old \<Rightarrow> (case tc_Certificate old of leaf # _ \<Rightarrow> if accepted then m1\<lparr>revoked := revoked m1 @ [leaf]\<rparr> else m1 | [] \<Rightarrow> m1)
                    | None \<Rightarrow> m1)
          in (case IssueCertificate env m2 domain challengeType an clk of
                (Inl p, m3) \<Rightarrow> (Inl p, m3)
              | (Inr (Inl e), m3) \<Rightarrow> (Inr (Some e), m3)
              | (Inr (Inr cert), m3) \<Rightarrow>
                  (Inr None, if lc_OnCertRenewed (lm_config m3) then m3\<lparr>renewed_calls := renewed_calls m3 @ [(domain, cert)]\<rparr> else m3)))"

definition note_failure :: "'s lifecycle \<Rightarrow> string \<Rightarrow> cert_error \<Rightarrow> time \<Rightarrow> 's lifecycle" where
  "note_failure m domain e now =
     (let m1 = (case fmlookup (lm_metadata m) domain of
                  None \<Rightarrow> m
                | Some meta \<Rightarrow>
                    let meta = meta\<lparr>RetryCount := RetryCount meta + 1, LastError := Some e, LastAttempt := now\<rparr>;
                        meta = (if RetryCount meta \<ge> lc_MaxRetries (lm_config m) then meta\<lparr>md_State := CertStateFailed\<rparr> else meta)
                    in m\<lparr>lm_metadata := fmupd domain meta (lm_metadata m)\<rparr>)
      in if lc_OnCertFailed (lm_config m1) then m1\<lparr>failed_calls := failed_calls m1 @ [(domain, e)]\<rparr> else m1)"

definition needs_renewal :: "'s lifecycle \<Rightarrow> time \<Rightarrow> string \<Rightarrow> bool" where
  "needs_renewal m now domain \<longleftrightarrow>
     (case fmlookup (lm_metadata m) domain of Some meta \<Rightarrow> md_State meta = CertStateIssued \<and> now > NextRenewal meta | None \<Rightarrow> False)"

text \<open>What the outside answers while one domain is renewed: the revocation, the authority, the clock.\<close>

record renewal =
  rn_accepted :: bool
  rn_answers :: acme_answers
  rn_clk :: "nat \<Rightarrow> time"

fun renew_all :: "'s cert_env \<Rightarrow> 's lifecycle \<Rightarrow> (string \<Rightarrow> renewal) \<Rightarrow> string list \<Rightarrow> go_panic option \<times> 's lifecycle" where
  "renew_all env m rn [] = (None, m)"
| "renew_all env m rn (domain # ds) =
     (case renewCertificate env m domain (rn_accepted (rn domain)) (rn_answers (rn domain)) (rn_clk (rn domain)) of
        (Inl p, m1) \<Rightarrow> (Some p, m1)
      | (Inr None, m1) \<Rightarrow> renew_all env m1 rn ds
      | (Inr (Some e), m1) \<Rightarrow> renew_all env (note_failure m1 domain e (rn_clk (rn domain) 41)) rn ds)"

text \<open>\<open>ks\<close> is the order in which the map is visited, \<open>now\<close> the clock at each domain. A panic ends the process.\<close>

definition checkAndRenewCertificates :: "'s cert_env \<Rightarrow> 's lifecycle \<Rightarrow> (string \<Rightarrow> time) \<Rightarrow> string list \<Rightarrow> (string \<Rightarrow> renewal) \<Rightarrow> go_panic option \<times> 's lifecycle" where
  "checkAndRenewCertificates env m now ks rn = renew_all env m rn (filter (\<lambda>d. needs_renewal m (now d) d) ks)"

subsection \<open>Starting and stopping\<close>

fun load_pairs :: "(byte list \<Rightarrow> byte list \<Rightarrow> string + tls_certificate) \<Rightarrow> 's lifecycle \<Rightarrow> cert_disk \<Rightarrow> cert_metadata list \<Rightarrow> 's lifecycle \<times> cert_disk" where
  "load_pairs keypair m d [] = (m, d)"
| "load_pairs keypair m d (meta # metas) =
     (case LoadCertificate d (md_Domain meta) of
        (None, d1) \<Rightarrow> load_pairs keypair m d1 metas
      | (Some (certPEM, keyPEM), d1) \<Rightarrow>
          (case keypair certPEM keyPEM of
             Inl _ \<Rightarrow> load_pairs keypair m d1 metas
           | Inr cert \<Rightarrow>
               load_pairs keypair (m\<lparr>certificates := fmupd (md_Domain meta) cert (certificates m), lm_metadata := fmupd (md_Domain meta) meta (lm_metadata m)\<rparr>)
                 d1 metas))"

definition loadExistingCertificates :: "'s cert_env \<Rightarrow> (byte list \<Rightarrow> byte list \<Rightarrow> string + tls_certificate) \<Rightarrow> 's lifecycle \<Rightarrow> bool \<times> 's lifecycle" where
  "loadExistingCertificates env keypair m =
     (case lm_disk m of
        None \<Rightarrow> (True, m)
      | Some d \<Rightarrow>
          (case store_ListCertificates (ce_codec env) d of
             (None, d1) \<Rightarrow> (False, m\<lparr>lm_disk := Some d1\<rparr>)
           | (Some metas, d1) \<Rightarrow> (case load_pairs keypair m d1 metas of (m1, d2) \<Rightarrow> (True, m1\<lparr>lm_disk := Some d2\<rparr>))))"

datatype register_answer = Registered string | Already_Exists "string option" | Register_Failed string

text \<open>The answer to the registration of the account; \<open>None\<close> is success of the start.\<close>

definition lifecycle_Start :: "'s cert_env \<Rightarrow> (byte list \<Rightarrow> byte list \<Rightarrow> string + tls_certificate) \<Rightarrow> 's lifecycle \<Rightarrow> register_answer \<Rightarrow> cert_error option \<times> 's lifecycle" where
  "lifecycle_Start env keypair m answer =
     (case answer of
        Register_Failed e \<Rightarrow> (Some (Wrapped ''register ACME account'' (ACME_Error e)), m)
      | _ \<Rightarrow>
          let m1 = (case answer of Registered uri \<Rightarrow> m\<lparr>accountURL := uri\<rparr> | Already_Exists (Some uri) \<Rightarrow> m\<lparr>accountURL := uri\<rparr> | _ \<Rightarrow> m)
          in (case loadExistingCertificates env keypair m1 of
                (False, m2) \<Rightarrow> (Some (Wrapped ''load existing certificates'' Disk_Error), m2)
              | (True, m2) \<Rightarrow> (None, m2\<lparr>lm_started := True\<rparr>)))"

definition lifecycle_Stop :: "'s lifecycle \<Rightarrow> go_panic + 's lifecycle" where
  "lifecycle_Stop m = (if lm_stopped m then Inl Close_Of_Closed_Channel else Inr (m\<lparr>lm_stopped := True\<rparr>))"

subsection \<open>The host policy of the other manager\<close>

definition acme_hosts :: "string list \<Rightarrow> string set" where
  "acme_hosts hosts = set (filter (\<lambda>h. h \<noteq> []) (map TrimSpace hosts))"

text \<open>Without hosts there is no policy, and the package issues certificates for every host it is asked for.\<close>

definition host_policy :: "string list \<Rightarrow> string \<Rightarrow> bool" where
  "host_policy hosts host \<longleftrightarrow> acme_hosts hosts = {} \<or> host \<in> acme_hosts hosts"

end
