(* ===== verification/Certificate_Proofs.thy ===== *)
theory Certificate_Proofs
  imports Certificates
begin

section \<open>Certificates: issuing, renewing, restarting\<close>

text \<open>
  What each stage of issuing leaves alone, the outcome of issuing on every branch, what a failed renewal leads
  to, and that a restart finds the certificates again.
\<close>

subsection \<open>Frames\<close>

named_theorems cert_frame \<open>fields a stage of issuing does not change\<close>

lemma save_metadata_frame [cert_frame]:
  "certificates (save_metadata env m x) = certificates m" "lm_metadata (save_metadata env m x) = lm_metadata m" "lm_config (save_metadata env m x) = lm_config m"
  "revoked (save_metadata env m x) = revoked m" "challenges (save_metadata env m x) = challenges m"
  by (simp_all add: save_metadata_def split: option.split)

lemma updateMetadataState_frame [cert_frame]:
  "certificates (updateMetadataState m d s e t) = certificates m" "lm_config (updateMetadataState m d s e t) = lm_config m"
  "revoked (updateMetadataState m d s e t) = revoked m" "lm_disk (updateMetadataState m d s e t) = lm_disk m"
  by (simp_all add: updateMetadataState_def split: option.split)

lemma clean_up_frame [cert_frame]:
  "certificates (clean_up env m t h d clk) = certificates m" "lm_metadata (clean_up env m t h d clk) = lm_metadata m"
  "lm_config (clean_up env m t h d clk) = lm_config m" "revoked (clean_up env m t h d clk) = revoked m" "lm_disk (clean_up env m t h d clk) = lm_disk m"
  by (simp_all add: clean_up_def split: prod.split)

text \<open>What every stage guarantees: it keeps the certificates, and a failure is noted in the metadata of the domain alone.\<close>

definition stage_ok :: "'s lifecycle \<Rightarrow> string \<Rightarrow> bool \<Rightarrow> 's lifecycle \<Rightarrow> bool" where
  "stage_ok m domain failed m' \<longleftrightarrow> certificates m' = certificates m \<and> lm_config m' = lm_config m \<and> revoked m' = revoked m
     \<and> (\<forall>d. d \<noteq> domain \<longrightarrow> fmlookup (lm_metadata m') d = fmlookup (lm_metadata m) d)
     \<and> (\<forall>meta. fmlookup (lm_metadata m) domain = Some meta \<longrightarrow>
          (if failed then \<exists>meta'. fmlookup (lm_metadata m') domain = Some meta' \<and> md_State meta' = CertStateFailed \<and> LastError meta' \<noteq> None
             \<and> md_Domain meta' = md_Domain meta \<and> ChallengeType meta' = ChallengeType meta \<and> RetryCount meta' = RetryCount meta
           else fmlookup (lm_metadata m') domain = Some meta))"

lemma failed_with_ok:
  assumes "failed_with m domain le e t = (r, m')"
  shows "r = Inl e \<and> stage_ok m domain True m' \<and> lm_disk m' = lm_disk m"
  using assms by (auto simp: failed_with_def stage_ok_def cert_frame updateMetadataState_def split: option.splits)

lemma stage_ok_frame [cert_frame]:
  "stage_ok (m\<lparr>challenges := c, lm_dns := st\<rparr>) domain b m' = stage_ok m domain b m'"
  "stage_ok (clean_up env m ty h d clk) domain b m' = stage_ok m domain b m'"
  "stage_ok m domain False (clean_up env m ty h d clk)" "stage_ok m domain False m"
  "stage_ok m domain False (clean_up env (m\<lparr>challenges := c, lm_dns := st\<rparr>) ty h d clk)"
  by (simp_all add: stage_ok_def cert_frame)

lemma prove_control_ok:
  assumes "prove_control env m domain ty token an clk = (r, m')"
  shows "stage_ok m domain (isl r) m' \<and> lm_disk m' = lm_disk m"
  using assms unfolding prove_control_def Let_def
  by (auto simp: cert_frame split: option.splits sum.splits prod.splits dest!: failed_with_ok)

lemma obtain_pair_ok:
  assumes "obtain_pair m domain an clk = (r, m')"
  shows "(case r of Inl p \<Rightarrow> p = Index_Out_Of_Range \<and> an_CreateCert an = Inr [] \<and> m' = m | Inr (Inl e) \<Rightarrow> stage_ok m domain True m' | Inr (Inr _) \<Rightarrow> m' = m)"
proof -
  have f: "(case failed_with m domain le e t of (r, m1) \<Rightarrow> (Inr r :: go_panic + cert_error + byte list \<times> byte list, m1)) = (r, m') \<Longrightarrow> r = Inr (Inl e) \<and> stage_ok m domain True m'" for le e t
    using failed_with_ok [of m domain le e t "Inl e" m'] by (auto simp: failed_with_def)
  from assms show ?thesis unfolding obtain_pair_def Let_def
    by (auto dest!: f split: option.splits sum.splits list.splits)
qed

definition issued_ok :: "'s lifecycle \<Rightarrow> string \<Rightarrow> acme_answers \<Rightarrow> tls_certificate \<Rightarrow> 's lifecycle \<Rightarrow> bool" where
  "issued_ok m domain an cert m' \<longleftrightarrow> certificates m' = fmupd domain cert (certificates m) \<and> lm_config m' = lm_config m \<and> revoked m' = revoked m
     \<and> (\<forall>d. d \<noteq> domain \<longrightarrow> fmlookup (lm_metadata m') d = fmlookup (lm_metadata m) d)
     \<and> (\<exists>meta. fmlookup (lm_metadata m') domain = Some meta \<and> md_Domain meta = domain \<and> md_State meta = CertStateIssued \<and> RetryCount meta = 0 \<and> LastError meta = None
          \<and> (\<forall>leaf chain x. tc_Certificate cert = leaf # chain \<and> an_Parse an leaf = Some x \<longrightarrow>
               NotAfter meta = xf_NotAfter x \<and> NextRenewal meta = xf_NotAfter x - lc_RenewalWindow (lm_config m)))"

lemma install_ok:
  assumes "install env m domain an certPEM keyPEM clk = (r, m')" "fmlookup (lm_metadata m) domain = Some meta" "md_Domain meta = domain"
  shows "case r of Inl e \<Rightarrow> stage_ok m domain True m' | Inr cert \<Rightarrow> issued_ok m domain an cert m'"
proof -
  define saved where "saved = (case lm_disk m of None \<Rightarrow> (True, m) | Some d \<Rightarrow> (case SaveCertificate d domain certPEM keyPEM of (ok, d1) \<Rightarrow> (ok, m\<lparr>lm_disk := Some d1\<rparr>)))"
  obtain ok m1 where s: "saved = (ok, m1)" by fastforce
  then have m1: "certificates m1 = certificates m" "lm_config m1 = lm_config m" "revoked m1 = revoked m" "lm_metadata m1 = lm_metadata m"
    unfolding saved_def by (auto split: option.splits prod.splits)
  have c: "stage_ok m1 domain b x = stage_ok m domain b x" for b x unfolding stage_ok_def m1 by simp
  show ?thesis
  proof (cases ok)
    case False
    with assms(1) s failed_with_ok [of m1 domain Disk_Error "Wrapped ''save certificate'' Disk_Error" "clk 3" r m'] show ?thesis
      unfolding install_def saved_def [symmetric] by (simp add: c)
  next
    case True
    show ?thesis
    proof (cases "an_KeyPair an certPEM keyPEM")
      case (Inl e)
      with assms(1) s True failed_with_ok [of m1 domain "ACME_Error e" "Wrapped ''parse certificate'' (ACME_Error e)" "clk 3" r m'] show ?thesis
        unfolding install_def saved_def [symmetric] by (simp add: c)
    next
      case (Inr cert)
      with assms s True m1 show ?thesis unfolding install_def saved_def [symmetric]
        by (auto simp: Let_def issued_ok_def cert_frame issued_metadata_def described_def split: list.splits option.splits if_splits)
    qed
  qed
qed

lemma stage_ok_trans: "stage_ok m domain False m1 \<Longrightarrow> stage_ok m1 domain b m2 \<Longrightarrow> fmlookup (lm_metadata m) domain = Some meta \<Longrightarrow> stage_ok m domain b m2"
  by (auto simp: stage_ok_def)

text \<open>What issuing comes to.\<close>

definition refused_ok :: "'s lifecycle \<Rightarrow> string \<Rightarrow> string \<Rightarrow> 's lifecycle \<Rightarrow> bool" where
  "refused_ok m domain challengeType m' \<longleftrightarrow> certificates m' = certificates m \<and> lm_config m' = lm_config m \<and> revoked m' = revoked m
     \<and> (\<forall>d. d \<noteq> domain \<longrightarrow> fmlookup (lm_metadata m') d = fmlookup (lm_metadata m) d)
     \<and> (\<exists>meta. fmlookup (lm_metadata m') domain = Some meta \<and> md_State meta = CertStateFailed \<and> LastError meta \<noteq> None \<and> md_Domain meta = domain
          \<and> ChallengeType meta = challengeType \<and> RetryCount meta = 0)"

lemma refused_okI:
  assumes "stage_ok m2 domain True m'" "certificates m2 = certificates m" "lm_config m2 = lm_config m" "revoked m2 = revoked m"
    "\<And>d. d \<noteq> domain \<Longrightarrow> fmlookup (lm_metadata m2) d = fmlookup (lm_metadata m) d"
    "fmlookup (lm_metadata m2) domain = Some meta" "md_Domain meta = domain" "ChallengeType meta = challengeType" "RetryCount meta = 0"
  shows "refused_ok m domain challengeType m'"
  using assms by (auto simp: stage_ok_def refused_ok_def)

lemma complete_order_ok:
  assumes "complete_order env m domain challengeType chs an clk = (r, m')"
    "fmlookup (lm_metadata m) domain = Some meta" "md_Domain meta = domain"
  shows "case r of Inl p \<Rightarrow> p = Index_Out_Of_Range \<and> an_CreateCert an = Inr [] \<and> stage_ok m domain False m'
    | Inr (Inl e) \<Rightarrow> stage_ok m domain True m'
    | Inr (Inr cert) \<Rightarrow> issued_ok m domain an cert m'"
proof (cases "choose_challenge m challengeType chs")
  case None
  with assms(1) failed_with_ok [of m domain No_Supported_Challenge No_Supported_Challenge "clk 1"] show ?thesis
    unfolding complete_order_def by (fastforce split: prod.splits)
next
  case (Some tt)
  obtain ty token where tt: "tt = (ty, token)" by fastforce
  obtain pr m3 where pr: "prove_control env m domain ty token an clk = (pr, m3)" by fastforce
  note p3 = prove_control_ok [OF pr]
  show ?thesis
  proof (cases pr)
    case (Inl e)
    with assms(1) Some tt pr p3 show ?thesis unfolding complete_order_def by auto
  next
    case prr: (Inr u)
    then have s3: "stage_ok m domain False m3" using p3 by simp
    then have l3: "fmlookup (lm_metadata m3) domain = Some meta" using assms(2) by (simp add: stage_ok_def)
    note trans = stage_ok_trans [OF s3 _ assms(2)]
    obtain ob m4 where ob: "obtain_pair m3 domain an clk = (ob, m4)" by fastforce
    note p4 = obtain_pair_ok [OF ob]
    consider p where "ob = Inl p" | e where "ob = Inr (Inl e)" | c k where "ob = Inr (Inr (c, k))" by (metis prod.collapse sum.exhaust)
    then show ?thesis
    proof cases
      case (3 c k)
      obtain r5 m5 where i: "install env m4 domain an c k clk = (r5, m5)" by fastforce
      from 3 p4 have m4: "m4 = m3" by simp
      from assms(1) Some tt pr prr ob 3 i have r: "r = Inr r5" "m' = m5" unfolding complete_order_def by auto
      have iss: "issued_ok m3 domain an cert x \<Longrightarrow> issued_ok m domain an cert x" for cert x using s3 by (simp add: issued_ok_def stage_ok_def)
      from install_ok [OF i [unfolded m4] l3 assms(3)] show ?thesis using r trans iss by (cases r5) simp_all
    qed (use assms(1) Some tt pr prr ob p4 s3 trans in \<open>auto simp: complete_order_def\<close>)
  qed
qed

lemma IssueCertificate_ok:
  assumes "IssueCertificate env m domain challengeType an clk = (r, m')"
  shows "case r of Inl p \<Rightarrow> p = Index_Out_Of_Range \<and> an_CreateCert an = Inr [] \<and> certificates m' = certificates m \<and> lm_config m' = lm_config m \<and> revoked m' = revoked m
        \<and> (\<forall>d. d \<noteq> domain \<longrightarrow> fmlookup (lm_metadata m') d = fmlookup (lm_metadata m) d)
    | Inr (Inl e) \<Rightarrow> refused_ok m domain challengeType m'
    | Inr (Inr cert) \<Rightarrow> issued_ok m domain an cert m'"
proof (cases "an_Authorize an")
  case (Inl e)
  let ?m1 = "m\<lparr>lm_metadata := fmupd domain (fresh_metadata domain challengeType (clk 0)) (lm_metadata m)\<rparr>"
  from Inl assms have "isl (projr r)" "\<not> isl r" "stage_ok ?m1 domain True m'"
    by (auto simp: IssueCertificate_def Let_def split: prod.splits dest!: failed_with_ok)
  then show ?thesis by (auto split: sum.splits intro!: refused_okI [of ?m1] simp: fresh_metadata_def)
next
  case (Inr uc)
  obtain uri chs where uc: "uc = (uri, chs)" by fastforce
  define meta where "meta = (fresh_metadata domain challengeType (clk 0))\<lparr>OrderURL := uri, md_State := CertStateValidating\<rparr>"
  define m2 where "m2 = save_metadata env (m\<lparr>lm_metadata := fmupd domain meta (lm_metadata m)\<rparr>) meta"
  have m2: "certificates m2 = certificates m" "lm_config m2 = lm_config m" "revoked m2 = revoked m" "lm_metadata m2 = fmupd domain meta (lm_metadata m)"
    by (simp_all add: m2_def cert_frame)
  have meta: "md_Domain meta = domain" "ChallengeType meta = challengeType" "RetryCount meta = 0" by (simp_all add: meta_def fresh_metadata_def)
  have "complete_order env m2 domain challengeType chs an clk = (r, m')"
    using assms Inr uc by (simp add: IssueCertificate_def Let_def m2_def meta_def)
  note ok = complete_order_ok [OF this _ meta(1)]
  consider p where "r = Inl p" | e where "r = Inr (Inl e)" | c where "r = Inr (Inr c)" by (metis sum.exhaust)
  then show ?thesis
  proof cases
    case 1
    with ok m2 show ?thesis by (simp add: stage_ok_def)
  next
    case 2
    with ok m2 meta show ?thesis by (auto intro!: refused_okI [of m2])
  next
    case 3
    with ok m2 show ?thesis by (auto simp: issued_ok_def)
  qed
qed

text \<open>The part all outcomes share.\<close>

lemma IssueCertificate_frame:
  assumes "IssueCertificate env m domain challengeType an clk = (r, m')"
  shows "lm_config m' = lm_config m" "revoked m' = revoked m" "d \<noteq> domain \<Longrightarrow> fmlookup (lm_metadata m') d = fmlookup (lm_metadata m) d"
    "d \<noteq> domain \<Longrightarrow> fmlookup (certificates m') d = fmlookup (certificates m) d"
  using IssueCertificate_ok [OF assms] by (auto simp: refused_ok_def issued_ok_def split: sum.splits)

definition order_fails :: "acme_answers \<Rightarrow> bool" where
  "order_fails an \<longleftrightarrow> isl (an_Authorize an) \<or> an_Wait an \<noteq> None \<or> isl (an_CreateCert an)"

lemma IssueCertificate_fails:
  assumes "IssueCertificate env m domain challengeType an clk = (r, m')" "order_fails an"
  shows "\<exists>e. r = Inr (Inl e)"
proof -
  have pc: "isl (fst (prove_control env m0 domain ty token an clk))" if "an_Wait an \<noteq> None" for m0 :: "'a lifecycle" and ty token
    using that unfolding prove_control_def failed_with_def Let_def by (auto split: option.split sum.split prod.split)
  have op: "\<exists>e. fst (obtain_pair m0 domain an clk) = Inr (Inl e)" if "isl (an_CreateCert an)" for m0 :: "'a lifecycle"
    using that unfolding obtain_pair_def failed_with_def Let_def by (auto split: option.split sum.split list.split)
  have "\<exists>e. fst (complete_order env m0 domain challengeType chs an clk) = Inr (Inl e)" if o: "an_Wait an \<noteq> None \<or> isl (an_CreateCert an)" for m0 chs
  proof (cases "choose_challenge m0 challengeType chs")
    case None
    then show ?thesis by (simp add: complete_order_def failed_with_def)
  next
    case (Some tt)
    obtain ty token where tt: "tt = (ty, token)" by fastforce
    obtain pr m3 where pr: "prove_control env m0 domain ty token an clk = (pr, m3)" by fastforce
    obtain ob m4 where ob: "obtain_pair m3 domain an clk = (ob, m4)" by fastforce
    have "isl pr \<or> (\<exists>e. ob = Inr (Inl e))" using o pc [of m0 ty token] op [of m3] pr ob by auto
    then show ?thesis using Some tt pr ob by (cases pr) (auto simp: complete_order_def)
  qed
  note co = this
  show ?thesis
  proof (cases "an_Authorize an")
    case (Inl e)
    with assms(1) show ?thesis by (simp add: IssueCertificate_def Let_def failed_with_def) blast
  next
    case (Inr uc)
    obtain uri chs where uc: "uc = (uri, chs)" by fastforce
    from Inr assms(2) have "an_Wait an \<noteq> None \<or> isl (an_CreateCert an)" by (simp add: order_fails_def)
    from co [OF this] assms(1) Inr uc show ?thesis by (simp add: IssueCertificate_def Let_def) (metis fst_conv)
  qed
qed

subsection \<open>Renewal\<close>

definition leaf_of :: "tls_certificate option \<Rightarrow> byte list list" where
  "leaf_of cert = (case cert of None \<Rightarrow> [] | Some c \<Rightarrow> take 1 (tc_Certificate c))"

text \<open>What a renewal hands to \<open>IssueCertificate\<close>: the metadata is marked, and the old certificate may be revoked.\<close>

lemma renewCertificate_runs:
  assumes "renewCertificate env m domain acc an clk = (r, m')" "fmlookup (lm_metadata m) domain = Some meta"
  obtains m2 ct r2 m3 where "IssueCertificate env m2 domain ct an clk = (r2, m3)"
    "r = map_sum id (case_sum Some (\<lambda>_. None)) r2" "lm_metadata m' = lm_metadata m3" "certificates m' = certificates m3" "revoked m' = revoked m3" "lm_config m' = lm_config m3"
    "certificates m2 = certificates m" "lm_config m2 = lm_config m"
    "\<And>d. d \<noteq> domain \<Longrightarrow> fmlookup (lm_metadata m2) d = fmlookup (lm_metadata m) d"
    "revoked m2 = revoked m @ (if acc then leaf_of (fmlookup (certificates m) domain) else [])"
proof -
  define meta1 where "meta1 = meta\<lparr>md_State := CertStateRenewing, LastAttempt := clk 40\<rparr>"
  define ct where "ct = (if ChallengeType meta1 = [] then ''dns-01'' else ChallengeType meta1)"
  define m1 where "m1 = save_metadata env (m\<lparr>lm_metadata := fmupd domain meta1 (lm_metadata m)\<rparr>) meta1"
  define m2 where "m2 = (case fmlookup (certificates m1) domain of
      Some old \<Rightarrow> (case tc_Certificate old of leaf # _ \<Rightarrow> if acc then m1\<lparr>revoked := revoked m1 @ [leaf]\<rparr> else m1 | [] \<Rightarrow> m1) | None \<Rightarrow> m1)"
  obtain r2 m3 where i: "IssueCertificate env m2 domain ct an clk = (r2, m3)" by fastforce
  have m1: "certificates m1 = certificates m" "lm_config m1 = lm_config m" "revoked m1 = revoked m" "lm_metadata m1 = fmupd domain meta1 (lm_metadata m)"
    by (simp_all add: m1_def cert_frame)
  have m2: "certificates m2 = certificates m" "lm_config m2 = lm_config m" "lm_metadata m2 = fmupd domain meta1 (lm_metadata m)"
    "revoked m2 = revoked m @ (if acc then leaf_of (fmlookup (certificates m) domain) else [])"
    using m1 unfolding m2_def by (auto simp: leaf_of_def split: option.split list.split)
  have "(case (r2, m3) of (Inl p, m3) \<Rightarrow> (Inl p, m3) | (Inr (Inl e), m3) \<Rightarrow> (Inr (Some e), m3)
      | (Inr (Inr cert), m3) \<Rightarrow> (Inr None, if lc_OnCertRenewed (lm_config m3) then m3\<lparr>renewed_calls := renewed_calls m3 @ [(domain, cert)]\<rparr> else m3)) = (r, m')"
    using assms i unfolding renewCertificate_def Let_def m2_def m1_def ct_def meta1_def by simp
  then have "r = map_sum id (case_sum Some (\<lambda>_. None)) r2" "lm_metadata m' = lm_metadata m3" "certificates m' = certificates m3" "revoked m' = revoked m3" "lm_config m' = lm_config m3"
    by (auto split: sum.splits)
  then show thesis by (rule that [OF i]) (use m2 in simp_all)
qed

lemma renewCertificate_frame:
  assumes "renewCertificate env m domain acc an clk = (r, m')"
  shows "lm_config m' = lm_config m" "d \<noteq> domain \<Longrightarrow> fmlookup (lm_metadata m') d = fmlookup (lm_metadata m) d"
    "d \<noteq> domain \<Longrightarrow> fmlookup (certificates m') d = fmlookup (certificates m) d" "set (revoked m) \<subseteq> set (revoked m')"
proof -
  have "lm_config m' = lm_config m \<and> (d \<noteq> domain \<longrightarrow> fmlookup (lm_metadata m') d = fmlookup (lm_metadata m) d
      \<and> fmlookup (certificates m') d = fmlookup (certificates m) d) \<and> set (revoked m) \<subseteq> set (revoked m')"
  proof (cases "fmlookup (lm_metadata m) domain")
    case None
    with assms show ?thesis by (simp add: renewCertificate_def)
  next
    case (Some meta)
    from assms Some show ?thesis
      by (rule renewCertificate_runs) (use IssueCertificate_frame in fastforce)
  qed
  then show "lm_config m' = lm_config m" "d \<noteq> domain \<Longrightarrow> fmlookup (lm_metadata m') d = fmlookup (lm_metadata m) d"
    "d \<noteq> domain \<Longrightarrow> fmlookup (certificates m') d = fmlookup (certificates m) d" "set (revoked m) \<subseteq> set (revoked m')" by simp_all
qed

lemma note_failure_frame [cert_frame]:
  "lm_config (note_failure m domain e t) = lm_config m" "certificates (note_failure m domain e t) = certificates m" "revoked (note_failure m domain e t) = revoked m"
  "d \<noteq> domain \<Longrightarrow> fmlookup (lm_metadata (note_failure m domain e t)) d = fmlookup (lm_metadata m) d"
  by (simp_all add: note_failure_def Let_def split: option.split)

definition untouched :: "string \<Rightarrow> 's lifecycle \<Rightarrow> 's lifecycle \<Rightarrow> bool" where
  "untouched d m m' \<longleftrightarrow> lm_config m' = lm_config m \<and> fmlookup (lm_metadata m') d = fmlookup (lm_metadata m) d
     \<and> fmlookup (certificates m') d = fmlookup (certificates m) d \<and> set (revoked m) \<subseteq> set (revoked m')"

lemma untouched_refl [simp]: "untouched d m m"
  by (simp add: untouched_def)

lemma untouched_trans: "untouched d m m1 \<Longrightarrow> untouched d m1 m2 \<Longrightarrow> untouched d m m2"
  by (auto simp: untouched_def)

lemma renew_all_untouched: "d \<notin> set ds \<Longrightarrow> untouched d m (snd (renew_all env m rn ds))"
proof (induction env m rn ds rule: renew_all.induct)
  case (2 env m rn domain ds)
  obtain r m1 where r: "renewCertificate env m domain (rn_accepted (rn domain)) (rn_answers (rn domain)) (rn_clk (rn domain)) = (r, m1)" by fastforce
  from 2(3) have u: "untouched d m m1" using renewCertificate_frame [OF r] by (simp add: untouched_def)
  then have f: "untouched d m (note_failure m1 domain e t)" for e t using 2(3) by (simp add: untouched_def cert_frame)
  consider p where "r = Inl p" | "r = Inr None" | e where "r = Inr (Some e)" by (metis option.exhaust sum.exhaust)
  then show ?case
  proof cases
    case 2
    then show ?thesis using "2.IH"(1) [OF r [symmetric] _ _] "2.prems" r u by (auto intro: untouched_trans)
  next
    case (3 e)
    then show ?thesis using "2.IH"(2) [OF r [symmetric] _ _] "2.prems" r f by (auto intro: untouched_trans)
  qed (use u r in simp)
qed simp

lemma renew_all_append:
  "renew_all env m rn (ds @ es) = (case renew_all env m rn ds of (Some p, m1) \<Rightarrow> (Some p, m1) | (None, m1) \<Rightarrow> renew_all env m1 rn es)"
  by (induction env m rn ds rule: renew_all.induct) (auto split: prod.split sum.split option.split)

text \<open>The state a domain is left in by a renewal that failed.\<close>

definition given_up :: "string \<Rightarrow> tls_certificate option \<Rightarrow> 's lifecycle \<Rightarrow> bool" where
  "given_up d cert m \<longleftrightarrow> fmlookup (certificates m) d = cert
     \<and> (\<exists>meta. fmlookup (lm_metadata m) d = Some meta \<and> md_State meta = CertStateFailed \<and> RetryCount meta = 1)"

lemma given_up_untouched: "given_up d cert m \<Longrightarrow> untouched d m m' \<Longrightarrow> given_up d cert m'"
  by (simp add: given_up_def untouched_def)

lemma renewCertificate_fails:
  assumes "renewCertificate env m d acc an clk = (r, m')" "fmlookup (lm_metadata m) d = Some meta" "order_fails an"
  shows "\<exists>e. r = Inr (Some e) \<and> given_up d (fmlookup (certificates m) d) (note_failure m' d e t)
    \<and> (acc \<longrightarrow> set (leaf_of (fmlookup (certificates m) d)) \<subseteq> set (revoked m'))"
  using assms(1,2)
proof (rule renewCertificate_runs)
  fix m2 ct r2 m3
  assume i: "IssueCertificate env m2 d ct an clk = (r2, m3)"
    and r: "r = map_sum id (case_sum Some (\<lambda>_. None)) r2" "lm_metadata m' = lm_metadata m3" "certificates m' = certificates m3" "revoked m' = revoked m3"
    and m2: "certificates m2 = certificates m" "revoked m2 = revoked m @ (if acc then leaf_of (fmlookup (certificates m) d) else [])"
  from IssueCertificate_fails [OF i assms(3)] obtain e where e: "r2 = Inr (Inl e)" by blast
  with IssueCertificate_ok [OF i] have "refused_ok m2 d ct m3" by simp
  then obtain meta' where "fmlookup (lm_metadata m3) d = Some meta'" "md_State meta' = CertStateFailed" "RetryCount meta' = 0"
      "certificates m3 = certificates m2" "revoked m3 = revoked m2" by (auto simp: refused_ok_def)
  then show ?thesis using r m2 e by (auto simp: given_up_def note_failure_def Let_def)
qed

lemma renew_all_given_up:
  assumes "renew_all env m rn ds = (None, m')" "d \<in> set ds" "distinct ds" "fmlookup (lm_metadata m) d \<noteq> None" "order_fails (rn_answers (rn d))"
  shows "given_up d (fmlookup (certificates m) d) m' \<and> (rn_accepted (rn d) \<longrightarrow> set (leaf_of (fmlookup (certificates m) d)) \<subseteq> set (revoked m'))"
proof -
  from assms(2) obtain as bs where ds: "ds = as @ d # bs" by (meson split_list)
  with assms(3) have n: "d \<notin> set as" "d \<notin> set bs" by simp_all
  obtain m1 where a: "renew_all env m rn as = (None, m1)" and b: "renew_all env m1 rn (d # bs) = (None, m')"
    using assms(1) ds by (auto simp: renew_all_append split: prod.splits option.splits)
  from renew_all_untouched [OF n(1), of m env rn] a have u: "untouched d m m1" by simp
  obtain r m2 where r: "renewCertificate env m1 d (rn_accepted (rn d)) (rn_answers (rn d)) (rn_clk (rn d)) = (r, m2)" by fastforce
  obtain meta where meta: "fmlookup (lm_metadata m1) d = Some meta" using assms(4) u by (auto simp: untouched_def)
  obtain e where e: "r = Inr (Some e)" "given_up d (fmlookup (certificates m1) d) (note_failure m2 d e (rn_clk (rn d) 41))"
      "rn_accepted (rn d) \<longrightarrow> set (leaf_of (fmlookup (certificates m1) d)) \<subseteq> set (revoked m2)"
    using renewCertificate_fails [OF r meta assms(5)] by blast
  from b r e(1) have "renew_all env (note_failure m2 d e (rn_clk (rn d) 41)) rn bs = (None, m')" by simp
  with renew_all_untouched [OF n(2), of "note_failure m2 d e (rn_clk (rn d) 41)" env rn]
  have v: "untouched d (note_failure m2 d e (rn_clk (rn d) 41)) m'" by simp
  from given_up_untouched [OF e(2) v] e(3) u v show ?thesis by (auto simp: untouched_def cert_frame)
qed

text \<open>A run of the worker: the clock at each domain, the order of the map, and what the outside answers.\<close>

record worker_run =
  wr_now :: "string \<Rightarrow> time"
  wr_order :: "string list"
  wr_renewals :: "string \<Rightarrow> renewal"

definition worker :: "'s cert_env \<Rightarrow> 's lifecycle \<Rightarrow> worker_run \<Rightarrow> 's lifecycle" where
  "worker env m w = snd (checkAndRenewCertificates env m (wr_now w) (wr_order w) (wr_renewals w))"

lemma worker_given_up:
  assumes "given_up d cert m \<and> set rv \<subseteq> set (revoked m)"
  shows "given_up d cert (worker env m w) \<and> set rv \<subseteq> set (revoked (worker env m w))"
proof -
  from assms have "d \<notin> set (filter (\<lambda>d. needs_renewal m (wr_now w d) d) (wr_order w))" by (auto simp: given_up_def needs_renewal_def)
  then have "untouched d m (worker env m w)" unfolding worker_def checkAndRenewCertificates_def by (rule renew_all_untouched)
  with assms show ?thesis using given_up_untouched by (auto simp: untouched_def)
qed

interpretation worker_runs: op_system "worker env" "\<lambda>m. given_up d cert m \<and> set rv \<subseteq> set (revoked m)" for env d cert rv
  by unfold_locales (rule worker_given_up)

text \<open>
  C30: One failed attempt to renew a certificate is the last one. If a certificate is due and the order fails,
  because the authority cannot be asked, refuses the challenge, or does not issue, then the domain is left in the
  state failed with one of the configured retries used, and no later run of the worker, whenever it comes and whatever is
  answered, touches the domain again: the old certificate stays the one that is served, although the
  authority may have revoked it before the new one was ordered.
\<close>

theorem failed_renewal_is_never_retried:
  assumes "checkAndRenewCertificates env m now ks rn = (None, m1)" "distinct ks" "d \<in> set ks" "needs_renewal m (now d) d" "order_fails (rn_answers (rn d))"
    and "GetCertificate m d = Some cert"
  shows "TLSConfig_GetCertificate (foldl (worker env) m1 ws) d = Some cert
      \<and> (rn_accepted (rn d) \<longrightarrow> set (take 1 (tc_Certificate cert)) \<subseteq> set (revoked (foldl (worker env) m1 ws)))
      \<and> (\<exists>meta. GetMetadata (foldl (worker env) m1 ws) d = Some meta \<and> md_State meta = CertStateFailed \<and> RetryCount meta = 1)"
proof -
  let ?rv = "if rn_accepted (rn d) then leaf_of (fmlookup (certificates m) d) else []"
  let ?ds = "filter (\<lambda>d. needs_renewal m (now d) d) ks"
  have "renew_all env m rn ?ds = (None, m1)" "d \<in> set ?ds" "distinct ?ds" "fmlookup (lm_metadata m) d \<noteq> None"
    using assms by (auto simp: checkAndRenewCertificates_def needs_renewal_def split: option.splits)
  from renew_all_given_up [OF this assms(5)] have "given_up d (fmlookup (certificates m) d) m1 \<and> set ?rv \<subseteq> set (revoked m1)" by auto
  from worker_runs.run_invar [OF this, of env ws] assms(6) show ?thesis
    by (auto simp: given_up_def TLSConfig_GetCertificate_def GetCertificate_def GetMetadata_def leaf_of_def)
qed

subsection \<open>A concrete manager\<close>

definition demo_codec :: meta_codec where
  "demo_codec = \<lparr>mc_Marshal = (\<lambda>_. Some []), mc_Unmarshal = (\<lambda>_. Some (fresh_metadata ''a.io'' ''dns-01'' 0))\<rparr>"

definition demo_env :: "unit cert_env" where
  "demo_env = \<lparr>ce_cloudflare = (\<lambda>s c. (No_Reply [], s)), ce_digitalocean = (\<lambda>s c. (No_Reply [], s)), ce_codec = demo_codec\<rparr>"

definition demo_answers :: acme_answers where
  "demo_answers = \<lparr>an_Authorize = Inr (''order/1'', [(''http-01'', ''t0''), (''dns-01'', ''t1'')]), an_DNS01 = (\<lambda>t. Inr (''v'' @ t)), an_Accept = None, an_Wait = None,
     an_Key = None, an_CSR = None, an_CreateCert = Inr [[1]], an_MarshalKey = Inr [2], an_KeyPair = (\<lambda>c k. Inr \<lparr>tc_Certificate = [[1]], tc_Key = [2]\<rparr>),
     an_Parse = (\<lambda>_. Some \<lparr>xf_SerialNumber = ''7'', xf_Issuer = ''CA'', xf_NotBefore = 0, xf_NotAfter = 90, xf_AuthorityKeyId = [1]\<rparr>)\<rparr>"

definition demo_config :: lifecycle_config where
  "demo_config = \<lparr>lc_Email = ''ops'', lc_DirectoryURL = ''ca'', lc_Store = None, lc_RenewalWindow = 30, lc_MaxRetries = 5, lc_RetryBackoff = 1,
     lc_OnCertIssued = False, lc_OnCertRenewed = False, lc_OnCertFailed = True\<rparr>"

definition demo_handler :: dns_handler where
  "demo_handler = \<lparr>dh_providerName = ''manual'', dh_registry = Some (dns_NewRegistry\<lparr>reg_providers := fmupd ''manual'' (Manual fmempty) fmempty\<rparr>)\<rparr>"

definition demo_manager :: "unit lifecycle" where
  "demo_manager = RegisterChallengeHandler (the (NewLifecycleManager ''ca'' True () demo_config)) demo_handler"

definition demo_issued :: "unit lifecycle" where
  "demo_issued = snd (IssueCertificate demo_env demo_manager ''a.io'' ''dns-01'' demo_answers (\<lambda>_. 0))"

lemmas demo_defs = demo_issued_def demo_manager_def demo_handler_def demo_config_def demo_answers_def demo_env_def demo_codec_def NewLifecycleManager_def RegisterChallengeHandler_def
  handler_Type_def Let_def

lemma demo_issue:
  "IssueCertificate demo_env demo_manager ''a.io'' ''dns-01'' demo_answers (\<lambda>_. 0) = (Inr (Inr \<lparr>tc_Certificate = [[1]], tc_Key = [2]\<rparr>), demo_issued)"
  by (simp add: demo_defs IssueCertificate_def fresh_metadata_def save_metadata_def complete_order_def choose_challenge_def
      prove_control_def HandleChallenge_def CreateChallenge_def GetProvider_def clean_up_def handler_CleanupChallenge_def CleanupChallenge_def dns_NewRegistry_def
      obtain_pair_def install_def)

text \<open>
  C28: What issuing a certificate comes to, whatever the authority, the provider of the challenge and the disk answer. Other domains keep their certificate and metadata.
  Success installs the certificate, marks the domain issued with no retries and no error, and schedules the
  renewal the configured window before the end of the certificate. Every error leaves the certificate in use,
  marks the domain failed and notes the error. Only an answer without a certificate, which is an index out of
  range, ends the process. An order that the authority does not accept, validate or issue never succeeds.
\<close>

theorem certificate_issue_outcome:
  assumes "IssueCertificate env m domain challengeType an clk = (r, m')"
  shows "(\<forall>d. d \<noteq> domain \<longrightarrow> GetCertificate m' d = GetCertificate m d \<and> GetMetadata m' d = GetMetadata m d)
    \<and> (order_fails an \<longrightarrow> (\<exists>e. r = Inr (Inl e)))
    \<and> (case r of
         Inl p \<Rightarrow> p = Index_Out_Of_Range \<and> an_CreateCert an = Inr []
       | Inr (Inl e) \<Rightarrow> GetCertificate m' domain = GetCertificate m domain
           \<and> (\<exists>meta. GetMetadata m' domain = Some meta \<and> md_State meta = CertStateFailed \<and> LastError meta \<noteq> None \<and> ChallengeType meta = challengeType)
       | Inr (Inr cert) \<Rightarrow> GetCertificate m' domain = Some cert
           \<and> (\<exists>meta. GetMetadata m' domain = Some meta \<and> md_State meta = CertStateIssued \<and> RetryCount meta = 0 \<and> LastError meta = None
              \<and> (\<forall>leaf chain x. tc_Certificate cert = leaf # chain \<and> an_Parse an leaf = Some x \<longrightarrow>
                   NotAfter meta = xf_NotAfter x \<and> NextRenewal meta = xf_NotAfter x - lc_RenewalWindow (lm_config m))))"
proof -
  consider p where "r = Inl p" | e where "r = Inr (Inl e)" | cert where "r = Inr (Inr cert)" by (metis sum.exhaust)
  then show ?thesis
    using IssueCertificate_frame [OF assms] IssueCertificate_fails [OF assms] IssueCertificate_ok [OF assms]
    by cases (auto simp: refused_ok_def issued_ok_def GetCertificate_def GetMetadata_def)
qed

theorem certificate_issue_outcome_witness:
  "\<exists>meta. GetCertificate demo_issued ''a.io'' = Some \<lparr>tc_Certificate = [[1]], tc_Key = [2]\<rparr> \<and> GetMetadata demo_issued ''a.io'' = Some meta
     \<and> md_State meta = CertStateIssued \<and> NextRenewal meta = 60"
proof -
  from certificate_issue_outcome [OF demo_issue] obtain meta where
    m: "GetCertificate demo_issued ''a.io'' = Some \<lparr>tc_Certificate = [[1]], tc_Key = [2]\<rparr>" "GetMetadata demo_issued ''a.io'' = Some meta" "md_State meta = CertStateIssued"
      "\<forall>leaf chain x. [[1]] = leaf # chain \<and> an_Parse demo_answers leaf = Some x \<longrightarrow> NextRenewal meta = xf_NotAfter x - lc_RenewalWindow (lm_config demo_manager)"
    by auto
  have "an_Parse demo_answers [1] = Some \<lparr>xf_SerialNumber = ''7'', xf_Issuer = ''CA'', xf_NotBefore = 0, xf_NotAfter = 90, xf_AuthorityKeyId = [1]\<rparr>"
    "lc_RenewalWindow (lm_config demo_manager) = 30" by (simp_all add: demo_defs)
  with m show ?thesis by simp
qed

definition demo_outage :: "string \<Rightarrow> renewal" where
  "demo_outage = (\<lambda>_. \<lparr>rn_accepted = True, rn_answers = demo_answers\<lparr>an_Authorize := Inl ''down''\<rparr>, rn_clk = (\<lambda>_. 70)\<rparr>)"

definition demo_run :: worker_run where
  "demo_run = \<lparr>wr_now = (\<lambda>_. 80), wr_order = [''a.io''], wr_renewals = (\<lambda>_. \<lparr>rn_accepted = True, rn_answers = demo_answers, rn_clk = (\<lambda>_. 80)\<rparr>)\<rparr>"

theorem failed_renewal_is_never_retried_witness:
  "\<exists>m1. checkAndRenewCertificates demo_env demo_issued (\<lambda>_. 70) [''a.io''] demo_outage = (None, m1)
     \<and> TLSConfig_GetCertificate (foldl (worker demo_env) m1 [demo_run, demo_run]) ''a.io'' = Some \<lparr>tc_Certificate = [[1]], tc_Key = [2]\<rparr>
     \<and> [1] \<in> set (revoked (foldl (worker demo_env) m1 [demo_run, demo_run]))
     \<and> (\<exists>meta. GetMetadata (foldl (worker demo_env) m1 [demo_run, demo_run]) ''a.io'' = Some meta \<and> RetryCount meta = 1) \<and> lc_MaxRetries demo_config = 5"
proof -
  obtain meta where i: "fmlookup (certificates demo_issued) ''a.io'' = Some \<lparr>tc_Certificate = [[1]], tc_Key = [2]\<rparr>" "fmlookup (lm_metadata demo_issued) ''a.io'' = Some meta"
      "md_State meta = CertStateIssued" "NextRenewal meta = 60"
    using IssueCertificate_ok [OF demo_issue] by (auto simp: issued_ok_def demo_defs)
  have f: "order_fails (rn_answers (demo_outage ''a.io''))" by (simp add: order_fails_def demo_outage_def)
  have n: "needs_renewal demo_issued 70 ''a.io''" using i by (simp add: needs_renewal_def)
  obtain r m0 where r: "renewCertificate demo_env demo_issued ''a.io'' (rn_accepted (demo_outage ''a.io'')) (rn_answers (demo_outage ''a.io'')) (rn_clk (demo_outage ''a.io'')) = (r, m0)" by fastforce
  from renewCertificate_fails [OF r i(2) f] obtain e where "r = Inr (Some e)" by blast
  with r n obtain m1 where c: "checkAndRenewCertificates demo_env demo_issued (\<lambda>_. 70) [''a.io''] demo_outage = (None, m1)"
    by (simp add: checkAndRenewCertificates_def)
  from failed_renewal_is_never_retried [OF c _ _ n f, of "\<lparr>tc_Certificate = [[1]], tc_Key = [2]\<rparr>" "[demo_run, demo_run]"] i c show ?thesis
    by (auto simp: GetCertificate_def demo_outage_def demo_config_def)
qed

subsection \<open>Restarting\<close>

text \<open>The names of directories: reading a name back and forming it again changes nothing.\<close>

definition plain_name :: "string \<Rightarrow> bool" where
  "plain_name s \<longleftrightarrow> set s \<inter> {CHR ''*'', CHR '':'', CHR ''/'', CHR 0x5C} = {}"

lemma plain_replaced: "plain_name (concat (map replaced_char s))"
  by (induction s) (auto simp: plain_name_def)

lemma sanitise_plain: "plain_name s \<Longrightarrow> concat (map replaced_char s) = s"
  by (induction s) (auto simp: plain_name_def)

lemma sanitise_restored: "plain_name s \<Longrightarrow> concat (map replaced_char rep) = pat \<Longrightarrow> concat (map replaced_char (replace_all pat rep s)) = s"
proof (induction pat rep s rule: replace_all.induct)
  case (1 pat rep s)
  consider "pat = [] \<or> s = []" | "pat \<noteq> []" "s \<noteq> []" "HasPrefix s pat" | c t where "pat \<noteq> []" "s = c # t" "\<not> HasPrefix s pat" by (cases s) auto
  then show ?case
  proof cases
    case 1
    then show ?thesis using sanitise_plain [OF "1.prems"(1)] by (subst replace_all.simps) simp
  next
    case 2
    then have "plain_name (drop (length pat) s)" "pat @ drop (length pat) s = s" using "1.prems"(1)
      by (auto simp: plain_name_def HasPrefix_def dest: in_set_dropD) (metis append_take_drop_id)
    with 2 "1.IH"(1) "1.prems"(2) show ?thesis by (subst replace_all.simps) (simp del: replaced_char.simps)
  next
    case (3 c t)
    then have "plain_name t" "replaced_char c = [c]" using "1.prems"(1) by (auto simp: plain_name_def)
    with 3 "1.IH"(2) "1.prems"(2) show ?thesis by (subst replace_all.simps) (simp del: replaced_char.simps)
  qed
qed

lemma domainDir_restored: "domainDir (restoreDomainFromDirName (domainDir domain)) = domainDir domain"
proof -
  have "concat (map replaced_char (restoreDomainFromDirName s)) = s" if "plain_name s" for s
    unfolding restoreDomainFromDirName_def by (rule sanitise_restored [OF that]) simp
  from this [OF plain_replaced, of domain] this [of "[]"] show ?thesis by (auto simp: domainDir_def Let_def plain_name_def)
qed

text \<open>A disk on which no call fails.\<close>

definition reliable :: "cert_disk \<Rightarrow> bool" where
  "reliable d \<longleftrightarrow> cd_fault d = (\<lambda>_. None)"

definition same_content :: "cert_disk \<Rightarrow> cert_disk \<Rightarrow> bool" where
  "same_content d d' \<longleftrightarrow> cd_dirs d' = cd_dirs d \<and> cd_files d' = cd_files d \<and> reliable d'"

lemma reliable_calls:
  assumes "reliable d"
  shows "\<exists>d'. ReadFile d dir n = (fmlookup (cd_files d) (dir, n), d') \<and> same_content d d'"
    "\<exists>d'. ReadDir d = (Some (sorted_list_of_fset (cd_dirs d)), d') \<and> same_content d d'"
    "\<exists>d'. WriteFile d dir n c = (True, d') \<and> reliable d' \<and> cd_dirs d' = cd_dirs d \<and> cd_files d' = fmupd (dir, n) c (cd_files d)"
    "\<exists>d'. MkdirAll d dir = (True, d') \<and> reliable d' \<and> cd_files d' = cd_files d \<and> (cd_dirs d' = (if dir = [] \<or> dir = ''..'' then cd_dirs d else finsert dir (cd_dirs d)))"
  using assms by (auto simp: ReadFile_def ReadDir_def WriteFile_def MkdirAll_def next_fault_def reliable_def same_content_def)

lemma reliable_LoadCertificate:
  assumes "reliable d"
  shows "\<exists>d'. LoadCertificate d domain =
     (case (fmlookup (cd_files d) (domainDir domain, ''cert.pem''), fmlookup (cd_files d) (domainDir domain, ''key.pem'')) of (Some c, Some k) \<Rightarrow> Some (c, k) | _ \<Rightarrow> None, d')
     \<and> same_content d d'"
proof -
  obtain d1 where d1: "ReadFile d (domainDir domain) ''cert.pem'' = (fmlookup (cd_files d) (domainDir domain, ''cert.pem''), d1)" "same_content d d1"
    using reliable_calls(1) [OF assms] by blast
  then have "reliable d1" by (simp add: same_content_def)
  then obtain d2 where d2: "ReadFile d1 (domainDir domain) ''key.pem'' = (fmlookup (cd_files d1) (domainDir domain, ''key.pem''), d2)" "same_content d1 d2"
    using reliable_calls(1) by blast
  from d1 d2 show ?thesis by (auto simp: LoadCertificate_def same_content_def split: option.splits)
qed

definition stored_meta :: "meta_codec \<Rightarrow> cert_disk \<Rightarrow> string \<Rightarrow> cert_metadata option" where
  "stored_meta mc d dir = Option.bind (fmlookup (cd_files d) (dir, ''metadata.json'')) (mc_Unmarshal mc)"

lemma reliable_load_metas:
  "reliable d \<Longrightarrow> \<exists>d'. load_metas mc d ns = (List.map_filter (\<lambda>n. stored_meta mc d (domainDir (restoreDomainFromDirName n))) ns, d') \<and> same_content d d'"
proof (induction ns arbitrary: d)
  case (Cons n ns)
  let ?dir = "domainDir (restoreDomainFromDirName n)"
  obtain d1 where d1: "ReadFile d ?dir ''metadata.json'' = (fmlookup (cd_files d) (?dir, ''metadata.json''), d1)" "same_content d d1"
    using reliable_calls(1) [OF Cons.prems] by blast
  then have "LoadMetadata mc d (restoreDomainFromDirName n) = (stored_meta mc d ?dir, d1)"
    by (auto simp: LoadMetadata_def stored_meta_def split: option.split)
  moreover have "stored_meta mc d1 = stored_meta mc d" using d1(2) by (simp add: stored_meta_def same_content_def fun_eq_iff)
  moreover obtain d2 where "load_metas mc d1 ns = (List.map_filter (\<lambda>n. stored_meta mc d1 (domainDir (restoreDomainFromDirName n))) ns, d2)" "same_content d1 d2"
    using Cons.IH [of d1] d1(2) [unfolded same_content_def] by blast
  ultimately show ?case using d1(2) by (auto simp: same_content_def map_filter_simps split: option.split)
qed (auto simp: map_filter_simps same_content_def)

lemma load_pairs_finds:
  assumes "reliable d" "fmlookup (cd_files d) (domainDir domain, ''cert.pem'') = Some c" "fmlookup (cd_files d) (domainDir domain, ''key.pem'') = Some k"
    and "keypair c k = Inr cert" "\<And>meta'. meta' \<in> set metas \<Longrightarrow> md_Domain meta' = domain \<Longrightarrow> meta' = meta"
  shows "(fmlookup (certificates m) domain = Some cert \<and> fmlookup (lm_metadata m) domain = Some meta) \<or> domain \<in> md_Domain ` set metas \<Longrightarrow>
    fmlookup (certificates (fst (load_pairs keypair m d metas))) domain = Some cert \<and> fmlookup (lm_metadata (fst (load_pairs keypair m d metas))) domain = Some meta"
  using assms
proof (induction metas arbitrary: m d)
  case (Cons x metas)
  obtain d1 where l: "LoadCertificate d (md_Domain x) =
     (case (fmlookup (cd_files d) (domainDir (md_Domain x), ''cert.pem''), fmlookup (cd_files d) (domainDir (md_Domain x), ''key.pem'')) of (Some c, Some k) \<Rightarrow> Some (c, k) | _ \<Rightarrow> None, d1)"
     "same_content d d1" using reliable_LoadCertificate [OF Cons.prems(2)] by blast
  have d1: "reliable d1" "fmlookup (cd_files d1) (domainDir domain, ''cert.pem'') = Some c" "fmlookup (cd_files d1) (domainDir domain, ''key.pem'') = Some k"
    using l(2) Cons.prems by (simp_all add: same_content_def)
  note ih = Cons.IH [OF _ d1 Cons.prems(5)]
  show ?case
  proof (cases "md_Domain x = domain")
    case True
    then have "x = meta" using Cons.prems(6) by simp
    let ?m = "m\<lparr>certificates := fmupd domain cert (certificates m), lm_metadata := fmupd domain meta (lm_metadata m)\<rparr>"
    have "LoadCertificate d domain = (Some (c, k), d1)" using l(1) True Cons.prems(3,4) by simp
    with True \<open>x = meta\<close> Cons.prems(5) have s: "load_pairs keypair m d (x # metas) = load_pairs keypair ?m d1 metas" by simp
    show ?thesis unfolding s by (rule ih) (use Cons.prems(6) in auto)
  next
    case False
    then obtain m' where m': "load_pairs keypair m d (x # metas) = load_pairs keypair m' d1 metas"
        "fmlookup (certificates m') domain = fmlookup (certificates m) domain" "fmlookup (lm_metadata m') domain = fmlookup (lm_metadata m) domain"
      using l(1) by (cases "fst (LoadCertificate d (md_Domain x))"; cases "case_prod keypair (the (fst (LoadCertificate d (md_Domain x))))") (auto split: prod.splits option.splits)
    from Cons.prems(1) False m'(2,3) have "(fmlookup (certificates m') domain = Some cert \<and> fmlookup (lm_metadata m') domain = Some meta) \<or> domain \<in> md_Domain ` set metas" by auto
    from ih [OF this] Cons.prems(6) show ?thesis unfolding m'(1) by simp
  qed
qed simp

text \<open>
  What the store holds while no call fails: every directory has the name of its domain, and its metadata is
  that of a domain of this directory.
\<close>

definition store_ok :: "meta_codec \<Rightarrow> cert_disk \<Rightarrow> bool" where
  "store_ok mc d \<longleftrightarrow> reliable d \<and> (\<forall>dir. dir |\<in>| cd_dirs d \<longrightarrow> domainDir (restoreDomainFromDirName dir) = dir)
     \<and> (\<forall>dir meta. stored_meta mc d dir = Some meta \<longrightarrow> domainDir (md_Domain meta) = dir)"

definition codec_ok :: "meta_codec \<Rightarrow> bool" where
  "codec_ok mc \<longleftrightarrow> (\<forall>x p. mc_Marshal mc x = Some p \<longrightarrow> mc_Unmarshal mc p = Some x)"

definition named_dir :: "string \<Rightarrow> bool" where
  "named_dir domain \<longleftrightarrow> domainDir domain \<noteq> [] \<and> domainDir domain \<noteq> ''..''"

lemma store_ok_step:
  assumes "store_ok mc d" "reliable d'" "\<And>dir. dir |\<in>| cd_dirs d' \<Longrightarrow> dir |\<in>| cd_dirs d \<or> dir = domainDir domain"
    and "\<And>dir meta. stored_meta mc d' dir = Some meta \<Longrightarrow> stored_meta mc d dir = Some meta \<or> dir = domainDir (md_Domain meta)"
  shows "store_ok mc d'"
  using assms unfolding store_ok_def by (metis domainDir_restored)

lemma MkdirAll_stores:
  assumes "store_ok mc d"
  obtains d1 where "MkdirAll d (domainDir domain) = (True, d1)" "store_ok mc d1" "cd_files d1 = cd_files d" "cd_dirs d |\<subseteq>| cd_dirs d1"
    "named_dir domain \<Longrightarrow> domainDir domain |\<in>| cd_dirs d1"
proof -
  from assms have "reliable d" by (simp add: store_ok_def)
  then obtain d1 where d1: "MkdirAll d (domainDir domain) = (True, d1)" "reliable d1" "cd_files d1 = cd_files d"
      "cd_dirs d1 = (if domainDir domain = [] \<or> domainDir domain = ''..'' then cd_dirs d else finsert (domainDir domain) (cd_dirs d))" using reliable_calls(4) by blast
  have "store_ok mc d1" by (rule store_ok_step [OF assms d1(2), of domain]) (use d1(3,4) in \<open>auto simp: stored_meta_def split: if_splits\<close>)
  with d1 show thesis by (intro that [of d1]) (auto simp: named_dir_def)
qed

lemma WriteFile_stores:
  assumes "store_ok mc d" "n = ''metadata.json'' \<Longrightarrow> \<exists>x. mc_Unmarshal mc c = Some x \<and> dir = domainDir (md_Domain x)"
  obtains d1 where "WriteFile d dir n c = (True, d1)" "store_ok mc d1" "cd_dirs d1 = cd_dirs d" "cd_files d1 = fmupd (dir, n) c (cd_files d)"
proof -
  from assms(1) have "reliable d" by (simp add: store_ok_def)
  then obtain d1 where d1: "WriteFile d dir n c = (True, d1)" "reliable d1" "cd_dirs d1 = cd_dirs d" "cd_files d1 = fmupd (dir, n) c (cd_files d)" using reliable_calls(3) by blast
  have "store_ok mc d1" by (rule store_ok_step [OF assms(1) d1(2)]) (use assms(2) d1(3,4) in \<open>auto simp: stored_meta_def split: if_splits\<close>)
  with d1 show thesis by (intro that [of d1])
qed

lemma SaveMetadata_stores:
  assumes "store_ok mc d" "codec_ok mc" "SaveMetadata mc d x = (ok, d')"
  shows "store_ok mc d' \<and> (\<forall>dir n. n \<noteq> ''metadata.json'' \<longrightarrow> fmlookup (cd_files d') (dir, n) = fmlookup (cd_files d) (dir, n)) \<and> cd_dirs d |\<subseteq>| cd_dirs d'
    \<and> (mc_Marshal mc x \<noteq> None \<longrightarrow> stored_meta mc d' (domainDir (md_Domain x)) = Some x)"
proof (rule MkdirAll_stores [OF assms(1)])
  fix d1 assume d1: "MkdirAll d (domainDir (md_Domain x)) = (True, d1)" "store_ok mc d1" "cd_files d1 = cd_files d" "cd_dirs d |\<subseteq>| cd_dirs d1"
  show ?thesis
  proof (cases "mc_Marshal mc x")
    case None
    with assms(3) d1 show ?thesis by (simp add: SaveMetadata_def)
  next
    case (Some p)
    then have u: "mc_Unmarshal mc p = Some x" using assms(2) by (simp add: codec_ok_def)
    obtain d2 where d2: "WriteFile d1 (domainDir (md_Domain x)) ''metadata.json'' p = (True, d2)" "store_ok mc d2" "cd_dirs d2 = cd_dirs d1"
        "cd_files d2 = fmupd (domainDir (md_Domain x), ''metadata.json'') p (cd_files d1)" by (rule WriteFile_stores [OF d1(2), of "''metadata.json''" p "domainDir (md_Domain x)"]) (use u in auto)
    with assms(3) d1 Some u show ?thesis by (auto simp: SaveMetadata_def stored_meta_def)
  qed
qed

lemma SaveCertificate_stores:
  assumes "store_ok mc d"
  obtains d' where "SaveCertificate d domain c k = (True, d')" "store_ok mc d'" "fmlookup (cd_files d') (domainDir domain, ''cert.pem'') = Some c"
    "fmlookup (cd_files d') (domainDir domain, ''key.pem'') = Some k" "named_dir domain \<Longrightarrow> domainDir domain |\<in>| cd_dirs d'"
proof (rule MkdirAll_stores [OF assms, of domain])
  fix d1 assume d1: "MkdirAll d (domainDir domain) = (True, d1)" "store_ok mc d1" "named_dir domain \<Longrightarrow> domainDir domain |\<in>| cd_dirs d1"
  obtain d2 where d2: "WriteFile d1 (domainDir domain) ''cert.pem'' c = (True, d2)" "store_ok mc d2" "cd_dirs d2 = cd_dirs d1"
      "cd_files d2 = fmupd (domainDir domain, ''cert.pem'') c (cd_files d1)" by (rule WriteFile_stores [OF d1(2), of "''cert.pem''" c "domainDir domain"]) auto
  obtain d3 where d3: "WriteFile d2 (domainDir domain) ''key.pem'' k = (True, d3)" "store_ok mc d3" "cd_dirs d3 = cd_dirs d2"
      "cd_files d3 = fmupd (domainDir domain, ''key.pem'') k (cd_files d2)" by (rule WriteFile_stores [OF d2(2), of "''key.pem''" k "domainDir domain"]) auto
  show thesis by (rule that [of d3]) (use d1 d2 d3 in \<open>simp_all add: SaveCertificate_def\<close>)
qed

text \<open>What the disk holds of a domain once its certificate is issued.\<close>

definition kept_on_disk :: "meta_codec \<Rightarrow> 's lifecycle \<Rightarrow> string \<Rightarrow> acme_answers \<Rightarrow> tls_certificate \<Rightarrow> bool" where
  "kept_on_disk mc m domain an cert \<longleftrightarrow> (\<exists>d c k meta. lm_disk m = Some d \<and> store_ok mc d \<and> fmlookup (cd_files d) (domainDir domain, ''cert.pem'') = Some c
     \<and> fmlookup (cd_files d) (domainDir domain, ''key.pem'') = Some k \<and> an_KeyPair an c k = Inr cert \<and> (named_dir domain \<longrightarrow> domainDir domain |\<in>| cd_dirs d)
     \<and> fmlookup (lm_metadata m) domain = Some meta \<and> md_Domain meta = domain \<and> (mc_Marshal mc meta \<noteq> None \<longrightarrow> stored_meta mc d (domainDir domain) = Some meta))"

lemma install_keeps:
  assumes "install env m domain an c k clk = (Inr cert, m')" "fmlookup (lm_metadata m) domain = Some meta" "md_Domain meta = domain"
    and "lm_disk m = Some d" "store_ok (ce_codec env) d" "codec_ok (ce_codec env)"
  shows "kept_on_disk (ce_codec env) m' domain an cert"
proof -
  obtain d1 where d1: "SaveCertificate d domain c k = (True, d1)" "store_ok (ce_codec env) d1" "fmlookup (cd_files d1) (domainDir domain, ''cert.pem'') = Some c"
      "fmlookup (cd_files d1) (domainDir domain, ''key.pem'') = Some k" "named_dir domain \<Longrightarrow> domainDir domain |\<in>| cd_dirs d1"
    using SaveCertificate_stores [OF assms(5)] by blast
  define meta2 where "meta2 = issued_metadata (m\<lparr>lm_disk := Some d1\<rparr>) an cert meta"
  obtain ok d2 where d2: "SaveMetadata (ce_codec env) d1 meta2 = (ok, d2)" by fastforce
  have dom: "md_Domain meta2 = domain" unfolding meta2_def using assms(3) by (simp add: issued_metadata_def described_def Let_def split: list.split option.split)
  have kp: "an_KeyPair an c k = Inr cert" using assms(1,4) d1(1) by (auto simp: install_def failed_with_def Let_def split: sum.splits)
  then have "lm_disk m' = Some d2" "fmlookup (lm_metadata m') domain = Some meta2"
    using assms(1,2,4) d1(1) d2 unfolding meta2_def by (auto simp: install_def Let_def save_metadata_def split: if_splits)
  with SaveMetadata_stores [OF d1(2) assms(6) d2] d1 dom kp show ?thesis unfolding kept_on_disk_def by (auto simp: less_eq_fset.rep_eq)
qed

lemma complete_order_keeps:
  assumes "complete_order env m domain ct chs an clk = (Inr (Inr cert), m')" "fmlookup (lm_metadata m) domain = Some meta" "md_Domain meta = domain"
    and "lm_disk m = Some d" "store_ok (ce_codec env) d" "codec_ok (ce_codec env)"
  shows "kept_on_disk (ce_codec env) m' domain an cert"
proof -
  from assms(1) obtain ty token m3 c k m4 where p: "prove_control env m domain ty token an clk = (Inr (), m3)"
      and o: "obtain_pair m3 domain an clk = (Inr (Inr (c, k)), m4)" and i: "install env m4 domain an c k clk = (Inr cert, m')"
    by (auto simp: complete_order_def failed_with_def split: option.splits prod.splits sum.splits)
  from obtain_pair_ok [OF o] have "m4 = m3" by simp
  with prove_control_ok [OF p] assms(2,4) have "fmlookup (lm_metadata m4) domain = Some meta" "lm_disk m4 = Some d" by (simp_all add: stage_ok_def)
  from install_keeps [OF i this(1) assms(3) this(2) assms(5,6)] show ?thesis .
qed

lemma IssueCertificate_keeps:
  assumes "IssueCertificate env m domain ct an clk = (Inr (Inr cert), m')" "lm_disk m = Some d" "store_ok (ce_codec env) d" "codec_ok (ce_codec env)"
  shows "kept_on_disk (ce_codec env) m' domain an cert"
proof -
  from assms(1) obtain uri chs where a: "an_Authorize an = Inr (uri, chs)"
    by (auto simp: IssueCertificate_def Let_def failed_with_def split: sum.splits prod.splits)
  define meta where "meta = (fresh_metadata domain ct (clk 0))\<lparr>OrderURL := uri, md_State := CertStateValidating\<rparr>"
  define m2 where "m2 = save_metadata env (m\<lparr>lm_metadata := fmupd domain meta (lm_metadata m)\<rparr>) meta"
  obtain ok d2 where d2: "SaveMetadata (ce_codec env) d meta = (ok, d2)" by fastforce
  have "complete_order env m2 domain ct chs an clk = (Inr (Inr cert), m')" "fmlookup (lm_metadata m2) domain = Some meta" "md_Domain meta = domain" "lm_disk m2 = Some d2"
    using assms(1,2) a d2 by (simp_all add: IssueCertificate_def Let_def m2_def meta_def save_metadata_def fresh_metadata_def)
  moreover have "store_ok (ce_codec env) d2" using SaveMetadata_stores [OF assms(3,4) d2] by simp
  ultimately show ?thesis using assms(4) complete_order_keeps by blast
qed

lemma loadExisting_finds:
  assumes "kept_on_disk (ce_codec env) m' domain an cert" "named_dir domain" "fmlookup (lm_metadata m') domain = Some meta" "mc_Marshal (ce_codec env) meta \<noteq> None"
    and "lm_disk m0 = lm_disk m'"
  shows "\<exists>m1. loadExistingCertificates env (an_KeyPair an) m0 = (True, m1) \<and> fmlookup (certificates m1) domain = Some cert \<and> fmlookup (lm_metadata m1) domain = Some meta"
proof -
  let ?mc = "ce_codec env"
  obtain d c k where d: "lm_disk m' = Some d" "store_ok ?mc d" "fmlookup (cd_files d) (domainDir domain, ''cert.pem'') = Some c"
      "fmlookup (cd_files d) (domainDir domain, ''key.pem'') = Some k" "an_KeyPair an c k = Inr cert" "domainDir domain |\<in>| cd_dirs d" "md_Domain meta = domain"
      "stored_meta ?mc d (domainDir domain) = Some meta"
  proof -
    from assms(1) obtain d c k meta' where k: "lm_disk m' = Some d" "store_ok ?mc d" "fmlookup (cd_files d) (domainDir domain, ''cert.pem'') = Some c"
        "fmlookup (cd_files d) (domainDir domain, ''key.pem'') = Some k" "an_KeyPair an c k = Inr cert" "named_dir domain \<longrightarrow> domainDir domain |\<in>| cd_dirs d"
        "fmlookup (lm_metadata m') domain = Some meta'" "md_Domain meta' = domain" "mc_Marshal ?mc meta' \<noteq> None \<longrightarrow> stored_meta ?mc d (domainDir domain) = Some meta'"
      unfolding kept_on_disk_def by (elim exE conjE)
    have "meta' = meta" using k(7) assms(3) by simp
    with k assms(2,4) show thesis by (intro that [of d c k]) simp_all
  qed
  then have rel: "reliable d" by (simp add: store_ok_def)
  let ?ns = "sorted_list_of_fset (cd_dirs d)"
  obtain d1 where d1: "ReadDir d = (Some ?ns, d1)" "same_content d d1" using reliable_calls(2) [OF rel] by blast
  then have r1: "reliable d1" and s1: "stored_meta ?mc d1 = stored_meta ?mc d" by (simp_all add: same_content_def stored_meta_def fun_eq_iff)
  define metas where "metas = List.map_filter (\<lambda>n. stored_meta ?mc d (domainDir (restoreDomainFromDirName n))) ?ns"
  obtain d2 where d2: "load_metas ?mc d1 ?ns = (metas, d2)" "same_content d1 d2" using reliable_load_metas [OF r1, of ?mc ?ns] unfolding s1 metas_def by blast
  have in_metas: "y \<in> set metas \<longleftrightarrow> (\<exists>n. n |\<in>| cd_dirs d \<and> stored_meta ?mc d n = Some y)" for y
  proof -
    have "domainDir (restoreDomainFromDirName n) = n" if "n |\<in>| cd_dirs d" for n using d(2) that by (simp add: store_ok_def)
    then show ?thesis unfolding metas_def List.map_filter_def by (auto simp: image_iff)
  qed
  from d(6,8) have hit: "meta \<in> set metas" unfolding in_metas by blast
  have uniq: "y = meta" if "y \<in> set metas" "md_Domain y = domain" for y
  proof -
    from that(1) obtain n where n: "stored_meta ?mc d n = Some y" unfolding in_metas by blast
    then have "n = domainDir domain" using d(2) that(2) unfolding store_ok_def by auto
    with n d(8) show ?thesis by simp
  qed
  have r2: "reliable d2" "fmlookup (cd_files d2) (domainDir domain, ''cert.pem'') = Some c" "fmlookup (cd_files d2) (domainDir domain, ''key.pem'') = Some k"
    using d(3,4) d1(2) d2(2) by (simp_all add: same_content_def)
  have f: "fmlookup (certificates (fst (load_pairs (an_KeyPair an) m0 d2 metas))) domain = Some cert \<and> fmlookup (lm_metadata (fst (load_pairs (an_KeyPair an) m0 d2 metas))) domain = Some meta"
    by (rule load_pairs_finds [where keypair = "an_KeyPair an" and metas = metas, OF r2(1) r2(2) r2(3) d(5) uniq]) (use d(7) hit in auto)
  have st: "store_ListCertificates ?mc d = (Some metas, d2)" using d1 d2 by (simp add: store_ListCertificates_def)
  obtain m1 d3 where l: "load_pairs (an_KeyPair an) m0 d2 metas = (m1, d3)" by fastforce
  then have "loadExistingCertificates env (an_KeyPair an) m0 = (True, m1\<lparr>lm_disk := Some d3\<rparr>)" using assms(5) d(1) st by (simp add: loadExistingCertificates_def)
  with f l show ?thesis by (intro exI [of _ "m1\<lparr>lm_disk := Some d3\<rparr>"]) simp
qed

text \<open>
  C29: A certificate that was issued is found again by the next process. If no call of the file system fails and the encoding of
  the metadata can be read back, then a manager that is started on the store after \<open>IssueCertificate\<close> has
  returned serves the same certificate for the domain and knows the same metadata, so it renews it when the old one would
  have. The domain has to be one whose directory lies below the base directory.
\<close>

theorem restart_finds_certificate:
  assumes "IssueCertificate env m domain challengeType an clk = (Inr (Inr cert), m')" "lm_disk m = Some d" "store_ok (ce_codec env) d" "codec_ok (ce_codec env)"
    and "named_dir domain" "GetMetadata m' domain = Some meta" "mc_Marshal (ce_codec env) meta \<noteq> None"
    and "lm_disk m0 = lm_disk m'" "answer = Registered uri \<or> answer = Already_Exists known"
  shows "\<exists>m1. lifecycle_Start env (an_KeyPair an) m0 answer = (None, m1) \<and> lm_started m1
     \<and> TLSConfig_GetCertificate m1 domain = Some cert \<and> GetMetadata m1 domain = Some meta"
proof -
  note k = IssueCertificate_keeps [OF assms(1-4)]
  let ?m = "case answer of Registered uri \<Rightarrow> m0\<lparr>accountURL := uri\<rparr> | Already_Exists (Some uri) \<Rightarrow> m0\<lparr>accountURL := uri\<rparr> | _ \<Rightarrow> m0"
  have "lm_disk ?m = lm_disk m'" using assms(8) by (simp split: register_answer.split option.split)
  from loadExisting_finds [OF k assms(5) _ assms(7) this] assms(6) obtain m1
    where m1: "loadExistingCertificates env (an_KeyPair an) ?m = (True, m1)" "fmlookup (certificates m1) domain = Some cert" "fmlookup (lm_metadata m1) domain = Some meta"
    by (auto simp: GetMetadata_def)
  then have "lifecycle_Start env (an_KeyPair an) m0 answer = (None, m1\<lparr>lm_started := True\<rparr>)"
    using assms(9) by (auto simp: lifecycle_Start_def Let_def)
  then show ?thesis using m1(2,3) by (intro exI [of _ "m1\<lparr>lm_started := True\<rparr>"]) (simp add: TLSConfig_GetCertificate_def GetCertificate_def GetMetadata_def)
qed

definition demo_meta :: cert_metadata where
  "demo_meta = (fresh_metadata ''a.io'' ''dns-01'' 0)\<lparr>OrderURL := ''order/1'', md_State := CertStateIssued, SerialNumber := ''7'', md_Issuer := ''CA'', NotBefore := 0, NotAfter := 90,
     Fingerprint := hex_EncodeToString [1], NextRenewal := 60\<rparr>"

definition demo_json :: meta_codec where
  "demo_json = \<lparr>mc_Marshal = (\<lambda>x. if x = demo_meta then Some [] else None), mc_Unmarshal = (\<lambda>_. Some demo_meta)\<rparr>"

definition demo_disk :: cert_disk where
  "demo_disk = \<lparr>cd_dirs = {||}, cd_files = fmempty, cd_fault = (\<lambda>_. None), cd_calls = 0\<rparr>"

theorem restart_finds_certificate_witness:
  "\<exists>m' m1. IssueCertificate (demo_env\<lparr>ce_codec := demo_json\<rparr>) (demo_manager\<lparr>lm_disk := Some demo_disk\<rparr>) ''a.io'' ''dns-01'' demo_answers (\<lambda>_. 0)
       = (Inr (Inr \<lparr>tc_Certificate = [[1]], tc_Key = [2]\<rparr>), m')
     \<and> lifecycle_Start (demo_env\<lparr>ce_codec := demo_json\<rparr>) (an_KeyPair demo_answers) (demo_manager\<lparr>lm_disk := lm_disk m'\<rparr>) (Registered ''acct/1'') = (None, m1)
     \<and> TLSConfig_GetCertificate m1 ''a.io'' = Some \<lparr>tc_Certificate = [[1]], tc_Key = [2]\<rparr>"
proof -
  let ?env = "demo_env\<lparr>ce_codec := demo_json\<rparr>" and ?m = "demo_manager\<lparr>lm_disk := Some demo_disk\<rparr>"
  have dd: "domainDir ''a.io'' = ''a.io''" by (simp add: domainDir_def)
  obtain m' where i: "IssueCertificate ?env ?m ''a.io'' ''dns-01'' demo_answers (\<lambda>_. 0) = (Inr (Inr \<lparr>tc_Certificate = [[1]], tc_Key = [2]\<rparr>), m')" and g: "GetMetadata m' ''a.io'' = Some demo_meta"
    by (simp add: demo_defs IssueCertificate_def fresh_metadata_def save_metadata_def complete_order_def choose_challenge_def
      prove_control_def HandleChallenge_def CreateChallenge_def GetProvider_def clean_up_def handler_CleanupChallenge_def CleanupChallenge_def dns_NewRegistry_def
      obtain_pair_def install_def demo_disk_def demo_json_def SaveMetadata_def SaveCertificate_def MkdirAll_def WriteFile_def next_fault_def issued_metadata_def described_def
      GetMetadata_def demo_meta_def dd)
  have s: "store_ok (ce_codec ?env) demo_disk" by (simp add: store_ok_def reliable_def demo_disk_def stored_meta_def)
  have c: "codec_ok (ce_codec ?env)" by (simp add: codec_ok_def demo_json_def)
  have n: "named_dir ''a.io''" by (simp add: named_dir_def domainDir_def)
  have mm: "mc_Marshal (ce_codec ?env) demo_meta \<noteq> None" by (simp add: demo_json_def)
  have "lm_disk ?m = Some demo_disk" "lm_disk (demo_manager\<lparr>lm_disk := lm_disk m'\<rparr>) = lm_disk m'" by simp_all
  from restart_finds_certificate [OF i this(1) s c n g mm this(2), of "Registered ''acct/1''" "''acct/1''" None] i show ?thesis by blast
qed

end
