(* ===== verification/Tunnel_Config.thy ===== *)
theory Tunnel_Config
  imports Broker
begin

section \<open>The configuration of GoTunnel\<close>

text \<open>
  Model of \<open>GoTunnel/internal/config/config.go\<close>: loading a configuration, replacing values that name an environment
  variable, and validation, which also fills in defaults. The content of the file, the YAML package and
  the environment are arguments.
\<close>

subsection \<open>Data\<close>

record tunnel =
  tn_Name :: string
  tn_Protocol :: string
  tn_LocalURL :: string
  tn_Region :: string
  tn_Subdomain :: string
  tn_Inspect :: bool
  tn_HTTPS :: string
  tn_WebhookURL :: string
  tn_CustomDomain :: string
  tn_Production :: bool
  tn_AllowSharing :: "bool option"
  tn_Labels :: "string list"

record tunnel_config =
  tg_Version :: int
  tg_Token :: string
  tg_BrokerURL :: string
  tg_Region :: string
  tg_PluginConfig :: string
  tg_Tunnels :: "tunnel list"

datatype tunnel_config_error =
    Read_Tunnel_Config
  | Parse_Tunnel_Config
  | Unsupported_Version int
  | Broker_URL_Required
  | No_Tunnels
  | Name_Required nat
  | Protocol_Required nat
  | Protocol_Not_Supported nat string
  | Local_URL_Required nat

subsection \<open>Loading\<close>

definition expandValue :: "(string \<Rightarrow> string) \<Rightarrow> string \<Rightarrow> string" where
  "expandValue getenv v = (if HasPrefix v ''env:'' then getenv (TrimPrefix v ''env:'') else v)"

definition expand_tunnel :: "(string \<Rightarrow> string) \<Rightarrow> tunnel \<Rightarrow> tunnel" where
  "expand_tunnel getenv t =
     t\<lparr>tn_LocalURL := expandValue getenv (tn_LocalURL t), tn_WebhookURL := expandValue getenv (tn_WebhookURL t),
       tn_CustomDomain := expandValue getenv (tn_CustomDomain t)\<rparr>"

definition expandEnv :: "(string \<Rightarrow> string) \<Rightarrow> tunnel_config \<Rightarrow> tunnel_config" where
  "expandEnv getenv cfg =
     cfg\<lparr>tg_Token := expandValue getenv (tg_Token cfg), tg_BrokerURL := expandValue getenv (tg_BrokerURL cfg),
         tg_PluginConfig := expandValue getenv (tg_PluginConfig cfg), tg_Tunnels := map (expand_tunnel getenv) (tg_Tunnels cfg)\<rparr>"

text \<open>The checks of one tunnel, in the order of the code, and its defaults.\<close>

definition check_tunnel :: "nat \<Rightarrow> tunnel \<Rightarrow> tunnel_config_error option" where
  "check_tunnel i t =
     (if TrimSpace (tn_Name t) = [] then Some (Name_Required i)
      else if TrimSpace (tn_Protocol t) = [] then Some (Protocol_Required i)
      else if tn_Protocol t \<noteq> ''http'' \<and> tn_Protocol t \<noteq> ''tcp'' \<and> tn_Protocol t \<noteq> ''udp'' then Some (Protocol_Not_Supported i (tn_Protocol t))
      else if TrimSpace (tn_LocalURL t) = [] then Some (Local_URL_Required i)
      else None)"

definition complete_tunnel :: "string \<Rightarrow> tunnel \<Rightarrow> tunnel" where
  "complete_tunnel region t =
     (let t1 = (if tn_HTTPS t = [] then t\<lparr>tn_HTTPS := ''auto''\<rparr> else t);
          t2 = (if tn_Region t1 = [] then t1\<lparr>tn_Region := region\<rparr> else t1)
      in if tn_AllowSharing t2 = None then t2\<lparr>tn_AllowSharing := Some (\<not> tn_Production t)\<rparr> else t2)"

fun validate_tunnels :: "string \<Rightarrow> nat \<Rightarrow> tunnel list \<Rightarrow> tunnel_config_error + tunnel list" where
  "validate_tunnels region i [] = Inr []"
| "validate_tunnels region i (t # ts) =
     (case check_tunnel i t of
        Some e \<Rightarrow> Inl e
      | None \<Rightarrow> (case validate_tunnels region (Suc i) ts of Inl e \<Rightarrow> Inl e | Inr us \<Rightarrow> Inr (complete_tunnel region t # us)))"

definition config_Validate :: "tunnel_config \<Rightarrow> tunnel_config_error + tunnel_config" where
  "config_Validate c =
     (let version = (if tg_Version c = 0 then 1 else tg_Version c)
      in if version \<noteq> 1 then Inl (Unsupported_Version version)
         else if TrimSpace (tg_BrokerURL c) = [] then Inl Broker_URL_Required
         else if tg_Tunnels c = [] then Inl No_Tunnels
         else (case validate_tunnels (tg_Region c) 0 (tg_Tunnels c) of
                 Inl e \<Rightarrow> Inl e
               | Inr ts \<Rightarrow> Inr (c\<lparr>tg_Version := version, tg_Tunnels := ts\<rparr>)))"

definition config_Load :: "string option \<Rightarrow> (string \<Rightarrow> tunnel_config option) \<Rightarrow> (string \<Rightarrow> string) \<Rightarrow> tunnel_config_error + tunnel_config" where
  "config_Load content parse getenv =
     (case content of
        None \<Rightarrow> Inl Read_Tunnel_Config
      | Some data \<Rightarrow> (case parse data of None \<Rightarrow> Inl Parse_Tunnel_Config | Some cfg \<Rightarrow> config_Validate (expandEnv getenv cfg)))"

subsection \<open>What a loaded configuration is\<close>

text \<open>A well-formed tunnel and a well-formed configuration: what the other components take for granted.\<close>

definition tunnel_ok :: "tunnel \<Rightarrow> bool" where
  "tunnel_ok t \<longleftrightarrow> TrimSpace (tn_Name t) \<noteq> [] \<and> tn_Protocol t \<in> {''http'', ''tcp'', ''udp''} \<and> TrimSpace (tn_LocalURL t) \<noteq> []"

definition complete_ok :: "string \<Rightarrow> tunnel \<Rightarrow> bool" where
  "complete_ok region t \<longleftrightarrow> tunnel_ok t \<and> tn_HTTPS t \<noteq> [] \<and> (region \<noteq> [] \<longrightarrow> tn_Region t \<noteq> []) \<and> tn_AllowSharing t \<noteq> None"

definition config_ok :: "tunnel_config \<Rightarrow> bool" where
  "config_ok c \<longleftrightarrow> tg_Version c = 1 \<and> TrimSpace (tg_BrokerURL c) \<noteq> [] \<and> tg_Tunnels c \<noteq> [] \<and> list_all (complete_ok (tg_Region c)) (tg_Tunnels c)"

lemma TrimSpace_protocol: "TrimSpace ''http'' = ''http''" "TrimSpace ''tcp'' = ''tcp''" "TrimSpace ''udp'' = ''udp''"
  by (rule TrimSpace_visible; simp add: visible_def)+

lemma check_tunnel_None: "check_tunnel i t = None \<longleftrightarrow> tunnel_ok t"
  by (auto simp: check_tunnel_def tunnel_ok_def TrimSpace_protocol)

lemma complete_tunnel_ok: "tunnel_ok t \<Longrightarrow> complete_ok region (complete_tunnel region t)"
  by (auto simp: complete_ok_def complete_tunnel_def tunnel_ok_def Let_def)

lemma complete_tunnel_id: "complete_ok region t \<Longrightarrow> complete_tunnel region t = t"
  by (auto simp: complete_ok_def complete_tunnel_def Let_def)

text \<open>The loop over the tunnels in closed form, with the first tunnel that fails its checks.\<close>

lemma validate_tunnels_spec:
  "validate_tunnels region i ts =
     (case find (\<lambda>(j, t). \<not> tunnel_ok t) (enumerate i ts) of
        Some (j, t) \<Rightarrow> Inl (the (check_tunnel j t)) | None \<Rightarrow> Inr (map (complete_tunnel region) ts))"
proof (induction ts arbitrary: i)
  case (Cons t ts)
  show ?case
  proof (cases "tunnel_ok t")
    case True
    then have "check_tunnel i t = None" by (simp add: check_tunnel_None)
    then show ?thesis using True by (simp add: Cons.IH split: option.split prod.split)
  next
    case False
    then obtain e where "check_tunnel i t = Some e" by (meson check_tunnel_None option.exhaust)
    then show ?thesis using False by simp
  qed
qed simp

lemma config_Validate_Inr:
  "config_Validate c = Inr d \<longleftrightarrow> tg_Version c \<in> {0, 1} \<and> TrimSpace (tg_BrokerURL c) \<noteq> [] \<and> tg_Tunnels c \<noteq> [] \<and> list_all tunnel_ok (tg_Tunnels c)
     \<and> d = c\<lparr>tg_Version := 1, tg_Tunnels := map (complete_tunnel (tg_Region c)) (tg_Tunnels c)\<rparr>"
proof -
  have "find (\<lambda>(j, t). \<not> tunnel_ok t) (enumerate n ts) = None \<longleftrightarrow> list_all tunnel_ok ts" for n ts
    by (induction ts arbitrary: n) simp_all
  from this [of 0 "tg_Tunnels c"] show ?thesis
    by (cases "find (\<lambda>(j, t). \<not> tunnel_ok t) (enumerate 0 (tg_Tunnels c))") (auto simp: config_Validate_def Let_def validate_tunnels_spec)
qed


definition demo_tunnel :: tunnel where
  "demo_tunnel = \<lparr>tn_Name = ''app'', tn_Protocol = ''http'', tn_LocalURL = ''env:APP'', tn_Region = [], tn_Subdomain = ''app'', tn_Inspect = True, tn_HTTPS = [],
     tn_WebhookURL = [], tn_CustomDomain = [], tn_Production = True, tn_AllowSharing = None, tn_Labels = []\<rparr>"

definition demo_tunnel_config :: tunnel_config where
  "demo_tunnel_config = \<lparr>tg_Version = 0, tg_Token = ''secret'', tg_BrokerURL = ''http://b'', tg_Region = ''eu'', tg_PluginConfig = [], tg_Tunnels = [demo_tunnel]\<rparr>"

definition demo_loaded :: tunnel_config where
  "demo_loaded = demo_tunnel_config\<lparr>tg_Version := 1, tg_Tunnels := [demo_tunnel\<lparr>tn_LocalURL := ''http://l'', tn_HTTPS := ''auto'', tn_Region := ''eu'', tn_AllowSharing := Some False\<rparr>]\<rparr>"


end
