(* ===== verification/Client.thy ===== *)
theory Client
  imports Relay_Streams Tunnel_Config Dns_Providers
begin

section \<open>The client\<close>

text \<open>
  Model of \<open>GoTunnel/internal/client\<close>: opening a session at the broker, registering with the relay, and serving the
  tunnel by polling or over QUIC. The HTTP client is an argument: a function from the address and the body
  of a call to what comes back. Bodies are the structures themselves, as the JSON package decodes what it has encoded.
  Each turn of a goroutine's loop is a step. The answers of the local server and the results of dialling are arguments.
\<close>

subsection \<open>Calls\<close>

datatype 'a server_answer = Not_Built string | Not_Reached string | Answered int string "'a option"

text \<open>The answer of a handler of the broker as its caller sees it.\<close>

fun as_answer :: "'a response \<Rightarrow> 'a server_answer" where
  "as_answer (Http_OK n v) = Answered (int n) [] (Some v)"
| "as_answer (Http_Error n t) = Answered (int n) t None"

datatype client_error = Build_Failed string string | Call_Lost string string | Call_Refused string string | Not_Decoded string

record client_daemon =
  cl_BrokerURL :: string
  cl_Token :: string
  tcpConns :: "(string, nat) fmap"
  lc_written :: "nat \<Rightarrow> byte list"
  lc_closed :: "nat set"
  lc_next :: nat

definition client_New :: "string \<Rightarrow> string \<Rightarrow> client_daemon" where
  "client_New brokerURL token =
     \<lparr>cl_BrokerURL = TrimRightSlash brokerURL, cl_Token = token, tcpConns = fmempty, lc_written = (\<lambda>_. []), lc_closed = {}, lc_next = 0\<rparr>"

definition session_request :: "client_daemon \<Rightarrow> tunnel \<Rightarrow> open_session_request" where
  "session_request d t =
     \<lparr>os_Token = cl_Token d, os_Name = tn_Name t, os_Protocol = tn_Protocol t, RequestedSubdomain = tn_Subdomain t, RequestedRegion = tn_Region t,
      LocalURL = tn_LocalURL t, InspectionEnabled = tn_Inspect t, os_HTTPSMode = tn_HTTPS t, os_WebhookURL = tn_WebhookURL t,
      os_CustomDomain = tn_CustomDomain t, os_Production = tn_Production t,
      os_AllowSharing = (case tn_AllowSharing t of Some a \<Rightarrow> a | None \<Rightarrow> False), os_Labels = tn_Labels t\<rparr>"

definition openSession :: "(string \<Rightarrow> open_session_request \<Rightarrow> lease server_answer) \<Rightarrow> client_daemon \<Rightarrow> tunnel \<Rightarrow> client_error + lease" where
  "openSession post d t =
     (case post (cl_BrokerURL d @ ''/v1/sessions/open'') (session_request d t) of
        Not_Built e \<Rightarrow> Inl (Build_Failed ''build broker request'' e)
      | Not_Reached e \<Rightarrow> Inl (Call_Lost ''open session'' e)
      | Answered code text body \<Rightarrow>
          if code \<noteq> 201 then Inl (Call_Refused ''open session failed'' (TrimSpace text))
          else (case body of None \<Rightarrow> Inl (Not_Decoded ''decode lease'') | Some l \<Rightarrow> Inr l))"

text \<open>The public address of a TCP or UDP tunnel is set by the client; the structure has one port for both.\<close>

definition public_port :: "register_response \<Rightarrow> register_response" where
  "public_port out =
     (let o1 = (if le_Protocol (rg_Lease out) = ''tcp'' \<and> TCPPort out > 0
                then out\<lparr>rg_Lease := (rg_Lease out)\<lparr>PublicURL := ''tcp://127.0.0.1:'' @ dec (TCPPort out)\<rparr>\<rparr> else out)
      in if le_Protocol (rg_Lease o1) = ''udp'' \<and> TCPPort o1 > 0
         then o1\<lparr>rg_Lease := (rg_Lease o1)\<lparr>PublicURL := ''udp://127.0.0.1:'' @ dec (TCPPort o1)\<rparr>\<rparr> else o1)"

definition registerWithRelay :: "(string \<Rightarrow> string \<Rightarrow> register_response server_answer) \<Rightarrow> lease \<Rightarrow> client_error + register_response" where
  "registerWithRelay post l =
     (case post (TrimRightSlash (le_RelayURL l) @ ''/v1/client/register'') (le_ID l) of
        Not_Built e \<Rightarrow> Inl (Build_Failed ''build relay registration request'' e)
      | Not_Reached e \<Rightarrow> Inl (Call_Lost ''register with relay'' e)
      | Answered code text body \<Rightarrow>
          if code \<noteq> 201 then Inl (Call_Refused ''register with relay failed'' (TrimSpace text))
          else (case body of None \<Rightarrow> Inl (Not_Decoded ''decode relay response'') | Some out \<Rightarrow> Inr (public_port out)))"

subsection \<open>Starting a tunnel\<close>

text \<open>The first message of a QUIC session; each stage of opening the connection may fail.\<close>

definition startQUICSession :: "string \<Rightarrow> string \<Rightarrow> bool \<Rightarrow> bool \<Rightarrow> bool \<Rightarrow> hello_message option" where
  "startQUICSession clientID reconnectToken dialled opened encoded =
     (if \<not> dialled then None
      else if \<not> opened then None
      else if \<not> encoded then None
      else Some \<lparr>he_Type = ''session_open'', he_Session = Some clientID, he_ReconnectToken = reconnectToken\<rparr>)"

text \<open>The goroutine that serves the tunnel.\<close>

datatype serving =
    Serve_QUIC_Control string string
  | Serve_QUIC_UDP string string
  | Poll_TCP string string string
  | Poll_UDP string string string
  | Poll_HTTP string string string

record started_tunnel =
  sd_ClientID :: string
  sd_Lease :: lease

definition StartTunnel :: "(string \<Rightarrow> open_session_request \<Rightarrow> lease server_answer) \<Rightarrow> (string \<Rightarrow> string \<Rightarrow> register_response server_answer) \<Rightarrow>
    (string \<Rightarrow> bool \<times> bool \<times> bool) \<Rightarrow> client_daemon \<Rightarrow> tunnel \<Rightarrow> client_error + started_tunnel \<times> serving" where
  "StartTunnel broker relay quic d t =
     (case openSession broker d t of
        Inl e \<Rightarrow> Inl e
      | Inr l \<Rightarrow>
          (case registerWithRelay relay l of
             Inl e \<Rightarrow> Inl e
           | Inr started \<Rightarrow>
               let url = le_RelayURL (rg_Lease started);
                   result = \<lparr>sd_ClientID = rg_ClientID started, sd_Lease = rg_Lease started\<rparr>;
                   polling = (if tn_Protocol t = ''tcp'' then Poll_TCP (rg_ClientID started) url (tn_LocalURL t)
                              else if tn_Protocol t = ''udp'' then Poll_UDP (rg_ClientID started) url (tn_LocalURL t)
                              else Poll_HTTP (rg_ClientID started) url (tn_LocalURL t));
                   (dialled, opened, encoded) = quic (QUICAddr started)
               in if QUICAddr started \<noteq> [] \<and> startQUICSession (rg_ClientID started) (ReconnectToken started) dialled opened encoded \<noteq> None
                  then Inr (result, if tn_Protocol t = ''udp'' then Serve_QUIC_UDP (rg_ClientID started) (tn_LocalURL t)
                                    else Serve_QUIC_Control (rg_ClientID started) (tn_LocalURL t))
                  else Inr (result, polling)))"

subsection \<open>Addresses\<close>

definition upper_hex :: "nat \<Rightarrow> char" where
  "upper_hex n = ''0123456789ABCDEF'' ! n"

definition percent :: "char \<Rightarrow> string" where
  "percent c = [CHR ''%'', upper_hex (of_char c div 16), upper_hex (of_char c mod 16)]"

definition is_alnum :: "char \<Rightarrow> bool" where
  "is_alnum c \<longleftrightarrow> (CHR ''a'' \<le> c \<and> c \<le> CHR ''z'') \<or> (CHR ''A'' \<le> c \<and> c \<le> CHR ''Z'') \<or> (CHR ''0'' \<le> c \<and> c \<le> CHR ''9'')"

text \<open>\<open>url.QueryEscape\<close>, and the escaping of a path by \<open>URL.String\<close>.\<close>

definition QueryEscape :: "string \<Rightarrow> string" where
  "QueryEscape s = concat (map (\<lambda>c. if is_alnum c \<or> c \<in> set ''-_.~'' then [c] else if c = CHR '' '' then ''+'' else percent c) s)"

definition escape_path :: "string \<Rightarrow> string" where
  "escape_path s = (if s = ''*'' then s else concat (map (\<lambda>c. if is_alnum c \<or> c \<in> set ''-_.~$&+,/:;=@'' then [c] else percent c) s))"

definition urlEncode :: "string \<Rightarrow> string" where
  "urlEncode s = concat (map (\<lambda>c. if c = CHR '':'' then ''%3A'' else if c = CHR ''/'' then ''%2F'' else if c = CHR ''?'' then ''%3F'' else [c]) s)"

text \<open>
  What \<open>url.Parse\<close> makes of the local address: scheme and authority as they are printed, with the path and
  its escaped form, or an address such as \<open>localhost:80\<close> without slashes, whose path is not printed. A fragment or
  a bare question mark at the end of the address is left out; package \<open>net/http\<close> does not send them.
\<close>

datatype base_url = Hierarchical string string string | Opaque_URL string

definition buildTargetURL :: "(string \<Rightarrow> base_url option) \<Rightarrow> string \<Rightarrow> string \<Rightarrow> string \<Rightarrow> string option" where
  "buildTargetURL parse localBase path query =
     (case parse localBase of
        None \<Rightarrow> None
      | Some base \<Rightarrow>
          let path = (if path = [] then ''/'' else path);
              tail = (if query = [] then [] else CHR ''?'' # query)
          in Some (case base of
                     Opaque_URL text \<Rightarrow> text @ tail
                   | Hierarchical prefix old escaped \<Rightarrow>
                       let new = TrimRightSlash old @ path
                       in prefix @ (if prefix \<noteq> [] \<and> new \<noteq> [] \<and> hd new \<noteq> CHR ''/'' then ''/'' else []) @ (if new = old then escaped else escape_path new) @ tail))"

subsection \<open>Serving HTTP\<close>

record local_request =
  lr_Method :: string
  lr_URL :: string
  lr_Headers :: http_headers
  lr_Body :: "byte list"

datatype local_answer = Local_Not_Built string | Local_Not_Reached string | Local_Answer int http_headers "byte list"

text \<open>\<open>http.CanonicalHeaderKey\<close>: names with a character that is not allowed in one are left alone.\<close>

definition to_upper_char :: "char \<Rightarrow> char" where
  "to_upper_char c = (if CHR ''a'' \<le> c \<and> c \<le> CHR ''z'' then char_of (of_char c - 32 :: nat) else c)"

fun canonical_loop :: "bool \<Rightarrow> string \<Rightarrow> string" where
  "canonical_loop upper [] = []"
| "canonical_loop upper (c # cs) = (if upper then to_upper_char c else to_lower_char c) # canonical_loop (c = CHR ''-'') cs"

definition CanonicalHeaderKey :: "string \<Rightarrow> string" where
  "CanonicalHeaderKey s = (if list_all (\<lambda>c. is_alnum c \<or> c \<in> set ''!#$%&*+-.^_`|~'' \<or> c = CHR 0x27) s then canonical_loop True s else s)"

definition add_header :: "string \<Rightarrow> string list \<Rightarrow> http_headers \<Rightarrow> http_headers" where
  "add_header key values h =
     (let k = CanonicalHeaderKey key
      in if values = [] then h else fmupd k ((case fmlookup h k of Some vs \<Rightarrow> vs | None \<Rightarrow> []) @ values) h)"

text \<open>\<open>ks\<close> is the order in which the headers are visited.\<close>

fun copy_headers :: "http_headers \<Rightarrow> string list \<Rightarrow> http_headers \<Rightarrow> http_headers" where
  "copy_headers hs [] out = out"
| "copy_headers hs (k # ks) out =
     (if EqualFold k ''Host'' then copy_headers hs ks out
      else copy_headers hs ks (case fmlookup hs k of Some vs \<Rightarrow> add_header k vs out | None \<Rightarrow> out))"

definition local_request_of :: "string \<Rightarrow> pending_request \<Rightarrow> string list \<Rightarrow> local_request" where
  "local_request_of target p ks =
     \<lparr>lr_Method = pr_Method p, lr_URL = target, lr_Headers = copy_headers (pr_Headers p) ks fmempty, lr_Body = pr_Body p\<rparr>"

definition bad_gateway :: "submit_response \<Rightarrow> string \<Rightarrow> submit_response" where
  "bad_gateway result e = result\<lparr>sr_StatusCode := 502, sr_Error := e\<rparr>"

text \<open>The body of the answer is cut after two megabytes; redirects are followed by the HTTP client, so \<open>serve\<close> answers with what comes last.\<close>

definition forwardToLocal :: "(string \<Rightarrow> base_url option) \<Rightarrow> (local_request \<Rightarrow> local_answer) \<Rightarrow> string \<Rightarrow> string \<Rightarrow> pending_request \<Rightarrow> string list \<Rightarrow> submit_response" where
  "forwardToLocal parse serve clientID localBase p ks =
     (let result = \<lparr>sr_ClientID = clientID, sr_RequestID = pr_ID p, sr_StatusCode = 0, sr_Headers = fmempty, sr_Body = [], sr_Error = []\<rparr>
      in case buildTargetURL parse localBase (pr_Path p) (pr_Query p) of
           None \<Rightarrow> bad_gateway result ''parse local url''
         | Some target \<Rightarrow>
             (case serve (local_request_of target p ks) of
                Local_Not_Built e \<Rightarrow> bad_gateway result e
              | Local_Not_Reached e \<Rightarrow> bad_gateway result e
              | Local_Answer code hs body \<Rightarrow> result\<lparr>sr_StatusCode := code, sr_Headers := hs, sr_Body := take max_body body\<rparr>))"

definition next_url :: "string \<Rightarrow> string \<Rightarrow> string" where
  "next_url relayURL clientID = TrimRightSlash relayURL @ ''/v1/client/next?client_id='' @ QueryEscape clientID"

definition polled :: "string \<Rightarrow> 'a server_answer \<Rightarrow> client_error + 'a option" where
  "polled what answer =
     (case answer of
        Not_Built e \<Rightarrow> Inl (Build_Failed what e)
      | Not_Reached e \<Rightarrow> Inl (Call_Lost what e)
      | Answered code text body \<Rightarrow>
          if code = 204 then Inr None
          else if code \<noteq> 200 then Inl (Call_Refused what (TrimSpace text))
          else (case body of None \<Rightarrow> Inl (Not_Decoded what) | Some v \<Rightarrow> Inr (Some v)))"

definition nextRequest :: "(string \<Rightarrow> pending_request server_answer) \<Rightarrow> string \<Rightarrow> string \<Rightarrow> client_error + pending_request option" where
  "nextRequest get relayURL clientID = polled ''poll relay failed'' (get (next_url relayURL clientID))"

definition submitResponse :: "(string \<Rightarrow> submit_response \<Rightarrow> unit server_answer) \<Rightarrow> string \<Rightarrow> submit_response \<Rightarrow> client_error option" where
  "submitResponse post relayURL result =
     (case post (TrimRightSlash relayURL @ ''/v1/client/respond'') result of
        Not_Built e \<Rightarrow> Some (Build_Failed ''submit response'' e)
      | Not_Reached e \<Rightarrow> Some (Call_Lost ''submit response'' e)
      | Answered code text body \<Rightarrow> if code \<noteq> 202 then Some (Call_Refused ''submit response failed'' (TrimSpace text)) else None)"

text \<open>
  A run of the poll loop, turn by turn: whether the context has ended, what the relay answers, whether the context
  ends in the pause after an error, the local server, and the order of the headers. The result are
  the answers submitted, in order, and whether the loop has returned.
\<close>

record poll_turn =
  po_ended :: bool
  po_get :: "string \<Rightarrow> pending_request server_answer"
  po_cancelled :: bool
  po_serve :: "local_request \<Rightarrow> local_answer"
  po_order :: "string list"

fun pollLoop :: "(string \<Rightarrow> base_url option) \<Rightarrow> string \<Rightarrow> string \<Rightarrow> string \<Rightarrow> poll_turn list \<Rightarrow> submit_response list \<times> bool" where
  "pollLoop parse clientID relayURL localBase [] = ([], False)"
| "pollLoop parse clientID relayURL localBase (t # ts) =
     (if po_ended t then ([], True)
      else case nextRequest (po_get t) relayURL clientID of
        Inl _ \<Rightarrow> if po_cancelled t then ([], True) else pollLoop parse clientID relayURL localBase ts
      | Inr None \<Rightarrow> pollLoop parse clientID relayURL localBase ts
      | Inr (Some p) \<Rightarrow>
          (case pollLoop parse clientID relayURL localBase ts of
             (rs, done) \<Rightarrow> (forwardToLocal parse (po_serve t) clientID localBase p (po_order t) # rs, done)))"

subsection \<open>Serving TCP and UDP\<close>

definition closing_chunk :: "string \<Rightarrow> string \<Rightarrow> tcp_chunk_request" where
  "closing_chunk clientID connectionID = \<lparr>tk_ClientID = clientID, tk_ConnectionID = connectionID, tk_Payload = [], tk_Close = True\<rparr>"

definition closeTCPConn :: "client_daemon \<Rightarrow> string \<Rightarrow> client_daemon" where
  "closeTCPConn d connectionID =
     (case fmlookup (tcpConns d) connectionID of
        None \<Rightarrow> d
      | Some c \<Rightarrow> d\<lparr>lc_closed := insert c (lc_closed d), tcpConns := fmdrop connectionID (tcpConns d)\<rparr>)"

text \<open>An event of the relay; \<open>dialled\<close> says whether the local server accepts. A write to a connection
  that the client has not closed is taken to succeed; the code ignores its result. The chunks go back by HTTP or over QUIC.\<close>

definition handleTCPEvent :: "client_daemon \<Rightarrow> string \<Rightarrow> tcp_event \<Rightarrow> bool \<Rightarrow> tcp_chunk_request list \<times> client_daemon" where
  "handleTCPEvent d clientID ev dialled =
     (if te_Type ev = ''open'' then
        (if \<not> dialled then ([closing_chunk clientID (te_ConnectionID ev)], d)
         else ([], d\<lparr>tcpConns := fmupd (te_ConnectionID ev) (lc_next d) (tcpConns d), lc_next := lc_next d + 1\<rparr>))
      else if te_Type ev = ''data'' then
        (case fmlookup (tcpConns d) (te_ConnectionID ev) of
           None \<Rightarrow> ([], d)
         | Some c \<Rightarrow> ([], if c \<in> lc_closed d then d else d\<lparr>lc_written := (lc_written d)(c := lc_written d c @ te_Payload ev)\<rparr>))
      else if te_Type ev = ''close'' then ([], closeTCPConn d (te_ConnectionID ev))
      else ([], d))"

text \<open>A turn of the loop that reads from the local server: what was read, and whether with an error, which ends the loop.\<close>

definition readLocalTCP :: "client_daemon \<Rightarrow> string \<Rightarrow> string \<Rightarrow> byte list \<Rightarrow> bool \<Rightarrow> tcp_chunk_request list \<times> client_daemon" where
  "readLocalTCP d clientID connectionID data err =
     ((if data = [] then [] else [\<lparr>tk_ClientID = clientID, tk_ConnectionID = connectionID, tk_Payload = data, tk_Close = False\<rparr>])
        @ (if err then [closing_chunk clientID connectionID] else []),
      if err then closeTCPConn d connectionID else d)"

definition nextTCPEvent :: "(string \<Rightarrow> tcp_event server_answer) \<Rightarrow> string \<Rightarrow> string \<Rightarrow> client_error + tcp_event option" where
  "nextTCPEvent get relayURL clientID = polled ''poll tcp relay failed'' (get (TrimRightSlash relayURL @ ''/v1/client/tcp/next?client_id='' @ urlEncode clientID))"

definition nextUDPEvent :: "(string \<Rightarrow> udp_event server_answer) \<Rightarrow> string \<Rightarrow> string \<Rightarrow> client_error + udp_event option" where
  "nextUDPEvent get relayURL clientID = polled ''poll udp relay failed'' (get (TrimRightSlash relayURL @ ''/v1/client/udp/next?client_id='' @ urlEncode clientID))"

text \<open>The answer of the relay to a chunk is not looked at.\<close>

definition sendTCPChunk :: "(string \<Rightarrow> tcp_chunk_request \<Rightarrow> unit server_answer) \<Rightarrow> string \<Rightarrow> tcp_chunk_request \<Rightarrow> client_error option" where
  "sendTCPChunk post relayURL chunk =
     (case post (TrimRightSlash relayURL @ ''/v1/client/tcp/chunk'') chunk of
        Not_Built e \<Rightarrow> Some (Build_Failed ''tcp chunk'' e) | Not_Reached e \<Rightarrow> Some (Call_Lost ''tcp chunk'' e) | Answered _ _ _ \<Rightarrow> None)"

definition sendUDPChunk :: "(string \<Rightarrow> udp_chunk_request \<Rightarrow> unit server_answer) \<Rightarrow> string \<Rightarrow> udp_chunk_request \<Rightarrow> client_error option" where
  "sendUDPChunk post relayURL chunk =
     (case post (TrimRightSlash relayURL @ ''/v1/client/udp/chunk'') chunk of
        Not_Built e \<Rightarrow> Some (Build_Failed ''udp chunk'' e) | Not_Reached e \<Rightarrow> Some (Call_Lost ''udp chunk'' e) | Answered _ _ _ \<Rightarrow> None)"

text \<open>
  A run of the loop that polls for TCP events. The chunks that \<open>handleTCPEvent\<close> itself sends are collected, those of
  the reading goroutines are not part of this loop.
\<close>

record tcp_turn =
  tt_ended :: bool
  tt_get :: "string \<Rightarrow> tcp_event server_answer"
  tt_cancelled :: bool
  tt_dialled :: bool

fun pollTCPLoop :: "client_daemon \<Rightarrow> string \<Rightarrow> string \<Rightarrow> tcp_turn list \<Rightarrow> tcp_chunk_request list \<times> client_daemon" where
  "pollTCPLoop d clientID relayURL [] = ([], d)"
| "pollTCPLoop d clientID relayURL (t # ts) =
     (if tt_ended t then ([], d)
      else case nextTCPEvent (tt_get t) relayURL clientID of
        Inl _ \<Rightarrow> if tt_cancelled t then ([], d) else pollTCPLoop d clientID relayURL ts
      | Inr None \<Rightarrow> pollTCPLoop d clientID relayURL ts
      | Inr (Some ev) \<Rightarrow>
          (case handleTCPEvent d clientID ev (tt_dialled t) of
             (cs, d1) \<Rightarrow> (case pollTCPLoop d1 clientID relayURL ts of (cs', d2) \<Rightarrow> (cs @ cs', d2))))"

text \<open>
  A datagram for the local server, and what it answers within two seconds from whichever address, at most 64 kilobytes;
  \<open>None\<close> is a timeout or an error.
\<close>

definition handleUDPEvent :: "string \<Rightarrow> udp_event \<Rightarrow> byte list option \<Rightarrow> byte list list \<times> udp_chunk_request list" where
  "handleUDPEvent clientID ev received =
     (if ue_Type ev \<noteq> ''data'' then ([], [])
      else ([ue_Payload ev],
            case received of
              None \<Rightarrow> []
            | Some bs \<Rightarrow>
                let data = take 65536 bs
                in if data = [] then []
                   else [\<lparr>uk_ClientID = clientID, uk_ConnectionID = ue_ConnectionID ev, uk_PeerAddr = ue_PeerAddr ev, uk_Payload = data, uk_Close = False\<rparr>]))"

text \<open>
  A run of the loop that polls for UDP events: \<open>ready\<close> says whether a socket could be opened and the local address resolved. The
  result are the datagrams sent to the local server and the chunks sent to the relay.
\<close>

record udp_turn =
  ut_ended :: bool
  ut_get :: "string \<Rightarrow> udp_event server_answer"
  ut_cancelled :: bool
  ut_received :: "byte list option"

fun udp_turns :: "string \<Rightarrow> string \<Rightarrow> udp_turn list \<Rightarrow> byte list list \<times> udp_chunk_request list" where
  "udp_turns clientID relayURL [] = ([], [])"
| "udp_turns clientID relayURL (t # ts) =
     (if ut_ended t then ([], [])
      else case nextUDPEvent (ut_get t) relayURL clientID of
        Inl _ \<Rightarrow> if ut_cancelled t then ([], []) else udp_turns clientID relayURL ts
      | Inr None \<Rightarrow> udp_turns clientID relayURL ts
      | Inr (Some ev) \<Rightarrow>
          (case handleUDPEvent clientID ev (ut_received t) of
             (sent, cs) \<Rightarrow> (case udp_turns clientID relayURL ts of (sent', cs') \<Rightarrow> (sent @ sent', cs @ cs'))))"

definition pollUDPLoop :: "bool \<Rightarrow> string \<Rightarrow> string \<Rightarrow> udp_turn list \<Rightarrow> byte list list \<times> udp_chunk_request list" where
  "pollUDPLoop ready clientID relayURL ts = (if \<not> ready then ([], []) else udp_turns clientID relayURL ts)"

subsection \<open>Serving over QUIC\<close>

text \<open>A message of the relay: what is sent back. Messages of other types, or without their content, are passed over.\<close>

definition handleQUICControl :: "(string \<Rightarrow> base_url option) \<Rightarrow> (local_request \<Rightarrow> local_answer) \<Rightarrow> client_daemon \<Rightarrow> string \<Rightarrow> string \<Rightarrow> control_message \<Rightarrow> string list \<Rightarrow> bool \<Rightarrow>
    quic_message list \<times> client_daemon" where
  "handleQUICControl parse serve d clientID localURL msg ks dialled =
     (case msg of
        Msg_Request ty _ p \<Rightarrow>
          if ty = ''http_request'' then ([Quic_Response (Some (forwardToLocal parse serve clientID localURL p ks))], d) else ([], d)
      | Msg_TCP_Event ty _ ev \<Rightarrow>
          if ty = ''tcp_event'' then (case handleTCPEvent d clientID ev dialled of (cs, d1) \<Rightarrow> (map (Quic_TCP \<circ> Some) cs, d1)) else ([], d)
      | Msg_UDP_Event _ _ _ \<Rightarrow> ([], d))"

definition handleQUICUDP :: "string \<Rightarrow> control_message \<Rightarrow> byte list option \<Rightarrow> byte list list \<times> quic_message list" where
  "handleQUICUDP clientID msg received =
     (case msg of
        Msg_UDP_Event ty _ ev \<Rightarrow>
          if ty = ''udp_event'' then (case handleUDPEvent clientID ev received of (sent, cs) \<Rightarrow> (sent, map (Quic_UDP \<circ> Some) cs)) else ([], [])
      | _ \<Rightarrow> ([], []))"

end
