(* ===== verification/Client_Proofs.thy ===== *)
theory Client_Proofs
  imports Client Relay_Requests Broker_Proofs
begin

section \<open>The client with the broker and the relay\<close>

text \<open>
  The client composed with the models of the broker and the relay: a tunnel of a loaded configuration is granted, registered and
  reachable; what a visitor gets is what the local server answered, by polling and over QUIC alike; bytes of TCP connections reach
  the local server in order.
\<close>

subsection \<open>A request from the visitor to the local server and back\<close>

text \<open>A request of a visitor is ready to be forwarded, and its client has nothing else to do.\<close>

definition idle_client :: "relay \<Rightarrow> in_flight \<Rightarrow> string \<Rightarrow> bool" where
  "idle_client s fl clientID \<longleftrightarrow> fmlookup (clients s) clientID = Some (fl_client fl) \<and> Queue (client_at s (fl_client fl)) = [] \<and> QUICSend (client_at s (fl_client fl)) = []"

definition local_result :: "string \<Rightarrow> string \<Rightarrow> int \<Rightarrow> http_headers \<Rightarrow> byte list \<Rightarrow> submit_response" where
  "local_result clientID requestID code hs body =
     \<lparr>sr_ClientID = clientID, sr_RequestID = requestID, sr_StatusCode = code, sr_Headers = hs, sr_Body = take max_body body, sr_Error = []\<rparr>"

lemma tunnel_begin_pending:
  assumes "tunnel_begin s r sub path clk ks1 ks2 = (Ready fl, s1)"
  shows "pr_Method (fl_pending fl) = hr_Method r \<and> pr_Path (fl_pending fl) = path \<and> pr_Query (fl_pending fl) = hr_RawQuery r \<and> pr_Headers (fl_pending fl) = hr_Headers r
    \<and> (\<exists>body. hr_Body r = Some body \<and> pr_Body (fl_pending fl) = take max_body body)"
  using assms by (auto simp: tunnel_begin_def make_pending_def register_request_def pause_request_def Let_def split: prod.splits option.splits)

text \<open>What any state of the relay does with the answer to a request it is waiting for.\<close>

lemma answer_delivered:
  assumes "fmlookup (requests s) (sr_RequestID resp) = Some (p, fl_chan fl)" "response_chan s (fl_chan fl) = []" "100 \<le> sr_StatusCode resp" "sr_StatusCode resp \<le> 999"
    and "hr_Method r = ''POST''"
  shows "\<exists>s1. handleSubmitResponse s r (Some resp) = ([Answer 202 ()], s1) \<and> handleQUICMessage s (Quic_Response (Some resp)) ks ok = s1
    \<and> (\<exists>s2. tunnel_finish s1 fl Received clk = Some ([Answer (visitor_status (sr_StatusCode resp)) resp], s2))"
  using assms by (auto simp: handleSubmitResponse_def handleQUICMessage_def put_response_def tunnel_finish_def Let_def)

lemma forward_idle:
  assumes "idle_client s fl clientID" "tunnel_forward s fl t1 t2 = (out, s1)"
  shows "out = None \<and> clients s1 = clients s \<and> requests s1 = requests s \<and> response_chan s1 = response_chan s
    \<and> client_at s1 (fl_client fl) = (if QUICUp (client_at s (fl_client fl))
        then (client_at s (fl_client fl))\<lparr>QUICSend := [Msg_Request ''http_request'' (c_ID (client_at s (fl_client fl))) (fl_pending fl)]\<rparr>
        else (client_at s (fl_client fl))\<lparr>Queue := [fl_pending fl]\<rparr>)"
  using assms by (auto simp: tunnel_forward_def sendHTTPToClient_def send_quic_def enqueueRequestToClient_def idle_client_def relay_frame split: if_splits)


definition demo_parse :: "string \<Rightarrow> base_url option" where
  "demo_parse = (\<lambda>_. Some (Hierarchical ''http://127.0.0.1:80'' [] []))"

definition demo_serve :: "local_request \<Rightarrow> local_answer" where
  "demo_serve = (\<lambda>q. if lr_Method q = ''GET'' \<and> lr_URL q = ''http://127.0.0.1:80/'' then Local_Answer 200 fmempty [7] else Local_Not_Reached ''refused'')"


subsection \<open>From the configuration to a reachable tunnel\<close>

text \<open>The answer of the broker as the relay sees it.\<close>

definition lease_lookup :: "(string \<Rightarrow> lease option) \<Rightarrow> 's broker \<Rightarrow> string \<Rightarrow> lease_answer" where
  "lease_lookup persisted b leaseID =
     (case handleGetLease persisted b ''GET'' (''/v1/leases/'' @ leaseID) of Http_OK _ l \<Rightarrow> Lease_Found l | Http_Error _ _ \<Rightarrow> Lease_Refused)"

lemma lookup_mark_issued: "map_option le_ID (fmlookup (mark_issued k ts) j) = map_option le_ID (fmlookup ts j)"
  by (auto simp: mark_issued_def split: option.split)

lemma listener_frame [relay_frame]:
  "clients (snd (ensureTCPTunnelListener s l i p)) = clients s" "client_at (snd (ensureTCPTunnelListener s l i p)) = client_at s"
  "tunnels (snd (ensureTCPTunnelListener s l i p)) = tunnels s"
  "clients (snd (ensureUDPTunnelListener s l i p)) = clients s" "client_at (snd (ensureUDPTunnelListener s l i p)) = client_at s"
  "tunnels (snd (ensureUDPTunnelListener s l i p)) = tunnels s"
  by (simp_all add: ensureTCPTunnelListener_def ensureUDPTunnelListener_def split: option.split)

text \<open>The relay knows the client and its tunnel.\<close>

definition routed :: "relay \<Rightarrow> lease \<Rightarrow> string \<Rightarrow> bool" where
  "routed s l clientID \<longleftrightarrow> (\<exists>c. fmlookup (clients s) clientID = Some c \<and> c_TunnelID (client_at s c) = le_ID l)
     \<and> (\<forall>name \<in> {Subdomain l} \<union> (if CustomDomain l = [] then {} else {CustomDomain l}). map_option le_ID (fmlookup (tunnels s) name) = Some (le_ID l))"

lemma routed_frame:
  assumes "clients s' = clients s" "client_at s' = client_at s" "tunnels s' = tunnels s"
  shows "routed s' l i = routed s l i"
  using assms by (simp add: routed_def)

lemma handleRegisterClient_routes:
  assumes "hr_Method req = ''POST''" "fetchLease s (broker leaseID) = Some l"
  shows "\<exists>reg s'. handleRegisterClient marshal s req (Some leaseID) broker listen manager clk = ([Answer 201 reg], s')
    \<and> routed s' l (rg_ClientID reg) \<and> rg_Lease reg = l"
proof -
  let ?id = "''client-'' @ dec (clk 0)" and ?tok = "''reconnect-'' @ dec (clk 1)"
  define s1 where "s1 = add_client s l ?id ?tok"
  have r1: "routed s1 l ?id" by (simp add: s1_def routed_def add_client_def Let_def)
  have cert: "routed (if CustomDomain l \<noteq> [] \<and> HTTPSMode l = ''auto'' then ensureManagedCertificate t l manager else t) l ?id" if "routed t l ?id" for t
    using that by (simp add: routed_def ensureManagedCertificate_def lookup_mark_issued del: map_option_eq_Some split: option.split)
  have frame: "routed (dispatchWebhook mar (emitEvent (inc_metric t n) k x y z w p t1 t2) ty pl now) l ?id" if "routed t l ?id" for t mar n k x y z w p t1 t2 ty pl now
    using that by (subst routed_frame) (simp_all add: relay_frame)
  have pick: "t = snd x" if "(case x of (Some p, s') \<Rightarrow> (p, s') | (None, s') \<Rightarrow> (d, s')) = (q, t)" for x :: "int option \<times> relay" and d q t
    using that by (cases x; cases "fst x") auto
  obtain p2 s2 where s2: "(if le_Protocol l = ''tcp'' then (case ensureTCPTunnelListener s1 l ?id listen of (Some p, s') \<Rightarrow> (p, s') | (None, s') \<Rightarrow> (0, s')) else (0, s1)) = (p2, s2)" by fastforce
  have r2: "routed s2 l ?id"
  proof (cases "le_Protocol l = ''tcp''")
    case True
    then have "s2 = snd (ensureTCPTunnelListener s1 l ?id listen)" by (intro pick) (rule s2 [unfolded if_P [OF True]])
    with r1 show ?thesis by (simp only: routed_frame [OF listener_frame(1-3)])
  next
    case False
    with s2 r1 show ?thesis by simp
  qed
  obtain p3 s3 where s3: "(if le_Protocol l = ''udp'' then (case ensureUDPTunnelListener s2 l ?id listen of (Some p, s') \<Rightarrow> (p, s') | (None, s') \<Rightarrow> (p2, s')) else (p2, s2)) = (p3, s3)" by fastforce
  have r3: "routed s3 l ?id"
  proof (cases "le_Protocol l = ''udp''")
    case True
    then have "s3 = snd (ensureUDPTunnelListener s2 l ?id listen)" by (intro pick) (rule s3 [unfolded if_P [OF True]])
    with r2 show ?thesis by (simp only: routed_frame [OF listener_frame(4-6)])
  next
    case False
    with s3 r2 show ?thesis by simp
  qed
  note run = handleRegisterClient_def [of marshal s req "Some leaseID" broker listen manager clk, unfolded Let_def assms option.case s1_def [symmetric] s2 prod.case s3]
  show ?thesis
    by (intro exI conjI, rule trans [OF run], simp only: not_True_eq_False if_False simp_thms, simp only: register_response.select_convs, rule cert, rule frame, rule r3, simp)
qed

lemma lease_for_fields:
  "le_Protocol (lease_for b q relay env) = os_Protocol q" "le_Name (lease_for b q relay env) = os_Name q" "le_AllowSharing (lease_for b q relay env) = os_AllowSharing q"
  "RequestedSubdomain q \<noteq> [] \<Longrightarrow> Subdomain (lease_for b q relay env) = RequestedSubdomain q" "CustomDomain (lease_for b q relay env) = os_CustomDomain q"
  by (simp_all add: lease_for_def Let_def split_beta)

lemma routed_found:
  assumes "routed s l clientID" "clientID \<in> set ks"
  shows "\<exists>c. findClientByTunnelID s (le_ID l) ks = Some c \<and> c_TunnelID (client_at s c) = le_ID l"
  using assms by (induction ks) (auto simp: routed_def split: option.split)

lemma open_session_kept:
  assumes "handleOpenSession ops marshal b meth body env = (Http_OK 201 l, b')"
  shows "lease_lookup persisted b' (le_ID l) = Lease_Found l"
  using assms
proof (cases rule: handleOpenSession_cases)
  case (granted req relay l')
  then have l: "l' = l" by simp
  have "fmlookup (leases (record_lease b req relay l env)) (le_ID l) = Some l" by (simp add: record_lease_fields)
  from publish_lease_fields(1) [OF this, of ops marshal env] granted(9) l have "fmlookup (leases b') (le_ID l) = Some l" by (simp add: record_lease_fields)
  then show ?thesis using TrimPrefix_append [of "''/v1/leases/''" "le_ID l"] by (simp add: lease_lookup_def handleGetLease_def Let_def)
qed simp

lemma fetchLease_found: "\<exists>l'. fetchLease s (Lease_Found l) = Some l' \<and> le_ID l' = le_ID l \<and> Subdomain l' = Subdomain l \<and> CustomDomain l' = CustomDomain l"
  by (simp add: fetchLease_def)

lemma public_port_ClientID: "rg_ClientID (public_port reg) = rg_ClientID reg"
  by (simp add: public_port_def Let_def)

lemma StartTunnel_started:
  "openSession broker d t = Inr l \<Longrightarrow>
   \<exists>how. StartTunnel broker (\<lambda>_ _. Answered 201 [] (Some reg)) quic d t = Inr (\<lparr>sd_ClientID = rg_ClientID reg, sd_Lease = rg_Lease (public_port reg)\<rparr>, how)"
  by (cases "quic (QUICAddr (public_port reg))") (simp add: StartTunnel_def registerWithRelay_def public_port_ClientID Let_def)



subsection \<open>TCP connections\<close>

text \<open>Everything that changes the connections of the client: an event of the relay, or a turn of a reading goroutine.\<close>

datatype client_op = Tcp_Event tcp_event bool | Tcp_Read string "byte list" bool

fun client_exec :: "string \<Rightarrow> client_daemon \<Rightarrow> client_op \<Rightarrow> client_daemon" where
  "client_exec clientID d (Tcp_Event ev dialled) = snd (handleTCPEvent d clientID ev dialled)"
| "client_exec clientID d (Tcp_Read connectionID data err) = snd (readLocalTCP d clientID connectionID data err)"

text \<open>Connections have cells of their own, which are open as long as they are known.\<close>

definition client_invar :: "client_daemon \<Rightarrow> bool" where
  "client_invar d \<longleftrightarrow> (\<forall>i c. fmlookup (tcpConns d) i = Some c \<longrightarrow> c < lc_next d \<and> c \<notin> lc_closed d \<and> (\<forall>j. fmlookup (tcpConns d) j = Some c \<longrightarrow> j = i))
     \<and> (\<forall>c \<in> lc_closed d. c < lc_next d) \<and> (\<forall>c \<ge> lc_next d. lc_written d c = [])"

lemma closeTCPConn_invar: "client_invar d \<Longrightarrow> client_invar (closeTCPConn d i)"
  unfolding client_invar_def closeTCPConn_def by (auto split: option.splits)

lemma open_invar: "client_invar d \<Longrightarrow> client_invar (d\<lparr>tcpConns := fmupd i (lc_next d) (tcpConns d), lc_next := lc_next d + 1\<rparr>)"
  unfolding client_invar_def by (auto simp: less_Suc_eq split: if_splits)

lemma write_invar: "client_invar d \<Longrightarrow> fmlookup (tcpConns d) i = Some c \<Longrightarrow> client_invar (d\<lparr>lc_written := (lc_written d)(c := bs)\<rparr>)"
  unfolding client_invar_def by (auto simp: not_le [symmetric])

lemma client_exec_invar: "client_invar d \<Longrightarrow> client_invar (client_exec clientID d op)"
  by (cases op) (auto simp: handleTCPEvent_def readLocalTCP_def closeTCPConn_invar open_invar [simplified] write_invar split: option.split)

interpretation client_ops: op_system "client_exec clientID" client_invar for clientID
  by unfold_locales (rule client_exec_invar)

lemma client_New_invar: "client_invar (client_New u tok)"
  by (simp add: client_invar_def client_New_def)

text \<open>An operation that neither opens nor closes a connection.\<close>

fun touches :: "string \<Rightarrow> client_op \<Rightarrow> bool" where
  "touches i (Tcp_Event ev _) \<longleftrightarrow> te_ConnectionID ev = i \<and> te_Type ev \<in> {''open'', ''close''}"
| "touches i (Tcp_Read j _ err) \<longleftrightarrow> j = i \<and> err"

fun payload_for :: "string \<Rightarrow> client_op \<Rightarrow> byte list" where
  "payload_for i (Tcp_Event ev _) = (if te_Type ev = ''data'' \<and> te_ConnectionID ev = i then te_Payload ev else [])"
| "payload_for i (Tcp_Read _ _ _) = []"

lemma client_exec_other:
  assumes "client_invar d" "fmlookup (tcpConns d) i = Some c" "\<not> touches i op"
  shows "fmlookup (tcpConns (client_exec k d op)) i = Some c \<and> lc_written (client_exec k d op) c = lc_written d c @ payload_for i op"
proof -
  have u: "j = i" if "fmlookup (tcpConns d) j = Some c" for j using assms(1,2) that unfolding client_invar_def by blast
  have n: "c \<notin> lc_closed d" using assms(1,2) unfolding client_invar_def by blast
  show ?thesis
  proof (cases op)
    case (Tcp_Event ev ok)
    let ?j = "te_ConnectionID ev"
    consider "te_Type ev = ''open''" | "te_Type ev = ''data''" | "te_Type ev = ''close''" | "te_Type ev \<noteq> ''open''" "te_Type ev \<noteq> ''data''" "te_Type ev \<noteq> ''close''" by blast
    then show ?thesis
    proof cases
      case 2
      show ?thesis
      proof (cases "?j = i")
        case True
        with 2 Tcp_Event assms(2) n show ?thesis by (simp add: handleTCPEvent_def)
      next
        case False
        then have "fmlookup (tcpConns d) ?j \<noteq> Some c" using u by blast
        with 2 False Tcp_Event assms(2) show ?thesis by (cases "fmlookup (tcpConns d) ?j") (simp_all add: handleTCPEvent_def)
      qed
    next
      case 3
      then have "?j \<noteq> i" using assms(3) Tcp_Event by auto
      with 3 Tcp_Event assms(2) show ?thesis by (cases "fmlookup (tcpConns d) ?j") (simp_all add: handleTCPEvent_def closeTCPConn_def)
    qed (use Tcp_Event assms(2,3) in \<open>simp_all add: handleTCPEvent_def\<close>)
  next
    case (Tcp_Read j data err)
    with assms(2,3) show ?thesis by (auto simp: readLocalTCP_def closeTCPConn_def split: option.split)
  qed
qed

lemma client_run_other:
  "client_invar d \<Longrightarrow> fmlookup (tcpConns d) i = Some c \<Longrightarrow> \<forall>op \<in> set ops. \<not> touches i op \<Longrightarrow>
   fmlookup (tcpConns (foldl (client_exec k) d ops)) i = Some c \<and> lc_written (foldl (client_exec k) d ops) c = lc_written d c @ concat (map (payload_for i) ops)"
proof (induction ops arbitrary: d)
  case (Cons op ops)
  then show ?case using client_exec_other [of d i c op k] client_exec_invar [of d k op] by simp
qed simp



end
