(* ===== verification/Peer_Transport.thy ===== *)
theory Peer_Transport
  imports Client Broker_Proofs
begin

section \<open>Replication over HTTP\<close>

text \<open>
  Model of \<open>GoTunnel/internal/state/http_transport.go\<close>: the transport brokers use for heartbeats, logs and snapshots, and its composition
  with the handlers of another broker. The HTTP client and the host that \<open>url.Parse\<close> finds in an address are arguments.
\<close>

subsection \<open>Peers\<close>

record peer_http =
  ph_baseURL :: "(string, string) fmap"
  ph_token :: string

text \<open>\<open>host\<close> is the host in an address, \<open>None\<close> when it cannot be parsed.\<close>

definition peerNodeID :: "(string \<Rightarrow> string option) \<Rightarrow> string \<Rightarrow> string" where
  "peerNodeID host raw =
     (let trimmed = TrimSpace raw
      in if trimmed = [] then []
         else if Contains trimmed ''='' then TrimSpace (takeWhile (\<lambda>c. c \<noteq> CHR ''='') trimmed)
         else (case host trimmed of Some h \<Rightarrow> if h \<noteq> [] then h else trimmed | None \<Rightarrow> trimmed))"

definition peerBaseURL :: "string \<Rightarrow> string" where
  "peerBaseURL raw =
     (let trimmed = TrimSpace raw
      in if trimmed = [] then []
         else if Contains trimmed ''='' then TrimRightSlash (TrimSpace (tl (dropWhile (\<lambda>c. c \<noteq> CHR ''='') trimmed)))
         else if Contains trimmed ''://'' then TrimRightSlash trimmed
         else [])"

definition add_peer :: "(string \<Rightarrow> string option) \<Rightarrow> (string, string) fmap \<Rightarrow> string \<Rightarrow> (string, string) fmap" where
  "add_peer host m peer =
     (let trimmed = TrimSpace peer
      in if trimmed = [] then m
         else let i = peerNodeID host trimmed; u = peerBaseURL trimmed
              in if i = [] \<or> u = [] then m else fmupd i u m)"

definition NewHTTPPeerTransport :: "(string \<Rightarrow> string option) \<Rightarrow> string list \<Rightarrow> string \<Rightarrow> peer_http" where
  "NewHTTPPeerTransport host cluster token = \<lparr>ph_baseURL = foldl (add_peer host) fmempty cluster, ph_token = TrimSpace token\<rparr>"

subsection \<open>Calls\<close>

datatype peer_error = Peer_Not_Configured string | Peer_Call_Failed string | Peer_Returned string int | Peer_Undecodable

definition authorization :: "peer_http \<Rightarrow> string" where
  "authorization t = (if ph_token t = [] then [] else ''Bearer '' @ ph_token t)"

text \<open>A call: the address and the authorization header, which is empty when it is not sent.\<close>

definition getJSON :: "peer_http \<Rightarrow> (string \<Rightarrow> string \<Rightarrow> 'a server_answer) \<Rightarrow> node \<Rightarrow> string \<Rightarrow> peer_error + 'a" where
  "getJSON t get peer path =
     (let baseURL = (case fmlookup (ph_baseURL t) (n_ID peer) of
                       Some mapped \<Rightarrow> if TrimSpace mapped \<noteq> [] then mapped else TrimRightSlash (n_Address peer)
                     | None \<Rightarrow> TrimRightSlash (n_Address peer))
      in if baseURL = [] then Inl (Peer_Not_Configured (n_ID peer))
         else (case get (baseURL @ path) (authorization t) of
                 Not_Built e \<Rightarrow> Inl (Peer_Call_Failed e)
               | Not_Reached e \<Rightarrow> Inl (Peer_Call_Failed e)
               | Answered code _ body \<Rightarrow>
                   if code \<noteq> 200 then Inl (Peer_Returned (n_ID peer) code)
                   else (case body of None \<Rightarrow> Inl Peer_Undecodable | Some v \<Rightarrow> Inr v)))"

definition http_FetchLogs :: "peer_http \<Rightarrow> (string \<Rightarrow> string \<Rightarrow> 'v replication_log list server_answer) \<Rightarrow> node \<Rightarrow> int \<Rightarrow> peer_error + 'v replication_log list" where
  "http_FetchLogs t get peer fromSequence = getJSON t get peer (''/v1/state/peer/logs?from='' @ dec fromSequence)"

definition http_FetchSnapshot :: "peer_http \<Rightarrow> (string \<Rightarrow> string \<Rightarrow> 'v state_entry list server_answer) \<Rightarrow> node \<Rightarrow> peer_error + 'v state_entry list" where
  "http_FetchSnapshot t get peer = getJSON t get peer ''/v1/state/peer/snapshot''"

definition postJSON :: "peer_http \<Rightarrow> (string \<Rightarrow> string \<Rightarrow> 'a \<Rightarrow> unit server_answer) \<Rightarrow> string \<Rightarrow> 'a \<Rightarrow> peer_error option" where
  "postJSON t post endpoint body =
     (case post endpoint (authorization t) body of
        Not_Built e \<Rightarrow> Some (Peer_Call_Failed e)
      | Not_Reached e \<Rightarrow> Some (Peer_Call_Failed e)
      | Answered code _ _ \<Rightarrow> if code \<noteq> 200 \<and> code \<noteq> 201 then Some (Peer_Returned ''endpoint'' code) else None)"

text \<open>\<open>ks\<close> is the order in which the peers are visited. The result are the peers called, and the first error.\<close>

fun BroadcastHeartbeat :: "peer_http \<Rightarrow> (string \<Rightarrow> string \<Rightarrow> node \<Rightarrow> unit server_answer) \<Rightarrow> node \<Rightarrow> string list \<Rightarrow> string list \<times> peer_error option" where
  "BroadcastHeartbeat t post self [] = ([], None)"
| "BroadcastHeartbeat t post self (k # ks) =
     (case fmlookup (ph_baseURL t) k of
        None \<Rightarrow> BroadcastHeartbeat t post self ks
      | Some baseURL \<Rightarrow>
          if k = n_ID self then BroadcastHeartbeat t post self ks
          else (case BroadcastHeartbeat t post self ks of
                  (called, err) \<Rightarrow>
                    (k # called, case postJSON t post (baseURL @ ''/v1/state/peer/heartbeat'') self of Some e \<Rightarrow> Some e | None \<Rightarrow> err)))"

text \<open>\<open>strconv.ParseInt\<close> to base 10 with 64 bits; every error is the sequence number 0.\<close>

definition ParseInt64 :: "string \<Rightarrow> int option" where
  "ParseInt64 s =
     (let neg = (s \<noteq> [] \<and> hd s = CHR ''-'');
          digits = (if s \<noteq> [] \<and> (hd s = CHR ''-'' \<or> hd s = CHR ''+'') then tl s else s)
      in if digits = [] then None
         else case parse_base 10 digit_val 0 digits of
           None \<Rightarrow> None
         | Some n \<Rightarrow> if neg then (if n \<le> 2 ^ 63 then Some (- int n) else None) else (if n < 2 ^ 63 then Some (int n) else None))"

definition ParsePeerSequence :: "string \<Rightarrow> int" where
  "ParsePeerSequence raw = (case ParseInt64 (TrimSpace raw) of Some n \<Rightarrow> n | None \<Rightarrow> 0)"

subsection \<open>Sequence numbers in addresses\<close>

lemma parse_base_append: "parse_base b f acc (s @ t) = Option.bind (parse_base b f acc s) (\<lambda>a. parse_base b f a t)"
  by (induction b f acc s rule: parse_base.induct) (auto split: option.split)

lemma digit_val_char: "n < 10 \<Longrightarrow> digit_val (char_of (48 + n)) = Some n"
  by (simp add: digit_val_def)

lemma parse_dec_nat: "parse_base 10 digit_val 0 (dec_nat n) = Some n"
proof (induction n rule: dec_nat.induct)
  case (1 n)
  show ?case
  proof (cases "n < 10")
    case True
    then show ?thesis by (simp add: dec_nat.simps [of n] digit_val_char)
  next
    case False
    then show ?thesis using 1 by (simp add: dec_nat.simps [of n] parse_base_append digit_val_char)
  qed
qed

lemma dec_nat_visible: "dec_nat n \<noteq> [] \<and> visible (hd (dec_nat n)) \<and> visible (last (dec_nat n)) \<and> hd (dec_nat n) \<noteq> CHR ''-'' \<and> hd (dec_nat n) \<noteq> CHR ''+''"
proof (induction n rule: dec_nat.induct)
  case (1 n)
  have d: "visible (char_of (48 + k)) \<and> char_of (48 + k) \<noteq> CHR ''-'' \<and> char_of (48 + k) \<noteq> CHR ''+''" if "k < 10" for k :: nat
  proof -
    have c: "(of_char (char_of (48 + k) :: char) :: nat) = 48 + k" using that by simp
    have "(of_char CHR ''-'' :: nat) = 45" "(of_char CHR ''+'' :: nat) = 43" by simp_all
    with c have "char_of (48 + k) \<noteq> CHR ''-''" "char_of (48 + k) \<noteq> CHR ''+''" by (metis add_leE numeral_le_iff semiring_norm le_add1)+
    then show ?thesis using that c by (simp add: visible_def)
  qed
  show ?case
  proof (cases "n < 10")
    case True
    then show ?thesis using d by (simp add: dec_nat.simps [of n])
  next
    case False
    then show ?thesis using 1 d [of "n mod 10"] by (simp add: dec_nat.simps [of n])
  qed
qed

lemma ParsePeerSequence_dec: "- (2 ^ 63) \<le> n \<Longrightarrow> n < 2 ^ 63 \<Longrightarrow> ParsePeerSequence (dec n) = n"
proof -
  assume n: "- (2 ^ 63) \<le> n" "n < 2 ^ 63"
  have "visible CHR ''-''" by (simp add: visible_def)
  then have "TrimSpace (dec n) = dec n" using dec_nat_visible [of "nat n"] dec_nat_visible [of "nat (- n)"]
    by (intro TrimSpace_visible) (auto simp: dec_def)
  moreover have "ParseInt64 (dec n) = Some n"
  proof (cases "n < 0")
    case True
    have "nat (- n) \<le> 2 ^ 63" using n by simp
    then show ?thesis using True dec_nat_visible [of "nat (- n)"] by (simp add: ParseInt64_def dec_def parse_dec_nat)
  next
    case False
    have "nat n < 2 ^ 63" using n by simp
    then show ?thesis using False dec_nat_visible [of "nat n"] by (simp add: ParseInt64_def dec_def parse_dec_nat)
  qed
  ultimately show ?thesis by (simp add: ParsePeerSequence_def)
qed

subsection \<open>The transport and the handlers of a peer\<close>

text \<open>A broker at an address, as far as its peers call it.\<close>

definition logs_at :: "('s, broker_value) store_ops \<Rightarrow> 's broker \<Rightarrow> string \<Rightarrow> string \<Rightarrow> string \<Rightarrow> broker_value replication_log list server_answer" where
  "logs_at ops b base url header =
     (let prefix = base @ ''/v1/state/peer/logs?from=''
      in if HasPrefix url prefix then as_answer (handlePeerLogs ops b header ''GET'' (ParsePeerSequence (TrimPrefix url prefix))) else Answered 404 [] None)"

definition snapshot_at :: "('s, broker_value) store_ops \<Rightarrow> 's broker \<Rightarrow> string \<Rightarrow> string list \<Rightarrow> string \<Rightarrow> string \<Rightarrow> broker_value state_entry list server_answer" where
  "snapshot_at ops b base ks url header =
     (if url = base @ ''/v1/state/peer/snapshot'' then as_answer (handlePeerSnapshot ops b header ''GET'' ks) else Answered 404 [] None)"

text \<open>The transport of the replicator, made of the calls.\<close>

definition as_transport :: "peer_http \<Rightarrow> (string \<Rightarrow> string \<Rightarrow> 'v replication_log list server_answer) \<Rightarrow> (string \<Rightarrow> string \<Rightarrow> 'v state_entry list server_answer) \<Rightarrow> 'v peer_transport" where
  "as_transport t get_logs get_snapshot =
     \<lparr>FetchLogs = (\<lambda>peer n. case http_FetchLogs t get_logs peer n of Inl _ \<Rightarrow> None | Inr logs \<Rightarrow> Some logs),
      FetchSnapshot = (\<lambda>peer. case http_FetchSnapshot t get_snapshot peer of Inl _ \<Rightarrow> None | Inr es \<Rightarrow> Some es)\<rparr>"

definition plain_text :: "string \<Rightarrow> bool" where
  "plain_text s \<longleftrightarrow> s \<noteq> [] \<and> visible (hd s) \<and> visible (last s)"

lemma TrimSpace_plain: "plain_text s \<Longrightarrow> TrimSpace s = s"
  by (simp add: plain_text_def TrimSpace_visible)

lemma configured_peer:
  assumes "plain_text i" "CHR ''='' \<notin> set i" "plain_text u" "TrimRightSlash u \<noteq> []"
  shows "fmlookup (ph_baseURL (NewHTTPPeerTransport host (cluster @ [i @ ''='' @ u]) token)) i = Some (TrimRightSlash u)"
proof -
  have p: "plain_text (i @ ''='' @ u)" using assms(1,3) by (simp add: plain_text_def)
  have c: "Contains (i @ ''='' @ u) ''=''" unfolding Contains_iff by (intro exI [of _ i] exI [of _ u]) simp
  have t: "takeWhile (\<lambda>c. c \<noteq> CHR ''='') (i @ ''='' @ u) = i" "tl (dropWhile (\<lambda>c. c \<noteq> CHR ''='') (i @ ''='' @ u)) = u"
    using assms(2) by (simp_all add: takeWhile_append dropWhile_append)
  have "add_peer host m (i @ ''='' @ u) = fmupd i (TrimRightSlash u) m" for m
    using assms TrimSpace_plain [OF p] c t TrimSpace_plain [OF assms(1)] TrimSpace_plain [OF assms(3)]
    by (simp add: add_peer_def peerNodeID_def peerBaseURL_def plain_text_def)
  then show ?thesis by (simp add: NewHTTPPeerTransport_def)
qed

lemma peer_permitted:
  assumes "validToken b = TrimSpace token" "token = [] \<or> plain_text token" "t = NewHTTPPeerTransport host cluster token"
  shows "requireBrokerPermission b (authorization t)"
proof -
  have "TrimPrefix (''Bearer '' @ token) ''Bearer '' = token" unfolding TrimPrefix_def using HasPrefix_append [of "''Bearer ''" token] by simp
  then show ?thesis using assms TrimSpace_plain [of token] by (auto simp: requireBrokerPermission_def authorization_def NewHTTPPeerTransport_def)
qed

lemma fetch_from_peer:
  assumes "fmlookup (ph_baseURL t) (n_ID peer) = Some base" "TrimSpace base \<noteq> []" "requireBrokerPermission b (authorization t)"
  shows "- (2 ^ 63) \<le> n \<Longrightarrow> n < 2 ^ 63 \<Longrightarrow> http_FetchLogs t (logs_at ops b base) peer n = Inr (ExportLogs ops (b_replicator b) n)"
    and "http_FetchSnapshot t (snapshot_at ops b base ks) peer = Inr (ExportSnapshot ops (b_replicator b) ks)"
proof -
  have b: "base \<noteq> []" using assms(2) by auto
  have u: "HasPrefix (base @ ''/v1/state/peer/logs?from='' @ dec n) (base @ ''/v1/state/peer/logs?from='')"
    "TrimPrefix (base @ ''/v1/state/peer/logs?from='' @ dec n) (base @ ''/v1/state/peer/logs?from='') = dec n"
    using HasPrefix_append [of "base @ ''/v1/state/peer/logs?from=''" "dec n"] by (simp_all add: TrimPrefix_def)
  show "http_FetchLogs t (logs_at ops b base) peer n = Inr (ExportLogs ops (b_replicator b) n)" if "- (2 ^ 63) \<le> n" "n < 2 ^ 63"
    unfolding http_FetchLogs_def getJSON_def logs_at_def Let_def append_assoc using assms b u ParsePeerSequence_dec [OF that]
    by (simp add: handlePeerLogs_def del: append_Cons append_Cons)
  show "http_FetchSnapshot t (snapshot_at ops b base ks) peer = Inr (ExportSnapshot ops (b_replicator b) ks)"
    using assms b by (simp add: http_FetchSnapshot_def getJSON_def snapshot_at_def handlePeerSnapshot_def Let_def)
qed


definition demo_sync_follower :: "(broker_value memory_store, broker_value) replicator" where
  "demo_sync_follower = (NewReplicator \<lparr>NodeID = ''b2'', Nodes = [], HeartbeatInterval = 0, ElectionTimeout = 0, SyncTimeout = 0, MaxLogEntries = 0,
     has_PeerTransport = True\<rparr> NewMemoryStore (\<lambda>_. 0))\<lparr>leaderID := ''b1'', nodes := fmupd ''b1'' demo_broker_node fmempty\<rparr>"


text \<open>
  The replicator itself registers a configured peer under the whole text \<open>id=url\<close>, which is not the identifier the peer
  calls itself by, so every peer is known twice once it has sent a heartbeat.
\<close>

lemma registered_nodes:
  assumes "raw \<in> set (Nodes cfg)" "plain_text raw" "raw \<noteq> NodeID cfg"
  shows "\<exists>n. fmlookup (nodes (NewReplicator cfg st clk)) raw = Some n \<and> n_ID n = raw"
proof -
  let ?add = "\<lambda>m x. let n = TrimSpace x in if n = [] \<or> n = NodeID cfg then m
     else fmupd n \<lparr>n_ID = n, n_Address = n, n_Status = NodeStatusSyncing, n_IsLeader = False, n_LastHeartbeat = clk n, n_SequenceID = 0\<rparr> m"
  have keep: "\<exists>n. fmlookup (foldl ?add m xs) raw = Some n \<and> n_ID n = raw" if "\<exists>n. fmlookup m raw = Some n \<and> n_ID n = raw" for m xs
    using that by (induction xs arbitrary: m) (auto simp: Let_def)
  from assms(1) obtain xs ys where s: "Nodes cfg = xs @ raw # ys" by (meson split_list)
  have "\<exists>n. fmlookup (foldl ?add m (xs @ raw # ys)) raw = Some n \<and> n_ID n = raw" for m
    using keep [of "?add (foldl ?add m xs) raw" ys] assms(2,3) TrimSpace_plain [OF assms(2)] by (simp add: Let_def plain_text_def)
  then show ?thesis by (simp add: NewReplicator_def Let_def s)
qed

theorem peers_are_registered_twice:
  assumes "i @ ''='' @ u \<in> set (Nodes cfg)" "plain_text i" "CHR ''='' \<notin> set i" "plain_text u" "i @ ''='' @ u \<noteq> NodeID cfg" "n_ID beat = i"
    and r: "r = NewReplicator cfg st clk"
  shows "\<exists>n1 n2. fmlookup (nodes (ApplyHeartbeat r beat)) (i @ ''='' @ u) = Some n1
    \<and> fmlookup (nodes (ApplyHeartbeat r beat)) i = Some n2 \<and> peerNodeID host (i @ ''='' @ u) = i \<and> n_ID n1 \<noteq> i"
proof -
  have p: "plain_text (i @ ''='' @ u)" using assms(2,4) by (simp add: plain_text_def)
  obtain n1 where n1: "fmlookup (nodes r) (i @ ''='' @ u) = Some n1" "n_ID n1 = i @ ''='' @ u" unfolding r by (rule exE [OF registered_nodes [OF assms(1) p assms(5)]]) (erule conjE)
  have "Contains (i @ ''='' @ u) ''=''" unfolding Contains_iff by (intro exI [of _ i] exI [of _ u]) simp
  moreover have "takeWhile (\<lambda>c. c \<noteq> CHR ''='') (i @ ''='' @ u) = i" using assms(3) by (auto simp: takeWhile_append)
  ultimately have "peerNodeID host (i @ ''='' @ u) = i" using TrimSpace_plain [OF p] TrimSpace_plain [OF assms(2)] assms(2) by (simp add: peerNodeID_def plain_text_def)
  moreover have "fmlookup (nodes (ApplyHeartbeat r beat)) k = (if k = i then Some (the (fmlookup (nodes (ApplyHeartbeat r beat)) i)) else fmlookup (nodes r) k)" for k
    using assms(6) by (simp add: ApplyHeartbeat_def Let_def)
  moreover have "i @ ''='' @ u \<noteq> i" by simp
  ultimately show ?thesis using n1 by (metis (no_types))
qed

end
