(* ===== verification/Command_Line.thy ===== *)
theory Command_Line
  imports Client Relay_Debug
begin

section \<open>The command line of GoTunnel\<close>

text \<open>
  Model of \<open>GoTunnel/internal/cli\<close>: \<open>flags.go\<close>, \<open>root.go\<close>, \<open>login.go\<close>, \<open>tunnel.go\<close>, \<open>config.go\<close>, \<open>broker.go\<close>, \<open>relay.go\<close>, and the parts of
  \<open>plugin.go\<close>, \<open>profile.go\<close>, \<open>cicd.go\<close> and \<open>container.go\<close> that register their commands; with what they use of package \<open>flag\<close>. Texts
  that are only printed are represented by a name. Package initialisation is modelled step by step, since the
  table of commands is filled while some of the commands are still nil.
\<close>

subsection \<open>Global options\<close>

record global_options =
  go_ConfigPath :: string
  go_LogLevel :: string
  go_LogFormat :: string
  go_JSONOutput :: bool
  go_DryRun :: bool
  go_Verbose :: bool
  go_Quiet :: bool
  go_NoColor :: bool
  go_Token :: string
  go_Profile :: string
  go_Timeout :: string

definition no_options :: global_options where
  "no_options = \<lparr>go_ConfigPath = [], go_LogLevel = [], go_LogFormat = [], go_JSONOutput = False, go_DryRun = False, go_Verbose = False,
     go_Quiet = False, go_NoColor = False, go_Token = [], go_Profile = [], go_Timeout = []\<rparr>"

text \<open>The cases of the switch: options followed by a value, options with the value after an equals sign, and switches. No two cases overlap.\<close>

definition value_option :: "string \<Rightarrow> (string \<Rightarrow> global_options \<Rightarrow> global_options) option" where
  "value_option arg =
     (if arg = ''--config'' \<or> arg = ''-c'' then Some (\<lambda>v opts. opts\<lparr>go_ConfigPath := v\<rparr>)
      else if arg = ''--log-level'' \<or> arg = ''-l'' then Some (\<lambda>v opts. opts\<lparr>go_LogLevel := v\<rparr>)
      else if arg = ''--log-format'' then Some (\<lambda>v opts. opts\<lparr>go_LogFormat := v\<rparr>)
      else if arg = ''--token'' \<or> arg = ''-t'' then Some (\<lambda>v opts. opts\<lparr>go_Token := v\<rparr>)
      else if arg = ''--profile'' \<or> arg = ''-p'' then Some (\<lambda>v opts. opts\<lparr>go_Profile := v\<rparr>)
      else if arg = ''--timeout'' then Some (\<lambda>v opts. opts\<lparr>go_Timeout := v\<rparr>)
      else None)"

definition assigned_option :: "string \<Rightarrow> (global_options \<Rightarrow> global_options) option" where
  "assigned_option arg =
     (if HasPrefix arg ''--config='' then Some (\<lambda>opts. opts\<lparr>go_ConfigPath := TrimPrefix arg ''--config=''\<rparr>)
      else if HasPrefix arg ''--log-level='' then Some (\<lambda>opts. opts\<lparr>go_LogLevel := TrimPrefix arg ''--log-level=''\<rparr>)
      else if HasPrefix arg ''--log-format='' then Some (\<lambda>opts. opts\<lparr>go_LogFormat := TrimPrefix arg ''--log-format=''\<rparr>)
      else if HasPrefix arg ''--token='' then Some (\<lambda>opts. opts\<lparr>go_Token := TrimPrefix arg ''--token=''\<rparr>)
      else if HasPrefix arg ''--profile='' then Some (\<lambda>opts. opts\<lparr>go_Profile := TrimPrefix arg ''--profile=''\<rparr>)
      else if HasPrefix arg ''--timeout='' then Some (\<lambda>opts. opts\<lparr>go_Timeout := TrimPrefix arg ''--timeout=''\<rparr>)
      else None)"

definition switch_option :: "string \<Rightarrow> (global_options \<Rightarrow> global_options) option" where
  "switch_option arg =
     (if arg = ''--json'' then Some (\<lambda>opts. opts\<lparr>go_JSONOutput := True\<rparr>)
      else if arg = ''--dry-run'' then Some (\<lambda>opts. opts\<lparr>go_DryRun := True\<rparr>)
      else if arg = ''--verbose'' \<or> arg = ''-v'' then Some (\<lambda>opts. opts\<lparr>go_Verbose := True\<rparr>)
      else if arg = ''--quiet'' \<or> arg = ''-q'' then Some (\<lambda>opts. opts\<lparr>go_Quiet := True\<rparr>)
      else if arg = ''--no-color'' then Some (\<lambda>opts. opts\<lparr>go_NoColor := True\<rparr>)
      else None)"

text \<open>Options are taken from anywhere on the command line; the rest keeps its order. An option at the end without its value is dropped.\<close>

fun ParseGlobalOptions :: "global_options \<Rightarrow> string list \<Rightarrow> global_options \<times> string list" where
  "ParseGlobalOptions opts [] = (opts, [])"
| "ParseGlobalOptions opts (arg # args) =
     (case value_option arg of
        Some set_value \<Rightarrow> (case args of [] \<Rightarrow> (opts, []) | v # rest \<Rightarrow> ParseGlobalOptions (set_value v opts) rest)
      | None \<Rightarrow>
          (case assigned_option arg of
             Some assign \<Rightarrow> ParseGlobalOptions (assign opts) args
           | None \<Rightarrow>
               (case switch_option arg of
                  Some switch \<Rightarrow> ParseGlobalOptions (switch opts) args
                | None \<Rightarrow> (case ParseGlobalOptions opts args of (o1, rest) \<Rightarrow> (o1, arg # rest)))))"

datatype log_level = LevelTrace | LevelDebug | LevelInfo | LevelWarn | LevelError | LevelFatal

definition levelNames :: "(log_level \<times> string) list" where
  "levelNames = [(LevelTrace, ''trace''), (LevelDebug, ''debug''), (LevelInfo, ''info''), (LevelWarn, ''warn''), (LevelError, ''error''), (LevelFatal, ''fatal'')]"

definition ParseLogLevel :: "string \<Rightarrow> log_level option" where
  "ParseLogLevel s = map_option fst (find (\<lambda>(_, name). name = ToLower (TrimSpace s)) levelNames)"

text \<open>The part of the outside that commands change: the environment, the logger, and files.\<close>

record cli_world =
  w_env :: "string \<Rightarrow> string"
  w_level :: log_level
  w_jsonMode :: bool
  w_files :: "string \<Rightarrow> string option"

definition ApplyGlobalOptions :: "global_options \<Rightarrow> cli_world \<Rightarrow> cli_world" where
  "ApplyGlobalOptions opts w =
     (let w1 = (if go_LogLevel opts = [] then w else case ParseLogLevel (go_LogLevel opts) of Some level \<Rightarrow> w\<lparr>w_level := level\<rparr> | None \<Rightarrow> w);
          w2 = (if go_Verbose opts then w1\<lparr>w_level := LevelDebug\<rparr> else w1);
          w3 = (if go_Quiet opts then w2\<lparr>w_level := LevelError\<rparr> else w2);
          w4 = (if go_JSONOutput opts then w3\<lparr>w_jsonMode := True\<rparr> else w3)
      in if go_Token opts = [] then w4 else w4\<lparr>w_env := (w_env w4)(''GOTUNNEL_TOKEN'' := go_Token opts)\<rparr>)"

subsection \<open>Package flag\<close>

text \<open>A flag holds its current value, which also says what kind of flag it is.\<close>

datatype flag_value = Flag_String string | Flag_Bool bool | Flag_Int int

type_synonym flag_set = "string \<Rightarrow> flag_value option"

datatype flag_error = Bad_Flag_Syntax string | Flag_Not_Defined string | Help_Requested | Flag_Needs_Argument string | Invalid_Flag_Value string string

definition ParseBool :: "string \<Rightarrow> bool option" where
  "ParseBool s =
     (if s \<in> {''1'', ''t'', ''T'', ''TRUE'', ''true'', ''True''} then Some True
      else if s \<in> {''0'', ''f'', ''F'', ''FALSE'', ''false'', ''False''} then Some False
      else None)"

text \<open>\<open>strconv.ParseInt\<close> to base 0: a prefix gives the base, and single underscores may stand between digits or after the prefix.\<close>

fun underscores_ok :: "bool \<Rightarrow> bool \<Rightarrow> string \<Rightarrow> bool" where
  "underscores_ok after_digit after_underscore [] = (\<not> after_underscore)"
| "underscores_ok after_digit after_underscore (c # cs) =
     (if c = CHR ''_'' then after_digit \<and> underscores_ok False True cs
      else underscores_ok True False cs)"

definition ParseInt0 :: "string \<Rightarrow> int option" where
  "ParseInt0 s =
     (let neg = (s \<noteq> [] \<and> hd s = CHR ''-'');
          body = (if s \<noteq> [] \<and> (hd s = CHR ''-'' \<or> hd s = CHR ''+'') then tl s else s);
          low = ToLower (take 2 body);
          (base, digits, prefixed) =
            (if 2 < length body \<and> low = ''0b'' then (2, drop 2 body, True)
             else if 2 < length body \<and> low = ''0o'' then (8, drop 2 body, True)
             else if 2 < length body \<and> low = ''0x'' then (16, drop 2 body, True)
             else if body \<noteq> [] \<and> hd body = CHR ''0'' then (8, body, False)
             else (10, body, False));
          val = (\<lambda>c. case hex_val c of Some d \<Rightarrow> if d < base then Some d else None | None \<Rightarrow> None)
      in if digits = [] \<or> \<not> underscores_ok prefixed False digits then None
         else case parse_base base val 0 (filter (\<lambda>c. c \<noteq> CHR ''_'') digits) of
           None \<Rightarrow> None
         | Some n \<Rightarrow> if neg then (if n \<le> 2 ^ 63 then Some (- int n) else None) else (if n < 2 ^ 63 then Some (int n) else None))"

fun set_flag :: "flag_value \<Rightarrow> string \<Rightarrow> flag_value option" where
  "set_flag (Flag_String _) v = Some (Flag_String v)"
| "set_flag (Flag_Bool _) v = map_option Flag_Bool (ParseBool v)"
| "set_flag (Flag_Int _) v = map_option Flag_Int (ParseInt0 v)"

definition flag_name :: "string \<Rightarrow> string" where
  "flag_name arg = (if take 2 arg = ''--'' then drop 2 arg else drop 1 arg)"

text \<open>The name and the value after the first equals sign that is not the first character.\<close>

definition flag_parts :: "string \<Rightarrow> string \<times> string option" where
  "flag_parts name =
     (let n = takeWhile (\<lambda>c. c \<noteq> CHR ''='') (tl name)
      in if n = tl name then (name, None) else (hd name # n, Some (drop (length n + 2) name)))"

definition with_flag :: "flag_set \<Rightarrow> string \<Rightarrow> flag_value \<Rightarrow> string \<Rightarrow> flag_error + flag_set" where
  "with_flag fs name old v =
     (case set_flag old v of None \<Rightarrow> Inl (Invalid_Flag_Value name v) | Some new \<Rightarrow> Inr (fs(name \<mapsto> new)))"

text \<open>\<open>FlagSet.Parse\<close>: flags up to the first argument that is none, or up to two dashes.\<close>

fun parse_flags :: "flag_set \<Rightarrow> string list \<Rightarrow> flag_error + flag_set \<times> string list" where
  "parse_flags fs [] = Inr (fs, [])"
| "parse_flags fs (arg # args) =
     (if length arg < 2 \<or> hd arg \<noteq> CHR ''-'' then Inr (fs, arg # args)
      else if arg = ''--'' then Inr (fs, args)
      else let name = flag_name arg
           in if name = [] \<or> hd name = CHR ''-'' \<or> hd name = CHR ''='' then Inl (Bad_Flag_Syntax arg)
              else case flag_parts name of
                (n, given) \<Rightarrow>
                  (case fs n of
                     None \<Rightarrow> Inl (if n = ''help'' \<or> n = ''h'' then Help_Requested else Flag_Not_Defined n)
                   | Some old \<Rightarrow>
                       (case given of
                          Some v \<Rightarrow> (case with_flag fs n old v of Inl e \<Rightarrow> Inl e | Inr fs1 \<Rightarrow> parse_flags fs1 args)
                        | None \<Rightarrow>
                            (case old of
                               Flag_Bool _ \<Rightarrow> parse_flags (fs(n \<mapsto> Flag_Bool True)) args
                             | _ \<Rightarrow>
                                 (case args of
                                    [] \<Rightarrow> Inl (Flag_Needs_Argument n)
                                  | v # rest \<Rightarrow> (case with_flag fs n old v of Inl e \<Rightarrow> Inl e | Inr fs1 \<Rightarrow> parse_flags fs1 rest))))))"

definition string_flag :: "flag_set \<Rightarrow> string \<Rightarrow> string" where
  "string_flag fs name = (case fs name of Some (Flag_String v) \<Rightarrow> v | _ \<Rightarrow> [])"

definition bool_flag :: "flag_set \<Rightarrow> string \<Rightarrow> bool" where
  "bool_flag fs name = (case fs name of Some (Flag_Bool v) \<Rightarrow> v | _ \<Rightarrow> False)"

definition int_flag :: "flag_set \<Rightarrow> string \<Rightarrow> int" where
  "int_flag fs name = (case fs name of Some (Flag_Int v) \<Rightarrow> v | _ \<Rightarrow> 0)"

subsection \<open>Commands\<close>

text \<open>The functions a command can run; those of plugins are named by the plugin.\<close>

datatype (plugins only:) handler =
    runLoginCmd | runBrokerCmd | runRelayCmd | runCompletion | runVersionCmd | runHelpCmd
  | runConfigCmd | runConfigValidate | runConfigInit | runConfigShow
  | runTunnelCmd | runTunnelStartCmd | runTunnelStop | runTunnelList | runTunnelInspect | runTunnelShareCmd
  | runCertCmd | runCertList | runCertRenew | runCertRevoke | runCertInfo
  | runDNSCmd | runDNSProviders | runDNSRecords | runDNSTest
  | runSessionCmd | runSessionList | runSessionJoin | runSessionAnnotate | runSessionReplay
  | runSecurityCmd | runSecurityPolicies | runSecurityNetwork | runSecurityTLS | runSecurityRateLimit | runSecurityAudit
  | runPluginCmd | runPluginList | runPluginLoad | runPluginUnload
  | runProfileCmd | runProfileList | runProfileShow | runProfileCreate | runProfileDelete | runProfileApply
  | runCICDCmd | runCICDDetect | runCICDGenerate | runCICDSecrets
  | runContainerCmd | runContainerGenerate
  | Plugin_Handler string

text \<open>The texts for help are left out.\<close>

datatype command = Command (cmd_Name: string) (cmd_Aliases: "string list") (cmd_Subcommands: "(string \<times> command) list") (cmd_Run: "handler option")

definition leaf :: "string \<Rightarrow> string list \<Rightarrow> handler \<Rightarrow> string \<times> command" where
  "leaf name aliases run = (name, Command name aliases [] (Some run))"

definition LoginCommand :: command where
  "LoginCommand = Command ''login'' [''auth''] [] (Some runLoginCmd)"

definition BrokerCommand :: command where
  "BrokerCommand = Command ''broker'' [] [] (Some runBrokerCmd)"

definition RelayCommand :: command where
  "RelayCommand = Command ''relay'' [] [] (Some runRelayCmd)"

definition CompletionCommand :: command where
  "CompletionCommand = Command ''completion'' [] [] (Some runCompletion)"

definition VersionCommand :: command where
  "VersionCommand = Command ''version'' [''ver''] [] (Some runVersionCmd)"

definition HelpCommand :: command where
  "HelpCommand = Command ''help'' [''h''] [] (Some runHelpCmd)"

subsection \<open>Initialisation\<close>

text \<open>
  The package variables that hold a command. The six commands above are variables with an initial value; the ones here are nil
  until an \<open>init\<close> function assigns them.
\<close>

record cli_vars =
  v_Config :: "command option"
  v_Tunnel :: "command option"
  v_Cert :: "command option"
  v_DNS :: "command option"
  v_Session :: "command option"
  v_Security :: "command option"
  v_Plugin :: "command option"
  v_Profile :: "command option"
  v_CICD :: "command option"
  v_Container :: "command option"
  root_Subcommands :: "(string, command option) fmap"

definition zero_vars :: cli_vars where
  "zero_vars = \<lparr>v_Config = None, v_Tunnel = None, v_Cert = None, v_DNS = None, v_Session = None, v_Security = None, v_Plugin = None,
     v_Profile = None, v_CICD = None, v_Container = None, root_Subcommands = fmempty\<rparr>"

definition init_cicd :: "cli_vars \<Rightarrow> cli_vars" where
  "init_cicd v = v\<lparr>v_CICD := Some (Command ''cicd'' [''ci'']
     [leaf ''detect'' [] runCICDDetect, leaf ''generate'' [] runCICDGenerate, leaf ''secrets'' [] runCICDSecrets] (Some runCICDCmd))\<rparr>"

definition init_container :: "cli_vars \<Rightarrow> cli_vars" where
  "init_container v = v\<lparr>v_Container := Some (Command ''container'' [''docker'', ''k8s''] [leaf ''generate'' [] runContainerGenerate] (Some runContainerCmd))\<rparr>"

definition init_plugin :: "cli_vars \<Rightarrow> cli_vars" where
  "init_plugin v = v\<lparr>v_Plugin := Some (Command ''plugin'' [''plug'']
     [leaf ''list'' [] runPluginList, leaf ''load'' [] runPluginLoad, leaf ''unload'' [] runPluginUnload] (Some runPluginCmd))\<rparr>"

definition init_profile :: "cli_vars \<Rightarrow> cli_vars" where
  "init_profile v = v\<lparr>v_Profile := Some (Command ''profile'' [''env'']
     [leaf ''list'' [] runProfileList, leaf ''show'' [] runProfileShow, leaf ''create'' [] runProfileCreate, leaf ''delete'' [] runProfileDelete,
      leaf ''apply'' [] runProfileApply] (Some runProfileCmd))\<rparr>"

definition init_root :: "cli_vars \<Rightarrow> cli_vars" where
  "init_root v = v\<lparr>root_Subcommands := fmap_of_list
     [(''login'', Some LoginCommand), (''broker'', Some BrokerCommand), (''relay'', Some RelayCommand), (''config'', v_Config v),
      (''tunnel'', v_Tunnel v), (''cert'', v_Cert v), (''dns'', v_DNS v), (''session'', v_Session v), (''security'', v_Security v),
      (''completion'', Some CompletionCommand), (''version'', Some VersionCommand), (''help'', Some HelpCommand), (''plugin'', v_Plugin v),
      (''profile'', v_Profile v), (''cicd'', v_CICD v), (''container'', v_Container v)]\<rparr>"

definition init_config :: "cli_vars \<Rightarrow> cli_vars" where
  "init_config v = v\<lparr>v_Config := Some (Command ''config'' [''cfg'']
     [leaf ''validate'' [] runConfigValidate, leaf ''init'' [] runConfigInit, leaf ''show'' [] runConfigShow] (Some runConfigCmd))\<rparr>"

definition init_tunnel :: "cli_vars \<Rightarrow> cli_vars" where
  "init_tunnel v = v\<lparr>v_Tunnel := Some (Command ''tunnel'' [''tun'']
     [leaf ''start'' [] runTunnelStartCmd, leaf ''stop'' [] runTunnelStop, leaf ''list'' [''ls''] runTunnelList, leaf ''inspect'' [] runTunnelInspect,
      leaf ''share'' [] runTunnelShareCmd] (Some runTunnelCmd))\<rparr>"

definition init_cert :: "cli_vars \<Rightarrow> cli_vars" where
  "init_cert v = v\<lparr>v_Cert := Some (Command ''certificate'' [''cert'']
     [leaf ''list'' [] runCertList, leaf ''renew'' [] runCertRenew, leaf ''revoke'' [] runCertRevoke, leaf ''info'' [] runCertInfo] (Some runCertCmd))\<rparr>"

definition init_dns :: "cli_vars \<Rightarrow> cli_vars" where
  "init_dns v = v\<lparr>v_DNS := Some (Command ''dns'' []
     [leaf ''providers'' [] runDNSProviders, leaf ''records'' [] runDNSRecords, leaf ''test'' [] runDNSTest] (Some runDNSCmd))\<rparr>"

definition init_session :: "cli_vars \<Rightarrow> cli_vars" where
  "init_session v = v\<lparr>v_Session := Some (Command ''session'' [''sess'']
     [leaf ''list'' [] runSessionList, leaf ''join'' [] runSessionJoin, leaf ''annotate'' [] runSessionAnnotate, leaf ''replay'' [] runSessionReplay]
     (Some runSessionCmd))\<rparr>"

definition init_security :: "cli_vars \<Rightarrow> cli_vars" where
  "init_security v = v\<lparr>v_Security := Some (Command ''security'' [''sec'']
     [leaf ''policies'' [] runSecurityPolicies, leaf ''network'' [] runSecurityNetwork, leaf ''tls'' [] runSecurityTLS,
      leaf ''rate-limit'' [] runSecurityRateLimit, leaf ''audit'' [] runSecurityAudit] (Some runSecurityCmd))\<rparr>"

text \<open>
  Files of a package are initialised in the order of their names, and the \<open>init\<close> functions of one file in the order in which they stand: the
  first one in \<open>root.go\<close> copies the variables into the table before the others in that file have assigned them.
\<close>

definition package_init :: cli_vars where
  "package_init = foldl (\<lambda>v f. f v) zero_vars
     [init_cicd, init_container, init_plugin, init_profile, init_root, init_config, init_tunnel, init_cert, init_dns, init_session, init_security]"

subsection \<open>Commands of their own file\<close>

text \<open>The errors of plugins and profiles, the warnings about a configuration, and the errors of commands.\<close>

datatype cli_plugin_error = Plugin_Already_Registered string | Plugin_Not_Found string | Plugin_Not_Loaded string | No_Plugin_Symbol string | Invalid_Plugin_Symbol string

datatype profile_error = Profile_Not_Read string | Profile_Not_Parsed string | Profile_Not_Found string | Profile_Not_Written string | Profile_Not_Removed string

datatype config_warning =
    Version_Should_Be_1
  | Env_Not_Set string
  | Broker_URL_Is_Empty
  | No_Tunnels_Defined
  | Tunnel_Name_Empty nat
  | Tunnel_Protocol_Invalid nat string

datatype cli_failure =
    Unknown_Command string
  | Unknown_Subcommand string string
  | Usage_Required string
  | Flags_Refused flag_error
  | Token_Required
  | No_Config_Dir
  | File_Failed string
  | No_Token_Available
  | Config_Refused tunnel_config_error
  | Tunnel_Refused client_error
  | Share_Target_Required
  | Share_Not_Sent string
  | Share_Refused int
  | Share_Not_Decoded
  | Unsupported_Shell string
  | Plugin_Command_Failed string
  | Plugin_Failed cli_plugin_error
  | Profile_Failed profile_error
  | Config_Unreadable
  | Unsupported_Target string

text \<open>What a command does in the end: texts are printed, a server or a tunnel runs until it is interrupted, or there is an error.\<close>

datatype cli_result =
    Printed "string list"
  | Serving_Broker flag_set
  | Serving_Relay flag_set
  | Tunnel_Active started_tunnel serving
  | Session_Shared collaboration_session
  | Config_Printed tunnel_config
  | Config_Warnings "config_warning list"
  | Cli_Failed cli_failure
  | Cli_Crashed go_panic

text \<open>The directory for configurations is \<open>None\<close> when there is none; \<open>writable\<close> says which files can be written.\<close>

definition tokenPath :: "string option \<Rightarrow> string option" where
  "tokenPath dir = map_option (\<lambda>d. d @ ''/gotunnel/token'') dir"

definition login_flags :: flag_set where
  "login_flags = [''token'' \<mapsto> Flag_String []]"

definition runLogin :: "string option \<Rightarrow> (string \<Rightarrow> bool) \<Rightarrow> cli_world \<Rightarrow> string list \<Rightarrow> cli_result \<times> cli_world" where
  "runLogin dir writable w args =
     (case parse_flags login_flags args of
        Inl e \<Rightarrow> (Cli_Failed (Flags_Refused e), w)
      | Inr (fs, _) \<Rightarrow>
          if TrimSpace (string_flag fs ''token'') = [] then (Cli_Failed Token_Required, w)
          else (case tokenPath dir of
                  None \<Rightarrow> (Cli_Failed No_Config_Dir, w)
                | Some path \<Rightarrow>
                    if \<not> writable path then (Cli_Failed (File_Failed path), w)
                    else (Printed [''Token saved to '' @ path], w\<lparr>w_files := (w_files w)(path \<mapsto> TrimSpace (string_flag fs ''token''))\<rparr>)))"

definition loadSavedToken :: "string option \<Rightarrow> cli_world \<Rightarrow> string" where
  "loadSavedToken dir w =
     (case tokenPath dir of
        None \<Rightarrow> []
      | Some path \<Rightarrow> (case w_files w path of None \<Rightarrow> [] | Some data \<Rightarrow> TrimSpace data))"

definition tokenFromEnv :: "cli_world \<Rightarrow> string" where
  "tokenFromEnv w = TrimSpace (w_env w ''GOTUNNEL_TOKEN'')"

definition tunnel_flags :: flag_set where
  "tunnel_flags = [''file'' \<mapsto> Flag_String [], ''name'' \<mapsto> Flag_String ''app'', ''protocol'' \<mapsto> Flag_String ''http'',
     ''local-url'' \<mapsto> Flag_String ''http://127.0.0.1:3000'', ''region'' \<mapsto> Flag_String [], ''subdomain'' \<mapsto> Flag_String [],
     ''broker-url'' \<mapsto> Flag_String ''http://127.0.0.1:8090'', ''token'' \<mapsto> Flag_String [], ''inspect'' \<mapsto> Flag_Bool True,
     ''https'' \<mapsto> Flag_String ''auto'', ''production'' \<mapsto> Flag_Bool False, ''allow-sharing'' \<mapsto> Flag_Bool True]"

text \<open>The tunnel, the broker's address and the token; with a file, the first tunnel of its configuration.\<close>

definition resolveTunnelConfig :: "(string \<Rightarrow> tunnel_config option) \<Rightarrow> string option \<Rightarrow> cli_world \<Rightarrow> flag_set \<Rightarrow> cli_failure + tunnel \<times> string \<times> string" where
  "resolveTunnelConfig yaml dir w fs =
     (if string_flag fs ''file'' \<noteq> [] then
        (case config_Load (w_files w (string_flag fs ''file'')) yaml (w_env w) of
           Inl e \<Rightarrow> Inl (Config_Refused e)
         | Inr cfg \<Rightarrow>
             let token = firstNonEmpty [string_flag fs ''token'', tg_Token cfg, tokenFromEnv w, loadSavedToken dir w]
             in if TrimSpace token = [] then Inl No_Token_Available else Inr (hd (tg_Tunnels cfg), tg_BrokerURL cfg, token))
      else
        let token = firstNonEmpty [string_flag fs ''token'', tokenFromEnv w, loadSavedToken dir w]
        in if TrimSpace token = [] then Inl No_Token_Available
           else Inr (\<lparr>tn_Name = string_flag fs ''name'', tn_Protocol = string_flag fs ''protocol'', tn_LocalURL = string_flag fs ''local-url'',
                      tn_Region = string_flag fs ''region'', tn_Subdomain = string_flag fs ''subdomain'', tn_Inspect = bool_flag fs ''inspect'',
                      tn_HTTPS = string_flag fs ''https'', tn_WebhookURL = [], tn_CustomDomain = [], tn_Production = bool_flag fs ''production'',
                      tn_AllowSharing = Some (bool_flag fs ''allow-sharing''), tn_Labels = []\<rparr>, string_flag fs ''broker-url'', token))"

text \<open>The services a command calls.\<close>

record cli_outside =
  x_yaml :: "string \<Rightarrow> tunnel_config option"
  x_configDir :: "string option"
  x_writable :: "string \<Rightarrow> bool"
  x_broker :: "string \<Rightarrow> open_session_request \<Rightarrow> lease server_answer"
  x_relay :: "string \<Rightarrow> string \<Rightarrow> register_response server_answer"
  x_quic :: "string \<Rightarrow> bool \<times> bool \<times> bool"
  x_share :: "string \<Rightarrow> create_session_request \<Rightarrow> collaboration_session server_answer"
  x_plugin :: "string \<Rightarrow> string list \<Rightarrow> bool"

definition runTunnelStart :: "'x cli_outside_scheme \<Rightarrow> cli_world \<Rightarrow> string list \<Rightarrow> cli_result" where
  "runTunnelStart x w args =
     (case parse_flags tunnel_flags args of
        Inl e \<Rightarrow> Cli_Failed (Flags_Refused e)
      | Inr (fs, _) \<Rightarrow>
          (case resolveTunnelConfig (x_yaml x) (x_configDir x) w fs of
             Inl e \<Rightarrow> Cli_Failed e
           | Inr (t, brokerURL, token) \<Rightarrow>
               (case StartTunnel (x_broker x) (x_relay x) (x_quic x) (client_New brokerURL token) t of
                  Inl e \<Rightarrow> Cli_Failed (Tunnel_Refused e)
                | Inr (started, how) \<Rightarrow> Tunnel_Active started how)))"

definition share_flags :: flag_set where
  "share_flags = [''relay-url'' \<mapsto> Flag_String ''http://127.0.0.1:8091'', ''tunnel-id'' \<mapsto> Flag_String [], ''subdomain'' \<mapsto> Flag_String [],
     ''owner'' \<mapsto> Flag_String ''developer'']"

definition runTunnelShare :: "'x cli_outside_scheme \<Rightarrow> string list \<Rightarrow> cli_result" where
  "runTunnelShare x args =
     (case parse_flags share_flags args of
        Inl e \<Rightarrow> Cli_Failed (Flags_Refused e)
      | Inr (fs, _) \<Rightarrow>
          if TrimSpace (string_flag fs ''tunnel-id'') = [] \<and> TrimSpace (string_flag fs ''subdomain'') = [] then Cli_Failed Share_Target_Required
          else (case x_share x (TrimRightSlash (string_flag fs ''relay-url'') @ ''/v1/sessions'')
                  \<lparr>cq_TunnelID = TrimSpace (string_flag fs ''tunnel-id''), cq_Subdomain = TrimSpace (string_flag fs ''subdomain''),
                   cq_Owner = TrimSpace (string_flag fs ''owner''), InviteRole = []\<rparr> of
                  Not_Built e \<Rightarrow> Cli_Failed (Share_Not_Sent e)
                | Not_Reached e \<Rightarrow> Cli_Failed (Share_Not_Sent e)
                | Answered code _ body \<Rightarrow>
                    if code \<noteq> 201 then Cli_Failed (Share_Refused code)
                    else (case body of None \<Rightarrow> Cli_Failed Share_Not_Decoded | Some s \<Rightarrow> Session_Shared s)))"

definition runTunnel :: "'x cli_outside_scheme \<Rightarrow> cli_world \<Rightarrow> string list \<Rightarrow> cli_result" where
  "runTunnel x w args =
     (case args of
        [] \<Rightarrow> Cli_Failed (Usage_Required ''tunnel'')
      | a # rest \<Rightarrow>
          if a = ''start'' then runTunnelStart x w rest
          else if a = ''share'' then runTunnelShare x rest
          else Cli_Failed (Usage_Required ''tunnel''))"

definition runConfig :: "'x cli_outside_scheme \<Rightarrow> cli_world \<Rightarrow> string list \<Rightarrow> cli_result" where
  "runConfig x w args =
     (if args = [] \<or> hd args \<noteq> ''validate'' then Cli_Failed (Usage_Required ''config validate'')
      else case parse_flags [''file'' \<mapsto> Flag_String ''gotunnel.yaml''] (tl args) of
        Inl e \<Rightarrow> Cli_Failed (Flags_Refused e)
      | Inr (fs, _) \<Rightarrow>
          (case config_Load (w_files w (string_flag fs ''file'')) (x_yaml x) (w_env w) of
             Inl e \<Rightarrow> Cli_Failed (Config_Refused e)
           | Inr cfg \<Rightarrow> Config_Printed cfg))"

definition broker_flags :: flag_set where
  "broker_flags = [''listen'' \<mapsto> Flag_String '':8090'', ''relay-url'' \<mapsto> Flag_String ''http://127.0.0.1:8091'',
     ''public-base'' \<mapsto> Flag_String ''http://127.0.0.1:8091'', ''token'' \<mapsto> Flag_String ''dev-token'', ''tls-cert'' \<mapsto> Flag_String [],
     ''tls-key'' \<mapsto> Flag_String [], ''postgres-dsn'' \<mapsto> Flag_String [], ''state-dir'' \<mapsto> Flag_String [], ''node-id'' \<mapsto> Flag_String [],
     ''cluster-nodes'' \<mapsto> Flag_String []]"

definition runBroker :: "string list \<Rightarrow> cli_result" where
  "runBroker args = (case parse_flags broker_flags args of Inl e \<Rightarrow> Cli_Failed (Flags_Refused e) | Inr (fs, _) \<Rightarrow> Serving_Broker fs)"

definition cli_splitCSV :: "string \<Rightarrow> string list" where
  "cli_splitCSV v = filter (\<lambda>p. p \<noteq> []) (map TrimSpace (split_at CHR '','' v))"

text \<open>The call of \<open>broker.New\<close>.\<close>

definition broker_of :: "flag_set \<Rightarrow> string \<Rightarrow> domain_registry \<Rightarrow> 's \<Rightarrow> (string \<Rightarrow> time) \<Rightarrow> 's broker" where
  "broker_of fs env reg st clk =
     New (string_flag fs ''relay-url'') (string_flag fs ''token'') (string_flag fs ''public-base'') (string_flag fs ''node-id'') env
       (cli_splitCSV (string_flag fs ''cluster-nodes'')) reg st clk"

definition relay_flags :: flag_set where
  "relay_flags = [''listen'' \<mapsto> Flag_String '':8091'', ''broker-url'' \<mapsto> Flag_String ''http://127.0.0.1:8090'', ''name'' \<mapsto> Flag_String [],
     ''region'' \<mapsto> Flag_String ''local'', ''capacity'' \<mapsto> Flag_Int 1000, ''dashboard-user'' \<mapsto> Flag_String ''admin'',
     ''dashboard-pass'' \<mapsto> Flag_String ''admin'', ''webhook-url'' \<mapsto> Flag_String [], ''webhook-secret'' \<mapsto> Flag_String [],
     ''plugin-config'' \<mapsto> Flag_String [], ''redis-addr'' \<mapsto> Flag_String [], ''redis-password'' \<mapsto> Flag_String [], ''redis-db'' \<mapsto> Flag_Int 0,
     ''tls-cert'' \<mapsto> Flag_String [], ''tls-key'' \<mapsto> Flag_String [], ''quic-listen'' \<mapsto> Flag_String [], ''acme-cache'' \<mapsto> Flag_String [],
     ''acme-hosts'' \<mapsto> Flag_String [], ''acme-email'' \<mapsto> Flag_String [], ''acme-storage'' \<mapsto> Flag_String [], ''dns-provider'' \<mapsto> Flag_String [],
     ''insecure-skip-verify'' \<mapsto> Flag_Bool False, ''public-base'' \<mapsto> Flag_String ''http://127.0.0.1:8091'', ''allow-mutation'' \<mapsto> Flag_Bool False]"

definition runRelay :: "string list \<Rightarrow> cli_result" where
  "runRelay args = (case parse_flags relay_flags args of Inl e \<Rightarrow> Cli_Failed (Flags_Refused e) | Inr (fs, _) \<Rightarrow> Serving_Relay fs)"

end
