(* ===== verification/Cli_Managers.thy ===== *)
theory Cli_Managers
  imports Command_Line Token_Bucket
begin

section \<open>Plugins, profiles and helpers of the command line\<close>

text \<open>
  Model of \<open>plugin.go\<close>, \<open>profile.go\<close>, \<open>schema.go\<close>, \<open>errors.go\<close>, \<open>logger.go\<close>, \<open>progress.go\<close> and of the detection in \<open>cicd.go\<close> and \<open>container.go\<close>, all of
  \<open>GoTunnel/internal/cli\<close>. The YAML package, shared libraries and directories are arguments. Documents are trees of values.
\<close>

subsection \<open>Plugins\<close>

text \<open>A hook is named; what it does is an argument of the functions that run it.\<close>

record cli_plugin =
  cp_Name :: string
  cp_Version :: string
  cp_Description :: string
  cp_Commands :: "(string, command option) fmap"
  cp_Hooks :: "(string, string list) fmap"

text \<open>The manager, together with the table of commands that it changes.\<close>

record plugin_manager =
  pm_plugins :: "(string, cli_plugin) fmap"
  pm_hooks :: "string \<Rightarrow> string list"
  pm_root :: "(string, command option) fmap"

definition NewPluginManager :: "(string, command option) fmap \<Rightarrow> plugin_manager" where
  "NewPluginManager table = \<lparr>pm_plugins = fmempty, pm_hooks = (\<lambda>_. []), pm_root = table\<rparr>"

definition RegisterPlugin :: "plugin_manager \<Rightarrow> cli_plugin \<Rightarrow> cli_plugin_error option \<times> plugin_manager" where
  "RegisterPlugin pm p =
     (if fmlookup (pm_plugins pm) (cp_Name p) \<noteq> None then (Some (Plugin_Already_Registered (cp_Name p)), pm)
      else (None, pm\<lparr>pm_plugins := fmupd (cp_Name p) p (pm_plugins pm), pm_root := pm_root pm ++\<^sub>f cp_Commands p,
                      pm_hooks := (\<lambda>h. pm_hooks pm h @ (case fmlookup (cp_Hooks p) h of Some hs \<Rightarrow> hs | None \<Rightarrow> []))\<rparr>))"

definition UnregisterPlugin :: "plugin_manager \<Rightarrow> string \<Rightarrow> cli_plugin_error option \<times> plugin_manager" where
  "UnregisterPlugin pm name =
     (case fmlookup (pm_plugins pm) name of
        None \<Rightarrow> (Some (Plugin_Not_Found name), pm)
      | Some p \<Rightarrow> (None, pm\<lparr>pm_root := fmdrop_fset (fmdom (cp_Commands p)) (pm_root pm), pm_plugins := fmdrop name (pm_plugins pm)\<rparr>))"

definition GetPlugin :: "plugin_manager \<Rightarrow> string \<Rightarrow> cli_plugin_error + cli_plugin" where
  "GetPlugin pm name = (case fmlookup (pm_plugins pm) name of None \<Rightarrow> Inl (Plugin_Not_Found name) | Some p \<Rightarrow> Inr p)"

text \<open>\<open>ks\<close> is the order in which the map is visited.\<close>

definition ListPlugins :: "plugin_manager \<Rightarrow> string list \<Rightarrow> cli_plugin list" where
  "ListPlugins pm ks = List.map_filter (fmlookup (pm_plugins pm)) ks"

text \<open>The hooks that ran, and whether one of them failed, which ends the run.\<close>

fun run_hooks :: "(string \<Rightarrow> bool) \<Rightarrow> string list \<Rightarrow> string list \<times> bool" where
  "run_hooks hook_fails [] = ([], False)"
| "run_hooks hook_fails (h # hs) = (if hook_fails h then ([h], True) else case run_hooks hook_fails hs of (hs1, err) \<Rightarrow> (h # hs1, err))"

definition ExecuteHook :: "plugin_manager \<Rightarrow> (string \<Rightarrow> bool) \<Rightarrow> string \<Rightarrow> string list \<times> bool" where
  "ExecuteHook pm hook_fails hookName = run_hooks hook_fails (pm_hooks pm hookName)"

text \<open>What a shared library turns out to be.\<close>

datatype library = Cannot_Open | No_Symbol | Other_Symbol | Plugin_Symbol cli_plugin

definition LoadPlugin :: "plugin_manager \<Rightarrow> (string \<Rightarrow> library) \<Rightarrow> string \<Rightarrow> cli_plugin_error option \<times> plugin_manager" where
  "LoadPlugin pm lib path =
     (case lib path of
        Cannot_Open \<Rightarrow> (Some (Plugin_Not_Loaded path), pm)
      | No_Symbol \<Rightarrow> (Some (No_Plugin_Symbol path), pm)
      | Other_Symbol \<Rightarrow> (Some (Invalid_Plugin_Symbol path), pm)
      | Plugin_Symbol p \<Rightarrow> RegisterPlugin pm p)"

text \<open>\<open>filepath.Ext\<close> of a name, and the entries of a directory with a mark for directories.\<close>

definition file_ext :: "string \<Rightarrow> string" where
  "file_ext name =
     (let r = takeWhile (\<lambda>c. c \<noteq> CHR ''.'' \<and> c \<noteq> CHR ''/'') (rev name)
      in if length r < length name \<and> rev name ! length r = CHR ''.'' then CHR ''.'' # rev r else [])"

text \<open>
  \<open>filepath.Join\<close> of an absolute directory and the name of a file: dots in the name lead out of the directory.
\<close>

definition join_step :: "string list \<Rightarrow> string \<Rightarrow> string list" where
  "join_step parts seg = (if seg = [] \<or> seg = ''.'' then parts else if seg = ''..'' then butlast parts else parts @ [seg])"

definition join_path :: "string \<Rightarrow> string \<Rightarrow> string" where
  "join_path dir name =
     (case foldl join_step [] (split_at CHR ''/'' dir @ split_at CHR ''/'' name) of
        [] \<Rightarrow> ''/''
      | parts \<Rightarrow> concat (map (\<lambda>seg. CHR ''/'' # seg) parts))"

datatype dir_listing = Not_There | Unreadable | Entries "(string \<times> bool) list"

fun load_libraries :: "(string \<Rightarrow> library) \<Rightarrow> string \<Rightarrow> plugin_manager \<Rightarrow> (string \<times> bool) list \<Rightarrow> plugin_manager" where
  "load_libraries lib dir pm [] = pm"
| "load_libraries lib dir pm ((name, is_dir) # es) =
     (if is_dir \<or> file_ext name \<notin> {''.so'', ''.dylib'', ''.dll''} then load_libraries lib dir pm es
      else load_libraries lib dir (snd (LoadPlugin pm lib (join_path dir name))) es)"

definition LoadPluginsFromDir :: "(string \<Rightarrow> library) \<Rightarrow> dir_listing \<Rightarrow> string \<Rightarrow> plugin_manager \<Rightarrow> bool \<times> plugin_manager" where
  "LoadPluginsFromDir lib listing dir pm =
     (case listing of
        Not_There \<Rightarrow> (True, pm)
      | Unreadable \<Rightarrow> (False, pm)
      | Entries es \<Rightarrow> (True, load_libraries lib dir pm es))"

subsection \<open>Profiles\<close>

text \<open>A document of the YAML package.\<close>

datatype yaml = Y_Null | Y_Bool bool | Y_Int int | Y_Float string | Y_String string | Y_List "yaml list" | Y_Map "(string \<times> yaml) list"

record profile =
  pf_Name :: string
  pf_Description :: string
  pf_Environment :: string
  pf_Config :: "(string, yaml) fmap"
  pf_Variables :: "(string, string) fmap"

record profile_manager =
  profilesDir :: string
  profiles :: "(string, profile) fmap"

definition NewProfileManager :: "string \<Rightarrow> profile_manager" where
  "NewProfileManager homeDir = \<lparr>profilesDir = homeDir @ ''/.gotunnel/profiles'', profiles = fmempty\<rparr>"

definition profile_path :: "(string \<Rightarrow> string option) \<Rightarrow> profile_manager \<Rightarrow> string \<Rightarrow> string" where
  "profile_path files pm name =
     (let path = join_path (profilesDir pm) (name @ ''.yaml'')
      in if files path = None then join_path (profilesDir pm) (name @ ''.yml'') else path)"

definition LoadProfile :: "(string \<Rightarrow> profile option) \<Rightarrow> (string \<Rightarrow> string option) \<Rightarrow> profile_manager \<Rightarrow> string \<Rightarrow> profile_error + profile" where
  "LoadProfile unmarshal files pm name =
     (case files (profile_path files pm name) of
        None \<Rightarrow> Inl (Profile_Not_Read name)
      | Some data \<Rightarrow> (case unmarshal data of None \<Rightarrow> Inl (Profile_Not_Parsed name) | Some p \<Rightarrow> Inr (p\<lparr>pf_Name := name\<rparr>)))"

fun load_entries :: "(string \<Rightarrow> profile option) \<Rightarrow> (string \<Rightarrow> string option) \<Rightarrow> profile_manager \<Rightarrow> (string \<times> bool) list \<Rightarrow> profile_manager" where
  "load_entries unmarshal files pm [] = pm"
| "load_entries unmarshal files pm ((entry, is_dir) # es) =
     (let ext = file_ext entry; name = TrimSuffix entry ext
      in if is_dir \<or> (ext \<noteq> ''.yaml'' \<and> ext \<noteq> ''.yml'') then load_entries unmarshal files pm es
         else case LoadProfile unmarshal files pm name of
           Inl _ \<Rightarrow> load_entries unmarshal files pm es
         | Inr p \<Rightarrow> load_entries unmarshal files (pm\<lparr>profiles := fmupd name p (profiles pm)\<rparr>) es)"

definition LoadProfiles :: "(string \<Rightarrow> profile option) \<Rightarrow> (string \<Rightarrow> string option) \<Rightarrow> dir_listing \<Rightarrow> profile_manager \<Rightarrow> bool \<times> profile_manager" where
  "LoadProfiles unmarshal files listing pm =
     (case listing of
        Not_There \<Rightarrow> (True, pm)
      | Unreadable \<Rightarrow> (False, pm)
      | Entries es \<Rightarrow> (True, load_entries unmarshal files pm es))"

definition SaveProfile :: "(profile \<Rightarrow> string option) \<Rightarrow> (string \<Rightarrow> bool) \<Rightarrow> (string \<Rightarrow> string option) \<Rightarrow> profile_manager \<Rightarrow> profile \<Rightarrow>
    profile_error option \<times> (string \<Rightarrow> string option)" where
  "SaveProfile marshal writable files pm p =
     (let path = join_path (profilesDir pm) (pf_Name p @ ''.yaml'')
      in if \<not> writable (profilesDir pm) then (Some (Profile_Not_Written (profilesDir pm)), files)
         else case marshal p of
           None \<Rightarrow> (Some (Profile_Not_Written path), files)
         | Some data \<Rightarrow> if \<not> writable path then (Some (Profile_Not_Written path), files) else (None, files(path \<mapsto> data)))"

definition GetProfile :: "profile_manager \<Rightarrow> string \<Rightarrow> profile_error + profile" where
  "GetProfile pm name = (case fmlookup (profiles pm) name of None \<Rightarrow> Inl (Profile_Not_Found name) | Some p \<Rightarrow> Inr p)"

definition ListProfiles :: "profile_manager \<Rightarrow> string list \<Rightarrow> profile list" where
  "ListProfiles pm ks = List.map_filter (fmlookup (profiles pm)) ks"

definition DeleteProfile :: "(string \<Rightarrow> bool) \<Rightarrow> (string \<Rightarrow> string option) \<Rightarrow> profile_manager \<Rightarrow> string \<Rightarrow>
    profile_error option \<times> (string \<Rightarrow> string option) \<times> profile_manager" where
  "DeleteProfile writable files pm name =
     (let path = profile_path files pm name
      in if files path = None \<or> \<not> writable path then (Some (Profile_Not_Removed name), files, pm)
         else (None, files(path := None), pm\<lparr>profiles := fmdrop name (profiles pm)\<rparr>))"

text \<open>\<open>os.Setenv\<close> refuses an empty name, a name with an equals sign, and null bytes.\<close>

definition Setenv :: "string \<Rightarrow> string \<Rightarrow> (string \<Rightarrow> string) \<Rightarrow> string \<Rightarrow> string" where
  "Setenv k v env = (if k = [] \<or> CHR ''='' \<in> set k \<or> CHR 0x00 \<in> set k \<or> CHR 0x00 \<in> set v then env else env(k := v))"

definition ApplyProfile :: "profile_manager \<Rightarrow> (string \<Rightarrow> string) \<Rightarrow> string \<Rightarrow> string list \<Rightarrow> profile_error option \<times> (string \<Rightarrow> string)" where
  "ApplyProfile pm env name ks =
     (case GetProfile pm name of
        Inl e \<Rightarrow> (Some e, env)
      | Inr p \<Rightarrow> (None, foldl (\<lambda>env k. case fmlookup (pf_Variables p) k of Some v \<Rightarrow> Setenv k v env | None \<Rightarrow> env) env ks))"

text \<open>The arguments of \<open>profile create\<close>: name, environment and description.\<close>

fun create_args :: "string \<times> string \<times> string \<Rightarrow> string list \<Rightarrow> string \<times> string \<times> string" where
  "create_args r [] = r"
| "create_args r [a] = r"
| "create_args (name, env, desc) (a # v # args) =
     (if a = ''--name'' \<or> a = ''-n'' then create_args (v, env, desc) args
      else if a = ''--env'' \<or> a = ''-e'' then create_args (name, v, desc) args
      else if a = ''--desc'' \<or> a = ''-d'' then create_args (name, env, v) args
      else create_args (name, env, desc) (v # args))"

subsection \<open>Checking a configuration\<close>

definition check_version :: "(string \<times> yaml) list \<Rightarrow> config_warning list" where
  "check_version doc = (case map_of doc ''version'' of None \<Rightarrow> [] | Some v \<Rightarrow> if v = Y_Int 1 then [] else [Version_Should_Be_1])"

definition check_auth :: "(string \<Rightarrow> string) \<Rightarrow> (string \<times> yaml) list \<Rightarrow> config_warning list" where
  "check_auth getenv doc =
     (case map_of doc ''auth'' of
        Some (Y_Map auth) \<Rightarrow>
          (case map_of auth ''token'' of
             Some (Y_String token) \<Rightarrow>
               if HasPrefix token ''env:'' \<and> getenv (TrimPrefix token ''env:'') = [] then [Env_Not_Set (TrimPrefix token ''env:'')] else []
           | _ \<Rightarrow> [])
      | _ \<Rightarrow> [])"

definition check_relay :: "(string \<times> yaml) list \<Rightarrow> config_warning list" where
  "check_relay doc =
     (case map_of doc ''relay'' of
        Some (Y_Map relay) \<Rightarrow> (case map_of relay ''broker_url'' of Some (Y_String url) \<Rightarrow> if url = [] then [Broker_URL_Is_Empty] else [] | _ \<Rightarrow> [])
      | _ \<Rightarrow> [])"

definition check_entry :: "nat \<Rightarrow> yaml \<Rightarrow> config_warning list" where
  "check_entry i t =
     (case t of
        Y_Map entry \<Rightarrow>
          (case map_of entry ''name'' of Some (Y_String name) \<Rightarrow> if name = [] then [Tunnel_Name_Empty i] else [] | _ \<Rightarrow> [])
          @ (case map_of entry ''protocol'' of
               Some (Y_String protocol) \<Rightarrow>
                 if protocol \<noteq> ''http'' \<and> protocol \<noteq> ''tcp'' \<and> protocol \<noteq> ''udp'' then [Tunnel_Protocol_Invalid i protocol] else []
             | _ \<Rightarrow> [])
      | _ \<Rightarrow> [])"

definition check_tunnels :: "(string \<times> yaml) list \<Rightarrow> config_warning list" where
  "check_tunnels doc =
     (case map_of doc ''tunnels'' of
        Some (Y_List ts) \<Rightarrow> (if ts = [] then [No_Tunnels_Defined] else []) @ concat (map (\<lambda>(i, t). check_entry i t) (enumerate 0 ts))
      | _ \<Rightarrow> [])"

text \<open>\<open>Inl True\<close>: the file cannot be read; \<open>Inl False\<close>: it is no YAML map.\<close>

definition ValidateConfig :: "string option \<Rightarrow> (string \<Rightarrow> (string \<times> yaml) list option) \<Rightarrow> (string \<Rightarrow> string) \<Rightarrow> bool + config_warning list" where
  "ValidateConfig content unmarshal getenv =
     (case content of
        None \<Rightarrow> Inl True
      | Some data \<Rightarrow>
          (case unmarshal data of
             None \<Rightarrow> Inl False
           | Some doc \<Rightarrow> Inr (check_version doc @ check_auth getenv doc @ check_relay doc @ check_tunnels doc)))"

subsection \<open>Errors\<close>

text \<open>An error is a text, a text that wraps another error, or an error of this package. The field \<open>Details\<close> is never set.\<close>

datatype go_error = Plain_Error string | Wrapping_Error string go_error | CLI_Error cli_error
and cli_error = CLIError (ce_Category: string) (ce_Code: string) (ce_Message: string) (ce_Suggestion: string) (ce_WrappedErr: "go_error option")

definition blank_line :: string where
  "blank_line = [CHR 0x0A, CHR 0x0A]"

primrec error_text :: "go_error \<Rightarrow> string" and cli_error_text :: "cli_error \<Rightarrow> string" where
  "error_text (Plain_Error t) = t"
| "error_text (Wrapping_Error t e) = t @ '': '' @ error_text e"
| "error_text (CLI_Error e) = cli_error_text e"
| "cli_error_text (CLIError category code message suggestion wrapped) =
     ''['' @ category @ ''] '' @ message @ (if suggestion = [] then [] else blank_line @ ''Suggestion: '' @ suggestion)
       @ (case map_option error_text wrapped of None \<Rightarrow> [] | Some t \<Rightarrow> blank_line @ ''Underlying error: '' @ t)"

definition NewConfigError :: "string \<Rightarrow> string \<Rightarrow> go_error option \<Rightarrow> cli_error" where
  "NewConfigError message suggestion err = CLIError ''CONFIG'' ''CONFIG_ERROR'' message suggestion err"

definition NewAuthError :: "string \<Rightarrow> string \<Rightarrow> go_error option \<Rightarrow> cli_error" where
  "NewAuthError message suggestion err = CLIError ''AUTH'' ''AUTH_ERROR'' message suggestion err"

definition NewNetworkError :: "string \<Rightarrow> string \<Rightarrow> go_error option \<Rightarrow> cli_error" where
  "NewNetworkError message suggestion err = CLIError ''NETWORK'' ''NETWORK_ERROR'' message suggestion err"

definition NewCertError :: "string \<Rightarrow> string \<Rightarrow> go_error option \<Rightarrow> cli_error" where
  "NewCertError message suggestion err = CLIError ''CERTIFICATE'' ''CERT_ERROR'' message suggestion err"

definition NewDNSError :: "string \<Rightarrow> string \<Rightarrow> go_error option \<Rightarrow> cli_error" where
  "NewDNSError message suggestion err = CLIError ''DNS'' ''DNS_ERROR'' message suggestion err"

definition NewTunnelError :: "string \<Rightarrow> string \<Rightarrow> go_error option \<Rightarrow> cli_error" where
  "NewTunnelError message suggestion err = CLIError ''TUNNEL'' ''TUNNEL_ERROR'' message suggestion err"

definition NewValidationError :: "string \<Rightarrow> string \<Rightarrow> go_error option \<Rightarrow> cli_error" where
  "NewValidationError message suggestion err = CLIError ''VALIDATION'' ''VALIDATION_ERROR'' message suggestion err"

text \<open>\<open>errors.As\<close> for this type: the first such error in the chain.\<close>

fun GetCLIError :: "go_error \<Rightarrow> cli_error option" where
  "GetCLIError (Plain_Error _) = None"
| "GetCLIError (Wrapping_Error _ e) = GetCLIError e"
| "GetCLIError (CLI_Error e) = Some e"

definition IsCLIError :: "go_error \<Rightarrow> bool" where
  "IsCLIError e \<longleftrightarrow> GetCLIError e \<noteq> None"

subsection \<open>Logging\<close>

fun level_index :: "log_level \<Rightarrow> nat" where
  "level_index LevelTrace = 0"
| "level_index LevelDebug = 1"
| "level_index LevelInfo = 2"
| "level_index LevelWarn = 3"
| "level_index LevelError = 4"
| "level_index LevelFatal = 5"

instantiation log_level :: linorder
begin
definition less_eq_log_level :: "log_level \<Rightarrow> log_level \<Rightarrow> bool" where
  "less_eq_log_level a b \<longleftrightarrow> level_index a \<le> level_index b"
definition less_log_level :: "log_level \<Rightarrow> log_level \<Rightarrow> bool" where
  "less_log_level a b \<longleftrightarrow> level_index a < level_index b"
instance
proof
  fix a b :: log_level
  show "a = b" if "a \<le> b" "b \<le> a" using that by (cases a; cases b) (simp_all add: less_eq_log_level_def)
qed (auto simp: less_eq_log_level_def less_log_level_def)
end

record logger =
  lg_level :: log_level
  lg_component :: string
  lg_jsonMode :: bool

definition NewLogger :: "log_level \<Rightarrow> string \<Rightarrow> logger" where
  "NewLogger level component = \<lparr>lg_level = level, lg_component = component, lg_jsonMode = False\<rparr>"

definition NewJSONLogger :: "log_level \<Rightarrow> string \<Rightarrow> logger" where
  "NewJSONLogger level component = \<lparr>lg_level = level, lg_component = component, lg_jsonMode = True\<rparr>"

definition SetLevel :: "logger \<Rightarrow> log_level \<Rightarrow> logger" where
  "SetLevel l level = l\<lparr>lg_level := level\<rparr>"

definition IsLevelEnabled :: "logger \<Rightarrow> log_level \<Rightarrow> bool" where
  "IsLevelEnabled l level \<longleftrightarrow> lg_level l \<le> level"

definition levelLabels :: "log_level \<Rightarrow> string" where
  "levelLabels level = [''TRC'', ''DBG'', ''INF'', ''WRN'', ''ERR'', ''FTL''] ! level_index level"

text \<open>A line of output, with the time and the fields as they are printed.\<close>

datatype log_line = Json_Line time string string string "string option" | Text_Line time string string string "string option"

definition log_message :: "logger \<Rightarrow> time \<Rightarrow> log_level \<Rightarrow> string \<Rightarrow> string option \<Rightarrow> log_line list" where
  "log_message l now level msg extra =
     (if level < lg_level l then []
      else if lg_jsonMode l then [Json_Line now (the (map_of levelNames level)) msg (lg_component l) extra]
      else [Text_Line now (levelLabels level) (lg_component l) msg extra])"

text \<open>The methods \<open>Trace\<close> to \<open>Fatal\<close> differ in the level only, and in that \<open>Fatal\<close> ends the program; further fields are ignored.\<close>

definition log_at :: "logger \<Rightarrow> time \<Rightarrow> log_level \<Rightarrow> string \<Rightarrow> string list \<Rightarrow> log_line list \<times> bool" where
  "log_at l now level msg extra = (log_message l now level msg (case extra of [] \<Rightarrow> None | f # _ \<Rightarrow> Some f), level = LevelFatal)"

definition WithComponent :: "logger \<Rightarrow> string \<Rightarrow> logger" where
  "WithComponent l component = \<lparr>lg_level = lg_level l, lg_component = component, lg_jsonMode = lg_jsonMode l\<rparr>"

subsection \<open>Progress\<close>

record progress_bar =
  pb_total :: int
  pb_current :: int
  pb_width :: int
  pb_lastUpdate :: time
  pb_completed :: bool

definition NewProgressBar :: "int \<Rightarrow> int \<Rightarrow> time \<Rightarrow> progress_bar" where
  "NewProgressBar tot width now = \<lparr>pb_total = tot, pb_current = 0, pb_width = (if width = 0 then 40 else width), pb_lastUpdate = now, pb_completed = False\<rparr>"

text \<open>
  What is drawn: the numbers of full and empty cells, or a panic of \<open>strings.Repeat\<close>, which refuses a negative number. Prefix, suffix, rate and
  remaining time are printed after it and not modelled.
\<close>

datatype drawn = Not_Drawn | Drawn int int | Negative_Repeat

definition percent_done :: "progress_bar \<Rightarrow> rat" where
  "percent_done p = (let q = float64 (float64 (of_int (pb_current p)) / float64 (of_int (pb_total p))) in if 1 < q then 1 else q)"

definition render :: "progress_bar \<Rightarrow> drawn" where
  "render p =
     (if pb_total p \<le> 0 then Not_Drawn
      else let filled = float_to_int (float64 (percent_done p * float64 (of_int (pb_width p)))); empty = wrap64 (pb_width p - filled)
           in if filled < 0 \<or> empty < 0 then Negative_Repeat else Drawn filled empty)"

definition progress_Update :: "progress_bar \<Rightarrow> int \<Rightarrow> time \<Rightarrow> drawn \<times> progress_bar" where
  "progress_Update p current now =
     (let p1 = p\<lparr>pb_current := current\<rparr>
      in if now - pb_lastUpdate p < 100000000 \<and> current < pb_total p then (Not_Drawn, p1)
         else let p2 = p1\<lparr>pb_lastUpdate := now\<rparr> in (render p2, p2))"

definition progress_Add :: "progress_bar \<Rightarrow> int \<Rightarrow> time \<Rightarrow> drawn \<times> progress_bar" where
  "progress_Add p n now = (let p1 = p\<lparr>pb_current := wrap64 (pb_current p + n)\<rparr> in progress_Update p1 (pb_current p1) now)"

definition progress_Increment :: "progress_bar \<Rightarrow> time \<Rightarrow> drawn \<times> progress_bar" where
  "progress_Increment p now = (let p1 = p\<lparr>pb_current := wrap64 (pb_current p + 1)\<rparr> in progress_Update p1 (pb_current p1) now)"

definition SetTotal :: "progress_bar \<Rightarrow> int \<Rightarrow> progress_bar" where
  "SetTotal p tot = p\<lparr>pb_total := tot\<rparr>"

definition progress_Finish :: "progress_bar \<Rightarrow> drawn \<times> progress_bar" where
  "progress_Finish p = (let p1 = p\<lparr>pb_current := pb_total p, pb_completed := True\<rparr> in (render p1, p1))"

record spinner =
  sp_current :: nat
  sp_message :: string
  sp_running :: bool
  sp_closed :: bool

definition NewSpinner :: "string \<Rightarrow> spinner" where
  "NewSpinner message = \<lparr>sp_current = 0, sp_message = message, sp_running = False, sp_closed = False\<rparr>"

text \<open>Starting twice starts one goroutine; its turns show the ten frames in a circle until the channel is closed.\<close>

definition spinner_Start :: "spinner \<Rightarrow> bool \<times> spinner" where
  "spinner_Start s = (if sp_running s then (False, s) else (True, s\<lparr>sp_running := True\<rparr>))"

definition spinner_turn :: "spinner \<Rightarrow> (nat \<times> string) option \<times> spinner" where
  "spinner_turn s = (if sp_closed s then (None, s) else (Some (sp_current s, sp_message s), s\<lparr>sp_current := (sp_current s + 1) mod 10\<rparr>))"

definition spinner_Stop :: "spinner \<Rightarrow> go_panic + spinner" where
  "spinner_Stop s =
     (if \<not> sp_running s then Inr s
      else if sp_closed s then Inl Close_Of_Closed_Channel
      else Inr (s\<lparr>sp_running := False, sp_closed := True\<rparr>))"

definition SetMessage :: "spinner \<Rightarrow> string \<Rightarrow> spinner" where
  "SetMessage s message = s\<lparr>sp_message := message\<rparr>"

subsection \<open>Build servers and containers\<close>

record ci_environment =
  ci_Provider :: string
  ci_Branch :: string
  ci_Commit :: string
  ci_BuildID :: string
  ci_IsCI :: bool

definition ci_found :: "(string \<Rightarrow> string) \<Rightarrow> string \<Rightarrow> string \<Rightarrow> string \<Rightarrow> string \<Rightarrow> ci_environment" where
  "ci_found getenv provider branch commit build =
     \<lparr>ci_Provider = provider, ci_Branch = getenv branch, ci_Commit = getenv commit, ci_BuildID = getenv build, ci_IsCI = True\<rparr>"

definition DetectCIEnvironment :: "(string \<Rightarrow> string) \<Rightarrow> ci_environment" where
  "DetectCIEnvironment getenv =
     (if getenv ''GITHUB_ACTIONS'' = ''true'' then ci_found getenv ''github'' ''GITHUB_REF_NAME'' ''GITHUB_SHA'' ''GITHUB_RUN_ID''
      else if getenv ''GITLAB_CI'' = ''true'' then ci_found getenv ''gitlab'' ''CI_COMMIT_BRANCH'' ''CI_COMMIT_SHA'' ''CI_PIPELINE_ID''
      else if getenv ''JENKINS_URL'' \<noteq> [] then ci_found getenv ''jenkins'' ''GIT_BRANCH'' ''GIT_COMMIT'' ''BUILD_NUMBER''
      else if getenv ''CIRCLECI'' = ''true'' then ci_found getenv ''circleci'' ''CIRCLE_BRANCH'' ''CIRCLE_SHA1'' ''CIRCLE_BUILD_NUM''
      else if getenv ''TRAVIS'' = ''true'' then ci_found getenv ''travis'' ''TRAVIS_BRANCH'' ''TRAVIS_COMMIT'' ''TRAVIS_BUILD_ID''
      else \<lparr>ci_Provider = [], ci_Branch = [], ci_Commit = [], ci_BuildID = [], ci_IsCI = False\<rparr>)"

definition DetectContainerRuntime :: "(string \<Rightarrow> bool) \<Rightarrow> (string \<Rightarrow> string) \<Rightarrow> string" where
  "DetectContainerRuntime exists getenv =
     (if exists ''/var/run/docker.sock'' then ''docker''
      else if exists ''/run/podman/podman.sock'' then ''podman''
      else if getenv ''DOCKER_HOST'' \<noteq> [] then ''docker''
      else [])"

end
