(* ===== verification/Cli_Execute.thy ===== *)
theory Cli_Execute
  imports Cli_Managers
begin

section \<open>Running commands\<close>

text \<open>
  \<open>Execute\<close> of \<open>GoTunnel/internal/cli/root.go\<close> with every function a command runs, and the functions that search the table of commands.
\<close>

subsection \<open>The functions of the commands\<close>

record cli_services = cli_outside +
  x_library :: "string \<Rightarrow> library"
  x_listing :: "string \<Rightarrow> dir_listing"
  x_marshal :: "profile \<Rightarrow> string option"
  x_unmarshal :: "string \<Rightarrow> profile option"
  x_document :: "string \<Rightarrow> (string \<times> yaml) list option"
  x_order :: "string list"

record cli_state =
  st_world :: cli_world
  st_plugins :: plugin_manager
  st_profiles :: profile_manager

definition printCommandHelp :: "command option \<Rightarrow> cli_result" where
  "printCommandHelp c = (case c of None \<Rightarrow> Cli_Crashed Nil_Dereference | Some cmd \<Rightarrow> Printed (cmd_Name cmd # map fst (cmd_Subcommands cmd)))"

text \<open>The commands that only have subcommands refuse every argument.\<close>

definition group_command :: "string \<Rightarrow> command option \<Rightarrow> string list \<Rightarrow> cli_result" where
  "group_command name var args = (case args of [] \<Rightarrow> printCommandHelp var | a # _ \<Rightarrow> Cli_Failed (Unknown_Subcommand name a))"

text \<open>The argument after the first of some names that has one.\<close>

fun arg_after :: "string list \<Rightarrow> string list \<Rightarrow> string option" where
  "arg_after names [] = None"
| "arg_after names [a] = None"
| "arg_after names (a # v # args) = (if a \<in> set names then Some v else arg_after names (v # args))"

definition GenerateCompletion :: "string list \<Rightarrow> cli_result" where
  "GenerateCompletion args =
     (case args of
        [] \<Rightarrow> Printed [''Usage: gotunnel completion <bash|zsh|fish>'']
      | shell # _ \<Rightarrow> if shell \<in> {''bash'', ''zsh'', ''fish''} then Printed [shell @ '' completion''] else Cli_Failed (Unsupported_Shell shell))"

definition runHelp :: "(string, command option) fmap \<Rightarrow> string list \<Rightarrow> cli_result" where
  "runHelp table args =
     (case args of
        [] \<Rightarrow> Printed [''usage'']
      | name # _ \<Rightarrow> (case fmlookup table name of None \<Rightarrow> Cli_Failed (Unknown_Command name) | Some c \<Rightarrow> printCommandHelp c))"

definition run_config_validate :: "'x cli_services_scheme \<Rightarrow> cli_world \<Rightarrow> string list \<Rightarrow> cli_result" where
  "run_config_validate x w args =
     (let path = (case arg_after [''--file'', ''-f''] args of Some v \<Rightarrow> v | None \<Rightarrow> ''gotunnel.yaml'')
      in case ValidateConfig (w_files w path) (x_document x) (w_env w) of
           Inl _ \<Rightarrow> Cli_Failed Config_Unreadable
         | Inr ws \<Rightarrow> Config_Warnings ws)"

definition loaded_profiles :: "'x cli_services_scheme \<Rightarrow> cli_state \<Rightarrow> cli_state" where
  "loaded_profiles x st =
     st\<lparr>st_profiles := snd (LoadProfiles (x_unmarshal x) (w_files (st_world st)) (x_listing x (profilesDir (st_profiles st))) (st_profiles st))\<rparr>"

definition run_profile_show :: "'x cli_services_scheme \<Rightarrow> string list \<Rightarrow> cli_state \<Rightarrow> cli_result \<times> cli_state" where
  "run_profile_show x args st =
     (case args of
        [] \<Rightarrow> (Cli_Failed (Usage_Required ''profile show''), st)
      | name # _ \<Rightarrow>
          let st1 = loaded_profiles x st
          in (case GetProfile (st_profiles st1) name of Inl e \<Rightarrow> Cli_Failed (Profile_Failed e) | Inr p \<Rightarrow> Printed [pf_Name p, pf_Description p, pf_Environment p], st1))"

definition run_profile_create :: "'x cli_services_scheme \<Rightarrow> string list \<Rightarrow> cli_state \<Rightarrow> cli_result \<times> cli_state" where
  "run_profile_create x args st =
     (case create_args ([], ''dev'', []) args of
        (name, env, description) \<Rightarrow>
          if name = [] then (Cli_Failed (Usage_Required ''profile create''), st)
          else (case SaveProfile (x_marshal x) (x_writable x) (w_files (st_world st)) (st_profiles st)
                  \<lparr>pf_Name = name, pf_Description = description, pf_Environment = env, pf_Config = fmempty, pf_Variables = fmempty\<rparr> of
                  (Some e, _) \<Rightarrow> (Cli_Failed (Profile_Failed e), st)
                | (None, files) \<Rightarrow> (Printed [''Profile '' @ name @ '' created''], st\<lparr>st_world := (st_world st)\<lparr>w_files := files\<rparr>\<rparr>)))"

definition run_profile_delete :: "'x cli_services_scheme \<Rightarrow> string list \<Rightarrow> cli_state \<Rightarrow> cli_result \<times> cli_state" where
  "run_profile_delete x args st =
     (case args of
        [] \<Rightarrow> (Cli_Failed (Usage_Required ''profile delete''), st)
      | name # _ \<Rightarrow>
          (case DeleteProfile (x_writable x) (w_files (st_world st)) (st_profiles st) name of
             (Some e, _, _) \<Rightarrow> (Cli_Failed (Profile_Failed e), st)
           | (None, files, pm) \<Rightarrow> (Printed [''Profile '' @ name @ '' deleted''], st\<lparr>st_world := (st_world st)\<lparr>w_files := files\<rparr>, st_profiles := pm\<rparr>)))"

definition run_profile_apply :: "'x cli_services_scheme \<Rightarrow> string list \<Rightarrow> cli_state \<Rightarrow> cli_result \<times> cli_state" where
  "run_profile_apply x args st =
     (case args of
        [] \<Rightarrow> (Cli_Failed (Usage_Required ''profile apply''), st)
      | name # _ \<Rightarrow>
          let st1 = loaded_profiles x st
          in (case ApplyProfile (st_profiles st1) (w_env (st_world st1)) name (x_order x) of
                (Some e, _) \<Rightarrow> (Cli_Failed (Profile_Failed e), st1)
              | (None, env) \<Rightarrow> (Printed [''Profile '' @ name @ '' applied''], st1\<lparr>st_world := (st_world st1)\<lparr>w_env := env\<rparr>\<rparr>)))"

definition with_plugins :: "string \<Rightarrow> (plugin_manager \<Rightarrow> string \<Rightarrow> cli_plugin_error option \<times> plugin_manager) \<Rightarrow> string list \<Rightarrow> cli_state \<Rightarrow> cli_result \<times> cli_state" where
  "with_plugins usage change args st =
     (case args of
        [] \<Rightarrow> (Cli_Failed (Usage_Required usage), st)
      | a # _ \<Rightarrow>
          (case change (st_plugins st) a of
             (Some e, pm) \<Rightarrow> (Cli_Failed (Plugin_Failed e), st\<lparr>st_plugins := pm\<rparr>)
           | (None, pm) \<Rightarrow> (Printed [a], st\<lparr>st_plugins := pm\<rparr>)))"

text \<open>The generators print a fixed text, which is represented by the name of what it describes.\<close>

definition run_container_generate :: "string list \<Rightarrow> cli_result" where
  "run_container_generate args =
     (case arg_after [''--type'', ''-t''] args of
        None \<Rightarrow> Cli_Failed (Usage_Required ''container generate'')
      | Some target \<Rightarrow>
          if target = [] then Cli_Failed (Usage_Required ''container generate'')
          else if ToLower target = ''dockerfile'' then Printed [''dockerfile'']
          else if ToLower target \<in> {''docker-compose'', ''compose''} then Printed [''docker-compose'']
          else if ToLower target \<in> {''kubernetes'', ''k8s''} then Printed [''kubernetes'']
          else if ToLower target = ''helm'' then Printed [''helm'']
          else Cli_Failed (Unsupported_Target target))"

definition run_cicd_generate :: "string list \<Rightarrow> cli_result" where
  "run_cicd_generate args =
     (case arg_after [''--provider''] args of
        None \<Rightarrow> Cli_Failed (Usage_Required ''cicd generate'')
      | Some provider \<Rightarrow>
          if provider = [] then Cli_Failed (Usage_Required ''cicd generate'')
          else if provider \<in> {''github'', ''gitlab'', ''jenkins'', ''circleci''} then Printed [provider]
          else Cli_Failed (Unsupported_Target provider))"

definition run_cicd_detect :: "(string \<Rightarrow> string) \<Rightarrow> cli_result" where
  "run_cicd_detect getenv =
     (let env = DetectCIEnvironment getenv
      in if \<not> ci_IsCI env then Printed [''Not running in a CI/CD environment''] else Printed [ci_Provider env, ci_Branch env, ci_Commit env, ci_BuildID env])"

fun run_handler :: "'x cli_services_scheme \<Rightarrow> handler \<Rightarrow> string list \<Rightarrow> cli_state \<Rightarrow> cli_result \<times> cli_state" where
  "run_handler x runLoginCmd args st = (case runLogin (x_configDir x) (x_writable x) (st_world st) args of (r, w) \<Rightarrow> (r, st\<lparr>st_world := w\<rparr>))"
| "run_handler x runBrokerCmd args st = (runBroker args, st)"
| "run_handler x runRelayCmd args st = (runRelay args, st)"
| "run_handler x runCompletion args st = (GenerateCompletion args, st)"
| "run_handler x runVersionCmd args st = (Printed [''GoTunnel v1.0.0'', ''Enterprise-grade tunneling platform''], st)"
| "run_handler x runHelpCmd args st = (runHelp (pm_root (st_plugins st)) args, st)"
| "run_handler x runConfigCmd args st = (runConfig x (st_world st) args, st)"
| "run_handler x runConfigValidate args st = (run_config_validate x (st_world st) args, st)"
| "run_handler x runConfigInit args st = (Printed [''Creating default configuration file...''], st)"
| "run_handler x runConfigShow args st = (runConfig x (st_world st) (''show'' # args), st)"
| "run_handler x runTunnelCmd args st = (runTunnel x (st_world st) args, st)"
| "run_handler x runTunnelStartCmd args st = (runTunnelStart x (st_world st) args, st)"
| "run_handler x runTunnelStop args st = (Printed [''Stopping tunnel...''], st)"
| "run_handler x runTunnelList args st = (Printed [''Listing tunnels...''], st)"
| "run_handler x runTunnelInspect args st = (Printed [''Inspecting tunnel traffic...''], st)"
| "run_handler x runTunnelShareCmd args st = (runTunnelShare x args, st)"
| "run_handler x runCertCmd args st = (group_command ''cert'' (v_Cert package_init) args, st)"
| "run_handler x runCertList args st = (Printed [''Listing certificates...''], st)"
| "run_handler x runCertRenew args st = (Printed [''Renewing certificate...''], st)"
| "run_handler x runCertRevoke args st = (Printed [''Revoking certificate...''], st)"
| "run_handler x runCertInfo args st = (Printed [''Showing certificate info...''], st)"
| "run_handler x runDNSCmd args st = (group_command ''dns'' (v_DNS package_init) args, st)"
| "run_handler x runDNSProviders args st = (Printed [''Listing DNS providers...''], st)"
| "run_handler x runDNSRecords args st = (Printed [''Listing DNS records...''], st)"
| "run_handler x runDNSTest args st = (Printed [''Testing DNS propagation...''], st)"
| "run_handler x runSessionCmd args st = (group_command ''session'' (v_Session package_init) args, st)"
| "run_handler x runSessionList args st = (Printed [''Listing sessions...''], st)"
| "run_handler x runSessionJoin args st = (Printed [''Joining session...''], st)"
| "run_handler x runSessionAnnotate args st = (Printed [''Adding annotation...''], st)"
| "run_handler x runSessionReplay args st = (Printed [''Replaying request...''], st)"
| "run_handler x runSecurityCmd args st = (group_command ''security'' (v_Security package_init) args, st)"
| "run_handler x runSecurityPolicies args st = (Printed [''Listing security policies...''], st)"
| "run_handler x runSecurityNetwork args st = (Printed [''Showing network security...''], st)"
| "run_handler x runSecurityTLS args st = (Printed [''Showing TLS configuration...''], st)"
| "run_handler x runSecurityRateLimit args st = (Printed [''Showing rate limit status...''], st)"
| "run_handler x runSecurityAudit args st = (Printed [''Showing audit log...''], st)"
| "run_handler x runPluginCmd args st = (group_command ''plugin'' (v_Plugin package_init) args, st)"
| "run_handler x runPluginList args st = (Printed (map cp_Name (ListPlugins (st_plugins st) (x_order x))), st)"
| "run_handler x runPluginLoad args st = with_plugins ''plugin load'' (\<lambda>pm. LoadPlugin pm (x_library x)) args st"
| "run_handler x runPluginUnload args st = with_plugins ''plugin unload'' UnregisterPlugin args st"
| "run_handler x runProfileCmd args st = (group_command ''profile'' (v_Profile package_init) args, st)"
| "run_handler x runProfileList args st = (let st1 = loaded_profiles x st in (Printed (map pf_Name (ListProfiles (st_profiles st1) (x_order x))), st1))"
| "run_handler x runProfileShow args st = run_profile_show x args st"
| "run_handler x runProfileCreate args st = run_profile_create x args st"
| "run_handler x runProfileDelete args st = run_profile_delete x args st"
| "run_handler x runProfileApply args st = run_profile_apply x args st"
| "run_handler x runCICDCmd args st = (group_command ''cicd'' (v_CICD package_init) args, st)"
| "run_handler x runCICDDetect args st = (run_cicd_detect (w_env (st_world st)), st)"
| "run_handler x runCICDGenerate args st = (run_cicd_generate args, st)"
| "run_handler x runCICDSecrets args st = (Printed (if args = [] then [''Usage: gotunnel cicd secrets <get|set|list> [options]''] else [''vault'', ''aws-secrets-manager'', ''env'']), st)"
| "run_handler x runContainerCmd args st = (group_command ''container'' (v_Container package_init) args, st)"
| "run_handler x runContainerGenerate args st = (run_container_generate args, st)"
| "run_handler x (Plugin_Handler p) args st = (if x_plugin x p args then Printed [p] else Cli_Failed (Plugin_Command_Failed p), st)"

subsection \<open>Execute\<close>

definition run_command :: "'x cli_services_scheme \<Rightarrow> string \<Rightarrow> string list \<Rightarrow> cli_state \<Rightarrow> cli_result \<times> cli_state" where
  "run_command x name args st =
     (case fmlookup (pm_root (st_plugins st)) name of
        None \<Rightarrow> (Cli_Failed (Unknown_Command name), st)
      | Some None \<Rightarrow> (Cli_Crashed Nil_Dereference, st)
      | Some (Some cmd) \<Rightarrow> (case cmd_Run cmd of None \<Rightarrow> (printCommandHelp (Some cmd), st) | Some h \<Rightarrow> run_handler x h args st))"

definition cli_Execute :: "'x cli_services_scheme \<Rightarrow> string list \<Rightarrow> cli_state \<Rightarrow> cli_result \<times> cli_state" where
  "cli_Execute x args st =
     (case ParseGlobalOptions no_options args of
        (opts, rest) \<Rightarrow>
          let st1 = st\<lparr>st_world := ApplyGlobalOptions opts (st_world st)\<rparr>
          in case rest of
               [] \<Rightarrow> (Printed [''usage''], st1)
             | name # cmd_args \<Rightarrow>
                 if name = ''--help'' \<or> name = ''-h'' then (Printed [''usage''], st1)
                 else if name = ''version'' \<or> name = ''--version'' then run_handler x runVersionCmd cmd_args st1
                 else if name = ''completion'' then run_handler x runCompletion cmd_args st1
                 else if name = ''man'' then (Printed (''man page'' # take 1 cmd_args), st1)
                 else run_command x name cmd_args st1)"

text \<open>The state in which the program starts.\<close>

definition initial_cli :: "cli_world \<Rightarrow> string \<Rightarrow> cli_state" where
  "initial_cli w homeDir = \<lparr>st_world = w, st_plugins = NewPluginManager (root_Subcommands package_init), st_profiles = NewProfileManager homeDir\<rparr>"

subsection \<open>Searching the table\<close>

text \<open>Three functions that search the table. A search by name or alias ends at the first entry that is nil.\<close>

fun FindCommand :: "(string, command option) fmap \<Rightarrow> string list \<Rightarrow> string \<Rightarrow> go_panic + command option" where
  "FindCommand table [] name = Inr None"
| "FindCommand table (k # ks) name =
     (case fmlookup table k of
        None \<Rightarrow> FindCommand table ks name
      | Some None \<Rightarrow> Inl Nil_Dereference
      | Some (Some cmd) \<Rightarrow> if cmd_Name cmd = name \<or> name \<in> set (cmd_Aliases cmd) then Inr (Some cmd) else FindCommand table ks name)"

definition ListCommands :: "(string, command option) fmap \<Rightarrow> string list \<Rightarrow> string list" where
  "ListCommands table ks = filter (\<lambda>k. k |\<in>| fmdom table) ks"

definition SuggestCommand :: "(string, command option) fmap \<Rightarrow> string list \<Rightarrow> string \<Rightarrow> string" where
  "SuggestCommand table ks input =
     (case find (\<lambda>cmd. HasPrefix cmd input \<or> Contains cmd input) (ListCommands table ks) of Some cmd \<Rightarrow> cmd | None \<Rightarrow> [])"

end
