(* ===== verification/Cli_Proofs.thy ===== *)
theory Cli_Proofs
  imports Cli_Execute "HOL-Library.Sublist"
begin

section \<open>What the command line does\<close>

text \<open>
  Properties of the command line: which commands can be reached at all, what becomes of the option \<open>--token\<close>, how saved tokens and profiles are
  found again, what unloading a plugin leaves behind, and when helpers panic.
\<close>

subsection \<open>Which commands can be reached\<close>

definition nil_commands :: "string set" where
  "nil_commands = {''config'', ''tunnel'', ''cert'', ''dns'', ''session'', ''security''}"

definition group_commands :: "string set" where
  "group_commands = {''plugin'', ''profile'', ''cicd'', ''container''}"

lemmas init_defs = init_cicd_def init_container_def init_plugin_def init_profile_def init_root_def init_config_def init_tunnel_def
  init_cert_def init_dns_def init_session_def init_security_def zero_vars_def

lemma package_init_root:
  "root_Subcommands package_init = fmap_of_list
     [(''login'', Some LoginCommand), (''broker'', Some BrokerCommand), (''relay'', Some RelayCommand), (''config'', None),
      (''tunnel'', None), (''cert'', None), (''dns'', None), (''session'', None), (''security'', None),
      (''completion'', Some CompletionCommand), (''version'', Some VersionCommand), (''help'', Some HelpCommand), (''plugin'', v_Plugin package_init),
      (''profile'', v_Profile package_init), (''cicd'', v_CICD package_init), (''container'', v_Container package_init)]"
  by (simp add: package_init_def init_defs)

lemma package_init_vars:
  "\<exists>c. v_Plugin package_init = Some c \<and> cmd_Run c = Some runPluginCmd" "\<exists>c. v_Profile package_init = Some c \<and> cmd_Run c = Some runProfileCmd"
  "\<exists>c. v_CICD package_init = Some c \<and> cmd_Run c = Some runCICDCmd" "\<exists>c. v_Container package_init = Some c \<and> cmd_Run c = Some runContainerCmd"
  by (simp_all add: package_init_def init_defs)

lemma root_lookup:
  "fmlookup (root_Subcommands package_init) name =
     (if name \<in> nil_commands then Some None
      else if name = ''login'' then Some (Some LoginCommand) else if name = ''broker'' then Some (Some BrokerCommand)
      else if name = ''relay'' then Some (Some RelayCommand) else if name = ''completion'' then Some (Some CompletionCommand)
      else if name = ''version'' then Some (Some VersionCommand) else if name = ''help'' then Some (Some HelpCommand)
      else if name = ''plugin'' then Some (v_Plugin package_init) else if name = ''profile'' then Some (v_Profile package_init)
      else if name = ''cicd'' then Some (v_CICD package_init) else if name = ''container'' then Some (v_Container package_init)
      else None)"
  unfolding package_init_root fmlookup_of_list by (simp add: nil_commands_def)

lemma initial_table [simp]: "pm_root (st_plugins (initial_cli w home)) = root_Subcommands package_init"
  by (simp add: initial_cli_def NewPluginManager_def)

lemma run_nil_command: "name \<in> nil_commands \<Longrightarrow> pm_root (st_plugins st) = root_Subcommands package_init \<Longrightarrow> run_command x name args st = (Cli_Crashed Nil_Dereference, st)"
  by (simp add: run_command_def root_lookup)

lemma group_command_vars:
  assumes "name \<in> group_commands"
  shows "\<exists>c h. fmlookup (root_Subcommands package_init) name = Some (Some c) \<and> cmd_Run c = Some h
    \<and> (\<forall>(x :: 'x cli_services_scheme) args st. run_handler x h args st = (group_command name (Some c) args, st))"
proof -
  consider "name = ''plugin''" | "name = ''profile''" | "name = ''cicd''" | "name = ''container''" using assms by (auto simp: group_commands_def)
  then show ?thesis
    using package_init_vars by cases (auto simp: root_lookup nil_commands_def)
qed

lemma run_group_command:
  assumes "name \<in> group_commands" "pm_root (st_plugins st) = root_Subcommands package_init"
  shows "\<exists>c. run_command x name args st = (group_command name (Some c) args, st)"
proof -
  from group_command_vars [OF assms(1)] obtain c h where "fmlookup (root_Subcommands package_init) name = Some (Some c)" "cmd_Run c = Some h"
    "\<And>args st. run_handler x h args st = (group_command name (Some c) args, st)" by meson
  then show ?thesis using assms(2) by (intro exI [of _ c]) (simp add: run_command_def)
qed

lemma group_command_result: "group_command name (Some c) args \<in> {Printed (cmd_Name c # map fst (cmd_Subcommands c))} \<union> (Cli_Failed ` (Unknown_Subcommand name ` set args))"
  by (cases args) (simp_all add: group_command_def printCommandHelp_def)

text \<open>Outcomes other than a tunnel, a session or a configuration, none of which can be reached.\<close>

fun harmless :: "cli_result \<Rightarrow> bool" where
  "harmless (Tunnel_Active _ _) = False"
| "harmless (Session_Shared _) = False"
| "harmless (Config_Printed _) = False"
| "harmless (Config_Warnings _) = False"
| "harmless (Cli_Crashed _) = False"
| "harmless _ = True"

lemma runLogin_harmless: "harmless (fst (runLogin dir writable w args))"
  by (auto simp: runLogin_def split: sum.split option.split)

lemma servers_harmless: "harmless (runBroker args)" "harmless (runRelay args)"
  by (auto simp: runBroker_def runRelay_def split: sum.split)

lemma GenerateCompletion_harmless: "harmless (GenerateCompletion args)"
  by (auto simp: GenerateCompletion_def split: list.split)

lemma group_command_harmless: "harmless (group_command name (Some c) args)"
  by (cases args) (simp_all add: group_command_def printCommandHelp_def)

lemma printCommandHelp_harmless: "harmless (printCommandHelp (Some c))"
  by (simp add: printCommandHelp_def)

lemma runHelp_outcome:
  "if args \<noteq> [] \<and> hd args \<in> nil_commands then runHelp (root_Subcommands package_init) args = Cli_Crashed Nil_Dereference
   else harmless (runHelp (root_Subcommands package_init) args)"
proof (cases args)
  case (Cons a r)
  show ?thesis
  proof (cases "a \<in> nil_commands")
    case True
    then show ?thesis using Cons by (simp add: runHelp_def root_lookup printCommandHelp_def)
  next
    case False
    have "v = None \<or> (\<exists>c. v = Some (Some c))" if "v = fmlookup (root_Subcommands package_init) a" for v
      using that False package_init_vars by (auto simp: root_lookup split: if_splits)
    then show ?thesis using Cons False printCommandHelp_harmless by (fastforce simp: runHelp_def)
  qed
qed (simp add: runHelp_def)

lemma run_command_outcome:
  assumes "pm_root (st_plugins st) = root_Subcommands package_init" "name \<notin> nil_commands" "\<not> (name = ''help'' \<and> args \<noteq> [] \<and> hd args \<in> nil_commands)"
  shows "harmless (fst (run_command x name args st))"
proof (cases "name \<in> group_commands")
  case True
  from run_group_command [OF this assms(1)] obtain c where "run_command x name args st = (group_command name (Some c) args, st)" by blast
  then show ?thesis by (simp add: group_command_harmless)
next
  case False
  let ?c = "fmlookup (root_Subcommands package_init) name"
  have v: "?c = None \<or> ?c = Some (Some LoginCommand) \<or> ?c = Some (Some BrokerCommand) \<or> ?c = Some (Some RelayCommand) \<or> ?c = Some (Some CompletionCommand)
      \<or> ?c = Some (Some VersionCommand) \<or> (name = ''help'' \<and> ?c = Some (Some HelpCommand))"
    using assms(2) False by (auto simp: root_lookup group_commands_def)
  have h: "harmless (runHelp (root_Subcommands package_init) args)" if "name = ''help''" using runHelp_outcome [of args] assms(3) that by auto
  note defs = LoginCommand_def BrokerCommand_def RelayCommand_def CompletionCommand_def VersionCommand_def HelpCommand_def
  from v consider (none) "?c = None" | (login) "?c = Some (Some LoginCommand)" | (broker) "?c = Some (Some BrokerCommand)" | (relay) "?c = Some (Some RelayCommand)"
    | (completion) "?c = Some (Some CompletionCommand)" | (version) "?c = Some (Some VersionCommand)" | (usage) "name = ''help''" "?c = Some (Some HelpCommand)"
    by argo
  then show ?thesis
  proof cases
    case login
    then show ?thesis using assms(1) runLogin_harmless by (auto simp: run_command_def defs split: prod.split) (metis fst_conv)
  qed (use assms(1) h in \<open>simp_all add: run_command_def defs servers_harmless GenerateCompletion_harmless\<close>)
qed

text \<open>
  C37: The commands that manage anything cannot be reached. The table of commands is filled before the commands \<open>config\<close>, \<open>tunnel\<close>, \<open>cert\<close>,
  \<open>dns\<close>, \<open>session\<close> and \<open>security\<close> exist, so each of them, and \<open>help\<close> for them, is a nil dereference whatever follows; nothing else crashes.
  The commands \<open>plugin\<close>, \<open>profile\<close>, \<open>cicd\<close> and \<open>container\<close> refuse each of their subcommands as unknown, since nobody looks at the
  subcommands. So whatever the arguments, the options and the services, no tunnel is started, no session shared, and no configuration
  checked or shown.
\<close>

theorem no_tunnel_from_command_line:
  assumes rest: "ParseGlobalOptions no_options args = (opts, rest)" and r: "r = fst (cli_Execute x args (initial_cli w home))"
  shows "(r = Cli_Crashed Nil_Dereference \<longleftrightarrow> rest \<noteq> [] \<and> (hd rest \<in> nil_commands \<or> hd rest = ''help'' \<and> tl rest \<noteq> [] \<and> hd (tl rest) \<in> nil_commands))
    \<and> (r \<noteq> Cli_Crashed Nil_Dereference \<longrightarrow> harmless r)
    \<and> (\<forall>name sub more_args. rest = name # sub # more_args \<and> name \<in> group_commands \<longrightarrow> r = Cli_Failed (Unknown_Subcommand name sub))"
proof -
  let ?st = "(initial_cli w home)\<lparr>st_world := ApplyGlobalOptions opts w\<rparr>"
  have w: "st_world (initial_cli w home) = w" by (simp add: initial_cli_def)
  have t: "pm_root (st_plugins ?st) = root_Subcommands package_init" by simp
  show ?thesis
  proof (cases rest)
    case Nil
    then show ?thesis using rest r by (simp add: cli_Execute_def)
  next
    case (Cons name as)
    let ?early = "name \<in> {''--help'', ''-h'', ''version'', ''--version'', ''completion'', ''man''}"
    have early: "harmless r \<and> name \<notin> nil_commands \<and> name \<noteq> ''help'' \<and> name \<notin> group_commands" if ?early
      using that rest r Cons GenerateCompletion_harmless by (auto simp: cli_Execute_def nil_commands_def group_commands_def)
    have late: "r = fst (run_command x name as ?st)" if "\<not> ?early" using that rest r Cons w by (simp add: cli_Execute_def)
    have crash: "r = Cli_Crashed Nil_Dereference" if "\<not> ?early" "name \<in> nil_commands \<or> name = ''help'' \<and> as \<noteq> [] \<and> hd as \<in> nil_commands"
    proof (cases "name \<in> nil_commands")
      case True
      then show ?thesis using late [OF that(1)] run_nil_command [OF True t, where x = x and args = as] by simp
    next
      case False
      then have "name = ''help''" "runHelp (root_Subcommands package_init) as = Cli_Crashed Nil_Dereference" using that(2) runHelp_outcome [of as] by auto
      then show ?thesis using late [OF that(1)] by (simp add: run_command_def root_lookup nil_commands_def HelpCommand_def)
    qed
    have calm: "harmless r" if "\<not> ?early" "name \<notin> nil_commands" "\<not> (name = ''help'' \<and> as \<noteq> [] \<and> hd as \<in> nil_commands)"
      using late [OF that(1)] run_command_outcome [OF t that(2,3), where x = x] by simp
    have no: "\<not> harmless (Cli_Crashed Nil_Dereference)" by simp
    have group: "r = Cli_Failed (Unknown_Subcommand name sub)" if "name \<in> group_commands" "as = sub # more_args" for sub more_args
    proof -
      have e: "\<not> ?early" using that(1) by (auto simp: group_commands_def)
      note g = that(1)
      obtain c where "run_command x name as ?st = (group_command name (Some c) as, ?st)"
        by (rule exE [OF run_group_command [OF g t, where x = x and args = as]])
      then show ?thesis using late [OF e] that(2) by (simp add: group_command_def)
    qed
    define bad where "bad \<longleftrightarrow> name \<in> nil_commands \<or> name = ''help'' \<and> as \<noteq> [] \<and> hd as \<in> nil_commands"
    have "(r = Cli_Crashed Nil_Dereference \<longleftrightarrow> bad) \<and> (r \<noteq> Cli_Crashed Nil_Dereference \<longrightarrow> harmless r)"
    proof (cases ?early)
      case True
      then have "harmless r" "\<not> bad" using early [OF True] unfolding bad_def by argo+
      then show ?thesis by auto
    next
      case False
      show ?thesis
      proof (cases bad)
        case True
        then show ?thesis using crash [OF False] unfolding bad_def by argo
      next
        case n: False
        then have "harmless r" using calm [OF False] unfolding bad_def by argo
        then show ?thesis using n by auto
      qed
    qed
    with group Cons show ?thesis unfolding bad_def by auto
  qed
qed

definition demo_services :: cli_services where
  "demo_services = \<lparr>x_yaml = (\<lambda>_. None), x_configDir = Some ''/home/u'', x_writable = (\<lambda>_. True), x_broker = (\<lambda>_ _. Not_Reached ''down''),
     x_relay = (\<lambda>_ _. Not_Reached ''down''), x_quic = (\<lambda>_. (False, False, False)), x_share = (\<lambda>_ _. Not_Reached ''down''), x_plugin = (\<lambda>_ _. True),
     x_library = (\<lambda>_. Cannot_Open), x_listing = (\<lambda>_. Not_There), x_marshal = (\<lambda>_. None), x_unmarshal = (\<lambda>_. None), x_document = (\<lambda>_. None), x_order = []\<rparr>"

definition demo_world :: cli_world where
  "demo_world = \<lparr>w_env = (\<lambda>_. []), w_level = LevelInfo, w_jsonMode = False, w_files = (\<lambda>_. None)\<rparr>"

lemma demo_options:
  "ParseGlobalOptions no_options [''--token'', ''t'', ''tunnel'', ''start''] = (no_options\<lparr>go_Token := ''t''\<rparr>, [''tunnel'', ''start''])"
  "ParseGlobalOptions no_options [''profile'', ''list''] = (no_options, [''profile'', ''list''])"
  by (simp_all add: value_option_def assigned_option_def switch_option_def HasPrefix_def)

theorem no_tunnel_from_command_line_witness:
  "fst (cli_Execute demo_services [''--token'', ''t'', ''tunnel'', ''start''] (initial_cli demo_world ''/home/u'')) = Cli_Crashed Nil_Dereference
   \<and> fst (cli_Execute demo_services [''profile'', ''list''] (initial_cli demo_world ''/home/u'')) = Cli_Failed (Unknown_Subcommand ''profile'' ''list'')"
  using no_tunnel_from_command_line [OF demo_options(1) refl, of demo_services demo_world "''/home/u''"]
    no_tunnel_from_command_line [OF demo_options(2) refl, of demo_services demo_world "''/home/u''"]
  by (simp add: nil_commands_def group_commands_def)

subsection \<open>What becomes of a token\<close>

text \<open>A command of the initial table in one equation.\<close>

lemma run_command_initial:
  assumes "pm_root (st_plugins st) = root_Subcommands package_init"
  shows "\<exists>c. run_command x name args st =
     (if name \<in> nil_commands then (Cli_Crashed Nil_Dereference, st)
      else if name \<in> group_commands then (group_command name (Some c) args, st)
      else if name = ''login'' then run_handler x runLoginCmd args st
      else if name = ''broker'' then (runBroker args, st)
      else if name = ''relay'' then (runRelay args, st)
      else if name = ''completion'' then (GenerateCompletion args, st)
      else if name = ''version'' then run_handler x runVersionCmd args st
      else if name = ''help'' then (runHelp (root_Subcommands package_init) args, st)
      else (Cli_Failed (Unknown_Command name), st))"
proof (cases "name \<in> group_commands")
  case True
  obtain c where "run_command x name args st = (group_command name (Some c) args, st)" by (rule exE [OF run_group_command [OF True assms, where x = x and args = args]])
  moreover have "name \<notin> nil_commands" using True by (auto simp: group_commands_def nil_commands_def)
  ultimately show ?thesis using True by auto
next
  case False
  then have "name \<notin> {''plugin'', ''profile'', ''cicd'', ''container''}" by (simp add: group_commands_def)
  then show ?thesis using assms False
    by (simp add: run_command_def root_lookup LoginCommand_def BrokerCommand_def RelayCommand_def CompletionCommand_def VersionCommand_def HelpCommand_def)
qed

definition free_arg :: "string \<Rightarrow> bool" where
  "free_arg a \<longleftrightarrow> value_option a = None \<and> assigned_option a = None \<and> switch_option a = None"

lemma ParseGlobalOptions_rest:
  "ParseGlobalOptions opts args = (opts', rest) \<Longrightarrow> subseq rest args \<and> list_all free_arg rest"
proof (induction opts args arbitrary: opts' rest rule: ParseGlobalOptions.induct)
  case (2 opts arg args)
  show ?case
  proof (cases "free_arg arg")
    case True
    then show ?thesis using 2 by (auto simp: free_arg_def split: prod.splits)
  next
    case False
    then consider (v) f where "value_option arg = Some f" | (a) f where "value_option arg = None" "assigned_option arg = Some f"
      | (s) f where "value_option arg = None" "assigned_option arg = None" "switch_option arg = Some f" unfolding free_arg_def by fastforce
    then show ?thesis
    proof cases
      case v
      show ?thesis
      proof (cases args)
        case (Cons y ys)
        then have "subseq rest ys \<and> list_all free_arg rest" using 2(4) [OF v Cons] 2(5) v by simp
        then show ?thesis using Cons by auto
      qed (use 2(5) v in simp)
    next
      case a
      then have "subseq rest args \<and> list_all free_arg rest" using 2(3) [OF a] 2(5) by simp
      then show ?thesis by auto
    next
      case s
      then have "subseq rest args \<and> list_all free_arg rest" using 2(2) [OF s] 2(5) by simp
      then show ?thesis by auto
    qed
  qed
qed simp

lemma flag_parts_name: "name \<noteq> [] \<Longrightarrow> flag_parts name = (n, g) \<Longrightarrow> name = n \<or> HasPrefix name (n @ ''='')"
proof -
  assume a: "name \<noteq> []" "flag_parts name = (n, g)"
  let ?t = "takeWhile (\<lambda>c. c \<noteq> CHR ''='') (tl name)" and ?d = "dropWhile (\<lambda>c. c \<noteq> CHR ''='') (tl name)"
  show ?thesis
  proof (cases "?t = tl name")
    case True
    then show ?thesis using a by (simp add: flag_parts_def)
  next
    case False
    then have "?d \<noteq> []" by (simp add: takeWhile_eq_all_conv)
    then obtain v where "?d = CHR ''='' # v" using hd_dropWhile [of "\<lambda>c. c \<noteq> CHR ''=''" "tl name"] by (cases ?d) auto
    then have "tl name = ?t @ CHR ''='' # v" using takeWhile_dropWhile_id [of "\<lambda>c. c \<noteq> CHR ''=''" "tl name"] by simp
    moreover have "name = hd name # tl name" using a(1) by simp
    ultimately have "name = hd name # ?t @ CHR ''='' # v" by simp
    moreover have "n = hd name # ?t" using a False by (auto simp: flag_parts_def Let_def split: if_splits)
    ultimately have e: "name = (n @ ''='') @ v" by simp
    show ?thesis unfolding e by (rule disjI2) (rule HasPrefix_append)
  qed
qed

text \<open>The arguments that package \<open>flag\<close> can take for a flag.\<close>

definition names_flag :: "string \<Rightarrow> string \<Rightarrow> bool" where
  "names_flag n a \<longleftrightarrow> (\<exists>dash \<in> {''-'', ''--''}. a = dash @ n \<or> HasPrefix a (dash @ n @ ''=''))"

lemma flag_arg_names:
  assumes "\<not> (length a < 2 \<or> hd a \<noteq> CHR ''-'')" "flag_name a \<noteq> []" "flag_parts (flag_name a) = (n, g)"
  shows "names_flag n a"
proof -
  obtain r where r: "a = ''-'' @ r" using assms(1) by (cases a) auto
  have f: "flag_name a = n \<or> HasPrefix (flag_name a) (n @ ''='')" by (rule flag_parts_name [OF assms(2,3)])
  have "a = ''-'' @ flag_name a \<or> a = ''--'' @ flag_name a"
  proof (cases "take 2 a = ''--''")
    case True
    then show ?thesis using append_take_drop_id [of 2 a] by (simp add: flag_name_def)
  qed (use r in \<open>simp add: flag_name_def\<close>)
  then show ?thesis using f unfolding names_flag_def HasPrefix_iff by (metis append.assoc insertCI)
qed

lemma parse_flags_keeps:
  "parse_flags fs args = Inr (fs', r) \<Longrightarrow> list_all (\<lambda>a. \<not> names_flag n a) args \<Longrightarrow> fs' n = fs n"
proof (induction args arbitrary: fs rule: length_induct)
  case (1 as)
  have IH: "fs' n = fs1 n" if "length ys < length as" "parse_flags fs1 ys = Inr (fs', r)" "list_all (\<lambda>a. \<not> names_flag n a) ys" for ys fs1
    using 1(1) that by blast
  show ?case
  proof (cases as)
    case (Cons arg args)
    note P = 1(2) [unfolded Cons] and N = 1(3) [unfolded Cons]
    show ?thesis
    proof (cases "length arg < 2 \<or> hd arg \<noteq> CHR ''-'' \<or> arg = ''--''")
      case True
      then show ?thesis using P by (auto split: if_splits)
    next
      case False
      then have g: "\<not> (length arg < 2 \<or> hd arg \<noteq> CHR ''-'')" "arg \<noteq> ''--''" by auto
      obtain k given where k: "flag_parts (flag_name arg) = (k, given)" by (cases "flag_parts (flag_name arg)")
      have m: "\<not> (flag_name arg = [] \<or> hd (flag_name arg) = CHR ''-'' \<or> hd (flag_name arg) = CHR ''='')" using P g by (auto simp: Let_def split: if_splits)
      then have "names_flag k arg" using flag_arg_names [OF g(1) _ k] by blast
      then have kn: "k \<noteq> n" using N by auto
      obtain old where old: "fs k = Some old" using P g m k by (auto simp: Let_def split: option.splits)
      have w: "fs1 n = fs n" if "with_flag fs k old v = Inr fs1" for fs1 v using that kn by (auto simp: with_flag_def split: option.splits)
      consider (given) v fs1 where "with_flag fs k old v = Inr fs1" "parse_flags fs1 args = Inr (fs', r)"
        | (switch) "parse_flags (fs(k \<mapsto> Flag_Bool True)) args = Inr (fs', r)"
        | (taken) v rest fs1 where "args = v # rest" "with_flag fs k old v = Inr fs1" "parse_flags fs1 rest = Inr (fs', r)"
        using P g m k old by (auto simp: Let_def split: option.splits flag_value.splits list.splits sum.splits)
      then show ?thesis
      proof cases
        case given
        then show ?thesis using IH [of args fs1] w N Cons by simp
      next
        case switch
        then show ?thesis using IH [of args "fs(k \<mapsto> Flag_Bool True)"] kn N Cons by simp
      next
        case taken
        then show ?thesis using IH [of rest fs1] w N Cons by simp
      qed
    qed
  qed (use 1(2) in simp)
qed

lemma free_arg_token: "free_arg a \<Longrightarrow> a \<noteq> ''--token'' \<and> \<not> HasPrefix a ''--token=''"
proof -
  assume f: "free_arg a"
  have "assigned_option a \<noteq> None" if "HasPrefix a ''--token=''" using that by (simp add: assigned_option_def)
  moreover have "value_option ''--token'' \<noteq> None" by (simp add: value_option_def)
  ultimately show ?thesis using f by (auto simp: free_arg_def)
qed

definition single_dash_token :: "string \<Rightarrow> bool" where
  "single_dash_token a \<longleftrightarrow> a = ''-token'' \<or> HasPrefix a ''-token=''"

lemma names_token: "names_flag ''token'' a \<Longrightarrow> free_arg a \<Longrightarrow> single_dash_token a"
  using free_arg_token [of a] by (auto simp: names_flag_def single_dash_token_def)

lemma parse_flags_token:
  assumes "parse_flags fs args = Inr (fs', r)" "list_all free_arg args" "list_all (\<lambda>a. \<not> single_dash_token a) args"
  shows "fs' ''token'' = fs ''token''"
proof (rule parse_flags_keeps [OF assms(1)])
  show "list_all (\<lambda>a. \<not> names_flag ''token'' a) args" using assms(2,3) names_token by (auto simp: list_all_iff)
qed

lemma TrimSpace_dev_token: "TrimSpace ''dev-token'' = ''dev-token''"
  by (rule TrimSpace_visible) (simp_all add: visible_def)

lemma runBroker_token:
  assumes "runBroker args = Serving_Broker fs" "list_all free_arg args" "list_all (\<lambda>a. \<not> single_dash_token a) args"
  shows "string_flag fs ''token'' = ''dev-token''"
proof -
  obtain r where "parse_flags broker_flags args = Inr (fs, r)" using assms(1) by (auto simp: runBroker_def split: sum.splits)
  from parse_flags_token [OF this assms(2,3)] show ?thesis by (simp add: string_flag_def broker_flags_def)
qed

lemma runLogin_token:
  assumes "list_all free_arg args" "list_all (\<lambda>a. \<not> single_dash_token a) args"
  shows "\<exists>e. runLogin dir writable w args = (Cli_Failed e, w)"
proof (cases "parse_flags login_flags args")
  case (Inr p)
  obtain fs r where p: "p = (fs, r)" by fastforce
  have "fs ''token'' = login_flags ''token''" by (rule parse_flags_token [OF Inr [unfolded p] assms])
  then have "string_flag fs ''token'' = []" by (simp add: string_flag_def login_flags_def)
  then show ?thesis using Inr p by (simp add: runLogin_def)
qed (simp add: runLogin_def)

lemma ApplyGlobalOptions_files: "w_files (ApplyGlobalOptions opts w) = w_files w"
  by (simp add: ApplyGlobalOptions_def Let_def split: option.split)

lemma subseq_list_all: "subseq xs ys \<Longrightarrow> list_all P ys \<Longrightarrow> list_all P xs"
  by (auto simp: list_all_iff dest: list_emb_set)

lemma no_broker:
  "group_command name var as \<noteq> Serving_Broker fs" "runRelay as \<noteq> Serving_Broker fs" "runHelp table as \<noteq> Serving_Broker fs" "GenerateCompletion as \<noteq> Serving_Broker fs"
  by (auto simp: group_command_def printCommandHelp_def runRelay_def runHelp_def GenerateCompletion_def split: list.split sum.split option.split)

text \<open>
  C38: A token given with \<open>--token\<close> reaches no command. The options before the command are searched for in the whole command line, so
  \<open>--token\<close> is taken away wherever it stands. Unless the flag is spelled with a single dash, which only package \<open>flag\<close> understands,
  \<open>login\<close> therefore never saves a token, and a broker always runs with the token \<open>dev-token\<close>, whatever token it was
  started with. What is left for the command is a part of the arguments in their order.
\<close>

theorem token_option_reaches_no_command:
  assumes "list_all (\<lambda>a. \<not> single_dash_token a) args" "cli_Execute x args (initial_cli w home) = (r, st')" "ParseGlobalOptions no_options args = (opts, rest)"
  shows "subseq rest args \<and> w_files (st_world st') = w_files w
    \<and> (r = Serving_Broker fs \<longrightarrow> validToken (broker_of fs env reg s clk) = ''dev-token'')
    \<and> (rest \<noteq> [] \<and> hd rest = ''login'' \<longrightarrow> (\<exists>e. r = Cli_Failed e))"
proof (cases rest)
  case Nil
  then show ?thesis using assms(2,3) by (auto simp: cli_Execute_def initial_cli_def ApplyGlobalOptions_files)
next
  case (Cons name as)
  let ?st = "(initial_cli w home)\<lparr>st_world := ApplyGlobalOptions opts w\<rparr>"
  have f: "subseq rest args" "list_all free_arg rest" using ParseGlobalOptions_rest [OF assms(3)] by auto
  then have a: "list_all free_arg as" "list_all (\<lambda>a. \<not> single_dash_token a) as" using subseq_list_all [OF f(1) assms(1)] Cons by simp_all
  have files: "w_files (st_world ?st) = w_files w" by (simp add: ApplyGlobalOptions_files)
  have w: "st_world (initial_cli w home) = w" by (simp add: initial_cli_def)
  obtain c where c: "run_command x name as ?st =
     (if name \<in> nil_commands then (Cli_Crashed Nil_Dereference, ?st)
      else if name \<in> group_commands then (group_command name (Some c) as, ?st)
      else if name = ''login'' then run_handler x runLoginCmd as ?st
      else if name = ''broker'' then (runBroker as, ?st)
      else if name = ''relay'' then (runRelay as, ?st)
      else if name = ''completion'' then (GenerateCompletion as, ?st)
      else if name = ''version'' then run_handler x runVersionCmd as ?st
      else if name = ''help'' then (runHelp (root_Subcommands package_init) as, ?st)
      else (Cli_Failed (Unknown_Command name), ?st))"
    by (rule exE [OF run_command_initial [where st = ?st and x = x and name = name and args = as]]) simp_all
  obtain e where login: "run_handler x runLoginCmd as ?st = (Cli_Failed e, ?st)"
    using runLogin_token [OF a, of "x_configDir x" "x_writable x" "st_world ?st"] by auto
  define other_names where "other_names = {''--help'', ''-h'', ''version'', ''--version'', ''completion'', ''man''}"
  consider (early) "name \<in> other_names" | (login) "name = ''login''" | (broker) "name = ''broker''"
    | (other) "name \<notin> other_names" "name \<noteq> ''login''" "name \<noteq> ''broker''" by argo
  then show ?thesis
  proof cases
    case early
    then show ?thesis using assms(2,3) Cons files f(1) w by (auto simp: other_names_def cli_Execute_def GenerateCompletion_def split: list.splits if_splits)
  next
    case l: login
    then have "cli_Execute x args (initial_cli w home) = (Cli_Failed e, ?st)"
      using assms(3) Cons w c login by (simp add: cli_Execute_def nil_commands_def group_commands_def)
    then show ?thesis using assms(2) files f(1) by auto
  next
    case broker
    then have b: "cli_Execute x args (initial_cli w home) = (runBroker as, ?st)"
      using assms(3) Cons w c by (simp add: cli_Execute_def nil_commands_def group_commands_def)
    have "validToken (broker_of fs env reg s clk) = ''dev-token''" if "r = Serving_Broker fs"
      using runBroker_token [OF _ a, of fs] that b assms(2) by (simp add: broker_of_def New_def Let_def TrimSpace_dev_token)
    then show ?thesis using b assms(2) files f(1) Cons broker by auto
  next
    case other
    then have "cli_Execute x args (initial_cli w home) = run_command x name as ?st" using assms(3) Cons w by (simp add: other_names_def cli_Execute_def)
    then have "run_command x name as ?st = (r, st')" using assms(2) by simp
    moreover have "snd (run_command x name as ?st) = ?st" "fst (run_command x name as ?st) \<noteq> Serving_Broker fs"
      unfolding c using other by (simp_all add: no_broker)
    ultimately show ?thesis using files f(1) Cons other by auto
  qed
qed

lemma demo_broker_options: "ParseGlobalOptions no_options [''broker'', ''--token'', ''secret''] = (no_options\<lparr>go_Token := ''secret''\<rparr>, [''broker''])"
  by (simp add: value_option_def assigned_option_def switch_option_def HasPrefix_def)

theorem token_option_reaches_no_command_witness:
  "\<exists>fs st'. cli_Execute demo_services [''broker'', ''--token'', ''secret''] (initial_cli demo_world ''/home/u'') = (Serving_Broker fs, st')
     \<and> validToken (broker_of fs [] (NewRegistry None None) () (\<lambda>_. 0)) = ''dev-token''"
proof -
  have c: "cli_Execute demo_services [''broker'', ''--token'', ''secret''] (initial_cli demo_world ''/home/u'')
      = (Serving_Broker broker_flags, (initial_cli demo_world ''/home/u'')\<lparr>st_world := ApplyGlobalOptions (no_options\<lparr>go_Token := ''secret''\<rparr>) demo_world\<rparr>)"
    unfolding cli_Execute_def demo_broker_options
    by (simp add: run_command_def root_lookup nil_commands_def BrokerCommand_def runBroker_def) (simp add: initial_cli_def)
  have "list_all (\<lambda>a. \<not> single_dash_token a) [''broker'', ''--token'', ''secret'']" by (simp add: single_dash_token_def HasPrefix_def)
  from token_option_reaches_no_command [OF this c demo_broker_options, of broker_flags "[]" "NewRegistry None None" "()" "\<lambda>_. 0"]
  have "validToken (broker_of broker_flags [] (NewRegistry None None) () (\<lambda>_. 0)) = ''dev-token''" by blast
  with c show ?thesis by blast
qed

subsection \<open>Saved tokens\<close>

lemma TrimLeftSpace_fixed: "find (HasPrefix (TrimLeftSpace s)) utf8_spaces = None"
proof (induction s rule: TrimLeftSpace.induct)
  case (1 s)
  then show ?case by (cases "find (HasPrefix s) utf8_spaces") (simp_all add: TrimLeftSpace.simps [of s])
qed

lemma TrimRightSpace_fixed: "find (HasSuffix (TrimRightSpace s)) utf8_spaces = None"
proof (induction s rule: TrimRightSpace.induct)
  case (1 s)
  then show ?case by (cases "find (HasSuffix s) utf8_spaces") (simp_all add: TrimRightSpace.simps [of s])
qed

lemma TrimRightSpace_prefix: "HasPrefix s (TrimRightSpace s)"
proof (induction s rule: TrimRightSpace.induct)
  case (1 s)
  show ?case
  proof (cases "find (HasSuffix s) utf8_spaces")
    case None
    then show ?thesis by (simp add: TrimRightSpace.simps [of s] HasPrefix_def)
  next
    case (Some w)
    then have "HasPrefix (take (length s - length w) s) (TrimRightSpace s)" using 1 [OF Some] by (simp add: TrimRightSpace.simps [of s])
    then obtain t where "take (length s - length w) s = TrimRightSpace s @ t" by (auto simp: HasPrefix_iff)
    then have "s = TrimRightSpace s @ t @ drop (length s - length w) s" using append_take_drop_id [of "length s - length w" s] by simp
    then show ?thesis unfolding HasPrefix_iff by blast
  qed
qed

lemma TrimSpace_idem [simp]: "TrimSpace (TrimSpace s) = TrimSpace s"
proof -
  let ?r = "TrimRightSpace (TrimLeftSpace s)"
  obtain t where t: "TrimLeftSpace s = ?r @ t" using TrimRightSpace_prefix [of "TrimLeftSpace s"] by (auto simp: HasPrefix_iff)
  have "\<not> HasPrefix ?r w" if "w \<in> set utf8_spaces" for w
  proof
    assume "HasPrefix ?r w"
    then obtain u where "?r = w @ u" by (auto simp: HasPrefix_iff)
    then have "HasPrefix (TrimLeftSpace s) w" using t by (auto simp: HasPrefix_iff)
    then show False using TrimLeftSpace_fixed [of s] that by (auto simp: find_None_iff)
  qed
  then have "find (HasPrefix ?r) utf8_spaces = None" by (simp add: find_None_iff)
  then have "TrimLeftSpace ?r = ?r" by (simp add: TrimLeftSpace.simps [of ?r])
  moreover have "TrimRightSpace ?r = ?r" using TrimRightSpace_fixed by (simp add: TrimRightSpace.simps [of ?r])
  ultimately show ?thesis by (simp add: TrimSpace_def)
qed

lemma firstNonEmpty_trim: "TrimSpace (firstNonEmpty vs) = firstNonEmpty vs"
  by (induction vs) auto

lemma login_single_dash: "parse_flags login_flags [''-token'', t] = Inr (login_flags(''token'' \<mapsto> Flag_String t), [])"
  by (simp add: flag_name_def flag_parts_def with_flag_def login_flags_def)

lemma runLogin_saves:
  "runLogin (Some d) writable w [''-token'', t] =
     (if TrimSpace t = [] then (Cli_Failed Token_Required, w)
      else if \<not> writable (d @ ''/gotunnel/token'') then (Cli_Failed (File_Failed (d @ ''/gotunnel/token'')), w)
      else (Printed [''Token saved to '' @ d @ ''/gotunnel/token''], w\<lparr>w_files := (w_files w)(d @ ''/gotunnel/token'' \<mapsto> TrimSpace t)\<rparr>))"
  unfolding runLogin_def login_single_dash by (simp add: string_flag_def tokenPath_def)



subsection \<open>Profiles\<close>

lemma split_at_last: "c \<notin> set ext \<Longrightarrow> \<exists>ps q. split_at c (n @ ext) = ps @ [q @ ext]"
proof (induction n)
  case Nil
  have "split_at c ext = [ext]" using Nil by (induction ext) auto
  then have "split_at c ([] @ ext) = [] @ [[] @ ext]" by simp
  then show ?case by blast
next
  case (Cons x n)
  then obtain ps q where p: "split_at c (n @ ext) = ps @ [q @ ext]" by blast
  show ?case
  proof (cases ps)
    case Nil
    then have "split_at c ((x # n) @ ext) = (if x = c then [[]] else []) @ [(if x = c then q else x # q) @ ext]" using p by simp
    then show ?thesis by blast
  next
    case (Cons r rs)
    then have "split_at c ((x # n) @ ext) = (if x = c then [] # r # rs else (x # r) # rs) @ [q @ ext]" using p by simp
    then show ?thesis by blast
  qed
qed

lemma join_path_ext:
  assumes "CHR ''/'' \<notin> set ext" "2 < length ext"
  shows "HasSuffix (join_path dir (n @ ext)) ext"
proof -
  obtain ps q where s: "split_at CHR ''/'' (n @ ext) = ps @ [q @ ext]" using split_at_last [OF assms(1)] by blast
  have "q @ ext \<noteq> []" "q @ ext \<noteq> ''.''" "q @ ext \<noteq> ''..''" using assms(2) by (auto dest: arg_cong [of _ _ length])
  then have "foldl join_step [] (split_at CHR ''/'' dir @ split_at CHR ''/'' (n @ ext)) = foldl join_step [] (split_at CHR ''/'' dir @ ps) @ [q @ ext]" (is "?p = ?h @ _")
    by (simp add: s join_step_def)
  then have "join_path dir (n @ ext) = (concat (map (\<lambda>seg. CHR ''/'' # seg) ?h) @ ''/'' @ q) @ ext"
    unfolding join_path_def by (cases ?h) simp_all
  then show ?thesis by (metis HasSuffix_append)
qed

lemma yaml_path_differs: "join_path dir (n @ ''.yaml'') \<noteq> join_path dir' (m @ ''.yml'')"
proof
  assume e: "join_path dir (n @ ''.yaml'') = join_path dir' (m @ ''.yml'')"
  have "HasSuffix (join_path dir (n @ ''.yaml'')) ''.yaml''" "HasSuffix (join_path dir' (m @ ''.yml'')) ''.yml''" by (rule join_path_ext; simp)+
  with e obtain a b where "join_path dir (n @ ''.yaml'') = a @ ''.yaml''" "join_path dir (n @ ''.yaml'') = b @ ''.yml''" by (auto simp: HasSuffix_iff)
  then have "a @ ''.yaml'' = b @ ''.yml''" by simp
  then have "rev (a @ ''.yaml'') = rev (b @ ''.yml'')" by (rule arg_cong)
  then show False by simp
qed

lemma file_ext_yaml: "file_ext (n @ ''.yaml'') = ''.yaml''" "TrimSuffix (n @ ''.yaml'') ''.yaml'' = n"
  by (simp_all add: file_ext_def Let_def TrimSuffix_def nth_append)

lemma LoadProfile_profiles: "LoadProfile unmarshal files (pm\<lparr>profiles := ps\<rparr>) name = LoadProfile unmarshal files pm name"
  by (simp add: LoadProfile_def profile_path_def Let_def)

lemma load_entries_keeps:
  "LoadProfile unmarshal files pm name = Inr p \<Longrightarrow> fmlookup (profiles pm) name = Some p \<Longrightarrow> fmlookup (profiles (load_entries unmarshal files pm es)) name = Some p"
proof (induction es arbitrary: pm)
  case (Cons e es)
  obtain entry is_dir where e: "e = (entry, is_dir)" by fastforce
  show ?case
  proof (cases "is_dir \<or> (file_ext entry \<noteq> ''.yaml'' \<and> file_ext entry \<noteq> ''.yml'')")
    case True
    then show ?thesis using Cons e by (auto simp: Let_def)
  next
    case False
    let ?n = "TrimSuffix entry (file_ext entry)"
    show ?thesis
    proof (cases "LoadProfile unmarshal files pm ?n")
      case (Inl err)
      then show ?thesis using False Cons e by (auto simp: Let_def)
    next
      case (Inr q)
      let ?pm = "pm\<lparr>profiles := fmupd ?n q (profiles pm)\<rparr>"
      have "fmlookup (profiles ?pm) name = Some p" using Cons.prems Inr by auto
      then have "fmlookup (profiles (load_entries unmarshal files ?pm es)) name = Some p" using Cons.IH [of ?pm] Cons.prems(1) by (simp add: LoadProfile_profiles)
      then show ?thesis using False Inr e by (auto simp: Let_def)
    qed
  qed
qed simp

lemma load_entries_finds:
  "LoadProfile unmarshal files pm name = Inr p \<Longrightarrow> (name @ ''.yaml'', False) \<in> set es \<Longrightarrow> fmlookup (profiles (load_entries unmarshal files pm es)) name = Some p"
proof (induction es arbitrary: pm)
  case (Cons e es)
  obtain entry is_dir where e: "e = (entry, is_dir)" by fastforce
  show ?case
  proof (cases "e = (name @ ''.yaml'', False)")
    case True
    then have "load_entries unmarshal files pm (e # es) = load_entries unmarshal files (pm\<lparr>profiles := fmupd name p (profiles pm)\<rparr>) es"
      using Cons.prems(1) by (simp add: file_ext_yaml Let_def del: append.simps)
    then show ?thesis using load_entries_keeps [of unmarshal files "pm\<lparr>profiles := fmupd name p (profiles pm)\<rparr>" name p es] Cons.prems(1) by (simp add: LoadProfile_profiles)
  next
    case False
    then have m: "(name @ ''.yaml'', False) \<in> set es" using Cons.prems(2) by auto
    show ?thesis
      using Cons.IH [OF _ m] Cons.prems(1) e by (auto simp: Let_def LoadProfile_profiles split: sum.split)
  qed
qed simp

text \<open>
  C40: Profiles survive on disk. A profile that has been saved is loaded again as it was, both by name and by reading the directory, in whatever order its entries come
  and whatever other files it has, provided that the YAML package reads back what it wrote. Deleting it removes exactly one file and forgets it; loading it afterwards fails unless there was also a
  file with the ending \<open>.yml\<close>, which then takes its place.
\<close>

theorem profile_roundtrip:
  assumes "SaveProfile marshal writable files pm p = (None, files')" "marshal p = Some data" "unmarshal data = Some p" "name = pf_Name p"
    and "(name @ ''.yaml'', False) \<in> set es"
  shows "LoadProfile unmarshal files' pm name = Inr p
    \<and> GetProfile (snd (LoadProfiles unmarshal files' (Entries es) pm)) name = Inr p
    \<and> (writable (join_path (profilesDir pm) (name @ ''.yaml'')) \<longrightarrow>
         (\<exists>pm'. DeleteProfile writable files' pm name = (None, files(join_path (profilesDir pm) (name @ ''.yaml'') := None), pm')
            \<and> GetProfile pm' name = Inl (Profile_Not_Found name)
            \<and> LoadProfile unmarshal (files(join_path (profilesDir pm) (name @ ''.yaml'') := None)) pm' name =
                (case files (join_path (profilesDir pm) (name @ ''.yml'')) of
                   None \<Rightarrow> Inl (Profile_Not_Read name)
                 | Some other \<Rightarrow> (case unmarshal other of None \<Rightarrow> Inl (Profile_Not_Parsed name) | Some q \<Rightarrow> Inr (q\<lparr>pf_Name := name\<rparr>)))))"
proof -
  let ?path = "join_path (profilesDir pm) (name @ ''.yaml'')"
  have f: "files' = files(?path \<mapsto> data)" using assms(1,2,4) by (auto simp: SaveProfile_def Let_def split: if_splits)
  have d: "join_path (profilesDir pm) (name @ ''.yml'') \<noteq> ?path" using yaml_path_differs by metis
  have pp: "profile_path files' pm name = ?path" by (simp add: profile_path_def f)
  have l: "LoadProfile unmarshal files' pm name = Inr p"
  proof -
    have "files' ?path = Some data" by (simp add: f)
    then show ?thesis unfolding LoadProfile_def pp using assms(3,4) by simp
  qed
  have g: "GetProfile (snd (LoadProfiles unmarshal files' (Entries es) pm)) name = Inr p"
    using load_entries_finds [OF l assms(5)] by (simp add: LoadProfiles_def GetProfile_def)
  have del: "DeleteProfile writable files' pm name = (None, files(?path := None), pm\<lparr>profiles := fmdrop name (profiles pm)\<rparr>)" if "writable ?path"
    using that unfolding DeleteProfile_def Let_def pp by (simp add: f)
  have pp': "profile_path (files(?path := None)) (pm\<lparr>profiles := fmdrop name (profiles pm)\<rparr>) name = join_path (profilesDir pm) (name @ ''.yml'')"
    by (simp add: profile_path_def)
  have l': "LoadProfile unmarshal (files(?path := None)) (pm\<lparr>profiles := fmdrop name (profiles pm)\<rparr>) name =
      (case files (join_path (profilesDir pm) (name @ ''.yml'')) of
         None \<Rightarrow> Inl (Profile_Not_Read name)
       | Some other \<Rightarrow> (case unmarshal other of None \<Rightarrow> Inl (Profile_Not_Parsed name) | Some q \<Rightarrow> Inr (q\<lparr>pf_Name := name\<rparr>)))"
    unfolding LoadProfile_def pp' using d by simp
  have "GetProfile (pm\<lparr>profiles := fmdrop name (profiles pm)\<rparr>) name = Inl (Profile_Not_Found name)" by (simp add: GetProfile_def)
  with l g del l' show ?thesis by blast
qed

definition demo_profile :: profile where
  "demo_profile = \<lparr>pf_Name = ''dev'', pf_Description = [], pf_Environment = ''dev'', pf_Config = fmempty, pf_Variables = fmempty\<rparr>"

theorem profile_roundtrip_witness:
  "\<exists>files'. SaveProfile (\<lambda>_. Some ''x'') (\<lambda>_. True) (\<lambda>_. None) (NewProfileManager ''/h'') demo_profile = (None, files')
     \<and> LoadProfile (\<lambda>_. Some demo_profile) files' (NewProfileManager ''/h'') ''dev'' = Inr demo_profile
     \<and> GetProfile (snd (LoadProfiles (\<lambda>_. Some demo_profile) files' (Entries [(''dev.yaml'', False)]) (NewProfileManager ''/h''))) ''dev'' = Inr demo_profile"
proof -
  let ?files = "Map.empty(join_path (profilesDir (NewProfileManager ''/h'')) (pf_Name demo_profile @ ''.yaml'') \<mapsto> ''x'')"
  have s: "SaveProfile (\<lambda>_. Some ''x'') (\<lambda>_. True) (\<lambda>_. None) (NewProfileManager ''/h'') demo_profile = (None, ?files)" by (simp add: SaveProfile_def Let_def)
  have n: "''dev'' = pf_Name demo_profile" "(''dev'' @ ''.yaml'', False) \<in> set [(''dev.yaml'', False)]" by (simp_all add: demo_profile_def)
  have u: "(\<lambda>_. Some demo_profile) ''x'' = Some demo_profile" by simp
  show ?thesis using profile_roundtrip [OF s refl u n] s by blast
qed

subsection \<open>Plugins\<close>

text \<open>
  What unloading a plugin leaves behind. Every command it had brought is gone, but so is a command of the program, or of another plugin, that had the same name,
  so the table is as before exactly if the plugin brought no name twice; and its hooks go on running.
\<close>

theorem unloaded_plugin_leaves_traces:
  assumes "RegisterPlugin pm p = (None, pm1)" "UnregisterPlugin pm1 (cp_Name p) = (e, pm2)"
  shows "e = None \<and> pm_plugins pm2 = pm_plugins pm \<and> pm_root pm2 = fmdrop_fset (fmdom (cp_Commands p)) (pm_root pm)
    \<and> (pm_root pm2 = pm_root pm \<longleftrightarrow> fmdom (cp_Commands p) |\<inter>| fmdom (pm_root pm) = {||})
    \<and> pm_hooks pm2 h = pm_hooks pm h @ (case fmlookup (cp_Hooks p) h of Some hs \<Rightarrow> hs | None \<Rightarrow> [])"
proof -
  have new: "fmlookup (pm_plugins pm) (cp_Name p) = None" using assms(1) by (auto simp: RegisterPlugin_def split: if_splits)
  have pm1: "pm1 = pm\<lparr>pm_plugins := fmupd (cp_Name p) p (pm_plugins pm), pm_root := pm_root pm ++\<^sub>f cp_Commands p,
      pm_hooks := (\<lambda>h. pm_hooks pm h @ (case fmlookup (cp_Hooks p) h of Some hs \<Rightarrow> hs | None \<Rightarrow> []))\<rparr>"
    using assms(1) new by (simp add: RegisterPlugin_def)
  have pm2: "e = None" "pm2 = pm1\<lparr>pm_root := fmdrop_fset (fmdom (cp_Commands p)) (pm_root pm1), pm_plugins := fmdrop (cp_Name p) (pm_plugins pm1)\<rparr>"
    using assms(2) by (auto simp: UnregisterPlugin_def pm1)
  have plugins: "fmdrop (cp_Name p) (fmupd (cp_Name p) p (pm_plugins pm)) = pm_plugins pm" using new by (intro fmap_ext) auto
  have table: "fmdrop_fset (fmdom (cp_Commands p)) (pm_root pm ++\<^sub>f cp_Commands p) = fmdrop_fset (fmdom (cp_Commands p)) (pm_root pm)"
    by (intro fmap_ext) (auto simp: fmlookup_drop_fset)
  have "fmdrop_fset (fmdom (cp_Commands p)) (pm_root pm) = pm_root pm \<longleftrightarrow> fmdom (cp_Commands p) |\<inter>| fmdom (pm_root pm) = {||}" (is "?l \<longleftrightarrow> ?r")
  proof
    assume ?l
    then have "fmdom (pm_root pm) = fmdom (pm_root pm) |-| fmdom (cp_Commands p)" by (metis fmdom_drop_fset)
    then show ?r by blast
  next
    assume ?r
    then have "fmlookup (pm_root pm) k = None" if "k |\<in>| fmdom (cp_Commands p)" for k using that by (metis disjoint_iff_fnot_equal fmdom_notD)
    then show ?l by (intro fmap_ext) (auto simp: fmlookup_drop_fset)
  qed
  then show ?thesis using pm2 plugins table by (simp add: pm1)
qed

subsection \<open>Sharing a tunnel\<close>

text \<open>What the relay's answer is to its caller: without a word from the handler, an empty page with status 200.\<close>

fun answer_of :: "'a reply list \<Rightarrow> 'a server_answer" where
  "answer_of [] = Answered 200 [] None"
| "answer_of (Failed n t # _) = Answered (int n) t None"
| "answer_of (Answer n v # _) = Answered (int n) [] (Some v)"
| "answer_of (Status n # _) = Answered (int n) [] None"
| "answer_of (Redirected n t # _) = Answered (int n) t None"
| "answer_of (Aborted # _) = Not_Reached ''connection closed''"

text \<open>
  The command \<open>tunnel share\<close> sends no credentials, and the relay creates sessions only for callers who may manage them: it answers
  with status 200 and nothing else, so the command always fails.
\<close>

theorem sharing_always_fails:
  assumes "x_share x = (\<lambda>url req. answer_of (fst (handleSessions_post marshal s r (Some req) now clk ks1 ks2)))" "sessionTokenFromRequest r = []"
  shows "runTunnelShare x args = Cli_Failed (Share_Refused 200) \<or> runTunnelShare x args = Cli_Failed Share_Target_Required
    \<or> (\<exists>e. runTunnelShare x args = Cli_Failed (Flags_Refused e))"
proof -
  have "fst (handleSessions_post marshal s r (Some req) now clk ks1 ks2) = []" for req
    using assms(2) by (simp add: handleSessions_post_def with_permission_def authorizePermission_def)
  then have "x_share x url req = Answered 200 [] None" for url req using assms(1) by simp
  then show ?thesis by (auto simp: runTunnelShare_def split: sum.split)
qed

subsection \<open>Helpers that panic\<close>

datatype spin = Spin_Start | Spin_Stop | Spin_Turn | Spin_Message string

fun spin_exec :: "go_panic + spinner \<Rightarrow> spin \<Rightarrow> go_panic + spinner" where
  "spin_exec (Inl p) _ = Inl p"
| "spin_exec (Inr s) Spin_Start = Inr (snd (spinner_Start s))"
| "spin_exec (Inr s) Spin_Stop = spinner_Stop s"
| "spin_exec (Inr s) Spin_Turn = Inr (snd (spinner_turn s))"
| "spin_exec (Inr s) (Spin_Message m) = Inr (SetMessage s m)"

lemma spin_exec_panic: "foldl spin_exec (Inl p) ops = Inl p"
  by (induction ops) auto

text \<open>How many of the four steps to the panic a state is from it.\<close>

definition spin_left :: "spinner \<Rightarrow> spin list" where
  "spin_left s =
     (if \<not> sp_closed s then (if \<not> sp_running s then [Spin_Start] else []) @ [Spin_Stop, Spin_Start, Spin_Stop]
      else (if \<not> sp_running s then [Spin_Start] else []) @ [Spin_Stop])"

lemma spin_panics_iff: "foldl spin_exec (Inr s) ops = Inl Close_Of_Closed_Channel \<longleftrightarrow> subseq (spin_left s) ops"
proof (induction ops arbitrary: s)
  case Nil
  show ?case by (simp add: spin_left_def)
next
  case (Cons op ops)
  show ?case
    by (cases op; cases "sp_closed s"; cases "sp_running s")
      (simp_all add: Cons.IH spin_exec_panic spin_left_def spinner_Start_def spinner_Stop_def spinner_turn_def SetMessage_def)
qed

text \<open>
  A spinner panics exactly when it is started, stopped, started again and stopped again, whatever happens in between: its
  channel is closed by the first stop and never renewed.
\<close>

theorem spinner_panics_on_second_use:
  "foldl spin_exec (Inr (NewSpinner message)) ops = Inl Close_Of_Closed_Channel \<longleftrightarrow> subseq [Spin_Start, Spin_Stop, Spin_Start, Spin_Stop] ops"
  using spin_panics_iff [of "NewSpinner message" ops] by (simp add: spin_left_def NewSpinner_def)

text \<open>An empty document passes the check of the command line without a warning, although loading it is refused.\<close>

lemma empty_document_passes: "ValidateConfig (Some data) (\<lambda>_. Some []) getenv = Inr []"
  by (simp add: ValidateConfig_def check_version_def check_auth_def check_relay_def check_tunnels_def)

text \<open>
  A progress bar whose value is not negative never panics: between none and all of its cells are full, and their number is the width. Rounding does not
  carry it over the edge for any width below \<open>2\<^sup>5\<^sup>0\<close>.
\<close>

theorem progress_bar_fits:
  assumes "0 \<le> pb_current p" "0 \<le> pb_width p" "pb_width p < 2 ^ 50" "0 < pb_total p"
  shows "\<exists>full. render p = Drawn full (pb_width p - full) \<and> 0 \<le> full \<and> full \<le> pb_width p"
proof -
  let ?w = "of_int (pb_width p) :: rat" and ?q = "percent_done p"
  have q: "0 \<le> ?q" "?q \<le> 1" using assms(1,4) by (auto simp: percent_done_def Let_def intro!: float64_nonneg divide_nonneg_nonneg)
  have w: "0 \<le> float64 ?w" "float64 ?w \<le> ?w * (1 + eps)" using float64_nonneg float64_le assms(2) by auto
  let ?x = "?q * float64 ?w"
  have x: "0 \<le> ?x" "?x \<le> float64 ?w" using q w(1) by (auto simp: mult_left_le_one_le)
  have "float64 ?x \<le> ?x * (1 + eps)" by (rule float64_le [OF x(1)])
  also have "\<dots> \<le> (?w * (1 + eps)) * (1 + eps)" using x(2) w(2) by (intro mult_right_mono) (auto simp: eps_def)
  also have "\<dots> = ?w + ?w * (2 * eps + eps * eps)" by (simp add: algebra_simps)
  also have "\<dots> < ?w + 1"
  proof -
    have "?w < 2 ^ 50" using assms(3) by (metis of_int_less_iff of_int_numeral of_int_power)
    then have "?w * (2 * eps + eps * eps) \<le> 2 ^ 50 * (2 * eps + eps * eps)" by (intro mult_right_mono) (auto simp: eps_def)
    also have "\<dots> < 1" by (simp add: eps_def)
    finally show ?thesis by simp
  qed
  finally have u: "float64 ?x < of_int (pb_width p + 1)" by simp
  have l: "0 \<le> float64 ?x" by (rule float64_nonneg [OF x(1)])
  let ?f = "\<lfloor>float64 ?x\<rfloor>"
  have f: "0 \<le> ?f" "?f \<le> pb_width p" using l u by (simp_all add: floor_less_iff [symmetric] zless_add1_eq le_floor_iff floor_le_iff)
  have small: "- (2 ^ 63) \<le> n \<and> n < 2 ^ 63 \<and> - (2 ^ 63) \<le> m - n \<and> m - n < 2 ^ 63" if "0 \<le> n" "n \<le> m" "m < 2 ^ 50" for n m :: int using that by simp
  have range: "- (2 ^ 63) \<le> ?f \<and> ?f < 2 ^ 63" using small [OF f assms(3)] by blast
  have "\<not> float64 ?x < 0" using l by simp
  then have "float_to_int (float64 ?x) = ?f" unfolding float_to_int_def Let_def by (simp only: if_False if_P [OF range])
  moreover have "wrap64 (pb_width p - ?f) = pb_width p - ?f" using small [OF f assms(3)] by (intro wrap64_id) blast+
  ultimately show ?thesis using f assms(4) by (simp add: render_def Let_def)
qed

end
