(* ===== verification/Spec2Isabelle.thy ===== *)
theory Spec2Isabelle
  imports Delivery Portless_Daemon Security_Policy Hardening Auth_Proofs Relay_Debug_Proofs Certificate_Proofs Client_Proofs Peer_Transport Cli_Proofs
begin

text \<open>
  A verification library for portless and GoTunnel, written in Go.

  \<^bold>\<open>The program.\<close> The repository holds two programs. \<^emph>\<open>portless\<close> (\<open>internal/\<close>) runs local services under
  names instead of ports: a daemon reserves a port per service, starts the service as a child
  process, routes the service's domain to the port through a reverse proxy, and answers DNS queries
  for the domains. \<^emph>\<open>GoTunnel\<close> (\<open>GoTunnel/internal/\<close>) exposes local servers through a relay: a client
  and a relay exchange streams over one multiplexed connection, a broker assigns sessions to relays,
  brokers replicate their state among each other, users authenticate, policies decide about connections and requests, and a package of
  operational helpers (health checks, circuit breaker, retries, rate limiter) keeps them running.

  \<^bold>\<open>The theories\<close>, and what they model.

  \<^item> \<open>Prelude\<close>: times and durations, run-time panics, big-endian integers, the parts of package
    \<open>strings\<close> that are used, and two contracts shared by components: \<open>op_system\<close> (operations that keep
    an invariant) and \<open>bounded_log\<close>.

  \<^item> \<open>RingBuffer\<close>: \<open>multiplexer/ringbuffer.go\<close>. The circular buffer refines a bounded queue that drops its
    oldest bytes (locale \<open>lossy_buffer\<close>).

  \<^item> \<open>Framing\<close>, \<open>Multiplexer\<close>, \<open>Delivery\<close>: \<open>multiplexer/multiplexer.go\<close>. Frames on the wire, the connection with its
    streams, handlers for every kind of frame, the read loop, writing with flow control and
    retransmission. Shown are: reading undoes writing, in-order delivery without duplicates over a
    network that reorders and repeats, which frames crash a handler, what the read loop does at the
    end of a connection, how streams are numbered, and how windows open and stall. The read loop runs
    with fuel; the number of bytes left plus two is enough, since every frame consumes a byte.

  \<^item> \<open>Portless_Core\<close>, \<open>Portless_Daemon\<close>: \<open>router\<close>, \<open>portman\<close>, \<open>process\<close>, \<open>daemon\<close>, \<open>config\<close>, \<open>proxy\<close>, \<open>dns\<close> and \<open>cli/start.go\<close>
    of portless. Ports and routes never clash in any reachable state, adding a service happens
    completely or not at all, removing and shutting down reach every child.

  \<^item> \<open>State_Store\<close>, \<open>Replication\<close>, \<open>Replication_Proofs\<close>: \<open>state/store.go\<close>, \<open>store_file.go\<close> and \<open>replication.go\<close>. Both
    stores keep one contract (locales \<open>state_store\<close>, \<open>reliable_store\<close>); the file survives failing file
    system calls; followers that synchronise agree with the leader; elections choose the smallest
    active node; two behaviours that lose a leader or writes are proved as they are.

  \<^item> \<open>Token_Bucket\<close>: the two rate limiters (\<open>security/policy.go\<close>, \<open>ops/hardening.go\<close>) with the 64 bit floating
    point arithmetic of their refill. The bound on the requests let through allows for its rounding
    by a factor of \<open>1 + 2\<^sup>-\<^sup>5\<^sup>0\<close>.

  \<^item> \<open>Net_Addr\<close>, \<open>Security_Policy\<close>: parsing of addresses and ranges of package \<open>net\<close>, and \<open>security/policy.go\<close>.
    Network, TLS and rule policies decide as specified, and the audit log keeps the newest events.

  \<^item> \<open>Hardening\<close>: \<open>ops/hardening.go\<close>. The circuit breaker refines its contract for calls that follow one
    another; under interleavings some of it is kept and some is not. Retries end, health is the worst
    of the parts.

  \<^item> \<open>Crypto\<close>, \<open>Auth_Store\<close>, \<open>Auth\<close>, \<open>Auth_Proofs\<close>: digests and text encodings of the standard library, and
    \<open>auth/*.go\<close>. Accounts stay consistent (locale \<open>user_directory\<close>), sessions, second factors and signed
    tokens work exactly as specified.

  \<^item> \<open>Domains\<close>, \<open>Requirements\<close>: \<open>domains/providers.go\<close> with the zone search of \<open>dns/providers.go\<close>,
    \<open>nfr/validator.go\<close> and the counters of \<open>metrics/metrics.go\<close>. The zone found for a domain is the longest one
    that contains it; the status of a requirement is that of its last metric.

  \<^item> \<open>Broker\<close>, \<open>Broker_Proofs\<close>: \<open>broker/server.go\<close> over \<open>protocol/types.go\<close>. Sessions are granted as specified and go
    to the least loaded live relay (\<open>sort.Slice\<close> through the locale \<open>weak_order\<close>); relays can register without
    a credential, and a follower broker does not find the leases replicated to it.

  \<^item> \<open>Relay_State\<close>, \<open>Relay_Access\<close>, \<open>Relay_Debug\<close>, \<open>Relay_Server\<close>, \<open>Relay_Streams\<close>: \<open>relay/*.go\<close> and \<open>plugins/plugins.go\<close> over
    \<open>protocol/*.go\<close>: the relay's data, events and webhooks; logins and permissions; debugging, collaboration and
    replays; clients, visitors' requests and the dashboard; TCP, UDP and QUIC. A visitor's request is a sequence of
    steps between which other handlers run. Clients and channels are numbered cells; goroutines are tasks.

  \<^item> \<open>Relay_Proofs\<close>, \<open>Relay_Requests\<close>, \<open>Relay_Debug_Proofs\<close>: who may use the protected handlers (locale \<open>guarded\<close>) and how
    the development login defeats it; a step relation over all handlers, in whose reachable states answers
    reach only the visitors they name, and what happens when identifiers collide; the queues of clients as bounded
    first-in first-out queues (locale \<open>bounded_fifo\<close>); breakpoints against a declarative reading; the invariant of
    collaboration sessions; event streams and the panic of a sender; messages that get lost.

  \<^item> \<open>Dns_Providers\<close>: \<open>dns/*.go\<close>. Records in memory, the clients of Cloudflare and DigitalOcean over an abstract service,
    and the registry. While Cloudflare behaves as documented, a challenge adds one record and its cleanup
    removes exactly the challenge records of the domain.

  \<^item> \<open>Cert_Store\<close>, \<open>Certificates\<close>, \<open>Certificate_Proofs\<close>: \<open>acme/*.go\<close>. The store on a disk whose calls may fail, issuing in
    the stages of the code with the answers of the authority as an argument, revocation, renewal and starting. Every outcome of
    issuing is characterised, an issued certificate is found again after a restart, and one failed
    renewal is the last one.

  \<^item> \<open>Tunnel_Config\<close>: \<open>config/config.go\<close>. Loading, environment values, validation and defaults; a loaded configuration
    is well formed, and validating it again changes nothing.

  \<^item> \<open>Client\<close>, \<open>Client_Proofs\<close>: \<open>client/*.go\<close>. Opening sessions at the broker, registering with the relay, and serving HTTP, TCP and
    UDP by polling or over QUIC. The handlers of the broker and the relay are composed with the client: a started
    tunnel is leased and routed to this client, a visitor gets the answer of the local server whichever way the request
    travels, and bytes reach local connections in order.

  \<^item> \<open>Peer_Transport\<close>: \<open>state/http_transport.go\<close>. The calls of brokers to each other; synchronising over HTTP has the effect of reading
    the leader directly.

  \<^item> \<open>Command_Line\<close>, \<open>Cli_Managers\<close>, \<open>Cli_Execute\<close>, \<open>Cli_Proofs\<close>: \<open>cli/*.go\<close> of GoTunnel. Global options, package \<open>flag\<close>, the initialisation of the
    table of commands step by step, dispatch and every command; plugins, profiles, saved tokens, the check of a configuration, errors, logging and
    progress bars. Shown are: which commands can be reached at all and which dereference nil, that a token given with
    \<open>--token\<close> reaches no command, in which order tokens are tried, that profiles survive on disk, what an unloaded plugin leaves
    behind, that sharing a tunnel always fails at the relay, and when a spinner panics.

  \<^bold>\<open>How the models follow the code.\<close> Structures are records with the code's fields, a method is a function
  from the receiver's state to its result and the new state, and a critical section is one step
  where interleaving matters. A Go map that is iterated is a finite map, and the order of iteration
  is an argument, so results hold for every order. Clock readings, random bytes, answers of the
  operating system and of packages outside the repository (bcrypt, YAML, DNS, the connection itself)
  are arguments; where a theorem relies on documented behaviour of theirs it is a hypothesis with a
  concrete instance in the witness. Errors are data types, run-time panics values of \<open>go_panic\<close>.
  Integers are words or integers with \<open>wrap64\<close> where they can overflow.

  \<^bold>\<open>Not modelled.\<close> Texts that are only printed (help, manual pages, completion scripts, templates of configurations); the Cobra commands of
  portless, which print and call its client; the options for the HTTP, TLS and QUIC packages; telemetry; the SQL store of the broker; the autocert
  package and the self-signed certificate; goroutine scheduling inside a component beyond the interleavings stated;
  metrics output and the HTTP and TLS libraries.
\<close>

end
